(* ===== verification/Prelude.thy ===== *)
theory Prelude
  imports Complex_Main "HOL-Library.Finite_Map" "HOL-Library.List_Lexorder" "HOL-Library.Char_ord"
    "HOL-Library.Product_Lexorder"
begin

text \<open>
  What the component theories share and that is not specific to the SDK: the collections of
  rewrite rules, the first index of a list element satisfying a predicate (Go's
  \<open>slices.IndexFunc\<close>), the last elements of a slice, right-biased map copies (Go's
  \<open>maps.Copy\<close>) and optional maps (a Go map that may be nil).
\<close>

named_theorems go_consts \<open>definitions of the string constants of the Go sources\<close>
named_theorems go_simps \<open>unfolding rules of the small helpers of the Go sources\<close>

section \<open>First index with a property\<close>

text \<open>\<open>slices.IndexFunc\<close>: \<open>None\<close> is the result -1.\<close>

fun index_func :: "('a \<Rightarrow> bool) \<Rightarrow> 'a list \<Rightarrow> nat option" where
  "index_func p [] = None"
| "index_func p (x # xs) = (if p x then Some 0 else map_option Suc (index_func p xs))"

lemma index_func_None: "index_func p xs = None \<longleftrightarrow> (\<forall>x \<in> set xs. \<not> p x)"
  by (induction xs) auto

lemma index_func_Some:
  "index_func p xs = Some i \<Longrightarrow> i < length xs \<and> p (xs ! i) \<and> (\<forall>j < i. \<not> p (xs ! j))"
proof (induction xs arbitrary: i)
  case (Cons x xs)
  then show ?case
    by (cases i) (auto split: if_splits simp: nth_Cons split: nat.splits)
qed simp

lemma index_func_append:
  "index_func p (xs @ ys) =
     (case index_func p xs of Some i \<Rightarrow> Some i
      | None \<Rightarrow> map_option (\<lambda>j. length xs + j) (index_func p ys))"
proof (induction xs)
  case Nil
  then show ?case by (cases "index_func p ys") simp_all
next
  case (Cons x xs)
  then show ?case
    by (cases "index_func p xs"; cases "index_func p ys") simp_all
qed

lemma index_func_unique:
  assumes "distinct (map f xs)" "i < length xs" "f (xs ! i) = k"
  shows "index_func (\<lambda>x. f x = k) xs = Some i"
  using assms
proof (induction xs arbitrary: i)
  case (Cons x xs)
  show ?case
  proof (cases i)
    case 0
    with Cons.prems show ?thesis by simp
  next
    case (Suc j)
    with Cons.prems have "f x \<noteq> k" by (force simp: in_set_conv_nth)
    with Cons.IH[of j] Cons.prems Suc show ?thesis by simp
  qed
qed simp

section \<open>The last elements of a slice\<close>

text \<open>\<open>xs[len(xs)-n:]\<close>, taken only where \<open>n \<le> len(xs)\<close> in the sources.\<close>

definition last_n :: "nat \<Rightarrow> 'a list \<Rightarrow> 'a list" where
  "last_n n xs = drop (length xs - n) xs"

lemma length_last_n [simp]: "length (last_n n xs) = min n (length xs)"
  by (simp add: last_n_def)

lemma last_n_suffix: "\<exists>ys. xs = ys @ last_n n xs"
  unfolding last_n_def by (metis append_take_drop_id)

section \<open>Maps that may be nil\<close>

text \<open>
  A Go map of type \<open>map[string]V\<close>: \<open>None\<close> is the nil map, \<open>Some m\<close> a non-nil
  one. Reading a nil map gives no key.
\<close>

type_synonym 'v gomap = "(string, 'v) fmap option"

definition gm_lookup :: "'v gomap \<Rightarrow> string \<Rightarrow> 'v option" where
  "gm_lookup m k = (case m of None \<Rightarrow> None | Some f \<Rightarrow> fmlookup f k)"

definition gm_fmap :: "'v gomap \<Rightarrow> (string, 'v) fmap" where
  "gm_fmap m = (case m of None \<Rightarrow> fmempty | Some f \<Rightarrow> f)"

definition gm_keys :: "'v gomap \<Rightarrow> string fset" where
  "gm_keys m = fmdom (gm_fmap m)"

definition gm_len :: "'v gomap \<Rightarrow> nat" where
  "gm_len m = fcard (gm_keys m)"

lemma gm_lookup_simps [simp]:
  "gm_lookup None k = None"
  "gm_lookup (Some f) k = fmlookup f k"
  by (simp_all add: gm_lookup_def)

lemma gm_fmap_simps [simp]:
  "gm_fmap None = fmempty"
  "gm_fmap (Some f) = f"
  by (simp_all add: gm_fmap_def)

lemma fmlookup_gm_fmap [simp]: "fmlookup (gm_fmap m) k = gm_lookup m k"
  by (cases m) simp_all

lemma gm_keys_iff: "k |\<in>| gm_keys m \<longleftrightarrow> gm_lookup m k \<noteq> None"
  by (cases m) (auto simp: gm_keys_def fmlookup_dom_iff)

text \<open>\<open>maps.Copy(dst, src)\<close>: the entries of the source win.\<close>

definition maps_copy :: "(string, 'v) fmap \<Rightarrow> (string, 'v) fmap \<Rightarrow> (string, 'v) fmap" where
  "maps_copy dst src = fmadd dst src"

lemma fmlookup_maps_copy [simp]:
  "fmlookup (maps_copy dst src) k =
     (case fmlookup src k of Some v \<Rightarrow> Some v | None \<Rightarrow> fmlookup dst k)"
  by (auto simp: maps_copy_def fmlookup_dom_iff split: option.splits)


section \<open>Binary search\<close>

text \<open>
  \<open>sort.Search(n, f)\<close> is \<open>sort_search f 0 n\<close>: the loop keeps \<open>f (i - 1) = False\<close>
  and \<open>f j = True\<close>.
\<close>

function sort_search :: "(nat \<Rightarrow> bool) \<Rightarrow> nat \<Rightarrow> nat \<Rightarrow> nat" where
  "sort_search f i j =
     (if i < j then (let h = (i + j) div 2 in if f h then sort_search f i h else sort_search f (h + 1) j)
      else i)"
  by pat_completeness auto
termination by (relation "measure (\<lambda>(f, i, j). j - i)") auto

declare sort_search.simps [simp del]

lemma sort_search_correct:
  assumes "i \<le> j" "\<And>a b. a \<le> b \<Longrightarrow> b < j \<Longrightarrow> f a \<Longrightarrow> f b"
    and "\<And>k. k < i \<Longrightarrow> \<not> f k"
  shows "i \<le> sort_search f i j \<and> sort_search f i j \<le> j \<and>
    (\<forall>k < sort_search f i j. \<not> f k) \<and> (\<forall>k. sort_search f i j \<le> k \<longrightarrow> k < j \<longrightarrow> f k)"
  using assms
proof (induction f i j rule: sort_search.induct)
  case (1 f i j)
  let ?h = "(i + j) div 2"
  show ?case
  proof (cases "i < j")
    case lt: True
    then have h: "i \<le> ?h" "?h < j" by auto
    show ?thesis
    proof (cases "f ?h")
      case True
      have eq: "sort_search f i j = sort_search f i ?h"
        using lt True by (subst sort_search.simps) simp
      have IH: "i \<le> sort_search f i ?h \<and> sort_search f i ?h \<le> ?h \<and>
          (\<forall>k < sort_search f i ?h. \<not> f k) \<and> (\<forall>k. sort_search f i ?h \<le> k \<longrightarrow> k < ?h \<longrightarrow> f k)"
      proof (rule 1(1)[OF lt refl True h(1)])
        show "f b" if "a \<le> b" "b < ?h" "f a" for a b
          using 1(4)[of a b] that h by simp
      qed (rule 1(5))
      have above: "f k" if "?h \<le> k" "k < j" for k using 1(4)[OF that True] .
      have "f k" if "sort_search f i ?h \<le> k" "k < j" for k
        using IH above[OF _ that(2)] that(1) by (cases "k < ?h") auto
      with IH h(2) show ?thesis unfolding eq by (meson less_imp_le order_trans)
    next
      case False
      have eq: "sort_search f i j = sort_search f (?h + 1) j"
        using lt False by (subst sort_search.simps) simp
      have low: "\<not> f k" if "k < ?h + 1" for k
        using 1(4)[of k ?h, OF _ h(2)] False that by (metis Suc_eq_plus1 less_Suc_eq_le)
      have "?h + 1 \<le> sort_search f (?h + 1) j \<and> sort_search f (?h + 1) j \<le> j \<and>
          (\<forall>k < sort_search f (?h + 1) j. \<not> f k) \<and>
          (\<forall>k. sort_search f (?h + 1) j \<le> k \<longrightarrow> k < j \<longrightarrow> f k)"
      proof (rule 1(2)[OF lt refl False])
        show "?h + 1 \<le> j" using h by simp
      qed (rule 1(4), assumption+, rule low)
      with h(1) show ?thesis unfolding eq by (meson le_add1 order_trans)
    qed
  next
    case False
    then have "sort_search f i j = i" by (subst sort_search.simps) simp
    with False 1(3,5) show ?thesis by auto
  qed
qed

text \<open>Dropping up to the found index keeps exactly the elements that satisfy the test.\<close>

lemma drop_sort_search:
  assumes "\<And>a b. a \<le> b \<Longrightarrow> b < length xs \<Longrightarrow> p (xs ! a) \<Longrightarrow> p (xs ! b)"
  shows "drop (sort_search (\<lambda>i. p (xs ! i)) 0 (length xs)) xs = filter p xs"
proof -
  let ?n = "sort_search (\<lambda>i. p (xs ! i)) 0 (length xs)"
  have "0 \<le> ?n \<and> ?n \<le> length xs \<and> (\<forall>k < ?n. \<not> p (xs ! k)) \<and> (\<forall>k. ?n \<le> k \<longrightarrow> k < length xs \<longrightarrow> p (xs ! k))"
    by (rule sort_search_correct) (erule assms, assumption+ | simp)+
  then have c: "?n \<le> length xs" "\<forall>k < ?n. \<not> p (xs ! k)"
    "\<forall>k. ?n \<le> k \<longrightarrow> k < length xs \<longrightarrow> p (xs ! k)" by blast+
  have "filter p (take ?n xs) = []"
    using c(1,2) by (auto simp: filter_empty_conv in_set_conv_nth)
  moreover have "filter p (drop ?n xs) = drop ?n xs"
    using c(3) by (auto simp: filter_id_conv in_set_conv_nth)
  ultimately show ?thesis
    by (metis append_Nil append_take_drop_id filter_append)
qed

section \<open>Splitting strings\<close>

text \<open>\<open>strings.Split(s, sep)\<close> for a separator of one character.\<close>

fun split_on :: "char \<Rightarrow> string \<Rightarrow> string list" where
  "split_on c [] = [[]]"
| "split_on c (x # xs) =
     (if x = c then [] # split_on c xs
      else (case split_on c xs of [] \<Rightarrow> [[x]] | y # ys \<Rightarrow> (x # y) # ys))"

lemma split_on_not_Nil [simp]: "split_on c s \<noteq> []"
  by (induction s) (simp_all split: list.splits)

lemma split_on_single: "c \<notin> set s \<Longrightarrow> split_on c s = [s]"
  by (induction s) auto

lemma split_on_append: "c \<notin> set u \<Longrightarrow> split_on c (u @ c # v) = u # split_on c v"
  by (induction u) auto

lemma split_on_length: "length (split_on c s) = Suc (length (filter (\<lambda>x. x = c) s))"
  by (induction s) (auto split: list.splits)

text \<open>\<open>strings.ToLower\<close> on ASCII text, as header names and schemes are.\<close>

definition lower_char :: "char \<Rightarrow> char" where
  "lower_char c =
     (let n = of_char c :: nat in if 65 \<le> n \<and> n \<le> 90 then char_of (n + 32) else c)"

definition to_lower :: "string \<Rightarrow> string" where
  "to_lower s = map lower_char s"

lemma lower_char_idem [simp]: "lower_char (lower_char c) = lower_char c"
  by (simp add: lower_char_def Let_def)

lemma to_lower_idem [simp]: "to_lower (to_lower s) = to_lower s"
  by (simp add: to_lower_def)

section \<open>Lists of results\<close>

lemma those_map_Some [simp]: "those (map Some xs) = Some xs"
  by (induction xs) simp_all

lemma those_Some_iff: "those xs = Some ys \<longleftrightarrow> xs = map Some ys"
proof (induction xs arbitrary: ys)
  case (Cons x xs)
  then show ?case by (cases ys; cases x) auto
qed auto

lemma those_None_iff: "those xs = None \<longleftrightarrow> None \<in> set xs"
  by (induction xs) (auto split: option.splits)

section \<open>Results with an error\<close>

text \<open>
  A call that returns a value and an error, followed by \<open>if err != nil\<close> with a return: the rest
  runs on the value. \<open>conv_list\<close> is such a call in a loop over a slice, \<open>nilable\<close> a function
  that maps the nil pointer to itself.
\<close>

definition on_ok :: "'e + 'a \<Rightarrow> ('a \<Rightarrow> 'e + 'b) \<Rightarrow> 'e + 'b" where
  "on_ok r f = (case r of Inl err \<Rightarrow> Inl err | Inr x \<Rightarrow> f x)"

fun conv_list :: "('a \<Rightarrow> 'e + 'b) \<Rightarrow> 'a list \<Rightarrow> 'e + 'b list" where
  "conv_list f [] = Inr []"
| "conv_list f (x # xs) = on_ok (f x) (\<lambda>y. on_ok (conv_list f xs) (\<lambda>ys. Inr (y # ys)))"

definition nilable :: "('a \<Rightarrow> 'e + 'b) \<Rightarrow> 'a option \<Rightarrow> 'e + 'b option" where
  "nilable f p = (case p of None \<Rightarrow> Inr None | Some x \<Rightarrow> on_ok (f x) (\<lambda>y. Inr (Some y)))"

lemma on_ok_simps [simp]:
  "on_ok (Inl e) f = Inl e"
  "on_ok (Inr x) f = f x"
  by (simp_all add: on_ok_def)

lemma on_ok_Inr_iff: "on_ok r f = Inr y \<longleftrightarrow> (\<exists>x. r = Inr x \<and> f x = Inr y)"
  by (cases r) simp_all

lemma isl_on_ok: "isl (on_ok r f) \<longleftrightarrow> isl r \<or> isl (f (projr r))"
  by (cases r) simp_all

lemma nilable_simps [simp]:
  "nilable f None = Inr None"
  "nilable f (Some x) = on_ok (f x) (\<lambda>y. Inr (Some y))"
  by (simp_all add: nilable_def)

lemma nilable_Inr_iff:
  "nilable f p = Inr q \<longleftrightarrow> rel_option (\<lambda>x y. f x = Inr y) p q"
  by (cases p; cases q) (auto simp: on_ok_Inr_iff)

lemma conv_list_Inr_iff: "conv_list f xs = Inr ys \<longleftrightarrow> list_all2 (\<lambda>x y. f x = Inr y) xs ys"
  by (induction xs arbitrary: ys) (auto simp: on_ok_Inr_iff list_all2_Cons1)

lemma isl_conv_list: "isl (conv_list f xs) = (\<not> list_all (\<lambda>x. \<not> isl (f x)) xs)"
  by (induction xs) (auto simp: isl_on_ok)

text \<open>The result is the value \<open>v\<close> if \<open>ok\<close> holds and an error otherwise.\<close>

definition yields :: "'e + 'a \<Rightarrow> bool \<Rightarrow> 'a \<Rightarrow> bool" where
  "yields r ok v = (if ok then r = Inr v else isl r)"

lemma yields_Inr: "yields (Inr x) True x"
  by (simp add: yields_def)

lemma yields_if: "(\<not> bad \<Longrightarrow> yields r ok v) \<Longrightarrow> yields (if bad then Inl e else r) (\<not> bad \<and> ok) v"
  by (simp add: yields_def)

lemma yields_on_ok:
  "yields r ok x \<Longrightarrow> (ok \<Longrightarrow> yields (f x) ok' y) \<Longrightarrow> yields (on_ok r f) (ok \<and> ok') y"
  by (cases r; cases ok; cases ok') (simp_all add: yields_def)

lemma yields_nilable:
  assumes "rel_option (\<lambda>x y. yields (f y) (ok x) (h x)) p q"
  shows "yields (nilable f q) (pred_option ok p) (map_option h p)"
  using assms by (cases p; cases q) (auto simp: yields_def isl_on_ok split: if_splits)

lemma yields_list:
  assumes "list_all2 (\<lambda>x y. yields (f y) (ok x) (h x)) xs ys"
  shows "yields (conv_list f ys) (list_all ok xs) (map h xs)"
  using assms by (induction rule: list_all2_induct) (auto simp: yields_def isl_on_ok split: if_splits)

lemma yields_cong: "yields r ok v \<Longrightarrow> ok = ok' \<Longrightarrow> v = v' \<Longrightarrow> yields r ok' v'"
  by simp

lemma yields_Inr_iff: "yields r ok v \<Longrightarrow> r = Inr w \<longleftrightarrow> ok \<and> w = v"
  by (auto simp: yields_def split: if_splits)

end
