(* ===== verification/GoErrors.thy ===== *)
theory GoErrors
  imports Prelude
begin

text \<open>
  Go values, errors and contexts: the universe of dynamic values that metadata maps hold, the
  error values of \<open>a2a/errors.go\<close> and of the packages the server stack is built from, the
  \<open>errors.Is\<close> traversal of an error chain, and the \<open>context.Context\<close> values the code
  reads.
\<close>

section \<open>Dynamic values\<close>

text \<open>
  A value of type \<open>any\<close> as found in metadata. Integer and floating point kinds are kept
  apart because two values of different kinds are not deeply equal. \<open>AOther\<close> is a value of a
  type outside the ones the protocol admits, named by its type. Containers are values here; the
  pointer structure that makes cyclic containers possible is modelled in the theory
  \<open>MetaValidator\<close>.
\<close>

datatype int_kind = KInt | KInt8 | KInt16 | KInt32 | KInt64
datatype float_kind = KFloat32 | KFloat64

datatype any =
    ANil
  | ABool bool
  | AInt int_kind int
  | AFloat float_kind rat
  | AString string
  | AArr "any list"
  | AMap "(string, any) fmap"
  | AStrMap "(string, string) fmap"
  | AOther string

type_synonym metadata = "any gomap"

section \<open>Typed error details (errordetails/errordetails.go)\<close>

definition ErrorInfoType :: string where
  [go_consts]: "ErrorInfoType = ''type.googleapis.com/google.rpc.ErrorInfo''"

definition StructType :: string where
  [go_consts]: "StructType = ''type.googleapis.com/google.protobuf.Struct''"

record typed =
  TypeURL :: string
  Value :: metadata

definition NewTyped :: "string \<Rightarrow> metadata \<Rightarrow> typed" where
  "NewTyped t v = \<lparr>TypeURL = t, Value = v\<rparr>"

definition NewErrorInfo :: "string \<Rightarrow> string \<Rightarrow> string gomap \<Rightarrow> typed" where
  "NewErrorInfo reason domain meta =
     (let value = fmupd ''domain'' (AString domain) (fmupd ''reason'' (AString reason) fmempty);
          value' = (if gm_len meta > 0
                    then fmupd ''metadata'' (AStrMap (gm_fmap meta)) value else value)
      in NewTyped ErrorInfoType (Some value'))"

definition NewFromStruct :: "metadata \<Rightarrow> typed" where
  "NewFromStruct details = NewTyped StructType details"

section \<open>Errors\<close>

text \<open>
  The sentinel errors: those of \<open>a2a/errors.go\<close> first, in source order, then those of the
  packages \<open>taskstore\<close>, \<open>eventqueue\<close>, \<open>push\<close>, \<open>workqueue\<close> and
  \<open>taskexec\<close>, and the two errors of the \<open>context\<close> package.
\<close>

datatype sentinel =
    ErrParseError | ErrInvalidRequest | ErrMethodNotFound | ErrInvalidParams | ErrInternalError
  | ErrServerError | ErrTaskNotFound | ErrTaskNotCancelable | ErrPushNotificationNotSupported
  | ErrUnsupportedOperation | ErrUnsupportedContentType | ErrInvalidAgentResponse
  | ErrExtendedCardNotConfigured | ErrExtensionSupportRequired | ErrVersionNotSupported
  | ErrUnauthenticated | ErrUnauthorized
  | ErrTaskAlreadyExists | ErrConcurrentModification
  | ErrQueueClosed | ErrInactivityTimeout | ErrNilEvent
  | ErrPushConfigNotFound
  | ErrMalformedPayload | ErrLeaseAlreadyTaken | ErrConcurrencyLimitExceeded | ErrWorkQueueClosed
  | ErrAgentInactivityTimeout
  | ErrContextCanceled | ErrContextDeadlineExceeded

text \<open>
  An error value is a sentinel, the result of \<open>fmt.Errorf\<close> (its text, with the arguments of
  verbs other than \<open>%w\<close> left out, and the errors it wraps), or a pointer to an
  \<open>a2a.Error\<close> with the fields of that struct. \<open>errors.New\<close> with a message is
  \<open>Errorf\<close> with nothing wrapped.
\<close>

datatype go_error =
    Sentinel sentinel
  | Errorf string "go_error list"
  | A2AError "go_error option" string metadata "typed list"

text \<open>\<open>errors.Is(err, target)\<close> for a sentinel target: depth first through \<open>Unwrap\<close>.\<close>

fun errors_Is :: "go_error \<Rightarrow> sentinel \<Rightarrow> bool" where
  "errors_Is (Sentinel s) t = (s = t)"
| "errors_Is (Errorf m es) t = list_ex (\<lambda>e. errors_Is e t) es"
| "errors_Is (A2AError None m d ts) t = False"
| "errors_Is (A2AError (Some e) m d ts) t = errors_Is e t"

text \<open>\<open>fmt.Errorf\<close> around the error of a call.\<close>

definition wrapf :: "string \<Rightarrow> go_error + 'a \<Rightarrow> go_error + 'a" where
  "wrapf m r = (case r of Inl err \<Rightarrow> Inl (Errorf m [err]) | Inr x \<Rightarrow> Inr x)"

lemma wrapf_simps [simp]:
  "wrapf m (Inl err) = Inl (Errorf m [err])"
  "wrapf m (Inr x) = Inr x"
  "wrapf m r = Inr x \<longleftrightarrow> r = Inr x"
  "isl (wrapf m r) = isl r"
  by (cases r; simp add: wrapf_def)+

lemma yields_wrapf: "yields r ok v \<Longrightarrow> yields (wrapf m r) ok v"
  by (simp add: yields_def)

text \<open>\<open>NewError\<close>, \<open>WithDetails\<close> and \<open>Unwrap\<close> of \<open>a2a.Error\<close>.\<close>

definition NewError :: "go_error \<Rightarrow> string \<Rightarrow> go_error" where
  "NewError err message = A2AError (Some err) message None []"

definition Unwrap :: "go_error \<Rightarrow> go_error option" where
  "Unwrap e = (case e of A2AError c m d ts \<Rightarrow> c | _ \<Rightarrow> None)"

lemma errors_Is_NewError [simp]: "errors_Is (NewError e m) t = errors_Is e t"
  by (simp add: NewError_def)

text \<open>
  The reason table of \<open>a2a/errors.go\<close>. \<open>None\<close>: the sentinel is not a key of the map.
\<close>

fun errorReason :: "sentinel \<Rightarrow> string option" where
  "errorReason ErrParseError = Some ''PARSE_ERROR''"
| "errorReason ErrInvalidRequest = Some ''INVALID_REQUEST''"
| "errorReason ErrMethodNotFound = Some ''METHOD_NOT_FOUND''"
| "errorReason ErrInvalidParams = Some ''INVALID_PARAMS''"
| "errorReason ErrInternalError = Some ''INTERNAL_ERROR''"
| "errorReason ErrServerError = Some ''SERVER_ERROR''"
| "errorReason ErrTaskNotFound = Some ''TASK_NOT_FOUND''"
| "errorReason ErrTaskNotCancelable = Some ''TASK_NOT_CANCELABLE''"
| "errorReason ErrPushNotificationNotSupported = Some ''PUSH_NOTIFICATION_NOT_SUPPORTED''"
| "errorReason ErrUnsupportedOperation = Some ''UNSUPPORTED_OPERATION''"
| "errorReason ErrUnsupportedContentType = Some ''CONTENT_TYPE_NOT_SUPPORTED''"
| "errorReason ErrInvalidAgentResponse = Some ''INVALID_AGENT_RESPONSE''"
| "errorReason ErrExtendedCardNotConfigured = Some ''EXTENDED_AGENT_CARD_NOT_CONFIGURED''"
| "errorReason ErrExtensionSupportRequired = Some ''EXTENSION_SUPPORT_REQUIRED''"
| "errorReason ErrVersionNotSupported = Some ''VERSION_NOT_SUPPORTED''"
| "errorReason ErrUnauthenticated = Some ''UNAUTHENTICATED''"
| "errorReason ErrUnauthorized = Some ''UNAUTHORIZED''"
| "errorReason _ = None"

definition a2a_sentinels :: "sentinel list" where
  "a2a_sentinels =
    [ErrParseError, ErrInvalidRequest, ErrMethodNotFound, ErrInvalidParams, ErrInternalError,
     ErrServerError, ErrTaskNotFound, ErrTaskNotCancelable, ErrPushNotificationNotSupported,
     ErrUnsupportedOperation, ErrUnsupportedContentType, ErrInvalidAgentResponse,
     ErrExtendedCardNotConfigured, ErrExtensionSupportRequired, ErrVersionNotSupported,
     ErrUnauthenticated, ErrUnauthorized]"

text \<open>
  \<open>ErrorReason\<close> ranges over the map, whose order Go leaves open: the first argument is the
  order of one iteration, a permutation of the keys.
\<close>

fun ErrorReason :: "sentinel list \<Rightarrow> go_error \<Rightarrow> string" where
  "ErrorReason [] err = ''INTERNAL_ERROR''"
| "ErrorReason (s # order) err =
     (if errors_Is err s
      then (case errorReason s of Some r \<Rightarrow> r | None \<Rightarrow> ''INTERNAL_ERROR'')
      else ErrorReason order err)"

lemma ErrorReason_single:
  assumes "errors_Is err s" "s \<in> set order" "\<forall>t \<in> set order. errors_Is err t \<longrightarrow> t = s"
    and "errorReason s = Some r"
  shows "ErrorReason order err = r"
  using assms(2,3)
proof (induction order)
  case (Cons t order)
  show ?case
  proof (cases "errors_Is err t")
    case True
    with Cons.prems have "t = s" by simp
    with assms(1,4) show ?thesis by simp
  next
    case False
    with assms(1) have "t \<noteq> s" by blast
    with Cons False show ?thesis by simp
  qed
qed simp

lemma ErrorReason_none:
  "\<forall>t \<in> set order. \<not> errors_Is err t \<Longrightarrow> ErrorReason order err = ''INTERNAL_ERROR''"
  by (induction order) simp_all

text \<open>\<open>ErrorInfo\<close> finds the ErrorInfo detail or appends one; the returned index names it.\<close>

definition ErrorInfo ::
  "sentinel list \<Rightarrow> string \<Rightarrow> go_error \<Rightarrow> (go_error \<times> nat) option" where
  "ErrorInfo order domain e = (case e of
     A2AError c m d ts \<Rightarrow>
       (case index_func (\<lambda>t. TypeURL t = ErrorInfoType) ts of
          Some i \<Rightarrow> Some (e, i)
        | None \<Rightarrow>
            (let reason = (case c of Some c' \<Rightarrow> ErrorReason order c' | None \<Rightarrow> ''INTERNAL_ERROR'')
             in Some (A2AError c m d (ts @ [NewErrorInfo reason domain None]), length ts)))
   | _ \<Rightarrow> None)"

section \<open>Contexts\<close>

text \<open>
  What the code reads from a \<open>context.Context\<close>: \<open>ctx.Err()\<close> (\<open>None\<close> while it is live),
  \<open>context.Cause(ctx)\<close>, the limiter scope attached to it and the \<open>CallContext\<close> (its user
  user, service parameters, tenant, protocol version and activated extensions). A missing \<open>CallContext\<close> is \<open>None\<close>.
\<close>

record user =
  user_Name :: string
  user_Authenticated :: bool
  user_Attributes :: metadata

definition NewAuthenticatedUser :: "string \<Rightarrow> metadata \<Rightarrow> user" where
  "NewAuthenticatedUser username attrs =
     \<lparr>user_Name = username, user_Authenticated = True, user_Attributes = attrs\<rparr>"

record call_context =
  cc_method :: string
  cc_svcParams :: "(string, string list) fmap"
  cc_activatedExtensions :: "string list"
  cc_User :: user
  cc_ProtocolVersion :: string
  cc_tenant :: string

record go_ctx =
  ctx_Err :: "go_error option"
  ctx_Cause :: "go_error option"
  ctx_scope :: "string option"
  ctx_call :: "call_context option"

definition CallContextFrom :: "go_ctx \<Rightarrow> call_context option" where
  "CallContextFrom ctx = ctx_call ctx"

definition ScopeFrom :: "go_ctx \<Rightarrow> string option" where
  "ScopeFrom ctx = ctx_scope ctx"

definition AttachScope :: "go_ctx \<Rightarrow> string \<Rightarrow> go_ctx" where
  "AttachScope ctx scope = ctx\<lparr>ctx_scope := Some scope\<rparr>"

text \<open>\<open>context.WithoutCancel\<close> keeps the values and drops cancelation.\<close>

definition WithoutCancel :: "go_ctx \<Rightarrow> go_ctx" where
  "WithoutCancel ctx = ctx\<lparr>ctx_Err := None, ctx_Cause := None\<rparr>"

lemma ScopeFrom_simps [simp]:
  "ScopeFrom (WithoutCancel ctx) = ScopeFrom ctx"
  "ScopeFrom (AttachScope ctx s) = Some s"
  by (simp_all add: ScopeFrom_def WithoutCancel_def AttachScope_def)

lemma WithoutCancel_live [simp]: "ctx_Err (WithoutCancel ctx) = None"
  by (simp add: WithoutCancel_def)

definition background :: go_ctx where
  "background = \<lparr>ctx_Err = None, ctx_Cause = None, ctx_scope = None, ctx_call = None\<rparr>"

end
