(* ===== verification/Core.thy ===== *)
theory Core
  imports GoErrors
begin

text \<open>
  The data model of the protocol, \<open>a2a/core.go\<close> and \<open>a2a/push.go\<close>: messages, tasks,
  artifacts, parts, the four event types, the requests, their constructors, the task states and
  the one-of wrappers of the JSON form. Field names are those of the Go structs with the struct's
  name in front. A pointer field that the code tests for nil is an option; elements of pointer
  slices are non-nil (\<open>utils.DeepCopy\<close>, through gob, refuses a slice with a nil element, so
  no stored value has one). Nil and empty slices are both \<open>[]\<close>. Times are nanoseconds since
  the epoch.
\<close>

type_synonym task_id = string
type_synonym context_id = string
type_synonym artifact_id = string
type_synonym gotime = int

section \<open>Task info, roles, states\<close>

definition ProtocolDomain :: string where
  [go_consts]: "ProtocolDomain = ''a2a-protocol.org''"

definition Version :: string where
  [go_consts]: "Version = ''1.0''"

record task_info =
  ti_TaskID :: task_id
  ti_ContextID :: context_id

type_synonym message_role = string

definition MessageRoleUnspecified :: message_role where
  [go_consts]: "MessageRoleUnspecified = ''''"
definition MessageRoleAgent :: message_role where
  [go_consts]: "MessageRoleAgent = ''ROLE_AGENT''"
definition MessageRoleUser :: message_role where
  [go_consts]: "MessageRoleUser = ''ROLE_USER''"

definition MessageRole_String :: "message_role \<Rightarrow> string" where
  "MessageRole_String mr = (if mr = MessageRoleUnspecified then ''ROLE_UNSPECIFIED'' else mr)"

definition MessageRole_UnmarshalJSON :: "string \<Rightarrow> message_role" where
  "MessageRole_UnmarshalJSON s =
     (if s = ''ROLE_UNSPECIFIED'' then MessageRoleUnspecified else s)"

text \<open>A \<open>TaskState\<close> is a Go string type: any string can occur.\<close>

type_synonym task_state = string

definition TaskStateUnspecified :: task_state where
  [go_consts]: "TaskStateUnspecified = ''''"
definition TaskStateAuthRequired :: task_state where
  [go_consts]: "TaskStateAuthRequired = ''TASK_STATE_AUTH_REQUIRED''"
definition TaskStateCanceled :: task_state where
  [go_consts]: "TaskStateCanceled = ''TASK_STATE_CANCELED''"
definition TaskStateCompleted :: task_state where
  [go_consts]: "TaskStateCompleted = ''TASK_STATE_COMPLETED''"
definition TaskStateFailed :: task_state where
  [go_consts]: "TaskStateFailed = ''TASK_STATE_FAILED''"
definition TaskStateInputRequired :: task_state where
  [go_consts]: "TaskStateInputRequired = ''TASK_STATE_INPUT_REQUIRED''"
definition TaskStateRejected :: task_state where
  [go_consts]: "TaskStateRejected = ''TASK_STATE_REJECTED''"
definition TaskStateSubmitted :: task_state where
  [go_consts]: "TaskStateSubmitted = ''TASK_STATE_SUBMITTED''"
definition TaskStateWorking :: task_state where
  [go_consts]: "TaskStateWorking = ''TASK_STATE_WORKING''"

definition TaskState_String :: "task_state \<Rightarrow> string" where
  "TaskState_String ts = (if ts = TaskStateUnspecified then ''TASK_STATE_UNSPECIFIED'' else ts)"

definition TaskStateFromString :: "string \<Rightarrow> task_state" where
  "TaskStateFromString s =
     (if s \<in> set [TaskStateSubmitted, TaskStateWorking, TaskStateCompleted, TaskStateFailed,
                  TaskStateCanceled, TaskStateInputRequired, TaskStateRejected,
                  TaskStateAuthRequired, TaskStateUnspecified]
      then s else TaskStateUnspecified)"

definition Terminal :: "task_state \<Rightarrow> bool" where
  "Terminal ts = (ts = TaskStateCompleted \<or> ts = TaskStateCanceled \<or> ts = TaskStateFailed
                  \<or> ts = TaskStateRejected)"

lemma Terminal_simps [simp]:
  "Terminal TaskStateCompleted" "Terminal TaskStateCanceled" "Terminal TaskStateFailed"
  "Terminal TaskStateRejected" "\<not> Terminal TaskStateUnspecified"
  "\<not> Terminal TaskStateAuthRequired" "\<not> Terminal TaskStateInputRequired"
  "\<not> Terminal TaskStateSubmitted" "\<not> Terminal TaskStateWorking"
  by (simp_all add: Terminal_def go_consts)

lemma TaskStateCanceled_neq [simp]:
  "TaskStateCanceled \<noteq> TaskStateFailed" "TaskStateCanceled \<noteq> TaskStateCompleted"
  "TaskStateCanceled \<noteq> TaskStateRejected" "TaskStateFailed \<noteq> TaskStateCanceled"
  "TaskStateFailed \<noteq> TaskStateCompleted" "TaskStateCompleted \<noteq> TaskStateCanceled"
  by (simp_all add: go_consts)

section \<open>Parts, messages, artifacts, tasks\<close>

text \<open>\<open>Raw\<close> bytes are a char list; a part's content can be the nil interface.\<close>

datatype part_content = Text string | Raw string | Data any | URL string

record part =
  part_Content :: "part_content option"
  part_Filename :: string
  part_MediaType :: string
  part_Metadata :: metadata

definition NewTextPart :: "string \<Rightarrow> part" where
  "NewTextPart text = \<lparr>part_Content = Some (Text text), part_Filename = '''',
     part_MediaType = '''', part_Metadata = None\<rparr>"

definition NewRawPart :: "string \<Rightarrow> part" where
  "NewRawPart raw = \<lparr>part_Content = Some (Raw raw), part_Filename = '''',
     part_MediaType = '''', part_Metadata = None\<rparr>"

definition NewFileURLPart :: "string \<Rightarrow> string \<Rightarrow> part" where
  "NewFileURLPart url mimeType = \<lparr>part_Content = Some (URL url), part_Filename = '''',
     part_MediaType = mimeType, part_Metadata = None\<rparr>"

definition NewDataPart :: "any \<Rightarrow> part" where
  "NewDataPart data = \<lparr>part_Content = Some (Data data), part_Filename = '''',
     part_MediaType = '''', part_Metadata = None\<rparr>"

definition Part_Text :: "part \<Rightarrow> string" where
  "Part_Text p = (case part_Content p of Some (Text v) \<Rightarrow> v | _ \<Rightarrow> '''')"

definition Part_Raw :: "part \<Rightarrow> string option" where
  "Part_Raw p = (case part_Content p of Some (Raw v) \<Rightarrow> Some v | _ \<Rightarrow> None)"

definition Part_Data :: "part \<Rightarrow> any" where
  "Part_Data p = (case part_Content p of Some (Data v) \<Rightarrow> v | _ \<Rightarrow> ANil)"

definition Part_URL :: "part \<Rightarrow> string" where
  "Part_URL p = (case part_Content p of Some (URL v) \<Rightarrow> v | _ \<Rightarrow> '''')"

record message =
  msg_ID :: string
  msg_ContextID :: context_id
  msg_Extensions :: "string list"
  msg_Metadata :: metadata
  msg_Parts :: "part list"
  msg_ReferenceTasks :: "task_id list"
  msg_Role :: message_role
  msg_TaskID :: task_id

record task_status =
  ts_Message :: "message option"
  ts_State :: task_state
  ts_Timestamp :: "gotime option"

record artifact =
  art_ID :: artifact_id
  art_Description :: string
  art_Extensions :: "string list"
  art_Metadata :: metadata
  art_Name :: string
  art_Parts :: "part list"

record task =
  task_ID :: task_id
  task_Artifacts :: "artifact list"
  task_ContextID :: context_id
  task_History :: "message list"
  task_Metadata :: metadata
  task_Status :: task_status

definition Message_TaskInfo :: "message \<Rightarrow> task_info" where
  "Message_TaskInfo m = \<lparr>ti_TaskID = msg_TaskID m, ti_ContextID = msg_ContextID m\<rparr>"

definition Task_TaskInfo :: "task \<Rightarrow> task_info" where
  "Task_TaskInfo t = \<lparr>ti_TaskID = task_ID t, ti_ContextID = task_ContextID t\<rparr>"

text \<open>
  Random identifiers (\<open>newUUIDString\<close>) are an argument: the string the UUID library returns.
\<close>

definition NewMessage :: "string \<Rightarrow> message_role \<Rightarrow> part list \<Rightarrow> message" where
  "NewMessage uuid role parts = \<lparr>msg_ID = uuid, msg_ContextID = '''', msg_Extensions = [],
     msg_Metadata = None, msg_Parts = parts, msg_ReferenceTasks = [], msg_Role = role,
     msg_TaskID = ''''\<rparr>"

definition NewMessageForTask ::
  "string \<Rightarrow> message_role \<Rightarrow> task_info \<Rightarrow> part list \<Rightarrow> message" where
  "NewMessageForTask uuid role taskInfo parts = \<lparr>msg_ID = uuid,
     msg_ContextID = ti_ContextID taskInfo, msg_Extensions = [], msg_Metadata = None,
     msg_Parts = parts, msg_ReferenceTasks = [], msg_Role = role,
     msg_TaskID = ti_TaskID taskInfo\<rparr>"

definition NewSubmittedTask :: "string \<Rightarrow> string \<Rightarrow> task_info \<Rightarrow> message \<Rightarrow> task" where
  "NewSubmittedTask uuid1 uuid2 taskInfo initialMessage =
     \<lparr>task_ID = (if ti_TaskID taskInfo = '''' then uuid1 else ti_TaskID taskInfo),
      task_Artifacts = [],
      task_ContextID = (if ti_ContextID taskInfo = '''' then uuid2 else ti_ContextID taskInfo),
      task_History = [initialMessage], task_Metadata = None,
      task_Status = \<lparr>ts_Message = None, ts_State = TaskStateSubmitted, ts_Timestamp = None\<rparr>\<rparr>"

text \<open>\<open>setMeta\<close>: a nil map is created on the first write.\<close>

definition setMeta :: "metadata \<Rightarrow> string \<Rightarrow> any \<Rightarrow> metadata" where
  "setMeta m k v = Some (fmupd k v (case m of None \<Rightarrow> fmempty | Some f \<Rightarrow> f))"

lemma gm_lookup_setMeta [simp]:
  "gm_lookup (setMeta m k v) k' = (if k' = k then Some v else gm_lookup m k')"
  by (auto simp: setMeta_def split: option.splits)

section \<open>Events\<close>

record artifact_event =
  ae_Append :: bool
  ae_Artifact :: artifact
  ae_ContextID :: context_id
  ae_LastChunk :: bool
  ae_TaskID :: task_id
  ae_Metadata :: metadata

record status_event =
  se_ContextID :: context_id
  se_Status :: task_status
  se_TaskID :: task_id
  se_Metadata :: metadata

text \<open>
  An \<open>Event\<close> is a pointer to one of four structs. The update manager compares task pointers,
  so a task event carries the address of its task beside the task; emitted events are never
  modified, so the value at that address is the value here.
\<close>

type_synonym addr = nat

datatype event =
    EMessage message
  | ETask addr task
  | EStatus status_event
  | EArtifact artifact_event

fun event_TaskInfo :: "event \<Rightarrow> task_info" where
  "event_TaskInfo (EMessage m) = Message_TaskInfo m"
| "event_TaskInfo (ETask a t) = Task_TaskInfo t"
| "event_TaskInfo (EStatus e) = \<lparr>ti_TaskID = se_TaskID e, ti_ContextID = se_ContextID e\<rparr>"
| "event_TaskInfo (EArtifact e) = \<lparr>ti_TaskID = ae_TaskID e, ti_ContextID = ae_ContextID e\<rparr>"

fun event_Meta :: "event \<Rightarrow> metadata" where
  "event_Meta (EMessage m) = msg_Metadata m"
| "event_Meta (ETask a t) = task_Metadata t"
| "event_Meta (EStatus e) = se_Metadata e"
| "event_Meta (EArtifact e) = ae_Metadata e"

fun event_SetMeta :: "event \<Rightarrow> string \<Rightarrow> any \<Rightarrow> event" where
  "event_SetMeta (EMessage m) k v = EMessage (m\<lparr>msg_Metadata := setMeta (msg_Metadata m) k v\<rparr>)"
| "event_SetMeta (ETask a t) k v = ETask a (t\<lparr>task_Metadata := setMeta (task_Metadata t) k v\<rparr>)"
| "event_SetMeta (EStatus e) k v = EStatus (e\<lparr>se_Metadata := setMeta (se_Metadata e) k v\<rparr>)"
| "event_SetMeta (EArtifact e) k v = EArtifact (e\<lparr>ae_Metadata := setMeta (ae_Metadata e) k v\<rparr>)"

text \<open>\<open>SendMessageResult\<close>: the result of an execution is a task or a message.\<close>

datatype send_result = RMessage message | RTask task

fun result_event :: "addr \<Rightarrow> send_result \<Rightarrow> event" where
  "result_event a (RMessage m) = EMessage m"
| "result_event a (RTask t) = ETask a t"

definition new_artifact :: "artifact_id \<Rightarrow> part list \<Rightarrow> artifact" where
  "new_artifact i parts = \<lparr>art_ID = i, art_Description = '''', art_Extensions = [],
     art_Metadata = None, art_Name = '''', art_Parts = parts\<rparr>"

definition NewArtifactEvent :: "string \<Rightarrow> task_info \<Rightarrow> part list \<Rightarrow> artifact_event" where
  "NewArtifactEvent uuid taskInfo parts =
     \<lparr>ae_Append = False, ae_Artifact = new_artifact uuid parts,
      ae_ContextID = ti_ContextID taskInfo, ae_LastChunk = False,
      ae_TaskID = ti_TaskID taskInfo, ae_Metadata = None\<rparr>"

definition NewArtifactUpdateEvent ::
  "task_info \<Rightarrow> artifact_id \<Rightarrow> part list \<Rightarrow> artifact_event" where
  "NewArtifactUpdateEvent taskInfo i parts =
     \<lparr>ae_Append = True, ae_Artifact = new_artifact i parts,
      ae_ContextID = ti_ContextID taskInfo, ae_LastChunk = False,
      ae_TaskID = ti_TaskID taskInfo, ae_Metadata = None\<rparr>"

text \<open>
  \<open>NewStatusUpdateEvent\<close> truncates the current time to milliseconds; \<open>Truncate\<close> rounds
  towards the zero time, which for the times after it is rounding down.
\<close>

definition truncate_ms :: "gotime \<Rightarrow> gotime" where
  "truncate_ms t = t - t mod 1000000"

definition NewStatusUpdateEvent ::
  "gotime \<Rightarrow> task_info \<Rightarrow> task_state \<Rightarrow> message option \<Rightarrow> status_event" where
  "NewStatusUpdateEvent now taskInfo state msg =
     \<lparr>se_ContextID = ti_ContextID taskInfo,
      se_Status = \<lparr>ts_Message = msg, ts_State = state, ts_Timestamp = Some (truncate_ms now)\<rparr>,
      se_TaskID = ti_TaskID taskInfo, se_Metadata = None\<rparr>"

section \<open>The one-of wrapper of a stream response\<close>

text \<open>
  \<open>StreamResponse.MarshalJSON\<close> fills exactly one field of the \<open>event\<close> struct and hands it
  to \<open>encoding/json\<close>; \<open>UnmarshalJSON\<close> reads the struct back and counts the fields present.
  A nil event is the default branch of the switch.
\<close>

record event_wrapper =
  w_Message :: "message option"
  w_Task :: "(addr \<times> task) option"
  w_StatusUpdate :: "status_event option"
  w_ArtifactUpdate :: "artifact_event option"

definition empty_wrapper :: event_wrapper where
  "empty_wrapper = \<lparr>w_Message = None, w_Task = None, w_StatusUpdate = None,
     w_ArtifactUpdate = None\<rparr>"

fun StreamResponse_MarshalJSON :: "event option \<Rightarrow> go_error + event_wrapper" where
  "StreamResponse_MarshalJSON (Some (EMessage v)) = Inr (empty_wrapper\<lparr>w_Message := Some v\<rparr>)"
| "StreamResponse_MarshalJSON (Some (ETask a v)) = Inr (empty_wrapper\<lparr>w_Task := Some (a, v)\<rparr>)"
| "StreamResponse_MarshalJSON (Some (EStatus v)) =
     Inr (empty_wrapper\<lparr>w_StatusUpdate := Some v\<rparr>)"
| "StreamResponse_MarshalJSON (Some (EArtifact v)) =
     Inr (empty_wrapper\<lparr>w_ArtifactUpdate := Some v\<rparr>)"
| "StreamResponse_MarshalJSON None = Inl (Errorf ''unknown event type: %T'' [])"

definition StreamResponse_UnmarshalJSON :: "event_wrapper \<Rightarrow> go_error + event" where
  "StreamResponse_UnmarshalJSON w =
     (let found =
        (case w_Message w of None \<Rightarrow> [] | Some v \<Rightarrow> [EMessage v]) @
        (case w_Task w of None \<Rightarrow> [] | Some (a, v) \<Rightarrow> [ETask a v]) @
        (case w_StatusUpdate w of None \<Rightarrow> [] | Some v \<Rightarrow> [EStatus v]) @
        (case w_ArtifactUpdate w of None \<Rightarrow> [] | Some v \<Rightarrow> [EArtifact v]);
        n = length found
      in if n = 0 then Inl (Errorf ''unknown event type: %v'' [])
         else if n \<noteq> 1 then Inl (Errorf ''expected exactly one event type, got %d'' [])
         else Inr (last found))"

section \<open>Requests (a2a/core.go, a2a/push.go)\<close>

record push_auth_info =
  pa_Credentials :: string
  pa_Scheme :: string

record push_config =
  pc_Tenant :: string
  pc_TaskID :: task_id
  pc_ID :: string
  pc_Auth :: "push_auth_info option"
  pc_Token :: string
  pc_URL :: string

record send_config =
  cfg_AcceptedOutputModes :: "string list"
  cfg_ReturnImmediately :: bool
  cfg_HistoryLength :: "int option"
  cfg_PushConfig :: "push_config option"

record send_request =
  req_Tenant :: string
  req_Config :: "send_config option"
  req_Message :: "message option"
  req_Metadata :: metadata

record get_request =
  get_Tenant :: string
  get_ID :: task_id
  get_HistoryLength :: "int option"

record list_request =
  list_Tenant :: string
  list_ContextID :: context_id
  list_Status :: task_state
  list_PageSize :: int
  list_PageToken :: string
  list_HistoryLength :: "int option"
  list_StatusTimestampAfter :: "gotime option"
  list_IncludeArtifacts :: bool

record list_response =
  resp_Tasks :: "task list"
  resp_TotalSize :: int
  resp_PageSize :: int
  resp_NextPageToken :: string

record cancel_request =
  cancel_Tenant :: string
  cancel_ID :: task_id
  cancel_Metadata :: metadata

record subscribe_request =
  sub_Tenant :: string
  sub_ID :: task_id

record push_request =
  pr_Tenant :: string
  pr_TaskID :: task_id
  pr_ID :: string

end
