(* ===== verification/GoJson.thy ===== *)
theory GoJson
  imports Core "HOL-Library.Log_Nat"
begin

text \<open>
  What becomes of a dynamic value on its way through JSON or through a protobuf \<open>Struct\<close>: all
  numbers become float64, typed maps become maps of any. \<open>encoding/json\<close> is modelled on the level
  of decoded documents: a document is the value that decoding it into an \<open>any\<close> gives. Strings
  are valid UTF-8, which both forms keep; field names match exactly.
\<close>

lemma gm_len_keys: "gm_len m > 0 \<longleftrightarrow> gm_keys m \<noteq> {||}"
  by (auto simp: gm_len_def fcard.rep_eq card_gt_0_iff bot_fset.rep_eq fset_inject[symmetric] simp del: fset_inject)

lemma gm_len_fmupd [simp]: "gm_len (Some (fmupd k v m)) > 0"
  by (simp add: gm_len_keys gm_keys_def)

section \<open>Numbers\<close>

text \<open>The nearest float64 of an integer: 53 significant bits, ties to even.\<close>

definition float64_of_int :: "int \<Rightarrow> rat" where
  "float64_of_int i =
     (let n = \<bar>i\<bar> in
      if n \<le> 2 ^ 53 then of_int i
      else (let e = nat (bitlen n - 53); q = n div 2 ^ e; r = n mod 2 ^ e; half = 2 ^ (e - 1);
                q' = (if r > half \<or> r = half \<and> odd q then q + 1 else q)
            in of_int (sgn i * q' * 2 ^ e)))"

lemma float64_of_int_exact: "\<bar>i\<bar> \<le> 2 ^ 53 \<Longrightarrow> float64_of_int i = of_int i"
  by (simp add: float64_of_int_def Let_def)

section \<open>Values\<close>

text \<open>
  The value that comes back. A float32 is printed with the fewest digits that identify it among the
  float32 values and read back as a float64, possibly another number: the function for that is an
  argument. \<open>json_encodable\<close>: the encoder accepts the value; opaque values (channels,
  functions) are the ones it refuses.
\<close>

primrec json_norm :: "(rat \<Rightarrow> rat) \<Rightarrow> any \<Rightarrow> any" where
  "json_norm f32 ANil = ANil"
| "json_norm f32 (ABool b) = ABool b"
| "json_norm f32 (AInt k i) = AFloat KFloat64 (float64_of_int i)"
| "json_norm f32 (AFloat k r) = AFloat KFloat64 (case k of KFloat64 \<Rightarrow> r | KFloat32 \<Rightarrow> f32 r)"
| "json_norm f32 (AString s) = AString s"
| "json_norm f32 (AArr xs) = AArr (map (json_norm f32) xs)"
| "json_norm f32 (AMap m) = AMap (fmmap (json_norm f32) m)"
| "json_norm f32 (AStrMap m) = AMap (fmmap AString m)"
| "json_norm f32 (AOther t) = AOther t"

primrec json_encodable :: "any \<Rightarrow> bool" where
  "json_encodable ANil = True"
| "json_encodable (ABool b) = True"
| "json_encodable (AInt k i) = True"
| "json_encodable (AFloat k r) = True"
| "json_encodable (AString s) = True"
| "json_encodable (AArr xs) = list_all (\<lambda>b. b) (map json_encodable xs)"
| "json_encodable (AMap m) = fmpred (\<lambda>k b. b) (fmmap json_encodable m)"
| "json_encodable (AStrMap m) = True"
| "json_encodable (AOther t) = False"

definition norm_map :: "(rat \<Rightarrow> rat) \<Rightarrow> (string, any) fmap \<Rightarrow> (string, any) fmap" where
  "norm_map f32 m = fmmap (json_norm f32) m"

definition encodable_map :: "(string, any) fmap \<Rightarrow> bool" where
  "encodable_map m = fmpred (\<lambda>k v. json_encodable v) m"

lemma json_norm_idem: "json_norm f32 (json_norm f32 v) = json_norm f32 v"
proof (induction v)
  case (AMap m)
  have "fmmap (json_norm f32 \<circ> json_norm f32) m = fmmap (json_norm f32) m"
    by (rule fmap_ext) (auto simp: fmlookup_map fmran'I map_option_case AMap split: option.splits)
  then show ?case by (simp add: fmap.map_comp)
next
  case (AStrMap m)
  have "fmmap (json_norm f32 \<circ> AString) m = fmmap AString m"
    by (rule fmap_ext) (auto simp: fmlookup_map map_option_case split: option.splits)
  then show ?case by (simp add: fmap.map_comp)
qed (simp_all add: o_def)

lemma norm_map_idem [simp]: "norm_map f32 (norm_map f32 m) = norm_map f32 m"
  by (rule fmap_ext) (auto simp: norm_map_def fmlookup_map json_norm_idem map_option_case split: option.splits)

lemma fmlookup_norm_map [simp]:
  "fmlookup (norm_map f32 m) k = map_option (json_norm f32) (fmlookup m k)"
  by (simp add: norm_map_def)

lemma norm_map_upd [simp]: "norm_map f32 (fmupd k v m) = fmupd k (json_norm f32 v) (norm_map f32 m)"
  by (rule fmap_ext) simp

lemma norm_map_drop [simp]: "norm_map f32 (fmdrop k m) = fmdrop k (norm_map f32 m)"
  by (rule fmap_ext) simp

lemma norm_map_empty [simp]: "norm_map f32 fmempty = fmempty"
  by (simp add: norm_map_def)

lemma json_norm_AMap [simp]: "json_norm f32 (AMap m) = AMap (norm_map f32 m)"
  by (simp add: norm_map_def)

declare json_norm.simps(7) [simp del]

lemma encodable_AMap [simp]: "json_encodable (AMap m) = encodable_map m"
  by (auto simp: encodable_map_def fmpred_iff)

declare json_encodable.simps(7) [simp del]

lemma encodable_map_empty [simp]: "encodable_map fmempty"
  by (simp add: encodable_map_def)

lemma json_norm_encodable: "json_encodable v \<Longrightarrow> json_encodable (json_norm f32 v)"
proof (induction v)
  case (AMap m)
  then show ?case by (auto simp: encodable_map_def norm_map_def fmpred_iff intro: fmran'I)
qed (auto simp: encodable_map_def fmpred_iff list_all_iff)

lemma norm_map_encodable: "encodable_map m \<Longrightarrow> encodable_map (norm_map f32 m)"
  using json_norm_encodable[of "AMap m" f32] by simp

lemma fmdom_empty_iff [simp]: "fmdom m = {||} \<longleftrightarrow> m = fmempty"
  by (auto intro!: fmap_ext simp: fmdom_notD)

lemma norm_map_empty_iff [simp]: "norm_map f32 m = fmempty \<longleftrightarrow> m = fmempty"
  unfolding fmdom_empty_iff[symmetric] by (simp add: norm_map_def del: fmdom_empty_iff)

text \<open>A map of strings keeps its content.\<close>

definition string_map :: "(string, any) fmap \<Rightarrow> (string, string) fmap" where
  "string_map m = fmmap (\<lambda>v. case v of AString s \<Rightarrow> s | _ \<Rightarrow> '''')
     (fmfilter (\<lambda>k. case fmlookup m k of Some (AString s) \<Rightarrow> True | _ \<Rightarrow> False) m)"

lemma fmlookup_string_map [simp]:
  "fmlookup (string_map m) k = (case fmlookup m k of Some (AString s) \<Rightarrow> Some s | _ \<Rightarrow> None)"
  by (simp add: string_map_def split: option.splits any.splits)

lemma string_map_of_strings [simp]: "string_map (fmmap AString m) = m"
  by (rule fmap_ext) (simp split: option.splits)

lemma string_map_norm [simp]: "string_map (norm_map f32 m) = string_map m"
proof (rule fmap_ext)
  fix k
  have "(case json_norm f32 v of AString s \<Rightarrow> Some s | _ \<Rightarrow> None) =
        (case v of AString s \<Rightarrow> Some s | _ \<Rightarrow> None)" for v
    by (cases v) (simp_all split: any.splits)
  then show "fmlookup (string_map (norm_map f32 m)) k = fmlookup (string_map m) k"
    by (cases "fmlookup m k") (simp_all del: string_map_of_strings)
qed

text \<open>\<open>ToStringMap\<close> of \<open>internal/utils/utils.go\<close>: values that are no strings are left out.\<close>

definition ToStringMap :: "any \<Rightarrow> (string, string) fmap option" where
  "ToStringMap raw = (case raw of AStrMap m \<Rightarrow> Some m | AMap m \<Rightarrow> Some (string_map m) | _ \<Rightarrow> None)"

lemma ToStringMap_norm [simp]: "ToStringMap (json_norm f32 v) = ToStringMap v"
  by (cases v) (simp_all add: ToStringMap_def)

section \<open>Typed error details as JSON\<close>

text \<open>\<open>MarshalJSON\<close> and \<open>UnmarshalJSON\<close> of \<open>errordetails.Typed\<close>.\<close>

definition Typed_MarshalJSON :: "(rat \<Rightarrow> rat) \<Rightarrow> typed \<Rightarrow> any option" where
  "Typed_MarshalJSON f32 w =
     (let typed = fmupd ''@type'' (AString (TypeURL w)) (maps_copy fmempty (gm_fmap (Value w)))
      in if encodable_map typed then Some (json_norm f32 (AMap typed)) else None)"

definition Typed_UnmarshalJSON :: "any \<Rightarrow> typed option" where
  "Typed_UnmarshalJSON data =
     (case data of
        ANil \<Rightarrow> Some \<lparr>TypeURL = StructType, Value = None\<rparr>
      | AMap v \<Rightarrow>
          (case fmlookup v ''@type'' of
             Some (AString t) \<Rightarrow> Some \<lparr>TypeURL = t, Value = Some (fmdrop ''@type'' v)\<rparr>
           | _ \<Rightarrow> Some \<lparr>TypeURL = StructType, Value = Some v\<rparr>)
      | _ \<Rightarrow> None)"

definition typed_encodable :: "typed \<Rightarrow> bool" where
  "typed_encodable w = encodable_map (fmdrop ''@type'' (gm_fmap (Value w)))"

text \<open>What a detail is after a trip through JSON.\<close>

definition typed_norm :: "(rat \<Rightarrow> rat) \<Rightarrow> typed \<Rightarrow> typed" where
  "typed_norm f32 w = w\<lparr>Value := Some (norm_map f32 (fmdrop ''@type'' (gm_fmap (Value w))))\<rparr>"

lemma encodable_map_upd_iff:
  "encodable_map (fmupd k v m) \<longleftrightarrow> json_encodable v \<and> encodable_map (fmdrop k m)"
  by (auto simp: encodable_map_def fmpred_iff split: if_splits)

lemma maps_copy_fmempty [simp]: "maps_copy fmempty m = m"
  by (simp add: maps_copy_def)

lemma Typed_MarshalJSON_iff:
  "Typed_MarshalJSON f32 w \<noteq> None \<longleftrightarrow> typed_encodable w"
  by (simp add: Typed_MarshalJSON_def Let_def encodable_map_upd_iff typed_encodable_def)

lemma fmdrop_fmupd_eq: "fmdrop k (fmupd k v m) = fmdrop k m"
  by (rule fmap_ext) simp

lemma Typed_roundtrip:
  assumes "Typed_MarshalJSON f32 w = Some j"
  shows "Typed_UnmarshalJSON j = Some (typed_norm f32 w)"
  using assms by (auto simp: Typed_MarshalJSON_def Let_def Typed_UnmarshalJSON_def typed_norm_def
      fmdrop_fmupd_eq split: if_splits)

lemma typed_norm_simps [simp]:
  "TypeURL (typed_norm f32 w) = TypeURL w"
  "typed_norm f32 (typed_norm f32 w) = typed_norm f32 w"
  by (simp_all add: typed_norm_def)

end
