(* ===== verification/ErrorCodecs.thy ===== *)
theory ErrorCodecs
  imports GoJson
begin

text \<open>
  How errors cross the three transports: \<open>internal/jsonrpc/jsonrpc.go\<close>,
  \<open>internal/rest/rest.go\<close> and \<open>internal/grpcutil/errors.go\<close>. The text of an error
  (\<open>Error()\<close>) and the current time as text are arguments. A panic is the left value of a
  \<open>string + _\<close>.
\<close>

section \<open>Errors with details (a2a/errors.go)\<close>

text \<open>\<open>errors.As(err, &a2aErr)\<close>: depth first.\<close>

fun first_some :: "'a option list \<Rightarrow> 'a option" where
  "first_some [] = None"
| "first_some (None # xs) = first_some xs"
| "first_some (Some x # xs) = Some x"

fun As_Error :: "go_error \<Rightarrow> go_error option" where
  "As_Error (Sentinel s) = None"
| "As_Error (Errorf m es) = first_some (map As_Error es)"
| "As_Error (A2AError c m d ts) = Some (A2AError c m d ts)"

fun WithDetails :: "go_error \<Rightarrow> metadata \<Rightarrow> go_error" where
  "WithDetails (A2AError c m d ts) details = A2AError c m details ts"
| "WithDetails e details = e"

fun WithTypedDetails :: "go_error \<Rightarrow> typed list \<Rightarrow> go_error" where
  "WithTypedDetails (A2AError c m d ts) details = A2AError c m d (ts @ details)"
| "WithTypedDetails e details = e"

text \<open>\<open>WithErrorInfoMeta\<close> writes into the detail's map, which panics if that map is nil.\<close>

definition WithErrorInfoMeta :: "go_error \<Rightarrow> (string, string) fmap \<Rightarrow> string + go_error" where
  "WithErrorInfoMeta e meta =
     (case ErrorInfo a2a_sentinels ProtocolDomain e of
        Some (A2AError c m d ts, i) \<Rightarrow>
          (case Value (ts ! i) of
             None \<Rightarrow> Inl ''assignment to entry in nil map''
           | Some v \<Rightarrow> Inr (A2AError c m d
               (ts[i := (ts ! i)\<lparr>Value := Some (fmupd ''metadata'' (AStrMap meta) v)\<rparr>])))
      | _ \<Rightarrow> Inr e)"

text \<open>
  The reason of a sentinel does not depend on the order in which the table is visited, so
  \<open>a2a_sentinels\<close> stands for every order.
\<close>

lemma ErrorReason_Sentinel:
  assumes "set order = set a2a_sentinels"
  shows "ErrorReason order (Sentinel s) =
    (case errorReason s of Some r \<Rightarrow> r | None \<Rightarrow> ''INTERNAL_ERROR'')"
proof (cases "errorReason s")
  case None
  then have "s \<notin> set a2a_sentinels" by (cases s) (simp_all add: a2a_sentinels_def)
  with assms None show ?thesis by (auto intro!: ErrorReason_none)
next
  case (Some r)
  then have "s \<in> set a2a_sentinels" by (cases s) (simp_all add: a2a_sentinels_def)
  with assms Some show ?thesis by (auto intro!: ErrorReason_single)
qed

definition reason_text :: "sentinel \<Rightarrow> string" where
  "reason_text s = (case errorReason s of Some r \<Rightarrow> r | None \<Rightarrow> ''INTERNAL_ERROR'')"

lemma reason_Sentinel [simp]: "ErrorReason a2a_sentinels (Sentinel s) = reason_text s"
  unfolding reason_text_def by (rule ErrorReason_Sentinel) simp

text \<open>
  The block that all transports share: the details of the error in the chain, and the metadata of
  its ErrorInfo details added to the given ones.
\<close>

fun collect_details ::
  "typed list \<Rightarrow> (string, string) fmap \<Rightarrow> typed list \<times> (string, string) fmap" where
  "collect_details [] metadata = ([], metadata)"
| "collect_details (d # ds) metadata =
     (if TypeURL d = ErrorInfoType
      then collect_details ds
             (case gm_lookup (Value d) ''metadata'' of
                None \<Rightarrow> metadata
              | Some rawMeta \<Rightarrow>
                  (case ToStringMap rawMeta of None \<Rightarrow> metadata | Some m \<Rightarrow> maps_copy metadata m))
      else (let (data, md) = collect_details ds metadata in (d # data, md)))"

definition attached_details ::
  "go_error \<Rightarrow> (string, string) fmap \<Rightarrow> typed list \<times> (string, string) fmap" where
  "attached_details err metadata =
     (case As_Error err of
        Some (A2AError c m details ts) \<Rightarrow>
          (let (data, md) = collect_details ts metadata
           in ((if gm_len details > 0 then [NewFromStruct details] else []) @ data, md))
      | _ \<Rightarrow> ([], metadata))"

section \<open>JSON-RPC\<close>

text \<open>
  \<open>je_Data\<close> is the decoded JSON document of the data member, \<open>None\<close> if there is none.
\<close>

record jsonrpc_error =
  je_Code :: int
  je_Message :: string
  je_Data :: "any option"

definition codeToError :: "(int \<times> sentinel) list" where
  "codeToError =
    [(-32700, ErrParseError), (-32600, ErrInvalidRequest), (-32601, ErrMethodNotFound),
     (-32602, ErrInvalidParams), (-32603, ErrInternalError), (-32000, ErrServerError),
     (-32001, ErrTaskNotFound), (-32002, ErrTaskNotCancelable),
     (-32003, ErrPushNotificationNotSupported), (-32004, ErrUnsupportedOperation),
     (-32005, ErrUnsupportedContentType), (-32006, ErrInvalidAgentResponse),
     (-32007, ErrExtendedCardNotConfigured), (-32008, ErrExtensionSupportRequired),
     (-32009, ErrVersionNotSupported), (-31401, ErrUnauthenticated), (-31403, ErrUnauthorized)]"

text \<open>
  The conversion of an error. \<open>as_jsonrpc\<close> is the JSON-RPC error that \<open>errors.As\<close> finds in
  the chain, if any; \<open>order\<close> is the order in which the table is visited, which Go leaves open.
\<close>

definition ToJSONRPCError ::
  "(rat \<Rightarrow> rat) \<Rightarrow> (go_error \<Rightarrow> string) \<Rightarrow> (int \<times> sentinel) list \<Rightarrow> string \<Rightarrow>
     jsonrpc_error option \<Rightarrow> go_error \<Rightarrow> jsonrpc_error" where
  "ToJSONRPCError f32 text order now as_jsonrpc err =
     (case as_jsonrpc of
        Some e \<Rightarrow> e
      | None \<Rightarrow>
          (let (code, reason) =
                 (case List.find (\<lambda>(c, target). errors_Is err target) order of
                    None \<Rightarrow> (-32603, ''INTERNAL_ERROR'')
                  | Some (c, target) \<Rightarrow> (c, ErrorReason a2a_sentinels (Sentinel target)));
               (data, metadata) = attached_details err (fmupd ''timestamp'' now fmempty);
               all_data = data @ [NewErrorInfo reason ProtocolDomain (Some metadata)]
           in \<lparr>je_Code = code, je_Message = text err,
               je_Data = map_option AArr (those (map (Typed_MarshalJSON f32) all_data))\<rparr>))"

text \<open>Decoding into a slice of pointers: a null element is a nil pointer.\<close>

definition unmarshal_pointer :: "any \<Rightarrow> typed option option" where
  "unmarshal_pointer v = (if v = ANil then Some None else map_option Some (Typed_UnmarshalJSON v))"

definition parse_details :: "any \<Rightarrow> typed option list option" where
  "parse_details data =
     (case data of ANil \<Rightarrow> Some [] | AArr vs \<Rightarrow> those (map unmarshal_pointer vs) | _ \<Rightarrow> None)"

text \<open>The loop over the details of \<open>FromJSONRPCError\<close>.\<close>

fun details_loop ::
  "typed option list \<Rightarrow> go_error \<Rightarrow> typed list \<Rightarrow> bool \<Rightarrow> string + go_error" where
  "details_loop [] result nonErrorInfoDetails firstStruct =
     Inr (WithTypedDetails result nonErrorInfoDetails)"
| "details_loop (None # ds) result nonErrorInfoDetails firstStruct =
     Inl ''invalid memory address or nil pointer dereference''"
| "details_loop (Some d # ds) result nonErrorInfoDetails firstStruct =
     (if TypeURL d = ErrorInfoType
      then (case gm_lookup (Value d) ''metadata'' of
              None \<Rightarrow> details_loop ds result nonErrorInfoDetails firstStruct
            | Some rawMeta \<Rightarrow>
                (case ToStringMap rawMeta of
                   None \<Rightarrow> details_loop ds result nonErrorInfoDetails firstStruct
                 | Some m \<Rightarrow>
                     (case WithErrorInfoMeta result m of
                        Inl panic \<Rightarrow> Inl panic
                      | Inr result' \<Rightarrow> details_loop ds result' nonErrorInfoDetails firstStruct)))
      else details_loop ds (if firstStruct then WithDetails result (Value d) else result)
             (nonErrorInfoDetails @ [d]) False)"

definition FromJSONRPCError :: "(go_error \<Rightarrow> string) \<Rightarrow> jsonrpc_error \<Rightarrow> string + go_error" where
  "FromJSONRPCError text e =
     (let err = (case map_of codeToError (je_Code e) of None \<Rightarrow> ErrInternalError | Some s \<Rightarrow> s);
          msg = (if je_Message e = '''' then text (Sentinel err) else je_Message e);
          typedDetails =
            (case je_Data e of
               None \<Rightarrow> []
             | Some data \<Rightarrow>
                 (case parse_details data of
                    Some parsedDetails \<Rightarrow> parsedDetails
                  | None \<Rightarrow>
                      (case Typed_UnmarshalJSON data of
                         Some d \<Rightarrow> [Some d]
                       | None \<Rightarrow>
                           (case data of AMap singleDetail \<Rightarrow> [Some (NewFromStruct (Some singleDetail))]
                            | _ \<Rightarrow> []))))
      in details_loop typedDetails (NewError (Sentinel err) msg) [] True)"

section \<open>REST\<close>

record rest_mapping =
  rm_err :: sentinel
  rm_httpStatus :: int
  rm_grpcStatus :: string

definition rest_errorMappings :: "rest_mapping list" where
  "rest_errorMappings = map (\<lambda>(e, h, g). \<lparr>rm_err = e, rm_httpStatus = h, rm_grpcStatus = g\<rparr>)
    [(ErrParseError, 400, ''INVALID_ARGUMENT''), (ErrInvalidRequest, 400, ''INVALID_ARGUMENT''),
     (ErrMethodNotFound, 501, ''UNIMPLEMENTED''), (ErrInvalidParams, 400, ''INVALID_ARGUMENT''),
     (ErrInternalError, 500, ''INTERNAL''), (ErrServerError, 500, ''INTERNAL''),
     (ErrTaskNotFound, 404, ''NOT_FOUND''), (ErrTaskNotCancelable, 400, ''FAILED_PRECONDITION''),
     (ErrPushNotificationNotSupported, 400, ''FAILED_PRECONDITION''),
     (ErrUnsupportedOperation, 400, ''FAILED_PRECONDITION''),
     (ErrUnsupportedContentType, 400, ''INVALID_ARGUMENT''),
     (ErrInvalidAgentResponse, 500, ''INTERNAL''),
     (ErrExtendedCardNotConfigured, 400, ''FAILED_PRECONDITION''),
     (ErrExtensionSupportRequired, 400, ''FAILED_PRECONDITION''),
     (ErrVersionNotSupported, 400, ''FAILED_PRECONDITION''),
     (ErrUnauthenticated, 401, ''UNAUTHENTICATED''), (ErrUnauthorized, 403, ''PERMISSION_DENIED''),
     (ErrContextCanceled, 499, ''CANCELLED''),
     (ErrContextDeadlineExceeded, 504, ''DEADLINE_EXCEEDED'')]"

record rest_error =
  re_httpStatus :: int
  re_Status :: string
  re_Message :: string
  re_Details :: "typed list"

text \<open>The body on the wire, decoded up to the raw details.\<close>

record rest_body =
  rb_Code :: int
  rb_Status :: string
  rb_Message :: string
  rb_Details :: "any list"

definition ToRESTError :: "(go_error \<Rightarrow> string) \<Rightarrow> string \<Rightarrow> go_error \<Rightarrow> task_id \<Rightarrow> rest_error" where
  "ToRESTError text now err taskID =
     (let (httpStatus, grpcStatus, reason) =
            (case List.find (\<lambda>m. errors_Is err (rm_err m)) rest_errorMappings of
               None \<Rightarrow> (500, ''INTERNAL'', ''INTERNAL_ERROR'')
             | Some m \<Rightarrow> (rm_httpStatus m, rm_grpcStatus m,
                          ErrorReason a2a_sentinels (Sentinel (rm_err m))));
          metadata = fmupd ''timestamp'' now fmempty;
          metadata1 = (if taskID \<noteq> '''' then fmupd ''taskId'' taskID metadata else metadata);
          (details, metadata2) = attached_details err metadata1
      in \<lparr>re_httpStatus = httpStatus, re_Status = grpcStatus, re_Message = text err,
          re_Details = details @ [NewErrorInfo reason ProtocolDomain (Some metadata2)]\<rparr>)"

text \<open>The JSON of the response; the status code is also the code of the body.\<close>

definition encode_rest_error :: "(rat \<Rightarrow> rat) \<Rightarrow> rest_error \<Rightarrow> rest_body option" where
  "encode_rest_error f32 e =
     map_option (\<lambda>ds. \<lparr>rb_Code = re_httpStatus e, rb_Status = re_Status e,
                        rb_Message = re_Message e, rb_Details = ds\<rparr>)
       (those (map (Typed_MarshalJSON f32) (re_Details e)))"

text \<open>
  Decoding into the struct \<open>ErrorInfo\<close>: its reason and domain (null or missing: empty), and its
  metadata, a map of strings in which null is the empty string.
\<close>

definition string_field :: "(string, any) fmap \<Rightarrow> string \<Rightarrow> string option" where
  "string_field m k =
     (case fmlookup m k of None \<Rightarrow> Some '''' | Some ANil \<Rightarrow> Some '''' | Some (AString s) \<Rightarrow> Some s
      | _ \<Rightarrow> None)"

definition unmarshal_strings :: "any \<Rightarrow> (string, string) fmap option" where
  "unmarshal_strings v =
     (case v of
        ANil \<Rightarrow> Some fmempty
      | AMap m \<Rightarrow>
          (if fmpred (\<lambda>k x. case x of AString s \<Rightarrow> True | ANil \<Rightarrow> True | _ \<Rightarrow> False) m
           then Some (fmmap (\<lambda>x. case x of AString s \<Rightarrow> s | _ \<Rightarrow> '''') m) else None)
      | _ \<Rightarrow> None)"

definition unmarshal_error_info ::
  "(string, any) fmap \<Rightarrow> (string \<times> string \<times> (string, string) fmap) option" where
  "unmarshal_error_info m =
     (case (string_field m ''@type'', string_field m ''reason'', string_field m ''domain'',
            (case fmlookup m ''metadata'' of None \<Rightarrow> Some fmempty | Some v \<Rightarrow> unmarshal_strings v)) of
        (Some t, Some r, Some d, Some md) \<Rightarrow> Some (r, d, md)
      | _ \<Rightarrow> None)"

text \<open>What the loop of \<open>ConvertErrorBody\<close> collects.\<close>

record collected =
  co_reason :: string
  co_meta :: "(string, string) fmap"
  co_details :: "(string, any) fmap"
  co_typed :: "typed list"
  co_first :: bool

definition start_collecting :: collected where
  "start_collecting = \<lparr>co_reason = '''', co_meta = fmempty, co_details = fmempty, co_typed = [],
     co_first = True\<rparr>"

text \<open>A detail that is not an ErrorInfo: the first one also becomes the details of the error.\<close>

definition collect_typed :: "collected \<Rightarrow> typed \<Rightarrow> collected" where
  "collect_typed c extra =
     c\<lparr>co_details := (if co_first c then maps_copy (co_details c) (gm_fmap (Value extra))
                     else co_details c),
       co_first := False, co_typed := co_typed c @ [extra]\<rparr>"

definition collect_raw :: "collected \<Rightarrow> any \<Rightarrow> collected" where
  "collect_raw c raw =
     (let hint = (case raw of AMap m \<Rightarrow> string_field m ''@type'' | _ \<Rightarrow> None)
      in if hint = Some ErrorInfoType
         then (case raw of
                 AMap m \<Rightarrow>
                   (case unmarshal_error_info m of
                      None \<Rightarrow> c
                    | Some (r, d, md) \<Rightarrow>
                        (if d \<noteq> ProtocolDomain then c
                         else c\<lparr>co_reason := r, co_meta := maps_copy (co_meta c) md\<rparr>))
               | _ \<Rightarrow> c)
         else (case Typed_UnmarshalJSON raw of None \<Rightarrow> c | Some extra \<Rightarrow> collect_typed c extra))"

text \<open>The end of the conversion, shared with the gRPC form.\<close>

definition finish_error :: "sentinel \<Rightarrow> string \<Rightarrow> collected \<Rightarrow> string + go_error" where
  "finish_error baseErr message c =
     (let out = NewError (Sentinel baseErr) message;
          with_meta = (if fmdom (co_meta c) \<noteq> {||} then WithErrorInfoMeta out (co_meta c) else Inr out)
      in case with_meta of
           Inl panic \<Rightarrow> Inl panic
         | Inr out1 \<Rightarrow>
             Inr (WithTypedDetails
                    (if fmdom (co_details c) \<noteq> {||} then WithDetails out1 (Some (co_details c)) else out1)
                    (co_typed c)))"

definition errorFromHTTPStatus :: "int \<Rightarrow> sentinel \<Rightarrow> sentinel" where
  "errorFromHTTPStatus statusCode fallback =
     (if statusCode = 401 then ErrUnauthenticated
      else if statusCode = 403 then ErrUnauthorized
      else if statusCode = 404 \<or> statusCode = 405 \<or> statusCode = 501 then ErrMethodNotFound
      else fallback)"

definition ConvertErrorBody :: "rest_body \<Rightarrow> string + go_error" where
  "ConvertErrorBody body =
     (let c = foldl collect_raw start_collecting (rb_Details body);
          baseErr =
            (case List.find (\<lambda>m. ErrorReason a2a_sentinels (Sentinel (rm_err m)) = co_reason c)
                    rest_errorMappings of
               Some m \<Rightarrow> rm_err m
             | None \<Rightarrow> errorFromHTTPStatus (rb_Code body) ErrInternalError)
      in finish_error baseErr (rb_Message body) c)"

text \<open>
  \<open>FromRESTError\<close>: whether the content type is JSON, what \<open>DecodeJSON\<close> says about the body,
  the status code, and the text that quotes the body.
\<close>

datatype decoded = Decoded "rest_body option" | TrailingData go_error | NotDecoded

definition FromRESTError :: "bool \<Rightarrow> decoded \<Rightarrow> int \<Rightarrow> string \<Rightarrow> string + go_error" where
  "FromRESTError is_json body statusCode quoted =
     (case (is_json, body) of
        (True, Decoded (Some b)) \<Rightarrow> ConvertErrorBody b
      | (True, TrailingData err) \<Rightarrow>
          Inr (Errorf ''failed to decode error response: %w: %w'' [err, Sentinel ErrParseError])
      | _ \<Rightarrow> Inr (NewError (Sentinel (errorFromHTTPStatus statusCode ErrServerError)) quoted))"

text \<open>An item of an event stream: a wrapper of an event, or an error.\<close>

definition ParseStreamResponse ::
  "event_wrapper \<Rightarrow> rest_body option \<Rightarrow> string + (go_error + event)" where
  "ParseStreamResponse w error =
     (let events =
        (case w_Message w of None \<Rightarrow> [] | Some v \<Rightarrow> [EMessage v]) @
        (case w_Task w of None \<Rightarrow> [] | Some (a, v) \<Rightarrow> [ETask a v]) @
        (case w_StatusUpdate w of None \<Rightarrow> [] | Some v \<Rightarrow> [EStatus v]) @
        (case w_ArtifactUpdate w of None \<Rightarrow> [] | Some v \<Rightarrow> [EArtifact v]);
        n = length events + (if error = None then 0 else 1)
      in case map_option ConvertErrorBody error of
           Some (Inl panic) \<Rightarrow> Inl panic
         | errResp \<Rightarrow>
             Inr (if n = 0 then Inl (Errorf ''unknown stream response type'' [])
                  else if n \<noteq> 1
                  then Inl (Errorf ''expected exactly one stream response type, got %d'' [])
                  else (case errResp of Some (Inr e) \<Rightarrow> Inl e | _ \<Rightarrow> Inr (last events))))"

section \<open>gRPC\<close>

datatype grpc_code =
    Canceled | InvalidArgument | DeadlineExceeded | NotFound | PermissionDenied
  | FailedPrecondition | Unimplemented | Internal | Unauthenticated | OtherCode nat

definition grpc_errorMappings :: "(grpc_code \<times> sentinel) list" where
  "grpc_errorMappings =
    [(NotFound, ErrTaskNotFound), (FailedPrecondition, ErrTaskNotCancelable),
     (FailedPrecondition, ErrUnsupportedOperation), (InvalidArgument, ErrInvalidParams),
     (Internal, ErrInternalError), (Unauthenticated, ErrUnauthenticated),
     (PermissionDenied, ErrUnauthorized), (Canceled, ErrContextCanceled),
     (DeadlineExceeded, ErrContextDeadlineExceeded),
     (FailedPrecondition, ErrExtendedCardNotConfigured),
     (FailedPrecondition, ErrPushNotificationNotSupported), (Unimplemented, ErrMethodNotFound),
     (InvalidArgument, ErrUnsupportedContentType), (InvalidArgument, ErrInvalidRequest),
     (Internal, ErrInvalidAgentResponse), (FailedPrecondition, ErrExtensionSupportRequired),
     (FailedPrecondition, ErrVersionNotSupported), (InvalidArgument, ErrParseError),
     (Internal, ErrServerError)]"

text \<open>
  The packages \<open>status\<close> and \<open>structpb\<close> are arguments: structs \<open>'s\<close> with their conversions
  from and to maps, attaching details to a status, and the status in an error's chain.
\<close>

datatype 's grpc_detail =
    DErrorInfo string string "(string, string) fmap"
  | DStruct 's
  | DOther

record 's grpc_status =
  gs_Code :: grpc_code
  gs_Message :: string
  gs_Details :: "'s grpc_detail list"

record 's grpc_ops =
  NewStruct :: "(string, any) fmap \<Rightarrow> 's option"
  AsMap :: "'s \<Rightarrow> (string, any) fmap"
  AttachDetails :: "'s grpc_status \<Rightarrow> 's grpc_detail list \<Rightarrow> 's grpc_status option"
  FromError :: "go_error \<Rightarrow> 's grpc_status option"

fun grpc_collect ::
  "'s grpc_ops \<Rightarrow> typed list \<Rightarrow> (string, string) fmap \<Rightarrow>
     's grpc_detail list \<times> (string, string) fmap" where
  "grpc_collect G [] errInfoMeta = ([], errInfoMeta)"
| "grpc_collect G (d # ds) errInfoMeta =
     (if TypeURL d = ErrorInfoType
      then grpc_collect G ds
             (case gm_lookup (Value d) ''metadata'' of
                None \<Rightarrow> errInfoMeta
              | Some rawMeta \<Rightarrow> (case ToStringMap rawMeta of None \<Rightarrow> errInfoMeta | Some m \<Rightarrow> m))
      else (let (messages, md) = grpc_collect G ds errInfoMeta
            in (case NewStruct G (gm_fmap (Value d)) of
                  None \<Rightarrow> messages | Some s \<Rightarrow> DStruct s # messages, md)))"

definition grpc_messages ::
  "'s grpc_ops \<Rightarrow> go_error \<Rightarrow> 's grpc_detail list \<times> (string, string) fmap" where
  "grpc_messages G err =
     (case As_Error err of
        Some (A2AError c m details ts) \<Rightarrow>
          (let (messages, errInfoMeta) = grpc_collect G ts fmempty
           in ((if gm_len details > 0
                then (case NewStruct G (gm_fmap details) of None \<Rightarrow> [] | Some s \<Rightarrow> [DStruct s])
                else []) @ messages, errInfoMeta))
      | _ \<Rightarrow> ([], fmempty))"

text \<open>\<open>Inl\<close>: the error has a gRPC status already and is returned as it is.\<close>

definition ToGRPCError ::
  "'s grpc_ops \<Rightarrow> (go_error \<Rightarrow> string) \<Rightarrow> go_error \<Rightarrow> go_error + 's grpc_status" where
  "ToGRPCError G text err =
     (if FromError G err \<noteq> None then Inl err
      else
        (let (code, reason) =
               (case List.find (\<lambda>(c, e). errors_Is err e) grpc_errorMappings of
                  None \<Rightarrow> (Internal, ''INTERNAL_ERROR'')
                | Some (c, e) \<Rightarrow> (c, ErrorReason a2a_sentinels (Sentinel e)));
             st = \<lparr>gs_Code = code, gs_Message = text err, gs_Details = []\<rparr>;
             (messages, errInfoMeta) = grpc_messages G err;
             errInfo = DErrorInfo reason ProtocolDomain errInfoMeta
         in case AttachDetails G st (messages @ [errInfo]) of
              None \<Rightarrow> Inr st
            | Some withDetails \<Rightarrow> Inr withDetails))"

definition grpc_detail_step :: "'s grpc_ops \<Rightarrow> collected \<Rightarrow> 's grpc_detail \<Rightarrow> collected" where
  "grpc_detail_step G c d =
     (case d of
        DErrorInfo r domain md \<Rightarrow> c\<lparr>co_reason := r, co_meta := maps_copy (co_meta c) md\<rparr>
      | DStruct v \<Rightarrow> collect_typed c (NewFromStruct (Some (AsMap G v)))
      | DOther \<Rightarrow> c)"

definition FromGRPCStatus :: "'s grpc_ops \<Rightarrow> 's grpc_status \<Rightarrow> string + go_error" where
  "FromGRPCStatus G s =
     (let c = foldl (grpc_detail_step G) start_collecting (gs_Details s);
          found =
            (if co_reason c \<noteq> ''''
             then List.find (\<lambda>(code, e). ErrorReason a2a_sentinels (Sentinel e) = co_reason c \<and>
                                          gs_Code s = code) grpc_errorMappings
             else List.find (\<lambda>(code, e). gs_Code s = code) grpc_errorMappings);
          baseErr = (case found of None \<Rightarrow> ErrInternalError | Some (code, e) \<Rightarrow> e)
      in finish_error baseErr (gs_Message s) c)"

definition FromGRPCError :: "'s grpc_ops \<Rightarrow> go_error \<Rightarrow> string + go_error" where
  "FromGRPCError G err = (case FromError G err of None \<Rightarrow> Inr err | Some s \<Rightarrow> FromGRPCStatus G s)"

section \<open>The kind of an error\<close>

text \<open>The error is of one kind: of the sentinels the transports know, exactly \<open>s\<close> is in its chain.\<close>

definition carries :: "go_error \<Rightarrow> sentinel \<Rightarrow> bool" where
  "carries err s \<longleftrightarrow> s \<in> set a2a_sentinels \<and>
     (\<forall>t \<in> set (ErrContextCanceled # ErrContextDeadlineExceeded # a2a_sentinels).
        errors_Is err t \<longleftrightarrow> t = s)"

lemma carries_find:
  assumes "carries err s" "f ` set xs \<subseteq> set (ErrContextCanceled # ErrContextDeadlineExceeded # a2a_sentinels)"
  shows "List.find (\<lambda>x. errors_Is err (f x)) xs = List.find (\<lambda>x. f x = s) xs"
  using assms by (intro find_cong) (auto simp: carries_def)

lemma codeToError_distinct: "distinct (map fst codeToError)"
  by (simp add: codeToError_def)

lemma codeToError_sentinels: "set (map snd codeToError) = set a2a_sentinels"
  by (auto simp: codeToError_def a2a_sentinels_def)

lemma jsonrpc_find:
  assumes "carries err s" "set order = set codeToError"
  obtains c where "List.find (\<lambda>(c, target). errors_Is err target) order = Some (c, s)"
    "map_of codeToError c = Some s"
proof -
  have "snd ` set codeToError = set a2a_sentinels"
    using codeToError_sentinels by simp
  then have sub: "snd ` set order \<subseteq> set (ErrContextCanceled # ErrContextDeadlineExceeded # a2a_sentinels)"
    and ex: "\<exists>x \<in> set order. snd x = s"
    using assms by (auto simp: carries_def) (metis imageE)+
  have eq: "List.find (\<lambda>(c, target). errors_Is err target) order = List.find (\<lambda>x. snd x = s) order"
    using carries_find[OF assms(1) sub] by (simp add: case_prod_unfold)
  obtain x where x: "List.find (\<lambda>x. snd x = s) order = Some x"
    using ex by (cases "List.find (\<lambda>x. snd x = s) order") (auto simp: find_None_iff)
  then have "x \<in> set codeToError" "snd x = s"
    using assms(2) by (auto simp: find_Some_iff)
  then have "map_of codeToError (fst x) = Some s"
    by (intro map_of_is_SomeI codeToError_distinct) (metis prod.collapse)
  with x eq \<open>snd x = s\<close> that show thesis by (metis prod.collapse)
qed

text \<open>The ErrorInfo detail that a decoded error ends up with.\<close>

definition error_info :: "string \<Rightarrow> (string, string) fmap \<Rightarrow> typed" where
  "error_info r md = \<lparr>TypeURL = ErrorInfoType, Value = Some (fmupd ''metadata'' (AStrMap md)
     (fmupd ''domain'' (AString ProtocolDomain) (fmupd ''reason'' (AString r) fmempty)))\<rparr>"

lemma error_info_simps [simp]: "TypeURL (error_info r md) = ErrorInfoType"
  by (simp add: error_info_def)

lemma WithErrorInfoMeta_new [simp]:
  "WithErrorInfoMeta (A2AError (Some (Sentinel s)) m d []) md =
     Inr (A2AError (Some (Sentinel s)) m d [error_info (reason_text s) md])"
  by (simp add: WithErrorInfoMeta_def ErrorInfo_def NewErrorInfo_def NewTyped_def Let_def gm_len_def
      gm_keys_def error_info_def)

lemma fmupd_twice: "fmupd k v (fmupd k w m) = fmupd k v m"
  by (rule fmap_ext) simp

lemma WithErrorInfoMeta_again [simp]:
  "WithErrorInfoMeta (A2AError c m d [error_info r md]) md' =
     Inr (A2AError c m d [error_info r md'])"
  by (simp add: WithErrorInfoMeta_def ErrorInfo_def error_info_def fmupd_twice)

lemma NewErrorInfo_meta:
  "fmdom md \<noteq> {||} \<Longrightarrow> NewErrorInfo r ProtocolDomain (Some md) = error_info r md"
  by (simp add: NewErrorInfo_def NewTyped_def error_info_def gm_len_keys gm_keys_def)

section \<open>Details on their way\<close>

text \<open>The metadata that a list of details carries to a client: that of the last ErrorInfo with some.\<close>

definition info_meta :: "typed \<Rightarrow> (string, string) fmap option" where
  "info_meta d = (if TypeURL d = ErrorInfoType
     then (case gm_lookup (Value d) ''metadata'' of None \<Rightarrow> None | Some raw \<Rightarrow> ToStringMap raw) else None)"

lemma collect_details_spec:
  "collect_details ds md =
     (filter (\<lambda>d. TypeURL d \<noteq> ErrorInfoType) ds, foldl maps_copy md (List.map_filter info_meta ds))"
  by (induction ds md rule: collect_details.induct)
    (auto simp: map_filter_simps info_meta_def split: option.splits)

lemma attached_no_info:
  "attached_details err md = (data, md') \<Longrightarrow> \<forall>d \<in> set data. TypeURL d \<noteq> ErrorInfoType"
  by (auto simp: attached_details_def collect_details_spec Let_def NewFromStruct_def NewTyped_def
      StructType_def ErrorInfoType_def split: option.splits go_error.splits if_splits)

lemma foldl_maps_copy_dom: "k |\<in>| fmdom md \<Longrightarrow> k |\<in>| fmdom (foldl maps_copy md ms)"
  by (induction ms arbitrary: md) (auto simp: maps_copy_def)

lemma attached_keeps_keys:
  "attached_details err md = (data, md') \<Longrightarrow> k |\<in>| fmdom md \<Longrightarrow> k |\<in>| fmdom md'"
  by (auto simp: attached_details_def collect_details_spec Let_def foldl_maps_copy_dom
      split: option.splits go_error.splits)

lemma details_loop_plain:
  assumes "\<forall>d \<in> set ds. TypeURL d \<noteq> ErrorInfoType"
  shows "details_loop (map Some ds @ rest) (A2AError c m det ts) acc first =
    details_loop rest (A2AError c m (if first \<and> ds \<noteq> [] then Value (hd ds) else det) ts) (acc @ ds)
      (first \<and> ds = [])"
  using assms by (induction ds arbitrary: det acc first) auto

lemma marshal_list:
  "those (map (Typed_MarshalJSON f32) ds) =
     (if list_all typed_encodable ds then Some (map (\<lambda>d. the (Typed_MarshalJSON f32 d)) ds) else None)"
proof (induction ds)
  case (Cons d ds)
  then show ?case
    using Typed_MarshalJSON_iff[of f32 d] by (cases "Typed_MarshalJSON f32 d") simp_all
qed simp

lemma unmarshal_marshalled:
  assumes "typed_encodable d"
  shows "unmarshal_pointer (the (Typed_MarshalJSON f32 d)) = Some (Some (typed_norm f32 d))"
proof -
  obtain j where j: "Typed_MarshalJSON f32 d = Some j"
    using assms Typed_MarshalJSON_iff[of f32 d] by auto
  then have "j \<noteq> ANil" by (auto simp: Typed_MarshalJSON_def Let_def split: if_splits)
  with j Typed_roundtrip[OF j] show ?thesis by (simp add: unmarshal_pointer_def)
qed

lemma parse_marshalled:
  "list_all typed_encodable ds \<Longrightarrow>
     parse_details (AArr (map (\<lambda>d. the (Typed_MarshalJSON f32 d)) ds)) =
     Some (map Some (map (typed_norm f32) ds))"
  unfolding parse_details_def
  by (induction ds) (simp_all add: unmarshal_marshalled)

lemma info_meta_norm [simp]: "info_meta (typed_norm f32 d) = info_meta d"
proof -
  have "gm_lookup (Value (typed_norm f32 d)) ''metadata'' =
    map_option (json_norm f32) (gm_lookup (Value d) ''metadata'')"
    by (cases "Value d") (simp_all add: typed_norm_def)
  then show ?thesis
    by (simp add: info_meta_def split: option.splits)
qed

lemma info_meta_error_info [simp]: "info_meta (error_info r md) = Some md"
  by (simp add: info_meta_def error_info_def ToStringMap_def)

lemma error_info_encodable [simp]: "typed_encodable (error_info r md)"
  by (simp add: typed_encodable_def error_info_def encodable_map_def fmpred_iff)

text \<open>The last detail of a message is its ErrorInfo.\<close>

lemma details_loop_info:
  assumes "TypeURL d = ErrorInfoType" "info_meta d = Some md"
  shows "details_loop [Some d] (A2AError (Some (Sentinel s)) m det []) acc first =
    Inr (A2AError (Some (Sentinel s)) m det (error_info (reason_text s) md # acc))"
  using assms by (auto simp: info_meta_def split: option.splits)

text \<open>
  A JSON-RPC error is decoded to an error of the same kind, with the same text. Its details are the
  first of the details sent, and its typed details are the ErrorInfo and all details sent, as JSON
  keeps them; if JSON refuses one of them, the client gets none, but still the kind.
\<close>

lemma jsonrpc_error_roundtrip:
  assumes kind: "carries err s" and order: "set order = set codeToError" and "text err \<noteq> ''''"
    and details: "attached_details err (fmupd ''timestamp'' now fmempty) = (data, md)"
  shows "FromJSONRPCError text (ToJSONRPCError f32 text order now None err) =
    Inr (if list_all typed_encodable data
         then A2AError (Some (Sentinel s)) (text err)
                (if data = [] then None else Value (typed_norm f32 (hd data)))
                (error_info (reason_text s) md # map (typed_norm f32) data)
         else A2AError (Some (Sentinel s)) (text err) None [])"
proof -
  obtain c where c: "List.find (\<lambda>(c, target). errors_Is err target) order = Some (c, s)"
    "map_of codeToError c = Some s"
    using jsonrpc_find[OF kind order] by blast
  have "''timestamp'' |\<in>| fmdom md"
    using attached_keeps_keys[OF details] by simp
  then have info: "NewErrorInfo (reason_text s) ProtocolDomain (Some md) = error_info (reason_text s) md"
    by (intro NewErrorInfo_meta) auto
  define ds where "ds = map (typed_norm f32) data"
  have plain: "\<forall>d \<in> set ds. TypeURL d \<noteq> ErrorInfoType"
    using attached_no_info[OF details] by (simp add: ds_def)
  have tail: "details_loop [Some (typed_norm f32 (error_info (reason_text s) md))]
      (A2AError (Some (Sentinel s)) m det []) acc first =
    Inr (A2AError (Some (Sentinel s)) m det (error_info (reason_text s) md # acc))" for m det acc first
    by (rule details_loop_info) simp_all
  have parse: "parse_details (AArr (map (\<lambda>d. the (Typed_MarshalJSON f32 d)) (data @ [error_info (reason_text s) md]))) =
    Some (map Some ds @ [Some (typed_norm f32 (error_info (reason_text s) md))])"
    if "list_all typed_encodable data"
    using that by (subst parse_marshalled) (simp_all add: ds_def)
  show ?thesis
  proof (cases "list_all typed_encodable data")
    case True
    then have "FromJSONRPCError text (ToJSONRPCError f32 text order now None err) =
      Inr (A2AError (Some (Sentinel s)) (text err) (if ds = [] then None else Value (hd ds))
        (error_info (reason_text s) md # ds))"
      using parse[OF True] assms(3)
      by (simp add: ToJSONRPCError_def FromJSONRPCError_def c info details Let_def NewError_def
          marshal_list details_loop_plain[OF plain] tail del: details_loop.simps map_append)
    with True show ?thesis by (simp add: ds_def hd_map)
  next
    case False
    then show ?thesis
      using assms(3)
      by (simp add: ToJSONRPCError_def FromJSONRPCError_def c info details Let_def NewError_def
          marshal_list del: map_append)
  qed
qed

section \<open>REST errors\<close>

lemma collect_raw_typed:
  assumes "typed_encodable d" "TypeURL d \<noteq> ErrorInfoType"
  shows "collect_raw c (the (Typed_MarshalJSON f32 d)) = collect_typed c (typed_norm f32 d)"
proof -
  obtain j where j: "Typed_MarshalJSON f32 d = Some j"
    using assms Typed_MarshalJSON_iff[of f32 d] by auto
  then obtain m where m: "j = AMap m" "fmlookup m ''@type'' = Some (AString (TypeURL d))"
    by (auto simp: Typed_MarshalJSON_def Let_def split: if_splits)
  with j Typed_roundtrip[OF j] assms(2) show ?thesis
    by (simp add: collect_raw_def string_field_def)
qed

lemma collect_raw_info:
  "collect_raw c (the (Typed_MarshalJSON f32 (error_info r md))) =
     c\<lparr>co_reason := r, co_meta := maps_copy (co_meta c) md\<rparr>"
proof -
  have "the (Typed_MarshalJSON f32 (error_info r md)) =
    AMap (fmupd ''@type'' (AString ErrorInfoType) (fmupd ''metadata'' (AMap (fmmap AString md))
      (fmupd ''domain'' (AString ProtocolDomain) (fmupd ''reason'' (AString r) fmempty))))"
    using error_info_encodable[of r md]
    by (simp add: Typed_MarshalJSON_def Let_def encodable_map_upd_iff typed_encodable_def error_info_def)
  moreover have "fmmap ((\<lambda>x. case x of AString s \<Rightarrow> s | _ \<Rightarrow> '''') \<circ> AString) md = md"
    by (rule fmap_ext) (simp add: option.map_ident o_def)
  ultimately show ?thesis
    by (auto simp: collect_raw_def string_field_def unmarshal_error_info_def unmarshal_strings_def
        fmpred_iff fmap.map_comp)
qed

lemma start_collecting_simps [simp]:
  "co_reason start_collecting = ''''" "co_meta start_collecting = fmempty"
  "co_details start_collecting = fmempty" "co_typed start_collecting = []" "co_first start_collecting"
  by (simp_all add: start_collecting_def)

lemma collect_typed_list:
  "foldl collect_typed start_collecting ds = start_collecting\<lparr>co_first := (ds = []),
     co_details := (if ds = [] then fmempty else gm_fmap (Value (hd ds))), co_typed := ds\<rparr>"
proof (induction ds rule: rev_induct)
  case (snoc d ds)
  then show ?case by (simp add: collect_typed_def)
qed (simp add: start_collecting_def)

lemma finish_error_ok:
  "finish_error s m c = Inr (A2AError (Some (Sentinel s)) m
     (if fmdom (co_details c) \<noteq> {||} then Some (co_details c) else None)
     ((if fmdom (co_meta c) \<noteq> {||} then [error_info (reason_text s) (co_meta c)] else []) @ co_typed c))"
  by (simp add: finish_error_def NewError_def Let_def)

lemma carries_rest_find:
  assumes "carries err s"
  obtains m where "List.find (\<lambda>m. errors_Is err (rm_err m)) rest_errorMappings = Some m" "rm_err m = s"
    "List.find (\<lambda>m. ErrorReason a2a_sentinels (Sentinel (rm_err m)) = reason_text s)
       rest_errorMappings = Some m"
proof -
  have s: "s \<in> set a2a_sentinels" using assms by (simp add: carries_def)
  have "List.find (\<lambda>m. errors_Is err (rm_err m)) rest_errorMappings =
      List.find (\<lambda>m. rm_err m = s) rest_errorMappings"
    by (rule carries_find[OF assms]) (simp add: rest_errorMappings_def a2a_sentinels_def)
  moreover have "\<exists>m. List.find (\<lambda>m. rm_err m = s) rest_errorMappings = Some m \<and> rm_err m = s \<and>
    List.find (\<lambda>m. ErrorReason a2a_sentinels (Sentinel (rm_err m)) = reason_text s)
       rest_errorMappings = Some m"
    by (insert s, cases s) (simp_all add: rest_errorMappings_def a2a_sentinels_def reason_text_def)
  ultimately show thesis using that by auto
qed

lemma encode_rest_error_None:
  "encode_rest_error f32 e = None \<longleftrightarrow> \<not> list_all typed_encodable (re_Details e)"
  by (simp add: encode_rest_error_def marshal_list)

text \<open>
  A REST error is decoded in the same way: the kind, the text, the details sent and an ErrorInfo
  with its metadata. An error with details that JSON refuses has no body.
\<close>

lemma rest_error_roundtrip:
  assumes kind: "carries err s"
    and details: "attached_details err (if taskID \<noteq> '''' then fmupd ''taskId'' taskID
      (fmupd ''timestamp'' now fmempty) else fmupd ''timestamp'' now fmempty) = (data, md)"
    and body: "encode_rest_error f32 (ToRESTError text now err taskID) = Some body"
  shows "ConvertErrorBody body =
    Inr (A2AError (Some (Sentinel s)) (text err)
           (if data \<noteq> [] \<and> gm_keys (Value (typed_norm f32 (hd data))) \<noteq> {||}
            then Value (typed_norm f32 (hd data)) else None)
           (error_info (reason_text s) md # map (typed_norm f32) data))"
proof -
  obtain m where m: "List.find (\<lambda>m. errors_Is err (rm_err m)) rest_errorMappings = Some m" "rm_err m = s"
    "List.find (\<lambda>m. ErrorReason a2a_sentinels (Sentinel (rm_err m)) = reason_text s)
       rest_errorMappings = Some m"
    using carries_rest_find[OF kind] by blast
  have "''timestamp'' |\<in>| fmdom md"
    using attached_keeps_keys[OF details, of "''timestamp''"] by (auto split: if_splits)
  then have md: "fmdom md \<noteq> {||}" by auto
  then have info: "NewErrorInfo (reason_text s) ProtocolDomain (Some md) = error_info (reason_text s) md"
    by (rule NewErrorInfo_meta)
  from body have b: "list_all typed_encodable data"
    "rb_Message body = text err" "rb_Details body =
      map (\<lambda>d. the (Typed_MarshalJSON f32 d)) data @ [the (Typed_MarshalJSON f32 (error_info (reason_text s) md))]"
    using marshal_list[of f32 "data @ [error_info (reason_text s) md]"]
    by (auto simp: ToRESTError_def encode_rest_error_def Let_def m details[simplified] info
        split: if_splits)
  have "foldl collect_raw c (map (\<lambda>d. the (Typed_MarshalJSON f32 d)) data) =
      foldl collect_typed c (map (typed_norm f32) data)" for c
    using b(1) attached_no_info[OF details] by (induction data arbitrary: c) (simp_all add: collect_raw_typed)
  then have "foldl collect_raw start_collecting (rb_Details body) =
    (foldl collect_typed start_collecting (map (typed_norm f32) data))\<lparr>co_reason := reason_text s, co_meta := md\<rparr>"
    by (simp add: b(3) collect_raw_info collect_typed_list)
  moreover have "Value (typed_norm f32 w) = Some (gm_fmap (Value (typed_norm f32 w)))" for w
    by (simp add: typed_norm_def)
  ultimately show ?thesis
    using md m by (auto simp: ConvertErrorBody_def Let_def collect_typed_list finish_error_ok b(2) hd_map
        gm_keys_def)
qed

section \<open>gRPC errors\<close>

text \<open>
  What the gRPC packages promise: a struct gives back the map it was made of, with numbers as
  float64, and details are attached behind those a status has.
\<close>

definition grpc_ok :: "'s grpc_ops \<Rightarrow> bool" where
  "grpc_ok G \<longleftrightarrow>
     (\<forall>m s. NewStruct G m = Some s \<longrightarrow> AsMap G s = norm_map (\<lambda>r. r) m) \<and>
     (\<forall>st ds st'. AttachDetails G st ds = Some st' \<longrightarrow> st' = st\<lparr>gs_Details := gs_Details st @ ds\<rparr>)"

lemma grpc_ok_attach:
  "AttachDetails G st ds = Some st' \<Longrightarrow> grpc_ok G \<Longrightarrow>
     gs_Code st' = gs_Code st \<and> gs_Message st' = gs_Message st \<and> gs_Details st' = gs_Details st @ ds"
proof -
  assume "AttachDetails G st ds = Some st'" "grpc_ok G"
  then have "st' = st\<lparr>gs_Details := gs_Details st @ ds\<rparr>" unfolding grpc_ok_def by blast
  then show ?thesis by simp
qed

lemma carries_grpc_find:
  assumes "carries err s"
  obtains c where "List.find (\<lambda>(c, e). errors_Is err e) grpc_errorMappings = Some (c, s)"
    "List.find (\<lambda>(code, e). ErrorReason a2a_sentinels (Sentinel e) = reason_text s \<and> c = code)
       grpc_errorMappings = Some (c, s)" "reason_text s \<noteq> ''''"
proof -
  have s: "s \<in> set a2a_sentinels" using assms by (simp add: carries_def)
  have "List.find (\<lambda>x. errors_Is err (snd x)) grpc_errorMappings =
      List.find (\<lambda>x. snd x = s) grpc_errorMappings"
    by (rule carries_find[OF assms]) (simp add: grpc_errorMappings_def a2a_sentinels_def)
  moreover have "\<exists>c. List.find (\<lambda>x. snd x = s) grpc_errorMappings = Some (c, s) \<and>
    List.find (\<lambda>(code, e). ErrorReason a2a_sentinels (Sentinel e) = reason_text s \<and> c = code)
       grpc_errorMappings = Some (c, s) \<and> reason_text s \<noteq> ''''"
    by (insert s, cases s) (simp_all add: grpc_errorMappings_def a2a_sentinels_def reason_text_def)
  ultimately show thesis using that by (auto simp: case_prod_unfold)
qed

lemma foldl_grpc_structs:
  assumes "\<forall>d \<in> set ds. \<exists>v. d = DStruct v"
  shows "co_reason (foldl (grpc_detail_step G) c ds) = co_reason c \<and>
    co_meta (foldl (grpc_detail_step G) c ds) = co_meta c"
  using assms
  by (induction ds arbitrary: c) (auto simp: grpc_detail_step_def collect_typed_def)

lemma grpc_collect_structs:
  "grpc_collect G ds md = (ms, md') \<Longrightarrow> \<forall>d \<in> set ms. \<exists>v. d = DStruct v"
  by (induction G ds md arbitrary: ms rule: grpc_collect.induct)
    (auto simp: Let_def split: if_splits option.splits prod.splits)

lemma grpc_messages_structs:
  "grpc_messages G err = (ms, md) \<Longrightarrow> \<forall>d \<in> set ms. \<exists>v. d = DStruct v"
  by (fastforce simp: grpc_messages_def dest: grpc_collect_structs
      split: option.splits go_error.splits prod.splits if_splits)

text \<open>A status with the details attached is decoded to an error of the same kind and text.\<close>

lemma grpc_error_kind:
  assumes G: "grpc_ok G" and kind: "carries err s" and "FromError G err = None"
    and st: "ToGRPCError G text err = Inr st" "gs_Details st \<noteq> []"
  shows "\<exists>det ts. FromGRPCStatus G st = Inr (A2AError (Some (Sentinel s)) (text err) det ts)"
proof -
  obtain c where c: "List.find (\<lambda>(c, e). errors_Is err e) grpc_errorMappings = Some (c, s)"
    "List.find (\<lambda>(code, e). ErrorReason a2a_sentinels (Sentinel e) = reason_text s \<and> c = code)
       grpc_errorMappings = Some (c, s)" "reason_text s \<noteq> ''''"
    using carries_grpc_find[OF kind] by blast
  obtain ms md where ms: "grpc_messages G err = (ms, md)" by fastforce
  have "gs_Code st = c \<and> gs_Message st = text err \<and>
      gs_Details st = ms @ [DErrorInfo (reason_text s) ProtocolDomain md]"
    using st G assms(3)
    by (auto simp: ToGRPCError_def Let_def c ms dest!: grpc_ok_attach split: option.splits if_splits)
  moreover have "grpc_detail_step G x (DErrorInfo r d m) = x\<lparr>co_reason := r, co_meta := maps_copy (co_meta x) m\<rparr>"
    for x r d m by (simp add: grpc_detail_step_def)
  ultimately show ?thesis
    using c foldl_grpc_structs[OF grpc_messages_structs[OF ms], of G start_collecting]
    by (simp add: FromGRPCStatus_def Let_def finish_error_ok)
qed

section \<open>What clients see\<close>

text \<open>
  C17: On every transport a client gets an error of the kind that the server returned, and of no other
  kind: whatever the order of the JSON-RPC code table; over REST when the details can be encoded,
  and over gRPC when they can be attached.
\<close>

theorem transports_keep_kind:
  assumes "carries err s" "text err \<noteq> ''''" "set order = set codeToError" "grpc_ok G"
  shows "(\<exists>e. FromJSONRPCError text (ToJSONRPCError f32 text order now None err) = Inr e \<and>
            (\<forall>t. errors_Is e t \<longleftrightarrow> t = s)) \<and>
    (\<forall>taskID body. encode_rest_error f32 (ToRESTError text now err taskID) = Some body \<longrightarrow>
       (\<exists>e. FromRESTError True (Decoded (Some body)) code quoted = Inr e \<and>
            (\<forall>t. errors_Is e t \<longleftrightarrow> t = s))) \<and>
    (\<forall>st. FromError G err = None \<longrightarrow> ToGRPCError G text err = Inr st \<longrightarrow> gs_Details st \<noteq> [] \<longrightarrow>
       (\<exists>e. FromGRPCStatus G st = Inr e \<and> (\<forall>t. errors_Is e t \<longleftrightarrow> t = s)))"
proof (intro conjI allI impI)
  obtain data md where "attached_details err (fmupd ''timestamp'' now fmempty) = (data, md)"
    by fastforce
  from jsonrpc_error_roundtrip[of err s order "text" now data md f32, OF assms(1,3,2) this]
  show "\<exists>e. FromJSONRPCError text (ToJSONRPCError f32 text order now None err) = Inr e \<and>
      (\<forall>t. errors_Is e t \<longleftrightarrow> t = s)"
    by (auto split: if_splits)
next
  fix taskID body
  assume body: "encode_rest_error f32 (ToRESTError text now err taskID) = Some body"
  obtain data md where "attached_details err (if taskID \<noteq> '''' then fmupd ''taskId'' taskID
      (fmupd ''timestamp'' now fmempty) else fmupd ''timestamp'' now fmempty) = (data, md)"
    by fastforce
  from rest_error_roundtrip[OF assms(1) this body]
  show "\<exists>e. FromRESTError True (Decoded (Some body)) code quoted = Inr e \<and>
      (\<forall>t. errors_Is e t \<longleftrightarrow> t = s)"
    by (auto simp: FromRESTError_def split: if_splits)
next
  fix st
  assume st: "FromError G err = None" "ToGRPCError G text err = Inr st" "gs_Details st \<noteq> []"
  from grpc_error_kind[OF assms(4,1) st]
  show "\<exists>e. FromGRPCStatus G st = Inr e \<and> (\<forall>t. errors_Is e t \<longleftrightarrow> t = s)" by auto
qed

text \<open>An instance of the gRPC packages: structs are normalised maps.\<close>

definition plain_grpc :: "(string, any) fmap grpc_ops" where
  "plain_grpc = \<lparr>NewStruct = (\<lambda>m. Some (norm_map (\<lambda>r. r) m)), AsMap = (\<lambda>m. m),
     AttachDetails = (\<lambda>st ds. Some (st\<lparr>gs_Details := gs_Details st @ ds\<rparr>)), FromError = (\<lambda>e. None)\<rparr>"

lemma plain_grpc_ok: "grpc_ok plain_grpc"
  by (simp add: grpc_ok_def plain_grpc_def)

definition missing_task_error :: go_error where
  "missing_task_error = Errorf ''failed to load a task: %w''
     [A2AError (Some (Sentinel ErrTaskNotFound)) ''no such task''
        (Some (fmupd ''attempts'' (AInt KInt 3) fmempty)) []]"

lemma missing_task_kind: "carries missing_task_error ErrTaskNotFound"
  by (simp add: carries_def missing_task_error_def a2a_sentinels_def)

lemma transports_keep_kind_witness:
  "\<exists>e body e' st e''.
    FromJSONRPCError (\<lambda>e. ''failed'')
      (ToJSONRPCError id (\<lambda>e. ''failed'') codeToError ''now'' None missing_task_error) = Inr e \<and>
    errors_Is e ErrTaskNotFound \<and>
    encode_rest_error id (ToRESTError (\<lambda>e. ''failed'') ''now'' missing_task_error ''t1'') = Some body \<and>
    FromRESTError True (Decoded (Some body)) 404 ''quoted'' = Inr e' \<and> errors_Is e' ErrTaskNotFound \<and>
    ToGRPCError plain_grpc (\<lambda>e. ''failed'') missing_task_error = Inr st \<and>
    FromGRPCStatus plain_grpc st = Inr e'' \<and> errors_Is e'' ErrTaskNotFound"
proof -
  have "encode_rest_error id (ToRESTError (\<lambda>e. ''failed'') ''now'' missing_task_error ''t1'') \<noteq> None"
    by (simp add: encode_rest_error_None ToRESTError_def missing_task_error_def attached_details_def
        rest_errorMappings_def Let_def NewErrorInfo_def NewTyped_def typed_encodable_def
        encodable_map_def fmpred_iff NewFromStruct_def)
  then obtain body where body:
    "encode_rest_error id (ToRESTError (\<lambda>e. ''failed'') ''now'' missing_task_error ''t1'') = Some body"
    by blast
  obtain st where st: "ToGRPCError plain_grpc (\<lambda>e. ''failed'') missing_task_error = Inr st"
    "gs_Details st \<noteq> []"
    by (simp add: ToGRPCError_def plain_grpc_def missing_task_error_def Let_def case_prod_unfold)
  have free: "FromError plain_grpc missing_task_error = None" by (simp add: plain_grpc_def)
  have ne: "''failed'' \<noteq> ''''" by simp
  note kept = transports_keep_kind[of missing_task_error ErrTaskNotFound "\<lambda>e. ''failed''" codeToError
      plain_grpc id "''now''" 404 "''quoted''", OF missing_task_kind ne refl plain_grpc_ok]
  from conjunct1[OF kept] obtain e where e: "FromJSONRPCError (\<lambda>e. ''failed'')
      (ToJSONRPCError id (\<lambda>e. ''failed'') codeToError ''now'' None missing_task_error) = Inr e"
    "errors_Is e ErrTaskNotFound" by blast
  from conjunct1[OF conjunct2[OF kept]] body obtain e' where
    e': "FromRESTError True (Decoded (Some body)) 404 ''quoted'' = Inr e'" "errors_Is e' ErrTaskNotFound"
    by blast
  from conjunct2[OF conjunct2[OF kept]] free st obtain e'' where
    e'': "FromGRPCStatus plain_grpc st = Inr e''" "errors_Is e'' ErrTaskNotFound" by blast
  from e e' e'' body st(1) show ?thesis by blast
qed

text \<open>
  A client panics on a JSON-RPC error exactly if its data is an array of objects and nulls with at
  least one null.
\<close>

lemma details_loop_no_nil:
  assumes "None \<notin> set ds" "ts = [] \<or> (\<exists>md. ts = [error_info (reason_text s) md])"
  shows "\<exists>e. details_loop ds (A2AError (Some (Sentinel s)) m d ts) acc first = Inr e"
  using assms
proof (induction ds arbitrary: d ts acc first)
  case (Cons x ds)
  then obtain w where w: "x = Some w" by (cases x) auto
  have IH: "\<exists>e. details_loop ds (A2AError (Some (Sentinel s)) m d' ts') acc' first' = Inr e"
    if "ts' = [] \<or> (\<exists>md. ts' = [error_info (reason_text s) md])" for d' ts' acc' first'
    using Cons.IH[OF _ that] Cons.prems(1) by simp
  show ?case
    using Cons.prems(2) by (auto simp: w intro!: IH split: option.splits)
qed simp

lemma details_loop_nil:
  assumes "None \<in> set ds" "ts = [] \<or> (\<exists>md. ts = [error_info (reason_text s) md])"
  shows "details_loop ds (A2AError (Some (Sentinel s)) m d ts) acc first =
    Inl ''invalid memory address or nil pointer dereference''"
  using assms
proof (induction ds arbitrary: d ts acc first)
  case (Cons x ds)
  show ?case
  proof (cases x)
    case (Some w)
    have IH: "details_loop ds (A2AError (Some (Sentinel s)) m d' ts') acc' first' =
        Inl ''invalid memory address or nil pointer dereference''"
      if "ts' = [] \<or> (\<exists>md. ts' = [error_info (reason_text s) md])" for d' ts' acc' first'
      using Cons.IH[OF _ that] Cons.prems(1) Some by simp
    show ?thesis
      using Cons.prems(2) by (auto simp: Some intro!: IH split: option.splits)
  qed simp
qed simp

lemma unmarshal_pointer_cases:
  "unmarshal_pointer v = None \<longleftrightarrow> \<not> (case v of ANil \<Rightarrow> True | AMap m \<Rightarrow> True | _ \<Rightarrow> False)"
  "unmarshal_pointer v = Some None \<longleftrightarrow> v = ANil"
  by (auto simp: unmarshal_pointer_def Typed_UnmarshalJSON_def split: any.splits option.splits)

lemma parse_details_nil:
  assumes "parse_details (AArr vs) = Some ds"
  shows "None \<in> set ds \<longleftrightarrow> ANil \<in> set vs"
proof -
  have "map unmarshal_pointer vs = map Some ds"
    using assms by (simp add: parse_details_def those_Some_iff)
  then have eq: "unmarshal_pointer ` set vs = Some ` set ds" by (metis set_map)
  show ?thesis
    using eq unmarshal_pointer_cases(2) by (metis image_iff option.inject)
qed

text \<open>
  Decoding a JSON-RPC error ends regularly except for one kind of error: a data list of objects and
  at least one null makes the client dereference a nil pointer.
\<close>

theorem jsonrpc_panic_iff:
  "FromJSONRPCError text e = Inl p \<longleftrightarrow>
     p = ''invalid memory address or nil pointer dereference'' \<and>
     (\<exists>vs. je_Data e = Some (AArr vs) \<and> ANil \<in> set vs \<and>
        list_all (\<lambda>v. case v of ANil \<Rightarrow> True | AMap m \<Rightarrow> True | _ \<Rightarrow> False) vs)"
proof -
  define s where "s = (case map_of codeToError (je_Code e) of None \<Rightarrow> ErrInternalError | Some s \<Rightarrow> s)"
  define m where "m = (if je_Message e = '''' then text (Sentinel s) else je_Message e)"
  have loop: "details_loop ds (A2AError (Some (Sentinel s)) m None []) [] True = Inl p \<longleftrightarrow>
      None \<in> set ds \<and> p = ''invalid memory address or nil pointer dereference''" for ds
    using details_loop_no_nil[of ds "[]" s m None "[]" True] details_loop_nil[of ds "[]" s m None "[]" True]
    by (cases "None \<in> set ds") auto
  have arr: "(\<exists>ds. parse_details (AArr vs) = Some ds \<and> None \<in> set ds) \<longleftrightarrow> ANil \<in> set vs \<and>
      list_all (\<lambda>v. case v of ANil \<Rightarrow> True | AMap m \<Rightarrow> True | _ \<Rightarrow> False) vs" for vs
  proof -
    have "parse_details (AArr vs) \<noteq> None \<longleftrightarrow>
        list_all (\<lambda>v. case v of ANil \<Rightarrow> True | AMap m \<Rightarrow> True | _ \<Rightarrow> False) vs"
      unfolding parse_details_def any.case
    proof (induction vs)
      case (Cons v vs)
      then show ?case
        using unmarshal_pointer_cases(1)[of v] by (cases "unmarshal_pointer v") auto
    qed simp
    then show ?thesis using parse_details_nil[of vs] by auto
  qed
  have obj: "None \<in> set (case je_Data e of None \<Rightarrow> [] | Some data \<Rightarrow>
          (case parse_details data of Some parsedDetails \<Rightarrow> parsedDetails
           | None \<Rightarrow> (case Typed_UnmarshalJSON data of Some d \<Rightarrow> [Some d]
              | None \<Rightarrow> (case data of AMap sd \<Rightarrow> [Some (NewFromStruct (Some sd))] | _ \<Rightarrow> []))))
    \<longleftrightarrow> (\<exists>vs ds. je_Data e = Some (AArr vs) \<and> parse_details (AArr vs) = Some ds \<and> None \<in> set ds)"
  proof (cases "je_Data e")
    case (Some data)
    then show ?thesis by (cases data) (auto simp: parse_details_def split: option.splits)
  qed simp
  show ?thesis
    unfolding FromJSONRPCError_def Let_def s_def[symmetric] m_def[symmetric] NewError_def loop obj
    using arr by blast
qed

text \<open>
  The code that an error gets depends on the order in which the table is visited if two of the
  protocol's errors are in its chain: each of them can win.
\<close>

lemma order_ending:
  assumes "s \<in> set a2a_sentinels"
  shows "\<exists>c order. set order = set codeToError \<and> (c, s) \<in> set codeToError \<and>
    hd order = (c, s) \<and> order \<noteq> []"
proof -
  from assms codeToError_sentinels obtain c where c: "(c, s) \<in> set codeToError"
    by (metis (no_types, lifting) in_set_conv_nth list.set_map imageE prod.collapse)
  then have "set ((c, s) # codeToError) = set codeToError" by auto
  with c show ?thesis by (metis list.distinct(1) list.sel(1))
qed

theorem jsonrpc_code_ambiguous:
  assumes "s \<in> set a2a_sentinels" "t \<in> set a2a_sentinels" "s \<noteq> t"
    and "errors_Is err s" "errors_Is err t"
  shows "\<exists>order1 order2. set order1 = set codeToError \<and> set order2 = set codeToError \<and>
    je_Code (ToJSONRPCError f32 text order1 now None err) \<noteq>
    je_Code (ToJSONRPCError f32 text order2 now None err)"
proof -
  obtain c o1 where 1: "set o1 = set codeToError" "(c, s) \<in> set codeToError" "hd o1 = (c, s)" "o1 \<noteq> []"
    using order_ending[OF assms(1)] by blast
  obtain d o2 where 2: "set o2 = set codeToError" "(d, t) \<in> set codeToError" "hd o2 = (d, t)" "o2 \<noteq> []"
    using order_ending[OF assms(2)] by blast
  have "c \<noteq> d"
    using 1(2) 2(2) assms(3) codeToError_distinct by (metis eq_key_imp_eq_value)
  moreover have "je_Code (ToJSONRPCError f32 text o1 now None err) = c"
    using 1 assms(4) by (cases o1) (simp_all add: ToJSONRPCError_def Let_def case_prod_unfold)
  moreover have "je_Code (ToJSONRPCError f32 text o2 now None err) = d"
    using 2 assms(5) by (cases o2) (simp_all add: ToJSONRPCError_def Let_def case_prod_unfold)
  ultimately show ?thesis using 1(1) 2(1) by blast
qed

text \<open>
  An error that passes through a relay (decoded from one server and returned to the next client)
  has its details twice: the first client keeps them as details and as a typed detail, and both
  are sent on.
\<close>

theorem relay_doubles_details:
  assumes "s \<in> set a2a_sentinels" "message \<noteq> ''''" "encodable_map m" "m \<noteq> fmempty"
    and "fmlookup m ''@type'' = None" "text = (\<lambda>e. message)"
  shows "\<exists>e1 md1 md2. FromJSONRPCError text (ToJSONRPCError f32 text codeToError now None
        (A2AError (Some (Sentinel s)) message (Some m) [])) = Inr e1 \<and>
    e1 = A2AError (Some (Sentinel s)) message (Some (norm_map f32 m))
      [error_info (reason_text s) md1, NewFromStruct (Some (norm_map f32 m))] \<and>
    FromJSONRPCError text (ToJSONRPCError f32 text codeToError now None e1) =
      Inr (A2AError (Some (Sentinel s)) message (Some (norm_map f32 m))
        [error_info (reason_text s) md2, NewFromStruct (Some (norm_map f32 m)),
         NewFromStruct (Some (norm_map f32 m))])"
proof -
  have drop: "fmdrop ''@type'' m = m" "fmdrop ''@type'' (norm_map f32 m) = norm_map f32 m"
    using assms(5) by (auto intro!: fmap_ext)
  have sent: "typed_norm f32 (NewFromStruct (Some m)) = NewFromStruct (Some (norm_map f32 m))"
      "typed_norm f32 (NewFromStruct (Some (norm_map f32 m))) = NewFromStruct (Some (norm_map f32 m))"
      "typed_encodable (NewFromStruct (Some m))" "typed_encodable (NewFromStruct (Some (norm_map f32 m)))"
      "info_meta (NewFromStruct x) = None" "TypeURL (NewFromStruct x) \<noteq> ErrorInfoType" for x
    using drop assms(3) norm_map_encodable[OF assms(3), of f32]
    by (simp_all add: typed_norm_def NewFromStruct_def NewTyped_def typed_encodable_def info_meta_def
        StructType_def ErrorInfoType_def)
  have ne: "0 < gm_len (Some m)" "0 < gm_len (Some (norm_map f32 m))"
    using assms(4) by (simp_all add: gm_len_keys gm_keys_def)
  have kind: "carries (A2AError (Some (Sentinel s)) message d ts) s" for d ts
    using assms(1) by (auto simp: carries_def a2a_sentinels_def)
  obtain md1 where md1: "attached_details (A2AError (Some (Sentinel s)) message (Some m) [])
      (fmupd ''timestamp'' now fmempty) = ([NewFromStruct (Some m)], md1)"
    using ne by (simp add: attached_details_def)
  note first = jsonrpc_error_roundtrip[OF kind refl _ md1, of "text" f32]
  let ?e1 = "A2AError (Some (Sentinel s)) message (Some (norm_map f32 m))
      [error_info (reason_text s) md1, NewFromStruct (Some (norm_map f32 m))]"
  obtain md2 where md2: "attached_details ?e1 (fmupd ''timestamp'' now fmempty) =
      ([NewFromStruct (Some (norm_map f32 m)), NewFromStruct (Some (norm_map f32 m))], md2)"
    using ne by (simp add: attached_details_def collect_details_spec sent)
  note second = jsonrpc_error_roundtrip[OF kind refl _ md2, of "text" f32]
  show ?thesis
    using first second assms(2,6) by (simp add: sent, simp add: NewFromStruct_def NewTyped_def, blast)
qed

lemma jsonrpc_code_ambiguous_witness:
  "\<exists>order1 order2. set order1 = set codeToError \<and> set order2 = set codeToError \<and>
    je_Code (ToJSONRPCError id (\<lambda>e. ''failed'') order1 ''now'' None
      (Errorf ''%w: %w'' [Sentinel ErrTaskNotFound, Sentinel ErrUnauthorized])) \<noteq>
    je_Code (ToJSONRPCError id (\<lambda>e. ''failed'') order2 ''now'' None
      (Errorf ''%w: %w'' [Sentinel ErrTaskNotFound, Sentinel ErrUnauthorized]))"
  by (rule jsonrpc_code_ambiguous[of ErrTaskNotFound ErrUnauthorized]) (simp_all add: a2a_sentinels_def)

lemma relay_doubles_details_witness:
  "\<exists>e1 md1 md2. FromJSONRPCError (\<lambda>e. ''gone'') (ToJSONRPCError id (\<lambda>e. ''gone'') codeToError ''now'' None
        (A2AError (Some (Sentinel ErrTaskNotFound)) ''gone''
          (Some (fmupd ''attempts'' (AInt KInt 3) fmempty)) [])) = Inr e1 \<and>
    e1 = A2AError (Some (Sentinel ErrTaskNotFound)) ''gone''
      (Some (norm_map id (fmupd ''attempts'' (AInt KInt 3) fmempty)))
      [error_info (reason_text ErrTaskNotFound) md1,
       NewFromStruct (Some (norm_map id (fmupd ''attempts'' (AInt KInt 3) fmempty)))] \<and>
    FromJSONRPCError (\<lambda>e. ''gone'') (ToJSONRPCError id (\<lambda>e. ''gone'') codeToError ''now'' None e1) =
      Inr (A2AError (Some (Sentinel ErrTaskNotFound)) ''gone''
        (Some (norm_map id (fmupd ''attempts'' (AInt KInt 3) fmempty)))
        [error_info (reason_text ErrTaskNotFound) md2,
         NewFromStruct (Some (norm_map id (fmupd ''attempts'' (AInt KInt 3) fmempty))),
         NewFromStruct (Some (norm_map id (fmupd ''attempts'' (AInt KInt 3) fmempty)))])"
  by (rule relay_doubles_details) (simp_all add: a2a_sentinels_def encodable_map_def fmpred_iff)

end
