(* ===== verification/AgentCards.thy ===== *)
theory AgentCards
  imports GoJson
begin

text \<open>
  The agent card and its security schemes, \<open>a2a/agent.go\<close> and \<open>a2a/auth.go\<close>, with the JSON
  forms that \<open>auth.go\<close> defines itself. Where the code tests a slice for nil the slice is an option.
\<close>

section \<open>Security schemes (a2a/auth.go)\<close>

type_synonym scopes_map = "string gomap"

record auth_code_flow =
  acf_AuthorizationURL :: string
  acf_RefreshURL :: string
  acf_Scopes :: scopes_map
  acf_TokenURL :: string
  acf_PKCERequired :: bool

record client_credentials_flow =
  ccf_RefreshURL :: string
  ccf_Scopes :: scopes_map
  ccf_TokenURL :: string

record implicit_flow =
  imf_AuthorizationURL :: string
  imf_RefreshURL :: string
  imf_Scopes :: scopes_map

record password_flow =
  pwf_RefreshURL :: string
  pwf_Scopes :: scopes_map
  pwf_TokenURL :: string

record device_code_flow =
  dcf_DeviceAuthorizationURL :: string
  dcf_RefreshURL :: string
  dcf_Scopes :: scopes_map
  dcf_TokenURL :: string

datatype oauth_flow =
    AuthorizationCode auth_code_flow
  | ClientCredentials client_credentials_flow
  | Implicit implicit_flow
  | Password password_flow
  | DeviceCode device_code_flow

text \<open>
  A value of the interface \<open>OAuthFlows\<close>. Its method has value receivers, so both the flow structs
  and pointers to them implement it, and type switches tell the two apart.
\<close>

datatype oauth_flows = FlowValue oauth_flow | FlowPointer oauth_flow | NilFlow

record api_key_scheme =
  aks_Description :: string
  aks_Location :: string
  aks_Name :: string

record http_auth_scheme =
  has_BearerFormat :: string
  has_Description :: string
  has_Scheme :: string

record openid_scheme =
  ois_Description :: string
  ois_OpenIDConnectURL :: string

record mutual_tls_scheme =
  mts_Description :: string

record oauth2_scheme =
  oas_Description :: string
  oas_Flows :: oauth_flows
  oas_Oauth2MetadataURL :: string

text \<open>\<open>OtherScheme\<close>: nil or a pointer to one of the structs, which no type switch of the code handles.\<close>

datatype security_scheme =
    APIKey api_key_scheme
  | HTTPAuth http_auth_scheme
  | OpenIDConnect openid_scheme
  | MutualTLS mutual_tls_scheme
  | OAuth2 oauth2_scheme
  | OtherScheme

type_synonym named_schemes = "security_scheme gomap"
type_synonym security_requirements = "(string, string list) fmap"

section \<open>The card (a2a/agent.go)\<close>

record agent_extension =
  ext_Description :: string
  ext_Params :: metadata
  ext_Required :: bool
  ext_URI :: string

record agent_capabilities =
  cap_Extensions :: "agent_extension list"
  cap_PushNotifications :: bool
  cap_Streaming :: bool
  cap_ExtendedAgentCard :: bool

record agent_interface =
  if_URL :: string
  if_ProtocolBinding :: string
  if_Tenant :: string
  if_ProtocolVersion :: string

definition NewAgentInterface :: "string \<Rightarrow> string \<Rightarrow> agent_interface" where
  "NewAgentInterface url protocolBinding = \<lparr>if_URL = url, if_ProtocolBinding = protocolBinding,
     if_Tenant = '''', if_ProtocolVersion = Version\<rparr>"

definition TransportProtocolJSONRPC :: string where
  [go_consts]: "TransportProtocolJSONRPC = ''JSONRPC''"
definition TransportProtocolGRPC :: string where
  [go_consts]: "TransportProtocolGRPC = ''GRPC''"
definition TransportProtocolHTTPJSON :: string where
  [go_consts]: "TransportProtocolHTTPJSON = ''HTTP+JSON''"

record agent_provider =
  prov_Org :: string
  prov_URL :: string

record agent_skill =
  skill_Description :: string
  skill_Examples :: "string list"
  skill_ID :: string
  skill_InputModes :: "string list"
  skill_Name :: string
  skill_OutputModes :: "string list"
  skill_SecurityRequirements :: "security_requirements list"
  skill_Tags :: "string list option"

record card_signature =
  sig_Header :: metadata
  sig_Protected :: string
  sig_Signature :: string

record agent_card =
  card_SupportedInterfaces :: "agent_interface list option"
  card_Capabilities :: agent_capabilities
  card_DefaultInputModes :: "string list option"
  card_DefaultOutputModes :: "string list option"
  card_Description :: string
  card_DocumentationURL :: string
  card_IconURL :: string
  card_Name :: string
  card_Provider :: "agent_provider option"
  card_SecurityRequirements :: "security_requirements list"
  card_SecuritySchemes :: named_schemes
  card_Signatures :: "card_signature list option"
  card_Skills :: "agent_skill list option"
  card_Version :: string

text \<open>A nil slice has no elements.\<close>

definition slice :: "'a list option \<Rightarrow> 'a list" where
  "slice xs = (case xs of None \<Rightarrow> [] | Some ys \<Rightarrow> ys)"

lemma slice_simps [simp]: "slice None = []" "slice (Some xs) = xs"
  by (simp_all add: slice_def)

section \<open>JSON of OAuth flows\<close>

text \<open>The struct \<open>oauthFlows\<close> of \<open>auth.go\<close>, in the order of its fields.\<close>

record flows_wrapper =
  fw_AuthorizationCode :: "auth_code_flow option"
  fw_ClientCredentials :: "client_credentials_flow option"
  fw_Implicit :: "implicit_flow option"
  fw_Password :: "password_flow option"
  fw_DeviceCode :: "device_code_flow option"

record oauth2_wrapper =
  ow_Description :: string
  ow_Oauth2MetadataURL :: string
  ow_Flows :: flows_wrapper

definition empty_flows :: flows_wrapper where
  "empty_flows = \<lparr>fw_AuthorizationCode = None, fw_ClientCredentials = None, fw_Implicit = None,
     fw_Password = None, fw_DeviceCode = None\<rparr>"

fun wrap_flow :: "oauth_flow \<Rightarrow> flows_wrapper" where
  "wrap_flow (AuthorizationCode v) = empty_flows\<lparr>fw_AuthorizationCode := Some v\<rparr>"
| "wrap_flow (ClientCredentials v) = empty_flows\<lparr>fw_ClientCredentials := Some v\<rparr>"
| "wrap_flow (Implicit v) = empty_flows\<lparr>fw_Implicit := Some v\<rparr>"
| "wrap_flow (Password v) = empty_flows\<lparr>fw_Password := Some v\<rparr>"
| "wrap_flow (DeviceCode v) = empty_flows\<lparr>fw_DeviceCode := Some v\<rparr>"

text \<open>\<open>OAuth2SecurityScheme.MarshalJSON\<close>: the switch has cases for the structs only.\<close>

definition OAuth2_MarshalJSON :: "oauth2_scheme \<Rightarrow> go_error + oauth2_wrapper" where
  "OAuth2_MarshalJSON s =
     (case oas_Flows s of
        FlowValue v \<Rightarrow> Inr \<lparr>ow_Description = oas_Description s,
          ow_Oauth2MetadataURL = oas_Oauth2MetadataURL s, ow_Flows = wrap_flow v\<rparr>
      | _ \<Rightarrow> Inl (Errorf ''unknown OAuth flow type %T'' []))"

definition OAuth2_UnmarshalJSON :: "oauth2_wrapper \<Rightarrow> go_error + oauth2_scheme" where
  "OAuth2_UnmarshalJSON scheme =
     (let flows = ow_Flows scheme;
          found =
            (case fw_AuthorizationCode flows of None \<Rightarrow> [] | Some v \<Rightarrow> [AuthorizationCode v]) @
            (case fw_ClientCredentials flows of None \<Rightarrow> [] | Some v \<Rightarrow> [ClientCredentials v]) @
            (case fw_Implicit flows of None \<Rightarrow> [] | Some v \<Rightarrow> [Implicit v]) @
            (case fw_Password flows of None \<Rightarrow> [] | Some v \<Rightarrow> [Password v]) @
            (case fw_DeviceCode flows of None \<Rightarrow> [] | Some v \<Rightarrow> [DeviceCode v]);
          n = length found
      in if n = 0 then Inl (Errorf ''unknown OAuth flow type: %v'' [])
         else if n \<noteq> 1 then Inl (Errorf ''expected exactly one OAuth flow, got %d'' [])
         else Inr \<lparr>oas_Description = ow_Description scheme, oas_Flows = FlowValue (last found),
                   oas_Oauth2MetadataURL = ow_Oauth2MetadataURL scheme\<rparr>)"

lemma OAuth2_roundtrip:
  "OAuth2_MarshalJSON s = Inr w \<Longrightarrow> OAuth2_UnmarshalJSON w = Inr s"
proof (cases "oas_Flows s")
  case (FlowValue v)
  moreover assume "OAuth2_MarshalJSON s = Inr w"
  ultimately show ?thesis
    by (cases v) (auto simp: OAuth2_MarshalJSON_def OAuth2_UnmarshalJSON_def empty_flows_def)
qed (simp_all add: OAuth2_MarshalJSON_def)

section \<open>JSON of named schemes\<close>

record scheme_wrapper =
  sw_APIKey :: "api_key_scheme option"
  sw_HTTPAuth :: "http_auth_scheme option"
  sw_MutualTLS :: "mutual_tls_scheme option"
  sw_OAuth2 :: "oauth2_wrapper option"
  sw_OpenIDConnect :: "openid_scheme option"

definition empty_scheme :: scheme_wrapper where
  "empty_scheme = \<lparr>sw_APIKey = None, sw_HTTPAuth = None, sw_MutualTLS = None, sw_OAuth2 = None,
     sw_OpenIDConnect = None\<rparr>"

fun wrap_scheme :: "security_scheme \<Rightarrow> go_error + scheme_wrapper" where
  "wrap_scheme (APIKey v) = Inr (empty_scheme\<lparr>sw_APIKey := Some v\<rparr>)"
| "wrap_scheme (HTTPAuth v) = Inr (empty_scheme\<lparr>sw_HTTPAuth := Some v\<rparr>)"
| "wrap_scheme (OpenIDConnect v) = Inr (empty_scheme\<lparr>sw_OpenIDConnect := Some v\<rparr>)"
| "wrap_scheme (MutualTLS v) = Inr (empty_scheme\<lparr>sw_MutualTLS := Some v\<rparr>)"
| "wrap_scheme (OAuth2 v) =
     (case OAuth2_MarshalJSON v of Inl err \<Rightarrow> Inl err | Inr w \<Rightarrow> Inr (empty_scheme\<lparr>sw_OAuth2 := Some w\<rparr>))"
| "wrap_scheme OtherScheme = Inl (Errorf ''unknown security scheme type %T'' [])"

text \<open>
  The entry of one name. The nested OAuth2 object is decoded first, with its own errors.
\<close>

definition unwrap_scheme :: "scheme_wrapper \<Rightarrow> go_error + security_scheme" where
  "unwrap_scheme wrapper =
     (case (case sw_OAuth2 wrapper of None \<Rightarrow> Inr None
            | Some w \<Rightarrow> (case OAuth2_UnmarshalJSON w of Inl err \<Rightarrow> Inl err | Inr s \<Rightarrow> Inr (Some s))) of
        Inl err \<Rightarrow> Inl err
      | Inr oauth2 \<Rightarrow>
          (let found =
             (case sw_APIKey wrapper of None \<Rightarrow> [] | Some v \<Rightarrow> [APIKey v]) @
             (case sw_HTTPAuth wrapper of None \<Rightarrow> [] | Some v \<Rightarrow> [HTTPAuth v]) @
             (case sw_OpenIDConnect wrapper of None \<Rightarrow> [] | Some v \<Rightarrow> [OpenIDConnect v]) @
             (case sw_MutualTLS wrapper of None \<Rightarrow> [] | Some v \<Rightarrow> [MutualTLS v]) @
             (case oauth2 of None \<Rightarrow> [] | Some v \<Rightarrow> [OAuth2 v]);
             n = length found
           in if n = 0 then Inl (Errorf ''unknown security scheme type for %s: %v'' [])
              else if n \<noteq> 1 then Inl (Errorf ''expected exactly one security scheme type for %s, got %d'' [])
              else Inr (last found)))"

text \<open>
  The maps are visited in some order, and the first error ends the conversion. Which entry's error
  that is, and so its text, is left open.
\<close>

definition fmap_all :: "('a \<Rightarrow> go_error + 'b) \<Rightarrow> (string, 'a) fmap \<Rightarrow> go_error + (string, 'b) fmap" where
  "fmap_all f m =
     (if fmpred (\<lambda>k v. \<not> isl (f v)) m then Inr (fmmap (\<lambda>v. projr (f v)) m)
      else Inl (Errorf ''an entry cannot be converted'' []))"

definition NamedSecuritySchemes_MarshalJSON ::
  "named_schemes \<Rightarrow> go_error + (string, scheme_wrapper) fmap" where
  "NamedSecuritySchemes_MarshalJSON s = fmap_all wrap_scheme (gm_fmap s)"

definition NamedSecuritySchemes_UnmarshalJSON ::
  "(string, scheme_wrapper) fmap \<Rightarrow> go_error + named_schemes" where
  "NamedSecuritySchemes_UnmarshalJSON b =
     (case fmap_all unwrap_scheme b of Inl err \<Rightarrow> Inl err | Inr m \<Rightarrow> Inr (Some m))"

lemma unwrap_wrap: "wrap_scheme s = Inr w \<Longrightarrow> unwrap_scheme w = Inr s"
  by (cases s) (auto simp: unwrap_scheme_def empty_scheme_def Let_def OAuth2_roundtrip split: sum.splits)

lemma fmap_all_Inr:
  "fmap_all f m = Inr m' \<Longrightarrow> fmlookup m k = Some v \<Longrightarrow> \<exists>w. f v = Inr w \<and> fmlookup m' k = Some w"
  by (auto simp: fmap_all_def fmpred_iff split: if_splits)

lemma fmap_all_dom: "fmap_all f m = Inr m' \<Longrightarrow> fmdom m' = fmdom m"
  by (auto simp: fmap_all_def split: if_splits)

lemma fmap_all_roundtrip:
  assumes "fmap_all f m = Inr m'" "\<And>v w. f v = Inr w \<Longrightarrow> g w = Inr (h v)"
  shows "fmap_all g m' = Inr (fmmap h m)"
proof -
  have "\<exists>v. fmlookup m k = Some v \<and> f v = Inr w" if "fmlookup m' k = Some w" for k w
  proof -
    have "k |\<in>| fmdom m" using that fmap_all_dom[OF assms(1)] by (metis fmdomI)
    then obtain v where "fmlookup m k = Some v" by (auto dest: fmdomE)
    with fmap_all_Inr[OF assms(1) this] that show ?thesis by auto
  qed
  then have "fmpred (\<lambda>k v. \<not> isl (g v)) m'"
    using assms(2) by (fastforce simp: fmpred_iff)
  moreover have "fmmap (\<lambda>v. projr (g v)) m' = fmmap h m"
  proof (rule fmap_ext)
    fix k
    show "fmlookup (fmmap (\<lambda>v. projr (g v)) m') k = fmlookup (fmmap h m) k"
    proof (cases "fmlookup m k")
      case None
      then have "fmlookup m' k = None"
        using fmap_all_dom[OF assms(1)] by (metis fmdom_notI fmdom_notD)
      with None show ?thesis by simp
    next
      case (Some v)
      then obtain w where "f v = Inr w" "fmlookup m' k = Some w"
        using fmap_all_Inr[OF assms(1)] by blast
      with Some assms(2) show ?thesis by simp
    qed
  qed
  ultimately show ?thesis by (simp add: fmap_all_def)
qed

lemma schemes_json_roundtrip:
  assumes "NamedSecuritySchemes_MarshalJSON s = Inr w"
  shows "NamedSecuritySchemes_UnmarshalJSON w = Inr (Some (gm_fmap s))"
proof -
  have "fmap_all unwrap_scheme w = Inr (fmmap (\<lambda>x. x) (gm_fmap s))"
    using assms unfolding NamedSecuritySchemes_MarshalJSON_def
    by (rule fmap_all_roundtrip) (rule unwrap_wrap)
  then show ?thesis by (simp add: NamedSecuritySchemes_UnmarshalJSON_def fmap.map_ident)
qed

section \<open>JSON of security requirements\<close>

text \<open>Documents as in \<open>GoJson\<close>. A null string is empty, and a null list is nil.\<close>

fun json_string :: "any \<Rightarrow> string option" where
  "json_string (AString s) = Some s"
| "json_string ANil = Some ''''"
| "json_string _ = None"

fun json_strings :: "any \<Rightarrow> string list option" where
  "json_strings (AArr vs) = those (map json_string vs)"
| "json_strings ANil = Some []"
| "json_strings _ = None"

definition securityScopeList_MarshalJSON :: "string list \<Rightarrow> any" where
  "securityScopeList_MarshalJSON s =
     (if s = [] then AMap fmempty else AMap (fmupd ''list'' (AArr (map AString s)) fmempty))"

text \<open>The legacy form is an array; the struct form has a field \<open>list\<close>, and null decodes to it empty.\<close>

definition securityScopeList_UnmarshalJSON :: "any \<Rightarrow> string list option" where
  "securityScopeList_UnmarshalJSON b =
     (case b of
        AArr vs \<Rightarrow> json_strings b
      | ANil \<Rightarrow> Some []
      | AMap m \<Rightarrow> (case fmlookup m ''list'' of None \<Rightarrow> Some [] | Some v \<Rightarrow> json_strings v)
      | _ \<Rightarrow> None)"

definition SecurityRequirementsOptions_MarshalJSON :: "security_requirements list \<Rightarrow> any" where
  "SecurityRequirementsOptions_MarshalJSON rs =
     AArr (map (\<lambda>req. AMap (fmupd ''schemes'' (AMap (fmmap securityScopeList_MarshalJSON req)) fmempty)) rs)"

definition unmarshal_requirement :: "any \<Rightarrow> security_requirements option" where
  "unmarshal_requirement v =
     (case v of
        ANil \<Rightarrow> Some fmempty
      | AMap m \<Rightarrow>
          (case fmlookup m ''schemes'' of
             None \<Rightarrow> Some fmempty
           | Some ANil \<Rightarrow> Some fmempty
           | Some (AMap schemes) \<Rightarrow>
               (if fmpred (\<lambda>k s. securityScopeList_UnmarshalJSON s \<noteq> None) schemes
                then Some (fmmap (\<lambda>s. the (securityScopeList_UnmarshalJSON s)) schemes) else None)
           | _ \<Rightarrow> None)
      | _ \<Rightarrow> None)"

definition SecurityRequirementsOptions_UnmarshalJSON :: "any \<Rightarrow> security_requirements list option" where
  "SecurityRequirementsOptions_UnmarshalJSON b =
     (case b of
        ANil \<Rightarrow> Some []
      | AArr vs \<Rightarrow> those (map unmarshal_requirement vs)
      | _ \<Rightarrow> None)"

lemma those_strings [simp]: "those (map (json_string \<circ> AString) xs) = Some xs"
  by (induction xs) simp_all

lemma scopes_roundtrip [simp]:
  "securityScopeList_UnmarshalJSON (securityScopeList_MarshalJSON s) = Some s"
  by (simp add: securityScopeList_UnmarshalJSON_def securityScopeList_MarshalJSON_def)

lemma requirement_roundtrip [simp]:
  "unmarshal_requirement (AMap (fmupd ''schemes'' (AMap (fmmap securityScopeList_MarshalJSON req)) fmempty))
     = Some req"
proof -
  have "fmmap ((\<lambda>s. the (securityScopeList_UnmarshalJSON s)) \<circ> securityScopeList_MarshalJSON) req = req"
    by (rule fmap_ext) (simp add: option.map_ident o_def)
  moreover have "fmpred (\<lambda>k s. securityScopeList_UnmarshalJSON s \<noteq> None)
      (fmmap securityScopeList_MarshalJSON req)"
    by (auto simp: fmpred_iff)
  ultimately show ?thesis by (simp add: unmarshal_requirement_def fmap.map_comp)
qed

lemma requirements_json_roundtrip:
  "SecurityRequirementsOptions_UnmarshalJSON (SecurityRequirementsOptions_MarshalJSON rs) = Some rs"
proof -
  have "those (map (unmarshal_requirement \<circ>
      (\<lambda>req. AMap (fmupd ''schemes'' (AMap (fmmap securityScopeList_MarshalJSON req)) fmempty))) rs) = Some rs"
    by (induction rs) simp_all
  then show ?thesis
    by (simp add: SecurityRequirementsOptions_UnmarshalJSON_def SecurityRequirementsOptions_MarshalJSON_def)
qed

end
