(* ===== verification/Interceptors.thy ===== *)
theory Interceptors
  imports AgentCards ErrorCodecs
begin

text \<open>
  What surrounds the request handler: service parameters (\<open>a2asrv/svcparams.go\<close>), extensions
  (\<open>extensions.go\<close>), call interceptors and the protocol version check
  (\<open>middleware.go\<close>, \<open>intercepted_handler.go\<close>), the interceptor that enforces the agent card
  (\<open>agentcard_enforcer.go\<close>), the error sanitizer (\<open>errors.go\<close>) and the codec that carries the
  call context to a back end (\<open>ctxcodec.go\<close>). Interceptors and handlers are arguments: they act on
  a state \<open>'w\<close>, which holds whatever is shared behind pointers.
\<close>

section \<open>Service parameters\<close>

text \<open>A nil \<open>*ServiceParams\<close> has no keys.\<close>

type_synonym service_params = "(string, string list) fmap"

text \<open>\<open>NewServiceParams\<close>: the argument lists the entries of the source in the order of the range loop.\<close>

definition NewServiceParams :: "(string \<times> string list) list \<Rightarrow> service_params" where
  "NewServiceParams src = foldl (\<lambda>kv (k, v). fmupd (to_lower k) v kv) fmempty src"

definition ServiceParams_Get :: "service_params \<Rightarrow> string \<Rightarrow> string list option" where
  "ServiceParams_Get sp key = fmlookup sp (to_lower key)"

definition ServiceParams_With :: "service_params \<Rightarrow> (string \<times> string list) list \<Rightarrow> service_params" where
  "ServiceParams_With sp additional =
     (if additional = [] then sp else foldl (\<lambda>kv (k, v). fmupd (to_lower k) v kv) sp additional)"

definition SvcParamVersion :: string where
  [go_consts]: "SvcParamVersion = ''A2A-Version''"
definition SvcParamExtensions :: string where
  [go_consts]: "SvcParamExtensions = ''A2A-Extensions''"

text \<open>\<open>newHTTPServiceParams\<close>: the headers, and the value of the query parameter.\<close>

definition newHTTPServiceParams :: "(string \<times> string list) list \<Rightarrow> string \<Rightarrow> service_params" where
  "newHTTPServiceParams header query_version =
     (let params = NewServiceParams header in
      if ServiceParams_Get params SvcParamVersion \<noteq> None then params
      else if query_version \<noteq> '''' then ServiceParams_With params [(SvcParamVersion, [query_version])]
      else params)"

lemma foldl_params_lookup:
  "fmlookup (foldl (\<lambda>kv (k, v). fmupd (to_lower k) v kv) kv src) k =
     (case map_of (rev (map (\<lambda>(k, v). (to_lower k, v)) src)) k of Some v \<Rightarrow> Some v | None \<Rightarrow> fmlookup kv k)"
proof (induction src rule: rev_induct)
  case (snoc x src)
  obtain a b where x: "x = (a, b)" by (cases x)
  show ?case
    by (simp add: x snoc del: map_of.simps) (simp split: option.splits)
qed simp

lemma NewServiceParams_lookup:
  "fmlookup (NewServiceParams src) k = map_of (rev (map (\<lambda>(k, v). (to_lower k, v)) src)) k"
  by (simp add: NewServiceParams_def foldl_params_lookup split: option.splits)

text \<open>The keys of a \<open>ServiceParams\<close> are in lower case.\<close>

definition params_ok :: "service_params \<Rightarrow> bool" where
  "params_ok sp \<longleftrightarrow> (\<forall>k. k |\<in>| fmdom sp \<longrightarrow> to_lower k = k)"

lemma params_ok_foldl: "params_ok kv \<Longrightarrow> params_ok (foldl (\<lambda>kv (k, v). fmupd (to_lower k) v kv) kv src)"
proof (induction src arbitrary: kv)
  case (Cons x src)
  have "params_ok (fmupd (to_lower (fst x)) (snd x) kv)"
    using Cons.prems unfolding params_ok_def by simp
  from Cons.IH[OF this] show ?case by (simp add: case_prod_unfold)
qed simp

lemma params_ok_New: "params_ok (NewServiceParams src)"
  unfolding NewServiceParams_def by (rule params_ok_foldl) (simp add: params_ok_def)

section \<open>Extensions\<close>

definition Extensions_Active :: "call_context \<Rightarrow> agent_extension \<Rightarrow> bool" where
  "Extensions_Active cc extension = (ext_URI extension \<in> set (cc_activatedExtensions cc))"

definition Extensions_Activate :: "call_context \<Rightarrow> agent_extension \<Rightarrow> call_context" where
  "Extensions_Activate cc extension =
     (if Extensions_Active cc extension then cc
      else cc\<lparr>cc_activatedExtensions := cc_activatedExtensions cc @ [ext_URI extension]\<rparr>)"

text \<open>\<open>strings.Trim(uri, " \t")\<close>.\<close>

definition trim_blanks :: "string \<Rightarrow> string" where
  "trim_blanks s =
     (let blank = (\<lambda>c. c = CHR '' '' \<or> c = CHR 0x09)
      in rev (dropWhile blank (rev (dropWhile blank s))))"

definition RequestedURIs :: "call_context \<Rightarrow> string list" where
  "RequestedURIs cc =
     (case ServiceParams_Get (cc_svcParams cc) SvcParamExtensions of
        None \<Rightarrow> []
      | Some values \<Rightarrow>
          filter (\<lambda>uri. uri \<noteq> '''') (concat (map (\<lambda>v. map trim_blanks (split_on (CHR '','') v)) values)))"

definition Extensions_Requested :: "call_context \<Rightarrow> agent_extension \<Rightarrow> bool" where
  "Extensions_Requested cc extension = (ext_URI extension \<in> set (RequestedURIs cc))"

lemma Activate_distinct:
  "distinct (cc_activatedExtensions cc) \<Longrightarrow>
     distinct (cc_activatedExtensions (Extensions_Activate cc extension)) \<and>
     set (cc_activatedExtensions (Extensions_Activate cc extension)) =
       insert (ext_URI extension) (set (cc_activatedExtensions cc))"
  by (auto simp: Extensions_Activate_def Extensions_Active_def)

section \<open>Interceptors\<close>

text \<open>
  A payload \<open>'p\<close> of type \<open>any\<close> can be nil. \<open>Before\<close> gets a pointer to the request, so the
  request is part of its result; then the context, and the result and error that end the call.
  \<open>After\<close> gets a pointer to the response.
\<close>

record 'p response =
  rs_Payload :: "'p option"
  rs_Err :: "go_error option"

record ('c, 'p, 'w) interceptor =
  ic_Before :: "'c \<Rightarrow> 'p option \<Rightarrow> 'w \<Rightarrow> 'w \<times> 'p option \<times> 'c \<times> 'p option \<times> go_error option"
  ic_After :: "'c \<Rightarrow> 'p response \<Rightarrow> 'w \<Rightarrow> 'w \<times> 'p response \<times> go_error option"

definition PassthroughCallInterceptor :: "('c, 'p, 'w) interceptor" where
  "PassthroughCallInterceptor =
     \<lparr>ic_Before = (\<lambda>c p w. (w, p, c, None, None)), ic_After = (\<lambda>c r w. (w, r, None))\<rparr>"

text \<open>The loop of \<open>interceptAfter\<close> over the interceptors, last first.\<close>

fun after_loop ::
  "'c \<Rightarrow> ('c, 'p, 'w) interceptor list \<Rightarrow> 'p response \<Rightarrow> 'w \<Rightarrow> 'w \<times> 'p option \<times> go_error option" where
  "after_loop ctx [] response w = (w, rs_Payload response, rs_Err response)"
| "after_loop ctx (i # is) response w =
     (case ic_After i ctx response w of
        (w', response', Some err) \<Rightarrow> (w', None, Some err)
      | (w', response', None) \<Rightarrow> after_loop ctx is response' w')"

definition interceptAfter ::
  "'c \<Rightarrow> ('c, 'p, 'w) interceptor list \<Rightarrow> 'p option \<Rightarrow> go_error option \<Rightarrow> 'w \<Rightarrow>
     'w \<times> 'p option \<times> go_error option" where
  "interceptAfter ctx is payload responseErr w =
     after_loop ctx (rev is) \<lparr>rs_Payload = payload, rs_Err = responseErr\<rparr> w"

text \<open>
  The loop over \<open>Before\<close>, with the interceptors already visited. \<open>Inl\<close>: one of them ended the
  call; the context is then the one before it.
\<close>

fun before_loop ::
  "('c, 'p, 'w) interceptor list \<Rightarrow> ('c, 'p, 'w) interceptor list \<Rightarrow> 'c \<Rightarrow> 'p option \<Rightarrow> 'w \<Rightarrow>
     ('w \<times> 'c \<times> ('c, 'p, 'w) interceptor list \<times> 'p option \<times> go_error option) + ('w \<times> 'c \<times> 'p option)" where
  "before_loop visited [] ctx req w = Inr (w, ctx, req)"
| "before_loop visited (i # is) ctx req w =
     (case ic_Before i ctx req w of
        (w', req', localCtx, result, err) \<Rightarrow>
          if err \<noteq> None \<or> result \<noteq> None then Inl (w', ctx, visited @ [i], result, err)
          else before_loop (visited @ [i]) is localCtx req' w')"

text \<open>
  A call of the next handler gives the steps that produce its items. The consumer says whether it
  goes on after an item.
\<close>

type_synonym 'p item = "'p option \<times> go_error option"

fun deliver ::
  "'c \<Rightarrow> ('c, 'p, 'w) interceptor list \<Rightarrow> ('p item \<Rightarrow> bool) \<Rightarrow> ('w \<Rightarrow> 'w \<times> 'p item) list \<Rightarrow> 'w \<Rightarrow>
     'w \<times> 'p item list" where
  "deliver ctx is goes_on [] w = (w, [])"
| "deliver ctx is goes_on (step # steps) w =
     (case step w of
        (w1, payload, err) \<Rightarrow>
          (case interceptAfter ctx is payload err w1 of
             (w2, item) \<Rightarrow>
               if goes_on item
               then (case deliver ctx is goes_on steps w2 of (w3, items) \<Rightarrow> (w3, item # items))
               else (w2, [item])))"

definition interceptCalls ::
  "('c, 'p, 'w) interceptor list \<Rightarrow> ('c \<Rightarrow> 'p option \<Rightarrow> ('w \<Rightarrow> 'w \<times> 'p item) list) \<Rightarrow>
     ('p item \<Rightarrow> bool) \<Rightarrow> 'c \<Rightarrow> 'p option \<Rightarrow> 'w \<Rightarrow> 'w \<times> 'p item list" where
  "interceptCalls is next goes_on ctx req w =
     (case before_loop [] is ctx req w of
        Inl (w', ctx', visited, result, err) \<Rightarrow>
          (case interceptAfter ctx' visited result err w' of (w'', item) \<Rightarrow> (w'', [item]))
      | Inr (w', ctx', req') \<Rightarrow> deliver ctx' is goes_on (next ctx' req') w')"

text \<open>\<open>utils.CastPayload\<close> and \<open>CastResult\<close>: a nil payload is the zero value.\<close>

definition CastPayload :: "('p \<Rightarrow> 't option) \<Rightarrow> 't \<Rightarrow> 'p option \<Rightarrow> go_error + 't" where
  "CastPayload cast zero payload =
     (case payload of
        None \<Rightarrow> Inr zero
      | Some p \<Rightarrow> (case cast p of Some t \<Rightarrow> Inr t | None \<Rightarrow> Inl (Errorf ''type changed from %v to %T'' [])))"

definition CastResult :: "('p \<Rightarrow> 't option) \<Rightarrow> 't \<Rightarrow> 'p item \<Rightarrow> 't \<times> go_error option" where
  "CastResult cast zero it =
     (case CastPayload cast zero (fst it) of Inl castErr \<Rightarrow> (zero, Some castErr) | Inr t \<Rightarrow> (t, snd it))"

text \<open>
  \<open>unaryHandler\<close> yields the one result of the handler, \<open>streamHandler\<close> the items of a stream.
\<close>

definition unaryHandler ::
  "('p \<Rightarrow> 'r option) \<Rightarrow> 'r \<Rightarrow> ('c \<Rightarrow> 'r \<Rightarrow> 'w \<Rightarrow> 'w \<times> 'p item) \<Rightarrow>
     'c \<Rightarrow> 'p option \<Rightarrow> ('w \<Rightarrow> 'w \<times> 'p item) list" where
  "unaryHandler cast zero handlerCall ctx req =
     (case CastPayload cast zero req of
        Inl err \<Rightarrow> [\<lambda>w. (w, None, Some err)]
      | Inr typed \<Rightarrow> [handlerCall ctx typed])"

definition streamHandler ::
  "('p \<Rightarrow> 'r option) \<Rightarrow> 'r \<Rightarrow> ('c \<Rightarrow> 'r \<Rightarrow> ('w \<Rightarrow> 'w \<times> 'p item) list) \<Rightarrow>
     'c \<Rightarrow> 'p option \<Rightarrow> ('w \<Rightarrow> 'w \<times> 'p item) list" where
  "streamHandler cast zero handlerCall ctx req =
     (case CastPayload cast zero req of
        Inl err \<Rightarrow> [\<lambda>w. (w, None, Some err)]
      | Inr typed \<Rightarrow> handlerCall ctx typed)"

section \<open>Protocol version\<close>

text \<open>\<open>semver.MajorMinor\<close> is an argument.\<close>

definition majorMinor :: "(string \<Rightarrow> string) \<Rightarrow> string \<Rightarrow> string" where
  "majorMinor semver_MajorMinor v =
     semver_MajorMinor (if take 1 v = ''v'' then v else ''v'' @ v)"

definition checkProtocolVersion :: "(string \<Rightarrow> string) \<Rightarrow> call_context \<Rightarrow> go_error option" where
  "checkProtocolVersion mm callCtx =
     (if cc_ProtocolVersion callCtx = '''' then None
      else
        (let versions = (case ServiceParams_Get (cc_svcParams callCtx) SvcParamVersion of
                           None \<Rightarrow> [] | Some vs \<Rightarrow> vs)
         in if length versions > 1
            then Some (Errorf ''%w: %d protocol versions specified'' [Sentinel ErrInvalidRequest])
            else
              (let clientVersion = (if length versions = 1 \<and> hd versions \<noteq> '''' then hd versions else ''0.3'');
                   m = majorMinor mm clientVersion
               in if m = '''' \<or> m \<noteq> majorMinor mm (cc_ProtocolVersion callCtx)
                  then Some (Errorf ''%w: requested %q, served %q'' [Sentinel ErrVersionNotSupported])
                  else None)))"

definition doCall ::
  "(string \<Rightarrow> string) \<Rightarrow> call_context \<Rightarrow> ('c, 'p, 'w) interceptor list \<Rightarrow> ('p \<Rightarrow> 't option) \<Rightarrow> 't \<Rightarrow>
     ('c \<Rightarrow> 'p option \<Rightarrow> ('w \<Rightarrow> 'w \<times> 'p item) list) \<Rightarrow> 'c \<Rightarrow> 'p \<Rightarrow> 'w \<Rightarrow> 'w \<times> 't \<times> go_error option" where
  "doCall mm callCtx is cast zero handler ctx req w =
     (case checkProtocolVersion mm callCtx of
        Some err \<Rightarrow> (w, zero, Some err)
      | None \<Rightarrow>
          (case interceptCalls is handler (\<lambda>item. False) ctx (Some req) w of
             (w', item # items) \<Rightarrow> (w', CastResult cast zero item)
           | (w', []) \<Rightarrow> (w', zero, Some (Errorf ''%s produced no result'' []))))"

text \<open>The items that a streaming caller sees, the last of which may be an error.\<close>

fun stream_items :: "('p \<Rightarrow> 't option) \<Rightarrow> 't \<Rightarrow> 'p item list \<Rightarrow> ('t + go_error) list" where
  "stream_items cast zero [] = []"
| "stream_items cast zero (item # items) =
     (case CastResult cast zero item of
        (event, Some err) \<Rightarrow> [Inr err]
      | (event, None) \<Rightarrow> Inl event # stream_items cast zero items)"

definition streamCall ::
  "('c, 'p, 'w) interceptor list \<Rightarrow> ('p \<Rightarrow> 't option) \<Rightarrow> 't \<Rightarrow> ('t \<Rightarrow> bool) \<Rightarrow>
     ('c \<Rightarrow> 'p option \<Rightarrow> ('w \<Rightarrow> 'w \<times> 'p item) list) \<Rightarrow> 'c \<Rightarrow> 'p \<Rightarrow> 'w \<Rightarrow> 'w \<times> ('t + go_error) list" where
  "streamCall is cast zero goes_on handler ctx req w =
     (case interceptCalls is handler
             (\<lambda>item. case CastResult cast zero item of (event, err) \<Rightarrow> err = None \<and> goes_on event)
             ctx (Some req) w of
        (w', items) \<Rightarrow> (w', stream_items cast zero items))"

definition intercepted_stream ::
  "(string \<Rightarrow> string) \<Rightarrow> call_context \<Rightarrow> ('c, 'p, 'w) interceptor list \<Rightarrow> ('p \<Rightarrow> 't option) \<Rightarrow> 't \<Rightarrow>
     ('t \<Rightarrow> bool) \<Rightarrow> ('c \<Rightarrow> 'p option \<Rightarrow> ('w \<Rightarrow> 'w \<times> 'p item) list) \<Rightarrow> 'c \<Rightarrow> 'p \<Rightarrow> 'w \<Rightarrow>
     'w \<times> ('t + go_error) list" where
  "intercepted_stream mm callCtx is cast zero goes_on handler ctx req w =
     (case checkProtocolVersion mm callCtx of
        Some err \<Rightarrow> (w, [Inr err])
      | None \<Rightarrow> streamCall is cast zero goes_on handler ctx req w)"

text \<open>\<open>attachMethodCallContext\<close>: a call context is created if the transport has not.\<close>

definition NewCallContext :: "service_params \<Rightarrow> call_context" where
  "NewCallContext params = \<lparr>cc_method = '''', cc_svcParams = params, cc_activatedExtensions = [],
     cc_User = \<lparr>user_Name = '''', user_Authenticated = False, user_Attributes = None\<rparr>,
     cc_ProtocolVersion = '''', cc_tenant = ''''\<rparr>"

definition attachMethodCallContext :: "go_ctx \<Rightarrow> string \<Rightarrow> string \<Rightarrow> go_ctx \<times> call_context" where
  "attachMethodCallContext ctx method tenant =
     (let callCtx = (case CallContextFrom ctx of Some cc \<Rightarrow> cc | None \<Rightarrow> NewCallContext fmempty);
          callCtx1 = callCtx\<lparr>cc_method := method\<rparr>;
          callCtx2 = (if tenant \<noteq> '''' then callCtx1\<lparr>cc_tenant := tenant\<rparr> else callCtx1)
      in (ctx\<lparr>ctx_call := Some callCtx2\<rparr>, callCtx2))"

section \<open>The order of the interceptors\<close>

text \<open>The same interceptors, keeping a log of their calls beside the state.\<close>

datatype call = BeforeCall nat | AfterCall nat

definition logged :: "nat \<Rightarrow> ('c, 'p, 'w) interceptor \<Rightarrow> ('c, 'p, 'w \<times> call list) interceptor" where
  "logged k i = \<lparr>
     ic_Before = (\<lambda>c p (w, tr). case ic_Before i c p w of (w', r) \<Rightarrow> ((w', tr @ [BeforeCall k]), r)),
     ic_After = (\<lambda>c r (w, tr). case ic_After i c r w of (w', x) \<Rightarrow> ((w', tr @ [AfterCall k]), x))\<rparr>"

definition logged_all :: "('c, 'p, 'w) interceptor list \<Rightarrow> ('c, 'p, 'w \<times> call list) interceptor list" where
  "logged_all is = map (\<lambda>k. logged k (is ! k)) [0..<length is]"

definition logged_step :: "('w \<Rightarrow> 'w \<times> 'p item) \<Rightarrow> 'w \<times> call list \<Rightarrow> ('w \<times> call list) \<times> 'p item" where
  "logged_step step = (\<lambda>(w, tr). case step w of (w', it) \<Rightarrow> ((w', tr), it))"

text \<open>A run of \<open>After\<close>: from the given number down, possibly ended early by an error.\<close>

definition after_run :: "nat \<Rightarrow> nat \<Rightarrow> call list" where
  "after_run j k = map AfterCall (rev [j..<k])"

lemma logged_all_take: "take k (logged_all is) = logged_all (take k is)" if "k \<le> length is"
  using that by (simp add: logged_all_def take_map)

lemma after_loop_log:
  assumes "k \<le> length is"
  shows "\<exists>w' r j. after_loop ctx (rev (take k (logged_all is))) resp (w, tr) =
    ((w', tr @ after_run j k), r) \<and> j \<le> k \<and> (k > 0 \<longrightarrow> j < k)"
  using assms
proof (induction k arbitrary: resp w tr)
  case (Suc k)
  then have k: "k < length is" by simp
  have top: "rev (take (Suc k) (logged_all is)) = logged k (is ! k) # rev (take k (logged_all is))"
    using k by (simp add: logged_all_def take_map upt_Suc_append)
  obtain w1 resp1 err where a: "ic_After (is ! k) ctx resp w = (w1, resp1, err)" by (metis prod_cases3)
  have tr: "tr @ AfterCall k # after_run j k = tr @ after_run j (Suc k)" if "j \<le> k" for j
    using that by (simp add: after_run_def)
  show ?case
  proof (cases err)
    case (Some e)
    then show ?thesis
      using a tr[of k] by (auto simp: top logged_def after_run_def intro!: exI[of _ k])
  next
    case None
    obtain w' r j where "after_loop ctx (rev (take k (logged_all is))) resp1 (w1, tr @ [AfterCall k]) =
        ((w', (tr @ [AfterCall k]) @ after_run j k), r)" "j \<le> k"
      using Suc.IH[of resp1 w1 "tr @ [AfterCall k]"] k by auto
    then have "after_loop ctx (rev (take (Suc k) (logged_all is))) resp (w, tr) =
        ((w', tr @ after_run j (Suc k)), r)"
      using a None tr[of j] by (simp add: top logged_def)
    with \<open>j \<le> k\<close> show ?thesis by (intro exI[of _ w'] exI[of _ r] exI[of _ j]) simp
  qed
qed (simp add: after_run_def)

lemma before_loop_log:
  assumes "k \<le> length is"
  shows "\<exists>w' m. k \<le> m \<and> m \<le> length is \<and>
    ((\<exists>c r e. before_loop (take k (logged_all is)) (drop k (logged_all is)) ctx req (w, tr) =
        Inl ((w', tr @ map BeforeCall [k..<m]), c, take m (logged_all is), r, e) \<and> k < m) \<or>
     (\<exists>c r. m = length is \<and> before_loop (take k (logged_all is)) (drop k (logged_all is)) ctx req (w, tr) =
        Inr ((w', tr @ map BeforeCall [k..<m]), c, r)))"
  using assms
proof (induction "length is - k" arbitrary: k ctx req w tr)
  case 0
  then show ?case by (auto simp: logged_all_def)
next
  case (Suc n)
  then have k: "k < length is" by simp
  have d: "drop k (logged_all is) = logged k (is ! k) # drop (Suc k) (logged_all is)"
    using k by (simp add: logged_all_def Cons_nth_drop_Suc[symmetric])
  have t: "take k (logged_all is) @ [logged k (is ! k)] = take (Suc k) (logged_all is)"
    using k by (simp add: logged_all_def take_Suc_conv_app_nth)
  obtain w1 req1 ctx1 res err where b: "ic_Before (is ! k) ctx req w = (w1, req1, ctx1, res, err)"
    by (metis prod_cases5)
  show ?case
  proof (cases "err \<noteq> None \<or> res \<noteq> None")
    case True
    then show ?thesis
      using b k t[unfolded logged_def] by (auto simp: d logged_def intro!: exI[of _ "Suc k"])
  next
    case False
    have eq: "before_loop (take k (logged_all is)) (drop k (logged_all is)) ctx req (w, tr) =
      before_loop (take (Suc k) (logged_all is)) (drop (Suc k) (logged_all is)) ctx1 req1
        (w1, tr @ [BeforeCall k])"
      using b False by (simp add: d t[symmetric] logged_def)
    have up: "tr @ [BeforeCall k] @ map BeforeCall [Suc k..<m] = tr @ map BeforeCall [k..<m]"
      if "Suc k \<le> m" for m using that by (simp add: upt_conv_Cons)
    from Suc.hyps(1)[of "Suc k" ctx1 req1 w1 "tr @ [BeforeCall k]"] Suc.hyps(2) k
    obtain w' m where m: "Suc k \<le> m" "m \<le> length is"
      "(\<exists>c r e. before_loop (take (Suc k) (logged_all is)) (drop (Suc k) (logged_all is)) ctx1 req1
          (w1, tr @ [BeforeCall k]) =
        Inl ((w', (tr @ [BeforeCall k]) @ map BeforeCall [Suc k..<m]), c, take m (logged_all is), r, e)) \<or>
       (\<exists>c r. m = length is \<and> before_loop (take (Suc k) (logged_all is)) (drop (Suc k) (logged_all is))
          ctx1 req1 (w1, tr @ [BeforeCall k]) =
        Inr ((w', (tr @ [BeforeCall k]) @ map BeforeCall [Suc k..<m]), c, r))"
      by fastforce
    from m(3) show ?thesis unfolding eq using m(1,2) up[OF m(1)]
      by (intro exI[of _ w'] exI[of _ m]) auto
  qed
qed

lemma deliver_log:
  "\<exists>w' items js. deliver ctx (logged_all is) goes_on (map logged_step steps) (w, tr) =
     ((w', tr @ concat (map (\<lambda>j. after_run j (length is)) js)), items) \<and>
     length js = length items \<and> list_all (\<lambda>j. is = [] \<or> j < length is) js"
proof (induction steps arbitrary: w tr)
  case (Cons s steps)
  obtain w1 p e where "s w = (w1, p, e)" by (metis prod_cases3)
  then have ls: "logged_step s (w, tr) = ((w1, tr), p, e)" by (simp add: logged_step_def)
  obtain w2 item j where a: "interceptAfter ctx (logged_all is) p e (w1, tr) =
      ((w2, tr @ after_run j (length is)), item)" "is = [] \<or> j < length is"
    using after_loop_log[of "length is" "is" ctx "\<lparr>rs_Payload = p, rs_Err = e\<rparr>" w1 tr]
    by (auto simp: interceptAfter_def logged_all_def)
  obtain w' items js where IH: "deliver ctx (logged_all is) goes_on (map logged_step steps)
      (w2, tr @ after_run j (length is)) =
     ((w', (tr @ after_run j (length is)) @ concat (map (\<lambda>j. after_run j (length is)) js)), items)"
     "length js = length items" "list_all (\<lambda>j. is = [] \<or> j < length is) js"
    using Cons.IH by blast
  show ?case
  proof (cases "goes_on item")
    case True
    then show ?thesis
      using ls a(1) IH(1) by (intro exI[of _ w'] exI[of _ "item # items"] exI[of _ "j # js"])
        (use a(2) IH(2,3) in \<open>simp\<close>)
  next
    case False
    then show ?thesis
      using ls a(1) by (intro exI[of _ w2] exI[of _ "[item]"] exI[of _ "[j]"]) (use a(2) in \<open>simp\<close>)
  qed
qed simp

text \<open>
  The calls of the interceptors during a call: \<open>Before\<close> of the first \<open>m\<close>, in order, and for every
  item that is delivered \<open>After\<close> of the same ones from the last down, up to one that returns an
  error. If \<open>m\<close> is not all of them, the last one ended the call, and there is one item.
\<close>

theorem interceptor_order:
  "\<exists>w' items m js. interceptCalls (logged_all is) (\<lambda>c r. map logged_step (next c r)) goes_on ctx req (w, []) =
       ((w', map BeforeCall [0..<m] @ concat (map (\<lambda>j. after_run j m) js)), items) \<and>
     m \<le> length is \<and> length js = length items \<and> list_all (\<lambda>j. m = 0 \<or> j < m) js \<and>
     (m = length is \<or> length items = 1)"
proof -
  obtain w1 m where m: "m \<le> length is"
    "(\<exists>c r e. before_loop [] (logged_all is) ctx req (w, []) =
        Inl ((w1, map BeforeCall [0..<m]), c, take m (logged_all is), r, e) \<and> 0 < m) \<or>
     (\<exists>c r. m = length is \<and> before_loop [] (logged_all is) ctx req (w, []) =
        Inr ((w1, map BeforeCall [0..<m]), c, r))"
    using before_loop_log[of 0 "is" ctx req w "[]"] by auto
  from m(2) show ?thesis
  proof (elim disjE exE conjE)
    fix c r e
    assume b: "before_loop [] (logged_all is) ctx req (w, []) =
        Inl ((w1, map BeforeCall [0..<m]), c, take m (logged_all is), r, e)" "0 < m"
    obtain w' x j where "interceptAfter c (take m (logged_all is)) r e (w1, map BeforeCall [0..<m]) =
        ((w', map BeforeCall [0..<m] @ after_run j m), x)" "j < m"
      using after_loop_log[OF m(1), of c "\<lparr>rs_Payload = r, rs_Err = e\<rparr>" w1 "map BeforeCall [0..<m]"] b(2)
      by (auto simp: interceptAfter_def)
    with b m(1) show ?thesis
      by (intro exI[of _ w'] exI[of _ "[x]"] exI[of _ m] exI[of _ "[j]"]) (simp add: interceptCalls_def)
  next
    fix c r
    assume b: "m = length is" "before_loop [] (logged_all is) ctx req (w, []) =
        Inr ((w1, map BeforeCall [0..<m]), c, r)"
    obtain w' items js where "deliver c (logged_all is) goes_on (map logged_step (next c r))
        (w1, map BeforeCall [0..<m]) =
       ((w', map BeforeCall [0..<m] @ concat (map (\<lambda>j. after_run j (length is)) js)), items)"
       "length js = length items" "list_all (\<lambda>j. is = [] \<or> j < length is) js"
      using deliver_log[of c "is" goes_on "next c r" w1 "map BeforeCall [0..<m]"] by blast
    with b show ?thesis
      by (intro exI[of _ w'] exI[of _ items] exI[of _ m] exI[of _ js]) (simp add: interceptCalls_def)
  qed
qed

section \<open>The contexts that After gets\<close>

text \<open>
  An interceptor that adds its number to the context in \<open>Before\<close> and notes the context it gets in
  \<open>After\<close>.
\<close>

definition recorder :: "nat \<Rightarrow> go_error option \<Rightarrow> (nat list, 'p, (nat \<times> nat list) list) interceptor" where
  "recorder k reject = \<lparr>
     ic_Before = (\<lambda>ctx p w. (w, p, ctx @ [k], None, reject)),
     ic_After = (\<lambda>ctx r w. (w @ [(k, ctx)], r, None))\<rparr>"

lemma after_recorders:
  "after_loop ctx (map (\<lambda>k. recorder k (f k)) ks) resp w =
     (w @ map (\<lambda>k. (k, ctx)) ks, rs_Payload resp, rs_Err resp)"
  by (induction ks arbitrary: w) (simp_all add: recorder_def)

lemma before_recorders:
  "before_loop visited (map (\<lambda>k. recorder k None) ks @ [recorder n (Some err)]) ctx req w =
     Inl (w, ctx @ ks, visited @ map (\<lambda>k. recorder k None) ks @ [recorder n (Some err)], None, Some err)"
  by (induction ks arbitrary: visited ctx) (simp_all add: recorder_def)

text \<open>
  When an interceptor ends the call, its own \<open>After\<close> gets the context from before its
  \<open>Before\<close>, and the others get contexts with values of interceptors behind them: each gets the
  context that the next to last \<open>Before\<close> returned.
\<close>

theorem After_context:
  "interceptCalls (map (\<lambda>k. recorder k None) [0..<n] @ [recorder n (Some err)]) next goes_on ctx req [] =
     (map (\<lambda>k. (k, ctx @ [0..<n])) (rev [0..<Suc n]), [(None, Some err)])"
proof -
  have eq: "map (\<lambda>k. recorder k None) [0..<n] @ [recorder n (Some err)] =
      map (\<lambda>k. recorder k (if k = n then Some err else None)) [0..<Suc n]"
    by simp
  show ?thesis
    using before_recorders[of "[]" "[0..<n]" n err ctx req "[]"]
    unfolding append_Nil eq
    by (simp add: interceptCalls_def interceptAfter_def rev_map after_recorders del: upt_Suc)
qed

section \<open>The error sanitizer\<close>

definition callerErrors :: "sentinel list" where
  "callerErrors =
    [ErrParseError, ErrInvalidRequest, ErrMethodNotFound, ErrInvalidParams, ErrTaskNotFound,
     ErrTaskNotCancelable, ErrPushNotificationNotSupported, ErrUnsupportedOperation,
     ErrUnsupportedContentType, ErrInvalidAgentResponse, ErrExtendedCardNotConfigured,
     ErrExtensionSupportRequired, ErrVersionNotSupported, ErrUnauthenticated, ErrUnauthorized,
     ErrContextCanceled, ErrContextDeadlineExceeded]"

definition errorSanitizer_After :: "'p response \<Rightarrow> 'p response" where
  "errorSanitizer_After resp =
     (case rs_Err resp of
        None \<Rightarrow> resp
      | Some err \<Rightarrow>
          (case As_Error err of
             Some a2aErr \<Rightarrow> resp\<lparr>rs_Err := Some a2aErr\<rparr>
           | None \<Rightarrow>
               (case List.find (errors_Is err) callerErrors of
                  Some callerErr \<Rightarrow> resp\<lparr>rs_Err := Some (Sentinel callerErr)\<rparr>
                | None \<Rightarrow> resp\<lparr>rs_Err := Some (Sentinel ErrInternalError)\<rparr>)))"

lemma first_some_Some: "first_some xs = Some x \<Longrightarrow> Some x \<in> set xs"
  by (induction xs rule: first_some.induct) auto

lemma As_Error_Is: "As_Error err = Some a \<Longrightarrow> errors_Is a t \<Longrightarrow> errors_Is err t"
proof (induction err rule: As_Error.induct)
  case (2 m es)
  then have "Some a \<in> set (map As_Error es)" by (auto dest: first_some_Some)
  then obtain e where "e \<in> set es" "As_Error e = Some a" by auto
  with 2 show ?case by (auto simp: list_ex_iff)
qed auto

text \<open>
  The sanitizer replaces an error by one without the context that was added on its way: the
  \<open>a2a.Error\<close> in its chain or a bare sentinel. Clients still see the same kind, except that a
  server error without an \<open>a2a.Error\<close> becomes an internal error.
\<close>

theorem sanitizer_keeps_kind:
  assumes "carries err s" "rs_Err resp = Some err" "\<forall>a. As_Error err = Some a \<longrightarrow> errors_Is a s"
  shows "\<exists>err'. rs_Err (errorSanitizer_After resp) = Some err' \<and>
    (As_Error err = Some err' \<or> (\<exists>t. err' = Sentinel t)) \<and>
    carries err' (if As_Error err = None \<and> s = ErrServerError then ErrInternalError else s)"
proof (cases "As_Error err")
  case (Some a)
  with assms As_Error_Is[OF Some] show ?thesis
    by (auto simp: errorSanitizer_After_def carries_def)
next
  case None
  have bare: "carries (Sentinel t) t" if "t \<in> set a2a_sentinels" for t
    using that by (auto simp: carries_def a2a_sentinels_def)
  have "List.find (errors_Is err) callerErrors = List.find (\<lambda>t. t = s) callerErrors"
    using assms(1) by (intro find_cong) (auto simp: carries_def callerErrors_def a2a_sentinels_def)
  moreover have "List.find (\<lambda>t. t = s) callerErrors =
      (if s \<in> {ErrInternalError, ErrServerError} then None else Some s)"
    using assms(1) by (auto simp: carries_def callerErrors_def a2a_sentinels_def)
  ultimately show ?thesis
    using None assms(1,2) bare[of s] bare[of ErrInternalError]
    by (auto simp: errorSanitizer_After_def carries_def[of err] a2a_sentinels_def split: if_splits)
qed

lemma sanitizer_keeps_kind_witness:
  "\<exists>err'. rs_Err (errorSanitizer_After
      \<lparr>rs_Payload = (None :: nat option), rs_Err = Some (Errorf ''load: %w'' [Sentinel ErrTaskNotFound])\<rparr>) = Some err' \<and>
    (As_Error (Errorf ''load: %w'' [Sentinel ErrTaskNotFound]) = Some err' \<or> (\<exists>t. err' = Sentinel t)) \<and>
    carries err' (if As_Error (Errorf ''load: %w'' [Sentinel ErrTaskNotFound]) = None \<and>
      ErrTaskNotFound = ErrServerError then ErrInternalError else ErrTaskNotFound)"
  by (rule sanitizer_keeps_kind) (simp_all add: carries_def a2a_sentinels_def)

section \<open>Enforcing the agent card\<close>

text \<open>\<open>mime.ParseMediaType\<close> is an argument: the media type without parameters, if it is well formed.\<close>

fun parseMediaTypes :: "(string \<Rightarrow> string option) \<Rightarrow> string list \<Rightarrow> go_error + string list" where
  "parseMediaTypes mime [] = Inr []"
| "parseMediaTypes mime (mediaType # rest) =
     (case mime mediaType of
        None \<Rightarrow> Inl (Errorf ''failed to parse media type %q: %v: %w'' [Sentinel ErrInvalidParams])
      | Some parsedMediaType \<Rightarrow>
          (case parseMediaTypes mime rest of Inl err \<Rightarrow> Inl err | Inr parsed \<Rightarrow> Inr (parsedMediaType # parsed)))"

fun skill_modes ::
  "(string \<Rightarrow> string option) \<Rightarrow> agent_skill list \<Rightarrow> go_error + (string list \<times> bool)" where
  "skill_modes mime [] = Inr ([], False)"
| "skill_modes mime (skill # skills) =
     (if skill_InputModes skill = []
      then (case skill_modes mime skills of Inl err \<Rightarrow> Inl err | Inr (modes, inh) \<Rightarrow> Inr (modes, True))
      else (case parseMediaTypes mime (skill_InputModes skill) of
              Inl err \<Rightarrow> Inl err
            | Inr parsed \<Rightarrow>
                (case skill_modes mime skills of
                   Inl err \<Rightarrow> Inl err | Inr (modes, inh) \<Rightarrow> Inr (parsed @ modes, inh))))"

definition inputModesFromCard :: "(string \<Rightarrow> string option) \<Rightarrow> agent_card \<Rightarrow> go_error + string list" where
  "inputModesFromCard mime ac =
     (case skill_modes mime (slice (card_Skills ac)) of
        Inl err \<Rightarrow> Inl err
      | Inr (inputModes, inherits) \<Rightarrow>
          (if slice (card_Skills ac) = [] \<or> inherits
           then (case parseMediaTypes mime (slice (card_DefaultInputModes ac)) of
                   Inl err \<Rightarrow> Inl err | Inr parsed \<Rightarrow> Inr (inputModes @ parsed))
           else Inr inputModes))"

record enforcer =
  enf_capabilities :: agent_capabilities
  enf_inputModes :: "string list"

text \<open>\<open>Inr None\<close>: there is no ac, and the interceptor lets everything pass.\<close>

definition NewAgentCardEnforcer ::
  "(string \<Rightarrow> string option) \<Rightarrow> agent_card option \<Rightarrow> go_error + enforcer option" where
  "NewAgentCardEnforcer mime ac =
     (case ac of
        None \<Rightarrow> Inr None
      | Some c \<Rightarrow>
          (case inputModesFromCard mime c of
             Inl err \<Rightarrow> Inl err
           | Inr modes \<Rightarrow> Inr (Some \<lparr>enf_capabilities = card_Capabilities c, enf_inputModes = modes\<rparr>)))"

definition checkRequiredExtensions :: "enforcer \<Rightarrow> call_context \<Rightarrow> go_error option" where
  "checkRequiredExtensions a callCtx =
     (if cap_Extensions (enf_capabilities a) = [] then None
      else if list_ex (\<lambda>ext. ext_Required ext \<and> ext_URI ext \<notin> set (RequestedURIs callCtx))
                (cap_Extensions (enf_capabilities a))
      then Some (Sentinel ErrExtensionSupportRequired) else None)"

definition streaming_methods :: "string list" where
  "streaming_methods = [''SendStreamingMessage'', ''SubscribeToTask'']"

definition push_methods :: "string list" where
  "push_methods = [''GetTaskPushConfig'', ''ListTaskPushConfigs'', ''CreateTaskPushConfig'',
     ''DeleteTaskPushConfig'']"

definition checkCapabilities :: "enforcer \<Rightarrow> call_context \<Rightarrow> go_error option" where
  "checkCapabilities a callCtx =
     (case checkRequiredExtensions a callCtx of
        Some err \<Rightarrow> Some err
      | None \<Rightarrow>
          (let m = cc_method callCtx; caps = enf_capabilities a in
           if m \<in> set streaming_methods
           then (if \<not> cap_Streaming caps then Some (Sentinel ErrUnsupportedOperation) else None)
           else if m \<in> set push_methods
           then (if \<not> cap_PushNotifications caps then Some (Sentinel ErrPushNotificationNotSupported) else None)
           else if m = ''GetExtendedAgentCard''
           then (if \<not> cap_ExtendedAgentCard caps then Some (Sentinel ErrUnsupportedOperation) else None)
           else None))"

definition effectiveMediaType :: "part \<Rightarrow> string" where
  "effectiveMediaType p =
     (if part_MediaType p \<noteq> '''' then part_MediaType p
      else (case part_Content p of
              Some (Text t) \<Rightarrow> ''text/plain''
            | Some (Data d) \<Rightarrow> ''application/json''
            | _ \<Rightarrow> ''application/octet-stream''))"

fun validateMediaTypes ::
  "(string \<Rightarrow> string option) \<Rightarrow> string list \<Rightarrow> part list \<Rightarrow> go_error option" where
  "validateMediaTypes mime inputModes [] = None"
| "validateMediaTypes mime inputModes (part # parts) =
     (case mime (effectiveMediaType part) of
        None \<Rightarrow> Some (Errorf ''failed to parse media type %q: %v: %w'' [Sentinel ErrInvalidParams])
      | Some parsedMediaType \<Rightarrow>
          (if parsedMediaType \<notin> set inputModes
           then Some (Errorf ''media type %q is not supported: %w'' [Sentinel ErrUnsupportedContentType])
           else validateMediaTypes mime inputModes parts))"

text \<open>The payload of a request, if it is a \<open>*SendMessageRequest\<close>.\<close>

definition checkInputModes ::
  "(string \<Rightarrow> string option) \<Rightarrow> enforcer \<Rightarrow> call_context \<Rightarrow> send_request option \<Rightarrow> go_error option" where
  "checkInputModes mime a callCtx payload =
     (if enf_inputModes a = [] then None
      else if cc_method callCtx \<in> {''SendMessage'', ''SendStreamingMessage''}
      then (case payload of
              None \<Rightarrow> None
            | Some r \<Rightarrow>
                (case req_Message r of
                   None \<Rightarrow> None
                 | Some msg \<Rightarrow> validateMediaTypes mime (enf_inputModes a) (msg_Parts msg)))
      else None)"

definition enforcer_Before ::
  "(string \<Rightarrow> string option) \<Rightarrow> enforcer \<Rightarrow> call_context \<Rightarrow> send_request option \<Rightarrow> go_error option" where
  "enforcer_Before mime a callCtx payload =
     (case checkCapabilities a callCtx of
        Some err \<Rightarrow> Some err
      | None \<Rightarrow> checkInputModes mime a callCtx payload)"

text \<open>
  What the card promises: the modes of a skill are its own or, if it has none, the default ones,
  which also hold for a card without skills.
\<close>

definition card_accepts :: "(string \<Rightarrow> string option) \<Rightarrow> agent_card \<Rightarrow> string \<Rightarrow> bool" where
  "card_accepts mime ac mediaType \<longleftrightarrow>
     (let own = (\<lambda>skill. if skill_InputModes skill = [] then slice (card_DefaultInputModes ac)
                         else skill_InputModes skill);
          modes = (if slice (card_Skills ac) = [] then slice (card_DefaultInputModes ac)
                   else concat (map own (slice (card_Skills ac))))
      in mime mediaType \<noteq> None \<and> mime mediaType \<in> set (map mime modes))"

definition card_has_modes :: "agent_card \<Rightarrow> bool" where
  "card_has_modes ac \<longleftrightarrow>
     (list_ex (\<lambda>s. skill_InputModes s \<noteq> []) (slice (card_Skills ac)) \<or>
      (slice (card_DefaultInputModes ac) \<noteq> [] \<and>
       (slice (card_Skills ac) = [] \<or> list_ex (\<lambda>s. skill_InputModes s = []) (slice (card_Skills ac)))))"

lemma parseMediaTypes_Inr:
  "parseMediaTypes mime ms = Inr ps \<longleftrightarrow> map mime ms = map Some ps"
proof (induction ms arbitrary: ps)
  case (Cons m ms)
  show ?case by (cases ps) (auto simp flip: Cons.IH split: option.splits sum.splits)
qed auto

lemma skill_modes_Inr:
  assumes "skill_modes mime skills = Inr (modes, inh)"
  shows "map mime (concat (map skill_InputModes skills)) = map Some modes \<and>
    inh = list_ex (\<lambda>s. skill_InputModes s = []) skills"
  using assms
  by (induction skills arbitrary: modes inh)
    (auto simp: parseMediaTypes_Inr split: if_splits sum.splits prod.splits)

lemma validate_iff:
  "validateMediaTypes mime modes parts = None \<longleftrightarrow>
     list_all (\<lambda>p. mime (effectiveMediaType p) \<in> Some ` set modes) parts"
  by (induction parts) (auto split: option.splits)

lemma input_modes_spec:
  assumes "inputModesFromCard mime ac = Inr modes"
  shows "mime m \<in> Some ` set modes \<longleftrightarrow> card_accepts mime ac m" "modes = [] \<longleftrightarrow> \<not> card_has_modes ac"
proof -
  let ?skills = "slice (card_Skills ac)" and ?defaults = "slice (card_DefaultInputModes ac)"
  obtain ms inh where s: "skill_modes mime ?skills = Inr (ms, inh)"
    using assms by (auto simp: inputModesFromCard_def split: sum.splits)
  note ms = skill_modes_Inr[OF s]
  have "\<exists>ds. modes = ms @ ds \<and> (if ?skills = [] \<or> inh then map mime ?defaults = map Some ds else ds = [])"
    using assms s by (auto simp: inputModesFromCard_def parseMediaTypes_Inr split: sum.splits if_splits)
  then obtain ds where ds: "modes = ms @ ds"
    "if ?skills = [] \<or> inh then map mime ?defaults = map Some ds else ds = []" by blast
  have sets: "mime ` set (concat (map skill_InputModes ?skills)) = Some ` set ms"
    "?skills = [] \<or> inh \<Longrightarrow> mime ` set ?defaults = Some ` set ds"
    using ms ds(2) by (metis set_map)+
  have own: "set (concat (map (\<lambda>skill. if skill_InputModes skill = [] then ?defaults
        else skill_InputModes skill) ?skills)) =
      set (concat (map skill_InputModes ?skills)) \<union> (if inh then set ?defaults else {})"
    using ms by (auto simp: list_ex_iff split: if_splits)
  have "mime ` (if ?skills = [] then set ?defaults
      else set (concat (map (\<lambda>skill. if skill_InputModes skill = [] then ?defaults
        else skill_InputModes skill) ?skills))) = Some ` set modes"
    unfolding own using sets ds by (auto simp: image_Un)
  then have "mime ` set (if ?skills = [] then ?defaults
      else concat (map (\<lambda>skill. if skill_InputModes skill = [] then ?defaults
        else skill_InputModes skill) ?skills)) = Some ` set modes"
    by (simp only: if_distrib[where f = set])
  then show "mime m \<in> Some ` set modes \<longleftrightarrow> card_accepts mime ac m"
    unfolding card_accepts_def Let_def set_map by (simp only:) auto
  have "ms = [] \<longleftrightarrow> \<not> list_ex (\<lambda>s. skill_InputModes s \<noteq> []) ?skills"
  proof -
    have "length (concat (map skill_InputModes ?skills)) = length ms"
      using ms by (metis length_map)
    then have "ms = [] \<longleftrightarrow> concat (map skill_InputModes ?skills) = []"
      by (metis length_0_conv)
    then show ?thesis by (auto simp: list_ex_iff)
  qed
  moreover have "?skills = [] \<or> inh \<Longrightarrow> ds = [] \<longleftrightarrow> ?defaults = []"
    using ds(2) by (auto dest: arg_cong[where f = length])
  ultimately show "modes = [] \<longleftrightarrow> \<not> card_has_modes ac"
    using ds ms by (auto simp: card_has_modes_def split: if_splits)
qed

text \<open>
  C25: The enforcer lets a request pass exactly if it conforms to the card: all required extensions are
  requested, the capability that the method needs is declared, and, if the card has input modes,
  every part of a sent message has a media type that some skill accepts.
\<close>

theorem enforcer_iff:
  assumes "NewAgentCardEnforcer mime (Some ac) = Inr (Some a)"
  shows "enforcer_Before mime a cc payload = None \<longleftrightarrow>
    list_all (\<lambda>ext. \<not> (ext_Required ext \<and> \<not> Extensions_Requested cc ext)) (cap_Extensions (card_Capabilities ac)) \<and>
    \<not> (cc_method cc \<in> set streaming_methods \<and> \<not> cap_Streaming (card_Capabilities ac)) \<and>
    \<not> (cc_method cc \<in> set push_methods \<and> \<not> cap_PushNotifications (card_Capabilities ac)) \<and>
    \<not> (cc_method cc = ''GetExtendedAgentCard'' \<and> \<not> cap_ExtendedAgentCard (card_Capabilities ac)) \<and>
    \<not> (card_has_modes ac \<and> cc_method cc \<in> {''SendMessage'', ''SendStreamingMessage''} \<and>
       (\<exists>r msg. payload = Some r \<and> req_Message r = Some msg \<and>
          \<not> list_all (\<lambda>p. card_accepts mime ac (effectiveMediaType p)) (msg_Parts msg)))"
proof -
  obtain modes where modes: "inputModesFromCard mime ac = Inr modes"
    "a = \<lparr>enf_capabilities = card_Capabilities ac, enf_inputModes = modes\<rparr>"
    using assms by (auto simp: NewAgentCardEnforcer_def split: sum.splits)
  note spec = input_modes_spec[OF modes(1)]
  have "checkCapabilities a cc = None \<longleftrightarrow>
    list_all (\<lambda>ext. \<not> (ext_Required ext \<and> \<not> Extensions_Requested cc ext)) (cap_Extensions (card_Capabilities ac)) \<and>
    \<not> (cc_method cc \<in> set streaming_methods \<and> \<not> cap_Streaming (card_Capabilities ac)) \<and>
    \<not> (cc_method cc \<in> set push_methods \<and> \<not> cap_PushNotifications (card_Capabilities ac)) \<and>
    \<not> (cc_method cc = ''GetExtendedAgentCard'' \<and> \<not> cap_ExtendedAgentCard (card_Capabilities ac))"
    by (auto simp: checkCapabilities_def checkRequiredExtensions_def modes(2) Let_def list_ex_iff
        list_all_iff Extensions_Requested_def streaming_methods_def push_methods_def)
  moreover have "checkInputModes mime a cc payload = None \<longleftrightarrow>
    \<not> (card_has_modes ac \<and> cc_method cc \<in> {''SendMessage'', ''SendStreamingMessage''} \<and>
       (\<exists>r msg. payload = Some r \<and> req_Message r = Some msg \<and>
          \<not> list_all (\<lambda>p. card_accepts mime ac (effectiveMediaType p)) (msg_Parts msg)))"
    using spec by (auto simp: checkInputModes_def modes(2) validate_iff split: option.splits)
  moreover have "enforcer_Before mime a cc payload = None \<longleftrightarrow>
      checkCapabilities a cc = None \<and> checkInputModes mime a cc payload = None"
    by (simp add: enforcer_Before_def split: option.splits)
  ultimately show ?thesis by (simp only: conj_assoc)
qed

definition ex_card :: agent_card where
  "ex_card = \<lparr>card_SupportedInterfaces = None,
     card_Capabilities = \<lparr>cap_Extensions = [\<lparr>ext_Description = '''', ext_Params = None,
         ext_Required = True, ext_URI = ''urn:x''\<rparr>], cap_PushNotifications = False,
       cap_Streaming = True, cap_ExtendedAgentCard = False\<rparr>,
     card_DefaultInputModes = Some [''text/plain''], card_DefaultOutputModes = None,
     card_Description = '''', card_DocumentationURL = '''', card_IconURL = '''', card_Name = ''a'',
     card_Provider = None, card_SecurityRequirements = [], card_SecuritySchemes = None,
     card_Signatures = None, card_Skills = None, card_Version = ''1''\<rparr>"

definition ex_call :: call_context where
  "ex_call = (NewCallContext (NewServiceParams [(''A2a-Extensions'', [''urn:y, urn:x''])]))
     \<lparr>cc_method := ''SendMessage''\<rparr>"

definition ex_send_part :: "part \<Rightarrow> send_request" where
  "ex_send_part p = \<lparr>req_Tenant = '''', req_Config = None,
     req_Message = Some (NewMessage ''m1'' MessageRoleUser [p]), req_Metadata = None\<rparr>"

lemma lower_names [simp]:
  "to_lower ''A2a-Extensions'' = ''a2a-extensions''" "to_lower ''A2A-Extensions'' = ''a2a-extensions''"
  by code_simp+

lemma enforcer_iff_witness:
  "enforcer_Before Some \<lparr>enf_capabilities = card_Capabilities ex_card, enf_inputModes = [''text/plain'']\<rparr>
     ex_call (Some (ex_send_part (NewTextPart ''hi''))) = None"
  by (subst enforcer_iff[of Some ex_card])
    (simp_all add: NewAgentCardEnforcer_def inputModesFromCard_def ex_card_def ex_call_def NewCallContext_def
      Extensions_Requested_def RequestedURIs_def ServiceParams_Get_def NewServiceParams_def go_consts
      trim_blanks_def card_accepts_def card_has_modes_def ex_send_part_def
      NewMessage_def NewTextPart_def effectiveMediaType_def streaming_methods_def push_methods_def)

section \<open>The call context of a back end\<close>

record encoded_call =
  en_Tenant :: string
  en_SvcParams :: "string list gomap"
  en_User :: "user option"
  en_ProtocolVersion :: string

record encoded_ctx =
  en_CallContext :: "encoded_call option"
  en_Attributes :: metadata

text \<open>
  \<open>ToMapStruct\<close> and \<open>FromMapStruct\<close> pass these structs through JSON, where dynamic values are
  normalised and, through \<open>omitempty\<close>, empty maps come back nil.
\<close>

definition omitempty :: "'v gomap \<Rightarrow> 'v gomap" where
  "omitempty m = (case m of None \<Rightarrow> None | Some f \<Rightarrow> if f = fmempty then None else Some f)"

definition json_ctx :: "(rat \<Rightarrow> rat) \<Rightarrow> encoded_ctx \<Rightarrow> encoded_ctx option" where
  "json_ctx f32 e =
     (if encodable_map (gm_fmap (en_Attributes e)) \<and>
         (\<forall>cc u. en_CallContext e = Some cc \<longrightarrow> en_User cc = Some u \<longrightarrow>
            encodable_map (gm_fmap (user_Attributes u)))
      then Some \<lparr>
        en_CallContext = map_option (\<lambda>cc. cc\<lparr>
            en_SvcParams := omitempty (en_SvcParams cc),
            en_User := map_option (\<lambda>u. u\<lparr>user_Attributes :=
                omitempty (map_option (norm_map f32) (user_Attributes u))\<rparr>) (en_User cc)\<rparr>)
          (en_CallContext e),
        en_Attributes = omitempty (map_option (norm_map f32) (en_Attributes e))\<rparr>
      else None)"

record attr_codec =
  codec_Encode :: "go_ctx \<Rightarrow> go_error + metadata"
  codec_Decode :: "go_ctx \<Rightarrow> metadata \<Rightarrow> go_error + go_ctx"

definition callCtxCodec_Encode ::
  "(rat \<Rightarrow> rat) \<Rightarrow> attr_codec option \<Rightarrow> go_ctx \<Rightarrow> go_error + encoded_ctx" where
  "callCtxCodec_Encode f32 AttrCodec ctx =
     (case (case AttrCodec of None \<Rightarrow> Inr None | Some c \<Rightarrow> codec_Encode c ctx) of
        Inl err \<Rightarrow> Inl (Errorf ''custom attr encoding failed: %w'' [err])
      | Inr attrs \<Rightarrow>
          (let result = \<lparr>
             en_CallContext = map_option (\<lambda>cc. \<lparr>en_Tenant = cc_tenant cc,
               en_SvcParams = Some (cc_svcParams cc), en_User = Some (cc_User cc),
               en_ProtocolVersion = cc_ProtocolVersion cc\<rparr>) (CallContextFrom ctx),
             en_Attributes = attrs\<rparr>
           in case json_ctx f32 result of
                None \<Rightarrow> Inl (Errorf ''json: unsupported type'' [])
              | Some data \<Rightarrow> Inr data))"

text \<open>
  \<open>range_of\<close> lists the entries of a map in the order of a range loop. A missing user becomes a nil
  pointer in the call context, which the data of \<open>Encode\<close> never has.
\<close>

definition callCtxCodec_Decode ::
  "(service_params \<Rightarrow> (string \<times> string list) list) \<Rightarrow> (rat \<Rightarrow> rat) \<Rightarrow> attr_codec option \<Rightarrow> go_ctx \<Rightarrow>
     encoded_ctx option \<Rightarrow> go_error + go_ctx" where
  "callCtxCodec_Decode range_of f32 AttrCodec ctx data =
     (case data of
        None \<Rightarrow> Inr ctx
      | Some d \<Rightarrow>
          (case json_ctx f32 d of
             None \<Rightarrow> Inl (Errorf ''json: unsupported type'' [])
           | Some e \<Rightarrow>
               (let ctx1 =
                  (case en_CallContext e of
                     None \<Rightarrow> ctx
                   | Some ecc \<Rightarrow>
                       (let svcParams = NewServiceParams
                              (case en_SvcParams ecc of None \<Rightarrow> [] | Some kv \<Rightarrow> range_of kv);
                            callCtx = NewCallContext svcParams
                        in ctx\<lparr>ctx_call := Some (callCtx\<lparr>cc_tenant := en_Tenant ecc,
                             cc_User := (case en_User ecc of Some u \<Rightarrow> u | None \<Rightarrow> cc_User callCtx),
                             cc_ProtocolVersion := en_ProtocolVersion ecc\<rparr>)\<rparr>))
                in case en_Attributes e of
                     None \<Rightarrow> Inr ctx1
                   | Some attrs \<Rightarrow>
                       (case AttrCodec of
                          None \<Rightarrow> Inl (Errorf ''custom attr decoding failed, codec not set'' [])
                        | Some c \<Rightarrow>
                            (case codec_Decode c ctx1 (Some attrs) of
                               Inl err \<Rightarrow> Inl (Errorf ''custom attr decoding failed: %w'' [err])
                             | Inr localCtx \<Rightarrow> Inr localCtx)))))"

lemma omitempty_idem [simp]: "omitempty (omitempty m) = omitempty m"
  by (simp add: omitempty_def split: option.splits)

lemma omitempty_norm [simp]:
  "omitempty (map_option (norm_map f32) (omitempty m)) = omitempty (map_option (norm_map f32) m)"
  by (simp add: omitempty_def split: option.splits)

lemma gm_fmap_omitempty [simp]: "gm_fmap (omitempty m) = gm_fmap m"
  by (simp add: omitempty_def split: option.splits)

lemma json_ctx_idem:
  assumes "json_ctx f32 e = Some d"
  shows "json_ctx f32 d = Some d"
proof -
  have "gm_fmap (map_option (norm_map f32) m) = norm_map f32 (gm_fmap m)" for m
    by (cases m) simp_all
  with assms show ?thesis
    by (auto simp: json_ctx_def option.map_comp o_def norm_map_encodable split: if_splits)
qed

text \<open>The parameters that a range loop rebuilds.\<close>

lemma NewServiceParams_range:
  assumes "params_ok sp" "map_of es = fmlookup sp" "distinct (map fst es)"
  shows "NewServiceParams es = sp"
proof (rule fmap_ext)
  fix k
  have "to_lower a = a" if "(a, b) \<in> set es" for a b
  proof -
    have "fmlookup sp a = Some b" using that assms(2,3) by (metis map_of_is_SomeI)
    then show ?thesis using assms(1) by (auto simp: params_ok_def fmlookup_dom_iff)
  qed
  then have "map (\<lambda>(k, v). (to_lower k, v)) es = es" by (auto intro: map_idI)
  then have "fmlookup (NewServiceParams es) k = map_of (rev es) k"
    by (simp add: NewServiceParams_lookup)
  also have "map_of (rev es) k = Some v \<longleftrightarrow> map_of es k = Some v" for v
    using assms(3) by (simp add: map_of_eq_Some_iff rev_map[symmetric])
  then have "map_of (rev es) k = map_of es k" by (metis not_None_eq)
  finally show "fmlookup (NewServiceParams es) k = fmlookup sp k" by (simp add: assms(2))
qed

text \<open>
  C34: A back end sees the user, the tenant, the protocol version and the service parameters of the
  request that started the work; the user's attributes are what JSON makes of them.
\<close>

theorem call_context_roundtrip:
  assumes "CallContextFrom ctx = Some cc" "params_ok (cc_svcParams cc)"
    and "encodable_map (gm_fmap (user_Attributes (cc_User cc)))"
    and "\<forall>m. map_of (range_of m) = fmlookup m \<and> distinct (map fst (range_of m))"
  shows "\<exists>data cc'. callCtxCodec_Encode f32 None ctx = Inr data \<and>
    callCtxCodec_Decode range_of f32 None ctx' (Some data) = Inr (ctx'\<lparr>ctx_call := Some cc'\<rparr>) \<and>
    cc_tenant cc' = cc_tenant cc \<and> cc_ProtocolVersion cc' = cc_ProtocolVersion cc \<and>
    cc_svcParams cc' = cc_svcParams cc \<and> user_Name (cc_User cc') = user_Name (cc_User cc) \<and>
    user_Authenticated (cc_User cc') = user_Authenticated (cc_User cc) \<and>
    gm_fmap (user_Attributes (cc_User cc')) = norm_map f32 (gm_fmap (user_Attributes (cc_User cc)))"
proof -
  obtain data where data: "callCtxCodec_Encode f32 None ctx = Inr data"
    using assms(1,3) by (simp add: callCtxCodec_Encode_def json_ctx_def)
  then have idem: "json_ctx f32 data = Some data"
    by (auto simp: callCtxCodec_Encode_def Let_def intro: json_ctx_idem split: option.splits)
  have d: "data = \<lparr>en_CallContext = Some \<lparr>en_Tenant = cc_tenant cc,
        en_SvcParams = omitempty (Some (cc_svcParams cc)),
        en_User = Some (cc_User cc\<lparr>user_Attributes :=
          omitempty (map_option (norm_map f32) (user_Attributes (cc_User cc)))\<rparr>),
        en_ProtocolVersion = cc_ProtocolVersion cc\<rparr>, en_Attributes = None\<rparr>"
    using data assms(1,3)
    by (simp add: callCtxCodec_Encode_def json_ctx_def omitempty_def[of None])
  have params: "NewServiceParams (case omitempty (Some (cc_svcParams cc)) of None \<Rightarrow> [] | Some kv \<Rightarrow> range_of kv)
      = cc_svcParams cc"
    using NewServiceParams_range[OF assms(2)] assms(4)
    by (auto simp: omitempty_def NewServiceParams_def)
  have "gm_fmap (map_option (norm_map f32) m) = norm_map f32 (gm_fmap m)" for m
    by (cases m) simp_all
  with data show ?thesis
    by (simp add: callCtxCodec_Decode_def idem[unfolded d] d params NewCallContext_def)
      (rule exI, rule conjI, rule refl, simp)
qed

definition sorted_range :: "service_params \<Rightarrow> (string \<times> string list) list" where
  "sorted_range m = map (\<lambda>k. (k, the (fmlookup m k))) (sorted_list_of_fset (fmdom m))"

lemma sorted_range_ok: "map_of (sorted_range m) = fmlookup m \<and> distinct (map fst (sorted_range m))"
proof
  show "map_of (sorted_range m) = fmlookup m"
    by (rule ext) (auto simp: sorted_range_def map_of_map_restrict restrict_map_def fmlookup_dom_iff)
  show "distinct (map fst (sorted_range m))"
    by (simp add: sorted_range_def o_def sorted_list_of_fset.rep_eq)
qed

definition ex_user_ctx :: go_ctx where
  "ex_user_ctx = background\<lparr>ctx_call := Some ((NewCallContext (NewServiceParams [(''A2a-Extensions'', [''urn:x''])]))
     \<lparr>cc_User := NewAuthenticatedUser ''ann'' (Some (fmupd ''level'' (AInt KInt 3) fmempty)), cc_tenant := ''t''\<rparr>)\<rparr>"

lemma call_context_roundtrip_witness:
  "\<exists>data cc'. callCtxCodec_Encode id None ex_user_ctx = Inr data \<and>
    callCtxCodec_Decode sorted_range id None background (Some data) = Inr (background\<lparr>ctx_call := Some cc'\<rparr>) \<and>
    cc_tenant cc' = ''t'' \<and> user_Name (cc_User cc') = ''ann'' \<and> user_Authenticated (cc_User cc') \<and>
    fmlookup (cc_svcParams cc') ''a2a-extensions'' = Some [''urn:x'']"
proof -
  let ?cc = "(NewCallContext (NewServiceParams [(''A2a-Extensions'', [''urn:x''])]))
     \<lparr>cc_User := NewAuthenticatedUser ''ann'' (Some (fmupd ''level'' (AInt KInt 3) fmempty)), cc_tenant := ''t''\<rparr>"
  have "CallContextFrom ex_user_ctx = Some ?cc"
    by (simp add: ex_user_ctx_def CallContextFrom_def)
  moreover have "params_ok (cc_svcParams ?cc)"
    by (simp add: NewCallContext_def params_ok_New)
  moreover have "encodable_map (gm_fmap (user_Attributes (cc_User ?cc)))"
    by (simp add: NewAuthenticatedUser_def encodable_map_def fmpred_iff)
  ultimately show ?thesis
    using call_context_roundtrip[of ex_user_ctx ?cc sorted_range id background] sorted_range_ok
    by (fastforce simp: NewCallContext_def NewAuthenticatedUser_def NewServiceParams_def)
qed

end
