(* ===== verification/DeepCopies.thy ===== *)
theory DeepCopies
  imports Core
begin

text \<open>
  \<open>utils.DeepCopy\<close> (\<open>internal/utils/utils.go\<close>) encodes a value with gob and decodes it
  again. On the value level the result is the value itself; the encoding fails when a dynamic value
  has a type that is not registered with gob. Registered are the basic types, \<open>map[string]any\<close>
  and \<open>[]any\<close> (the \<open>init\<close> function of the package) and the four part contents.
\<close>

primrec gob_any :: "any \<Rightarrow> bool" where
  "gob_any ANil = True"
| "gob_any (ABool b) = True"
| "gob_any (AInt k i) = True"
| "gob_any (AFloat k r) = True"
| "gob_any (AString s) = True"
| "gob_any (AArr xs) = list_all (\<lambda>b. b) (map gob_any xs)"
| "gob_any (AMap m) = fmpred (\<lambda>k b. b) (fmmap gob_any m)"
| "gob_any (AStrMap m) = False"
| "gob_any (AOther t) = False"

definition gob_meta :: "metadata \<Rightarrow> bool" where
  "gob_meta m = (case m of None \<Rightarrow> True | Some f \<Rightarrow> gob_any (AMap f))"

definition gob_part :: "part \<Rightarrow> bool" where
  "gob_part p = (gob_meta (part_Metadata p) \<and>
     (case part_Content p of Some (Data v) \<Rightarrow> gob_any v | _ \<Rightarrow> True))"

definition gob_message :: "message \<Rightarrow> bool" where
  "gob_message m = (gob_meta (msg_Metadata m) \<and> list_all gob_part (msg_Parts m))"

definition gob_artifact :: "artifact \<Rightarrow> bool" where
  "gob_artifact a = (gob_meta (art_Metadata a) \<and> list_all gob_part (art_Parts a))"

definition gob_task :: "task \<Rightarrow> bool" where
  "gob_task t = (gob_meta (task_Metadata t) \<and> list_all gob_artifact (task_Artifacts t) \<and>
     list_all gob_message (task_History t) \<and>
     (case ts_Message (task_Status t) of None \<Rightarrow> True | Some m \<Rightarrow> gob_message m))"

definition gob_error :: go_error where
  "gob_error = Errorf ''gob: type not registered for interface'' []"

definition DeepCopy_task :: "task \<Rightarrow> go_error + task" where
  "DeepCopy_task t = (if gob_task t then Inr t else Inl gob_error)"

lemma DeepCopy_task_Inr [simp]: "DeepCopy_task t = Inr t' \<longleftrightarrow> gob_task t \<and> t' = t"
  by (auto simp: DeepCopy_task_def)

lemma DeepCopy_task_Inl: "DeepCopy_task t = Inl e \<longleftrightarrow> \<not> gob_task t \<and> e = gob_error"
  by (auto simp: DeepCopy_task_def)

text \<open>A push configuration has string fields only, so copying it always succeeds.\<close>

definition DeepCopy_push_config :: "push_config \<Rightarrow> go_error + push_config" where
  "DeepCopy_push_config c = Inr c"

lemma gob_meta_None [simp]: "gob_meta None"
  by (simp add: gob_meta_def)

lemma gob_meta_Some: "gob_meta (Some f) \<longleftrightarrow> (\<forall>k v. fmlookup f k = Some v \<longrightarrow> gob_any v)"
  by (auto simp: gob_meta_def fmpred_iff)

lemma gob_meta_lookup: "gob_meta m \<longleftrightarrow> (\<forall>k v. gm_lookup m k = Some v \<longrightarrow> gob_any v)"
  by (cases m) (auto simp: gob_meta_Some)

end
