(* ===== verification/TaskEvents.thy ===== *)
theory TaskEvents
  imports DeepCopies
begin

text \<open>
  \<open>a2aevent/event.go\<close>: the pure function that applies an event to a task
  (\<open>ApplyShallowUpdate\<close>, \<open>ApplyUpdate\<close>) with its validation, and \<open>IsFinal\<close>, the
  test for the events that end an execution. In the values of the model the shallow and the deep
  result agree; the deep one can fail in the copy.
\<close>

section \<open>Validation\<close>

definition validateUpdate :: "task \<Rightarrow> event \<Rightarrow> go_error option" where
  "validateUpdate task event =
     (let isMsg = (case event of EMessage m \<Rightarrow> Some m | _ \<Rightarrow> None);
          ti1 = Task_TaskInfo task; ti2 = event_TaskInfo event
      in if (case isMsg of Some m \<Rightarrow> msg_Role m \<noteq> MessageRoleUser | None \<Rightarrow> False)
         then Some (Errorf ''only user messages can be applied to the task state, got %q'' [])
         else if Terminal (ts_State (task_Status task))
         then Some (Errorf ''%q task state updates are not allowed'' [])
         else if ti_TaskID ti1 \<noteq> ti_TaskID ti2
                 \<and> \<not> (case isMsg of Some m \<Rightarrow> msg_TaskID m = '''' | None \<Rightarrow> False)
         then Some (Errorf ''task IDs don't match: %s != %s'' [])
         else if ti_ContextID ti1 \<noteq> ti_ContextID ti2
                 \<and> \<not> (case isMsg of Some m \<Rightarrow> msg_ContextID m = '''' | None \<Rightarrow> False)
         then Some (Errorf ''context IDs don't match: %s != %s'' [])
         else None)"

section \<open>The four updates\<close>

definition statusMessageInHistory :: "message \<Rightarrow> task \<Rightarrow> bool" where
  "statusMessageInHistory sm task =
     (if msg_ID sm = '''' then False
      else list_ex (\<lambda>msg. msg_ID msg = msg_ID sm) (task_History task))"

text \<open>The history with the current status message appended unless it is already there.\<close>

definition history_with_status :: "task \<Rightarrow> message list" where
  "history_with_status task =
     (case ts_Message (task_Status task) of
        None \<Rightarrow> task_History task
      | Some sm \<Rightarrow> (if statusMessageInHistory sm task then task_History task
                    else task_History task @ [sm]))"

definition applyShallowArtifactUpdate :: "task \<Rightarrow> artifact_event \<Rightarrow> go_error + task" where
  "applyShallowArtifactUpdate src event =
     (let artifact = ae_Artifact event;
          updateIdx = index_func (\<lambda>a. art_ID a = art_ID artifact) (task_Artifacts src)
      in if art_Parts artifact = [] then Inl (Errorf ''artifact cannot be empty'' [])
         else case updateIdx of
           None \<Rightarrow>
             (if ae_Append event then Inl (Errorf ''no artifact found for update'' [])
              else Inr (src\<lparr>task_Artifacts := task_Artifacts src @ [artifact]\<rparr>))
         | Some i \<Rightarrow>
             (if \<not> ae_Append event
              then Inr (src\<lparr>task_Artifacts := (task_Artifacts src)[i := artifact]\<rparr>)
              else
                (let toUpdate = task_Artifacts src ! i;
                     parts = art_Parts toUpdate @ art_Parts artifact;
                     meta = (case art_Metadata artifact of
                               None \<Rightarrow> art_Metadata toUpdate
                             | Some m \<Rightarrow> Some (maps_copy (gm_fmap (art_Metadata toUpdate)) m))
                 in Inr (src\<lparr>task_Artifacts := (task_Artifacts src)
                       [i := toUpdate\<lparr>art_Parts := parts, art_Metadata := meta\<rparr>]\<rparr>))))"

definition applyShallowStatusUpdate :: "task \<Rightarrow> status_event \<Rightarrow> task" where
  "applyShallowStatusUpdate src event =
     src\<lparr>task_History := history_with_status src,
         task_Metadata := (case se_Metadata event of
            None \<Rightarrow> task_Metadata src
          | Some m \<Rightarrow> Some (maps_copy (gm_fmap (task_Metadata src)) m)),
         task_Status := se_Status event\<rparr>"

definition applyShallowHistoryUpdate :: "task \<Rightarrow> message \<Rightarrow> task" where
  "applyShallowHistoryUpdate src msg =
     src\<lparr>task_History := history_with_status src @ [msg]\<rparr>"

definition ApplyShallowUpdate :: "task \<Rightarrow> event \<Rightarrow> go_error + task" where
  "ApplyShallowUpdate task event =
     (case validateUpdate task event of
        Some err \<Rightarrow> Inl err
      | None \<Rightarrow>
          (case event of
             ETask a v \<Rightarrow> Inr v
           | EMessage v \<Rightarrow> Inr (applyShallowHistoryUpdate task v)
           | EArtifact v \<Rightarrow> applyShallowArtifactUpdate task v
           | EStatus v \<Rightarrow> Inr (applyShallowStatusUpdate task v)))"

definition deepCopyResult :: "go_error + task \<Rightarrow> go_error + task" where
  "deepCopyResult r = (case r of Inl err \<Rightarrow> Inl err | Inr task \<Rightarrow> DeepCopy_task task)"

definition ApplyUpdate :: "task \<Rightarrow> event \<Rightarrow> go_error + task" where
  "ApplyUpdate task event = deepCopyResult (ApplyShallowUpdate task event)"

section \<open>Final events\<close>

definition IsFinal :: "event \<Rightarrow> bool" where
  "IsFinal event =
     (case event of
        EMessage m \<Rightarrow> True
      | EStatus v \<Rightarrow> Terminal (ts_State (se_Status v)) \<or> ts_State (se_Status v) = TaskStateInputRequired
      | ETask a v \<Rightarrow> Terminal (ts_State (task_Status v)) \<or> ts_State (task_Status v) = TaskStateInputRequired
      | EArtifact v \<Rightarrow> False)"

lemma IsFinal_simps [simp]:
  "IsFinal (EMessage m)"
  "\<not> IsFinal (EArtifact e)"
  "IsFinal (EStatus v) \<longleftrightarrow>
     Terminal (ts_State (se_Status v)) \<or> ts_State (se_Status v) = TaskStateInputRequired"
  "IsFinal (ETask a t) \<longleftrightarrow>
     Terminal (ts_State (task_Status t)) \<or> ts_State (task_Status t) = TaskStateInputRequired"
  by (simp_all add: IsFinal_def)

section \<open>What an update keeps\<close>

lemma validateUpdate_terminal:
  "Terminal (ts_State (task_Status t)) \<Longrightarrow> validateUpdate t ev \<noteq> None"
  by (auto simp: validateUpdate_def Let_def split: event.splits)

lemma ApplyShallowUpdate_InrE:
  assumes "ApplyShallowUpdate t ev = Inr t'"
  obtains
    (replace) a where "ev = ETask a t'"
  | (history) m where "ev = EMessage m" "t' = applyShallowHistoryUpdate t m"
  | (artifact) e where "ev = EArtifact e" "applyShallowArtifactUpdate t e = Inr t'"
  | (status) e where "ev = EStatus e" "t' = applyShallowStatusUpdate t e"
  using assms by (auto simp: ApplyShallowUpdate_def split: option.splits event.splits)

lemma ApplyShallowUpdate_valid: "ApplyShallowUpdate t ev = Inr t' \<Longrightarrow> validateUpdate t ev = None"
  by (simp add: ApplyShallowUpdate_def split: option.splits)

lemma ApplyShallowUpdate_not_terminal:
  "ApplyShallowUpdate t ev = Inr t' \<Longrightarrow> \<not> Terminal (ts_State (task_Status t))"
  using ApplyShallowUpdate_valid validateUpdate_terminal by blast

lemma ApplyUpdate_Inr:
  "ApplyUpdate t ev = Inr t' \<longleftrightarrow> ApplyShallowUpdate t ev = Inr t' \<and> gob_task t'"
  by (auto simp: ApplyUpdate_def deepCopyResult_def split: sum.splits)

lemma applyShallowArtifactUpdate_frame:
  "applyShallowArtifactUpdate t e = Inr t' \<Longrightarrow>
     task_ID t' = task_ID t \<and> task_ContextID t' = task_ContextID t \<and>
     task_History t' = task_History t \<and> task_Metadata t' = task_Metadata t \<and>
     task_Status t' = task_Status t"
  by (auto simp: applyShallowArtifactUpdate_def Let_def split: if_splits option.splits)

lemma applyShallowStatusUpdate_simps [simp]:
  "task_ID (applyShallowStatusUpdate t e) = task_ID t"
  "task_ContextID (applyShallowStatusUpdate t e) = task_ContextID t"
  "task_Artifacts (applyShallowStatusUpdate t e) = task_Artifacts t"
  "task_Status (applyShallowStatusUpdate t e) = se_Status e"
  "task_History (applyShallowStatusUpdate t e) = history_with_status t"
  by (simp_all add: applyShallowStatusUpdate_def)

lemma applyShallowHistoryUpdate_simps [simp]:
  "task_ID (applyShallowHistoryUpdate t m) = task_ID t"
  "task_ContextID (applyShallowHistoryUpdate t m) = task_ContextID t"
  "task_Artifacts (applyShallowHistoryUpdate t m) = task_Artifacts t"
  "task_Status (applyShallowHistoryUpdate t m) = task_Status t"
  "task_Metadata (applyShallowHistoryUpdate t m) = task_Metadata t"
  "task_History (applyShallowHistoryUpdate t m) = history_with_status t @ [m]"
  by (simp_all add: applyShallowHistoryUpdate_def)

text \<open>An update never moves a task to another task or context id.\<close>

lemma ApplyShallowUpdate_ids:
  assumes "ApplyShallowUpdate t ev = Inr t'"
  shows "task_ID t' = task_ID t \<and> task_ContextID t' = task_ContextID t"
  using assms
proof (cases rule: ApplyShallowUpdate_InrE)
  case (replace a)
  with ApplyShallowUpdate_valid[OF assms] show ?thesis
    by (auto simp: validateUpdate_def Task_TaskInfo_def Let_def split: if_splits)
next
  case (artifact e)
  then show ?thesis using applyShallowArtifactUpdate_frame by blast
qed simp_all

text \<open>The history only grows, unless the event replaces the whole task.\<close>

lemma history_with_status_prefix: "\<exists>ms. history_with_status t = task_History t @ ms"
  by (simp add: history_with_status_def split: option.splits)

lemma ApplyShallowUpdate_history_prefix:
  assumes "ApplyShallowUpdate t ev = Inr t'" "\<nexists>a v. ev = ETask a v"
  shows "\<exists>ms. task_History t' = task_History t @ ms"
  using assms(1)
proof (cases rule: ApplyShallowUpdate_InrE)
  case (history m)
  then show ?thesis using history_with_status_prefix[of t] by auto
next
  case (artifact e)
  then show ?thesis using applyShallowArtifactUpdate_frame by fastforce
qed (use assms(2) history_with_status_prefix[of t] in auto)

text \<open>A status message is in the history once another status or a message is applied.\<close>

lemma history_with_status_keeps:
  assumes "ts_Message (task_Status t) = Some sm"
  shows "\<exists>m \<in> set (history_with_status t). m = sm \<or> msg_ID m = msg_ID sm \<and> msg_ID sm \<noteq> ''''"
  using assms
  by (auto simp: history_with_status_def statusMessageInHistory_def list_ex_iff split: if_splits)

text \<open>Artifact ids stay distinct under artifact events.\<close>

lemma applyShallowArtifactUpdate_ids:
  assumes "applyShallowArtifactUpdate t e = Inr t'"
  shows "map art_ID (task_Artifacts t') =
    (if art_ID (ae_Artifact e) \<in> set (map art_ID (task_Artifacts t))
     then map art_ID (task_Artifacts t)
     else map art_ID (task_Artifacts t) @ [art_ID (ae_Artifact e)])"
proof (cases "index_func (\<lambda>a. art_ID a = art_ID (ae_Artifact e)) (task_Artifacts t)")
  case None
  then have "art_ID (ae_Artifact e) \<notin> set (map art_ID (task_Artifacts t))"
    by (auto simp: index_func_None)
  with None assms show ?thesis
    by (auto simp: applyShallowArtifactUpdate_def Let_def split: if_splits)
next
  case (Some i)
  from index_func_Some[OF this] have i: "i < length (task_Artifacts t)"
    and id: "art_ID (task_Artifacts t ! i) = art_ID (ae_Artifact e)" by auto
  from i id have inset: "art_ID (ae_Artifact e) \<in> set (map art_ID (task_Artifacts t))"
    by (metis length_map nth_map nth_mem)
  have upd: "map art_ID ((task_Artifacts t)[i := b]) = map art_ID (task_Artifacts t)"
    if "art_ID b = art_ID (ae_Artifact e)" for b
    using i id that by (simp add: map_update list_update_same_conv)
  from assms Some inset upd id show ?thesis
    by (auto simp: applyShallowArtifactUpdate_def Let_def split: if_splits)
qed

lemma applyShallowArtifactUpdate_distinct:
  "applyShallowArtifactUpdate t e = Inr t' \<Longrightarrow> distinct (map art_ID (task_Artifacts t)) \<Longrightarrow>
     distinct (map art_ID (task_Artifacts t'))"
  using applyShallowArtifactUpdate_ids[of t e t'] by (auto split: if_splits)

end
