(* ===== verification/TaskDiff.thy ===== *)
theory TaskDiff
  imports TaskEvents
begin

text \<open>
  \<open>a2aevent/diff.go\<close>: \<open>Recover\<close> computes events which, applied to the first task, bring
  it to the state of the second. \<open>reflect.DeepEqual\<close> is equality of the model's values.
\<close>

section \<open>Differences\<close>

definition diffMetadata :: "metadata \<Rightarrow> metadata \<Rightarrow> metadata" where
  "diffMetadata prev cur =
     (let diff = fmfilter (\<lambda>k. gm_lookup prev k \<noteq> gm_lookup cur k) (gm_fmap cur)
      in if fmdom diff = {||} then None else Some diff)"

definition hasRemovedKeys :: "metadata \<Rightarrow> metadata \<Rightarrow> bool" where
  "hasRemovedKeys prev cur = fBex (gm_keys prev) (\<lambda>k. gm_lookup cur k = None)"

definition sameArtifactHeader :: "artifact \<Rightarrow> artifact \<Rightarrow> bool" where
  "sameArtifactHeader prev cur =
     (art_Name prev = art_Name cur \<and> art_Description prev = art_Description cur \<and>
      art_Extensions prev = art_Extensions cur)"

text \<open>A parts difference: the parts and whether they are appended; \<open>None\<close> is "not changed".\<close>

record partsDiff =
  pd_parts :: "part list"
  pd_append :: bool

definition diffParts :: "part list \<Rightarrow> part list \<Rightarrow> partsDiff option" where
  "diffParts prev cur =
     (if length cur < length prev then Some \<lparr>pd_parts = cur, pd_append = False\<rparr>
      else if list_ex (\<lambda>(p, c). p \<noteq> c) (zip prev cur)
      then Some \<lparr>pd_parts = cur, pd_append = False\<rparr>
      else if length cur = length prev then None
      else Some \<lparr>pd_parts = drop (length prev) cur, pd_append = True\<rparr>)"

definition timestampsEqual :: "gotime option \<Rightarrow> gotime option \<Rightarrow> bool" where
  "timestampsEqual t1 t2 = (t1 = t2)"

definition hasStatusChanged :: "task \<Rightarrow> task \<Rightarrow> bool" where
  "hasStatusChanged prevState state =
     (let s1 = task_Status prevState; s2 = task_Status state
      in ts_State s1 \<noteq> ts_State s2 \<or>
         (ts_Message s1 \<noteq> None) \<noteq> (ts_Message s2 \<noteq> None) \<or>
         (case (ts_Message s1, ts_Message s2) of
            (Some m1, Some m2) \<Rightarrow> msg_ID m1 \<noteq> msg_ID m2 | _ \<Rightarrow> False) \<or>
         \<not> timestampsEqual (ts_Timestamp s1) (ts_Timestamp s2))"

section \<open>Recover\<close>

text \<open>
  The body of the loop over the artifacts of the second task: the event for one artifact. The
  random id that \<open>NewArtifactEvent\<close> draws is overwritten at once, so any string does.
\<close>

definition recoverArtifact :: "task \<Rightarrow> task \<Rightarrow> artifact \<Rightarrow> artifact_event list" where
  "recoverArtifact prev cur artifact =
     (case index_func (\<lambda>a. art_ID a = art_ID artifact) (task_Artifacts prev) of
        None \<Rightarrow> [(NewArtifactEvent '''' (Task_TaskInfo cur) [])\<lparr>ae_Artifact := artifact\<rparr>]
      | Some prevI \<Rightarrow>
          (let prevArtifact = task_Artifacts prev ! prevI;
               metaDiff = diffMetadata (art_Metadata prevArtifact) (art_Metadata artifact);
               partDiff = diffParts (art_Parts prevArtifact) (art_Parts artifact);
               canAppend = (sameArtifactHeader prevArtifact artifact \<and>
                  \<not> hasRemovedKeys (art_Metadata prevArtifact) (art_Metadata artifact))
           in case partDiff of
                Some pd \<Rightarrow>
                  (if pd_append pd \<and> canAppend
                   then (let ev = NewArtifactUpdateEvent (Task_TaskInfo cur) (art_ID artifact)
                                    (pd_parts pd)
                         in [ev\<lparr>ae_Artifact := (ae_Artifact ev)\<lparr>art_Metadata := metaDiff\<rparr>\<rparr>])
                   else [(NewArtifactEvent '''' (Task_TaskInfo cur) [])\<lparr>ae_Artifact := artifact\<rparr>])
              | None \<Rightarrow>
                  (if gm_len metaDiff > 0 \<or> \<not> canAppend
                   then [(NewArtifactEvent '''' (Task_TaskInfo cur) [])\<lparr>ae_Artifact := artifact\<rparr>]
                   else [])))"

text \<open>The status event: its fresh timestamp is replaced by the one of the second task.\<close>

definition recoverStatus :: "task \<Rightarrow> task \<Rightarrow> status_event list" where
  "recoverStatus prev cur =
     (let metaDiff = diffMetadata (task_Metadata prev) (task_Metadata cur)
      in if hasStatusChanged prev cur \<or> gm_len metaDiff > 0
         then (let e = NewStatusUpdateEvent 0 (Task_TaskInfo cur) (ts_State (task_Status cur))
                         (ts_Message (task_Status cur))
               in [e\<lparr>se_Status := (se_Status e)\<lparr>ts_Timestamp := ts_Timestamp (task_Status cur)\<rparr>,
                     se_Metadata := metaDiff\<rparr>])
         else [])"

definition Recover :: "task \<Rightarrow> task \<Rightarrow> event list" where
  "Recover prev cur =
     map EArtifact (concat (map (recoverArtifact prev cur) (task_Artifacts cur)))
     @ map EStatus (recoverStatus prev cur)"

text \<open>Applying a list of events one after the other, stopping at the first error.\<close>

fun apply_events :: "task \<Rightarrow> event list \<Rightarrow> go_error + task" where
  "apply_events t [] = Inr t"
| "apply_events t (e # es) =
     (case ApplyShallowUpdate t e of Inl err \<Rightarrow> Inl err | Inr t' \<Rightarrow> apply_events t' es)"

lemma apply_events_append:
  "apply_events t (es @ fs) =
     (case apply_events t es of Inl err \<Rightarrow> Inl err | Inr t' \<Rightarrow> apply_events t' fs)"
  by (induction es arbitrary: t) (auto split: sum.splits)

section \<open>Metadata differences\<close>

lemma diffMetadata_lookup:
  "gm_lookup (diffMetadata prev cur) k =
     (if gm_lookup prev k \<noteq> gm_lookup cur k then gm_lookup cur k else None)"
proof -
  let ?d = "fmfilter (\<lambda>k. gm_lookup prev k \<noteq> gm_lookup cur k) (gm_fmap cur)"
  have look: "fmlookup ?d k = (if gm_lookup prev k \<noteq> gm_lookup cur k then gm_lookup cur k else None)"
    by simp
  show ?thesis
  proof (cases "fmdom ?d = {||}")
    case True
    then have "fmlookup ?d k = None" by (metis fempty_iff fmdom_notD)
    with look have "\<not> (gm_lookup prev k \<noteq> gm_lookup cur k) \<or> gm_lookup cur k = None" by metis
    with True show ?thesis by (auto simp: diffMetadata_def Let_def)
  next
    case False
    with look show ?thesis by (simp add: diffMetadata_def Let_def)
  qed
qed

lemma hasRemovedKeys_iff:
  "hasRemovedKeys prev cur \<longleftrightarrow> (\<exists>k. gm_lookup prev k \<noteq> None \<and> gm_lookup cur k = None)"
  by (auto simp: hasRemovedKeys_def gm_keys_iff)

text \<open>Copying the difference over the first map gives the second, if no key was removed.\<close>

lemma gm_fmap_eqI: "(\<And>k. gm_lookup m k = gm_lookup m' k) \<Longrightarrow> gm_fmap m = gm_fmap m'"
  by (rule fmap_ext) simp

lemma merge_diff:
  assumes "\<not> hasRemovedKeys prev cur"
  shows "gm_fmap (case diffMetadata prev cur of
             None \<Rightarrow> prev | Some d \<Rightarrow> Some (maps_copy (gm_fmap prev) d)) = gm_fmap cur"
proof (rule gm_fmap_eqI)
  fix k
  have d: "gm_lookup (diffMetadata prev cur) k =
     (if gm_lookup prev k \<noteq> gm_lookup cur k then gm_lookup cur k else None)"
    by (rule diffMetadata_lookup)
  from assms have r: "gm_lookup prev k \<noteq> None \<Longrightarrow> gm_lookup cur k \<noteq> None"
    by (metis hasRemovedKeys_iff)
  show "gm_lookup (case diffMetadata prev cur of
      None \<Rightarrow> prev | Some d \<Rightarrow> Some (maps_copy (gm_fmap prev) d)) k = gm_lookup cur k"
  proof (cases "diffMetadata prev cur")
    case None
    with d r show ?thesis by (cases "gm_lookup cur k") (auto split: if_splits)
  next
    case (Some f)
    with d r show ?thesis
      by (cases "gm_lookup cur k") (auto split: if_splits option.splits)
  qed
qed

lemma gm_len_pos: "gm_len m > 0 \<longleftrightarrow> (\<exists>k. gm_lookup m k \<noteq> None)"
proof -
  have "gm_len m > 0 \<longleftrightarrow> gm_keys m \<noteq> {||}"
    unfolding gm_len_def by (metis fcard_fempty fcard_0_eq gr_zeroI less_numeral_extra(3))
  also have "\<dots> \<longleftrightarrow> (\<exists>k. k |\<in>| gm_keys m)" by auto
  finally show ?thesis by (simp add: gm_keys_iff)
qed

lemma no_diff:
  assumes "\<not> gm_len (diffMetadata prev cur) > 0" "\<not> hasRemovedKeys prev cur"
  shows "gm_fmap prev = gm_fmap cur"
proof (rule gm_fmap_eqI)
  fix k
  from assms(1) have "gm_lookup (diffMetadata prev cur) k = None"
    by (auto simp: gm_len_pos)
  with assms(2) show "gm_lookup prev k = gm_lookup cur k"
    by (metis diffMetadata_lookup hasRemovedKeys_iff)
qed

section \<open>Part differences\<close>

lemma zip_agree: "length xs \<le> length ys \<Longrightarrow> \<not> list_ex (\<lambda>(p, c). p \<noteq> c) (zip xs ys) \<Longrightarrow>
    take (length xs) ys = xs"
proof (induction xs arbitrary: ys)
  case (Cons x xs)
  then show ?case by (cases ys) auto
qed simp

lemma diffParts_None: "diffParts prev cur = None \<Longrightarrow> prev = cur"
  using zip_agree[of prev cur]
  by (auto simp: diffParts_def split: if_splits) 

lemma diffParts_append:
  assumes "diffParts prev cur = Some pd" "pd_append pd"
  shows "prev @ pd_parts pd = cur \<and> pd_parts pd \<noteq> []"
proof -
  from assms have le: "length prev < length cur"
    and agree: "\<not> list_ex (\<lambda>(p, c). p \<noteq> c) (zip prev cur)"
    and pd: "pd_parts pd = drop (length prev) cur"
    by (auto simp: diffParts_def split: if_splits)
  from zip_agree[OF less_imp_le[OF le] agree] have "prev @ drop (length prev) cur = cur"
    by (metis append_take_drop_id)
  with le pd show ?thesis by simp
qed

section \<open>Replaying the artifact events\<close>

text \<open>Equality of artifacts and of artifact lists up to nil versus empty metadata.\<close>

definition art_eq :: "artifact \<Rightarrow> artifact \<Rightarrow> bool" where
  "art_eq a b = (art_ID a = art_ID b \<and> art_Description a = art_Description b \<and>
     art_Extensions a = art_Extensions b \<and> art_Name a = art_Name b \<and> art_Parts a = art_Parts b \<and>
     gm_fmap (art_Metadata a) = gm_fmap (art_Metadata b))"

lemma art_eq_refl [simp, intro]: "art_eq a a"
  by (simp add: art_eq_def)

lemma art_eq_ids: "list_all2 art_eq as bs \<Longrightarrow> map art_ID as = map art_ID bs"
  by (induction rule: list_all2_induct) (simp_all add: art_eq_def)

lemma merge_diff_eq:
  assumes "\<not> hasRemovedKeys prev cur" "gm_fmap x = gm_fmap prev"
  shows "gm_fmap (case diffMetadata prev cur of
             None \<Rightarrow> x | Some d \<Rightarrow> Some (maps_copy (gm_fmap x) d)) = gm_fmap cur"
  using merge_diff[OF assms(1)] assms(2) by (auto split: option.splits)

text \<open>What two tasks must have in common for the artifacts of one to be recovered from the other.\<close>

definition recoverable :: "task \<Rightarrow> task \<Rightarrow> bool" where
  "recoverable prev cur =
     (Task_TaskInfo prev = Task_TaskInfo cur \<and> \<not> Terminal (ts_State (task_Status prev)) \<and>
      distinct (map art_ID (task_Artifacts cur)) \<and>
      map art_ID (task_Artifacts prev) =
        take (length (task_Artifacts prev)) (map art_ID (task_Artifacts cur)) \<and>
      list_all (\<lambda>a. art_Parts a \<noteq> []) (task_Artifacts cur))"

lemma recoverable_length:
  assumes "recoverable prev cur"
  shows "length (task_Artifacts prev) \<le> length (task_Artifacts cur)"
proof -
  from assms have "length (map art_ID (task_Artifacts prev)) =
      length (take (length (task_Artifacts prev)) (map art_ID (task_Artifacts cur)))"
    unfolding recoverable_def by metis
  then show ?thesis by simp
qed

text \<open>The ids of a task whose first artifacts have been brought up to date.\<close>

lemma recoverable_ids:
  assumes "recoverable prev cur"
  shows "map art_ID (take n (task_Artifacts cur) @ drop n (task_Artifacts prev)) =
     take (max n (length (task_Artifacts prev))) (map art_ID (task_Artifacts cur))"
proof -
  let ?c = "map art_ID (task_Artifacts cur)" and ?m = "length (task_Artifacts prev)"
  from assms(1) have p: "map art_ID (task_Artifacts prev) = take ?m ?c"
    unfolding recoverable_def by metis
  have "map art_ID (take n (task_Artifacts cur) @ drop n (task_Artifacts prev)) =
      take n ?c @ drop n (take ?m ?c)"
    by (simp only: map_append take_map[symmetric] drop_map[symmetric] p)
  also have "\<dots> = take (max n ?m) ?c"
  proof (cases "n \<le> ?m")
    case True
    then have "take n ?c = take n (take ?m ?c)" by (simp add: min_def)
    then show ?thesis using True by (simp only: append_take_drop_id max_absorb2)
  next
    case False
    then show ?thesis by (simp add: max_def)
  qed
  finally show ?thesis .
qed

lemma validateUpdate_artifact:
  assumes "\<not> Terminal (ts_State (task_Status t))" "Task_TaskInfo t = event_TaskInfo (EArtifact e)"
  shows "ApplyShallowUpdate t (EArtifact e) = applyShallowArtifactUpdate t e"
  using assms by (simp add: ApplyShallowUpdate_def validateUpdate_def Let_def)

text \<open>
  The effect of an artifact event of \<open>Recover\<close> on the task built so far: the artifact at its
  position becomes the one of the second task.
\<close>

lemma recoverArtifact_known:
  assumes idx: "index_func (\<lambda>a. art_ID a = art_ID artifact) (task_Artifacts prev) = Some n"
    and idx': "index_func (\<lambda>a. art_ID a = art_ID artifact) (task_Artifacts t) = Some n"
    and eq: "art_eq (task_Artifacts t ! n) (task_Artifacts prev ! n)"
    and id: "art_ID (task_Artifacts prev ! n) = art_ID artifact"
    and ne: "art_Parts artifact \<noteq> []"
    and nt: "\<not> Terminal (ts_State (task_Status t))" and ti: "Task_TaskInfo t = Task_TaskInfo cur"
  shows "\<exists>x. art_eq x artifact \<and>
    apply_events t (map EArtifact (recoverArtifact prev cur artifact)) =
      Inr (t\<lparr>task_Artifacts := (task_Artifacts t)[n := x]\<rparr>)"
proof -
  let ?p = "task_Artifacts prev ! n" and ?q = "task_Artifacts t ! n"
  let ?whole = "(NewArtifactEvent '''' (Task_TaskInfo cur) [])\<lparr>ae_Artifact := artifact\<rparr>"
  have whole: "ApplyShallowUpdate t (EArtifact ?whole) =
      Inr (t\<lparr>task_Artifacts := (task_Artifacts t)[n := artifact]\<rparr>)"
    using nt ti idx' ne
    by (simp add: validateUpdate_artifact NewArtifactEvent_def applyShallowArtifactUpdate_def)
  let ?md = "diffMetadata (art_Metadata ?p) (art_Metadata artifact)"
  let ?can = "sameArtifactHeader ?p artifact
    \<and> \<not> hasRemovedKeys (art_Metadata ?p) (art_Metadata artifact)"
  consider
    (all) "recoverArtifact prev cur artifact = [?whole]"
  | (same) "recoverArtifact prev cur artifact = []"
      "diffParts (art_Parts ?p) (art_Parts artifact) = None" "?can" "\<not> gm_len ?md > 0"
  | (app) pd where "diffParts (art_Parts ?p) (art_Parts artifact) = Some pd" "pd_append pd" "?can"
      "recoverArtifact prev cur artifact =
         [\<lparr>ae_Append = True,
           ae_Artifact = (new_artifact (art_ID artifact) (pd_parts pd))\<lparr>art_Metadata := ?md\<rparr>,
           ae_ContextID = ti_ContextID (Task_TaskInfo cur), ae_LastChunk = False,
           ae_TaskID = ti_TaskID (Task_TaskInfo cur), ae_Metadata = None\<rparr>]"
    using idx
    by (cases "diffParts (art_Parts ?p) (art_Parts artifact)"; cases ?can;
        cases "gm_len ?md > 0"; cases "pd_append (the (diffParts (art_Parts ?p) (art_Parts artifact)))";
        auto simp: recoverArtifact_def Let_def NewArtifactUpdateEvent_def)
  then show ?thesis
  proof cases
    case all
    with whole show ?thesis by (intro exI[of _ artifact]) simp
  next
    case same
    from no_diff[OF same(4)] same(3) diffParts_None[OF same(2)] eq id
    have "art_eq ?q artifact" by (simp add: art_eq_def sameArtifactHeader_def)
    with same show ?thesis by (intro exI[of _ ?q]) simp
  next
    case app
    let ?m = "case ?md of None \<Rightarrow> art_Metadata ?q
                | Some m \<Rightarrow> Some (maps_copy (gm_fmap (art_Metadata ?q)) m)"
    let ?x = "?q\<lparr>art_Parts := art_Parts ?q @ pd_parts pd, art_Metadata := ?m\<rparr>"
    from diffParts_append[OF app(1,2)]
    have parts: "art_Parts ?p @ pd_parts pd = art_Parts artifact" "pd_parts pd \<noteq> []" by auto
    from eq have q: "gm_fmap (art_Metadata ?q) = gm_fmap (art_Metadata ?p)" by (simp add: art_eq_def)
    have "gm_fmap ?m = gm_fmap (art_Metadata artifact)"
      using merge_diff_eq[OF conjunct2[OF app(3)] q] .
    with eq app(3) parts id have "art_eq ?x artifact"
      by (simp add: art_eq_def sameArtifactHeader_def)
    moreover have "apply_events t (map EArtifact (recoverArtifact prev cur artifact)) =
        Inr (t\<lparr>task_Artifacts := (task_Artifacts t)[n := ?x]\<rparr>)"
      using nt ti idx' parts(2)
      by (simp add: app(4) validateUpdate_artifact applyShallowArtifactUpdate_def new_artifact_def Let_def)
    ultimately show ?thesis by blast
  qed
qed

lemma recoverArtifact_new:
  assumes "index_func (\<lambda>a. art_ID a = art_ID artifact) (task_Artifacts prev) = None"
    and "index_func (\<lambda>a. art_ID a = art_ID artifact) (task_Artifacts t) = None"
    and "art_Parts artifact \<noteq> []"
    and "\<not> Terminal (ts_State (task_Status t))" and "Task_TaskInfo t = Task_TaskInfo cur"
  shows "apply_events t (map EArtifact (recoverArtifact prev cur artifact)) =
      Inr (t\<lparr>task_Artifacts := task_Artifacts t @ [artifact]\<rparr>)"
  using assms
  by (simp add: recoverArtifact_def validateUpdate_artifact NewArtifactEvent_def
      applyShallowArtifactUpdate_def)

text \<open>All artifact events: the artifacts of the second task, in its order.\<close>

lemma recover_artifacts_upto:
  assumes rec: "recoverable prev cur" and n: "n \<le> length (task_Artifacts cur)"
  shows "\<exists>as. list_all2 art_eq as (take n (task_Artifacts cur) @ drop n (task_Artifacts prev)) \<and>
    apply_events prev
      (map EArtifact (concat (map (recoverArtifact prev cur) (take n (task_Artifacts cur))))) =
      Inr (prev\<lparr>task_Artifacts := as\<rparr>)"
  using n
proof (induction n)
  case 0
  show ?case by (intro exI[of _ "task_Artifacts prev"]) (simp add: list_all2_refl)
next
  case (Suc n)
  let ?pa = "task_Artifacts prev" and ?ca = "task_Artifacts cur"
  let ?a = "?ca ! n" and ?have_id = "\<lambda>a. art_ID a = art_ID (?ca ! n)"
  from Suc.prems have n: "n < length ?ca" by simp
  from Suc.IH n obtain as where
    as: "list_all2 art_eq as (take n ?ca @ drop n ?pa)" and
    run: "apply_events prev (map EArtifact (concat (map (recoverArtifact prev cur) (take n ?ca)))) =
      Inr (prev\<lparr>task_Artifacts := as\<rparr>)" by auto
  let ?t = "prev\<lparr>task_Artifacts := as\<rparr>"
  have ids: "map art_ID as = take (max n (length ?pa)) (map art_ID ?ca)"
    using art_eq_ids[OF as] recoverable_ids[OF rec] by metis
  from rec have dist: "distinct (map art_ID ?ca)"
    and pids: "map art_ID ?pa = take (length ?pa) (map art_ID ?ca)"
    and ne: "art_Parts ?a \<noteq> []" and nt: "\<not> Terminal (ts_State (task_Status ?t))"
    and ti: "Task_TaskInfo ?t = Task_TaskInfo cur"
    using n by (auto simp: recoverable_def list_all_length Task_TaskInfo_def)
  have take_Suc: "take (Suc n) ?ca = take n ?ca @ [?a]" using n by (simp add: take_Suc_conv_app_nth)
  have "\<exists>as'. list_all2 art_eq as' (take (Suc n) ?ca @ drop (Suc n) ?pa) \<and>
      apply_events ?t (map EArtifact (recoverArtifact prev cur ?a)) =
        Inr (prev\<lparr>task_Artifacts := as'\<rparr>)"
  proof (cases "n < length ?pa")
    case True
    have len: "length as = length ?pa" using list_all2_lengthD[OF as] True n by simp
    have idp: "?have_id (?pa ! n)" using True n pids by (metis nth_map nth_take)
    have ids': "map art_ID as = map art_ID ?pa" using ids pids True by (simp add: max_def)
    have dp: "distinct (map art_ID ?pa)" using dist pids by (metis distinct_take)
    have ida: "?have_id (as ! n)" using ids' idp True len by (metis nth_map)
    have i1: "index_func ?have_id ?pa = Some n" by (rule index_func_unique[OF dp True idp])
    have i2: "index_func ?have_id (task_Artifacts ?t) = Some n"
      using index_func_unique[of art_ID as n, OF _ _ ida] dp ids' True len by simp
    have at: "art_eq (task_Artifacts ?t ! n) (?pa ! n)"
      using list_all2_nthD[OF as, of n] True len n by (simp add: nth_append)
    from recoverArtifact_known[OF i1 i2 at idp ne nt ti] obtain x where
      x: "art_eq x ?a" "apply_events ?t (map EArtifact (recoverArtifact prev cur ?a)) =
        Inr (?t\<lparr>task_Artifacts := as[n := x]\<rparr>)" by auto
    have "take (Suc n) ?ca @ drop (Suc n) ?pa = (take n ?ca @ drop n ?pa)[n := ?a]"
      using True n by (simp add: take_Suc list_update_append Cons_nth_drop_Suc[symmetric])
    with list_all2_update_cong[OF as x(1)] x(2) show ?thesis by (intro exI[of _ "as[n := x]"]) simp
  next
    case False
    have "distinct (take (Suc n) (map art_ID ?ca))" using dist by (rule distinct_take)
    with n have new: "art_ID ?a \<notin> set (take n (map art_ID ?ca))"
      by (simp add: take_Suc_conv_app_nth)
    have sub: "set (take (length ?pa) (map art_ID ?ca)) \<subseteq> set (take n (map art_ID ?ca))"
      using False by (intro set_take_subset_set_take) simp
    have "art_ID ?a \<notin> set (map art_ID as)" using ids new False by (simp add: max_def)
    moreover have "art_ID ?a \<notin> set (map art_ID ?pa)" using new sub pids by auto
    ultimately have i: "index_func ?have_id ?pa = None"
        "index_func ?have_id (task_Artifacts ?t) = None"
      by (auto simp: index_func_None image_iff)
    from recoverArtifact_new[OF i ne nt ti] as False take_Suc show ?thesis
      by (intro exI[of _ "as @ [?a]"]) (simp add: list_all2_appendI)
  qed
  with run show ?case by (simp add: take_Suc apply_events_append)
qed

section \<open>Replaying the status event\<close>

text \<open>
  \<open>hasStatusChanged\<close> compares status messages by id: two statuses it does not tell apart are
  equal when messages of the same id are.
\<close>

lemma hasStatusChanged_equal:
  assumes "\<not> hasStatusChanged prev cur"
    and "\<And>m m'. ts_Message (task_Status prev) = Some m \<Longrightarrow> ts_Message (task_Status cur) = Some m' \<Longrightarrow>
           msg_ID m = msg_ID m' \<Longrightarrow> m = m'"
  shows "task_Status prev = task_Status cur"
proof -
  from assms(1) have "ts_State (task_Status prev) = ts_State (task_Status cur)"
    "ts_Timestamp (task_Status prev) = ts_Timestamp (task_Status cur)"
    by (auto simp: hasStatusChanged_def timestampsEqual_def Let_def)
  moreover have "ts_Message (task_Status prev) = ts_Message (task_Status cur)"
  proof (cases "ts_Message (task_Status prev)")
    case None
    with assms(1) show ?thesis by (simp add: hasStatusChanged_def Let_def)
  next
    case (Some m)
    with assms(1) obtain m' where "ts_Message (task_Status cur) = Some m'" "msg_ID m = msg_ID m'"
      by (auto simp: hasStatusChanged_def Let_def)
    with Some assms(2) show ?thesis by metis
  qed
  ultimately show ?thesis by (intro task_status.equality) simp_all
qed

lemma recoverStatus_applies:
  assumes nt: "\<not> Terminal (ts_State (task_Status t))" and ti: "Task_TaskInfo t = Task_TaskInfo cur"
    and st: "task_Status t = task_Status prev" and me: "task_Metadata t = task_Metadata prev"
    and msgs: "\<And>m m'. ts_Message (task_Status prev) = Some m \<Longrightarrow>
        ts_Message (task_Status cur) = Some m' \<Longrightarrow> msg_ID m = msg_ID m' \<Longrightarrow> m = m'"
    and keys: "\<not> hasRemovedKeys (task_Metadata prev) (task_Metadata cur)"
  shows "\<exists>t'. apply_events t (map EStatus (recoverStatus prev cur)) = Inr t' \<and>
    task_Status t' = task_Status cur \<and> gm_fmap (task_Metadata t') = gm_fmap (task_Metadata cur) \<and>
    task_Artifacts t' = task_Artifacts t \<and> Task_TaskInfo t' = Task_TaskInfo t"
proof (cases "recoverStatus prev cur = []")
  case True
  then have "\<not> hasStatusChanged prev cur"
    and "\<not> gm_len (diffMetadata (task_Metadata prev) (task_Metadata cur)) > 0"
    by (auto simp: recoverStatus_def Let_def split: if_splits)
  then have "task_Status prev = task_Status cur" "gm_fmap (task_Metadata prev) = gm_fmap (task_Metadata cur)"
    by - (rule hasStatusChanged_equal, assumption, rule msgs, assumption+, rule no_diff[OF _ keys])
  with True st me show ?thesis by simp
next
  case False
  let ?md = "diffMetadata (task_Metadata prev) (task_Metadata cur)"
  let ?e = "\<lparr>se_ContextID = ti_ContextID (Task_TaskInfo cur), se_Status = task_Status cur,
              se_TaskID = ti_TaskID (Task_TaskInfo cur), se_Metadata = ?md\<rparr>"
  from False have e: "recoverStatus prev cur = [?e]"
    by (auto simp: recoverStatus_def Let_def NewStatusUpdateEvent_def split: if_splits)
  have "ApplyShallowUpdate t (EStatus ?e) = Inr (applyShallowStatusUpdate t ?e)"
    using nt ti by (simp add: ApplyShallowUpdate_def validateUpdate_def Let_def)
  moreover have "gm_fmap (task_Metadata (applyShallowStatusUpdate t ?e)) = gm_fmap (task_Metadata cur)"
    using merge_diff[OF keys] me by (simp add: applyShallowStatusUpdate_def split: option.splits)
  ultimately show ?thesis by (simp add: e Task_TaskInfo_def)
qed

section \<open>Properties\<close>

text \<open>
  C23: \<open>Recover\<close> keeps its promise: when the two tasks are the same task, the first is not
  terminal, its artifacts are the first ones of the second (by id), no artifact of the second is
  empty, no task metadata key was removed and a message id names one message, the events apply
  without an error and give the second task's status, artifacts and metadata (a nil map and an
  empty one are not told apart).
\<close>

lemma Recover_correct:
  assumes rec: "recoverable prev cur"
    and keys: "\<not> hasRemovedKeys (task_Metadata prev) (task_Metadata cur)"
    and msgs: "\<And>m m'. ts_Message (task_Status prev) = Some m \<Longrightarrow>
        ts_Message (task_Status cur) = Some m' \<Longrightarrow> msg_ID m = msg_ID m' \<Longrightarrow> m = m'"
  shows "\<exists>t. apply_events prev (Recover prev cur) = Inr t \<and> task_Status t = task_Status cur \<and>
    list_all2 art_eq (task_Artifacts t) (task_Artifacts cur) \<and>
    gm_fmap (task_Metadata t) = gm_fmap (task_Metadata cur) \<and> Task_TaskInfo t = Task_TaskInfo cur"
proof -
  from recover_artifacts_upto[OF rec order_refl] recoverable_length[OF rec] obtain as where
    as: "list_all2 art_eq as (task_Artifacts cur)"
    and run: "apply_events prev (map EArtifact (concat (map (recoverArtifact prev cur)
        (task_Artifacts cur)))) = Inr (prev\<lparr>task_Artifacts := as\<rparr>)" by auto
  let ?t = "prev\<lparr>task_Artifacts := as\<rparr>"
  from rec have nt: "\<not> Terminal (ts_State (task_Status ?t))"
    and ti: "Task_TaskInfo ?t = Task_TaskInfo cur"
    by (auto simp: recoverable_def Task_TaskInfo_def)
  have "task_Status ?t = task_Status prev" "task_Metadata ?t = task_Metadata prev" by simp_all
  from recoverStatus_applies[OF nt ti this msgs keys] obtain t' where
    "apply_events ?t (map EStatus (recoverStatus prev cur)) = Inr t'"
    "task_Status t' = task_Status cur" "gm_fmap (task_Metadata t') = gm_fmap (task_Metadata cur)"
    "task_Artifacts t' = task_Artifacts ?t" "Task_TaskInfo t' = Task_TaskInfo ?t"
    by blast
  with as run ti show ?thesis by (simp add: Recover_def apply_events_append)
qed

lemma Recover_correct_witness:
  "let a = \<lparr>art_ID = ''a'', art_Description = '''', art_Extensions = [], art_Metadata = None,
             art_Name = '''', art_Parts = [NewTextPart ''x'']\<rparr>;
       b = a\<lparr>art_Parts := [NewTextPart ''x'', NewTextPart ''y'']\<rparr>;
       st = (\<lambda>s. \<lparr>ts_Message = None, ts_State = s, ts_Timestamp = None\<rparr>);
       prev = \<lparr>task_ID = ''t'', task_Artifacts = [a], task_ContextID = ''c'', task_History = [],
                task_Metadata = None, task_Status = st TaskStateWorking\<rparr>;
       cur = prev\<lparr>task_Artifacts := [b, b\<lparr>art_ID := ''b''\<rparr>], task_Status := st TaskStateCompleted\<rparr>
   in \<exists>t. apply_events prev (Recover prev cur) = Inr t \<and> task_Status t = task_Status cur \<and>
     list_all2 art_eq (task_Artifacts t) (task_Artifacts cur) \<and>
     gm_fmap (task_Metadata t) = gm_fmap (task_Metadata cur) \<and> Task_TaskInfo t = Task_TaskInfo cur"
  unfolding Let_def
  by (rule Recover_correct)
     (simp_all add: recoverable_def Task_TaskInfo_def hasRemovedKeys_iff)

end
