(* ===== verification/TaskStoreApi.thy ===== *)
theory TaskStoreApi
  imports TaskEvents
begin

text \<open>
  The interface of the task store (\<open>a2asrv/taskstore/api.go\<close>) and of the update materializer
  (\<open>a2asrv/taskstore/update_materializer.go\<close>). A store is a record of operations on a state
  type; the locale \<open>task_store\<close> states what a caller of the operations relies on, and its
  lemmas hold for every store. It is interpreted on the in-memory store in \<open>InMemoryStore\<close>.
\<close>

section \<open>Task versions\<close>

text \<open>A task version is an int64; \<open>int64_succ\<close> is its \<open>+ 1\<close> with the wrap-around.\<close>

type_synonym task_version = int

definition TaskVersionMissing :: task_version where
  "TaskVersionMissing = 0"

definition int64_max :: int where
  "int64_max = 9223372036854775807"

definition int64_succ :: "int \<Rightarrow> int" where
  "int64_succ v = (if v = int64_max then - int64_max - 1 else v + 1)"

lemma int64_succ_neq [simp]: "int64_succ v \<noteq> v"
  by (simp add: int64_succ_def int64_max_def)

definition After :: "task_version \<Rightarrow> task_version \<Rightarrow> bool" where
  "After v another =
     (if another = TaskVersionMissing then True
      else if v = TaskVersionMissing then False
      else another < v)"

lemma int64_succ_After: "0 < v \<Longrightarrow> v < int64_max \<Longrightarrow> After (int64_succ v) v"
  by (simp add: After_def int64_succ_def TaskVersionMissing_def)

lemma After_irrefl: "v \<noteq> TaskVersionMissing \<Longrightarrow> \<not> After v v"
  by (simp add: After_def)

lemma After_trans:
  "After a b \<Longrightarrow> After b c \<Longrightarrow> b \<noteq> TaskVersionMissing \<Longrightarrow> After a c"
  by (auto simp: After_def split: if_splits)

section \<open>Stored tasks, update requests, operations\<close>

record stored_task =
  st_Task :: task
  st_Version :: task_version
  st_User :: string

record update_request =
  upd_Task :: task
  upd_Event :: event
  upd_PrevTask :: task
  upd_PrevVersion :: task_version

text \<open>The methods of the \<open>Store\<close> interface, each on the state of the store.\<close>

record 's store_ops =
  Create :: "go_ctx \<Rightarrow> task \<Rightarrow> 's \<Rightarrow> 's \<times> (go_error + task_version)"
  Update :: "go_ctx \<Rightarrow> update_request \<Rightarrow> 's \<Rightarrow> 's \<times> (go_error + task_version)"
  Get :: "go_ctx \<Rightarrow> task_id \<Rightarrow> 's \<Rightarrow> go_error + stored_task"
  List :: "go_ctx \<Rightarrow> list_request \<Rightarrow> 's \<Rightarrow> go_error + list_response"

section \<open>Materializers\<close>

text \<open>
  An update materializer is its function and the flag of \<open>ReturnsFullSnapshot\<close>. The function
  may return a nil task (\<open>Inr None\<close>).
\<close>

record materializer =
  mat_fn :: "task \<Rightarrow> event \<Rightarrow> go_error + task option"
  mat_full :: bool

definition NewFullUpdateMaterializer ::
  "(task \<Rightarrow> event \<Rightarrow> go_error + task option) \<Rightarrow> materializer" where
  "NewFullUpdateMaterializer fn = \<lparr>mat_fn = fn, mat_full = True\<rparr>"

definition NewPartialUpdateMaterializer ::
  "(task \<Rightarrow> event \<Rightarrow> go_error + task option) \<Rightarrow> materializer" where
  "NewPartialUpdateMaterializer fn = \<lparr>mat_fn = fn, mat_full = False\<rparr>"

definition NewNoOpUpdateMaterializer :: materializer where
  "NewNoOpUpdateMaterializer = \<lparr>mat_fn = (\<lambda>t e. Inr (Some
      \<lparr>task_ID = task_ID t, task_Artifacts = [], task_ContextID = task_ContextID t,
       task_History = [], task_Metadata = None,
       task_Status = \<lparr>ts_Message = None, ts_State = ts_State (task_Status t), ts_Timestamp = None\<rparr>\<rparr>)),
     mat_full = False\<rparr>"

text \<open>The default of the request handler: the functions of \<open>a2aevent\<close> as a full materializer.\<close>

definition full_event_materializer :: materializer where
  "full_event_materializer = NewFullUpdateMaterializer
     (\<lambda>t e. case ApplyUpdate t e of Inl err \<Rightarrow> Inl err | Inr t' \<Rightarrow> Inr (Some t'))"

definition full_shallow_materializer :: materializer where
  "full_shallow_materializer = NewFullUpdateMaterializer
     (\<lambda>t e. case ApplyShallowUpdate t e of Inl err \<Rightarrow> Inl err | Inr t' \<Rightarrow> Inr (Some t'))"

section \<open>The contract of a store\<close>

text \<open>
  What the comments of \<open>api.go\<close> promise, for the states that satisfy the store's own invariant:
  a failed call changes nothing; \<open>Create\<close> succeeds for a task that was not there and makes
  \<open>Get\<close> return it; \<open>Update\<close> succeeds only when the caller's view of the task has the
  version it names (or it names none), and then \<open>Get\<close> returns the new task with a different,
  non-missing version; neither touches another task.
\<close>

locale task_store =
  fixes ops :: "'s store_ops" and inv :: "'s \<Rightarrow> bool"
  assumes create_ok: "\<And>s ctx t s' v. inv s \<Longrightarrow> Create ops ctx t s = (s', Inr v) \<Longrightarrow>
      inv s' \<and> v \<noteq> TaskVersionMissing \<and> Get ops ctx (task_ID t) s = Inl (Sentinel ErrTaskNotFound) \<and>
      (\<exists>u. Get ops ctx (task_ID t) s' = Inr \<lparr>st_Task = t, st_Version = v, st_User = u\<rparr>)"
    and create_err: "\<And>s ctx t s' e. Create ops ctx t s = (s', Inl e) \<Longrightarrow> s' = s"
    and update_ok: "\<And>s ctx r s' v. inv s \<Longrightarrow> Update ops ctx r s = (s', Inr v) \<Longrightarrow>
      \<exists>st. Get ops ctx (task_ID (upd_Task r)) s = Inr st \<and>
        (upd_PrevVersion r = TaskVersionMissing \<or> upd_PrevVersion r = st_Version st) \<and>
        v \<noteq> st_Version st \<and>
        Get ops ctx (task_ID (upd_Task r)) s' = Inr (st\<lparr>st_Task := upd_Task r, st_Version := v\<rparr>)"
    and update_inv: "\<And>s ctx r s' v. inv s \<Longrightarrow> Update ops ctx r s = (s', Inr v) \<Longrightarrow> inv s'"
    and update_err: "\<And>s ctx r s' e. Update ops ctx r s = (s', Inl e) \<Longrightarrow> s' = s"
    and create_frame: "\<And>s ctx t s' res ctx' tid. Create ops ctx t s = (s', res) \<Longrightarrow>
      tid \<noteq> task_ID t \<Longrightarrow> Get ops ctx' tid s' = Get ops ctx' tid s"
    and update_frame: "\<And>s ctx r s' res ctx' tid. Update ops ctx r s = (s', res) \<Longrightarrow>
      tid \<noteq> task_ID (upd_Task r) \<Longrightarrow> Get ops ctx' tid s' = Get ops ctx' tid s"
begin

text \<open>Of two updates made from one version, the second is refused: no update is lost.\<close>

lemma no_lost_update:
  assumes s: "inv s" and "upd_PrevVersion r1 = upd_PrevVersion r2"
    and pv: "upd_PrevVersion r1 \<noteq> TaskVersionMissing"
    and tid: "task_ID (upd_Task r1) = task_ID (upd_Task r2)"
    and u1: "Update ops ctx r1 s = (s1, Inr v1)" and u2: "Update ops ctx r2 s1 = (s2, res)"
  shows "(\<exists>e. res = Inl e) \<and> s2 = s1"
proof -
  have "\<not> (\<exists>v2. res = Inr v2)"
  proof
    assume "\<exists>v2. res = Inr v2"
    with u2 obtain v2 where u2': "Update ops ctx r2 s1 = (s2, Inr v2)" by auto
    from update_ok[OF s u1] obtain st where
      "v1 \<noteq> st_Version st" "upd_PrevVersion r1 = st_Version st"
      "Get ops ctx (task_ID (upd_Task r1)) s1 = Inr (st\<lparr>st_Task := upd_Task r1, st_Version := v1\<rparr>)"
      using pv by auto
    with update_ok[OF update_inv[OF s u1] u2'] pv tid assms(2) show False by auto
  qed
  with u2 show ?thesis using update_err by (cases res) auto
qed

text \<open>What was created cannot be created again by the same caller.\<close>

lemma create_twice:
  assumes s: "inv s" and c1: "Create ops ctx t s = (s1, Inr v)" and tid: "task_ID t' = task_ID t"
    and c2: "Create ops ctx t' s1 = (s2, res)"
  shows "(\<exists>e. res = Inl e) \<and> s2 = s1"
proof (cases res)
  case (Inr w)
  from create_ok[OF s c1] have "inv s1" "\<exists>st. Get ops ctx (task_ID t) s1 = Inr st" by auto
  with create_ok[of s1 ctx t' s2 w] c2 Inr tid show ?thesis by auto
qed (use c2 create_err in auto)

text \<open>A successful update leaves the task visible to the caller with the version returned.\<close>

lemma update_visible:
  assumes "inv s" "Update ops ctx r s = (s', Inr v)"
  shows "\<exists>st. Get ops ctx (task_ID (upd_Task r)) s' = Inr st \<and> st_Task st = upd_Task r \<and> st_Version st = v"
  using update_ok[OF assms] by force

lemma create_visible:
  assumes "inv s" "Create ops ctx t s = (s', Inr v)"
  shows "\<exists>st. Get ops ctx (task_ID t) s' = Inr st \<and> st_Task st = t \<and> st_Version st = v"
  using create_ok[OF assms] by force

end

end
