(* ===== verification/MetaValidator.thy ===== *)
theory MetaValidator
  imports DeepCopies
begin

text \<open>
  \<open>a2asrv/taskstore/validator.go\<close>: the check a store runs on the metadata of a task. Metadata
  are values of the type \<open>any\<close> in the data model; in the program they are graphs of slices and
  maps, and the validator also finds cycles. The theory has both: the check on values, which the
  store uses, and the check on a heap with the set of containers being processed; the refinement
  theorem says that the latter accepts exactly the graphs that unfold to a finite value that the
  former accepts.
\<close>

section \<open>The check on values\<close>

definition not_permitted :: go_error where
  "not_permitted = Errorf ''%T is not permitted in Metadata'' []"

definition circular_reference :: go_error where
  "circular_reference = Errorf ''circular reference in Metadata'' []"

text \<open>Booleans, signed integers, floats and strings, and slices and maps of permitted values.\<close>

primrec permitted :: "any \<Rightarrow> bool" where
  "permitted ANil = True"
| "permitted (ABool b) = True"
| "permitted (AInt k i) = True"
| "permitted (AFloat k r) = True"
| "permitted (AString s) = True"
| "permitted (AArr xs) = list_all (\<lambda>b. b) (map permitted xs)"
| "permitted (AMap m) = fmpred (\<lambda>k b. b) (fmmap permitted m)"
| "permitted (AStrMap m) = False"
| "permitted (AOther t) = False"

definition validateMeta :: "metadata \<Rightarrow> go_error option" where
  "validateMeta meta =
     (case meta of None \<Rightarrow> None | Some m \<Rightarrow> if permitted (AMap m) then None else Some not_permitted)"

text \<open>The first error of a loop over a slice whose body may return one.\<close>

fun first_error :: "('a \<Rightarrow> go_error option) \<Rightarrow> 'a list \<Rightarrow> go_error option" where
  "first_error f [] = None"
| "first_error f (x # xs) = (case f x of Some err \<Rightarrow> Some err | None \<Rightarrow> first_error f xs)"

lemma first_error_None: "first_error f xs = None \<longleftrightarrow> (\<forall>x \<in> set xs. f x = None)"
  by (induction xs) (auto split: option.splits)

definition validateParts :: "part list \<Rightarrow> go_error option" where
  "validateParts parts = first_error (\<lambda>p. validateMeta (part_Metadata p)) parts"

definition validateMessage :: "message option \<Rightarrow> go_error option" where
  "validateMessage msg = (case msg of None \<Rightarrow> None | Some m \<Rightarrow>
     (case validateParts (msg_Parts m) of Some err \<Rightarrow> Some err
      | None \<Rightarrow> validateMeta (msg_Metadata m)))"

definition validateArtifact :: "artifact \<Rightarrow> go_error option" where
  "validateArtifact a =
     (case validateParts (art_Parts a) of Some err \<Rightarrow> Some err
      | None \<Rightarrow> validateMeta (art_Metadata a))"

definition validateTask :: "task \<Rightarrow> go_error option" where
  "validateTask t =
     (case validateMessage (ts_Message (task_Status t)) of Some err \<Rightarrow> Some err | None \<Rightarrow>
      (case first_error (\<lambda>m. validateMessage (Some m)) (task_History t) of Some err \<Rightarrow> Some err | None \<Rightarrow>
       (case first_error validateArtifact (task_Artifacts t) of Some err \<Rightarrow> Some err | None \<Rightarrow>
        validateMeta (task_Metadata t))))"

text \<open>A permitted value is of a type gob knows, so metadata that pass can be copied.\<close>

lemma permitted_gob: "permitted v \<Longrightarrow> gob_any v"
proof (induction v)
  case (AMap m)
  then show ?case by (fastforce simp: fmpred_iff fmlookup_ran'_iff)
qed (auto simp: list_all_iff)

lemma validateMeta_gob: "validateMeta m = None \<Longrightarrow> gob_meta m"
  by (auto simp: validateMeta_def gob_meta_def simp del: gob_any.simps permitted.simps
      split: option.splits if_splits intro: permitted_gob)

section \<open>The check on a heap\<close>

text \<open>
  A reference is the address that \<open>%p\<close> prints for a slice or a map. The entries of a map are
  listed in the order of one iteration.
\<close>

datatype gval = VBasic any | VRef nat | VOther string
datatype container = CArr "gval list" | CMap "(string \<times> gval) list"

type_synonym heap = "container list"

fun elems :: "container \<Rightarrow> gval list" where
  "elems (CArr vs) = vs"
| "elems (CMap kvs) = map snd kvs"

text \<open>
  \<open>validateMetaRecursive\<close>: the set \<open>processing\<close> holds the containers on the path from the
  root. An entry is deleted when its call returns, so a call leaves the set as it found it. The
  function recurses only through addresses that are not in the set yet, which bounds its depth. The
  branch for an address outside the heap does not occur in Go.
\<close>

function validateMetaRecursive :: "heap \<Rightarrow> gval \<Rightarrow> nat set \<Rightarrow> go_error option"
  and validateElems :: "heap \<Rightarrow> gval list \<Rightarrow> nat set \<Rightarrow> go_error option" where
  "validateMetaRecursive h (VBasic b) processing = None"
| "validateMetaRecursive h (VOther t) processing = Some not_permitted"
| "validateMetaRecursive h (VRef a) processing =
     (if a \<in> processing then Some circular_reference
      else if a \<ge> length h then Some not_permitted
      else validateElems h (elems (h ! a)) (insert a processing))"
| "validateElems h [] processing = None"
| "validateElems h (v # vs) processing =
     (case validateMetaRecursive h v processing of
        Some err \<Rightarrow> Some err | None \<Rightarrow> validateElems h vs processing)"
  by pat_completeness auto
termination
proof (relation "measures
    [case_sum (\<lambda>(h, v, P). card ({..<length h} - P)) (\<lambda>(h, vs, P). card ({..<length h} - P)),
     case_sum (\<lambda>(h, v, P). 0) (\<lambda>(h, vs, P). Suc (length vs))]", goal_cases)
  case (2 h a P)
  then have "a \<in> {..<length h} - P" by simp
  then have "card ({..<length h} - P - {a}) < card ({..<length h} - P)"
    by (intro card_Diff1_less) simp_all
  moreover have "{..<length h} - insert a P = {..<length h} - P - {a}" by (rule Diff_insert)
  ultimately show ?case by simp
qed auto

lemma validateElems_None:
  "validateElems h vs P = None \<longleftrightarrow> (\<forall>v \<in> set vs. validateMetaRecursive h v P = None)"
proof (induction vs)
  case (Cons v vs)
  then show ?case by (cases "validateMetaRecursive h v P") simp_all
qed simp

text \<open>
  A well-formed heap: references lead into the heap, the keys of a map are distinct, and what is
  tested by the type switch is a basic value.
\<close>

definition basic :: "any \<Rightarrow> bool" where
  "basic v = (case v of AArr xs \<Rightarrow> False | AMap m \<Rightarrow> False | AStrMap m \<Rightarrow> False | AOther t \<Rightarrow> False
              | _ \<Rightarrow> True)"

fun gval_ok :: "heap \<Rightarrow> gval \<Rightarrow> bool" where
  "gval_ok h (VBasic b) = basic b"
| "gval_ok h (VRef a) = (a < length h)"
| "gval_ok h (VOther t) = True"

definition heap_ok :: "heap \<Rightarrow> bool" where
  "heap_ok h = list_all (\<lambda>c. list_all (gval_ok h) (elems c) \<and>
     (case c of CArr vs \<Rightarrow> True | CMap kvs \<Rightarrow> distinct (map fst kvs))) h"

text \<open>
  The value a heap value stands for, read to a given depth: \<open>None\<close> when the graph is deeper than
  that, so for every depth when it is cyclic.
\<close>

fun build :: "container \<Rightarrow> any list \<Rightarrow> any" where
  "build (CArr vs) ts = AArr ts"
| "build (CMap kvs) ts = AMap (fmap_of_list (zip (map fst kvs) ts))"

fun unfold_value :: "nat \<Rightarrow> heap \<Rightarrow> gval \<Rightarrow> any option" where
  "unfold_value n h (VBasic b) = Some b"
| "unfold_value n h (VOther t) = Some (AOther t)"
| "unfold_value 0 h (VRef a) = None"
| "unfold_value (Suc n) h (VRef a) =
     map_option (build (h ! a)) (those (map (unfold_value n h) (elems (h ! a))))"

lemma permitted_build:
  assumes "heap_ok h" "a < length h" "length ts = length (elems (h ! a))"
  shows "permitted (build (h ! a) ts) \<longleftrightarrow> list_all permitted ts"
proof (cases "h ! a")
  case (CArr vs)
  then show ?thesis by (simp add: list_all_iff)
next
  case (CMap kvs)
  with assms have d: "distinct (map fst kvs)" and len: "length ts = length kvs"
    by (auto simp: heap_ok_def list_all_length)
  let ?z = "zip (map fst kvs) ts"
  from d len have dz: "distinct (map fst ?z)" by simp
  have "(\<forall>k v. map_of ?z k = Some v \<longrightarrow> permitted v) \<longleftrightarrow> (\<forall>v \<in> set (map snd ?z). permitted v)"
    using dz by (auto simp: map_of_eq_Some_iff)
  with CMap len show ?thesis by (simp add: fmpred_iff fmlookup_of_list list_all_iff) blast
qed
lemma map_Some_mono:
  assumes "map f xs = map Some ys" "\<And>x y. f x = Some y \<Longrightarrow> g x = Some y"
  shows "map g xs = map Some ys"
  using assms(1)
proof (induction xs arbitrary: ys)
  case (Cons x xs)
  then obtain y zs where "ys = y # zs" by (cases ys) auto
  with Cons assms(2) show ?case by simp
qed simp

lemma unfold_value_mono:
  "unfold_value n h v = Some t \<Longrightarrow> n \<le> m \<Longrightarrow> unfold_value m h v = Some t"
proof (induction n h v arbitrary: m t rule: unfold_value.induct)
  case (4 n h a)
  then obtain m' where m: "m = Suc m'" "n \<le> m'" by (cases m) auto
  from 4(2) obtain ts where ts: "map (unfold_value n h) (elems (h ! a)) = map Some ts"
    and t: "t = build (h ! a) ts"
    by (auto simp: those_Some_iff)
  have "map (unfold_value m' h) (elems (h ! a)) = map Some ts"
  proof -
    have len: "length ts = length (elems (h ! a))" using ts by (metis length_map)
    have "unfold_value m' h (elems (h ! a) ! i) = Some (ts ! i)" if i: "i < length ts" for i
    proof (rule 4(1))
      show "elems (h ! a) ! i \<in> set (elems (h ! a))" using i len by simp
      show "unfold_value n h (elems (h ! a) ! i) = Some (ts ! i)"
        using ts i len by (metis nth_map)
    qed (rule m(2))
    with len show ?thesis by (simp add: list_eq_iff_nth_eq)
  qed
  with m t show ?case by (simp add: those_Some_iff)
qed simp_all

lemma unfold_value_less: "unfold_value (Suc n) h v = None \<Longrightarrow> unfold_value n h v = None"
  using unfold_value_mono[of n h v _ "Suc n"] by (cases "unfold_value n h v") simp_all

text \<open>Accepted values unfold: by induction on the calls of the validator.\<close>

lemma validate_unfolds:
  assumes "heap_ok h"
  shows "validateMetaRecursive h v P = None \<Longrightarrow> gval_ok h v \<Longrightarrow>
      \<exists>n t. unfold_value n h v = Some t \<and> permitted t"
    and "validateElems h vs P = None \<Longrightarrow> list_all (gval_ok h) vs \<Longrightarrow>
      \<exists>n ts. map (unfold_value n h) vs = map Some ts \<and> list_all permitted ts"
  using assms
proof (induction h v P and h vs P rule: validateMetaRecursive_validateElems.induct)
  case (1 h b P)
  then show ?case by (cases b) (auto simp: basic_def)
next
  case (3 h a P)
  then have a: "a \<notin> P" "a < length h" and v: "validateElems h (elems (h ! a)) (insert a P) = None"
    by (auto split: if_splits)
  from a(2) 3 have "list_all (gval_ok h) (elems (h ! a))"
    by (auto simp: heap_ok_def list_all_length)
  with 3(1)[OF a(1) _ v] a(2) 3 obtain n ts where
    "map (unfold_value n h) (elems (h ! a)) = map Some ts" "list_all permitted ts" by auto
  moreover from this(1) have "length ts = length (elems (h ! a))" by (metis length_map)
  ultimately show ?case using permitted_build[of h a ts] 3 a(2)
    by (intro exI[of _ "Suc n"] exI[of _ "build (h ! a) ts"]) (simp add: those_Some_iff)
next
  case (5 h v vs P)
  then have v: "validateMetaRecursive h v P = None" "validateElems h vs P = None"
    by (auto split: option.splits)
  with 5 obtain n t m ts where u: "unfold_value n h v = Some t" "permitted t"
    "map (unfold_value m h) vs = map Some ts" "list_all permitted ts" by auto
  have "map (unfold_value (max n m) h) vs = map Some ts"
    using u(3) unfold_value_mono[OF _ max.cobounded2, of m h _ _ n] by (rule map_Some_mono)
  with u unfold_value_mono[OF u(1), of "max n m"] show ?case
    by (intro exI[of _ "max n m"] exI[of _ "t # ts"]) simp
qed simp_all

text \<open>
  Values that unfold are accepted: the containers in progress are those that do not unfold to the
  depth that is left, so the value's own container is none of them.
\<close>

lemma unfold_validates:
  assumes "heap_ok h"
  shows "unfold_value n h v = Some t \<Longrightarrow> permitted t \<Longrightarrow> gval_ok h v \<Longrightarrow>
    \<forall>a \<in> P. unfold_value n h (VRef a) = None \<Longrightarrow> validateMetaRecursive h v P = None"
proof (induction n arbitrary: v t P)
  case 0
  then show ?case by (cases v) auto
next
  case (Suc n)
  have P: "\<forall>a \<in> P. unfold_value n h (VRef a) = None"
    using Suc.prems(4) unfold_value_less by blast
  show ?case
  proof (cases "unfold_value n h v")
    case (Some t')
    then have "unfold_value (Suc n) h v = Some t'" by (rule unfold_value_mono) simp
    with Suc.prems(1) have "t' = t" by simp
    with Suc.IH[OF Some] Suc.prems(2,3) P show ?thesis by simp
  next
    case None
    with Suc.prems(1) obtain a where v: "v = VRef a" by (cases v) auto
    from Suc.prems(1) obtain ts where ts: "map (unfold_value n h) (elems (h ! a)) = map Some ts"
      and t: "t = build (h ! a) ts" by (auto simp: v those_Some_iff)
    from Suc.prems(3) v have a: "a < length h" by simp
    with assms have ok: "list_all (gval_ok h) (elems (h ! a))"
      by (auto simp: heap_ok_def list_all_length)
    from ts have len: "length ts = length (elems (h ! a))" by (metis length_map)
    with permitted_build[OF assms a len] Suc.prems(2) t have pts: "list_all permitted ts" by simp
    have "validateMetaRecursive h c (insert a P) = None" if "c \<in> set (elems (h ! a))" for c
    proof -
      from that obtain i where i: "i < length (elems (h ! a))" "c = elems (h ! a) ! i"
        by (metis in_set_conv_nth)
      with ts len have "unfold_value n h c = Some (ts ! i)" by (metis nth_map)
      with Suc.IH[of c "ts ! i"] pts ok i len None v P show ?thesis by (simp add: list_all_length)
    qed
    moreover have "a \<notin> P" using Suc.prems(1,4) v by auto
    ultimately show ?thesis using a v by (simp add: validateElems_None)
  qed
qed

text \<open>
  The metadata validator with its set of containers in progress returns without an error exactly
  when the value is a finite tree all of whose leaves are of a permitted type: cycles are refused,
  sharing is not.
\<close>

lemma validateMetaRecursive_iff:
  assumes "heap_ok h" "gval_ok h v"
  shows "validateMetaRecursive h v {} = None \<longleftrightarrow>
    (\<exists>n t. unfold_value n h v = Some t \<and> permitted t)"
  using validate_unfolds(1)[OF assms(1) _ assms(2)] unfold_validates[OF assms(1) _ _ assms(2)]
  by blast

lemma validateMetaRecursive_iff_witness:
  "let h = [CMap [(''a'', VRef 1), (''b'', VRef 1)], CArr [VBasic (AString ''x'')], CArr [VRef 2]]
   in (validateMetaRecursive h (VRef 0) {} = None) =
        (\<exists>n t. unfold_value n h (VRef 0) = Some t \<and> permitted t) \<and>
      validateMetaRecursive h (VRef 0) {} = None \<and>
      validateMetaRecursive h (VRef 2) {} = Some circular_reference"
  unfolding Let_def
  by (rule conjI, rule validateMetaRecursive_iff) (simp_all add: heap_ok_def basic_def)

section \<open>Storable tasks\<close>

text \<open>
  The tasks a store accepts: those that pass the validation and that gob can copy. The latter adds
  a condition on the content of data parts, which the validation does not look at.
\<close>

definition storable :: "task \<Rightarrow> bool" where
  "storable t = (validateTask t = None \<and> gob_task t)"

definition part_ok :: "part \<Rightarrow> bool" where
  "part_ok p = (validateMeta (part_Metadata p) = None \<and>
     (case part_Content p of Some (Data v) \<Rightarrow> gob_any v | _ \<Rightarrow> True))"

definition message_ok :: "message \<Rightarrow> bool" where
  "message_ok m = (list_all part_ok (msg_Parts m) \<and> validateMeta (msg_Metadata m) = None)"

definition artifact_ok :: "artifact \<Rightarrow> bool" where
  "artifact_ok a = (list_all part_ok (art_Parts a) \<and> validateMeta (art_Metadata a) = None)"

lemma error_or_None:
  "(case x of None \<Rightarrow> y | Some err \<Rightarrow> Some err) = None \<longleftrightarrow> x = None \<and> y = None"
  by (cases x) simp_all

lemma part_ok_list:
  "list_all part_ok ps \<longleftrightarrow> first_error (\<lambda>p. validateMeta (part_Metadata p)) ps = None \<and> list_all gob_part ps"
  by (auto simp: first_error_None list_all_iff part_ok_def gob_part_def dest: validateMeta_gob)

lemma message_ok_iff: "message_ok m \<longleftrightarrow> validateMessage (Some m) = None \<and> gob_message m"
  by (auto simp: message_ok_def validateMessage_def validateParts_def gob_message_def
      part_ok_list error_or_None dest: validateMeta_gob)

lemma artifact_ok_iff: "artifact_ok a \<longleftrightarrow> validateArtifact a = None \<and> gob_artifact a"
  by (auto simp: artifact_ok_def validateArtifact_def validateParts_def gob_artifact_def
      part_ok_list error_or_None dest: validateMeta_gob)

lemma storable_iff:
  "storable t \<longleftrightarrow> (\<forall>m \<in> set_option (ts_Message (task_Status t)) \<union> set (task_History t). message_ok m) \<and>
     (\<forall>a \<in> set (task_Artifacts t). artifact_ok a) \<and> validateMeta (task_Metadata t) = None"
proof -
  have "validateTask t = None \<longleftrightarrow> validateMessage (ts_Message (task_Status t)) = None \<and>
      (\<forall>m \<in> set (task_History t). validateMessage (Some m) = None) \<and>
      (\<forall>a \<in> set (task_Artifacts t). validateArtifact a = None) \<and> validateMeta (task_Metadata t) = None"
    by (simp add: validateTask_def first_error_None error_or_None)
  then show ?thesis
    by (cases "ts_Message (task_Status t)")
       (auto simp: storable_def message_ok_iff artifact_ok_iff gob_task_def list_all_iff
         validateMessage_def dest: validateMeta_gob)
qed

lemma validateMeta_lookup:
  "validateMeta m = None \<longleftrightarrow> (\<forall>k v. gm_lookup m k = Some v \<longrightarrow> permitted v)"
  by (cases m) (auto simp: validateMeta_def fmpred_iff)

lemma validateMeta_merge:
  "validateMeta m = None \<Longrightarrow> validateMeta (Some n) = None \<Longrightarrow>
     validateMeta (Some (maps_copy (gm_fmap m) n)) = None"
  by (auto simp: validateMeta_lookup split: option.splits)

end
