(* ===== verification/PageToken.thy ===== *)
theory PageToken
  imports DeepCopies
begin

text \<open>
  The page tokens of the in-memory task store (\<open>encodePageToken\<close> and \<open>decodePageToken\<close> in
  \<open>a2asrv/taskstore/inmemory.go\<close>): the time of the last update and the task id joined with an
  underscore, in the URL alphabet of base64. The base64 codec of the standard library is modelled;
  the text form of a time (\<open>time.RFC3339Nano\<close>) is a parameter, a pair of functions of which the
  theorems assume that parsing undoes formatting and that a formatted time has no underscore.
\<close>

section \<open>base64.URLEncoding\<close>

definition b64_alphabet :: string where
  "b64_alphabet = ''ABCDEFGHIJKLMNOPQRSTUVWXYZabcdefghijklmnopqrstuvwxyz0123456789-_''"

definition b64_char :: "nat \<Rightarrow> char" where
  "b64_char n = b64_alphabet ! n"

definition b64_val :: "char \<Rightarrow> nat option" where
  "b64_val c = index_func (\<lambda>d. d = c) b64_alphabet"

fun b64_encode_bytes :: "nat list \<Rightarrow> string" where
  "b64_encode_bytes [] = []"
| "b64_encode_bytes [a] = [b64_char (a div 4), b64_char (a mod 4 * 16), CHR ''='', CHR ''='']"
| "b64_encode_bytes [a, b] =
     [b64_char (a div 4), b64_char (a mod 4 * 16 + b div 16), b64_char (b mod 16 * 4), CHR ''='']"
| "b64_encode_bytes (a # b # c # bs) =
     [b64_char (a div 4), b64_char (a mod 4 * 16 + b div 16), b64_char (b mod 16 * 4 + c div 64),
      b64_char (c mod 64)] @ b64_encode_bytes bs"

definition b64_encode :: "string \<Rightarrow> string" where
  "b64_encode s = b64_encode_bytes (map of_char s)"

text \<open>The decoder reads quads; padding ends the input. New lines have been skipped before.\<close>

fun b64_decode_quads :: "string \<Rightarrow> nat list option" where
  "b64_decode_quads [] = Some []"
| "b64_decode_quads (c1 # c2 # c3 # c4 # rest) =
     (case (b64_val c1, b64_val c2) of
        (Some v1, Some v2) \<Rightarrow>
          (if c3 = CHR ''=''
           then (if c4 = CHR ''='' \<and> rest = [] then Some [v1 * 4 + v2 div 16] else None)
           else (case b64_val c3 of
                   None \<Rightarrow> None
                 | Some v3 \<Rightarrow>
                     (if c4 = CHR ''=''
                      then (if rest = [] then Some [v1 * 4 + v2 div 16, v2 mod 16 * 16 + v3 div 4] else None)
                      else (case (b64_val c4, b64_decode_quads rest) of
                              (Some v4, Some bs) \<Rightarrow>
                                Some ([v1 * 4 + v2 div 16, v2 mod 16 * 16 + v3 div 4,
                                       v3 mod 4 * 64 + v4] @ bs)
                            | _ \<Rightarrow> None))))
      | _ \<Rightarrow> None)"
| "b64_decode_quads _ = None"

definition b64_decode :: "string \<Rightarrow> string option" where
  "b64_decode s = map_option (map char_of)
     (b64_decode_quads (filter (\<lambda>c. c \<noteq> CHR 0x0A \<and> c \<noteq> CHR 0x0D) s))"

lemma length_b64_alphabet [simp]: "length b64_alphabet = 64"
  by (simp add: b64_alphabet_def)

lemma distinct_b64_alphabet: "distinct b64_alphabet"
  by (simp add: b64_alphabet_def)

lemma b64_val_char [simp]: "n < 64 \<Longrightarrow> b64_val (b64_char n) = Some n"
  unfolding b64_val_def b64_char_def
  using index_func_unique[of "\<lambda>d. d" b64_alphabet n] distinct_b64_alphabet by simp

lemma b64_char_in: "n < 64 \<Longrightarrow> b64_char n \<in> set b64_alphabet"
  by (simp add: b64_char_def)

lemma b64_char_neq [simp]:
  assumes "n < 64"
  shows "b64_char n \<noteq> CHR ''=''" "b64_char n \<noteq> CHR 0x0A" "b64_char n \<noteq> CHR 0x0D"
proof -
  have "CHR ''='' \<notin> set b64_alphabet" "CHR 0x0A \<notin> set b64_alphabet" "CHR 0x0D \<notin> set b64_alphabet"
    by (simp_all add: b64_alphabet_def)
  with b64_char_in[OF assms] show "b64_char n \<noteq> CHR ''=''" "b64_char n \<noteq> CHR 0x0A"
    "b64_char n \<noteq> CHR 0x0D" by metis+
qed

lemma b64_split:
  fixes x y :: nat
  assumes "y < m"
  shows "(x * m + y) div m = x" "(x * m + y) mod m = y"
  using assms by (simp_all add: div_mult_self3)

lemma b64_group:
  assumes "a < 256" "b < 256" "(c :: nat) < 256"
  shows "a div 4 < 64" "a mod 4 * 16 + b div 16 < 64" "b mod 16 * 4 + c div 64 < 64" "c mod 64 < 64"
    "a div 4 * 4 + (a mod 4 * 16 + b div 16) div 16 = a"
    "(a mod 4 * 16 + b div 16) mod 16 * 16 + (b mod 16 * 4 + c div 64) div 4 = b"
    "(b mod 16 * 4 + c div 64) mod 4 * 64 + c mod 64 = c"
proof -
  have b: "b div 16 < 16" and c: "c div 64 < 4" and a: "a div 4 < 64"
    using assms by (simp_all add: less_mult_imp_div_less)
  have "a mod 4 < 4" "b mod 16 < 16" by simp_all
  then show "a mod 4 * 16 + b div 16 < 64" "b mod 16 * 4 + c div 64 < 64" using b c by linarith+
  show "a div 4 * 4 + (a mod 4 * 16 + b div 16) div 16 = a"
    "(a mod 4 * 16 + b div 16) mod 16 * 16 + (b mod 16 * 4 + c div 64) div 4 = b"
    "(b mod 16 * 4 + c div 64) mod 4 * 64 + c mod 64 = c"
    by (simp_all only: b64_split[OF b] b64_split[OF c] div_mult_mod_eq)
qed (use assms in \<open>simp_all add: less_mult_imp_div_less\<close>)

lemma b64_decode_encode_bytes:
  "\<forall>b \<in> set bs. b < 256 \<Longrightarrow>
     b64_decode_quads (filter (\<lambda>c. c \<noteq> CHR 0x0A \<and> c \<noteq> CHR 0x0D) (b64_encode_bytes bs)) = Some bs"
proof (induction bs rule: b64_encode_bytes.induct)
  case (2 a)
  then have a: "a < 256" by simp
  obtain v1 v2 where v: "v1 = a div 4" "v2 = a mod 4 * 16" by blast
  have "v1 < 64" "v2 < 64" "v1 * 4 + v2 div 16 = a"
    using b64_group(1,2,5)[OF a, of 0 0] by (simp_all add: v)
  then show ?case by (simp flip: v)
next
  case (3 a b)
  then have ab: "a < 256" "b < 256" by simp_all
  obtain v1 v2 v3 where v: "v1 = a div 4" "v2 = a mod 4 * 16 + b div 16" "v3 = b mod 16 * 4" by blast
  have "v1 < 64" "v2 < 64" "v3 < 64" "v1 * 4 + v2 div 16 = a" "v2 mod 16 * 16 + v3 div 4 = b"
    unfolding v using b64_group(1,2,3,5,6)[OF ab, of 0] by (simp_all only: div_0 add_0_right)
  then show ?case by (simp flip: v)
next
  case (4 a b c bs)
  then have abc: "a < 256" "b < 256" "c < 256" by simp_all
  obtain v1 v2 v3 v4 where v: "v1 = a div 4" "v2 = a mod 4 * 16 + b div 16"
    "v3 = b mod 16 * 4 + c div 64" "v4 = c mod 64" by blast
  have "v1 < 64" "v2 < 64" "v3 < 64" "v4 < 64" "v1 * 4 + v2 div 16 = a"
    "v2 mod 16 * 16 + v3 div 4 = b" "v3 mod 4 * 64 + v4 = c"
    unfolding v by (rule b64_group[OF abc])+
  with 4 show ?case by (simp flip: v)
qed simp

lemma b64_decode_encode [simp]: "b64_decode (b64_encode s) = Some s"
proof -
  have "\<forall>b \<in> set (map of_char s). b < (256 :: nat)" by simp
  from b64_decode_encode_bytes[OF this] show ?thesis
    by (simp add: b64_decode_def b64_encode_def comp_def)
qed

section \<open>Page tokens\<close>

record time_format =
  Format :: "gotime \<Rightarrow> string"
  Parse :: "string \<Rightarrow> gotime option"

definition encodePageToken :: "time_format \<Rightarrow> gotime \<Rightarrow> task_id \<Rightarrow> string" where
  "encodePageToken tf updatedTime taskID =
     b64_encode (Format tf updatedTime @ CHR ''_'' # taskID)"

definition decodePageToken :: "time_format \<Rightarrow> string \<Rightarrow> go_error + gotime \<times> task_id" where
  "decodePageToken tf nextPageToken =
     (case b64_decode nextPageToken of
        None \<Rightarrow> Inl (Sentinel ErrParseError)
      | Some decoded \<Rightarrow>
          (let parts = split_on (CHR ''_'') decoded
           in if length parts \<noteq> 2 then Inl (Sentinel ErrParseError)
              else (case Parse tf (parts ! 0) of
                      None \<Rightarrow> Inl (Sentinel ErrParseError)
                    | Some updatedTime \<Rightarrow> Inr (updatedTime, parts ! 1))))"

text \<open>The documented behaviour of the time format at one time.\<close>

definition time_ok :: "time_format \<Rightarrow> gotime \<Rightarrow> bool" where
  "time_ok tf t = (Parse tf (Format tf t) = Some t \<and> CHR ''_'' \<notin> set (Format tf t))"

lemma decode_token:
  "time_ok tf t \<Longrightarrow> CHR ''_'' \<notin> set taskID \<Longrightarrow>
     decodePageToken tf (encodePageToken tf t taskID) = Inr (t, taskID)"
  by (simp add: decodePageToken_def encodePageToken_def time_ok_def split_on_append split_on_single)

lemma b64_encode_bytes_Nil: "b64_encode_bytes bs = [] \<longleftrightarrow> bs = []"
  by (cases bs rule: b64_encode_bytes.cases) simp_all

lemma encodePageToken_not_empty: "encodePageToken tf t taskID \<noteq> ''''"
  by (simp add: encodePageToken_def b64_encode_def b64_encode_bytes_Nil)

text \<open>The token of a task whose id has an underscore is refused, whatever the time.\<close>

lemma decode_underscore:
  assumes "CHR ''_'' \<in> set taskID"
  shows "decodePageToken tf (encodePageToken tf t taskID) = Inl (Sentinel ErrParseError)"
proof -
  from assms have "filter (\<lambda>x. x = CHR ''_'') taskID \<noteq> []" by (auto simp: filter_empty_conv)
  then have "length (split_on (CHR ''_'') (Format tf t @ CHR ''_'' # taskID)) \<noteq> 2"
    by (cases "filter (\<lambda>x. x = CHR ''_'') taskID") (simp_all add: split_on_length)
  then show ?thesis by (simp add: decodePageToken_def encodePageToken_def)
qed

text \<open>
  A page token decodes to the time and the task id it was made from when the task id has no
  underscore, and is refused when it has one: listing cannot be continued after such a task.
\<close>

lemma decode_encode_page_token:
  assumes "time_ok tf t"
  shows "decodePageToken tf (encodePageToken tf t taskID) =
    (if CHR ''_'' \<in> set taskID then Inl (Sentinel ErrParseError) else Inr (t, taskID))"
  using decode_token[OF assms] decode_underscore by simp

text \<open>A concrete format for the witnesses: a non-negative time in unary.\<close>

definition unary_format :: time_format where
  "unary_format = \<lparr>Format = (\<lambda>t. replicate (nat t) (CHR ''1'')),
     Parse = (\<lambda>s. if \<forall>c \<in> set s. c = CHR ''1'' then Some (int (length s)) else None)\<rparr>"

lemma unary_format_ok: "0 \<le> t \<Longrightarrow> time_ok unary_format t"
  by (simp add: time_ok_def unary_format_def)

lemma decode_encode_page_token_witness:
  "decodePageToken unary_format (encodePageToken unary_format 3 ''task'') = Inr (3, ''task'') \<and>
   decodePageToken unary_format (encodePageToken unary_format 3 ''my_task'') = Inl (Sentinel ErrParseError)"
  using decode_encode_page_token[OF unary_format_ok, of 3] by simp

end
