(* ===== verification/InMemoryStore.thy ===== *)
theory InMemoryStore
  imports TaskStoreApi MetaValidator PageToken "HOL-Library.Multiset"
begin

text \<open>
  \<open>a2asrv/taskstore/inmemory.go\<close>: the in-memory task store. The mutex makes each method one
  step on the state. \<open>TimeProvider\<close> is a function of the number of its calls, so time may stand
  still or run backwards. The iteration order of the map, which Go leaves open, is an argument of
  \<open>List\<close>.
\<close>

section \<open>State and operations\<close>

record storedTask =
  s_task :: task
  s_version :: task_version
  s_user :: string
  s_lastUpdated :: gotime

record in_memory =
  im_tasks :: "(task_id, storedTask) fmap"
  im_ticks :: nat

type_synonym authenticator = "go_ctx \<Rightarrow> go_error + string"

record in_memory_config =
  Authenticator :: authenticator
  TimeProvider :: "nat \<Rightarrow> gotime"

text \<open>\<open>NewInMemory\<close> with the wall clock as an argument; a nil field takes its default.\<close>

definition NewInMemory ::
  "(nat \<Rightarrow> gotime) \<Rightarrow> (authenticator option \<times> (nat \<Rightarrow> gotime) option) option \<Rightarrow>
     in_memory_config \<times> in_memory" where
  "NewInMemory wall_clock config =
     (let (auth, clock) = (case config of None \<Rightarrow> (None, None) | Some c \<Rightarrow> c)
      in (\<lparr>Authenticator = (case auth of None \<Rightarrow> (\<lambda>ctx. Inr '''') | Some a \<Rightarrow> a),
           TimeProvider = (case clock of None \<Rightarrow> wall_clock | Some t \<Rightarrow> t)\<rparr>,
          \<lparr>im_tasks = fmempty, im_ticks = 0\<rparr>))"

definition put :: "in_memory_config \<Rightarrow> task_id \<Rightarrow> task \<Rightarrow> task_version \<Rightarrow> string \<Rightarrow> in_memory \<Rightarrow> in_memory" where
  "put cfg tid t v u s =
     s\<lparr>im_tasks := fmupd tid \<lparr>s_task = t, s_version = v, s_user = u,
                      s_lastUpdated = TimeProvider cfg (im_ticks s)\<rparr> (im_tasks s),
       im_ticks := Suc (im_ticks s)\<rparr>"

definition auth_failed :: "go_error \<Rightarrow> go_error" where
  "auth_failed err = Errorf ''taskstore auth failed: %w'' [err]"

definition im_Create ::
  "in_memory_config \<Rightarrow> go_ctx \<Rightarrow> task \<Rightarrow> in_memory \<Rightarrow> in_memory \<times> (go_error + task_version)" where
  "im_Create cfg ctx task s =
     (case validateTask task of Some err \<Rightarrow> (s, Inl err) | None \<Rightarrow>
      (case Authenticator cfg ctx of Inl err \<Rightarrow> (s, Inl (auth_failed err)) | Inr userName \<Rightarrow>
       (case DeepCopy_task task of Inl err \<Rightarrow> (s, Inl err) | Inr taskCopy \<Rightarrow>
        (case fmlookup (im_tasks s) (task_ID task) of
           Some stored \<Rightarrow> (s, Inl (Sentinel ErrTaskAlreadyExists))
         | None \<Rightarrow> (put cfg (task_ID task) taskCopy 1 userName s, Inr 1)))))"

definition im_Update ::
  "in_memory_config \<Rightarrow> go_ctx \<Rightarrow> update_request \<Rightarrow> in_memory \<Rightarrow>
     in_memory \<times> (go_error + task_version)" where
  "im_Update cfg ctx req s =
     (case validateTask (upd_Task req) of Some err \<Rightarrow> (s, Inl err) | None \<Rightarrow>
      (case Authenticator cfg ctx of Inl err \<Rightarrow> (s, Inl (auth_failed err)) | Inr userName \<Rightarrow>
       (case DeepCopy_task (upd_Task req) of Inl err \<Rightarrow> (s, Inl err) | Inr taskCopy \<Rightarrow>
        (case fmlookup (im_tasks s) (task_ID (upd_Task req)) of
           None \<Rightarrow> (s, Inl (Sentinel ErrTaskNotFound))
         | Some stored \<Rightarrow>
             if s_user stored \<noteq> userName then (s, Inl (Sentinel ErrTaskNotFound))
             else if upd_PrevVersion req \<noteq> TaskVersionMissing \<and> s_version stored \<noteq> upd_PrevVersion req
             then (s, Inl (Sentinel ErrConcurrentModification))
             else (let version = int64_succ (s_version stored)
                   in (put cfg (task_ID (upd_Task req)) taskCopy version (s_user stored) s,
                       Inr version))))))"

definition im_Get ::
  "in_memory_config \<Rightarrow> go_ctx \<Rightarrow> task_id \<Rightarrow> in_memory \<Rightarrow> go_error + stored_task" where
  "im_Get cfg ctx taskID s =
     (case fmlookup (im_tasks s) taskID of
        None \<Rightarrow> Inl (Sentinel ErrTaskNotFound)
      | Some stored \<Rightarrow>
          (case Authenticator cfg ctx of Inl err \<Rightarrow> Inl (auth_failed err) | Inr userName \<Rightarrow>
             if s_user stored \<noteq> userName then Inl (Sentinel ErrTaskNotFound)
             else (case DeepCopy_task (s_task stored) of
                     Inl err \<Rightarrow> Inl (Errorf ''task copy failed: %w'' [err])
                   | Inr task \<Rightarrow> Inr \<lparr>st_Task = task, st_Version = s_version stored,
                                     st_User = s_user stored\<rparr>)))"

section \<open>Listing\<close>

definition task_matches :: "string \<Rightarrow> list_request \<Rightarrow> storedTask \<Rightarrow> bool" where
  "task_matches userName req st =
     (if s_user st \<noteq> userName then False
      else if list_ContextID req \<noteq> '''' \<and> task_ContextID (s_task st) \<noteq> list_ContextID req then False
      else if list_Status req \<noteq> TaskStateUnspecified \<and>
              ts_State (task_Status (s_task st)) \<noteq> list_Status req then False
      else (case (list_StatusTimestampAfter req, ts_Timestamp (task_Status (s_task st))) of
              (Some after, Some t) \<Rightarrow> \<not> t < after
            | _ \<Rightarrow> True))"

text \<open>The map is read in the given order of its keys.\<close>

definition filterTasks ::
  "task_id list \<Rightarrow> (task_id, storedTask) fmap \<Rightarrow> string \<Rightarrow> list_request \<Rightarrow> storedTask list" where
  "filterTasks order tasks userName req =
     filter (task_matches userName req) (List.map_filter (fmlookup tasks) order)"

text \<open>
  Latest first, and by descending id among equal times; \<open>strings.Compare\<close> is the lexicographic
  order on bytes. Ids are distinct, so the order is total and the sort is determined by it.
\<close>

definition list_key :: "storedTask \<Rightarrow> gotime \<times> task_id" where
  "list_key st = (s_lastUpdated st, task_ID (s_task st))"

definition sortTasks :: "storedTask list \<Rightarrow> storedTask list" where
  "sortTasks ts = rev (sort_key list_key ts)"

definition page_cut ::
  "time_format \<Rightarrow> nat \<Rightarrow> storedTask list \<Rightarrow> storedTask list \<times> string" where
  "page_cut tf pageSize tasksPage =
     (if pageSize \<ge> length tasksPage then (tasksPage, '''')
      else (let lastElement = tasksPage ! (pageSize - 1)
            in (take pageSize tasksPage,
                encodePageToken tf (s_lastUpdated lastElement) (task_ID (s_task lastElement)))))"

definition after_cursor :: "gotime \<Rightarrow> task_id \<Rightarrow> storedTask \<Rightarrow> bool" where
  "after_cursor cursorTime cursorTaskID st =
     (if s_lastUpdated st < cursorTime then True
      else if s_lastUpdated st > cursorTime then False
      else task_ID (s_task st) < cursorTaskID)"

definition applyPagination ::
  "time_format \<Rightarrow> storedTask list \<Rightarrow> nat \<Rightarrow> list_request \<Rightarrow> go_error + storedTask list \<times> string" where
  "applyPagination tf filteredTasks pageSize req =
     (if list_PageToken req \<noteq> ''''
      then (case decodePageToken tf (list_PageToken req) of
              Inl err \<Rightarrow> Inl err
            | Inr (cursorTime, cursorTaskID) \<Rightarrow>
                (let pageStartIndex =
                       sort_search (\<lambda>i. after_cursor cursorTime cursorTaskID (filteredTasks ! i))
                         0 (length filteredTasks)
                 in Inr (page_cut tf pageSize (drop pageStartIndex filteredTasks))))
      else Inr (page_cut tf pageSize filteredTasks))"

definition present :: "list_request \<Rightarrow> task \<Rightarrow> task" where
  "present req t =
     (let historyLength = (case list_HistoryLength req of None \<Rightarrow> 100 | Some n \<Rightarrow> n);
          t1 = (if historyLength \<le> 0 then t\<lparr>task_History := []\<rparr>
                else if int (length (task_History t)) > historyLength
                then t\<lparr>task_History := last_n (nat historyLength) (task_History t)\<rparr> else t)
      in if list_IncludeArtifacts req then t1 else t1\<lparr>task_Artifacts := []\<rparr>)"

fun toListTasksResult :: "storedTask list \<Rightarrow> list_request \<Rightarrow> go_error + task list" where
  "toListTasksResult [] req = Inr []"
| "toListTasksResult (st # sts) req =
     (case DeepCopy_task (s_task st) of
        Inl err \<Rightarrow> Inl err
      | Inr taskCopy \<Rightarrow>
          (case toListTasksResult sts req of
             Inl err \<Rightarrow> Inl err
           | Inr result \<Rightarrow> Inr (present req taskCopy # result)))"

definition im_List ::
  "in_memory_config \<Rightarrow> time_format \<Rightarrow> task_id list \<Rightarrow> go_ctx \<Rightarrow> list_request \<Rightarrow> in_memory \<Rightarrow>
     go_error + list_response" where
  "im_List cfg tf order ctx req s =
     (case Authenticator cfg ctx of
        Inl err \<Rightarrow> Inl (Sentinel ErrUnauthenticated)
      | Inr userName \<Rightarrow>
          if userName = '''' then Inl (Sentinel ErrUnauthenticated)
          else
            (let pageSize = (if list_PageSize req = 0 then 50 else list_PageSize req)
             in if list_PageSize req \<noteq> 0 \<and> (pageSize < 1 \<or> pageSize > 100)
                then Inl (Errorf ''page size must be between 1 and 100 inclusive, got %d: %w''
                           [Sentinel ErrInvalidRequest])
                else
                  (let filteredTasks = filterTasks order (im_tasks s) userName req;
                       sorted = sortTasks filteredTasks
                   in case applyPagination tf sorted (nat pageSize) req of
                        Inl err \<Rightarrow> Inl err
                      | Inr (tasksPage, nextPageToken) \<Rightarrow>
                          (case toListTasksResult tasksPage req of
                             Inl err \<Rightarrow> Inl err
                           | Inr result \<Rightarrow>
                               Inr \<lparr>resp_Tasks = result, resp_TotalSize = int (length filteredTasks),
                                    resp_PageSize = pageSize, resp_NextPageToken = nextPageToken\<rparr>))))"

text \<open>The methods as a \<open>Store\<close>; a listing reads the map in the order of its sorted keys.\<close>

definition in_memory_ops :: "in_memory_config \<Rightarrow> time_format \<Rightarrow> in_memory store_ops" where
  "in_memory_ops cfg tf =
     \<lparr>Create = im_Create cfg, Update = im_Update cfg, Get = im_Get cfg,
      List = (\<lambda>ctx req s. im_List cfg tf (sorted_list_of_fset (fmdom (im_tasks s))) ctx req s)\<rparr>"

section \<open>Invariant and contract\<close>

text \<open>
  Every stored task is filed under its id, passed the validation and can be copied.
\<close>

definition stored_ok :: "task_id \<Rightarrow> storedTask \<Rightarrow> bool" where
  "stored_ok tid st = (task_ID (s_task st) = tid \<and> storable (s_task st))"

definition im_inv :: "in_memory \<Rightarrow> bool" where
  "im_inv s = fmpred stored_ok (im_tasks s)"

lemma im_inv_lookup: "im_inv s \<Longrightarrow> fmlookup (im_tasks s) tid = Some st \<Longrightarrow> stored_ok tid st"
  by (auto simp: im_inv_def fmpred_iff)

lemma im_inv_put: "im_inv s \<Longrightarrow> task_ID t = tid \<Longrightarrow> storable t \<Longrightarrow> im_inv (put cfg tid t v u s)"
  by (auto simp: im_inv_def fmpred_iff put_def stored_ok_def)

lemma fmlookup_put [simp]:
  "fmlookup (im_tasks (put cfg tid t v u s)) tid' =
     (if tid = tid' then Some \<lparr>s_task = t, s_version = v, s_user = u,
        s_lastUpdated = TimeProvider cfg (im_ticks s)\<rparr> else fmlookup (im_tasks s) tid')"
  by (simp add: put_def)

lemma im_CreateE:
  assumes "im_Create cfg ctx t s = (s', Inr v)"
  obtains u where "Authenticator cfg ctx = Inr u" "gob_task t" "fmlookup (im_tasks s) (task_ID t) = None"
    "v = 1" "s' = put cfg (task_ID t) t 1 u s" "validateTask t = None"
  using assms by (auto simp: im_Create_def split: option.splits sum.splits)

lemma im_UpdateE:
  assumes "im_Update cfg ctx r s = (s', Inr v)"
  obtains u st where "Authenticator cfg ctx = Inr u" "gob_task (upd_Task r)"
    "fmlookup (im_tasks s) (task_ID (upd_Task r)) = Some st" "s_user st = u"
    "upd_PrevVersion r = TaskVersionMissing \<or> s_version st = upd_PrevVersion r"
    "v = int64_succ (s_version st)" "s' = put cfg (task_ID (upd_Task r)) (upd_Task r) v u s"
    "validateTask (upd_Task r) = None"
  using assms by (auto simp: im_Update_def Let_def split: option.splits sum.splits if_splits)

lemma im_Create_err: "im_Create cfg ctx t s = (s', Inl e) \<Longrightarrow> s' = s"
  by (auto simp: im_Create_def split: option.splits sum.splits)

lemma im_Update_err: "im_Update cfg ctx r s = (s', Inl e) \<Longrightarrow> s' = s"
  by (auto simp: im_Update_def Let_def split: option.splits sum.splits if_splits)

lemma im_Create_frame:
  "im_Create cfg ctx t s = (s', res) \<Longrightarrow> tid \<noteq> task_ID t \<Longrightarrow> im_Get cfg ctx' tid s' = im_Get cfg ctx' tid s"
  by (cases res) (auto dest: im_Create_err elim!: im_CreateE simp: im_Get_def)

lemma im_Update_frame:
  "im_Update cfg ctx r s = (s', res) \<Longrightarrow> tid \<noteq> task_ID (upd_Task r) \<Longrightarrow>
     im_Get cfg ctx' tid s' = im_Get cfg ctx' tid s"
  by (cases res) (auto dest: im_Update_err elim!: im_UpdateE simp: im_Get_def)

lemma in_memory_ops_simps [simp]:
  "Create (in_memory_ops cfg tf) = im_Create cfg"
  "Update (in_memory_ops cfg tf) = im_Update cfg"
  "Get (in_memory_ops cfg tf) = im_Get cfg"
  by (simp_all add: in_memory_ops_def)

interpretation mem: task_store "in_memory_ops cfg tf" im_inv
proof unfold_locales
  fix s s' ctx t v
  assume s: "im_inv s" and "Create (in_memory_ops cfg tf) ctx t s = (s', Inr v)"
  then have "im_Create cfg ctx t s = (s', Inr v)" by simp
  then obtain u where "Authenticator cfg ctx = Inr u" "storable t" "v = 1"
    "fmlookup (im_tasks s) (task_ID t) = None" "s' = put cfg (task_ID t) t 1 u s"
    by (rule im_CreateE) (simp add: storable_def)
  then show "im_inv s' \<and> v \<noteq> TaskVersionMissing \<and>
      Get (in_memory_ops cfg tf) ctx (task_ID t) s = Inl (Sentinel ErrTaskNotFound) \<and>
      (\<exists>u. Get (in_memory_ops cfg tf) ctx (task_ID t) s' = Inr \<lparr>st_Task = t, st_Version = v, st_User = u\<rparr>)"
    using im_inv_put[OF s] by (simp add: im_Get_def DeepCopy_task_def TaskVersionMissing_def storable_def)
next
  fix s s' ctx r v
  assume s: "im_inv s" and "Update (in_memory_ops cfg tf) ctx r s = (s', Inr v)"
  then have "im_Update cfg ctx r s = (s', Inr v)" by simp
  then obtain u st where u: "Authenticator cfg ctx = Inr u" "storable (upd_Task r)"
    "fmlookup (im_tasks s) (task_ID (upd_Task r)) = Some st" "s_user st = u"
    "upd_PrevVersion r = TaskVersionMissing \<or> s_version st = upd_PrevVersion r"
    "v = int64_succ (s_version st)" "s' = put cfg (task_ID (upd_Task r)) (upd_Task r) v u s"
    by (rule im_UpdateE) (simp add: storable_def)
  with im_inv_lookup[OF s u(3)]
  show "\<exists>st. Get (in_memory_ops cfg tf) ctx (task_ID (upd_Task r)) s = Inr st \<and>
      (upd_PrevVersion r = TaskVersionMissing \<or> upd_PrevVersion r = st_Version st) \<and>
      v \<noteq> st_Version st \<and>
      Get (in_memory_ops cfg tf) ctx (task_ID (upd_Task r)) s' =
        Inr (st\<lparr>st_Task := upd_Task r, st_Version := v\<rparr>)"
    by (auto simp: im_Get_def DeepCopy_task_def stored_ok_def storable_def)
  from u im_inv_put[OF s] show "im_inv s'" by simp
qed (simp_all add: im_Create_err im_Update_err im_Create_frame im_Update_frame)
section \<open>Order of a listing\<close>

lemma list_key_less: "list_key a < list_key b \<longleftrightarrow>
    after_cursor (s_lastUpdated b) (task_ID (s_task b)) a"
  by (auto simp: list_key_def after_cursor_def less_prod_simp)

text \<open>An iteration order of the map: its keys, each once.\<close>

definition iter_order :: "in_memory \<Rightarrow> task_id list \<Rightarrow> bool" where
  "iter_order s order = (distinct order \<and> set order = fmdom' (im_tasks s))"

lemma set_map_filter_iff: "y \<in> set (List.map_filter f xs) \<longleftrightarrow> (\<exists>x \<in> set xs. f x = Some y)"
  by (induction xs) (auto simp: map_filter_simps split: option.splits)

lemma filterTasks_set:
  "set (filterTasks order tasks u req) =
     {st. task_matches u req st \<and> (\<exists>tid \<in> set order. fmlookup tasks tid = Some st)}"
  by (auto simp: filterTasks_def set_map_filter_iff)

lemma map_filter_ids:
  assumes "im_inv s"
  shows "map (\<lambda>st. task_ID (s_task st)) (List.map_filter (fmlookup (im_tasks s)) order) =
     filter (\<lambda>tid. fmlookup (im_tasks s) tid \<noteq> None) order"
proof (induction order)
  case (Cons tid order)
  then show ?case
    using im_inv_lookup[OF assms, of tid]
    by (cases "fmlookup (im_tasks s) tid") (auto simp: map_filter_simps stored_ok_def)
qed (simp add: map_filter_simps)

lemma filterTasks_distinct_ids:
  assumes "im_inv s" "distinct order"
  shows "distinct (map (\<lambda>st. task_ID (s_task st)) (filterTasks order (im_tasks s) u req))"
  unfolding filterTasks_def
  by (rule distinct_map_filter) (simp add: map_filter_ids[OF assms(1)] assms(2))

lemma inj_list_key: "distinct (map (\<lambda>st. task_ID (s_task st)) ts) \<Longrightarrow> inj_on list_key (set ts)"
  by (auto simp: inj_on_def list_key_def distinct_map)

lemma sortTasks_set [simp]: "set (sortTasks ts) = set ts"
  by (simp add: sortTasks_def)

lemma sortTasks_length [simp]: "length (sortTasks ts) = length ts"
  by (simp add: sortTasks_def)

text \<open>The listing does not depend on the iteration order of the map.\<close>

lemma sortTasks_order:
  assumes "im_inv s" "iter_order s o1" "iter_order s o2"
  shows "sortTasks (filterTasks o1 (im_tasks s) u req) = sortTasks (filterTasks o2 (im_tasks s) u req)"
proof -
  let ?f = "\<lambda>ord. filterTasks ord (im_tasks s) u req"
  from assms have d: "distinct o1" "distinct o2" and e: "set o1 = set o2" by (auto simp: iter_order_def)
  have id: "distinct (map (\<lambda>st. task_ID (s_task st)) (?f o1))"
    "distinct (map (\<lambda>st. task_ID (s_task st)) (?f o2))"
    using filterTasks_distinct_ids[OF assms(1)] d by blast+
  from e have "set (?f o1) = set (?f o2)" by (auto simp: filterTasks_set)
  with id have "mset (?f o1) = mset (?f o2)"
    by (metis distinct_map set_eq_iff_mset_eq_distinct)
  then have "sort_key list_key (?f o1) = sort_key list_key (?f o2)"
    by (intro sort_key_inj_key_eq) (simp_all add: inj_list_key id(1))
  then show ?thesis by (simp add: sortTasks_def)
qed

text \<open>Strictly descending, so the tasks after a cursor are those behind the task it names.\<close>

lemma sortTasks_sorted:
  assumes "distinct (map (\<lambda>st. task_ID (s_task st)) ts)"
  shows "sorted_wrt (\<lambda>a b. list_key b < list_key a) (sortTasks ts)"
proof -
  have "distinct (map list_key (sort_key list_key ts))"
    using inj_list_key[OF assms] assms by (simp add: distinct_map)
  then have "sorted_wrt (<) (map list_key (sort_key list_key ts))"
    by (simp add: strict_sorted_iff)
  then show ?thesis by (simp add: sortTasks_def sorted_wrt_rev sorted_wrt_map)
qed

lemma filter_after:
  assumes "sorted_wrt (\<lambda>a b. list_key b < list_key a) (pre @ x # post)"
  shows "filter (\<lambda>st. list_key st < list_key x) (pre @ x # post) = post"
proof -
  from assms have "\<forall>a \<in> set pre. \<not> list_key a < list_key x" "\<forall>b \<in> set post. list_key b < list_key x"
    by (auto simp: sorted_wrt_append dest: less_asym)
  then show ?thesis by (simp add: filter_empty_conv filter_id_conv)
qed

lemma after_cursor_mono:
  assumes "sorted_wrt (\<lambda>a b. list_key b < list_key a) ts" "i \<le> j" "j < length ts"
    and "list_key (ts ! i) < k"
  shows "list_key (ts ! j) < k"
  using assms sorted_wrt_nth_less[OF assms(1), of i j] by (cases "i = j") (auto intro: less_trans)

text \<open>The page after the token of a task: what is behind that task.\<close>

lemma applyPagination_next:
  assumes sorted: "sorted_wrt (\<lambda>a b. list_key b < list_key a) (pre @ x # post)"
    and "time_ok tf (s_lastUpdated x)" "CHR ''_'' \<notin> set (task_ID (s_task x))"
    and tok: "list_PageToken req = encodePageToken tf (s_lastUpdated x) (task_ID (s_task x))"
  shows "applyPagination tf (pre @ x # post) n req = Inr (page_cut tf n post)"
proof -
  let ?L = "pre @ x # post" and ?p = "\<lambda>st. list_key st < list_key x"
  have "drop (sort_search (\<lambda>i. ?p (?L ! i)) 0 (length ?L)) ?L = filter ?p ?L"
    by (rule drop_sort_search) (rule after_cursor_mono[OF sorted])
  then have "drop (sort_search (\<lambda>i. ?p (?L ! i)) 0 (length ?L)) ?L = post"
    unfolding filter_after[OF sorted] .
  moreover have "encodePageToken tf (s_lastUpdated x) (task_ID (s_task x)) \<noteq> ''''"
    by (rule encodePageToken_not_empty)
  ultimately show ?thesis
    using decode_token[OF assms(2,3)] by (simp add: applyPagination_def tok list_key_less)
qed

section \<open>Walking through the pages\<close>

text \<open>
  A client that passes the next-page token back until it is empty. The map may be iterated in a
  different order at each call.
\<close>

fun walk_pages ::
  "in_memory_config \<Rightarrow> time_format \<Rightarrow> (nat \<Rightarrow> task_id list) \<Rightarrow> go_ctx \<Rightarrow> list_request \<Rightarrow> in_memory \<Rightarrow>
     nat \<Rightarrow> string \<Rightarrow> (go_error + task list list) option" where
  "walk_pages cfg tf orders ctx req s 0 token = None"
| "walk_pages cfg tf orders ctx req s (Suc n) token =
     (case im_List cfg tf (orders n) ctx (req\<lparr>list_PageToken := token\<rparr>) s of
        Inl err \<Rightarrow> Some (Inl err)
      | Inr r \<Rightarrow>
          if resp_NextPageToken r = '''' then Some (Inr [resp_Tasks r])
          else map_option (map_sum id ((#) (resp_Tasks r)))
                 (walk_pages cfg tf orders ctx req s n (resp_NextPageToken r)))"

lemma toListTasksResult_ok:
  "list_all (\<lambda>st. gob_task (s_task st)) sts \<Longrightarrow>
     toListTasksResult sts req = Inr (map (\<lambda>st. present req (s_task st)) sts)"
  by (induction sts) (simp_all add: DeepCopy_task_def)

text \<open>What a request lists: the sorted tasks that match it.\<close>

definition listing :: "in_memory \<Rightarrow> string \<Rightarrow> list_request \<Rightarrow> storedTask list" where
  "listing s u req =
     sortTasks (filterTasks (sorted_list_of_fset (fmdom (im_tasks s))) (im_tasks s) u req)"

lemma iter_order_keys: "iter_order s (sorted_list_of_fset (fmdom (im_tasks s)))"
  by (simp add: iter_order_def fmdom'_alt_def sorted_list_of_fset.rep_eq)

lemma listing_eq:
  "im_inv s \<Longrightarrow> iter_order s order \<Longrightarrow> sortTasks (filterTasks order (im_tasks s) u req) = listing s u req"
  unfolding listing_def by (rule sortTasks_order) (simp_all add: iter_order_keys)

lemma task_matches_token [simp]: "task_matches u (req\<lparr>list_PageToken := k\<rparr>) = task_matches u req"
  by (rule ext) (simp add: task_matches_def)

lemma listing_token [simp]: "listing s u (req\<lparr>list_PageToken := k\<rparr>) = listing s u req"
  by (simp add: listing_def filterTasks_def)

lemma present_token [simp]: "present (req\<lparr>list_PageToken := k\<rparr>) t = present req t"
  by (simp add: present_def)

lemma listing_gob: "im_inv s \<Longrightarrow> list_all (\<lambda>st. gob_task (s_task st)) (listing s u req)"
  by (auto simp: listing_def list_all_iff filterTasks_set stored_ok_def storable_def dest!: im_inv_lookup)

lemma listing_sorted: "im_inv s \<Longrightarrow> sorted_wrt (\<lambda>a b. list_key b < list_key a) (listing s u req)"
  unfolding listing_def
  using iter_order_keys[of s]
  by (intro sortTasks_sorted filterTasks_distinct_ids) (simp_all add: iter_order_def)

definition page_size :: "list_request \<Rightarrow> nat" where
  "page_size req = (if list_PageSize req = 0 then 50 else nat (list_PageSize req))"

lemma im_List_page:
  assumes inv: "im_inv s" and ord: "iter_order s order" and auth: "Authenticator cfg ctx = Inr u" "u \<noteq> ''''"
    and size: "0 \<le> list_PageSize req" "list_PageSize req \<le> 100"
    and page: "applyPagination tf (listing s u req) (page_size req) req = Inr (page_cut tf (page_size req) ts)"
    and sub: "set ts \<subseteq> set (listing s u req)"
  shows "im_List cfg tf order ctx req s =
    Inr \<lparr>resp_Tasks = map (\<lambda>st. present req (s_task st)) (fst (page_cut tf (page_size req) ts)),
         resp_TotalSize = int (length (listing s u req)), resp_PageSize = int (page_size req),
         resp_NextPageToken = snd (page_cut tf (page_size req) ts)\<rparr>"
proof -
  let ?F = "filterTasks order (im_tasks s) u req"
  have l: "sortTasks ?F = listing s u req" by (rule listing_eq[OF inv ord])
  then have len: "length ?F = length (listing s u req)" by (metis sortTasks_length)
  have "set (fst (page_cut tf (page_size req) ts)) \<subseteq> set ts"
    by (auto simp: page_cut_def Let_def dest: in_set_takeD)
  with sub listing_gob[OF inv, of u req]
  have res: "toListTasksResult (fst (page_cut tf (page_size req) ts)) req =
      Inr (map (\<lambda>st. present req (s_task st)) (fst (page_cut tf (page_size req) ts)))"
    by (intro toListTasksResult_ok) (auto simp: list_all_iff)
  obtain a b where ab: "page_cut tf (page_size req) ts = (a, b)" by fastforce
  from size have ps: "int (page_size req) = (if list_PageSize req = 0 then 50 else list_PageSize req)"
    by (simp add: page_size_def)
  then have nat: "nat (if list_PageSize req = 0 then 50 else list_PageSize req) = page_size req"
    by linarith
  from size page l len res show ?thesis
    by (simp add: im_List_def auth Let_def ab nat ps)
qed

text \<open>Walking from a token: the pages are the rest of the listing, cut into full pages.\<close>

lemma walk_pages_rest:
  assumes inv: "im_inv s" and ord: "\<And>i. iter_order s (orders i)"
    and auth: "Authenticator cfg ctx = Inr u" "u \<noteq> ''''"
    and size: "0 \<le> list_PageSize req" "list_PageSize req \<le> 100"
    and ok: "\<And>st. st \<in> set (listing s u req) \<Longrightarrow>
        time_ok tf (s_lastUpdated st) \<and> CHR ''_'' \<notin> set (task_ID (s_task st))"
    and page: "applyPagination tf (listing s u req) (page_size req) (req\<lparr>list_PageToken := token\<rparr>) =
        Inr (page_cut tf (page_size req) ts)"
    and split: "listing s u req = pre @ ts" and n: "length ts < n"
  shows "\<exists>ps. walk_pages cfg tf orders ctx req s n token = Some (Inr ps) \<and>
    concat ps = map (\<lambda>st. present req (s_task st)) ts \<and>
    (\<forall>p \<in> set (butlast ps). length p = page_size req) \<and> (\<forall>p \<in> set ps. length p \<le> page_size req)"
  using page split n
proof (induction n arbitrary: token pre ts)
  case (Suc n)
  let ?k = "page_size req"
  have pos: "0 < ?k" using size by (simp add: page_size_def)
  have k: "page_size (req\<lparr>list_PageToken := token\<rparr>) = ?k" by (simp add: page_size_def)
  have call: "im_List cfg tf (orders n) ctx (req\<lparr>list_PageToken := token\<rparr>) s =
    Inr \<lparr>resp_Tasks = map (\<lambda>st. present req (s_task st)) (fst (page_cut tf ?k ts)),
         resp_TotalSize = int (length (listing s u req)), resp_PageSize = int ?k,
         resp_NextPageToken = snd (page_cut tf ?k ts)\<rparr>"
    using im_List_page[of s "orders n" cfg ctx u "req\<lparr>list_PageToken := token\<rparr>" tf ts]
      inv ord auth size Suc.prems by (simp add: k)
  show ?case
  proof (cases "?k \<ge> length ts")
    case True
    with call show ?thesis by (simp add: page_cut_def)
  next
    case False
    let ?x = "ts ! (?k - 1)"
    let ?tok = "encodePageToken tf (s_lastUpdated ?x) (task_ID (s_task ?x))"
    have ts: "ts = take (?k - 1) ts @ ?x # drop ?k ts"
      using id_take_nth_drop[of "?k - 1" ts] False pos by simp
    have L: "listing s u req = (pre @ take (?k - 1) ts) @ ?x # drop ?k ts"
      using Suc.prems(2) ts by (metis append_assoc)
    have x: "?x \<in> set (listing s u req)" using L by (metis in_set_conv_decomp)
    have next_page: "applyPagination tf (listing s u req) ?k (req\<lparr>list_PageToken := ?tok\<rparr>) =
        Inr (page_cut tf ?k (drop ?k ts))"
      unfolding L using listing_sorted[OF inv, of u req, unfolded L] ok[OF x]
      by (intro applyPagination_next) simp_all
    have L': "listing s u req = (pre @ take ?k ts) @ drop ?k ts" using Suc.prems(2) by simp
    have "length (drop ?k ts) < n" using Suc.prems(3) False pos by (simp add: not_le)
    from Suc.IH[OF next_page L' this] obtain ps where
      ps: "walk_pages cfg tf orders ctx req s n ?tok = Some (Inr ps)"
      "concat ps = map (\<lambda>st. present req (s_task st)) (drop ?k ts)"
      "\<forall>p \<in> set (butlast ps). length p = ?k" "\<forall>p \<in> set ps. length p \<le> ?k" by auto
    have cut: "page_cut tf ?k ts = (take ?k ts, ?tok)" using False by (simp add: page_cut_def Let_def)
    have "map (\<lambda>st. present req (s_task st)) ts =
        map (\<lambda>st. present req (s_task st)) (take ?k ts) @ map (\<lambda>st. present req (s_task st)) (drop ?k ts)"
      by (metis append_take_drop_id map_append)
    with call ps False show ?thesis
      by (simp add: cut encodePageToken_not_empty)
  qed
qed simp

lemma sorted_wrt_neq_distinct: "sorted_wrt (\<noteq>) xs \<Longrightarrow> distinct xs"
  by (induction xs) auto

section \<open>Properties\<close>

text \<open>
  C1: Optimistic concurrency control: of two updates of one task made from the same version, the
  second fails and leaves the store unchanged; no update is lost silently.
\<close>

lemma in_memory_no_lost_update:
  assumes "im_inv s" "upd_PrevVersion r1 = upd_PrevVersion r2" "upd_PrevVersion r1 \<noteq> TaskVersionMissing"
    and "task_ID (upd_Task r1) = task_ID (upd_Task r2)"
    and "im_Update cfg ctx r1 s = (s1, Inr v1)" "im_Update cfg ctx r2 s1 = (s2, res)"
  shows "(\<exists>e. res = Inl e) \<and> s2 = s1"
  using mem.no_lost_update[of s r1 r2 cfg undefined ctx s1 v1 s2 res] assms by simp

text \<open>
  The in-memory store against the map it implements: a successful update needs a caller who is
  the owner and, when it names a version, the stored one; it replaces exactly that task, keeps the
  owner and moves to the next version.
\<close>

lemma im_Update_functional:
  "im_Update cfg ctx r s = (s', Inr v) \<longleftrightarrow>
     (\<exists>u st. Authenticator cfg ctx = Inr u \<and> validateTask (upd_Task r) = None \<and> gob_task (upd_Task r) \<and>
        fmlookup (im_tasks s) (task_ID (upd_Task r)) = Some st \<and> s_user st = u \<and>
        (upd_PrevVersion r = TaskVersionMissing \<or> s_version st = upd_PrevVersion r) \<and>
        v = int64_succ (s_version st) \<and>
        s' = s\<lparr>im_tasks := fmupd (task_ID (upd_Task r))
                 \<lparr>s_task = upd_Task r, s_version = v, s_user = u,
                  s_lastUpdated = TimeProvider cfg (im_ticks s)\<rparr> (im_tasks s),
               im_ticks := Suc (im_ticks s)\<rparr>)"
proof
  assume "im_Update cfg ctx r s = (s', Inr v)"
  then show "\<exists>u st. Authenticator cfg ctx = Inr u \<and> validateTask (upd_Task r) = None \<and>
        gob_task (upd_Task r) \<and>
        fmlookup (im_tasks s) (task_ID (upd_Task r)) = Some st \<and> s_user st = u \<and>
        (upd_PrevVersion r = TaskVersionMissing \<or> s_version st = upd_PrevVersion r) \<and>
        v = int64_succ (s_version st) \<and>
        s' = s\<lparr>im_tasks := fmupd (task_ID (upd_Task r))
                 \<lparr>s_task = upd_Task r, s_version = v, s_user = u,
                  s_lastUpdated = TimeProvider cfg (im_ticks s)\<rparr> (im_tasks s),
               im_ticks := Suc (im_ticks s)\<rparr>"
    by (rule im_UpdateE) (simp add: put_def)
qed (auto simp: im_Update_def put_def DeepCopy_task_def Let_def TaskVersionMissing_def)

text \<open>
  Ownership: a task of another user can neither be read nor updated, both answer with "task not
  found" just as if it did not exist, and it is in no listing.
\<close>

lemma foreign_task_invisible:
  assumes "fmlookup (im_tasks s) tid = Some st" "Authenticator cfg ctx = Inr u" "s_user st \<noteq> u"
  shows "im_Get cfg ctx tid s = Inl (Sentinel ErrTaskNotFound) \<and>
    (task_ID (upd_Task r) = tid \<and> validateTask (upd_Task r) = None \<and> gob_task (upd_Task r) \<longrightarrow>
       im_Update cfg ctx r s = (s, Inl (Sentinel ErrTaskNotFound))) \<and>
    st \<notin> set (filterTasks order (im_tasks s) u req)"
  using assms
  by (auto simp: im_Get_def im_Update_def DeepCopy_task_def filterTasks_def task_matches_def)


text \<open>
  A listing contains exactly the tasks of the caller that match the request, each once, in
  strictly descending order of update time and id, and shows of each at most the requested number of
  latest messages.
\<close>

lemma listing_spec:
  assumes "im_inv s"
  shows "set (listing s u req) = {st. task_matches u req st \<and> st \<in> fmran' (im_tasks s)} \<and>
    distinct (listing s u req) \<and> sorted_wrt (\<lambda>a b. list_key b < list_key a) (listing s u req)"
proof -
  have "set (listing s u req) = {st. task_matches u req st \<and> st \<in> fmran' (im_tasks s)}"
    by (auto simp: listing_def filterTasks_set fmran'I fmdom'I elim!: fmran'E
        simp flip: fmdom'_alt_def)
  moreover have "sorted_wrt (\<noteq>) (listing s u req)"
    by (rule sorted_wrt_mono_rel[OF _ listing_sorted[OF assms]]) auto
  ultimately show ?thesis using listing_sorted[OF assms] by (simp add: sorted_wrt_neq_distinct)
qed

section \<open>Witnesses\<close>

text \<open>A store with two tasks of one user, made by two calls of \<open>Create\<close>.\<close>

definition ex_task :: "task_id \<Rightarrow> task" where
  "ex_task tid = \<lparr>task_ID = tid, task_Artifacts = [], task_ContextID = ''c'', task_History = [],
     task_Metadata = None,
     task_Status = \<lparr>ts_Message = None, ts_State = TaskStateWorking, ts_Timestamp = None\<rparr>\<rparr>"

definition ex_cfg :: in_memory_config where
  "ex_cfg = \<lparr>Authenticator = (\<lambda>ctx. case ctx_call ctx of None \<Rightarrow> Inr ''u'' | Some c \<Rightarrow> Inr (user_Name (cc_User c))),
     TimeProvider = int\<rparr>"

definition ex_store :: in_memory where
  "ex_store = fst (im_Create ex_cfg background (ex_task ''b'')
     (fst (im_Create ex_cfg background (ex_task ''a'') (snd (NewInMemory int None)))))"

definition ex_req :: list_request where
  "ex_req = \<lparr>list_Tenant = '''', list_ContextID = '''', list_Status = '''', list_PageSize = 1,
     list_PageToken = '''', list_HistoryLength = None, list_StatusTimestampAfter = None,
     list_IncludeArtifacts = True\<rparr>"

definition ex_stored :: "task_id \<Rightarrow> gotime \<Rightarrow> storedTask" where
  "ex_stored tid t = \<lparr>s_task = ex_task tid, s_version = 1, s_user = ''u'', s_lastUpdated = t\<rparr>"

lemma ex_task_ok [simp]: "validateTask (ex_task tid) = None" "gob_task (ex_task tid)"
  "task_ID (ex_task tid) = tid"
  by (simp_all add: ex_task_def validateTask_def validateMessage_def validateMeta_def gob_task_def)

lemma ex_auth [simp]: "Authenticator ex_cfg background = Inr ''u''"
  by (simp add: ex_cfg_def background_def)

lemma ex_store_eq:
  "ex_store = \<lparr>im_tasks = fmupd ''b'' (ex_stored ''b'' 1) (fmupd ''a'' (ex_stored ''a'' 0) fmempty),
     im_ticks = 2\<rparr>"
  by (simp add: ex_store_def im_Create_def DeepCopy_task_def NewInMemory_def put_def ex_stored_def)
     (simp add: ex_cfg_def)

lemma ex_store_inv: "im_inv ex_store"
  by (auto simp: ex_store_eq im_inv_def stored_ok_def storable_def ex_stored_def fmpred_iff split: if_splits)

definition ex_update :: update_request where
  "ex_update = \<lparr>upd_Task = ex_task ''a'', upd_Event = ETask 0 (ex_task ''a''),
     upd_PrevTask = ex_task ''a'', upd_PrevVersion = 1\<rparr>"

lemma in_memory_no_lost_update_witness:
  "(\<exists>e. snd (im_Update ex_cfg background ex_update
          (fst (im_Update ex_cfg background ex_update ex_store))) = Inl e) \<and>
   snd (im_Update ex_cfg background ex_update ex_store) = Inr 2"
proof -
  have u1: "im_Update ex_cfg background ex_update ex_store =
      (fst (im_Update ex_cfg background ex_update ex_store), Inr 2)"
    by (simp add: im_Update_def ex_update_def ex_store_eq ex_stored_def DeepCopy_task_def Let_def
        TaskVersionMissing_def int64_succ_def int64_max_def)
  obtain s2 res where u2: "im_Update ex_cfg background ex_update
      (fst (im_Update ex_cfg background ex_update ex_store)) = (s2, res)" by fastforce
  from in_memory_no_lost_update[OF ex_store_inv refl _ refl u1 u2] u1 u2 show ?thesis
    by (metis ex_update_def snd_conv TaskVersionMissing_def update_request.select_convs(4) zero_neq_one)
qed

lemma foreign_task_invisible_witness:
  "im_Get ex_cfg (background\<lparr>ctx_call := Some \<lparr>cc_method = '''', cc_svcParams = fmempty, cc_activatedExtensions = [],
      cc_User = NewAuthenticatedUser ''other'' None, cc_ProtocolVersion = [], cc_tenant = ''''\<rparr>\<rparr>) ''a'' ex_store =
     Inl (Sentinel ErrTaskNotFound)"
  using foreign_task_invisible[of ex_store "''a''" "ex_stored ''a'' 0" ex_cfg
      "background\<lparr>ctx_call := Some \<lparr>cc_method = '''', cc_svcParams = fmempty, cc_activatedExtensions = [],
        cc_User = NewAuthenticatedUser ''other'' None, cc_ProtocolVersion = [], cc_tenant = ''''\<rparr>\<rparr>" "''other''" ex_update "[]" ex_req]
  by (simp add: ex_store_eq ex_stored_def ex_cfg_def NewAuthenticatedUser_def)

lemma ex_listing: "set (listing ex_store ''u'' ex_req) \<subseteq> {ex_stored ''a'' 0, ex_stored ''b'' 1}"
  using listing_spec[OF ex_store_inv, of "''u''" ex_req]
  by (auto simp: ex_store_eq fmlookup_ran'_iff split: if_splits)


lemma listing_spec_witness:
  "distinct (listing ex_store ''u'' ex_req) \<and> ex_stored ''a'' 0 \<in> set (listing ex_store ''u'' ex_req)"
  using listing_spec[OF ex_store_inv, of "''u''" ex_req]
  by (simp add: ex_store_eq task_matches_def ex_stored_def ex_req_def TaskStateUnspecified_def
      fmlookup_ran'_iff)

end
