(* ===== verification/UpdateManager.thy ===== *)
theory UpdateManager
  imports InMemoryStore
begin

text \<open>
  \<open>internal/taskupdate/manager.go\<close>: the manager that integrates the events of one execution
  into the task and the store. It is generic in the store and in the materializer. The store is
  shared with other writers: what they do between the store calls of one operation is the argument
  \<open>env\<close> of \<open>updateStatus\<close>, the only operation with more than one store call; what they do
  between operations is the state an operation starts from.
\<close>

section \<open>State\<close>

definition maxCancelationAttempts :: nat where
  "maxCancelationAttempts = 10"

record manager =
  mgr_taskInfo :: task_info
  mgr_initTask :: "(addr \<times> stored_task) option"
  mgr_tracked :: "task option"
  mgr_state :: task_state
  mgr_version :: task_version

definition track :: "task \<Rightarrow> task_version \<Rightarrow> task_state \<Rightarrow> manager \<Rightarrow> manager" where
  "track t v state mgr = mgr\<lparr>mgr_tracked := Some t, mgr_version := v, mgr_state := state\<rparr>"

text \<open>The initial task comes with the address of its task, which \<open>Process\<close> compares.\<close>

definition NewManager ::
  "task_info \<Rightarrow> (addr \<times> stored_task) option \<Rightarrow> materializer option \<Rightarrow> go_error + manager" where
  "NewManager info task m =
     (let mgr = \<lparr>mgr_taskInfo = info, mgr_initTask = task, mgr_tracked = None,
                 mgr_state = TaskStateUnspecified, mgr_version = TaskVersionMissing\<rparr>
      in case m of
           None \<Rightarrow> Inl (Errorf ''materializer must be set'' [])
         | Some _ \<Rightarrow>
             (case task of
                None \<Rightarrow> Inr mgr
              | Some (a, st) \<Rightarrow>
                  (case DeepCopy_task (st_Task st) of
                     Inl err \<Rightarrow> Inl err
                   | Inr taskCopy \<Rightarrow>
                       Inr (track taskCopy (st_Version st) (ts_State (task_Status taskCopy)) mgr))))"

definition InMemorySnapshot :: "materializer \<Rightarrow> manager \<Rightarrow> stored_task option" where
  "InMemorySnapshot m mgr =
     (case mgr_tracked mgr of
        Some t \<Rightarrow> if mat_full m then Some \<lparr>st_Task = t, st_Version = mgr_version mgr, st_User = ''''\<rparr> else None
      | None \<Rightarrow> None)"

section \<open>Operations\<close>

definition mgr_validate :: "manager \<Rightarrow> task_info \<Rightarrow> go_error option" where
  "mgr_validate mgr info =
     (if ti_TaskID (mgr_taskInfo mgr) \<noteq> ti_TaskID info
      then Some (Errorf ''task IDs don't match: %s != %s'' [])
      else if ti_ContextID (mgr_taskInfo mgr) \<noteq> ti_ContextID info
      then Some (Errorf ''context IDs don't match: %s != %s'' [])
      else None)"

definition mgr_create ::
  "'s store_ops \<Rightarrow> go_ctx \<Rightarrow> task \<Rightarrow> manager \<Rightarrow> 's \<Rightarrow> manager \<times> 's \<times> (go_error + task_version)" where
  "mgr_create ops ctx task mgr s =
     (case DeepCopy_task task of
        Inl err \<Rightarrow> (mgr, s, Inl (Errorf ''failed to copy task: %w'' [err]))
      | Inr created \<Rightarrow>
          (case Create ops ctx created s of
             (s', Inl err) \<Rightarrow> (mgr, s', Inl (Errorf ''failed to create task: %w'' [err]))
           | (s', Inr version) \<Rightarrow>
               (track created version (ts_State (task_Status created)) mgr, s', Inr version)))"

fun event_state :: "event \<Rightarrow> task_state \<Rightarrow> task_state" where
  "event_state (ETask a v) state = ts_State (task_Status v)"
| "event_state (EStatus v) state = ts_State (se_Status v)"
| "event_state _ state = state"

definition mgr_apply ::
  "'s store_ops \<Rightarrow> materializer \<Rightarrow> go_ctx \<Rightarrow> event \<Rightarrow> manager \<Rightarrow> 's \<Rightarrow>
     manager \<times> 's \<times> (go_error + task_version)" where
  "mgr_apply ops mat ctx event mgr s =
     (case mgr_tracked mgr of
        None \<Rightarrow> (mgr, s, Inl (Errorf ''first event must be a Task or a message: %w''
                               [Sentinel ErrInvalidAgentResponse]))
      | Some prevTask \<Rightarrow>
          (case mat_fn mat prevTask event of
             Inl err \<Rightarrow> (mgr, s, Inl (Errorf ''apply event: %w'' [err]))
           | Inr None \<Rightarrow> (mgr, s, Inl (Errorf ''bug: task materializer returned nil task for %T'' []))
           | Inr (Some task) \<Rightarrow>
               (case Update ops ctx \<lparr>upd_Task = task, upd_Event = event, upd_PrevTask = prevTask,
                        upd_PrevVersion = mgr_version mgr\<rparr> s of
                  (s', Inl err) \<Rightarrow> (mgr, s', Inl (Errorf ''failed to save task state: %w'' [err]))
                | (s', Inr version) \<Rightarrow>
                    (track task version (event_state event (mgr_state mgr)) mgr, s', Inr version))))"

text \<open>
  The loop of \<open>updateStatus\<close>: \<open>n\<close> attempts are left, and \<open>env n\<close> is what other writers do
  between the failed update and the reading of the task, and then before the next attempt.
\<close>

fun updateStatus_loop ::
  "'s store_ops \<Rightarrow> materializer \<Rightarrow> (nat \<Rightarrow> ('s \<Rightarrow> 's) \<times> ('s \<Rightarrow> 's)) \<Rightarrow> go_ctx \<Rightarrow> status_event \<Rightarrow> nat \<Rightarrow>
     manager \<Rightarrow> 's \<Rightarrow> manager \<times> 's \<times> (go_error + task_version)" where
  "updateStatus_loop ops mat env ctx event 0 mgr s =
     (mgr, s, Inl (Errorf ''max task cancelation attempts reached: %w''
                     [Sentinel ErrConcurrentModification]))"
| "updateStatus_loop ops mat env ctx event (Suc n) mgr s =
     (case mgr_apply ops mat ctx (EStatus event) mgr s of
        (mgr1, s1, Inr version) \<Rightarrow> (mgr1, s1, Inr version)
      | (mgr1, s1, Inl err) \<Rightarrow>
          if \<not> errors_Is err ErrConcurrentModification \<or> ts_State (se_Status event) \<noteq> TaskStateCanceled
          then (mgr1, s1, Inl err)
          else
            (let s2 = fst (env n) s1
             in case Get ops ctx (se_TaskID event) s2 of
                  Inl getErr \<Rightarrow> (mgr1, s2, Inl (Errorf ''failed to get task: %w'' [getErr]))
                | Inr storedTask \<Rightarrow>
                    (let st = ts_State (task_Status (st_Task storedTask))
                     in if Terminal st \<and> st \<noteq> TaskStateCanceled
                        then (mgr1, s2, Inl (Errorf ''task moved to %q before it could be cancelled: %w''
                                               [Sentinel ErrConcurrentModification]))
                        else
                          (let mgr2 = track (st_Task storedTask) (st_Version storedTask) st mgr1
                           in if st = TaskStateCanceled then (mgr2, s2, Inr (mgr_version mgr2))
                              else updateStatus_loop ops mat env ctx event n mgr2 (snd (env n) s2)))))"

definition updateStatus ::
  "'s store_ops \<Rightarrow> materializer \<Rightarrow> (nat \<Rightarrow> ('s \<Rightarrow> 's) \<times> ('s \<Rightarrow> 's)) \<Rightarrow> go_ctx \<Rightarrow> status_event \<Rightarrow>
     manager \<Rightarrow> 's \<Rightarrow> manager \<times> 's \<times> (go_error + task_version)" where
  "updateStatus ops mat env ctx event mgr s =
     updateStatus_loop ops mat env ctx event maxCancelationAttempts mgr s"

definition SetTaskFailed ::
  "'s store_ops \<Rightarrow> materializer \<Rightarrow> gotime \<Rightarrow> go_ctx \<Rightarrow> manager \<Rightarrow> 's \<Rightarrow> manager \<times> 's \<times> go_error option" where
  "SetTaskFailed ops mat now ctx mgr s =
     (if mgr_tracked mgr = None
      then (mgr, s, Some (Errorf ''execution failed before a task was created'' []))
      else if Terminal (mgr_state mgr)
      then (mgr, s, Some (Errorf ''%q task can not be moved to failed state'' []))
      else
        (case mgr_apply ops mat ctx
                (EStatus (NewStatusUpdateEvent now (mgr_taskInfo mgr) TaskStateFailed None)) mgr s of
           (mgr', s', Inl err) \<Rightarrow> (mgr', s', Some err)
         | (mgr', s', Inr v) \<Rightarrow> (mgr', s', None)))"

definition terminal_update_error :: go_error where
  "terminal_update_error =
     Errorf ''%q task state updates are not allowed: %w'' [Sentinel ErrInvalidAgentResponse]"

definition Process ::
  "'s store_ops \<Rightarrow> materializer \<Rightarrow> (nat \<Rightarrow> ('s \<Rightarrow> 's) \<times> ('s \<Rightarrow> 's)) \<Rightarrow> go_ctx \<Rightarrow> event \<Rightarrow>
     manager \<Rightarrow> 's \<Rightarrow> manager \<times> 's \<times> (go_error + task_version)" where
  "Process ops mat env ctx event mgr s =
     (case event of
        EMessage m \<Rightarrow>
          if mgr_tracked mgr \<noteq> None
          then (mgr, s, Inl (Errorf ''message not allowed after task was stored: %w''
                               [Sentinel ErrInvalidAgentResponse]))
          else (mgr, s, Inr TaskVersionMissing)
      | ETask a v \<Rightarrow>
          if Terminal (mgr_state mgr)
          then (if (case mgr_initTask mgr of Some (b, st) \<Rightarrow> a = b | None \<Rightarrow> False)
                then (mgr, s, Inr (mgr_version mgr))
                else (mgr, s, Inl terminal_update_error))
          else (case mgr_validate mgr (Task_TaskInfo v) of
                  Some err \<Rightarrow> (mgr, s, Inl err)
                | None \<Rightarrow> (if mgr_tracked mgr = None then mgr_create ops ctx v mgr s
                          else mgr_apply ops mat ctx event mgr s))
      | EArtifact v \<Rightarrow>
          if Terminal (mgr_state mgr) then (mgr, s, Inl terminal_update_error)
          else (case mgr_validate mgr (event_TaskInfo event) of
                  Some err \<Rightarrow> (mgr, s, Inl err)
                | None \<Rightarrow>
                    if art_Parts (ae_Artifact v) = []
                    then (mgr, s, Inl (Errorf ''artifact cannot be empty: %w''
                                         [Sentinel ErrInvalidAgentResponse]))
                    else mgr_apply ops mat ctx event mgr s)
      | EStatus v \<Rightarrow>
          if Terminal (mgr_state mgr) then (mgr, s, Inl terminal_update_error)
          else (case mgr_validate mgr (event_TaskInfo event) of
                  Some err \<Rightarrow> (mgr, s, Inl err)
                | None \<Rightarrow> updateStatus ops mat env ctx v mgr s))"

text \<open>No interference between the store calls of one operation.\<close>

definition quiet :: "nat \<Rightarrow> ('s \<Rightarrow> 's) \<times> ('s \<Rightarrow> 's)" where
  "quiet n = (id, id)"
lemma quiet_simps [simp]: "fst (quiet n) = id" "snd (quiet n) = id"
  by (simp_all add: quiet_def)

section \<open>One update\<close>

lemma mgr_applyE:
  assumes "mgr_apply ops mat ctx ev mgr s = (mgr', s', Inr v)"
  obtains prev t where "mgr_tracked mgr = Some prev" "mat_fn mat prev ev = Inr (Some t)"
    "Update ops ctx \<lparr>upd_Task = t, upd_Event = ev, upd_PrevTask = prev,
       upd_PrevVersion = mgr_version mgr\<rparr> s = (s', Inr v)"
    "mgr' = track t v (event_state ev (mgr_state mgr)) mgr"
  using assms by (auto simp: mgr_apply_def split: option.splits sum.splits prod.splits)

lemma mgr_apply_err: "mgr_apply ops mat ctx ev mgr s = (mgr', s', Inl e) \<Longrightarrow> mgr' = mgr"
  by (auto simp: mgr_apply_def split: option.splits sum.splits prod.splits)

lemma mgr_createE:
  assumes "mgr_create ops ctx t mgr s = (mgr', s', Inr v)"
  obtains "gob_task t" "Create ops ctx t s = (s', Inr v)"
    "mgr' = track t v (ts_State (task_Status t)) mgr"
  using assms by (auto simp: mgr_create_def DeepCopy_task_def split: sum.splits prod.splits if_splits)

lemma track_simps [simp]:
  "mgr_tracked (track t v st mgr) = Some t" "mgr_version (track t v st mgr) = v"
  "mgr_state (track t v st mgr) = st" "mgr_taskInfo (track t v st mgr) = mgr_taskInfo mgr"
  "mgr_initTask (track t v st mgr) = mgr_initTask mgr"
  by (simp_all add: track_def)

text \<open>What \<open>Process\<close> does with an event that it neither refuses nor ignores.\<close>

lemma Process_InrE:
  assumes "Process ops mat env ctx ev mgr s = (mgr', s', Inr v)" "\<not> Terminal (mgr_state mgr)"
    and "\<And>m. ev \<noteq> EMessage m"
  obtains
    (create) a t where "ev = ETask a t" "mgr_tracked mgr = None"
      "mgr_validate mgr (Task_TaskInfo t) = None" "mgr_create ops ctx t mgr s = (mgr', s', Inr v)"
  | (upd) "mgr_validate mgr (event_TaskInfo ev) = None" "mgr_apply ops mat ctx ev mgr s = (mgr', s', Inr v)"
  | (status) e where "ev = EStatus e" "mgr_validate mgr (event_TaskInfo ev) = None"
      "updateStatus ops mat env ctx e mgr s = (mgr', s', Inr v)"
  using assms by (auto simp: Process_def split: event.splits option.splits if_splits)

lemma mgr_validate_None:
  "mgr_validate mgr info = None \<longleftrightarrow>
     ti_TaskID info = ti_TaskID (mgr_taskInfo mgr) \<and> ti_ContextID info = ti_ContextID (mgr_taskInfo mgr)"
  by (auto simp: mgr_validate_def)

section \<open>Terminal tasks\<close>

lemma Process_terminal:
  assumes "Terminal (mgr_state mgr)" "\<And>m. ev \<noteq> EMessage m"
  shows "Process ops mat env ctx ev mgr s =
    (mgr, s, (if \<exists>a t st. ev = ETask a t \<and> mgr_initTask mgr = Some (a, st)
              then Inr (mgr_version mgr) else Inl terminal_update_error))"
  using assms by (auto simp: Process_def split: event.splits option.splits)

section \<open>The manager and the store\<close>

text \<open>The manager tracks what the store holds, under the id it manages.\<close>

definition synced :: "'s store_ops \<Rightarrow> go_ctx \<Rightarrow> manager \<Rightarrow> 's \<Rightarrow> bool" where
  "synced ops ctx mgr s =
     (case mgr_tracked mgr of
        None \<Rightarrow> True
      | Some t \<Rightarrow> task_ID t = ti_TaskID (mgr_taskInfo mgr) \<and>
          (\<exists>st. Get ops ctx (task_ID t) s = Inr st \<and> st_Task st = t \<and> st_Version st = mgr_version mgr))"

text \<open>A materializer that stays on its task, and gives the event's state to the task.\<close>

definition mat_keeps_id :: "materializer \<Rightarrow> bool" where
  "mat_keeps_id mat \<longleftrightarrow> (\<forall>t ev t'. mat_fn mat t ev = Inr (Some t') \<longrightarrow> task_ID t' = task_ID t)"

lemma full_event_materializer_id: "mat_keeps_id full_event_materializer"
  by (auto simp: mat_keeps_id_def full_event_materializer_def NewFullUpdateMaterializer_def
      ApplyUpdate_Inr dest: ApplyShallowUpdate_ids split: sum.splits)

lemma full_shallow_materializer_id: "mat_keeps_id full_shallow_materializer"
  by (auto simp: mat_keeps_id_def full_shallow_materializer_def NewFullUpdateMaterializer_def
      dest: ApplyShallowUpdate_ids split: sum.splits)

lemma NoOp_materializer_id: "mat_keeps_id NewNoOpUpdateMaterializer"
  by (auto simp: mat_keeps_id_def NewNoOpUpdateMaterializer_def)

text \<open>A store serves a task under the id it was asked for.\<close>

locale task_store_ids = task_store ops inv for ops :: "'s store_ops" and inv :: "'s \<Rightarrow> bool" +
  assumes get_id: "\<And>s ctx tid st. inv s \<Longrightarrow> Get ops ctx tid s = Inr st \<Longrightarrow> task_ID (st_Task st) = tid"
begin

lemma mgr_apply_synced:
  assumes "inv s" "mgr_apply ops mat ctx ev mgr s = (mgr', s', Inr v)" "mat_keeps_id mat"
    and "\<And>t. mgr_tracked mgr = Some t \<Longrightarrow> task_ID t = ti_TaskID (mgr_taskInfo mgr)"
  shows "inv s' \<and> synced ops ctx mgr' s' \<and> mgr_version mgr' = v \<and>
    (\<exists>st. Get ops ctx (ti_TaskID (mgr_taskInfo mgr)) s = Inr st \<and>
      (mgr_version mgr = TaskVersionMissing \<or> mgr_version mgr = st_Version st))"
  using assms(2)
proof (rule mgr_applyE)
  fix prev t
  assume p: "mgr_tracked mgr = Some prev" and m: "mat_fn mat prev ev = Inr (Some t)"
    and u: "Update ops ctx \<lparr>upd_Task = t, upd_Event = ev, upd_PrevTask = prev,
       upd_PrevVersion = mgr_version mgr\<rparr> s = (s', Inr v)"
    and mgr': "mgr' = track t v (event_state ev (mgr_state mgr)) mgr"
  from assms(3) m have "task_ID t = task_ID prev" by (auto simp: mat_keeps_id_def)
  with update_ok[OF assms(1) u] update_inv[OF assms(1) u] assms(4)[OF p] mgr' show ?thesis
    by (auto simp: synced_def)
qed

lemma mgr_create_synced:
  assumes "inv s" "mgr_create ops ctx t mgr s = (mgr', s', Inr v)"
    and "task_ID t = ti_TaskID (mgr_taskInfo mgr)"
  shows "inv s' \<and> synced ops ctx mgr' s' \<and> mgr_version mgr' = v \<and> v \<noteq> TaskVersionMissing \<and>
    Get ops ctx (task_ID t) s = Inl (Sentinel ErrTaskNotFound)"
  using assms(2)
proof (rule mgr_createE)
  assume c: "Create ops ctx t s = (s', Inr v)" and "mgr' = track t v (ts_State (task_Status t)) mgr"
  with create_ok[OF assms(1) c] assms(3) show ?thesis by (auto simp: synced_def)
qed

text \<open>
  The states the cancelation loop goes through satisfy the invariant of the store if other writers
  keep it; in each the tracked task is the managed one.
\<close>

lemma updateStatus_loop_synced:
  assumes env: "\<And>n s. inv s \<Longrightarrow> inv (fst (env n) s) \<and> inv (snd (env n) s)"
    and mat: "mat_keeps_id mat" and id: "se_TaskID e = ti_TaskID (mgr_taskInfo mgr)"
  shows "updateStatus_loop ops mat env ctx e n mgr s = (mgr', s', res) \<Longrightarrow> inv s \<Longrightarrow>
    (\<And>t. mgr_tracked mgr = Some t \<Longrightarrow> task_ID t = ti_TaskID (mgr_taskInfo mgr)) \<Longrightarrow>
    inv s' \<and> (\<forall>v. res = Inr v \<longrightarrow> synced ops ctx mgr' s' \<and> mgr_version mgr' = v)"
  using id
proof (induction n arbitrary: mgr s)
  case (Suc n)
  obtain mgr1 s1 r where a: "mgr_apply ops mat ctx (EStatus e) mgr s = (mgr1, s1, r)"
    by (metis prod_cases3)
  show ?case
  proof (cases r)
    case (Inr w)
    with mgr_apply_synced[OF Suc.prems(2) _ mat Suc.prems(3)] a Suc.prems(1) show ?thesis by auto
  next
    case (Inl err)
    with a mgr_apply_err have m: "mgr1 = mgr" by metis
    from a Inl have "s1 = s"
      by (auto simp: mgr_apply_def update_err split: option.splits sum.splits prod.splits)
    with Suc.prems(2) env have i: "inv s" "inv (fst (env n) s)" "inv (snd (env n) (fst (env n) s))"
      by simp_all
    show ?thesis
    proof (cases "\<not> errors_Is err ErrConcurrentModification \<or> ts_State (se_Status e) \<noteq> TaskStateCanceled")
      case True
      with Suc.prems(1) a Inl \<open>s1 = s\<close> i show ?thesis by auto
    next
      case retry: False
      show ?thesis
      proof (cases "Get ops ctx (se_TaskID e) (fst (env n) s)")
        case (Inl ge)
        with Suc.prems(1) a \<open>r = Inl err\<close> retry \<open>s1 = s\<close> i show ?thesis by auto
      next
        case (Inr st)
        with get_id[OF i(2)] have tid: "task_ID (st_Task st) = se_TaskID e" by blast
        let ?mgr2 = "track (st_Task st) (st_Version st) (ts_State (task_Status (st_Task st))) mgr"
        have tracked: "task_ID t = ti_TaskID (mgr_taskInfo ?mgr2)" if "mgr_tracked ?mgr2 = Some t" for t
          using that tid Suc.prems(4) by simp
        from Suc.IH[OF _ i(3) tracked] Suc.prems(1,4) a Inr \<open>r = Inl err\<close> retry \<open>s1 = s\<close> i m tid
        show ?thesis by (auto simp: Let_def synced_def split: if_splits)
      qed
    qed
  qed
qed auto

text \<open>
  After an event that was processed successfully, whatever other writers did meanwhile, the manager
  tracks the task and the version that the store holds.
\<close>

lemma Process_synced:
  assumes env: "\<And>n s. inv s \<Longrightarrow> inv (fst (env n) s) \<and> inv (snd (env n) s)"
    and mat: "mat_keeps_id mat" and s: "inv s" and nt: "\<not> Terminal (mgr_state mgr)"
    and ev: "\<And>m. ev \<noteq> EMessage m"
    and tr: "\<And>t. mgr_tracked mgr = Some t \<Longrightarrow> task_ID t = ti_TaskID (mgr_taskInfo mgr)"
    and p: "Process ops mat env ctx ev mgr s = (mgr', s', Inr v)"
  shows "inv s' \<and> synced ops ctx mgr' s' \<and> mgr_version mgr' = v"
  using p nt ev
proof (cases rule: Process_InrE)
  case (create a t)
  then show ?thesis using mgr_create_synced[OF s create(4)]
    by (auto simp: mgr_validate_None Task_TaskInfo_def)
next
  case upd
  then show ?thesis using mgr_apply_synced[OF s upd(2) mat tr] by blast
next
  case (status e)
  then have "se_TaskID e = ti_TaskID (mgr_taskInfo mgr)" by (auto simp: mgr_validate_None)
  from updateStatus_loop_synced[where env = env, OF env mat this] status(3) s tr show ?thesis
    unfolding updateStatus_def by blast
qed

end

interpretation mem_ids: task_store_ids "in_memory_ops cfg tf" im_inv
  by unfold_locales
     (auto simp: im_Get_def DeepCopy_task_def stored_ok_def dest: im_inv_lookup
       split: option.splits sum.splits if_splits)

section \<open>The state the manager remembers\<close>

text \<open>
  With a materializer that tracks the state, the remembered state is the one of the tracked task.
\<close>

definition mat_keeps_state :: "materializer \<Rightarrow> bool" where
  "mat_keeps_state mat \<longleftrightarrow> (\<forall>t ev t'. mat_fn mat t ev = Inr (Some t') \<longrightarrow>
     ts_State (task_Status t') = event_state ev (ts_State (task_Status t)))"

lemma ApplyShallowUpdate_state:
  assumes "ApplyShallowUpdate t ev = Inr t'"
  shows "ts_State (task_Status t') = event_state ev (ts_State (task_Status t))"
  using assms
  by (cases rule: ApplyShallowUpdate_InrE) (auto dest: applyShallowArtifactUpdate_frame)

lemma full_event_materializer_state: "mat_keeps_state full_event_materializer"
  by (auto simp: mat_keeps_state_def full_event_materializer_def NewFullUpdateMaterializer_def
      ApplyUpdate_Inr dest: ApplyShallowUpdate_state split: sum.splits)

lemma full_shallow_materializer_state: "mat_keeps_state full_shallow_materializer"
  by (auto simp: mat_keeps_state_def full_shallow_materializer_def NewFullUpdateMaterializer_def
      dest: ApplyShallowUpdate_state split: sum.splits)

definition mgr_ok :: "manager \<Rightarrow> bool" where
  "mgr_ok mgr = (case mgr_tracked mgr of
     None \<Rightarrow> mgr_state mgr = TaskStateUnspecified
   | Some t \<Rightarrow> mgr_state mgr = ts_State (task_Status t))"

lemma NewManager_ok: "NewManager info task m = Inr mgr \<Longrightarrow> mgr_ok mgr"
  by (auto simp: NewManager_def mgr_ok_def Let_def split: option.splits sum.splits prod.splits)

lemma mgr_ok_track [simp]: "mgr_ok (track t v st mgr) \<longleftrightarrow> st = ts_State (task_Status t)"
  by (simp add: mgr_ok_def)

lemma mgr_apply_ok:
  assumes "mat_keeps_state mat" "mgr_ok mgr" "mgr_apply ops mat ctx ev mgr s = (mgr', s', res)"
  shows "mgr_ok mgr'"
proof (cases res)
  case (Inl e)
  with assms mgr_apply_err show ?thesis by metis
next
  case (Inr v)
  from assms(3)[unfolded Inr] show ?thesis
    by (rule mgr_applyE) (use assms(1,2) in \<open>auto simp: mat_keeps_state_def mgr_ok_def\<close>)
qed

lemma updateStatus_loop_ok:
  assumes "mat_keeps_state mat"
  shows "mgr_ok mgr \<Longrightarrow> updateStatus_loop ops mat env ctx e n mgr s = (mgr', s', res) \<Longrightarrow> mgr_ok mgr'"
proof (induction n arbitrary: mgr s)
  case (Suc n)
  obtain mgr1 s1 r where a: "mgr_apply ops mat ctx (EStatus e) mgr s = (mgr1, s1, r)"
    by (metis prod_cases3)
  from mgr_apply_ok[OF assms Suc.prems(1) a] have ok: "mgr_ok mgr1" .
  with Suc.prems(2) a show ?case
    by (cases r) (auto simp: Let_def split: sum.splits if_splits intro: Suc.IH[rotated])
qed simp

lemma Process_ok:
  assumes "mat_keeps_state mat" "mgr_ok mgr" "Process ops mat env ctx ev mgr s = (mgr', s', res)"
  shows "mgr_ok mgr'"
proof -
  have create: "mgr_ok m'" if "mgr_create ops ctx t mgr s = (m', x, r)" for t m' x r
    using that assms(2)
    by (auto simp: mgr_create_def DeepCopy_task_def split: sum.splits prod.splits if_splits)
  have upd: "mgr_ok m'" if "mgr_apply ops mat ctx e mgr s = (m', x, r)" for e m' x r
    using mgr_apply_ok[OF assms(1,2) that] .
  have st: "mgr_ok m'" if "updateStatus ops mat env ctx e mgr s = (m', x, r)" for e m' x r
    using updateStatus_loop_ok[OF assms(1,2)] that by (simp add: updateStatus_def)
  show ?thesis
    using assms(2,3)
    by (auto simp: Process_def split: event.splits option.splits if_splits dest: create upd st)
qed

section \<open>Updates keep tasks storable\<close>

fun event_storable :: "event \<Rightarrow> bool" where
  "event_storable (EMessage m) = message_ok m"
| "event_storable (ETask a t) = storable t"
| "event_storable (EStatus e) =
     ((\<forall>m \<in> set_option (ts_Message (se_Status e)). message_ok m) \<and> validateMeta (se_Metadata e) = None)"
| "event_storable (EArtifact e) = artifact_ok (ae_Artifact e)"

lemma history_with_status_ok:
  "storable t \<Longrightarrow> m \<in> set (history_with_status t) \<Longrightarrow> message_ok m"
  by (auto simp: storable_iff history_with_status_def split: option.splits if_splits)

lemma applyShallowArtifactUpdate_storable:
  assumes "storable t" "artifact_ok (ae_Artifact e)" "applyShallowArtifactUpdate t e = Inr t'"
  shows "storable t'"
proof -
  let ?a = "ae_Artifact e"
  have "\<forall>b \<in> set (task_Artifacts t'). artifact_ok b"
  proof (cases "index_func (\<lambda>b. art_ID b = art_ID ?a) (task_Artifacts t)")
    case None
    with assms show ?thesis
      by (auto simp: storable_iff applyShallowArtifactUpdate_def Let_def split: if_splits)
  next
    case (Some i)
    let ?u = "task_Artifacts t ! i"
    from index_func_Some[OF Some] assms(1) have u: "artifact_ok ?u" by (simp add: storable_iff)
    have "artifact_ok (?u\<lparr>art_Parts := art_Parts ?u @ art_Parts ?a, art_Metadata := m\<rparr>)"
      if "m = (case art_Metadata ?a of None \<Rightarrow> art_Metadata ?u
          | Some n \<Rightarrow> Some (maps_copy (gm_fmap (art_Metadata ?u)) n))" for m
      using u assms(2) that by (auto simp: artifact_ok_def validateMeta_merge split: option.splits)
    with Some assms show ?thesis
      by (auto simp: storable_iff applyShallowArtifactUpdate_def Let_def split: if_splits
          dest!: subsetD[OF set_update_subset_insert])
  qed
  with assms(1) applyShallowArtifactUpdate_frame[OF assms(3)] show ?thesis
    by (simp add: storable_iff)
qed

lemma ApplyShallowUpdate_storable:
  assumes "storable t" "event_storable ev" "ApplyShallowUpdate t ev = Inr t'"
  shows "storable t'"
  using assms(3)
proof (cases rule: ApplyShallowUpdate_InrE)
  case (status e)
  with assms(1,2) show ?thesis
    by (auto simp: storable_iff applyShallowStatusUpdate_def validateMeta_merge
        intro: history_with_status_ok[OF assms(1)] split: option.splits)
next
  case (history m)
  with assms(1,2) show ?thesis
    by (auto simp: storable_iff intro: history_with_status_ok[OF assms(1)])
next
  case (artifact e)
  with assms applyShallowArtifactUpdate_storable show ?thesis by simp
qed (use assms(2) in simp)

text \<open>With the default materializer a status event of the task's own always applies.\<close>

lemma full_event_materializer_status:
  assumes "storable t" "event_storable (EStatus e)" "\<not> Terminal (ts_State (task_Status t))"
    and "Task_TaskInfo t = event_TaskInfo (EStatus e)"
  shows "\<exists>t'. mat_fn full_event_materializer t (EStatus e) = Inr (Some t') \<and> storable t' \<and>
    Task_TaskInfo t' = Task_TaskInfo t \<and> task_Status t' = se_Status e"
proof -
  let ?t' = "applyShallowStatusUpdate t e"
  have a: "ApplyShallowUpdate t (EStatus e) = Inr ?t'"
    using assms(3,4) by (simp add: ApplyShallowUpdate_def validateUpdate_def Let_def)
  from ApplyShallowUpdate_storable[OF assms(1,2) a] have s: "storable ?t'" .
  then have "ApplyUpdate t (EStatus e) = Inr ?t'"
    using a by (simp add: ApplyUpdate_Inr storable_def)
  with s show ?thesis
    by (simp add: full_event_materializer_def NewFullUpdateMaterializer_def Task_TaskInfo_def)
qed

section \<open>A cancelation gets through\<close>

text \<open>
  Stores that accept an update made from the current version, and that answer an update from another
  version with the error \<open>updateStatus\<close> looks for.
\<close>

locale task_store_live = task_store_ids ops inv for ops :: "'s store_ops" and inv :: "'s \<Rightarrow> bool" +
  fixes acceptable :: "task \<Rightarrow> bool"
  assumes update_enabled: "\<And>s ctx r st. inv s \<Longrightarrow> Get ops ctx (task_ID (upd_Task r)) s = Inr st \<Longrightarrow>
      acceptable (upd_Task r) \<Longrightarrow> upd_PrevVersion r = st_Version st \<Longrightarrow>
      \<exists>s' v. Update ops ctx r s = (s', Inr v)"
    and update_conflict: "\<And>s ctx r st s' e. inv s \<Longrightarrow> Get ops ctx (task_ID (upd_Task r)) s = Inr st \<Longrightarrow>
      acceptable (upd_Task r) \<Longrightarrow> Update ops ctx r s = (s', Inl e) \<Longrightarrow> e = Sentinel ErrConcurrentModification"
    and get_acceptable: "\<And>s ctx tid st. inv s \<Longrightarrow> Get ops ctx tid s = Inr st \<Longrightarrow> acceptable (st_Task st)"
begin

text \<open>
  The task can be canceled: it is there, it is the one the event names, and it is not finished in
  another way.
\<close>

definition cancelable_in :: "go_ctx \<Rightarrow> task_info \<Rightarrow> 's \<Rightarrow> bool" where
  "cancelable_in ctx info s \<longleftrightarrow> (inv s \<and> (\<exists>st. Get ops ctx (ti_TaskID info) s = Inr st \<and>
     Task_TaskInfo (st_Task st) = info \<and>
     (Terminal (ts_State (task_Status (st_Task st))) \<longrightarrow>
        ts_State (task_Status (st_Task st)) = TaskStateCanceled)))"

text \<open>
  With at least one attempt left whose reading and writing no other writer comes between, the loop
  returns without an error: each attempt before it either succeeds or finds a conflict.
\<close>

lemma cancel_loop_converges:
  assumes mat: "\<And>t. acceptable t \<Longrightarrow> \<not> Terminal (ts_State (task_Status t)) \<Longrightarrow> Task_TaskInfo t = info \<Longrightarrow>
      \<exists>t'. mat_fn mat t (EStatus e) = Inr (Some t') \<and> acceptable t' \<and> Task_TaskInfo t' = info"
    and e: "ts_State (se_Status e) = TaskStateCanceled" "se_TaskID e = ti_TaskID info"
    and env: "\<And>n s. cancelable_in ctx info s \<Longrightarrow>
      cancelable_in ctx info (fst (env n) s) \<and> cancelable_in ctx info (snd (env n) s)"
  shows "cancelable_in ctx info s \<Longrightarrow> mgr_tracked mgr = Some t \<Longrightarrow> acceptable t \<Longrightarrow>
    \<not> Terminal (ts_State (task_Status t)) \<Longrightarrow> Task_TaskInfo t = info \<Longrightarrow>
    (\<exists>st. Get ops ctx (ti_TaskID info) s = Inr st \<and> st_Version st = mgr_version mgr) \<and> 0 < n \<or>
      (\<exists>k. 0 < k \<and> k < n \<and> snd (env k) = id) \<Longrightarrow>
    \<exists>mgr' s' v. updateStatus_loop ops mat env ctx e n mgr s = (mgr', s', Inr v)"
proof (induction n arbitrary: mgr s t)
  case (Suc n)
  from Suc.prems(1) have inv: "inv s" by (simp add: cancelable_in_def)
  from mat[OF Suc.prems(3,4,5)] obtain t' where t': "mat_fn mat t (EStatus e) = Inr (Some t')"
    "acceptable t'" "Task_TaskInfo t' = info" by blast
  then have tid: "task_ID t' = ti_TaskID info" by (auto simp: Task_TaskInfo_def)
  let ?r = "\<lparr>upd_Task = t', upd_Event = EStatus e, upd_PrevTask = t, upd_PrevVersion = mgr_version mgr\<rparr>"
  obtain s1 r where u: "Update ops ctx ?r s = (s1, r)" by fastforce
  show ?case
  proof (cases r)
    case (Inr v)
    with u t'(1) Suc.prems(2) show ?thesis by (simp add: mgr_apply_def)
  next
    case (Inl err)
    from Suc.prems(1) obtain st0 where g0: "Get ops ctx (task_ID (upd_Task ?r)) s = Inr st0"
      by (auto simp: cancelable_in_def tid)
    from update_conflict[OF inv g0 _ u[unfolded Inl]] t'(2)
    have err: "err = Sentinel ErrConcurrentModification" by simp
    from update_err[OF u[unfolded Inl]] have s1: "s1 = s" .
    from update_enabled[OF inv g0] t'(2) u Inl g0
    have "\<not> (\<exists>st. Get ops ctx (ti_TaskID info) s = Inr st \<and> st_Version st = mgr_version mgr)"
      by (auto simp: tid)
    with Suc.prems(6) obtain k where k: "0 < k" "k < Suc n" "snd (env k) = id" by blast
    let ?s2 = "fst (env n) s"
    from env[OF Suc.prems(1)] have c2: "cancelable_in ctx info ?s2" by blast
    then obtain st where st: "Get ops ctx (ti_TaskID info) ?s2 = Inr st"
      "Task_TaskInfo (st_Task st) = info"
      "Terminal (ts_State (task_Status (st_Task st))) \<Longrightarrow>
        ts_State (task_Status (st_Task st)) = TaskStateCanceled" and inv2: "inv ?s2"
      by (auto simp: cancelable_in_def)
    have apply_err: "mgr_apply ops mat ctx (EStatus e) mgr s =
        (mgr, s, Inl (Errorf ''failed to save task state: %w'' [err]))"
      using u Inl t'(1) Suc.prems(2) s1 by (simp add: mgr_apply_def)
    show ?thesis
    proof (cases "ts_State (task_Status (st_Task st)) = TaskStateCanceled")
      case True
      with apply_err err e st show ?thesis by (simp add: Let_def)
    next
      case False
      with st(3) have nt: "\<not> Terminal (ts_State (task_Status (st_Task st)))" by blast
      let ?m = "track (st_Task st) (st_Version st) (ts_State (task_Status (st_Task st))) mgr"
      let ?s3 = "snd (env n) ?s2"
      from env[OF c2] have c3: "cancelable_in ctx info ?s3" by blast
      have "(\<exists>st. Get ops ctx (ti_TaskID info) ?s3 = Inr st \<and> st_Version st = mgr_version ?m) \<and> 0 < n \<or>
          (\<exists>k. 0 < k \<and> k < n \<and> snd (env k) = id)"
      proof (cases "k = n")
        case True
        with k st(1) show ?thesis by simp
      qed (use k in auto)
      from Suc.IH[OF c3 _ get_acceptable[OF inv2 st(1)] nt st(2) this]
      obtain mgr' s' v where "updateStatus_loop ops mat env ctx e n ?m ?s3 = (mgr', s', Inr v)"
        by (metis track_simps(1))
      with apply_err err e st nt False show ?thesis by (simp add: Let_def)
    qed
  qed
qed simp

end

lemma im_Update_conflict:
  assumes "im_inv s" "im_Get cfg ctx (task_ID (upd_Task r)) s = Inr st" "storable (upd_Task r)"
  shows "im_Update cfg ctx r s = (s', Inl e) \<Longrightarrow> e = Sentinel ErrConcurrentModification"
    and "upd_PrevVersion r = st_Version st \<Longrightarrow> \<exists>s' v. im_Update cfg ctx r s = (s', Inr v)"
  using assms
  by (auto simp: im_Update_def im_Get_def storable_def DeepCopy_task_def Let_def
      split: option.splits sum.splits if_splits)

interpretation mem_live: task_store_live "in_memory_ops cfg tf" im_inv storable
proof unfold_locales
  show "storable (st_Task st)"
    if "im_inv s" "Get (in_memory_ops cfg tf) ctx tid s = Inr st" for s ctx tid st
    using that im_inv_lookup[OF that(1)]
    by (auto simp: im_Get_def DeepCopy_task_def stored_ok_def split: option.splits sum.splits if_splits)
qed (use im_Update_conflict in \<open>auto simp del: split_paired_Ex\<close>)

section \<open>Properties\<close>


text \<open>
  C38: A terminal task is immutable: an event other than a message changes neither the manager nor the
  store, and is refused unless it is the very task the execution was started with (the same pointer).
\<close>

lemma Process_terminal_frozen:
  assumes "Terminal (mgr_state mgr)" "\<And>m. ev \<noteq> EMessage m"
  shows "Process ops mat env ctx ev mgr s =
    (mgr, s, (if \<exists>a t st. ev = ETask a t \<and> mgr_initTask mgr = Some (a, st)
              then Inr (mgr_version mgr) else Inl terminal_update_error))"
  using Process_terminal[OF assms] .


text \<open>
  The state the manager remembers is the state of the task it tracks, after every event and
  whether or not the event was accepted.
\<close>

lemma Process_keeps_state:
  assumes "mgr_ok mgr"
    and "Process ops full_event_materializer env ctx ev mgr s = (mgr', s', res)"
  shows "mgr_ok mgr'"
  using Process_ok[OF full_event_materializer_state assms] .

lemma ApplyUpdate_keeps_storable:
  assumes "storable t" "event_storable ev"
  shows "(ApplyUpdate t ev = ApplyShallowUpdate t ev) \<and>
    (\<forall>t'. ApplyUpdate t ev = Inr t' \<longrightarrow> storable t')"
proof (cases "ApplyShallowUpdate t ev")
  case (Inl err)
  then show ?thesis by (simp add: ApplyUpdate_def deepCopyResult_def)
next
  case (Inr t')
  with ApplyShallowUpdate_storable[OF assms] show ?thesis
    by (simp add: ApplyUpdate_def deepCopyResult_def storable_def)
qed


section \<open>Witnesses\<close>

definition ex_mgr :: manager where
  "ex_mgr = \<lparr>mgr_taskInfo = \<lparr>ti_TaskID = ''a'', ti_ContextID = ''c''\<rparr>,
     mgr_initTask = Some (0, \<lparr>st_Task = ex_task ''a'', st_Version = 1, st_User = ''u''\<rparr>),
     mgr_tracked = Some (ex_task ''a''), mgr_state = TaskStateWorking, mgr_version = 7\<rparr>"

text \<open>The manager's version is not the stored one, so the first attempt of a cancelation fails.\<close>

definition ex_cancel :: status_event where
  "ex_cancel = NewStatusUpdateEvent 0 \<lparr>ti_TaskID = ''a'', ti_ContextID = ''c''\<rparr> TaskStateCanceled None"

lemma ex_info [simp]: "Task_TaskInfo (ex_task tid) = \<lparr>ti_TaskID = tid, ti_ContextID = ''c''\<rparr>"
  by (simp add: ex_task_def Task_TaskInfo_def)

lemma ex_state [simp]: "ts_State (task_Status (ex_task tid)) = TaskStateWorking"
  by (simp add: ex_task_def)

lemma ex_task_storable [simp]: "storable (ex_task tid)"
  by (simp add: storable_def)

lemma ex_get: "im_Get ex_cfg background ''a'' ex_store =
    Inr \<lparr>st_Task = ex_task ''a'', st_Version = 1, st_User = ''u''\<rparr>"
  by (simp add: im_Get_def ex_store_eq ex_stored_def DeepCopy_task_def)

lemma ex_cancelable:
  "mem_live.cancelable_in ex_cfg tf background (mgr_taskInfo ex_mgr) ex_store"
  by (simp add: mem_live.cancelable_in_def ex_store_inv ex_mgr_def ex_get)


lemma Process_terminal_frozen_witness:
  "Process (in_memory_ops ex_cfg unary_format) full_event_materializer quiet background (EStatus ex_cancel)
     (ex_mgr\<lparr>mgr_state := TaskStateCompleted\<rparr>) ex_store =
   (ex_mgr\<lparr>mgr_state := TaskStateCompleted\<rparr>, ex_store, Inl terminal_update_error)"
  by (subst Process_terminal_frozen) simp_all


lemma Process_keeps_state_witness:
  "mgr_ok (fst (Process (in_memory_ops ex_cfg unary_format) full_event_materializer quiet background
     (EStatus ex_cancel) ex_mgr ex_store))"
proof -
  have "mgr_ok ex_mgr" by (simp add: mgr_ok_def ex_mgr_def)
  moreover obtain m s r where p: "Process (in_memory_ops ex_cfg unary_format) full_event_materializer quiet
      background (EStatus ex_cancel) ex_mgr ex_store = (m, s, r)" by (metis prod_cases3)
  ultimately have "mgr_ok m" by (rule Process_keeps_state)
  with p show ?thesis by simp
qed


end
