(* ===== verification/Limiter.thy ===== *)
theory Limiter
  imports GoErrors "HOL-Library.Multiset"
begin

text \<open>
  \<open>internal/taskexec/limiter.go\<close> and \<open>a2asrv/limiter/limiter.go\<close>: the quota of concurrent
  executions, global and per scope. The abstract state is the multiset of the scopes (\<open>None\<close>:
  unscoped) of the executions that hold a quota; the two counters of the code represent it. The
  methods run under the manager's mutex, so each is one step. The error logs of "bug" branches are
  left out.
\<close>

section \<open>The counters\<close>

record concurrency_config =
  MaxExecutions :: int
  GetMaxExecutions :: "(string \<Rightarrow> int) option"

record limiter =
  lim_executions :: int
  lim_byScope :: "(string, int) fmap"

definition newConcurrencyLimiter :: limiter where
  "newConcurrencyLimiter = \<lparr>lim_executions = 0, lim_byScope = fmempty\<rparr>"

definition scope_count :: "limiter \<Rightarrow> string \<Rightarrow> int" where
  "scope_count l k = (case fmlookup (lim_byScope l) k of None \<Rightarrow> 0 | Some n \<Rightarrow> n)"

definition acquireQuotaLocked :: "concurrency_config \<Rightarrow> go_ctx \<Rightarrow> limiter \<Rightarrow> limiter \<times> go_error option" where
  "acquireQuotaLocked cfg ctx l =
     (if MaxExecutions cfg > 0 \<and> lim_executions l \<ge> MaxExecutions cfg
      then (l, Some (Errorf ''max concurrency limit reached'' []))
      else (case GetMaxExecutions cfg of
        None \<Rightarrow> (l\<lparr>lim_executions := lim_executions l + 1\<rparr>, None)
      | Some getMax \<Rightarrow>
          (case ScopeFrom ctx of
             None \<Rightarrow> (l\<lparr>lim_executions := lim_executions l + 1\<rparr>, None)
           | Some scopeKey \<Rightarrow>
               (let scopeActive = scope_count l scopeKey; limit = getMax scopeKey
                in if limit > 0 \<and> scopeActive \<ge> limit
                   then (l, Some (Errorf ''max scope concurrency limit reached for %q'' []))
                   else (l\<lparr>lim_byScope := fmupd scopeKey (scopeActive + 1) (lim_byScope l),
                            lim_executions := lim_executions l + 1\<rparr>, None)))))"

definition releaseQuotaLocked :: "concurrency_config \<Rightarrow> go_ctx \<Rightarrow> limiter \<Rightarrow> limiter" where
  "releaseQuotaLocked cfg ctx l0 =
     (let l = (if lim_executions l0 > 0 then l0\<lparr>lim_executions := lim_executions l0 - 1\<rparr> else l0)
      in case GetMaxExecutions cfg of
           None \<Rightarrow> l
         | Some getMax \<Rightarrow>
             (case ScopeFrom ctx of
                None \<Rightarrow> l
              | Some scopeKey \<Rightarrow>
                  (let scopedActive = scope_count l scopeKey
                   in if scopedActive = 1 then l\<lparr>lim_byScope := fmdrop scopeKey (lim_byScope l)\<rparr>
                      else if scopedActive > 0
                      then l\<lparr>lim_byScope := fmupd scopeKey (scopedActive - 1) (lim_byScope l)\<rparr>
                      else l)))"

section \<open>The abstract quota\<close>

text \<open>The scope a context counts under: scopes are tracked only when a scope limit is configured.\<close>

definition quota_scope :: "concurrency_config \<Rightarrow> go_ctx \<Rightarrow> string option" where
  "quota_scope cfg ctx = (if GetMaxExecutions cfg = None then None else ScopeFrom ctx)"

definition represents :: "limiter \<Rightarrow> string option multiset \<Rightarrow> bool" where
  "represents l held \<longleftrightarrow> lim_executions l = int (size held) \<and>
     (\<forall>k. scope_count l k = int (count held (Some k))) \<and> 0 |\<notin>| fmran (lim_byScope l)"

definition quota_free :: "concurrency_config \<Rightarrow> string option \<Rightarrow> string option multiset \<Rightarrow> bool" where
  "quota_free cfg sc held \<longleftrightarrow>
     (MaxExecutions cfg > 0 \<longrightarrow> int (size held) < MaxExecutions cfg) \<and>
     (case (GetMaxExecutions cfg, sc) of
        (Some getMax, Some k) \<Rightarrow> getMax k > 0 \<longrightarrow> int (count held (Some k)) < getMax k
      | _ \<Rightarrow> True)"

lemma scope_count_upd [simp]:
  "scope_count (l\<lparr>lim_byScope := fmupd k n (lim_byScope l), lim_executions := e\<rparr>) k' =
     (if k = k' then n else scope_count l k')"
  "scope_count (l\<lparr>lim_byScope := fmupd k n (lim_byScope l)\<rparr>) k' =
     (if k = k' then n else scope_count l k')"
  "scope_count (l\<lparr>lim_byScope := fmdrop k (lim_byScope l)\<rparr>) k' =
     (if k = k' then 0 else scope_count l k')"
  "scope_count (l\<lparr>lim_executions := e, lim_byScope := fmdrop k (lim_byScope l)\<rparr>) k' =
     (if k = k' then 0 else scope_count l k')"
  "scope_count (l\<lparr>lim_executions := e, lim_byScope := fmupd k n (lim_byScope l)\<rparr>) k' =
     (if k = k' then n else scope_count l k')"
  "scope_count (l\<lparr>lim_executions := e\<rparr>) k' = scope_count l k'"
  by (simp_all add: scope_count_def)

lemma fmran_upd_zero:
  "0 |\<notin>| fmran m \<Longrightarrow> (n :: int) \<noteq> 0 \<Longrightarrow> 0 |\<notin>| fmran (fmupd k n m)"
  "0 |\<notin>| fmran m \<Longrightarrow> (0 :: int) |\<notin>| fmran (fmdrop k m)"
  by (auto simp: fmlookup_ran_iff split: if_splits)

lemma int_Suc_neq_0 [simp]: "int n + 1 \<noteq> 0" "1 + int n \<noteq> 0"
  by linarith+

lemma new_represents: "represents newConcurrencyLimiter {#}"
  by (simp add: represents_def newConcurrencyLimiter_def scope_count_def)

lemma scope_count_nonneg: "represents l held \<Longrightarrow> 0 \<le> scope_count l k"
  by (simp add: represents_def)

text \<open>Acquiring succeeds exactly when the quota is free and then adds the scope.\<close>

lemma acquire_refines:
  assumes "represents l held"
  shows "(snd (acquireQuotaLocked cfg ctx l) = None \<longleftrightarrow> quota_free cfg (quota_scope cfg ctx) held) \<and>
    represents (fst (acquireQuotaLocked cfg ctx l))
      (if quota_free cfg (quota_scope cfg ctx) held then add_mset (quota_scope cfg ctx) held else held)"
proof -
  from assms have e: "lim_executions l = int (size held)"
    and c: "\<And>k. scope_count l k = int (count held (Some k))" and z: "0 |\<notin>| fmran (lim_byScope l)"
    by (auto simp: represents_def)
  show ?thesis
  proof (cases "GetMaxExecutions cfg")
    case None
    with e c z show ?thesis
      by (auto simp: acquireQuotaLocked_def quota_free_def quota_scope_def represents_def)
  next
    case (Some getMax)
    show ?thesis
    proof (cases "ScopeFrom ctx")
      case None
      with Some e c z show ?thesis
        by (auto simp: acquireQuotaLocked_def quota_free_def quota_scope_def represents_def)
    next
      case (Some k)
      with \<open>GetMaxExecutions cfg = Some getMax\<close> e c z show ?thesis
        by (auto simp: acquireQuotaLocked_def quota_free_def quota_scope_def represents_def Let_def
            simp: fmran_upd_zero)
    qed
  qed
qed

text \<open>Releasing what is held removes it.\<close>

lemma release_refines:
  assumes "represents l held" "quota_scope cfg ctx \<in># held"
  shows "represents (releaseQuotaLocked cfg ctx l) (held - {#quota_scope cfg ctx#})"
proof -
  from assms(1) have e: "lim_executions l = int (size held)"
    and c: "\<And>k. scope_count l k = int (count held (Some k))" and z: "0 |\<notin>| fmran (lim_byScope l)"
    by (auto simp: represents_def)
  from assms(2) have s: "size (held - {#quota_scope cfg ctx#}) = size held - 1" "0 < size held"
    by (auto simp: size_Diff_singleton nonempty_has_size[symmetric])
  let ?l = "l\<lparr>lim_executions := lim_executions l - 1\<rparr>"
  show ?thesis
  proof (cases "GetMaxExecutions cfg = None \<or> ScopeFrom ctx = None")
    case True
    then have q: "quota_scope cfg ctx = None" by (auto simp: quota_scope_def)
    from True e s have "releaseQuotaLocked cfg ctx l = ?l"
      by (auto simp: releaseQuotaLocked_def Let_def split: option.splits)
    with e c z s q show ?thesis by (auto simp: represents_def)
  next
    case False
    then obtain getMax k where g: "GetMaxExecutions cfg = Some getMax" and k: "ScopeFrom ctx = Some k"
      by auto
    then have q: "quota_scope cfg ctx = Some k" by (simp add: quota_scope_def)
    with assms(2) have pos: "0 < count held (Some k)" by simp
    let ?n = "count held (Some k)"
    have sub: "int (count (held - {#Some k#}) (Some j)) = (if j = k then int ?n - 1 else scope_count l j)" for j
      using pos c[of j] by auto
    have ex: "lim_executions ?l = int (size (held - {#Some k#}))" using e s q by simp
    have sc: "scope_count ?l k = int ?n" using c by simp
    show ?thesis
    proof (cases "?n = 1")
      case True
      then have "releaseQuotaLocked cfg ctx l = ?l\<lparr>lim_byScope := fmdrop k (lim_byScope l)\<rparr>"
        using g k e s sc by (simp add: releaseQuotaLocked_def)
      then show ?thesis using True ex fmran_upd_zero(2)[OF z, of k] sub
        by (simp add: represents_def q)
    next
      case False
      with pos have "releaseQuotaLocked cfg ctx l = ?l\<lparr>lim_byScope := fmupd k (int ?n - 1) (lim_byScope l)\<rparr>"
        using g k e s sc by (simp add: releaseQuotaLocked_def Let_def)
      then show ?thesis using False pos ex z sub by (simp add: represents_def q fmran_upd_zero)
    qed
  qed
qed

end
