(* ===== verification/LocalManager.thy ===== *)
theory LocalManager
  imports Core Limiter
begin

text \<open>
  \<open>internal/taskexec/local_manager.go\<close> and \<open>promise.go\<close>: which executions and cancelations
  of a process run at a time. The state has the two maps of the manager, its limiter, the goroutines
  and the promises. Every critical section of the mutex and every other atomic action of a goroutine
  is one step; steps of different goroutines and of callers interleave freely. What executors,
  processors and cancelers do is in the nondeterminism of the results.
\<close>

section \<open>Promises\<close>

record promise =
  pr_value :: "send_result option"
  pr_err :: "go_error option"
  pr_done :: bool

definition newPromise :: promise where
  "newPromise = \<lparr>pr_value = None, pr_err = None, pr_done = False\<rparr>"

definition setValue :: "send_result option \<Rightarrow> promise \<Rightarrow> promise" where
  "setValue v p = p\<lparr>pr_value := v\<rparr>"

definition setError :: "go_error \<Rightarrow> promise \<Rightarrow> promise" where
  "setError err p = p\<lparr>pr_err := Some err\<rparr>"

definition signalDone :: "promise \<Rightarrow> promise" where
  "signalDone p = p\<lparr>pr_done := True\<rparr>"

text \<open>
  \<open>wait\<close> returns when the context is done or the promise is; when both are, either answer is
  possible. The answers of a call in a given state, none when it blocks.
\<close>

definition wait_results :: "go_ctx \<Rightarrow> promise \<Rightarrow> (send_result option \<times> go_error option) set" where
  "wait_results ctx p =
     (case ctx_Err ctx of Some err \<Rightarrow> {(None, Some err)} | None \<Rightarrow> {}) \<union>
     (if pr_done p then {(pr_value p, pr_err p)} else {})"

text \<open>The result of a cancelation: a canceled task or an error.\<close>

definition convertToCancelationResult ::
  "send_result option \<Rightarrow> go_error option \<Rightarrow> go_error + task" where
  "convertToCancelationResult result err =
     (case err of
        Some e \<Rightarrow> Inl (Errorf ''cancelation failed: %w'' [e])
      | None \<Rightarrow>
          (case result of
             Some (RTask task) \<Rightarrow>
               (if ts_State (task_Status task) \<noteq> TaskStateCanceled
                then Inl (Errorf ''task was in non-cancelable state: %q: %w'' [Sentinel ErrTaskNotCancelable])
                else Inr task)
           | _ \<Rightarrow> Inl (Errorf ''bug: execution result was a message: %w'' [Sentinel ErrTaskNotCancelable])))"

section \<open>State\<close>

type_synonym exec_id = nat
type_synonym cancel_id = nat

text \<open>
  A goroutine of an execution: being set up by \<open>Execute\<close> (registered, its queues not there yet),
  running \<open>handleExecution\<close>, or past it with only the last section of \<open>cleanupExecution\<close> left.
\<close>

datatype exec_phase = ESetup | ERunning | ECleanup

record exec_thread =
  et_tid :: task_id
  et_ctx :: go_ctx
  et_phase :: exec_phase
  et_exiting :: bool

text \<open>A cancelation works alone or on the pipe of the execution it found.\<close>

datatype cancel_phase = CRunning | CCleanup

record cancel_thread =
  ct_tid :: task_id
  ct_run :: "exec_id option"
  ct_phase :: cancel_phase

record local_manager =
  lm_executions :: "(task_id, exec_id) fmap"
  lm_cancelations :: "(task_id, cancel_id) fmap"
  lm_limiter :: limiter
  lm_execs :: "(exec_id, exec_thread) fmap"
  lm_cancels :: "(cancel_id, cancel_thread) fmap"
  lm_exec_result :: "exec_id \<Rightarrow> promise"
  lm_cancel_result :: "cancel_id \<Rightarrow> promise"
  lm_next :: nat

definition NewLocalManager :: local_manager where
  "NewLocalManager = \<lparr>lm_executions = fmempty, lm_cancelations = fmempty,
     lm_limiter = newConcurrencyLimiter, lm_execs = fmempty, lm_cancels = fmempty,
     lm_exec_result = (\<lambda>_. newPromise), lm_cancel_result = (\<lambda>_. newPromise), lm_next = 0\<rparr>"

section \<open>Operations\<close>

definition ErrExecutionInProgress :: go_error where
  "ErrExecutionInProgress =
     NewError (Sentinel ErrUnsupportedOperation) ''task execution is already in progress''"

definition ErrCancelationInProgress :: go_error where
  "ErrCancelationInProgress =
     NewError (Sentinel ErrUnsupportedOperation) ''task cancelation is in progress''"

text \<open>
  \<open>waitForExiting\<close> looks the execution up: go on, refuse, or wait for the execution that is about
  to end.
\<close>

datatype exiting_check = Proceed | Refuse go_error | AwaitResult exec_id

definition waitForExiting :: "task_id \<Rightarrow> local_manager \<Rightarrow> exiting_check" where
  "waitForExiting tid s =
     (case fmlookup (lm_executions s) tid of
        None \<Rightarrow> Proceed
      | Some e \<Rightarrow>
          (case fmlookup (lm_execs s) e of
             Some th \<Rightarrow> (if et_exiting th then AwaitResult e else Refuse ErrExecutionInProgress)
           | None \<Rightarrow> Refuse ErrExecutionInProgress))"

text \<open>The task id of a request: the message's, or a new one.\<close>

definition execute_tid :: "string \<Rightarrow> send_request \<Rightarrow> task_id" where
  "execute_tid uuid req =
     (case req_Message req of
        None \<Rightarrow> uuid
      | Some m \<Rightarrow> if msg_TaskID m = '''' then uuid else msg_TaskID m)"

definition createExecution ::
  "concurrency_config \<Rightarrow> go_ctx \<Rightarrow> task_id \<Rightarrow> local_manager \<Rightarrow> local_manager \<times> (go_error + exec_id)" where
  "createExecution cfg ctx tid s =
     (if fmlookup (lm_executions s) tid \<noteq> None then (s, Inl ErrExecutionInProgress)
      else if fmlookup (lm_cancelations s) tid \<noteq> None then (s, Inl ErrCancelationInProgress)
      else (case acquireQuotaLocked cfg ctx (lm_limiter s) of
              (l, Some err) \<Rightarrow> (s\<lparr>lm_limiter := l\<rparr>, Inl (Errorf ''concurrency quota exceeded: %w'' [err]))
            | (l, None) \<Rightarrow>
                (let e = lm_next s
                 in (s\<lparr>lm_limiter := l, lm_executions := fmupd tid e (lm_executions s),
                       lm_execs := fmupd e \<lparr>et_tid = tid, et_ctx = ctx, et_phase = ESetup,
                                            et_exiting = False\<rparr> (lm_execs s),
                       lm_exec_result := (lm_exec_result s)(e := newPromise),
                       lm_next := Suc e\<rparr>, Inr e))))"

text \<open>The critical section at the end of \<open>cleanupExecution\<close>, run by the goroutine \<open>e\<close>.\<close>

definition cleanupExecution ::
  "concurrency_config \<Rightarrow> exec_id \<Rightarrow> exec_thread \<Rightarrow> local_manager \<Rightarrow> local_manager" where
  "cleanupExecution cfg e th s =
     s\<lparr>lm_limiter := releaseQuotaLocked cfg (et_ctx th) (lm_limiter s),
       lm_executions := fmdrop (et_tid th) (lm_executions s),
       lm_execs := fmdrop e (lm_execs s),
       lm_exec_result := (lm_exec_result s)(e := signalDone (lm_exec_result s e))\<rparr>"

text \<open>The critical section of \<open>Cancel\<close>: join the cancelation in progress or start one.\<close>

definition startCancel :: "task_id \<Rightarrow> local_manager \<Rightarrow> local_manager \<times> cancel_id" where
  "startCancel tid s =
     (case fmlookup (lm_cancelations s) tid of
        Some c \<Rightarrow> (s, c)
      | None \<Rightarrow>
          (let c = lm_next s
           in (s\<lparr>lm_cancelations := fmupd tid c (lm_cancelations s),
                 lm_cancels := fmupd c \<lparr>ct_tid = tid, ct_run = fmlookup (lm_executions s) tid,
                                        ct_phase = CRunning\<rparr> (lm_cancels s),
                 lm_cancel_result := (lm_cancel_result s)(c := newPromise),
                 lm_next := Suc c\<rparr>, c)))"

text \<open>The deferred section at the end of a cancelation.\<close>

definition cleanupCancel :: "cancel_id \<Rightarrow> cancel_thread \<Rightarrow> local_manager \<Rightarrow> local_manager" where
  "cleanupCancel c th s =
     s\<lparr>lm_cancelations := fmdrop (ct_tid th) (lm_cancelations s),
       lm_cancels := fmdrop c (lm_cancels s),
       lm_cancel_result := (lm_cancel_result s)(c := signalDone (lm_cancel_result s c))\<rparr>"

section \<open>Steps\<close>

definition exec_phase_to :: "exec_id \<Rightarrow> exec_thread \<Rightarrow> exec_phase \<Rightarrow> local_manager \<Rightarrow> local_manager" where
  "exec_phase_to e th ph s = s\<lparr>lm_execs := fmupd e (th\<lparr>et_phase := ph\<rparr>) (lm_execs s)\<rparr>"

definition exec_finish ::
  "exec_id \<Rightarrow> exec_thread \<Rightarrow> go_error + send_result option \<Rightarrow> local_manager \<Rightarrow> local_manager" where
  "exec_finish e th r s =
     (exec_phase_to e th ECleanup s)\<lparr>lm_exec_result := (lm_exec_result s)
        (e := (case r of Inl err \<Rightarrow> setError err (lm_exec_result s e)
               | Inr v \<Rightarrow> setValue v (lm_exec_result s e)))\<rparr>"

definition cancel_finish ::
  "cancel_id \<Rightarrow> cancel_thread \<Rightarrow> go_error + send_result option \<Rightarrow> local_manager \<Rightarrow> local_manager" where
  "cancel_finish c th r s =
     s\<lparr>lm_cancels := fmupd c (th\<lparr>ct_phase := CCleanup\<rparr>) (lm_cancels s),
       lm_cancel_result := (lm_cancel_result s)
        (c := (case r of Inl err \<Rightarrow> setError err (lm_cancel_result s c)
               | Inr v \<Rightarrow> setValue v (lm_cancel_result s c)))\<rparr>"

text \<open>
  The result a cancelation takes from the execution it ran beside: its error if it has one, else its
  value.
\<close>

definition joined_result :: "promise \<Rightarrow> go_error + send_result option" where
  "joined_result p = (case pr_err p of Some err \<Rightarrow> Inl err | None \<Rightarrow> Inr (pr_value p))"

inductive lm_step :: "concurrency_config \<Rightarrow> local_manager \<Rightarrow> local_manager \<Rightarrow> bool"
  for cfg :: concurrency_config where
  step_create:
    "createExecution cfg ctx tid s = (s', r) \<Longrightarrow> lm_step cfg s s'"
| step_setup_failed:
    "fmlookup (lm_execs s) e = Some th \<Longrightarrow> et_phase th = ESetup \<Longrightarrow>
       lm_step cfg s (exec_phase_to e th ECleanup s)"
| step_started:
    "fmlookup (lm_execs s) e = Some th \<Longrightarrow> et_phase th = ESetup \<Longrightarrow>
       lm_step cfg s (exec_phase_to e th ERunning s)"
| step_event:
    "fmlookup (lm_execs s) e = Some th \<Longrightarrow> et_phase th = ERunning \<Longrightarrow>
       lm_step cfg s (s\<lparr>lm_execs := fmupd e (th\<lparr>et_exiting := b\<rparr>) (lm_execs s)\<rparr>)"
| step_finish:
    "fmlookup (lm_execs s) e = Some th \<Longrightarrow> et_phase th = ERunning \<Longrightarrow>
       lm_step cfg s (exec_finish e th r s)"
| step_cleanup:
    "fmlookup (lm_execs s) e = Some th \<Longrightarrow> et_phase th = ECleanup \<Longrightarrow>
       lm_step cfg s (cleanupExecution cfg e th s)"
| step_cancel:
    "startCancel tid s = (s', c) \<Longrightarrow> lm_step cfg s s'"
| step_cancel_failed:
    "fmlookup (lm_cancels s) c = Some th \<Longrightarrow> ct_phase th = CRunning \<Longrightarrow>
       lm_step cfg s (cancel_finish c th (Inl err) s)"
| step_cancel_alone:
    "fmlookup (lm_cancels s) c = Some th \<Longrightarrow> ct_phase th = CRunning \<Longrightarrow> ct_run th = None \<Longrightarrow>
       lm_step cfg s (cancel_finish c th r s)"
| step_cancel_join:
    "fmlookup (lm_cancels s) c = Some th \<Longrightarrow> ct_phase th = CRunning \<Longrightarrow> ct_run th = Some e \<Longrightarrow>
       pr_done (lm_exec_result s e) \<Longrightarrow>
       lm_step cfg s (cancel_finish c th (joined_result (lm_exec_result s e)) s)"
| step_cancel_cleanup:
    "fmlookup (lm_cancels s) c = Some th \<Longrightarrow> ct_phase th = CCleanup \<Longrightarrow>
       lm_step cfg s (cleanupCancel c th s)"

inductive lm_reachable :: "concurrency_config \<Rightarrow> local_manager \<Rightarrow> bool"
  for cfg :: concurrency_config where
  lm_init: "lm_reachable cfg NewLocalManager"
| lm_next_state: "lm_reachable cfg s \<Longrightarrow> lm_step cfg s s' \<Longrightarrow> lm_reachable cfg s'"

section \<open>Invariants\<close>

text \<open>The scopes of the quotas that the live executions hold.\<close>

definition held_quotas :: "concurrency_config \<Rightarrow> (exec_id, exec_thread) fmap \<Rightarrow> string option multiset" where
  "held_quotas cfg execs =
     image_mset (\<lambda>e. case fmlookup execs e of Some th \<Rightarrow> quota_scope cfg (et_ctx th) | None \<Rightarrow> None)
       (mset_set (fmdom' execs))"

lemma held_quotas_new:
  assumes "fmlookup execs e = None"
  shows "held_quotas cfg (fmupd e th execs) = add_mset (quota_scope cfg (et_ctx th)) (held_quotas cfg execs)"
proof -
  have d: "e \<notin> fmdom' execs" using assms by (simp add: fmdom'_notI)
  have "image_mset (\<lambda>x. case fmlookup (fmupd e th execs) x of Some th \<Rightarrow> quota_scope cfg (et_ctx th) | None \<Rightarrow> None)
      (mset_set (fmdom' execs)) = held_quotas cfg execs"
    unfolding held_quotas_def using d by (intro image_mset_cong) auto
  with d show ?thesis by (simp add: held_quotas_def)
qed

lemma held_quotas_same:
  assumes "fmlookup execs e = Some th" "et_ctx th' = et_ctx th"
  shows "held_quotas cfg (fmupd e th' execs) = held_quotas cfg execs"
proof -
  have d: "insert e (fmdom' execs) = fmdom' execs" using assms(1) by (auto intro: fmdom'I)
  show ?thesis
    unfolding held_quotas_def using assms by (simp add: d) (intro image_mset_cong, auto)
qed

lemma held_quotas_drop:
  assumes "fmlookup execs e = Some th"
  shows "held_quotas cfg (fmdrop e execs) = held_quotas cfg execs - {#quota_scope cfg (et_ctx th)#} \<and>
    quota_scope cfg (et_ctx th) \<in># held_quotas cfg execs"
proof -
  have "fmlookup (fmdrop e execs) e = None" by simp
  moreover have "fmupd e th (fmdrop e execs) = execs"
    using assms by (intro fmap_ext) auto
  ultimately show ?thesis using held_quotas_new[of "fmdrop e execs" e cfg th] by simp
qed

text \<open>An execution is registered under its task exactly while its goroutine lives, and a cancelation too.\<close>

definition inv_execs :: "local_manager \<Rightarrow> bool" where
  "inv_execs s \<longleftrightarrow>
     (\<forall>e th. fmlookup (lm_execs s) e = Some th \<longrightarrow>
        fmlookup (lm_executions s) (et_tid th) = Some e \<and> e < lm_next s \<and> \<not> pr_done (lm_exec_result s e)) \<and>
     (\<forall>tid e. fmlookup (lm_executions s) tid = Some e \<longrightarrow>
        (\<exists>th. fmlookup (lm_execs s) e = Some th \<and> et_tid th = tid))"

definition inv_cancels :: "local_manager \<Rightarrow> bool" where
  "inv_cancels s \<longleftrightarrow>
     (\<forall>c th. fmlookup (lm_cancels s) c = Some th \<longrightarrow>
        fmlookup (lm_cancelations s) (ct_tid th) = Some c \<and> c < lm_next s \<and>
        \<not> pr_done (lm_cancel_result s c)) \<and>
     (\<forall>tid c. fmlookup (lm_cancelations s) tid = Some c \<longrightarrow>
        (\<exists>th. fmlookup (lm_cancels s) c = Some th \<and> ct_tid th = tid))"

text \<open>While a task is being canceled, only the execution that was there when that began can run.\<close>

definition inv_exclusive :: "local_manager \<Rightarrow> bool" where
  "inv_exclusive s \<longleftrightarrow>
     (\<forall>c th e. fmlookup (lm_cancels s) c = Some th \<longrightarrow>
        fmlookup (lm_executions s) (ct_tid th) = Some e \<longrightarrow> ct_run th = Some e)"

text \<open>The limiter counts the live executions, which stay within the limits.\<close>

definition inv_quota :: "concurrency_config \<Rightarrow> local_manager \<Rightarrow> bool" where
  "inv_quota cfg s \<longleftrightarrow> (let held = held_quotas cfg (lm_execs s) in
     represents (lm_limiter s) held \<and>
     (MaxExecutions cfg > 0 \<longrightarrow> int (size held) \<le> MaxExecutions cfg) \<and>
     (\<forall>getMax k. GetMaxExecutions cfg = Some getMax \<longrightarrow> getMax k > 0 \<longrightarrow>
        int (count held (Some k)) \<le> getMax k))"

definition lm_inv :: "concurrency_config \<Rightarrow> local_manager \<Rightarrow> bool" where
  "lm_inv cfg s \<longleftrightarrow> inv_execs s \<and> inv_cancels s \<and> inv_exclusive s \<and> inv_quota cfg s"

lemmas lm_inv_defs = inv_execs_def inv_cancels_def inv_exclusive_def

lemma lm_inv_init: "lm_inv cfg NewLocalManager"
  by (auto simp: lm_inv_def lm_inv_defs inv_quota_def NewLocalManager_def held_quotas_def new_represents)

lemma inv_quota_acquire:
  assumes q: "inv_quota cfg s" and a: "acquireQuotaLocked cfg ctx (lm_limiter s) = (l, None)"
    and e: "fmlookup (lm_execs s) e = None" and th: "et_ctx th = ctx"
    and s': "lm_limiter s' = l" "lm_execs s' = fmupd e th (lm_execs s)"
  shows "inv_quota cfg s'"
proof -
  let ?h = "held_quotas cfg (lm_execs s)" and ?q = "quota_scope cfg ctx"
  from q have r: "represents (lm_limiter s) ?h" by (simp add: inv_quota_def Let_def)
  from acquire_refines[OF r, of cfg ctx] a have free: "quota_free cfg ?q ?h"
    and r': "represents l (add_mset ?q ?h)" by auto
  have h': "held_quotas cfg (lm_execs s') = add_mset ?q ?h"
    using held_quotas_new[OF e] th s' by simp
  have "int (count (add_mset ?q ?h) (Some k)) \<le> getMax k"
    if "GetMaxExecutions cfg = Some getMax" "getMax k > 0" for getMax k
    using that free q by (cases "?q = Some k") (auto simp: quota_free_def inv_quota_def Let_def)
  moreover have "int (size (add_mset ?q ?h)) \<le> MaxExecutions cfg" if "MaxExecutions cfg > 0"
    using that free by (simp add: quota_free_def)
  ultimately show ?thesis using r' s'(1) by (simp add: inv_quota_def h')
qed

lemma inv_quota_refused:
  assumes q: "inv_quota cfg s" and a: "acquireQuotaLocked cfg ctx (lm_limiter s) = (l, Some err)"
  shows "inv_quota cfg (s\<lparr>lm_limiter := l\<rparr>)"
proof -
  let ?h = "held_quotas cfg (lm_execs s)"
  from q have r: "represents (lm_limiter s) ?h" by (simp add: inv_quota_def Let_def)
  from acquire_refines[OF r, of cfg ctx] a have "represents l ?h" by (auto split: if_splits)
  with q show ?thesis by (simp add: inv_quota_def Let_def)
qed

lemma createExecution_inv:
  assumes "lm_inv cfg s" "createExecution cfg ctx tid s = (s', r)"
  shows "lm_inv cfg s'"
proof (cases r)
  case (Inl err)
  with assms inv_quota_refused[of cfg s ctx] show ?thesis
    by (auto simp: createExecution_def lm_inv_def lm_inv_defs Let_def split: if_splits option.splits prod.splits)
next
  case (Inr e)
  with assms(2) obtain l where ex: "fmlookup (lm_executions s) tid = None"
    and ca: "fmlookup (lm_cancelations s) tid = None" and e: "e = lm_next s"
    and l: "acquireQuotaLocked cfg ctx (lm_limiter s) = (l, None)"
    and s': "s' = s\<lparr>lm_limiter := l, lm_executions := fmupd tid e (lm_executions s),
        lm_execs := fmupd e \<lparr>et_tid = tid, et_ctx = ctx, et_phase = ESetup, et_exiting = False\<rparr> (lm_execs s),
        lm_exec_result := (lm_exec_result s)(e := newPromise), lm_next := Suc e\<rparr>"
    by (auto simp: createExecution_def Let_def split: if_splits option.splits prod.splits)
  from assms(1) have i: "inv_execs s" "inv_cancels s" "inv_exclusive s" "inv_quota cfg s"
    by (simp_all add: lm_inv_def)
  have fresh: "fmlookup (lm_execs s) e = None"
    using i(1) e by (metis inv_execs_def less_irrefl not_Some_eq)
  have "inv_execs s'"
    using i(1) ex fresh e unfolding inv_execs_def s' by (auto simp: newPromise_def less_SucI split: if_splits)
      (metis option.distinct(1))+
  moreover have "inv_cancels s'"
    using i(2) e unfolding inv_cancels_def s' by (auto simp: less_SucI)
  moreover have "inv_exclusive s'"
    using i(2,3) ca unfolding inv_exclusive_def inv_cancels_def s' by (auto split: if_splits)
  moreover have "inv_quota cfg s'"
    by (rule inv_quota_acquire[OF i(4) l fresh]) (simp_all add: s')
  ultimately show ?thesis by (simp add: lm_inv_def)
qed

text \<open>Steps of an execution goroutine that only change its own entry or its promise.\<close>

lemma exec_update_inv:
  assumes "lm_inv cfg s" "fmlookup (lm_execs s) e = Some th" "et_ctx th' = et_ctx th" "et_tid th' = et_tid th"
    and "\<not> pr_done p"
  shows "lm_inv cfg (s\<lparr>lm_execs := fmupd e th' (lm_execs s), lm_exec_result := (lm_exec_result s)(e := p)\<rparr>)"
proof -
  from assms(1) have i: "inv_execs s" "inv_cancels s" "inv_exclusive s" "inv_quota cfg s"
    by (simp_all add: lm_inv_def)
  have "inv_quota cfg (s\<lparr>lm_execs := fmupd e th' (lm_execs s), lm_exec_result := (lm_exec_result s)(e := p)\<rparr>)"
    using i(4) held_quotas_same[OF assms(2,3)] by (simp add: inv_quota_def Let_def)
  with i assms(2-5) show ?thesis
    unfolding lm_inv_def by (auto simp: lm_inv_defs split: if_splits) (metis option.inject)+
qed

lemma exec_phase_inv:
  assumes "lm_inv cfg s" "fmlookup (lm_execs s) e = Some th" "et_ctx th' = et_ctx th" "et_tid th' = et_tid th"
  shows "lm_inv cfg (s\<lparr>lm_execs := fmupd e th' (lm_execs s)\<rparr>)"
proof -
  from assms(1,2) have "\<not> pr_done (lm_exec_result s e)" by (simp add: lm_inv_def inv_execs_def)
  from exec_update_inv[OF assms this] show ?thesis by simp
qed

lemma cleanupExecution_inv:
  assumes "lm_inv cfg s" "fmlookup (lm_execs s) e = Some th"
  shows "lm_inv cfg (cleanupExecution cfg e th s)"
proof -
  let ?s = "cleanupExecution cfg e th s" and ?h = "held_quotas cfg (lm_execs s)"
  from assms(1) have i: "inv_execs s" "inv_cancels s" "inv_exclusive s" "inv_quota cfg s"
    by (simp_all add: lm_inv_def)
  from held_quotas_drop[OF assms(2), of cfg] have h: "held_quotas cfg (lm_execs ?s) = ?h - {#quota_scope cfg (et_ctx th)#}"
    and m: "quota_scope cfg (et_ctx th) \<in># ?h" by (simp_all add: cleanupExecution_def)
  from i(4) have r: "represents (lm_limiter s) ?h" by (simp add: inv_quota_def Let_def)
  from release_refines[OF r m] have "represents (lm_limiter ?s) (held_quotas cfg (lm_execs ?s))"
    unfolding h by (simp add: cleanupExecution_def)
  moreover have "size (?h - {#quota_scope cfg (et_ctx th)#}) \<le> size ?h"
    by (simp add: size_mset_mono)
  moreover have "count (?h - {#quota_scope cfg (et_ctx th)#}) k \<le> count ?h k" for k by simp
  ultimately have "inv_quota cfg ?s"
    using i(4) unfolding inv_quota_def Let_def h by (meson int_ops order_trans of_nat_mono)
  moreover have "inv_execs ?s" using i(1) assms(2)
    by (auto simp: inv_execs_def cleanupExecution_def split: if_splits) (metis option.inject)+
  moreover have "inv_cancels ?s" "inv_exclusive ?s" using i(2,3)
    by (auto simp: inv_cancels_def inv_exclusive_def cleanupExecution_def split: if_splits)
  ultimately show ?thesis by (simp add: lm_inv_def)
qed

lemma startCancel_inv:
  assumes "lm_inv cfg s" "startCancel tid s = (s', c)"
  shows "lm_inv cfg s'"
proof (cases "fmlookup (lm_cancelations s) tid")
  case (Some c')
  with assms show ?thesis by (simp add: startCancel_def)
next
  case None
  from assms(1) have i: "inv_execs s" "inv_cancels s" "inv_exclusive s" "inv_quota cfg s"
    by (simp_all add: lm_inv_def)
  have fresh: "fmlookup (lm_cancels s) (lm_next s) = None"
    using i(2) by (metis inv_cancels_def less_irrefl not_Some_eq)
  from None assms(2) have s': "s' = s\<lparr>lm_cancelations := fmupd tid (lm_next s) (lm_cancelations s),
      lm_cancels := fmupd (lm_next s) \<lparr>ct_tid = tid, ct_run = fmlookup (lm_executions s) tid,
        ct_phase = CRunning\<rparr> (lm_cancels s),
      lm_cancel_result := (lm_cancel_result s)(lm_next s := newPromise), lm_next := Suc (lm_next s)\<rparr>"
    by (auto simp: startCancel_def Let_def)
  have "inv_execs s'" using i(1) by (auto simp: inv_execs_def s' less_SucI)
  moreover have "inv_cancels s'"
    using i(2) None fresh unfolding inv_cancels_def s' by (auto simp: newPromise_def less_SucI split: if_splits)
      (metis option.distinct(1))+
  moreover have "inv_exclusive s'" using i(3) by (auto simp: inv_exclusive_def s')
  moreover have "inv_quota cfg s'" using i(4) by (simp add: inv_quota_def s' Let_def)
  ultimately show ?thesis by (simp add: lm_inv_def)
qed

lemma cancel_finish_inv:
  assumes "lm_inv cfg s" "fmlookup (lm_cancels s) c = Some th"
  shows "lm_inv cfg (cancel_finish c th r s)"
proof -
  have "\<not> pr_done (case r of Inl err \<Rightarrow> setError err (lm_cancel_result s c) | Inr v \<Rightarrow> setValue v (lm_cancel_result s c))"
    using assms by (auto simp: lm_inv_def inv_cancels_def setError_def setValue_def split: sum.splits)
  with assms show ?thesis
    by (auto simp: lm_inv_def lm_inv_defs inv_quota_def cancel_finish_def Let_def split: if_splits)
      (metis option.inject)+
qed

lemma cleanupCancel_inv:
  assumes "lm_inv cfg s" "fmlookup (lm_cancels s) c = Some th"
  shows "lm_inv cfg (cleanupCancel c th s)"
  using assms
  by (auto simp: lm_inv_def lm_inv_defs inv_quota_def cleanupCancel_def Let_def split: if_splits)
    (metis option.inject)+

lemma lm_step_inv:
  assumes "lm_step cfg s s'" "lm_inv cfg s"
  shows "lm_inv cfg s'"
  using assms
proof (cases rule: lm_step.cases)
  case (step_finish e th r)
  have "\<not> pr_done (case r of Inl err \<Rightarrow> setError err (lm_exec_result s e) | Inr v \<Rightarrow> setValue v (lm_exec_result s e))"
    using assms(2) step_finish(2)
    by (auto simp: lm_inv_def inv_execs_def setError_def setValue_def split: sum.splits)
  from exec_update_inv[OF assms(2) step_finish(2) _ _ this, of "th\<lparr>et_phase := ECleanup\<rparr>"]
  show ?thesis unfolding step_finish(1) exec_finish_def exec_phase_to_def by simp
qed (auto simp: exec_phase_to_def intro: createExecution_inv exec_phase_inv cleanupExecution_inv startCancel_inv
    cancel_finish_inv cleanupCancel_inv)

lemma lm_reachable_inv: "lm_reachable cfg s \<Longrightarrow> lm_inv cfg s"
  by (induction rule: lm_reachable.induct) (auto intro: lm_inv_init lm_step_inv)

section \<open>Nobody waits forever\<close>

text \<open>The execution a cancelation waits for lives or has signaled its promise.\<close>

definition inv_run :: "local_manager \<Rightarrow> bool" where
  "inv_run s \<longleftrightarrow> (\<forall>c th e. fmlookup (lm_cancels s) c = Some th \<longrightarrow> ct_run th = Some e \<longrightarrow>
     e < lm_next s \<and> (fmlookup (lm_execs s) e = None \<longrightarrow> pr_done (lm_exec_result s e)))"

lemma lm_step_inv_run:
  assumes "lm_step cfg s s'" "lm_inv cfg s" "inv_run s"
  shows "inv_run s'"
  using assms
proof (cases rule: lm_step.cases)
  case (step_create ctx tid r)
  with assms(3) show ?thesis
    by (auto simp: inv_run_def createExecution_def Let_def less_SucI split: if_splits option.splits prod.splits)
next
  case (step_finish e th r)
  with assms(3) show ?thesis
    by (auto simp: inv_run_def exec_finish_def exec_phase_to_def)
next
  case (step_cancel tid c)
  show ?thesis
  proof (cases "fmlookup (lm_cancelations s) tid")
    case None
    have "e < lm_next s \<and> fmlookup (lm_execs s) e \<noteq> None" if "fmlookup (lm_executions s) tid = Some e" for e
      using assms(2) that by (fastforce simp: lm_inv_def inv_execs_def)
    with None step_cancel assms(3) show ?thesis
      by (auto simp: inv_run_def startCancel_def Let_def less_SucI split: if_splits)
  qed (use step_cancel assms(3) in \<open>simp add: startCancel_def\<close>)
qed (auto simp: inv_run_def exec_phase_to_def cleanupExecution_def signalDone_def cancel_finish_def
    cleanupCancel_def split: if_splits)

lemma lm_reachable_inv_run: "lm_reachable cfg s \<Longrightarrow> inv_run s"
proof (induction rule: lm_reachable.induct)
  case lm_init
  show ?case by (simp add: inv_run_def NewLocalManager_def)
next
  case (lm_next_state s s')
  with lm_step_inv_run lm_reachable_inv show ?case by blast
qed

lemma lm_reachable_steps: "(lm_step cfg)\<^sup>*\<^sup>* s s' \<Longrightarrow> lm_reachable cfg s \<Longrightarrow> lm_reachable cfg s'"
  by (induction rule: rtranclp_induct) (auto intro: lm_next_state)

lemma exec_to_cleanup:
  assumes "fmlookup (lm_execs s) e = Some th"
  shows "\<exists>s' th'. (lm_step cfg)\<^sup>*\<^sup>* s s' \<and> fmlookup (lm_execs s') e = Some th' \<and> et_phase th' = ECleanup \<and>
    fmdom' (lm_execs s') = fmdom' (lm_execs s)"
proof -
  have dom: "insert e (fmdom' (lm_execs s)) = fmdom' (lm_execs s)" using assms by (auto intro: fmdom'I)
  show ?thesis
  proof (cases "et_phase th")
    case ESetup
    then have "lm_step cfg s (exec_phase_to e th ECleanup s)" by (rule step_setup_failed[OF assms])
    then show ?thesis
      by (intro exI[of _ "exec_phase_to e th ECleanup s"]) (auto simp: exec_phase_to_def dom)
  next
    case ERunning
    then have "lm_step cfg s (exec_finish e th (Inr None) s)" by (rule step_finish[OF assms])
    then show ?thesis
      by (intro exI[of _ "exec_finish e th (Inr None) s"]) (auto simp: exec_finish_def exec_phase_to_def dom)
  qed (use assms in blast)
qed

lemma execs_drain:
  "card (fmdom' (lm_execs s)) = n \<Longrightarrow> \<exists>s'. (lm_step cfg)\<^sup>*\<^sup>* s s' \<and> lm_execs s' = fmempty"
proof (induction n arbitrary: s)
  case 0
  then show ?case by (metis card_0_eq finite_fmdom' fmdom'_empty fmrestrict_set_dom fmrestrict_set_null rtranclp.rtrancl_refl)
next
  case (Suc n)
  then obtain e where "e \<in> fmdom' (lm_execs s)" by fastforce
  then obtain th where "fmlookup (lm_execs s) e = Some th" by (auto simp: fmlookup_dom'_iff)
  from exec_to_cleanup[OF this] obtain s1 th1 where s1: "(lm_step cfg)\<^sup>*\<^sup>* s s1"
    "fmlookup (lm_execs s1) e = Some th1" "et_phase th1 = ECleanup" "fmdom' (lm_execs s1) = fmdom' (lm_execs s)"
    by blast
  let ?s2 = "cleanupExecution cfg e th1 s1"
  have "card (fmdom' (lm_execs ?s2)) = n"
    using Suc.prems s1(4) \<open>e \<in> fmdom' (lm_execs s)\<close> by (simp add: cleanupExecution_def)
  with Suc.IH obtain s' where "(lm_step cfg)\<^sup>*\<^sup>* ?s2 s'" "lm_execs s' = fmempty" by blast
  moreover have "lm_step cfg s1 ?s2" using s1(2,3) by (rule step_cleanup)
  ultimately show ?case using s1(1) by (metis converse_rtranclp_into_rtranclp rtranclp_trans)
qed

lemma cancel_to_cleanup:
  assumes "fmlookup (lm_cancels s) c = Some th" "inv_run s" "lm_execs s = fmempty"
  shows "\<exists>s' th'. (lm_step cfg)\<^sup>*\<^sup>* s s' \<and> fmlookup (lm_cancels s') c = Some th' \<and> ct_phase th' = CCleanup \<and>
    fmdom' (lm_cancels s') = fmdom' (lm_cancels s) \<and> lm_execs s' = fmempty"
proof (cases "ct_phase th")
  case CRunning
  have dom: "insert c (fmdom' (lm_cancels s)) = fmdom' (lm_cancels s)" using assms(1) by (auto intro: fmdom'I)
  have "\<exists>r. lm_step cfg s (cancel_finish c th r s)"
  proof (cases "ct_run th")
    case None
    with step_cancel_alone[OF assms(1) CRunning] show ?thesis by blast
  next
    case (Some e)
    with assms have "pr_done (lm_exec_result s e)" by (auto simp: inv_run_def)
    with step_cancel_join[OF assms(1) CRunning Some] show ?thesis by blast
  qed
  then obtain r where "lm_step cfg s (cancel_finish c th r s)" ..
  then show ?thesis using assms(3)
    by (intro exI[of _ "cancel_finish c th r s"]) (auto simp: cancel_finish_def dom)
qed (use assms in blast)

lemma cancels_drain:
  "card (fmdom' (lm_cancels s)) = n \<Longrightarrow> lm_reachable cfg s \<Longrightarrow> lm_execs s = fmempty \<Longrightarrow>
     \<exists>s'. (lm_step cfg)\<^sup>*\<^sup>* s s' \<and> lm_execs s' = fmempty \<and> lm_cancels s' = fmempty"
proof (induction n arbitrary: s)
  case 0
  then show ?case by (metis card_0_eq finite_fmdom' fmdom'_empty fmrestrict_set_dom fmrestrict_set_null rtranclp.rtrancl_refl)
next
  case (Suc n)
  then obtain c where c: "c \<in> fmdom' (lm_cancels s)" by fastforce
  then obtain th where "fmlookup (lm_cancels s) c = Some th" by (auto simp: fmlookup_dom'_iff)
  from cancel_to_cleanup[OF this lm_reachable_inv_run[OF Suc.prems(2)] Suc.prems(3)]
  obtain s1 th1 where s1: "(lm_step cfg)\<^sup>*\<^sup>* s s1" "fmlookup (lm_cancels s1) c = Some th1"
    "ct_phase th1 = CCleanup" "fmdom' (lm_cancels s1) = fmdom' (lm_cancels s)" "lm_execs s1 = fmempty"
    by blast
  let ?s2 = "cleanupCancel c th1 s1"
  have step: "lm_step cfg s1 ?s2" using s1(2,3) by (rule step_cancel_cleanup)
  have "card (fmdom' (lm_cancels ?s2)) = n"
    using Suc.prems(1) s1(4) c by (simp add: cleanupCancel_def)
  moreover have "lm_reachable cfg ?s2"
    using lm_reachable_steps[OF s1(1) Suc.prems(2)] step by (rule lm_next_state)
  moreover have "lm_execs ?s2 = fmempty" using s1(5) by (simp add: cleanupCancel_def)
  ultimately obtain s' where "(lm_step cfg)\<^sup>*\<^sup>* ?s2 s'" "lm_execs s' = fmempty" "lm_cancels s' = fmempty"
    using Suc.IH by blast
  with s1(1) step show ?case by (metis converse_rtranclp_into_rtranclp rtranclp_trans)
qed

section \<open>Properties\<close>

text \<open>
  C2: At any time, in every interleaving, a task has at most one live execution, and a request for a
  second one is refused with the "in progress" error.
\<close>

lemma one_execution_per_task:
  assumes "lm_reachable cfg s" "fmlookup (lm_execs s) e = Some th"
  shows "(\<forall>e' th'. fmlookup (lm_execs s) e' = Some th' \<longrightarrow> et_tid th' = et_tid th \<longrightarrow> e' = e) \<and>
    createExecution cfg ctx (et_tid th) s = (s, Inl ErrExecutionInProgress)"
  using lm_reachable_inv[OF assms(1)] assms(2)
  by (auto simp: lm_inv_def inv_execs_def createExecution_def) (metis option.inject)

text \<open>
  While a task is being canceled no execution of it starts: a request is refused, and the only
  execution that can be alive is the one that the cancelation found and works with.
\<close>

lemma no_start_while_canceling:
  assumes "lm_reachable cfg s" "fmlookup (lm_cancels s) c = Some ct"
  shows "(\<exists>err. createExecution cfg ctx (ct_tid ct) s = (s, Inl err) \<and>
      errors_Is err ErrUnsupportedOperation) \<and>
    (\<forall>e th. fmlookup (lm_execs s) e = Some th \<longrightarrow> et_tid th = ct_tid ct \<longrightarrow> ct_run ct = Some e)"
proof
  from lm_reachable_inv[OF assms(1)] have i: "inv_execs s" "inv_cancels s" "inv_exclusive s"
    by (simp_all add: lm_inv_def)
  from i(2) assms(2) have "fmlookup (lm_cancelations s) (ct_tid ct) \<noteq> None"
    by (simp add: inv_cancels_def)
  then show "\<exists>err. createExecution cfg ctx (ct_tid ct) s = (s, Inl err) \<and> errors_Is err ErrUnsupportedOperation"
    by (simp add: createExecution_def ErrExecutionInProgress_def ErrCancelationInProgress_def)
  show "\<forall>e th. fmlookup (lm_execs s) e = Some th \<longrightarrow> et_tid th = ct_tid ct \<longrightarrow> ct_run ct = Some e"
    using i(1,3) assms(2) unfolding inv_execs_def inv_exclusive_def by metis
qed

text \<open>
  C21: The quotas are exact and never leak: in every reachable state the limiter's counters are the
  numbers of live executions, in total and per scope, and both stay within the configured limits.
\<close>

lemma quota_exact:
  assumes "lm_reachable cfg s"
  shows "lim_executions (lm_limiter s) = int (size (held_quotas cfg (lm_execs s))) \<and>
    (\<forall>k. scope_count (lm_limiter s) k = int (count (held_quotas cfg (lm_execs s)) (Some k))) \<and>
    (MaxExecutions cfg > 0 \<longrightarrow> lim_executions (lm_limiter s) \<le> MaxExecutions cfg) \<and>
    (\<forall>getMax k. GetMaxExecutions cfg = Some getMax \<longrightarrow> getMax k > 0 \<longrightarrow>
       scope_count (lm_limiter s) k \<le> getMax k)"
  using lm_reachable_inv[OF assms] by (simp add: lm_inv_def inv_quota_def represents_def Let_def)


section \<open>Witnesses\<close>

text \<open>One execution of a task, then a cancelation of it.\<close>

definition ex_quota :: concurrency_config where
  "ex_quota = \<lparr>MaxExecutions = 1, GetMaxExecutions = Some (\<lambda>k. 1)\<rparr>"

definition ex_running :: local_manager where
  "ex_running = fst (createExecution ex_quota (AttachScope background ''s'') ''t'' NewLocalManager)"

definition ex_canceling :: local_manager where
  "ex_canceling = fst (startCancel ''t'' ex_running)"

lemma ex_running_reachable: "lm_reachable ex_quota ex_running"
  unfolding ex_running_def
  by (rule lm_next_state[OF lm_init]) (rule step_create, rule prod.collapse[symmetric])

lemma ex_canceling_reachable: "lm_reachable ex_quota ex_canceling"
  unfolding ex_canceling_def
  by (rule lm_next_state[OF ex_running_reachable]) (rule step_cancel, rule prod.collapse[symmetric])

lemma ex_running_exec: "fmlookup (lm_execs ex_running) 0 =
    Some \<lparr>et_tid = ''t'', et_ctx = AttachScope background ''s'', et_phase = ESetup, et_exiting = False\<rparr>"
  by (simp add: ex_running_def createExecution_def NewLocalManager_def ex_quota_def acquireQuotaLocked_def
      newConcurrencyLimiter_def scope_count_def Let_def)

lemma ex_canceling_cancel: "fmlookup (lm_cancels ex_canceling) 1 =
    Some \<lparr>ct_tid = ''t'', ct_run = Some 0, ct_phase = CRunning\<rparr>"
  by (simp add: ex_canceling_def startCancel_def ex_running_def createExecution_def NewLocalManager_def
      ex_quota_def acquireQuotaLocked_def newConcurrencyLimiter_def scope_count_def Let_def)

lemma one_execution_per_task_witness:
  "createExecution ex_quota background ''t'' ex_running = (ex_running, Inl ErrExecutionInProgress)"
  using one_execution_per_task[OF ex_running_reachable ex_running_exec] by simp

lemma no_start_while_canceling_witness:
  "\<exists>err. createExecution ex_quota background ''t'' ex_canceling = (ex_canceling, Inl err)"
  using no_start_while_canceling[OF ex_canceling_reachable ex_canceling_cancel, of background] by auto

lemma quota_exact_witness:
  "scope_count (lm_limiter ex_running) ''s'' = 1 \<and> lim_executions (lm_limiter ex_running) \<le> 1"
proof -
  have "scope_count (lm_limiter ex_running) ''s'' = 1"
    by (simp add: ex_running_def createExecution_def NewLocalManager_def ex_quota_def
      acquireQuotaLocked_def newConcurrencyLimiter_def scope_count_def Let_def)
  moreover have "lim_executions (lm_limiter ex_running) \<le> 1"
    using quota_exact[OF ex_running_reachable] by (simp add: ex_quota_def)
  ultimately show ?thesis by blast
qed


end
