(* ===== verification/EventPipe.thy ===== *)
theory EventPipe
  imports Core
begin

text \<open>
  \<open>internal/eventpipe/local.go\<close>: the pipe between the agent and the event processor of one
  execution, a buffered channel with a flag and a channel that signal its closing. Writers block when
  the buffer is full; a \<open>select\<close> takes any of its ready cases. The state keeps, beside what the
  code has, the events accepted and the events read so far.
\<close>

definition defaultBufferSize :: nat where
  "defaultBufferSize = 256"

type_synonym writer_id = nat

record pipe =
  pp_buffer :: "event list"
  pp_capacity :: nat
  pp_closed :: bool
  pp_writing :: "(writer_id \<times> go_ctx \<times> event) list"
  pp_accepted :: "event list"
  pp_read :: "event list"

text \<open>\<open>NewLocal\<close> with the options already applied: the buffer size, if one was given.\<close>

definition NewLocal :: "nat option \<Rightarrow> pipe" where
  "NewLocal n = \<lparr>pp_buffer = [], pp_capacity = (case n of None \<Rightarrow> defaultBufferSize | Some k \<Rightarrow> k),
     pp_closed = False, pp_writing = [], pp_accepted = [], pp_read = []\<rparr>"

text \<open>
  The first part of \<open>Write\<close>: the closed flag is read, and the call returns an error or goes on to
  the \<open>select\<close>, where it stays until one of its three cases is taken.
\<close>

definition write_begin :: "writer_id \<Rightarrow> go_ctx \<Rightarrow> event \<Rightarrow> pipe \<Rightarrow> pipe \<times> go_error option" where
  "write_begin w ctx e p =
     (if pp_closed p then (p, Some (Sentinel ErrQueueClosed))
      else (p\<lparr>pp_writing := pp_writing p @ [(w, ctx, e)]\<rparr>, None))"

definition pipe_close :: "pipe \<Rightarrow> pipe" where
  "pipe_close p = p\<lparr>pp_closed := True\<rparr>"

text \<open>What a call sees when it returns.\<close>

datatype pipe_result =
    Wrote writer_id event
  | WriteFailed writer_id go_error
  | ReadEvent event
  | ReadFailed go_error
  | Internal

inductive pipe_step :: "pipe \<Rightarrow> pipe_result \<Rightarrow> pipe \<Rightarrow> bool" where
  pipe_refused: "write_begin w ctx e p = (p', Some err) \<Longrightarrow> pipe_step p (WriteFailed w err) p'"
| pipe_begin: "write_begin w ctx e p = (p', None) \<Longrightarrow> pipe_step p Internal p'"
| pipe_send: "pp_writing p = us @ (w, ctx, e) # vs \<Longrightarrow> length (pp_buffer p) < pp_capacity p \<Longrightarrow>
    pipe_step p (Wrote w e)
      (p\<lparr>pp_writing := us @ vs, pp_buffer := pp_buffer p @ [e], pp_accepted := pp_accepted p @ [e]\<rparr>)"
| pipe_handoff: "pp_writing p = us @ (w, ctx, e) # vs \<Longrightarrow> pp_buffer p = [] \<Longrightarrow>
    pipe_step p (Wrote w e)
      (p\<lparr>pp_writing := us @ vs, pp_accepted := pp_accepted p @ [e], pp_read := pp_read p @ [e]\<rparr>)"
| pipe_send_closed: "pp_writing p = us @ (w, ctx, e) # vs \<Longrightarrow> pp_closed p \<Longrightarrow>
    pipe_step p (WriteFailed w (Sentinel ErrQueueClosed)) (p\<lparr>pp_writing := us @ vs\<rparr>)"
| pipe_send_ctx: "pp_writing p = us @ (w, ctx, e) # vs \<Longrightarrow> ctx_Err ctx = Some err \<Longrightarrow>
    pipe_step p (WriteFailed w err) (p\<lparr>pp_writing := us @ vs\<rparr>)"
| pipe_read: "pp_buffer p = e # es \<Longrightarrow>
    pipe_step p (ReadEvent e) (p\<lparr>pp_buffer := es, pp_read := pp_read p @ [e]\<rparr>)"
| pipe_read_ctx: "ctx_Err (ctx :: go_ctx) = Some err \<Longrightarrow> pipe_step p (ReadFailed err) p"
| pipe_closing: "pipe_step p Internal (pipe_close p)"

inductive pipe_run :: "pipe \<Rightarrow> pipe_result list \<Rightarrow> pipe \<Rightarrow> bool" for p0 :: pipe where
  pipe_run_start: "pipe_run p0 [] p0"
| pipe_run_step: "pipe_run p0 rs p \<Longrightarrow> pipe_step p r p' \<Longrightarrow> pipe_run p0 (rs @ [r]) p'"

inductive_cases pipe_stepE: "pipe_step p r p'"

text \<open>The events of the writes that returned without an error, in the order they returned.\<close>

fun written :: "pipe_result list \<Rightarrow> event list" where
  "written [] = []"
| "written (Wrote w e # rs) = e # written rs"
| "written (_ # rs) = written rs"

lemma written_append [simp]: "written (rs @ rs') = written rs @ written rs'"
  by (induction rs rule: written.induct) simp_all

definition pipe_inv :: "pipe \<Rightarrow> bool" where
  "pipe_inv p \<longleftrightarrow> pp_accepted p = pp_read p @ pp_buffer p \<and> length (pp_buffer p) \<le> pp_capacity p"

lemma pipe_step_inv: "pipe_step p r p' \<Longrightarrow> pipe_inv p \<Longrightarrow> pipe_inv p'"
  by (cases rule: pipe_step.cases) (auto simp: pipe_inv_def write_begin_def pipe_close_def split: if_splits)

lemma pipe_step_written: "pipe_step p r p' \<Longrightarrow> pp_accepted p' = pp_accepted p @ written [r]"
  by (cases rule: pipe_step.cases) (auto simp: write_begin_def pipe_close_def split: if_splits)

lemma pipe_step_capacity: "pipe_step p r p' \<Longrightarrow> pp_capacity p' = pp_capacity p"
  by (cases rule: pipe_step.cases) (auto simp: write_begin_def pipe_close_def split: if_splits)

lemma pipe_step_closed: "pipe_step p r p' \<Longrightarrow> pp_closed p \<Longrightarrow> pp_closed p'"
  by (erule pipe_stepE) (auto simp: write_begin_def pipe_close_def split: if_splits)

section \<open>Properties\<close>

text \<open>
  C31: The pipe is a queue, under every interleaving of writers, reader and closing: the events read are
  the events whose writes succeeded, in that order, without loss or duplication, less those still in
  the buffer, and the buffer never exceeds its size.
\<close>

lemma pipe_fifo:
  assumes "pipe_run (NewLocal n) rs p"
  shows "written rs = pp_read p @ pp_buffer p \<and>
    length (pp_buffer p) \<le> (case n of None \<Rightarrow> defaultBufferSize | Some k \<Rightarrow> k)"
proof -
  have "pipe_inv p \<and> pp_accepted p = written rs \<and> pp_capacity p = pp_capacity (NewLocal n)"
    using assms
  proof (induction rule: pipe_run.induct)
    case pipe_run_start
    show ?case by (simp add: pipe_inv_def NewLocal_def)
  next
    case (pipe_run_step rs p r p')
    with pipe_step_inv pipe_step_written pipe_step_capacity show ?case
      by (metis written_append)
  qed
  moreover have "pp_capacity (NewLocal n) = (case n of None \<Rightarrow> defaultBufferSize | Some k \<Rightarrow> k)"
    by (simp add: NewLocal_def)
  ultimately show ?thesis unfolding pipe_inv_def by metis
qed

lemma pipe_drain_steps:
  assumes "k \<le> length (pp_buffer p)"
  shows "\<exists>p'. pipe_run p (map ReadEvent (take k (pp_buffer p))) p' \<and>
      pp_buffer p' = drop k (pp_buffer p) \<and> pp_read p' = pp_read p @ take k (pp_buffer p)"
  using assms
proof (induction k)
  case 0
  show ?case by (intro exI[of _ p]) (simp add: pipe_run_start)
next
  case (Suc k)
  then obtain p' where p': "pipe_run p (map ReadEvent (take k (pp_buffer p))) p'"
    "pp_buffer p' = drop k (pp_buffer p)" "pp_read p' = pp_read p @ take k (pp_buffer p)" by auto
  let ?x = "pp_buffer p ! k"
  from Suc.prems have b: "pp_buffer p' = ?x # drop (Suc k) (pp_buffer p)"
    using p'(2) by (metis Cons_nth_drop_Suc Suc_le_lessD)
  from Suc.prems have t: "take (Suc k) (pp_buffer p) = take k (pp_buffer p) @ [?x]"
    by (metis Suc_le_lessD take_Suc_conv_app_nth)
  from pipe_run_step[OF p'(1) pipe_read[OF b]] p'(3) show ?case
    unfolding t by (intro exI) auto
qed

text \<open>
  After the pipe is closed every new write fails at once with "queue is closed" and leaves the pipe
  as it is, while the reader can still drain what was accepted before: there is a run of reads that
  delivers exactly the buffered events.
\<close>

lemma pipe_closed_drains:
  assumes "pp_closed p"
  shows "write_begin w ctx e p = (p, Some (Sentinel ErrQueueClosed)) \<and>
    (\<exists>p'. pipe_run p (map ReadEvent (pp_buffer p)) p' \<and> pp_buffer p' = [] \<and>
       pp_read p' = pp_read p @ pp_buffer p)"
  using assms pipe_drain_steps[OF order_refl, of p] by (simp add: write_begin_def)

section \<open>Witnesses\<close>

definition ex_event :: "task_id \<Rightarrow> event" where
  "ex_event tid = EStatus (NewStatusUpdateEvent 0 \<lparr>ti_TaskID = tid, ti_ContextID = ''c''\<rparr> TaskStateWorking None)"

lemma pipe_fifo_witness:
  "\<exists>p. pipe_run (NewLocal (Some 1)) [Internal, Wrote 0 (ex_event ''t''), ReadEvent (ex_event ''t'')] p \<and>
     pp_read p @ pp_buffer p = [ex_event ''t'']"
proof -
  let ?e = "ex_event ''t''"
  let ?p1 = "(NewLocal (Some 1))\<lparr>pp_writing := [(0, background, ?e)]\<rparr>"
  let ?p2 = "(NewLocal (Some 1))\<lparr>pp_buffer := [?e], pp_accepted := [?e]\<rparr>"
  let ?p3 = "(NewLocal (Some 1))\<lparr>pp_accepted := [?e], pp_read := [?e]\<rparr>"
  have "pipe_step (NewLocal (Some 1)) Internal ?p1"
    by (rule pipe_begin[of 0 background ?e]) (simp add: write_begin_def NewLocal_def)
  moreover have "pipe_step ?p1 (Wrote 0 ?e) ?p2"
    using pipe_send[of ?p1 "[]" 0 background ?e "[]"] by (simp add: NewLocal_def)
  moreover have "pipe_step ?p2 (ReadEvent ?e) ?p3"
    using pipe_read[of ?p2 ?e "[]"] by (simp add: NewLocal_def)
  ultimately have r: "pipe_run (NewLocal (Some 1)) [Internal, Wrote 0 ?e, ReadEvent ?e] ?p3"
    using pipe_run_step[OF pipe_run_step[OF pipe_run_step[OF pipe_run_start]]] by fastforce
  from pipe_fifo[OF r] r show ?thesis by auto
qed

lemma pipe_closed_drains_witness:
  "\<exists>p'. pipe_run ((NewLocal None)\<lparr>pp_buffer := [ex_event ''t''], pp_closed := True\<rparr>) [ReadEvent (ex_event ''t'')] p'"
  using pipe_closed_drains[of "(NewLocal None)\<lparr>pp_buffer := [ex_event ''t''], pp_closed := True\<rparr>" 0 background "ex_event ''t''"] by auto

end
