(* ===== verification/EventQueue.thy ===== *)
theory EventQueue
  imports TaskStoreApi
begin

text \<open>
  \<open>a2asrv/eventqueue\<close>: the messages that carry processed events to subscribers with their JSON
  form (\<open>queue.go\<close>), the in-memory broker that broadcasts what one queue writes to the other
  queues of a task (\<open>queue_in_memory_impl.go\<close>), and the manager of the brokers
  (\<open>manager_in_memory_impl.go\<close>).
\<close>

section \<open>Messages\<close>

record queue_message =
  qm_Event :: "event option"
  qm_TaskVersion :: task_version
  qm_Protocol :: string

record message_json =
  mj_event :: event_wrapper
  mj_taskVersion :: task_version
  mj_protocol :: string

definition Message_MarshalJSON :: "queue_message \<Rightarrow> go_error + message_json" where
  "Message_MarshalJSON m =
     (case qm_Event m of
        None \<Rightarrow> Inl (Sentinel ErrNilEvent)
      | Some e \<Rightarrow>
          (case StreamResponse_MarshalJSON (Some e) of
             Inl err \<Rightarrow> Inl err
           | Inr w \<Rightarrow> Inr \<lparr>mj_event = w, mj_taskVersion = qm_TaskVersion m, mj_protocol = qm_Protocol m\<rparr>))"

definition Message_UnmarshalJSON :: "message_json \<Rightarrow> go_error + queue_message" where
  "Message_UnmarshalJSON w =
     (case StreamResponse_UnmarshalJSON (mj_event w) of
        Inl err \<Rightarrow> Inl err
      | Inr e \<Rightarrow> Inr \<lparr>qm_Event = Some e, qm_TaskVersion = mj_taskVersion w, qm_Protocol = mj_protocol w\<rparr>)"

lemma StreamResponse_roundtrip:
  "StreamResponse_MarshalJSON (Some e) = Inr w \<Longrightarrow> StreamResponse_UnmarshalJSON w = Inr e"
  by (cases e) (auto simp: StreamResponse_UnmarshalJSON_def empty_wrapper_def Let_def)

text \<open>A wrapper is decoded only if exactly one of its fields is present, and then re-encodes to itself.\<close>

lemma StreamResponse_unmarshal_marshal:
  assumes "StreamResponse_UnmarshalJSON w = Inr e"
  shows "StreamResponse_MarshalJSON (Some e) = Inr w"
  using assms
  by (auto simp: StreamResponse_UnmarshalJSON_def empty_wrapper_def Let_def
      split: option.splits if_splits intro!: event_wrapper.equality)

section \<open>The broker\<close>

text \<open>
  The goroutine of a broker takes one request at a time: a registration, an unregistration, a
  broadcast, or the signal to end. A broadcast is delivered queue by queue, in any order, blocking on
  a full queue; meanwhile only reads, drains and the end of the broker can happen. Queues are
  numbered. Beside the state of the code, the model keeps the log of the broadcasts, the place in the
  log where a queue was registered and up to which it has been served, and what it got and consumed.
\<close>

type_synonym queue_id = nat

record broker =
  br_registered :: "queue_id list"
  br_dispatch :: "(queue_id \<times> queue_message \<times> queue_id list) option"
  br_destroyed :: bool
  br_bufferSize :: nat
  br_buffer :: "queue_id \<Rightarrow> queue_message list"
  br_closed :: "queue_id \<Rightarrow> bool"
  br_used :: "queue_id list"
  br_log :: "(queue_id \<times> queue_message) list"
  br_start :: "queue_id \<Rightarrow> nat"
  br_pos :: "queue_id \<Rightarrow> nat"
  br_got :: "queue_id \<Rightarrow> queue_message list"
  br_consumed :: "queue_id \<Rightarrow> queue_message list"

definition newInMemoryEventBroker :: "nat \<Rightarrow> broker" where
  "newInMemoryEventBroker n = \<lparr>br_registered = [], br_dispatch = None, br_destroyed = False,
     br_bufferSize = n, br_buffer = (\<lambda>_. []), br_closed = (\<lambda>_. False), br_used = [], br_log = [],
     br_start = (\<lambda>_. 0), br_pos = (\<lambda>_. 0), br_got = (\<lambda>_. []), br_consumed = (\<lambda>_. [])\<rparr>"

definition idle :: "broker \<Rightarrow> bool" where
  "idle b = (\<not> br_destroyed b \<and> br_dispatch b = None)"

text \<open>\<open>connect\<close>: the registration of a new queue, once the broker takes it.\<close>

definition broker_connect :: "queue_id \<Rightarrow> broker \<Rightarrow> broker" where
  "broker_connect q b = b\<lparr>br_registered := br_registered b @ [q], br_used := q # br_used b,
     br_start := (br_start b)(q := length (br_log b)), br_pos := (br_pos b)(q := length (br_log b)),
     br_buffer := (br_buffer b)(q := []), br_closed := (br_closed b)(q := False),
     br_got := (br_got b)(q := []), br_consumed := (br_consumed b)(q := [])\<rparr>"

text \<open>The broker takes a broadcast of the queue \<open>q\<close>; all other registered queues are to be served.\<close>

definition broker_broadcast :: "queue_id \<Rightarrow> queue_message \<Rightarrow> broker \<Rightarrow> broker" where
  "broker_broadcast q m b = b\<lparr>br_log := br_log b @ [(q, m)],
     br_dispatch := Some (q, m, filter (\<lambda>r. r \<noteq> q) (br_registered b)),
     br_pos := (if q \<in> set (br_registered b) then (br_pos b)(q := Suc (length (br_log b)))
                else br_pos b)\<rparr>"

text \<open>One send of the loop: into the buffer, or directly to a reader that waits.\<close>

definition broker_deliver ::
  "bool \<Rightarrow> queue_id \<Rightarrow> queue_id \<times> queue_message \<times> queue_id list \<Rightarrow> broker \<Rightarrow> broker" where
  "broker_deliver direct r d b = (case d of (q, m, rest) \<Rightarrow>
     (if direct then b\<lparr>br_consumed := (br_consumed b)(r := br_consumed b r @ [m])\<rparr>
      else b\<lparr>br_buffer := (br_buffer b)(r := br_buffer b r @ [m])\<rparr>)
     \<lparr>br_got := (br_got b)(r := br_got b r @ [m]), br_pos := (br_pos b)(r := length (br_log b)),
      br_dispatch := Some (q, m, remove1 r rest)\<rparr>)"

definition broker_consume :: "queue_id \<Rightarrow> queue_message list \<Rightarrow> queue_message \<Rightarrow> broker \<Rightarrow> broker" where
  "broker_consume r ms m b = b\<lparr>br_buffer := (br_buffer b)(r := ms),
     br_consumed := (br_consumed b)(r := br_consumed b r @ [m])\<rparr>"

definition broker_unregister :: "queue_id \<Rightarrow> broker \<Rightarrow> broker" where
  "broker_unregister r b = b\<lparr>br_registered := filter (\<lambda>x. x \<noteq> r) (br_registered b),
     br_closed := (br_closed b)(r := True)\<rparr>"

definition broker_destroy :: "broker \<Rightarrow> broker" where
  "broker_destroy b = b\<lparr>br_destroyed := True, br_dispatch := None, br_registered := [],
     br_closed := (\<lambda>r. r \<in> set (br_registered b) \<or> br_closed b r)\<rparr>"

inductive broker_step :: "broker \<Rightarrow> broker \<Rightarrow> bool" where
  bs_connect: "idle b \<Longrightarrow> q \<notin> set (br_used b) \<Longrightarrow> broker_step b (broker_connect q b)"
| bs_broadcast: "idle b \<Longrightarrow> q \<in> set (br_used b) \<Longrightarrow> broker_step b (broker_broadcast q m b)"
| bs_deliver: "br_dispatch b = Some (q, m, rest) \<Longrightarrow> r \<in> set rest \<Longrightarrow>
    length (br_buffer b r) < br_bufferSize b \<Longrightarrow> broker_step b (broker_deliver False r (q, m, rest) b)"
| bs_handoff: "br_dispatch b = Some (q, m, rest) \<Longrightarrow> r \<in> set rest \<Longrightarrow> br_buffer b r = [] \<Longrightarrow>
    broker_step b (broker_deliver True r (q, m, rest) b)"
| bs_dispatched: "br_dispatch b = Some (q, m, []) \<Longrightarrow> broker_step b (b\<lparr>br_dispatch := None\<rparr>)"
| bs_consume: "br_buffer b r = m # ms \<Longrightarrow> broker_step b (broker_consume r ms m b)"
| bs_unregister: "idle b \<Longrightarrow> r \<in> set (br_registered b) \<Longrightarrow> broker_step b (broker_unregister r b)"
| bs_destroy: "\<not> br_destroyed b \<Longrightarrow> broker_step b (broker_destroy b)"

inductive broker_reachable :: "nat \<Rightarrow> broker \<Rightarrow> bool" for n :: nat where
  br_init: "broker_reachable n (newInMemoryEventBroker n)"
| br_next: "broker_reachable n b \<Longrightarrow> broker_step b b' \<Longrightarrow> broker_reachable n b'"

text \<open>The messages of the others between two places of the log.\<close>

definition log_for :: "queue_id \<Rightarrow> nat \<Rightarrow> nat \<Rightarrow> (queue_id \<times> queue_message) list \<Rightarrow> queue_message list" where
  "log_for r i j lg = map snd (filter (\<lambda>(q, m). q \<noteq> r) (drop i (take j lg)))"

lemma log_for_append: "j \<le> length lg \<Longrightarrow> log_for r i j (lg @ x) = log_for r i j lg"
  by (simp add: log_for_def)

lemma log_for_snoc:
  "i \<le> length lg \<Longrightarrow> log_for r i (Suc (length lg)) (lg @ [(q, m)]) =
     log_for r i (length lg) lg @ (if q = r then [] else [m])"
  by (simp add: log_for_def)

section \<open>Invariant of the broker\<close>

definition pending :: "broker \<Rightarrow> queue_id list" where
  "pending b = (case br_dispatch b of None \<Rightarrow> [] | Some (q, m, rest) \<Rightarrow> rest)"

definition broker_inv :: "broker \<Rightarrow> bool" where
  "broker_inv b \<longleftrightarrow>
     distinct (br_registered b) \<and> set (br_registered b) \<subseteq> set (br_used b) \<and>
     distinct (pending b) \<and> set (pending b) \<subseteq> set (br_registered b) \<and>
     (\<forall>q m rest. br_dispatch b = Some (q, m, rest) \<longrightarrow>
        q \<notin> set rest \<and> (\<exists>lg. br_log b = lg @ [(q, m)]) \<and>
        (\<forall>r \<in> set (br_registered b). br_start b r < length (br_log b))) \<and>
     (\<forall>r \<in> set (br_registered b).
        br_pos b r = (if r \<in> set (pending b) then length (br_log b) - 1 else length (br_log b)))"

definition queue_inv :: "broker \<Rightarrow> queue_id \<Rightarrow> bool" where
  "queue_inv b r \<longleftrightarrow> br_start b r \<le> br_pos b r \<and> br_pos b r \<le> length (br_log b) \<and>
     log_for r (br_start b r) (br_pos b r) (br_log b) = br_got b r \<and>
     br_consumed b r @ br_buffer b r = br_got b r \<and> length (br_buffer b r) \<le> br_bufferSize b"

lemma broker_step_inv:
  assumes "broker_step b b'" "broker_inv b" "\<And>r. br_start b r \<le> length (br_log b)"
  shows "broker_inv b'"
  using assms
proof (cases rule: broker_step.cases)
  case (bs_connect q)
  with assms(2) show ?thesis
    by (auto simp: broker_inv_def broker_connect_def idle_def pending_def)
next
  case (bs_broadcast q m)
  with assms(2,3) show ?thesis
    by (auto simp: less_Suc_eq_le broker_inv_def broker_broadcast_def idle_def pending_def)
next
  case (bs_deliver q m rest r)
  with assms(2) show ?thesis
    by (auto simp: broker_inv_def broker_deliver_def pending_def dest: set_remove1_subset[THEN subsetD])
next
  case (bs_handoff q m rest r)
  with assms(2) show ?thesis
    by (auto simp: broker_inv_def broker_deliver_def pending_def dest: set_remove1_subset[THEN subsetD])
next
  case (bs_unregister r)
  with assms(2) show ?thesis
    by (auto simp: broker_inv_def broker_unregister_def idle_def pending_def)
next
  case (bs_consume r m ms)
  have "pending b' = pending b" by (simp add: bs_consume broker_consume_def pending_def)
  with bs_consume assms(2) show ?thesis by (simp add: broker_inv_def broker_consume_def)
qed (auto simp: broker_inv_def broker_destroy_def pending_def)

lemma log_last:
  assumes "lg = l @ [(q, m)]" "i \<le> length lg - 1" "q \<noteq> r"
  shows "log_for r i (length lg) lg = log_for r i (length lg - 1) lg @ [m]"
  using assms by (simp add: log_for_def)

lemma broker_step_queue:
  assumes "broker_step b b'" "broker_inv b" "queue_inv b x"
  shows "queue_inv b' x"
  using assms
proof (cases rule: broker_step.cases)
  case (bs_connect q)
  with assms(3) show ?thesis
    by (auto simp: queue_inv_def broker_connect_def log_for_def)
next
  case (bs_broadcast q m)
  have "br_pos b x = length (br_log b)" if "x \<in> set (br_registered b)"
    using assms(2) that bs_broadcast(2) by (simp add: broker_inv_def idle_def pending_def)
  with bs_broadcast assms(3) show ?thesis
    by (auto simp: queue_inv_def broker_broadcast_def log_for_append log_for_snoc)
next
  case (bs_deliver q m rest r)
  show ?thesis
  proof (cases "x = r")
    case True
    from assms(2) bs_deliver have p: "br_pos b r = length (br_log b) - 1" "r \<noteq> q"
      and l: "\<exists>lg. br_log b = lg @ [(q, m)]" by (auto simp: broker_inv_def pending_def)
    from l log_last[of "br_log b" _ q m "br_start b r" r] p assms(3) True
    have "log_for r (br_start b r) (length (br_log b)) (br_log b) = br_got b r @ [m]"
      by (auto simp: queue_inv_def)
    with bs_deliver assms(3) True show ?thesis
      by (simp add: queue_inv_def broker_deliver_def flip: append_assoc)
  qed (use bs_deliver assms(3) in \<open>simp add: queue_inv_def broker_deliver_def\<close>)
next
  case (bs_handoff q m rest r)
  show ?thesis
  proof (cases "x = r")
    case True
    from assms(2) bs_handoff have p: "br_pos b r = length (br_log b) - 1" "r \<noteq> q"
      and l: "\<exists>lg. br_log b = lg @ [(q, m)]" by (auto simp: broker_inv_def pending_def)
    from l log_last[of "br_log b" _ q m "br_start b r" r] p assms(3) True
    have "log_for r (br_start b r) (length (br_log b)) (br_log b) = br_got b r @ [m]"
      by (auto simp: queue_inv_def)
    with bs_handoff assms(3) True show ?thesis
      by (simp add: queue_inv_def broker_deliver_def)
  qed (use bs_handoff assms(3) in \<open>simp add: queue_inv_def broker_deliver_def\<close>)
qed (auto simp: queue_inv_def broker_consume_def broker_destroy_def broker_unregister_def)

lemma broker_reachable_inv:
  "broker_reachable n b \<Longrightarrow> broker_inv b \<and> (\<forall>r. queue_inv b r) \<and> br_bufferSize b = n"
proof (induction rule: broker_reachable.induct)
  case br_init
  show ?case by (auto simp: broker_inv_def queue_inv_def newInMemoryEventBroker_def pending_def log_for_def)
next
  case (br_next b b')
  have "br_bufferSize b' = br_bufferSize b"
    using br_next.hyps(2)
    by (cases rule: broker_step.cases) (simp_all add: broker_connect_def broker_broadcast_def
        broker_deliver_def broker_consume_def broker_unregister_def broker_destroy_def)
  moreover have "br_start b r \<le> length (br_log b)" for r
    using br_next.IH by (meson le_trans queue_inv_def)
  ultimately show ?case using br_next broker_step_inv broker_step_queue by metis
qed

section \<open>The manager\<close>

text \<open>
  \<open>createReadWriter\<close> and \<open>Destroy\<close> hold the manager's mutex until the broker has answered. A
  queue gets the next number; the queues of one broker are numbered by the broker.
\<close>

record queue_manager =
  qmgr_brokers :: "(task_id, broker) fmap"
  qmgr_bufferSize :: nat

definition defaultQueueBufferSize :: nat where
  "defaultQueueBufferSize = 32"

definition NewInMemoryManager :: "nat option \<Rightarrow> queue_manager" where
  "NewInMemoryManager bufferSize = \<lparr>qmgr_brokers = fmempty,
     qmgr_bufferSize = (case bufferSize of None \<Rightarrow> defaultQueueBufferSize | Some n \<Rightarrow> n)\<rparr>"

definition next_queue :: "broker \<Rightarrow> queue_id" where
  "next_queue b = Suc (fold max (br_used b) 0)"

definition createReadWriter :: "task_id \<Rightarrow> queue_manager \<Rightarrow> queue_manager \<times> (go_error + queue_id)" where
  "createReadWriter taskID m =
     (let b = (case fmlookup (qmgr_brokers m) taskID of
                 None \<Rightarrow> newInMemoryEventBroker (qmgr_bufferSize m) | Some b \<Rightarrow> b);
          m' = m\<lparr>qmgr_brokers := fmupd taskID b (qmgr_brokers m)\<rparr>
      in if br_destroyed b then (m', Inl (Errorf ''broker destroyed'' []))
         else (let q = next_queue b
               in (m\<lparr>qmgr_brokers := fmupd taskID (broker_connect q b) (qmgr_brokers m)\<rparr>, Inr q)))"

definition Destroy :: "task_id \<Rightarrow> queue_manager \<Rightarrow> queue_manager \<times> broker option" where
  "Destroy taskID m =
     (case fmlookup (qmgr_brokers m) taskID of
        None \<Rightarrow> (m, None)
      | Some b \<Rightarrow>
          (m\<lparr>qmgr_brokers := fmdrop taskID (qmgr_brokers m)\<rparr>,
           Some (if br_destroyed b then b else broker_destroy b)))"

lemma fold_max_ge: "(n :: nat) \<le> fold max xs n" "x \<in> set xs \<Longrightarrow> x \<le> fold max xs n"
proof (induction xs arbitrary: n)
  case (Cons y ys)
  { case 1 show ?case using Cons(1)[of "max y n"] by simp }
  { case 2 then show ?case using Cons(1)[of "max y n"] Cons(2)[of "max y n"] by auto }
qed simp_all

lemma next_queue_fresh: "next_queue b \<notin> set (br_used b)"
  using fold_max_ge(2)[of _ "br_used b" 0] by (force simp: next_queue_def)

section \<open>Properties\<close>

text \<open>
  The JSON form of a queue message keeps it: a message with an event decodes to itself, a message
  without one is refused, and what decodes re-encodes to the same bytes (one field of the one-of
  wrapper is present).
\<close>

lemma queue_message_roundtrip:
  "(\<forall>e. qm_Event m = Some e \<longrightarrow>
      (\<exists>j. Message_MarshalJSON m = Inr j \<and> Message_UnmarshalJSON j = Inr m)) \<and>
   (qm_Event m = None \<longrightarrow> Message_MarshalJSON m = Inl (Sentinel ErrNilEvent)) \<and>
   (Message_UnmarshalJSON j = Inr m \<longrightarrow> Message_MarshalJSON m = Inr j)"
proof (intro conjI allI impI)
  fix e assume e: "qm_Event m = Some e"
  obtain w where w: "StreamResponse_MarshalJSON (Some e) = Inr w" by (cases e) auto
  with e StreamResponse_roundtrip[OF w]
  show "\<exists>j. Message_MarshalJSON m = Inr j \<and> Message_UnmarshalJSON j = Inr m"
    by (auto simp: Message_MarshalJSON_def Message_UnmarshalJSON_def)
next
  assume "Message_UnmarshalJSON j = Inr m"
  then show "Message_MarshalJSON m = Inr j"
    by (auto simp: Message_UnmarshalJSON_def Message_MarshalJSON_def
        dest!: StreamResponse_unmarshal_marshal split: sum.splits)
qed (simp add: Message_MarshalJSON_def)

lemma broker_got:
  assumes "broker_reachable n b" "r \<in> set (br_registered b)"
  shows "br_got b r = log_for r (br_start b r)
      (if r \<in> set (pending b) then length (br_log b) - 1 else length (br_log b)) (br_log b) \<and>
    br_got b r = br_consumed b r @ br_buffer b r \<and> length (br_buffer b r) \<le> n"
  using broker_reachable_inv[OF assms(1)] assms(2) unfolding broker_inv_def queue_inv_def by metis

text \<open>
  C18: Broadcasts are delivered exactly once, in order and without gaps, and never to their sender: in
  every reachable state of the broker a registered queue has got the messages that the other queues
  broadcast since it registered, in the order of the log, up to the broadcast in progress; what it got
  is what its reader consumed followed by its buffer, which never exceeds its size.
\<close>

lemma broker_delivers:
  assumes "broker_reachable n b" "r \<in> set (br_registered b)"
  shows "br_got b r = log_for r (br_start b r)
      (if r \<in> set (pending b) then length (br_log b) - 1 else length (br_log b)) (br_log b) \<and>
    br_got b r = br_consumed b r @ br_buffer b r \<and> length (br_buffer b r) \<le> n"
  by (rule broker_got[OF assms])

text \<open>
  A queue that has been closed, or whose broker was destroyed in the middle of a broadcast, keeps
  an unbroken segment of the log: it misses nothing before the point where it stopped.
\<close>

lemma broker_segment:
  assumes "broker_reachable n b"
  shows "\<exists>k \<le> length (br_log b). br_start b r \<le> k \<and> br_got b r = log_for r (br_start b r) k (br_log b)"
  using broker_reachable_inv[OF assms] unfolding queue_inv_def by metis

text \<open>
  When a write is acknowledged (the broadcast is dispatched), every other registered queue has the
  message.
\<close>

lemma acknowledged_delivered:
  assumes "broker_reachable n b" "br_dispatch b = Some (q, m, [])" "r \<in> set (br_registered b)" "r \<noteq> q"
  shows "br_got b r \<noteq> [] \<and> last (br_got b r) = m"
proof -
  from broker_reachable_inv[OF assms(1)] assms(2,3) obtain lg where l: "br_log b = lg @ [(q, m)]"
    and s: "br_start b r \<le> length (br_log b) - 1"
    by (fastforce simp: broker_inv_def)
  from broker_got[OF assms(1,3)] assms(2)
  have g: "br_got b r = log_for r (br_start b r) (length (br_log b)) (br_log b)"
    by (simp add: pending_def)
  from log_last[OF l s] assms(4) g show ?thesis by auto
qed

text \<open>No broker of the manager is destroyed, since \<open>Destroy\<close> takes it out of the map.\<close>

definition qmgr_inv :: "queue_manager \<Rightarrow> bool" where
  "qmgr_inv m = fmpred (\<lambda>tid b. \<not> br_destroyed b) (qmgr_brokers m)"

lemma qmgr_inv_new: "qmgr_inv (NewInMemoryManager n)"
  by (simp add: qmgr_inv_def NewInMemoryManager_def)

lemma qmgr_inv_Destroy: "qmgr_inv m \<Longrightarrow> qmgr_inv (fst (Destroy tid m))"
  by (auto simp: qmgr_inv_def Destroy_def fmpred_iff split: option.splits)

text \<open>
  A queue can always be created: whatever was created and destroyed before, the answer is a queue
  that is new to the task's broker and registered with it, and the brokers of other tasks are left
  alone.
\<close>

lemma createReadWriter_ok:
  assumes "qmgr_inv m"
  shows "\<exists>q b. snd (createReadWriter tid m) = Inr q \<and> qmgr_inv (fst (createReadWriter tid m)) \<and>
    fmlookup (qmgr_brokers (fst (createReadWriter tid m))) tid = Some b \<and> q \<in> set (br_registered b) \<and>
    (\<forall>b0. fmlookup (qmgr_brokers m) tid = Some b0 \<longrightarrow> q \<notin> set (br_used b0)) \<and>
    (\<forall>tid'. tid' \<noteq> tid \<longrightarrow>
       fmlookup (qmgr_brokers (fst (createReadWriter tid m))) tid' = fmlookup (qmgr_brokers m) tid')"
proof (cases "fmlookup (qmgr_brokers m) tid")
  case None
  with assms show ?thesis
    by (auto simp: createReadWriter_def Let_def qmgr_inv_def fmpred_iff broker_connect_def
        newInMemoryEventBroker_def split: if_splits)
next
  case (Some b)
  with assms have "\<not> br_destroyed b" by (auto simp: qmgr_inv_def fmpred_iff)
  with assms Some next_queue_fresh[of b] show ?thesis
    by (auto simp: createReadWriter_def Let_def qmgr_inv_def fmpred_iff broker_connect_def split: if_splits)
qed

section \<open>Witnesses\<close>

definition ex_message :: queue_message where
  "ex_message = \<lparr>qm_Event = Some (EArtifact (NewArtifactUpdateEvent \<lparr>ti_TaskID = ''t'', ti_ContextID = ''c''\<rparr> ''a'' [])),
     qm_TaskVersion = 1, qm_Protocol = Version\<rparr>"

definition ex_broker :: broker where
  "ex_broker = broker_deliver False 2 (1, ex_message, [2])
     (broker_broadcast 1 ex_message (broker_connect 2 (broker_connect 1 (newInMemoryEventBroker 1))))"

lemma ex_broker_reachable: "broker_reachable 1 ex_broker"
proof -
  let ?b0 = "newInMemoryEventBroker 1"
  let ?b1 = "broker_connect 1 ?b0" let ?b2 = "broker_connect 2 ?b1"
  let ?b3 = "broker_broadcast 1 ex_message ?b2"
  have d3: "br_dispatch ?b3 = Some (1, ex_message, [2])"
    by (simp add: broker_broadcast_def broker_connect_def newInMemoryEventBroker_def)
  have "broker_reachable 1 ?b1"
    by (rule br_next[OF br_init]) (rule bs_connect, simp_all add: idle_def newInMemoryEventBroker_def)
  then have "broker_reachable 1 ?b2"
    by (rule br_next) (rule bs_connect, simp_all add: idle_def newInMemoryEventBroker_def broker_connect_def)
  then have "broker_reachable 1 ?b3"
    by (rule br_next) (rule bs_broadcast, simp_all add: idle_def newInMemoryEventBroker_def broker_connect_def)
  then show ?thesis unfolding ex_broker_def
    by (rule br_next) (rule bs_deliver[OF d3], simp_all add: broker_broadcast_def broker_connect_def newInMemoryEventBroker_def)
qed

lemma ex_broker_simps:
  "br_registered ex_broker = [1, 2]" "br_dispatch ex_broker = Some (1, ex_message, [])"
  by (simp_all add: ex_broker_def broker_deliver_def broker_broadcast_def broker_connect_def
      newInMemoryEventBroker_def)

lemma broker_delivers_witness:
  "br_got ex_broker 2 = br_consumed ex_broker 2 @ br_buffer ex_broker 2 \<and> length (br_buffer ex_broker 2) \<le> 1"
  using broker_delivers[OF ex_broker_reachable, of 2] ex_broker_simps(1) by (metis list.set_intros insertI1 list.simps(15))

lemma broker_segment_witness:
  "\<exists>k \<le> length (br_log ex_broker). br_got ex_broker 2 = log_for 2 (br_start ex_broker 2) k (br_log ex_broker)"
  using broker_segment[OF ex_broker_reachable] by blast

lemma acknowledged_delivered_witness: "last (br_got ex_broker 2) = ex_message"
  using acknowledged_delivered[OF ex_broker_reachable ex_broker_simps(2), of 2] ex_broker_simps(1) by simp

lemma createReadWriter_ok_witness:
  "\<exists>q. snd (createReadWriter ''t'' (NewInMemoryManager None)) = Inr q"
  using createReadWriter_ok[OF qmgr_inv_new] by blast

lemma queue_message_roundtrip_witness:
  "\<exists>j. Message_MarshalJSON ex_message = Inr j \<and> Message_UnmarshalJSON j = Inr ex_message"
  using queue_message_roundtrip[of ex_message undefined] by (simp add: ex_message_def)

end
