(* ===== verification/Execution.thy ===== *)
theory Execution
  imports EventQueue LocalManager
begin

text \<open>
  \<open>internal/taskexec/execution_handler.go\<close> and \<open>subscription.go\<close>: the loop that takes an
  execution's events from the pipe through the processor to the subscribers, the group of goroutines
  it runs in, and what subscribers see. Blocking reads and writes are the inputs of the functions: the
  list of what each iteration got. A function that has used up its list is still blocked.
\<close>

section \<open>Processing loop\<close>

text \<open>\<open>ProcessorResult\<close> of \<open>taskexec/api.go\<close>.\<close>

record processor_result =
  pres_ExecutionResult :: "send_result option"
  pres_ExecutionFailureCause :: "go_error option"
  pres_TaskVersion :: task_version
  pres_EventOverride :: "event option"

text \<open>What Go returns as a pair of a result and an error, either of which can be nil.\<close>

type_synonym outcome = "send_result option \<times> go_error option"

text \<open>The surroundings of one iteration: the read, the context after it, the write and the context after it.\<close>

record iteration =
  it_read :: "go_error + event"
  it_read_ctx :: go_ctx
  it_write :: "go_error option"
  it_write_ctx :: go_ctx

record 'p event_handler =
  handleEventFn :: "'p \<Rightarrow> event \<Rightarrow> 'p \<times> (go_error + processor_result)"
  handleErrorFn :: "'p \<Rightarrow> go_error \<Rightarrow> 'p \<times> outcome"

definition cause_list :: "go_ctx \<Rightarrow> go_error list" where
  "cause_list ctx = (case ctx_Cause ctx of None \<Rightarrow> [] | Some c \<Rightarrow> [c])"

text \<open>
  \<open>processEvents\<close>: \<open>bcast\<close> tells whether there is a queue for handled events. The second
  component of the result is what was written to it; the third is \<open>None\<close> while the loop runs.
\<close>

fun processEvents ::
  "'p event_handler \<Rightarrow> bool \<Rightarrow> iteration list \<Rightarrow> 'p \<Rightarrow> 'p \<times> queue_message list \<times> outcome option" where
  "processEvents h bcast [] p = (p, [], None)"
| "processEvents h bcast (it # its) p =
     (case it_read it of
        Inl err \<Rightarrow>
          (let e = (if ctx_Err (it_read_ctx it) \<noteq> None
                    then Errorf ''context canceled: %w'' (cause_list (it_read_ctx it))
                    else Errorf ''queue read failed: %w'' [err]);
               (p', r) = handleErrorFn h p e
           in (p', [], Some r))
      | Inr event \<Rightarrow>
          (case handleEventFn h p event of
             (p1, Inl err) \<Rightarrow> (p1, [], Some (None, Some (Errorf ''processor error: %w'' [err])))
           | (p1, Inr res) \<Rightarrow>
               (let toEmit = (case pres_EventOverride res of None \<Rightarrow> event | Some e \<Rightarrow> e);
                    msg = \<lparr>qm_Event = Some toEmit, qm_TaskVersion = pres_TaskVersion res, qm_Protocol = ''''\<rparr>
                in if bcast \<and> it_write it \<noteq> None
                   then (let e = (if ctx_Err (it_write_ctx it) \<noteq> None
                             then Errorf ''context canceled on event broadcast: %w'' (cause_list (it_write_ctx it))
                             else Errorf ''event broadcast failed: %w'' [the (it_write it)]);
                             (p', r) = handleErrorFn h p1 e
                         in (p', [], Some r))
                   else
                     (let out = (if bcast then [msg] else [])
                      in if pres_ExecutionResult res \<noteq> None
                         then (p1, out, Some (pres_ExecutionResult res, pres_ExecutionFailureCause res))
                         else (let (p', msgs, r) = processEvents h bcast its p1 in (p', out @ msgs, r))))))"

section \<open>The group of goroutines\<close>

text \<open>
  \<open>runProducerConsumer\<close> starts up to four goroutines in an error group, whose error is the first
  one in the order in which they end; a panic has become the error of its goroutine. \<open>None\<close> in the
  consumer's error is turned into the private error that stops the producer.
\<close>

datatype completion =
    ProducerDone "go_error option"
  | ConsumerDone "send_result option" "go_error option"
  | InactivityWatcherDone go_error
  | HeartbeatDone go_error

datatype group_error = ConsumerStopped | GroupError go_error

fun completion_error :: "completion \<Rightarrow> group_error option" where
  "completion_error (ProducerDone e) = map_option GroupError e"
| "completion_error (ConsumerDone r None) = Some ConsumerStopped"
| "completion_error (ConsumerDone r (Some e)) = Some (GroupError e)"
| "completion_error (InactivityWatcherDone e) = Some (GroupError e)"
| "completion_error (HeartbeatDone e) = Some (GroupError e)"

fun group_wait :: "completion list \<Rightarrow> group_error option" where
  "group_wait [] = None"
| "group_wait (c # cs) = (case completion_error c of Some e \<Rightarrow> Some e | None \<Rightarrow> group_wait cs)"

fun consumer_result :: "completion list \<Rightarrow> send_result option" where
  "consumer_result [] = None"
| "consumer_result (ConsumerDone r e # cs) = r"
| "consumer_result (_ # cs) = consumer_result cs"

definition runProducerConsumer :: "completion list \<Rightarrow> outcome" where
  "runProducerConsumer cs =
     (case consumer_result cs of
        Some r \<Rightarrow> (Some r, None)
      | None \<Rightarrow>
          (case group_wait cs of
             Some (GroupError e) \<Rightarrow> (None, Some e)
           | _ \<Rightarrow> (None, Some (Errorf ''bug: consumer stopped, but result unset: %w'' []))))"

section \<open>Subscriptions\<close>

text \<open>
  The items a subscriber is given, in order; a subscriber that stops early sees a prefix. The queue's
  reads are a list, the promise's answer is known when the queue is closed, and the store is asked
  once.
\<close>

type_synonym item = "event option \<times> go_error option"

definition queue_read_failed :: "go_error \<Rightarrow> go_error" where
  "queue_read_failed err = Errorf ''queue read failed: %w'' [err]"

fun local_loop :: "task_version \<Rightarrow> (go_error + queue_message) list \<Rightarrow> item \<Rightarrow> item list" where
  "local_loop emitted [] waited = []"
| "local_loop emitted (Inl err # rs) waited =
     (if errors_Is err ErrQueueClosed then [waited] else [(None, Some (queue_read_failed err))])"
| "local_loop emitted (Inr m # rs) waited =
     (if \<not> After (qm_TaskVersion m) emitted then local_loop emitted rs waited
      else (qm_Event m, None) #
        (if (case qm_Event m of Some e \<Rightarrow> IsFinal e | None \<Rightarrow> False) then []
         else local_loop emitted rs waited))"

definition result_item :: "addr \<Rightarrow> outcome \<Rightarrow> item" where
  "result_item a r = (map_option (result_event a) (fst r), snd r)"

definition localSubscription_Events ::
  "addr \<Rightarrow> bool \<Rightarrow> bool \<Rightarrow> go_error + stored_task \<Rightarrow> (go_error + queue_message) list \<Rightarrow> outcome \<Rightarrow> item list" where
  "localSubscription_Events a consumed startWithTask got reads waited =
     (if consumed then [(None, Some (Errorf ''subscription already consumed'' []))]
      else if startWithTask then
        (case got of
           Inl err \<Rightarrow>
             (if \<not> errors_Is err ErrTaskNotFound
              then [(None, Some (Errorf ''task snapshot loading failed: %w'' [err]))]
              else local_loop TaskVersionMissing reads (result_item a waited))
         | Inr st \<Rightarrow>
             (Some (ETask a (st_Task st)), None) #
             (if Terminal (ts_State (task_Status (st_Task st))) then []
              else local_loop (st_Version st) reads (result_item a waited)))
      else local_loop TaskVersionMissing reads (result_item a waited))"

fun remote_loop :: "task_version \<Rightarrow> (go_error + queue_message) list \<Rightarrow> item list" where
  "remote_loop snapshot [] = []"
| "remote_loop snapshot (Inl err # rs) = [(None, Some err)]"
| "remote_loop snapshot (Inr m # rs) =
     (if qm_TaskVersion m \<noteq> TaskVersionMissing \<and> \<not> After (qm_TaskVersion m) snapshot
      then remote_loop snapshot rs
      else (qm_Event m, None) #
        (if (case qm_Event m of Some e \<Rightarrow> IsFinal e | None \<Rightarrow> False) then []
         else remote_loop snapshot rs))"

text \<open>\<open>cancel\<close> is the version to start from for a cancel subscription.\<close>

definition remoteSubscription_Events ::
  "addr \<Rightarrow> bool \<Rightarrow> task_version option \<Rightarrow> go_error + stored_task \<Rightarrow> (go_error + queue_message) list \<Rightarrow> item list" where
  "remoteSubscription_Events a consumed cancel got reads =
     (if consumed then [(None, Some (Errorf ''subscription already consumed'' []))]
      else (case got of
        Inl err \<Rightarrow>
          (if \<not> errors_Is err ErrTaskNotFound
           then [(None, Some (Errorf ''task snapshot loading failed: %w'' [err]))]
           else remote_loop (case cancel of Some v \<Rightarrow> v | None \<Rightarrow> TaskVersionMissing) reads)
      | Inr st \<Rightarrow>
          (let terminal = Terminal (ts_State (task_Status (st_Task st)));
               rest = remote_loop (case cancel of Some v \<Rightarrow> v | None \<Rightarrow> st_Version st) reads
           in if cancel = None \<or> terminal
              then (Some (ETask a (st_Task st)), None) # (if terminal then [] else rest)
              else rest)))"

section \<open>Lemmas on the loops\<close>

text \<open>A message that a subscriber at a version gets; both loops agree on messages with a version.\<close>

definition versioned :: "queue_message \<Rightarrow> bool" where
  "versioned m = (qm_TaskVersion m \<noteq> TaskVersionMissing \<and> qm_Event m \<noteq> None)"

definition final_message :: "queue_message \<Rightarrow> bool" where
  "final_message m = (case qm_Event m of Some e \<Rightarrow> IsFinal e | None \<Rightarrow> False)"

fun until_final :: "queue_message list \<Rightarrow> queue_message list" where
  "until_final [] = []"
| "until_final (m # ms) = m # (if final_message m then [] else until_final ms)"

lemma local_loop_messages:
  "local_loop v (map Inr ms) w =
     map (\<lambda>m. (qm_Event m, None)) (until_final (filter (\<lambda>m. After (qm_TaskVersion m) v) ms))"
  by (induction ms) (auto simp: final_message_def split: option.splits)

lemma remote_loop_messages:
  "list_all versioned ms \<Longrightarrow> remote_loop v (map Inr ms) =
     map (\<lambda>m. (qm_Event m, None)) (until_final (filter (\<lambda>m. After (qm_TaskVersion m) v) ms))"
  by (induction ms) (auto simp: final_message_def versioned_def split: option.splits)

lemma until_final_all: "list_all (\<lambda>m. \<not> final_message m) ms \<Longrightarrow> until_final ms = ms"
  by (induction ms) simp_all

text \<open>
  In a log of increasing versions, the messages after the version of an entry are those behind it.
\<close>

lemma filter_After_log:
  assumes "sorted_wrt (\<lambda>m m'. qm_TaskVersion m < qm_TaskVersion m') log0"
    and "list_all (\<lambda>m. 0 < qm_TaskVersion m) log0" "k < length log0" "i \<le> Suc k"
  shows "filter (\<lambda>m. After (qm_TaskVersion m) (qm_TaskVersion (log0 ! k))) (drop i log0) = drop (Suc k) log0"
proof -
  let ?P = "\<lambda>m. After (qm_TaskVersion m) (qm_TaskVersion (log0 ! k))"
  have pos: "0 < qm_TaskVersion (log0 ! j)" if "j < length log0" for j
    using assms(2) that by (simp add: list_all_length)
  have P: "?P (log0 ! j) \<longleftrightarrow> k < j" if "j < length log0" for j
  proof -
    have "qm_TaskVersion (log0 ! k) < qm_TaskVersion (log0 ! j)" if "k < j"
      using sorted_wrt_nth_less[OF assms(1) that] \<open>j < length log0\<close> by blast
    moreover have "qm_TaskVersion (log0 ! j) \<le> qm_TaskVersion (log0 ! k)" if "j \<le> k"
      using sorted_wrt_nth_less[OF assms(1), of j k] that assms(3) by (cases "j = k") auto
    ultimately show ?thesis using pos[OF that] pos[OF assms(3)]
      by (cases "k < j") (auto simp: After_def TaskVersionMissing_def)
  qed
  have "drop i log0 = take (Suc k - i) (drop i log0) @ drop (Suc k) log0"
    using assms(4) by (metis append_take_drop_id drop_drop le_add_diff_inverse2)
  moreover have "filter ?P (take (Suc k - i) (drop i log0)) = []"
    using P assms(3,4) by (auto simp: filter_empty_conv in_set_conv_nth)
  moreover have "filter ?P (drop (Suc k) log0) = drop (Suc k) log0"
    using P by (auto simp: filter_id_conv in_set_conv_nth)
  ultimately show ?thesis by (metis append_Nil filter_append)
qed

text \<open>Item lists of the loops end at the first error or final event.\<close>

definition plain_item :: "item \<Rightarrow> bool" where
  "plain_item it = (snd it = None \<and> (case fst it of Some e \<Rightarrow> \<not> IsFinal e | None \<Rightarrow> True))"

lemma local_loop_shape: "\<forall>it \<in> set (butlast (local_loop v rs w)). plain_item it"
proof (induction v rs w rule: local_loop.induct)
  case (3 emitted m rs waited)
  then show ?case by (auto simp: plain_item_def split: option.splits if_splits)
qed simp_all

lemma remote_loop_shape: "\<forall>it \<in> set (butlast (remote_loop v rs)). plain_item it"
proof (induction v rs rule: remote_loop.induct)
  case (3 snapshot m rs)
  then show ?case by (auto simp: plain_item_def split: option.splits if_splits)
qed simp_all

lemma consumer_result_in:
  "ConsumerDone r e \<in> set cs \<Longrightarrow> \<forall>c \<in> set cs. \<forall>r' e'. c = ConsumerDone r' e' \<longrightarrow> r' = r \<Longrightarrow>
     consumer_result cs = r"
proof (induction cs)
  case (Cons c cs)
  have "consumer_result cs = r" if "c \<noteq> ConsumerDone r e"
  proof (rule Cons.IH)
    show "ConsumerDone r e \<in> set cs" using Cons.prems(1) that by simp
  qed (use Cons.prems(2) in \<open>metis list.set_intros(2)\<close>)
  moreover have "r' = r" if "c = ConsumerDone r' e'" for r' e'
    using bspec[OF Cons.prems(2), of c] that by simp
  ultimately show ?case by (cases c) simp_all
qed simp

lemma set_tlD: "x \<in> set (tl xs) \<Longrightarrow> x \<in> set xs"
  by (cases xs) auto

lemma group_wait_Some: "ConsumerDone r e \<in> set cs \<Longrightarrow> group_wait cs \<noteq> None"
proof (induction cs)
  case (Cons c cs)
  then show ?case by (cases e) (auto split: option.splits)
qed simp

section \<open>Properties\<close>

text \<open>
  A run of the goroutine group always ends with exactly one of a result and an error, whatever the
  order in which its members end and whatever their errors; if the consumer (which ends once) has a
  result, that is the run's, even when the producer, the inactivity watcher or the heartbeat failed
  first, and otherwise an error of some member is, unless the consumer stopped without one first.
\<close>

lemma runProducerConsumer_outcome:
  assumes "ConsumerDone r e \<in> set cs" "\<And>r' e'. ConsumerDone r' e' \<in> set cs \<Longrightarrow> r' = r \<and> e' = e"
  shows "(case r of
       Some v \<Rightarrow> runProducerConsumer cs = (Some v, None)
     | None \<Rightarrow> \<exists>err. runProducerConsumer cs = (None, Some err) \<and>
         ((\<exists>c \<in> set cs. completion_error c = Some (GroupError err)) \<or>
          err = Errorf ''bug: consumer stopped, but result unset: %w'' [] \<and> e = None))"
proof -
  have "\<forall>c \<in> set cs. \<forall>r' e'. c = ConsumerDone r' e' \<longrightarrow> r' = r" using assms(2) by blast
  from consumer_result_in[OF assms(1) this] have cr: "consumer_result cs = r" .
  show ?thesis
proof (cases r)
  case (Some v)
  with cr show ?thesis by (simp add: runProducerConsumer_def)
next
  case None
  have mem: "\<exists>c \<in> set cs. completion_error c = Some g" if "group_wait cs = Some g" for g
    using that by (induction cs) (auto split: option.splits)
  have stop: "e = None" if "completion_error c = Some ConsumerStopped" "c \<in> set cs" for c
    using that assms(2) by (cases c rule: completion_error.cases) auto
  from group_wait_Some[OF assms(1)] obtain g where g: "group_wait cs = Some g" by auto
  show ?thesis
  proof (cases g)
    case ConsumerStopped
    with g cr mem stop None show ?thesis by (auto simp: runProducerConsumer_def)
  next
    case (GroupError err)
    with g cr mem None show ?thesis by (auto simp: runProducerConsumer_def)
  qed
qed
qed

text \<open>
  C19: A subscription, local or remote, resumes exactly where its snapshot was taken. Let the events of
  a task be logged with increasing versions, and let the reader's queue have been registered at place
  \<open>i\<close> of the log, not after the snapshot, which has the version of entry \<open>k\<close>. Then the
  subscriber gets the snapshot and after it exactly the events behind entry \<open>k\<close>, up to the first
  final one: none twice, none missing, none older than the snapshot.
\<close>

lemma subscription_resumes:
  assumes "sorted_wrt (\<lambda>m m'. qm_TaskVersion m < qm_TaskVersion m') log0"
    and "list_all (\<lambda>m. 0 < qm_TaskVersion m \<and> qm_Event m \<noteq> None) log0" "k < length log0" "i \<le> Suc k"
    and "st_Version st = qm_TaskVersion (log0 ! k)" "\<not> Terminal (ts_State (task_Status (st_Task st)))"
  shows "localSubscription_Events a False True (Inr st) (map Inr (drop i log0)) w =
      (Some (ETask a (st_Task st)), None) # map (\<lambda>m. (qm_Event m, None)) (until_final (drop (Suc k) log0)) \<and>
    remoteSubscription_Events a False None (Inr st) (map Inr (drop i log0)) =
      (Some (ETask a (st_Task st)), None) # map (\<lambda>m. (qm_Event m, None)) (until_final (drop (Suc k) log0))"
proof -
  have "list_all (\<lambda>m. 0 < qm_TaskVersion m) log0" "list_all versioned (drop i log0)"
    using assms(2) by (fastforce simp: list_all_iff versioned_def TaskVersionMissing_def dest: in_set_dropD)+
  with filter_After_log[OF assms(1) _ assms(3,4)] assms(5,6) show ?thesis
    by (simp add: localSubscription_Events_def remoteSubscription_Events_def local_loop_messages
        remote_loop_messages)
qed

text \<open>
  A subscription ends at its first final event or error: every item before the last one is an event
  that is not final, except the snapshot that a subscription may start with.
\<close>

lemma subscription_ends:
  "(\<forall>it \<in> set (butlast (localSubscription_Events a consumed False got rs w)). plain_item it) \<and>
   (\<forall>it \<in> set (tl (butlast (localSubscription_Events a consumed True got rs w))). plain_item it) \<and>
   (\<forall>it \<in> set (tl (butlast (remoteSubscription_Events a consumed cancel got rs))). plain_item it)"
proof -
  have L: "\<forall>it \<in> set (butlast (local_loop v rs (result_item a w))). plain_item it" for v
    by (rule local_loop_shape)
  have R: "\<forall>it \<in> set (butlast (remote_loop v rs)). plain_item it" for v
    by (rule remote_loop_shape)
  show ?thesis
  proof (intro conjI)
    show "\<forall>it \<in> set (butlast (localSubscription_Events a consumed False got rs w)). plain_item it"
      using L by (simp add: localSubscription_Events_def)
    show "\<forall>it \<in> set (tl (butlast (localSubscription_Events a consumed True got rs w))). plain_item it"
      using L by (cases got) (auto simp: localSubscription_Events_def dest!: set_tlD)
    show "\<forall>it \<in> set (tl (butlast (remoteSubscription_Events a consumed cancel got rs))). plain_item it"
      using R by (cases got) (auto simp: remoteSubscription_Events_def Let_def dest!: set_tlD)
  qed
qed
section \<open>Witnesses\<close>

lemma runProducerConsumer_outcome_witness:
  "runProducerConsumer [InactivityWatcherDone (Sentinel ErrAgentInactivityTimeout), ProducerDone None,
     ConsumerDone None (Some (Sentinel ErrContextCanceled))] = (None, Some (Sentinel ErrAgentInactivityTimeout)) \<and>
   (\<forall>m. runProducerConsumer [ProducerDone (Some (Sentinel ErrInternalError)),
     ConsumerDone (Some (RMessage m)) None] = (Some (RMessage m), None))"
proof -
  have "runProducerConsumer [ProducerDone (Some (Sentinel ErrInternalError)), ConsumerDone (Some (RMessage m)) None] =
      (Some (RMessage m), None)" for m
    using runProducerConsumer_outcome[of "Some (RMessage m)" None
        "[ProducerDone (Some (Sentinel ErrInternalError)), ConsumerDone (Some (RMessage m)) None]"]
    by simp
  then show ?thesis by (simp add: runProducerConsumer_def)
qed

definition ex_log :: "queue_message list" where
  "ex_log = map (\<lambda>v. \<lparr>qm_Event = Some (EStatus (NewStatusUpdateEvent 0 \<lparr>ti_TaskID = ''t'', ti_ContextID = ''c''\<rparr>
       TaskStateWorking None)), qm_TaskVersion = v, qm_Protocol = ''''\<rparr>) [1, 2, 3]"

definition ex_snapshot :: stored_task where
  "ex_snapshot = \<lparr>st_Task = NewSubmittedTask ''t'' ''c'' \<lparr>ti_TaskID = ''t'', ti_ContextID = ''c''\<rparr>
     (NewMessage ''m'' MessageRoleUser []), st_Version = 2, st_User = ''u''\<rparr>"

lemma subscription_resumes_witness:
  "localSubscription_Events 0 False True (Inr ex_snapshot) (map Inr (drop 1 ex_log)) (None, None) =
     [(Some (ETask 0 (st_Task ex_snapshot)), None), (qm_Event (ex_log ! 2), None)]"
proof -
  have "localSubscription_Events 0 False True (Inr ex_snapshot) (map Inr (drop 1 ex_log)) (None, None) =
      (Some (ETask 0 (st_Task ex_snapshot)), None) #
        map (\<lambda>m. (qm_Event m, None)) (until_final (drop (Suc 1) ex_log))"
    using subscription_resumes[of ex_log 1 1 ex_snapshot 0 "(None, None)"]
    by (simp add: ex_log_def ex_snapshot_def NewSubmittedTask_def)
  then show ?thesis
    by (simp add: ex_log_def final_message_def NewStatusUpdateEvent_def TaskStateWorking_def
        TaskStateInputRequired_def)
qed

end
