(* ===== verification/PushStore.thy ===== *)
theory PushStore
  imports DeepCopies
begin

text \<open>
  \<open>a2asrv/push\<close>: the store of push notification configurations. The interface (\<open>api.go\<close>) is
  the locale \<open>push_config_store\<close>; the in-memory store (\<open>store.go\<close>) provides it. URL parsing is
  an argument: the test that \<open>url.ParseRequestURI\<close> accepts a string. The random id that a
  configuration without one gets is an argument of the call.
\<close>

section \<open>The interface\<close>

record 's push_store_ops =
  push_Save :: "string \<Rightarrow> task_id \<Rightarrow> push_config \<Rightarrow> 's \<Rightarrow> 's \<times> (go_error + push_config)"
  push_Get :: "task_id \<Rightarrow> string \<Rightarrow> 's \<Rightarrow> go_error + push_config"
  push_List :: "task_id \<Rightarrow> 's \<Rightarrow> go_error + push_config list"
  push_Delete :: "task_id \<Rightarrow> string \<Rightarrow> 's \<Rightarrow> 's"
  push_DeleteAll :: "task_id \<Rightarrow> 's \<Rightarrow> 's"

text \<open>
  What a caller relies on: a saved configuration is found under the id that \<open>Save\<close> returns, with the
  task id filled in and everything else as given; deletion removes one, or all of a task; nothing else
  changes; a failed call changes nothing; a listing has exactly the configurations that can be found.
\<close>

locale push_config_store =
  fixes ops :: "'s push_store_ops"
  assumes save_ok: "\<And>uuid tid c s s' c'. push_Save ops uuid tid c s = (s', Inr c') \<Longrightarrow>
      c' = c\<lparr>pc_ID := (if pc_ID c = '''' then uuid else pc_ID c), pc_TaskID := tid\<rparr> \<and>
      push_Get ops tid (pc_ID c') s' = Inr c'"
    and save_frame: "\<And>uuid tid c s s' c' t k. push_Save ops uuid tid c s = (s', Inr c') \<Longrightarrow>
      (t, k) \<noteq> (tid, pc_ID c') \<Longrightarrow> push_Get ops t k s' = push_Get ops t k s"
    and save_err: "\<And>uuid tid c s s' e. push_Save ops uuid tid c s = (s', Inl e) \<Longrightarrow> s' = s"
    and delete: "\<And>tid i t k s. push_Get ops t k (push_Delete ops tid i s) =
      (if t = tid \<and> k = i then Inl (Sentinel ErrPushConfigNotFound) else push_Get ops t k s)"
    and delete_all: "\<And>tid t k s. push_Get ops t k (push_DeleteAll ops tid s) =
      (if t = tid then Inl (Sentinel ErrPushConfigNotFound) else push_Get ops t k s)"
    and list_ok: "\<And>tid s. \<exists>cs. push_List ops tid s = Inr cs \<and>
      set cs = {c. \<exists>k. push_Get ops tid k s = Inr c}"
begin

text \<open>A configuration is listed from its saving until it is deleted or saved again.\<close>

lemma saved_listed:
  assumes "push_Save ops uuid tid c s = (s', Inr c')"
  shows "\<exists>cs. push_List ops tid s' = Inr cs \<and> c' \<in> set cs"
  using list_ok[of tid s'] save_ok[OF assms] by auto

lemma deleted_unlisted:
  assumes "push_List ops tid (push_DeleteAll ops tid s) = Inr cs"
  shows "cs = []"
  using list_ok[of tid "push_DeleteAll ops tid s"] assms delete_all[of tid _ tid s] by auto

lemma save_delete:
  assumes "push_Save ops uuid tid c s = (s', Inr c')"
  shows "push_Get ops t k (push_Delete ops tid (pc_ID c') s') =
    (if t = tid \<and> k = pc_ID c' then Inl (Sentinel ErrPushConfigNotFound) else push_Get ops t k s)"
  using save_frame[OF assms, of t k] by (auto simp: delete)

end

section \<open>The in-memory store\<close>

type_synonym push_configs = "(task_id, (string, push_config) fmap) fmap"

definition maxPushConfigsPerTask :: nat where
  "maxPushConfigsPerTask = 50"

definition NewInMemoryPushStore :: push_configs where
  "NewInMemoryPushStore = fmempty"

definition validateConfig :: "(string \<Rightarrow> bool) \<Rightarrow> push_config \<Rightarrow> go_error option" where
  "validateConfig parseable c =
     (if pc_URL c = '''' then Some (Errorf ''push config endpoint cannot be empty'' [])
      else if \<not> parseable (pc_URL c) then Some (Errorf ''invalid push config endpoint URL: %w'' [])
      else None)"

definition task_configs :: "task_id \<Rightarrow> push_configs \<Rightarrow> (string, push_config) fmap" where
  "task_configs tid s = (case fmlookup s tid of None \<Rightarrow> fmempty | Some m \<Rightarrow> m)"

text \<open>
  \<open>Save\<close>. The inner map of a task is made on demand, also when the configuration is then refused;
  an empty inner map and none are not told apart here, since no method does.
\<close>

definition Save ::
  "(string \<Rightarrow> bool) \<Rightarrow> string \<Rightarrow> task_id \<Rightarrow> push_config \<Rightarrow> push_configs \<Rightarrow>
     push_configs \<times> (go_error + push_config)" where
  "Save parseable uuid taskID config s =
     (case validateConfig parseable config of
        Some err \<Rightarrow> (s, Inl (Errorf ''%w: %w'' [Sentinel ErrInvalidParams, err]))
      | None \<Rightarrow>
          (case DeepCopy_push_config config of
             Inl err \<Rightarrow> (s, Inl err)
           | Inr copy \<Rightarrow>
               (let toSave = copy\<lparr>pc_ID := (if pc_ID copy = '''' then uuid else pc_ID copy),
                                  pc_TaskID := taskID\<rparr>;
                    configs = task_configs taskID s
                in if fmlookup configs (pc_ID toSave) = None \<and>
                      fcard (fmdom configs) \<ge> maxPushConfigsPerTask
                   then (s, Inl (Errorf ''%w: task %s already has the maximum number of push notification configs (%d)''
                                   [Sentinel ErrInvalidParams]))
                   else (let s' = fmupd taskID (fmupd (pc_ID toSave) toSave configs) s
                         in case DeepCopy_push_config toSave of
                              Inl err \<Rightarrow> (s', Inl err)
                            | Inr savedCopy \<Rightarrow> (s', Inr savedCopy)))))"

definition push_store_Get :: "task_id \<Rightarrow> string \<Rightarrow> push_configs \<Rightarrow> go_error + push_config" where
  "push_store_Get taskID configID s =
     (case fmlookup s taskID of
        Some configs \<Rightarrow>
          (case fmlookup configs configID of
             Some config \<Rightarrow> DeepCopy_push_config config
           | None \<Rightarrow> Inl (Sentinel ErrPushConfigNotFound))
      | None \<Rightarrow> Inl (Sentinel ErrPushConfigNotFound))"

text \<open>The map of a task is read in the given order of its keys.\<close>

fun copy_configs :: "push_config list \<Rightarrow> go_error + push_config list" where
  "copy_configs [] = Inr []"
| "copy_configs (c # cs) =
     (case DeepCopy_push_config c of
        Inl err \<Rightarrow> Inl err
      | Inr cp \<Rightarrow> (case copy_configs cs of Inl err \<Rightarrow> Inl err | Inr result \<Rightarrow> Inr (cp # result)))"

definition push_store_List :: "string list \<Rightarrow> task_id \<Rightarrow> push_configs \<Rightarrow> go_error + push_config list" where
  "push_store_List order taskID s =
     (case fmlookup s taskID of
        None \<Rightarrow> Inr []
      | Some configs \<Rightarrow> copy_configs (List.map_filter (fmlookup configs) order))"

definition push_store_Delete :: "task_id \<Rightarrow> string \<Rightarrow> push_configs \<Rightarrow> push_configs" where
  "push_store_Delete taskID configID s =
     (case fmlookup s taskID of
        Some configs \<Rightarrow> fmupd taskID (fmdrop configID configs) s
      | None \<Rightarrow> s)"

definition push_store_DeleteAll :: "task_id \<Rightarrow> push_configs \<Rightarrow> push_configs" where
  "push_store_DeleteAll taskID s = fmdrop taskID s"

definition in_memory_push_ops :: "(string \<Rightarrow> bool) \<Rightarrow> push_configs push_store_ops" where
  "in_memory_push_ops parseable =
     \<lparr>push_Save = Save parseable, push_Get = push_store_Get,
      push_List = (\<lambda>tid s. push_store_List (sorted_list_of_fset (fmdom (task_configs tid s))) tid s),
      push_Delete = push_store_Delete, push_DeleteAll = push_store_DeleteAll\<rparr>"

lemma in_memory_push_ops_simps [simp]:
  "push_Save (in_memory_push_ops p) = Save p"
  "push_Get (in_memory_push_ops p) = push_store_Get"
  "push_Delete (in_memory_push_ops p) = push_store_Delete"
  "push_DeleteAll (in_memory_push_ops p) = push_store_DeleteAll"
  by (simp_all add: in_memory_push_ops_def)

lemma copy_configs_id [simp]: "copy_configs cs = Inr cs"
  by (induction cs) (simp_all add: DeepCopy_push_config_def)

lemma task_configs_upd [simp]:
  "task_configs t (fmupd t' m s) = (if t = t' then m else task_configs t s)"
  by (simp add: task_configs_def)

lemma push_store_Get_configs:
  "push_store_Get t k s =
     (case fmlookup (task_configs t s) k of Some c \<Rightarrow> Inr c | None \<Rightarrow> Inl (Sentinel ErrPushConfigNotFound))"
  by (simp add: push_store_Get_def task_configs_def DeepCopy_push_config_def split: option.splits)

lemma Save_InrE:
  assumes "Save p uuid tid c s = (s', Inr c')"
  obtains "validateConfig p c = None"
    "c' = c\<lparr>pc_ID := (if pc_ID c = '''' then uuid else pc_ID c), pc_TaskID := tid\<rparr>"
    "s' = fmupd tid (fmupd (pc_ID c') c' (task_configs tid s)) s"
    "fmlookup (task_configs tid s) (pc_ID c') \<noteq> None \<or> fcard (fmdom (task_configs tid s)) < maxPushConfigsPerTask"
  using assms
  by (auto simp: Save_def Let_def DeepCopy_push_config_def split: option.splits if_splits)

lemma push_map_filter_set: "set (List.map_filter f xs) = {y. \<exists>x \<in> set xs. f x = Some y}"
  by (induction xs) (auto simp: map_filter_simps split: option.splits)

lemma push_store_List_set:
  assumes "set order = fmdom' (task_configs tid s)"
  shows "\<exists>cs. push_store_List order tid s = Inr cs \<and> set cs = {c. \<exists>k. push_store_Get tid k s = Inr c}"
proof (cases "fmlookup s tid")
  case None
  then show ?thesis by (simp add: push_store_List_def push_store_Get_def)
next
  case (Some m)
  then have m: "task_configs tid s = m" by (simp add: task_configs_def)
  have "set (List.map_filter (fmlookup m) order) = {c. \<exists>k. push_store_Get tid k s = Inr c}"
    using assms by (auto simp: push_map_filter_set push_store_Get_configs m fmlookup_dom'_iff
        split: option.splits)
  with Some show ?thesis by (simp add: push_store_List_def)
qed

interpretation push_mem: push_config_store "in_memory_push_ops p"
proof unfold_locales
  fix uuid tid c s s' c'
  assume "push_Save (in_memory_push_ops p) uuid tid c s = (s', Inr c')"
  then have "Save p uuid tid c s = (s', Inr c')" by simp
  then have s: "c' = c\<lparr>pc_ID := (if pc_ID c = '''' then uuid else pc_ID c), pc_TaskID := tid\<rparr>"
    "s' = fmupd tid (fmupd (pc_ID c') c' (task_configs tid s)) s" by (auto elim: Save_InrE)
  then show "c' = c\<lparr>pc_ID := (if pc_ID c = '''' then uuid else pc_ID c), pc_TaskID := tid\<rparr> \<and>
      push_Get (in_memory_push_ops p) tid (pc_ID c') s' = Inr c'"
    by (simp add: push_store_Get_configs)
  show "push_Get (in_memory_push_ops p) t k s' = push_Get (in_memory_push_ops p) t k s"
    if "(t, k) \<noteq> (tid, pc_ID c')" for t k
    using s(2) that by (auto simp: push_store_Get_configs)
next
  fix uuid tid c s s' e
  assume "push_Save (in_memory_push_ops p) uuid tid c s = (s', Inl e)"
  then show "s' = s"
    by (auto simp: Save_def Let_def DeepCopy_push_config_def split: option.splits if_splits)
next
  fix tid s
  show "\<exists>cs. push_List (in_memory_push_ops p) tid s = Inr cs \<and>
      set cs = {c. \<exists>k. push_Get (in_memory_push_ops p) tid k s = Inr c}"
    using push_store_List_set[of "sorted_list_of_fset (fmdom (task_configs tid s))" tid s]
    by (simp add: in_memory_push_ops_def fmdom'_alt_def)
qed (auto simp: push_store_Get_def push_store_Delete_def push_store_DeleteAll_def split: option.splits)

section \<open>The bound\<close>

text \<open>No task has more than the maximum number of configurations.\<close>

definition push_bound :: "push_configs \<Rightarrow> bool" where
  "push_bound s = fmpred (\<lambda>tid m. fcard (fmdom m) \<le> maxPushConfigsPerTask) s"

lemma push_bound_task: "push_bound s \<Longrightarrow> fcard (fmdom (task_configs tid s)) \<le> maxPushConfigsPerTask"
  by (auto simp: push_bound_def fmpred_iff task_configs_def fcard_fempty split: option.splits)

lemma push_bound_new: "push_bound NewInMemoryPushStore"
  by (simp add: push_bound_def NewInMemoryPushStore_def)

lemma push_bound_Save:
  assumes "push_bound s"
  shows "push_bound (fst (Save p uuid tid c s))"
proof (cases "Save p uuid tid c s")
  case (Pair s' r)
  show ?thesis
  proof (cases r)
    case (Inl e)
    with Pair push_mem.save_err[of p uuid tid c s s' e] assms show ?thesis by simp
  next
    case (Inr c')
    with Pair have "Save p uuid tid c s = (s', Inr c')" by simp
    then show ?thesis
    proof (rule Save_InrE)
      let ?m = "task_configs tid s"
      assume s': "s' = fmupd tid (fmupd (pc_ID c') c' ?m) s"
        and le: "fmlookup ?m (pc_ID c') \<noteq> None \<or> fcard (fmdom ?m) < maxPushConfigsPerTask"
      from le have "fcard (finsert (pc_ID c') (fmdom ?m)) \<le> maxPushConfigsPerTask"
      proof
        assume "fmlookup ?m (pc_ID c') \<noteq> None"
        then have "pc_ID c' |\<in>| fmdom ?m" by (auto simp: fmlookup_dom_iff)
        with push_bound_task[OF assms, of tid] show ?thesis by (simp add: finsert_absorb)
      qed (use fcard_finsert_le in \<open>simp add: fcard_finsert_if\<close>)
      with assms Pair s' show ?thesis by (auto simp: push_bound_def fmpred_iff split: if_splits)
    qed
  qed
qed

lemma push_bound_Delete:
  assumes "push_bound s"
  shows "push_bound (push_store_Delete tid k s)"
proof (cases "fmlookup s tid")
  case (Some m)
  have "fcard (fmdom (fmdrop k m)) \<le> fcard (fmdom m)" by (rule fcard_mono) auto
  with assms Some show ?thesis
    by (simp add: push_bound_def fmpred_iff push_store_Delete_def) (meson le_trans)
qed (use assms in \<open>simp add: push_store_Delete_def\<close>)

lemma push_bound_DeleteAll: "push_bound s \<Longrightarrow> push_bound (push_store_DeleteAll tid s)"
  by (auto simp: push_bound_def fmpred_iff push_store_DeleteAll_def split: if_splits)

text \<open>The states that calls of the methods can produce.\<close>

inductive push_reachable :: "(string \<Rightarrow> bool) \<Rightarrow> push_configs \<Rightarrow> bool" for p where
  push_new: "push_reachable p NewInMemoryPushStore"
| push_saved: "push_reachable p s \<Longrightarrow> push_reachable p (fst (Save p uuid tid c s))"
| push_deleted: "push_reachable p s \<Longrightarrow> push_reachable p (push_store_Delete tid k s)"
| push_deleted_all: "push_reachable p s \<Longrightarrow> push_reachable p (push_store_DeleteAll tid s)"

lemma push_reachable_bound: "push_reachable p s \<Longrightarrow> push_bound s"
  by (induction rule: push_reachable.induct)
     (auto intro: push_bound_new push_bound_Save push_bound_Delete push_bound_DeleteAll)

section \<open>Properties\<close>

text \<open>
  The number of configurations of a task never exceeds the maximum, and a configuration is refused
  for that reason only when it is new and the task is full: an existing one can always be replaced.
\<close>

lemma push_store_bounded:
  assumes "push_reachable p s" "validateConfig p c = None"
  shows "fcard (fmdom (task_configs tid s)) \<le> maxPushConfigsPerTask \<and>
    ((\<exists>e. snd (Save p uuid tid c s) = Inl e) \<longleftrightarrow>
      fmlookup (task_configs tid s) (if pc_ID c = '''' then uuid else pc_ID c) = None \<and>
      fcard (fmdom (task_configs tid s)) = maxPushConfigsPerTask)"
  using push_bound_task[OF push_reachable_bound[OF assms(1)], of tid] assms(2)
  by (auto simp: Save_def Let_def DeepCopy_push_config_def)

text \<open>
  A saved configuration is found and listed under the id that was returned, with the task's id and
  otherwise unchanged; deleting it makes it unknown again, and neither operation touches any other
  configuration of any task.
\<close>

lemma push_store_save_then_delete:
  assumes "Save p uuid tid c s = (s', Inr c')"
  shows "push_store_Get tid (pc_ID c') s' = Inr c' \<and> pc_TaskID c' = tid \<and> pc_URL c' = pc_URL c \<and>
    (\<forall>order. set order = fmdom' (task_configs tid s') \<longrightarrow>
      (\<exists>cs. push_store_List order tid s' = Inr cs \<and> c' \<in> set cs)) \<and>
    (\<forall>t k. (t, k) \<noteq> (tid, pc_ID c') \<longrightarrow> push_store_Get t k s' = push_store_Get t k s) \<and>
    (\<forall>t k. push_store_Get t k (push_store_Delete tid (pc_ID c') s') =
      (if t = tid \<and> k = pc_ID c' then Inl (Sentinel ErrPushConfigNotFound) else push_store_Get t k s))"
proof -
  have s: "push_Save (in_memory_push_ops p) uuid tid c s = (s', Inr c')" using assms by simp
  from push_mem.save_ok[OF s] push_mem.save_frame[OF s] push_mem.save_delete[OF s]
  show ?thesis using push_store_List_set[of _ tid s'] by fastforce
qed

section \<open>Witnesses\<close>

definition ex_push_config :: push_config where
  "ex_push_config = \<lparr>pc_Tenant = '''', pc_TaskID = '''', pc_ID = '''', pc_Auth = None, pc_Token = ''s'',
     pc_URL = ''https://example.com/hook''\<rparr>"

lemma push_store_bounded_witness:
  "\<not> (\<exists>e. snd (Save (\<lambda>u. True) ''id'' ''t'' ex_push_config NewInMemoryPushStore) = Inl e)"
  using push_store_bounded[OF push_new, of "\<lambda>u. True" ex_push_config "''t''" "''id''"]
  by (simp add: validateConfig_def ex_push_config_def maxPushConfigsPerTask_def task_configs_def
      NewInMemoryPushStore_def fcard_fempty)

lemma push_store_save_then_delete_witness:
  "push_store_Get ''t'' ''id'' (fst (Save (\<lambda>u. True) ''id'' ''t'' ex_push_config NewInMemoryPushStore)) =
     Inr (ex_push_config\<lparr>pc_ID := ''id'', pc_TaskID := ''t''\<rparr>)"
proof -
  have "Save (\<lambda>u. True) ''id'' ''t'' ex_push_config NewInMemoryPushStore =
      (fst (Save (\<lambda>u. True) ''id'' ''t'' ex_push_config NewInMemoryPushStore),
       Inr (ex_push_config\<lparr>pc_ID := ''id'', pc_TaskID := ''t''\<rparr>))"
    by (simp add: Save_def validateConfig_def ex_push_config_def Let_def DeepCopy_push_config_def
        NewInMemoryPushStore_def task_configs_def maxPushConfigsPerTask_def fcard_fempty)
  from push_store_save_then_delete[OF this] show ?thesis by simp
qed

end
