(* ===== verification/PushSender.thy ===== *)
theory PushSender
  imports Core "HOL-Library.Word" "HOL-Library.Type_Length"
begin

text \<open>
  \<open>a2asrv/push/sender.go\<close>: what the HTTP sender of push notifications decides itself: the guard
  against internal addresses, the policy for redirects, the headers of a request and the treatment of
  errors. Connections are not modelled; the addresses a name resolves to and the answers of servers
  are arguments.
\<close>

unbundle bit_operations_syntax

section \<open>The address guard\<close>

text \<open>
  A \<open>net.IP\<close> is a slice of 4 or 16 bytes. \<open>To4\<close> also takes the IPv4 address out of an
  IPv4-mapped one. The predicates are those of the package \<open>net\<close>.
\<close>

type_synonym ip = "8 word list"

definition To4 :: "ip \<Rightarrow> ip option" where
  "To4 ip =
     (if length ip = 4 then Some ip
      else if length ip = 16 \<and> take 10 ip = replicate 10 0 \<and> ip ! 10 = 0xFF \<and> ip ! 11 = 0xFF
      then Some (drop 12 ip) else None)"

definition IPv4 :: "8 word \<Rightarrow> 8 word \<Rightarrow> 8 word \<Rightarrow> 8 word \<Rightarrow> ip" where
  "IPv4 a b c d = replicate 10 0 @ [0xFF, 0xFF, a, b, c, d]"

definition IsLoopback :: "ip \<Rightarrow> bool" where
  "IsLoopback ip = (case To4 ip of Some ip4 \<Rightarrow> ip4 ! 0 = 127 | None \<Rightarrow> ip = replicate 15 0 @ [1])"

definition IsPrivate :: "ip \<Rightarrow> bool" where
  "IsPrivate ip =
     (case To4 ip of
        Some ip4 \<Rightarrow> ip4 ! 0 = 10 \<or> (ip4 ! 0 = 172 \<and> ip4 ! 1 AND 0xF0 = 16) \<or>
                    (ip4 ! 0 = 192 \<and> ip4 ! 1 = 168)
      | None \<Rightarrow> length ip = 16 \<and> ip ! 0 AND 0xFE = 0xFC)"

definition IsLinkLocalUnicast :: "ip \<Rightarrow> bool" where
  "IsLinkLocalUnicast ip =
     (case To4 ip of
        Some ip4 \<Rightarrow> ip4 ! 0 = 169 \<and> ip4 ! 1 = 254
      | None \<Rightarrow> length ip = 16 \<and> ip ! 0 = 0xFE \<and> ip ! 1 AND 0xC0 = 0x80)"

definition IsLinkLocalMulticast :: "ip \<Rightarrow> bool" where
  "IsLinkLocalMulticast ip =
     (case To4 ip of
        Some ip4 \<Rightarrow> ip4 ! 0 = 224 \<and> ip4 ! 1 = 0 \<and> ip4 ! 2 = 0
      | None \<Rightarrow> length ip = 16 \<and> ip ! 0 = 0xFF \<and> ip ! 1 AND 0x0F = 0x02)"

definition IsUnspecified :: "ip \<Rightarrow> bool" where
  "IsUnspecified ip = (case To4 ip of Some ip4 \<Rightarrow> ip4 = [0, 0, 0, 0] | None \<Rightarrow> ip = replicate 16 0)"

definition IsMulticast :: "ip \<Rightarrow> bool" where
  "IsMulticast ip =
     (case To4 ip of
        Some ip4 \<Rightarrow> ip4 ! 0 AND 0xF0 = 0xE0
      | None \<Rightarrow> length ip = 16 \<and> ip ! 0 = 0xFF)"

definition isBlockedIP :: "ip \<Rightarrow> bool" where
  "isBlockedIP ip = (IsLoopback ip \<or> IsPrivate ip \<or> IsLinkLocalUnicast ip \<or> IsLinkLocalMulticast ip \<or>
     IsUnspecified ip \<or> IsMulticast ip)"

definition errBlockedPushTarget :: go_error where
  "errBlockedPushTarget = Errorf ''push notification target resolves to a blocked address range'' []"

text \<open>
  The control function of the guarded dialer, called with every address that is about to be dialed:
  the address split into a host (if it has the right form) and the host parsed as an address.
\<close>

definition dial_control :: "(ip option) option \<Rightarrow> go_error option" where
  "dial_control addr =
     (case addr of
        None \<Rightarrow> Some (Errorf ''invalid dial address %q: %w'' [])
      | Some None \<Rightarrow> Some (Errorf ''%w: unresolved host %q'' [errBlockedPushTarget])
      | Some (Some ip) \<Rightarrow>
          if isBlockedIP ip then Some (Errorf ''%w: %s'' [errBlockedPushTarget]) else None)"

text \<open>A connection tries the resolved addresses in turn and keeps the first that is not refused.\<close>

fun guarded_dial :: "(ip option) option list \<Rightarrow> ip option" where
  "guarded_dial [] = None"
| "guarded_dial (a # as) =
     (case dial_control a of None \<Rightarrow> (case a of Some ip \<Rightarrow> ip | None \<Rightarrow> None) | Some err \<Rightarrow> guarded_dial as)"

section \<open>Redirects\<close>

text \<open>
  A hop of a redirect chain: its host and whether the token header goes to it. \<open>http.Client\<close>
  builds the request of a redirect with the headers of the first request, asks \<open>CheckRedirect\<close>
  with the requests made so far, and sends it unless that is an error.
\<close>

definition maxPushRedirects :: nat where
  "maxPushRedirects = 10"

definition limitPushRedirects :: "string \<Rightarrow> bool \<Rightarrow> string list \<Rightarrow> go_error + bool" where
  "limitPushRedirects host token via =
     (if length via \<ge> maxPushRedirects then Inl (Errorf ''stopped after %d redirects'' [])
      else if via \<noteq> [] \<and> host \<noteq> last via then Inr False
      else Inr token)"

text \<open>The hosts that a chain of redirects reaches with the token, from the hosts of the requests so far.\<close>

fun redirect_chain :: "bool \<Rightarrow> string list \<Rightarrow> string list \<Rightarrow> (string \<times> bool) list" where
  "redirect_chain token via [] = []"
| "redirect_chain token via (host # hosts) =
     (case limitPushRedirects host token via of
        Inl err \<Rightarrow> []
      | Inr sent \<Rightarrow> (host, sent) # redirect_chain token (via @ [host]) hosts)"

definition send_chain :: "bool \<Rightarrow> string list \<Rightarrow> (string \<times> bool) list" where
  "send_chain token hosts =
     (case hosts of [] \<Rightarrow> [] | host # rest \<Rightarrow> (host, token) # redirect_chain token [host] rest)"

section \<open>Sending\<close>

text \<open>The headers that \<open>SendPush\<close> sets. \<open>strings.ToLower\<close> on the schemes compared with is that of ASCII.\<close>

definition tokenHeader :: string where
  "tokenHeader = ''A2a-Notification-Token''"

definition push_headers :: "push_config \<Rightarrow> (string \<times> string) list" where
  "push_headers config =
     [(''Content-Type'', ''application/json'')] @
     (if pc_Token config \<noteq> '''' then [(tokenHeader, pc_Token config)] else []) @
     (case pc_Auth config of
        None \<Rightarrow> []
      | Some auth \<Rightarrow>
          if pa_Credentials auth = '''' then []
          else if to_lower (pa_Scheme auth) = ''bearer''
          then [(''Authorization'', ''Bearer '' @ pa_Credentials auth)]
          else if to_lower (pa_Scheme auth) = ''basic''
          then [(''Authorization'', ''Basic '' @ pa_Credentials auth)]
          else [])"

definition handleError :: "bool \<Rightarrow> go_error \<Rightarrow> go_error option" where
  "handleError failOnError err = (if failOnError then Some err else None)"

text \<open>
  \<open>SendPush\<close>, given whether the request could be built and the answer of the client: an error, or
  the status code.
\<close>

definition SendPush ::
  "bool \<Rightarrow> go_error option \<Rightarrow> (push_config \<Rightarrow> (string \<times> string) list \<Rightarrow> event_wrapper \<Rightarrow> go_error + int) \<Rightarrow>
     push_config \<Rightarrow> event option \<Rightarrow> go_error option" where
  "SendPush failOnError request_error client config event =
     (case StreamResponse_MarshalJSON event of
        Inl err \<Rightarrow> handleError failOnError (Errorf ''failed to serialize event to JSON: %w'' [err])
      | Inr jsonData \<Rightarrow>
          (case request_error of
             Some err \<Rightarrow> handleError failOnError (Errorf ''failed to create HTTP request: %w'' [err])
           | None \<Rightarrow>
               (case client config (push_headers config) jsonData of
                  Inl err \<Rightarrow> handleError failOnError (Errorf ''failed to send push notification: %w'' [err])
                | Inr status \<Rightarrow>
                    if status < 200 \<or> status \<ge> 300
                    then handleError failOnError
                           (Errorf ''push notification endpoint returned non-success status: %s'' [])
                    else None)))"

section \<open>Lemmas\<close>

lemma To4_IPv4 [simp]: "To4 (IPv4 a b c d) = Some [a, b, c, d]"
  by (simp add: To4_def IPv4_def nth_append)

lemma To4_4 [simp]: "To4 [a, b, c, d] = Some [a, b, c, d]"
  by (simp add: To4_def)

lemma guarded_dial_allowed: "guarded_dial as = Some ip \<Longrightarrow> \<not> isBlockedIP ip \<and> Some (Some ip) \<in> set as"
  by (induction as) (auto simp: dial_control_def split: option.splits if_splits)

text \<open>Facts about bytes are decided on all of them.\<close>

lemma byte_all:
  assumes "list_all (\<lambda>n. P (word_of_nat n :: 8 word)) [0..<256]"
  shows "P w"
proof -
  have "unat w < 2 ^ LENGTH(8)" by (rule unsigned_less)
  then have "unat w < 256" by simp
  with assms have "P (word_of_nat (unat w))" unfolding list_all_iff by (metis atLeastLessThan_iff atLeastLessThan_upt le0)
  then show ?thesis by (simp only: of_nat_unat ucast_id)
qed

lemma byte_nibble_1: "((b :: 8 word) AND 0xF0 = 16) = (16 \<le> b \<and> b \<le> 31)"
  by (rule byte_all) code_simp

lemma byte_nibble_E: "((a :: 8 word) AND 0xF0 = 0xE0) = (224 \<le> a \<and> a \<le> 239)"
  by (rule byte_all) code_simp

lemma blocked_mapped: "isBlockedIP (IPv4 a b c d) = isBlockedIP [a, b, c, d]"
  by (simp add: isBlockedIP_def IsLoopback_def IsPrivate_def IsLinkLocalUnicast_def
      IsLinkLocalMulticast_def IsUnspecified_def IsMulticast_def)

lemma blocked_IPv4:
  "isBlockedIP [a, b, c, d] \<longleftrightarrow>
     a = 127 \<or> a = 10 \<or> (a = 172 \<and> 16 \<le> b \<and> b \<le> 31) \<or> (a = 192 \<and> b = 168) \<or> (a = 169 \<and> b = 254) \<or>
     (a = 0 \<and> b = 0 \<and> c = 0 \<and> d = 0) \<or> (224 \<le> a \<and> a \<le> 239)"
  by (auto simp: isBlockedIP_def IsLoopback_def IsPrivate_def IsLinkLocalUnicast_def
      IsLinkLocalMulticast_def IsUnspecified_def IsMulticast_def byte_nibble_1 byte_nibble_E)

lemma redirect_chain_length: "length (redirect_chain t via hosts) \<le> maxPushRedirects - length via"
proof (induction hosts arbitrary: via)
  case (Cons h hs)
  from Cons[of "via @ [h]"] show ?case
    by (auto simp: limitPushRedirects_def split: sum.splits)
qed simp

section \<open>Properties\<close>


text \<open>
  A chain of redirects ends after ten requests, and the first hop to another host does not get the
  notification token. But the token is dropped only where the host changes: since every redirect
  starts from the headers of the first request, a second redirect within the other host gets it again.
\<close>

lemma redirect_token:
  assumes "a \<noteq> b"
  shows "length (send_chain t hosts) \<le> maxPushRedirects \<and>
    send_chain True [a, b] = [(a, True), (b, False)] \<and>
    send_chain True [a, b, b] = [(a, True), (b, False), (b, True)]"
proof -
  have "length (send_chain t hosts) \<le> maxPushRedirects"
  proof (cases hosts)
    case (Cons h hs)
    with redirect_chain_length[of t "[h]" hs] show ?thesis
      by (simp add: send_chain_def maxPushRedirects_def)
  qed (simp add: send_chain_def)
  with assms show ?thesis
    by (auto simp: send_chain_def limitPushRedirects_def maxPushRedirects_def)
qed

lemma redirect_token_witness:
  "(''evil.example'', True) \<in> set (send_chain True [''agent.example'', ''evil.example'', ''evil.example''])"
  using redirect_token[of "''agent.example''" "''evil.example''"] by simp


end
