(* ===== verification/AgentExec.thy ===== *)
theory AgentExec
  imports UpdateManager Execution PushStore
begin

text \<open>
  \<open>a2asrv/agentexec.go\<close> and \<open>exectx.go\<close>: the factory that prepares an execution or a
  cancelation (it loads the task, adds the user's message to the history, saves a push configuration
  and makes the update manager) and the processor that takes each event of the agent into the task and
  decides the result. The agent, its interceptors and logging are not modelled beyond what they write.
\<close>

section \<open>Execution contexts\<close>

record executor_context =
  ec_Message :: "message option"
  ec_TaskID :: task_id
  ec_StoredTask :: "task option"
  ec_RelatedTasks :: "task list"
  ec_ContextID :: context_id
  ec_Metadata :: metadata
  ec_User :: "user option"
  ec_ServiceParams :: "(string, string list) fmap option"
  ec_Tenant :: string

definition ExecutorContext_TaskInfo :: "executor_context \<Rightarrow> task_info" where
  "ExecutorContext_TaskInfo ec = \<lparr>ti_TaskID = ec_TaskID ec, ti_ContextID = ec_ContextID ec\<rparr>"

text \<open>\<open>ReferencedTasksLoader.Intercept\<close>: references that cannot be loaded are skipped.\<close>

definition ReferencedTasksLoader_Intercept ::
  "'s store_ops \<Rightarrow> go_ctx \<Rightarrow> 's \<Rightarrow> executor_context \<Rightarrow> executor_context" where
  "ReferencedTasksLoader_Intercept ops ctx s ec =
     (case ec_Message ec of
        None \<Rightarrow> ec
      | Some msg \<Rightarrow>
          (let tasks = List.map_filter
                 (\<lambda>tid. case Get ops ctx tid s of Inl err \<Rightarrow> None | Inr st \<Rightarrow> Some (st_Task st))
                 (msg_ReferenceTasks msg)
           in if tasks = [] then ec else ec\<lparr>ec_RelatedTasks := tasks\<rparr>))"

text \<open>The user, parameters and tenant of the call, when the context has them.\<close>

definition with_call_context :: "go_ctx \<Rightarrow> executor_context \<Rightarrow> executor_context" where
  "with_call_context ctx ec =
     (case CallContextFrom ctx of
        None \<Rightarrow> ec
      | Some cc \<Rightarrow> ec\<lparr>ec_User := Some (cc_User cc), ec_ServiceParams := Some (cc_svcParams cc),
                     ec_Tenant := cc_tenant cc\<rparr>)"

section \<open>The factory\<close>

text \<open>
  The dependencies of the factory. \<open>fc_push\<close> is present when both the push store and the sender
  are. A nil dereference, which the handler excludes by its validation, is the error \<open>nil_panic\<close>.
\<close>

record ('s, 'p) factory =
  fc_store :: "'s store_ops"
  fc_push :: "'p push_store_ops option"
  fc_taskRetrySupported :: bool
  fc_materializer :: materializer

definition nil_panic :: go_error where
  "nil_panic = Errorf ''nil pointer dereference'' []"

type_synonym execution_context = "executor_context \<times> (addr \<times> stored_task) option"

definition createNewExecutionContext ::
  "string \<Rightarrow> task_id \<Rightarrow> send_request \<Rightarrow> message \<Rightarrow> execution_context" where
  "createNewExecutionContext uuid tid params msg =
     (\<lparr>ec_Message = Some msg, ec_TaskID = tid, ec_StoredTask = None, ec_RelatedTasks = [],
       ec_ContextID = (if msg_ContextID msg = '''' then uuid else msg_ContextID msg),
       ec_Metadata = req_Metadata params, ec_User = None, ec_ServiceParams = None, ec_Tenant = ''''\<rparr>, None)"

definition factory_updateHistory ::
  "('s, 'p) factory \<Rightarrow> go_ctx \<Rightarrow> task \<Rightarrow> task_version \<Rightarrow> message \<Rightarrow> 's \<Rightarrow>
     's \<times> (go_error + task \<times> task_version)" where
  "factory_updateHistory f ctx task version message s =
     (case mat_fn (fc_materializer f) task (EMessage message) of
        Inl err \<Rightarrow> (s, Inl (Errorf ''apply event: %w'' [err]))
      | Inr None \<Rightarrow> (s, Inl (Errorf ''bug: task materializer returned nil task for %T'' []))
      | Inr (Some newTask) \<Rightarrow>
          (case Update (fc_store f) ctx \<lparr>upd_Task = newTask, upd_Event = EMessage message,
                   upd_PrevTask = task, upd_PrevVersion = version\<rparr> s of
             (s', Inl err) \<Rightarrow> (s', Inl (Errorf ''store update: %w'' [err]))
           | (s', Inr newVersion) \<Rightarrow> (s', Inr (newTask, newVersion))))"

text \<open>The context for an existing task; \<open>a\<close> is the address of the tracked task.\<close>

definition existing_context ::
  "send_request \<Rightarrow> message \<Rightarrow> addr \<Rightarrow> task \<Rightarrow> task \<Rightarrow> task_version \<Rightarrow> execution_context" where
  "existing_context params message a storedTask trackedTask version =
     (\<lparr>ec_Message = Some message, ec_TaskID = task_ID storedTask, ec_StoredTask = Some storedTask,
       ec_RelatedTasks = [], ec_ContextID = task_ContextID storedTask,
       ec_Metadata = req_Metadata params, ec_User = None, ec_ServiceParams = None,
       ec_Tenant = req_Tenant params\<rparr>,
      Some (a, \<lparr>st_Task = trackedTask, st_Version = version, st_User = ''''\<rparr>))"

definition loadExecutionContext ::
  "('s, 'p) factory \<Rightarrow> string \<Rightarrow> addr \<Rightarrow> go_ctx \<Rightarrow> task_id \<Rightarrow> send_request \<Rightarrow> 's \<Rightarrow>
     's \<times> (go_error + execution_context)" where
  "loadExecutionContext f uuid a ctx tid params s =
     (case req_Message params of
        None \<Rightarrow> (s, Inl nil_panic)
      | Some message \<Rightarrow>
          if msg_TaskID message = '''' \<and> \<not> fc_taskRetrySupported f
          then (s, Inr (createNewExecutionContext uuid tid params message))
          else
            (case Get (fc_store f) ctx tid s of
               Inl err \<Rightarrow>
                 (if msg_TaskID message = '''' \<and> errors_Is err ErrTaskNotFound
                  then (s, Inr (createNewExecutionContext uuid tid params message))
                  else (s, Inl (Errorf ''task loading failed: %w'' [err])))
             | Inr st \<Rightarrow>
                 (let storedTask = st_Task st
                  in if msg_TaskID message \<noteq> '''' \<and> msg_TaskID message \<noteq> tid
                     then (s, Inl (Errorf ''bug: message task id different from executor task id'' []))
                     else if msg_ContextID message \<noteq> '''' \<and> msg_ContextID message \<noteq> task_ContextID storedTask
                     then (s, Inl (Errorf ''message contextID different from task contextID: %w''
                                     [Sentinel ErrInvalidParams]))
                     else if Terminal (ts_State (task_Status storedTask))
                     then (s, Inl (Errorf ''task in a terminal state %q: %w'' [Sentinel ErrUnsupportedOperation]))
                     else if list_ex (\<lambda>m. msg_ID m = msg_ID message) (task_History storedTask)
                     then (s, Inr (existing_context params message a storedTask storedTask (st_Version st)))
                     else
                       (case factory_updateHistory f ctx storedTask (st_Version st) message s of
                          (s', Inl err) \<Rightarrow> (s', Inl (Errorf ''history update: %w'' [err]))
                        | (s', Inr (trackedTask, lastVersion)) \<Rightarrow>
                            if mat_full (fc_materializer f)
                            then (s', Inr (existing_context params message a trackedTask trackedTask lastVersion))
                            else (case ApplyShallowUpdate storedTask (EMessage message) of
                                    Inl err \<Rightarrow> (s', Inl (Errorf ''history update: %w'' [err]))
                                  | Inr full \<Rightarrow>
                                      (s', Inr (existing_context params message a full trackedTask lastVersion)))))))"

text \<open>\<open>CreateExecutor\<close>: the state is that of the task store and that of the push store.\<close>

definition CreateExecutor ::
  "('s, 'p) factory \<Rightarrow> string \<Rightarrow> string \<Rightarrow> addr \<Rightarrow> go_ctx \<Rightarrow> task_id \<Rightarrow> send_request \<Rightarrow> 's \<times> 'p \<Rightarrow>
     ('s \<times> 'p) \<times> (go_error + executor_context \<times> manager)" where
  "CreateExecutor f uuid push_uuid a ctx tid params = (\<lambda>(s, ps).
     (case loadExecutionContext f uuid a ctx tid params s of
        (s', Inl err) \<Rightarrow> ((s', ps), Inl (Errorf ''failed to load exec ctx: %w'' [err]))
      | (s', Inr (ec0, task)) \<Rightarrow>
          (let ec = with_call_context ctx ec0;
               saved = (case req_Config params of
                  None \<Rightarrow> (ps, None)
                | Some cfg \<Rightarrow>
                    (case cfg_PushConfig cfg of
                       None \<Rightarrow> (ps, None)
                     | Some pc \<Rightarrow>
                         (case fc_push f of
                            None \<Rightarrow> (ps, Some (Errorf ''bug: message with push config received bug push is not configured: %w''
                                           [Sentinel ErrPushNotificationNotSupported]))
                          | Some push \<Rightarrow>
                              (case push_Save push push_uuid tid pc ps of
                                 (ps', Inl err) \<Rightarrow> (ps', Some (Errorf ''failed to save push config for task %s: %w'' [err]))
                               | (ps', Inr c) \<Rightarrow> (ps', None)))))
           in case saved of
                (ps', Some err) \<Rightarrow> ((s', ps'), Inl err)
              | (ps', None) \<Rightarrow>
                  (case NewManager (ExecutorContext_TaskInfo ec) task (Some (fc_materializer f)) of
                     Inl err \<Rightarrow> ((s', ps'), Inl (Errorf ''taskupdate manager: %w'' [err]))
                   | Inr mgr \<Rightarrow> ((s', ps'), Inr (ec, mgr))))))"

definition CreateCanceler ::
  "('s, 'p) factory \<Rightarrow> addr \<Rightarrow> go_ctx \<Rightarrow> cancel_request \<Rightarrow> 's \<Rightarrow> go_error + executor_context \<times> task \<times> manager" where
  "CreateCanceler f a ctx params s =
     (case Get (fc_store f) ctx (cancel_ID params) s of
        Inl err \<Rightarrow> Inl (Errorf ''failed to load a task: %w'' [err])
      | Inr st \<Rightarrow>
          (let task = st_Task st; state = ts_State (task_Status task)
           in if Terminal state \<and> state \<noteq> TaskStateCanceled
              then Inl (Errorf ''task in non-cancelable state %s: %w'' [Sentinel ErrTaskNotCancelable])
              else
                (let ec = with_call_context ctx
                       \<lparr>ec_Message = None, ec_TaskID = task_ID task, ec_StoredTask = Some task,
                        ec_RelatedTasks = [], ec_ContextID = task_ContextID task,
                        ec_Metadata = cancel_Metadata params, ec_User = None, ec_ServiceParams = None,
                        ec_Tenant = ''''\<rparr>
                 in case NewManager (ExecutorContext_TaskInfo ec)
                           (Some (a, \<lparr>st_Task = task, st_Version = st_Version st, st_User = ''''\<rparr>))
                           (Some (fc_materializer f)) of
                      Inl err \<Rightarrow> Inl (Errorf ''taskupdate manager: %w'' [err])
                    | Inr mgr \<Rightarrow> Inr (ec, task, mgr))))"

text \<open>
  What a canceler and an executor write to the pipe: the events of the agent up to its first error or
  the first failed write. A task that is canceled already is written as it is.
\<close>

fun write_all ::
  "(event \<Rightarrow> go_error option) \<Rightarrow> (go_error + event) list \<Rightarrow> event list \<times> go_error option" where
  "write_all write [] = ([], None)"
| "write_all write (Inl err # es) = ([], Some err)"
| "write_all write (Inr e # es) =
     (case write e of
        Some err \<Rightarrow> ([], Some err)
      | None \<Rightarrow> (let (ws, r) = write_all write es in (e # ws, r)))"

text \<open>The interceptors run first; the first that fails ends the call.\<close>

fun run_interceptors ::
  "(go_ctx \<Rightarrow> executor_context \<Rightarrow> (go_error + go_ctx) \<times> executor_context) list \<Rightarrow> go_ctx \<Rightarrow>
     executor_context \<Rightarrow> (go_error + go_ctx) \<times> executor_context" where
  "run_interceptors [] ctx ec = (Inr ctx, ec)"
| "run_interceptors (i # is) ctx ec =
     (case i ctx ec of
        (Inl err, ec') \<Rightarrow> (Inl (Errorf ''interceptor failed: %w'' [err]), ec')
      | (Inr ctx', ec') \<Rightarrow> run_interceptors is ctx' ec')"

definition executor_Execute ::
  "(go_ctx \<Rightarrow> executor_context \<Rightarrow> (go_error + go_ctx) \<times> executor_context) list \<Rightarrow>
     (go_ctx \<Rightarrow> executor_context \<Rightarrow> (go_error + event) list) \<Rightarrow> (event \<Rightarrow> go_error option) \<Rightarrow>
     go_ctx \<Rightarrow> executor_context \<Rightarrow> event list \<times> go_error option" where
  "executor_Execute is agent write ctx ec =
     (case run_interceptors is ctx ec of
        (Inl err, ec') \<Rightarrow> ([], Some err)
      | (Inr ctx', ec') \<Rightarrow> write_all write (agent ctx' ec'))"

definition canceler_Cancel ::
  "(go_ctx \<Rightarrow> executor_context \<Rightarrow> (go_error + go_ctx) \<times> executor_context) list \<Rightarrow>
     (go_ctx \<Rightarrow> executor_context \<Rightarrow> (go_error + event) list) \<Rightarrow> (event \<Rightarrow> go_error option) \<Rightarrow> addr \<Rightarrow> task \<Rightarrow>
     go_ctx \<Rightarrow> executor_context \<Rightarrow> event list \<times> go_error option" where
  "canceler_Cancel is agent write a task ctx ec =
     (if ts_State (task_Status task) = TaskStateCanceled then write_all write [Inr (ETask a task)]
      else (case run_interceptors is ctx ec of
              (Inl err, ec') \<Rightarrow> ([], Some err)
            | (Inr ctx', ec') \<Rightarrow> write_all write (agent ctx' ec')))"

section \<open>The processor\<close>

text \<open>
  Push notifications: the configurations of the task (or the error of listing them) and the answer of
  the sender; \<open>None\<close> when push is not configured. The result names the configurations that were
  sent to.
\<close>

record push_env =
  pe_List :: "go_error + push_config list"
  pe_SendPush :: "push_config \<Rightarrow> event \<Rightarrow> go_error option"

fun send_each ::
  "(push_config \<Rightarrow> event \<Rightarrow> go_error option) \<Rightarrow> push_config list \<Rightarrow> event \<Rightarrow> push_config list \<times> go_error option" where
  "send_each send [] e = ([], None)"
| "send_each send (c # cs) e =
     (case send c e of
        Some err \<Rightarrow> ([c], Some err)
      | None \<Rightarrow> (let (sent, r) = send_each send cs e in (c # sent, r)))"

definition sendPushNotifications :: "push_env option \<Rightarrow> event \<Rightarrow> push_config list \<times> go_error option" where
  "sendPushNotifications pe event =
     (case pe of
        None \<Rightarrow> ([], None)
      | Some p \<Rightarrow>
          (case pe_List p of
             Inl err \<Rightarrow> ([], Some err)
           | Inr configs \<Rightarrow> send_each (pe_SendPush p) configs event))"

record 's processor =
  pc_store :: "'s store_ops"
  pc_materializer :: materializer
  pc_push :: "push_env option"
  pc_taskID :: task_id

definition loadResult ::
  "'s processor \<Rightarrow> go_ctx \<Rightarrow> manager \<Rightarrow> 's \<Rightarrow> go_error + processor_result" where
  "loadResult p ctx mgr s =
     (case InMemorySnapshot (pc_materializer p) mgr of
        Some st \<Rightarrow> Inr \<lparr>pres_ExecutionResult = Some (RTask (st_Task st)),
                       pres_ExecutionFailureCause = None, pres_TaskVersion = st_Version st,
                       pres_EventOverride = None\<rparr>
      | None \<Rightarrow>
          (case Get (pc_store p) ctx (pc_taskID p) s of
             Inl err \<Rightarrow> Inl err
           | Inr st \<Rightarrow> Inr \<lparr>pres_ExecutionResult = Some (RTask (st_Task st)),
                           pres_ExecutionFailureCause = None, pres_TaskVersion = st_Version st,
                           pres_EventOverride = None\<rparr>))"

text \<open>\<open>a\<close> is the address of the task that is broadcast instead of the event.\<close>

definition setTaskFailed ::
  "'s processor \<Rightarrow> gotime \<Rightarrow> addr \<Rightarrow> go_ctx \<Rightarrow> go_error \<Rightarrow> manager \<Rightarrow> 's \<Rightarrow>
     manager \<times> 's \<times> (go_error + processor_result)" where
  "setTaskFailed p now a ctx cause mgr s =
     (case SetTaskFailed (pc_store p) (pc_materializer p) now ctx mgr s of
        (mgr', s', Some err) \<Rightarrow> (mgr', s', Inl (Errorf ''set failed: %w: %w'' [err, cause]))
      | (mgr', s', None) \<Rightarrow>
          (case loadResult p ctx mgr' s' of
             Inl err \<Rightarrow> (mgr', s', Inl (Errorf ''set failed result: %w: %w'' [err, cause]))
           | Inr result \<Rightarrow>
               (mgr', s', Inr (result\<lparr>
                  pres_EventOverride := map_option (result_event a) (pres_ExecutionResult result),
                  pres_ExecutionFailureCause := Some cause\<rparr>))))"

definition processor_ProcessError ::
  "'s processor \<Rightarrow> gotime \<Rightarrow> go_ctx \<Rightarrow> go_error \<Rightarrow> manager \<Rightarrow> 's \<Rightarrow> manager \<times> 's \<times> outcome" where
  "processor_ProcessError p now ctx cause mgr s =
     (case SetTaskFailed (pc_store p) (pc_materializer p) now ctx mgr s of
        (mgr', s', Some err) \<Rightarrow> (mgr', s', (None, Some (Errorf ''set failed: %w: %w'' [err, cause])))
      | (mgr', s', None) \<Rightarrow>
          (case loadResult p ctx mgr' s' of
             Inl err \<Rightarrow> (mgr', s', (None, Some (Errorf ''set failed result: %w: %w'' [err, cause])))
           | Inr result \<Rightarrow> (mgr', s', (pres_ExecutionResult result, None))))"

text \<open>\<open>mid\<close> is what other writers do between a refused update and the reading of the task.\<close>

definition processor_Process ::
  "'s processor \<Rightarrow> gotime \<Rightarrow> addr \<Rightarrow> (nat \<Rightarrow> ('s \<Rightarrow> 's) \<times> ('s \<Rightarrow> 's)) \<Rightarrow> ('s \<Rightarrow> 's) \<Rightarrow> go_ctx \<Rightarrow> event \<Rightarrow>
     manager \<Rightarrow> 's \<Rightarrow> manager \<times> 's \<times> (go_error + processor_result)" where
  "processor_Process p now a env mid ctx event mgr s =
     (case Process (pc_store p) (pc_materializer p) env ctx event mgr s of
        (mgr1, s1, Inl processingErr) \<Rightarrow>
          if errors_Is processingErr ErrConcurrentModification
          then (let s2 = mid s1
                in case Get (pc_store p) ctx (pc_taskID p) s2 of
                     Inl err \<Rightarrow> (mgr1, s2, Inl (Errorf ''failed to load a task: %w: %w'' [err, processingErr]))
                   | Inr st \<Rightarrow>
                       if \<not> Terminal (ts_State (task_Status (st_Task st)))
                       then (mgr1, s2, Inl (Errorf ''parallel active execution: %w'' [processingErr]))
                       else (mgr1, s2, Inr \<lparr>pres_ExecutionResult = Some (RTask (st_Task st)),
                               pres_ExecutionFailureCause = Some processingErr,
                               pres_TaskVersion = st_Version st,
                               pres_EventOverride = Some (ETask a (st_Task st))\<rparr>))
          else setTaskFailed p now a ctx processingErr mgr1 s1
      | (mgr1, s1, Inr version) \<Rightarrow>
          (case event of
             EMessage msg \<Rightarrow>
               (case snd (sendPushNotifications (pc_push p) event) of
                  Some err \<Rightarrow> (mgr1, s1, Inl (Errorf ''failed to send push notification for message response: %w'' [err]))
                | None \<Rightarrow> (mgr1, s1, Inr \<lparr>pres_ExecutionResult = Some (RMessage msg),
                            pres_ExecutionFailureCause = None, pres_TaskVersion = TaskVersionMissing,
                            pres_EventOverride = None\<rparr>))
           | _ \<Rightarrow>
               (case snd (sendPushNotifications (pc_push p) event) of
                  Some err \<Rightarrow> setTaskFailed p now a ctx err mgr1 s1
                | None \<Rightarrow>
                    if \<not> IsFinal event
                    then (mgr1, s1, Inr \<lparr>pres_ExecutionResult = None, pres_ExecutionFailureCause = None,
                            pres_TaskVersion = version, pres_EventOverride = None\<rparr>)
                    else (case loadResult p ctx mgr1 s1 of
                            Inl err \<Rightarrow> (mgr1, s1, Inl (Errorf ''load result: %w'' [err]))
                          | Inr result \<Rightarrow> (mgr1, s1, Inr result)))))"

section \<open>Results are what the store holds\<close>

lemma updateStatus_loop_info:
  "updateStatus_loop ops mat env ctx e n mgr s = (mgr', s', res) \<Longrightarrow> mgr_taskInfo mgr' = mgr_taskInfo mgr"
proof (induction n arbitrary: mgr s)
  case (Suc n)
  obtain mgr1 s1 r where a: "mgr_apply ops mat ctx (EStatus e) mgr s = (mgr1, s1, r)"
    by (metis prod_cases3)
  have "mgr_taskInfo mgr1 = mgr_taskInfo mgr"
    using a by (auto simp: mgr_apply_def split: option.splits sum.splits prod.splits)
  with Suc.prems a show ?case
    by (cases r) (auto simp: Let_def split: sum.splits if_splits dest!: Suc.IH)
qed auto

lemma Process_info:
  "Process ops mat env ctx ev mgr s = (mgr', s', res) \<Longrightarrow> mgr_taskInfo mgr' = mgr_taskInfo mgr"
  by (auto simp: Process_def mgr_create_def mgr_apply_def updateStatus_def dest: updateStatus_loop_info
      split: event.splits if_splits option.splits sum.splits prod.splits)

lemma SetTaskFailedE:
  assumes "SetTaskFailed ops mat now ctx mgr s = (mgr', s', None)"
  obtains v where "mgr_tracked mgr \<noteq> None" "\<not> Terminal (mgr_state mgr)"
    "mgr_apply ops mat ctx (EStatus (NewStatusUpdateEvent now (mgr_taskInfo mgr) TaskStateFailed None))
       mgr s = (mgr', s', Inr v)"
  using assms by (auto simp: SetTaskFailed_def split: if_splits prod.splits sum.splits)

text \<open>The tracked task, if there is one, is the managed one.\<close>

definition tracks_own :: "manager \<Rightarrow> bool" where
  "tracks_own mgr = (case mgr_tracked mgr of None \<Rightarrow> True | Some t \<Rightarrow> task_ID t = ti_TaskID (mgr_taskInfo mgr))"

lemma tracks_ownD: "tracks_own mgr \<Longrightarrow> mgr_tracked mgr = Some t \<Longrightarrow> task_ID t = ti_TaskID (mgr_taskInfo mgr)"
  by (simp add: tracks_own_def)

context task_store_ids begin

lemma synced_tracks: "synced ops ctx mgr s \<Longrightarrow> tracks_own mgr"
  by (simp add: synced_def tracks_own_def split: option.splits)

lemma mgr_apply_keeps:
  assumes "inv s" "mat_keeps_id mat" "tracks_own mgr" "mgr_apply ops mat ctx ev mgr s = (mgr', s', res)"
  shows "inv s' \<and> tracks_own mgr'"
proof (cases res)
  case (Inl e)
  have "s' = s" using assms(4) Inl update_err
    by (auto simp: mgr_apply_def split: option.splits sum.splits prod.splits)
  with Inl assms mgr_apply_err show ?thesis by metis
next
  case (Inr v)
  from mgr_apply_synced[OF assms(1) assms(4)[unfolded Inr] assms(2) tracks_ownD[OF assms(3)]]
  show ?thesis using synced_tracks by blast
qed

lemma updateStatus_loop_keeps:
  assumes env: "\<And>n s. inv s \<Longrightarrow> inv (fst (env n) s) \<and> inv (snd (env n) s)"
    and mat: "mat_keeps_id mat" and id: "se_TaskID e = ti_TaskID (mgr_taskInfo mgr)"
  shows "updateStatus_loop ops mat env ctx e n mgr s = (mgr', s', res) \<Longrightarrow> inv s \<Longrightarrow>
    tracks_own mgr \<Longrightarrow> inv s' \<and> tracks_own mgr'"
  using id
proof (induction n arbitrary: mgr s)
  case (Suc n)
  obtain mgr1 s1 r where a: "mgr_apply ops mat ctx (EStatus e) mgr s = (mgr1, s1, r)"
    by (metis prod_cases3)
  from mgr_apply_keeps[OF Suc.prems(2) mat Suc.prems(3) a] have k: "inv s1" "tracks_own mgr1" by auto
  show ?case
  proof (cases r)
    case (Inr v)
    with Suc.prems(1) a k show ?thesis by simp
  next
    case (Inl err)
    with a mgr_apply_err have m: "mgr1 = mgr" by metis
    let ?s2 = "fst (env n) s1"
    from env k(1) have i: "inv ?s2" "inv (snd (env n) ?s2)" by blast+
    have tr: "tracks_own (track (st_Task st) v x mgr)" if "Get ops ctx (se_TaskID e) ?s2 = Inr st" for st v x
      using get_id[OF i(1) that] Suc.prems(4) by (simp add: tracks_own_def)
    from Suc.prems(1) a Inl m k i tr Suc.prems(4) show ?thesis
      by (auto simp: Let_def split: sum.splits if_splits dest!: Suc.IH[OF _ i(2)])
  qed
qed auto

lemma Process_keeps:
  assumes env: "\<And>n s. inv s \<Longrightarrow> inv (fst (env n) s) \<and> inv (snd (env n) s)"
    and mat: "mat_keeps_id mat" and s: "inv s" and tr: "tracks_own mgr"
    and p: "Process ops mat env ctx ev mgr s = (mgr', s', res)"
  shows "inv s' \<and> tracks_own mgr'"
proof -
  have create: "inv x \<and> tracks_own m"
    if "mgr_create ops ctx t mgr s = (m, x, r)" "mgr_validate mgr (Task_TaskInfo t) = None" for t m x r
  proof (cases r)
    case (Inl e)
    with that(1) s tr show ?thesis
      by (auto simp: mgr_create_def dest!: create_err split: sum.splits prod.splits)
  next
    case (Inr v)
    with mgr_create_synced[OF s, of ctx t mgr m x v] that synced_tracks show ?thesis
      by (auto simp: mgr_validate_None Task_TaskInfo_def)
  qed
  have upd: "inv x \<and> tracks_own m" if "mgr_apply ops mat ctx e mgr s = (m, x, r)" for e m x r
    using mgr_apply_keeps[OF s mat tr that] .
  have st: "inv x \<and> tracks_own m"
    if "updateStatus ops mat env ctx e mgr s = (m, x, r)"
      "mgr_validate mgr (event_TaskInfo (EStatus e)) = None" for e m x r
    using updateStatus_loop_keeps[where env = env, OF env mat _ _ s tr] that
    by (auto simp: updateStatus_def mgr_validate_None)
  show ?thesis using p s tr
    by (auto simp: Process_def split: event.splits option.splits if_splits dest: create upd st)
qed

text \<open>
  With a materializer of full snapshots, a task that an execution ends with is the one the store
  holds when it ends, with its version.
\<close>

lemma processor_result_stored:
  assumes env: "\<And>n s. inv s \<Longrightarrow> inv (fst (env n) s) \<and> inv (snd (env n) s)"
    and p: "pc_store p = ops" "mat_keeps_id (pc_materializer p)" "mat_full (pc_materializer p)"
      "pc_taskID p = ti_TaskID (mgr_taskInfo mgr)"
    and s: "inv s" "synced ops ctx mgr s"
    and r: "processor_Process p now a env mid ctx ev mgr s = (mgr', s', Inr res)"
      "pres_ExecutionResult res = Some (RTask t)"
  shows "\<exists>st. Get ops ctx (pc_taskID p) s' = Inr st \<and> st_Task st = t \<and>
    st_Version st = pres_TaskVersion res"
proof -
  obtain mgr1 s1 q where pr: "Process ops (pc_materializer p) env ctx ev mgr s = (mgr1, s1, q)"
    by (metis prod_cases3)
  from Process_keeps[where env = env, OF env p(2) s(1) synced_tracks[OF s(2)] pr]
  have k: "inv s1" "tracks_own mgr1" by auto
  from Process_info[OF pr] have info: "mgr_taskInfo mgr1 = mgr_taskInfo mgr" .
  have loaded: ?thesis if "loadResult p ctx m x = Inr res'" "synced ops ctx m x" "s' = x"
      "pres_ExecutionResult res' = Some (RTask t)" "pres_TaskVersion res' = pres_TaskVersion res"
      "mgr_taskInfo m = mgr_taskInfo mgr" for m x res'
    using that p by (auto simp: loadResult_def InMemorySnapshot_def synced_def split: option.splits sum.splits)
  have failed: ?thesis if "setTaskFailed p now a ctx cause mgr1 s1 = (mgr', s', Inr res)" for cause
  proof -
    from that obtain m x res' where sf: "SetTaskFailed ops (pc_materializer p) now ctx mgr1 s1 = (m, x, None)"
      and l: "loadResult p ctx m x = Inr res'" "s' = x"
      and res': "pres_ExecutionResult res' = pres_ExecutionResult res"
        "pres_TaskVersion res' = pres_TaskVersion res"
      using p(1) by (auto simp: setTaskFailed_def split: prod.splits option.splits sum.splits)
    from sf show ?thesis
    proof (rule SetTaskFailedE)
      fix v assume ap: "mgr_apply ops (pc_materializer p) ctx
        (EStatus (NewStatusUpdateEvent now (mgr_taskInfo mgr1) TaskStateFailed None)) mgr1 s1 = (m, x, Inr v)"
      from mgr_apply_synced[OF k(1) ap p(2) tracks_ownD[OF k(2)]] have "synced ops ctx m x" by blast
      moreover from ap info have "mgr_taskInfo m = mgr_taskInfo mgr" by (auto elim!: mgr_applyE)
      ultimately show ?thesis using loaded l res' r(2) by simp
    qed
  qed
  show ?thesis
  proof (cases q)
    case (Inl err)
    show ?thesis
    proof (cases "errors_Is err ErrConcurrentModification")
      case True
      with r pr p(1) Inl show ?thesis
        by (simp add: processor_Process_def Let_def split: if_splits sum.splits)
           auto
    next
      case False
      with r pr p(1) Inl have "setTaskFailed p now a ctx err mgr1 s1 = (mgr', s', Inr res)"
        by (simp add: processor_Process_def)
      then show ?thesis by (rule failed)
    qed
  next
    case (Inr v)
    have "synced ops ctx mgr1 s1" if "\<And>m. ev \<noteq> EMessage m"
    proof (cases "Terminal (mgr_state mgr)")
      case True
      from Process_terminal[OF True that, of ops "pc_materializer p" env ctx s] pr
      have "mgr1 = mgr" "s1 = s" by simp_all
      with s(2) show ?thesis by simp
    next
      case False
      from Process_synced[where env = env, OF env p(2) s(1) False that tracks_ownD[OF synced_tracks[OF s(2)]]
          pr[unfolded Inr]]
      show ?thesis by blast
    qed
    note sy = this
    have nm: "ev \<noteq> EMessage m" for m
      using r pr Inr p(1) by (auto simp: processor_Process_def split: option.splits)
    have res: "(case snd (sendPushNotifications (pc_push p) ev) of
        Some err \<Rightarrow> setTaskFailed p now a ctx err mgr1 s1
      | None \<Rightarrow> if \<not> IsFinal ev
          then (mgr1, s1, Inr \<lparr>pres_ExecutionResult = None, pres_ExecutionFailureCause = None,
                  pres_TaskVersion = v, pres_EventOverride = None\<rparr>)
          else (case loadResult p ctx mgr1 s1 of
                  Inl err \<Rightarrow> (mgr1, s1, Inl (Errorf ''load result: %w'' [err]))
                | Inr result \<Rightarrow> (mgr1, s1, Inr result))) = (mgr', s', Inr res)"
    proof (cases ev)
      case (EMessage m)
      with nm show ?thesis by blast
    qed (use r(1) pr Inr p(1) in
         \<open>simp_all add: processor_Process_def del: IsFinal_simps split: option.splits if_splits\<close>)
    show ?thesis
    proof (cases "snd (sendPushNotifications (pc_push p) ev)")
      case (Some err)
      with res failed show ?thesis by simp
    next
      case None
      with res r(2) have "loadResult p ctx mgr1 s1 = Inr res" "s' = s1"
        by (auto split: if_splits sum.splits)
      with loaded[OF _ sy[OF nm] _ r(2) refl info] show ?thesis by blast
    qed
  qed
qed

end

section \<open>A retried message\<close>

lemma full_event_message:
  "mat_fn full_event_materializer t (EMessage m) = Inr r \<Longrightarrow>
     r = Some (applyShallowHistoryUpdate t m)"
  by (auto simp: full_event_materializer_def NewFullUpdateMaterializer_def ApplyUpdate_Inr
      ApplyShallowUpdate_def split: sum.splits option.splits)

lemma factory_updateHistoryE:
  assumes "factory_updateHistory f ctx t v m s = (s', Inr (t', v'))"
    and "fc_materializer f = full_event_materializer"
  obtains "t' = applyShallowHistoryUpdate t m"
    "Update (fc_store f) ctx \<lparr>upd_Task = t', upd_Event = EMessage m, upd_PrevTask = t, upd_PrevVersion = v\<rparr> s =
       (s', Inr v')"
  using assms full_event_message
  by (fastforce simp: factory_updateHistory_def split: sum.splits option.splits prod.splits)

lemma full_event_materializer_full [simp]: "mat_full full_event_materializer"
  by (simp add: full_event_materializer_def NewFullUpdateMaterializer_def)

text \<open>What the loading of an existing task has checked and done.\<close>

lemma loadExecutionContext_existingE:
  assumes "loadExecutionContext f uuid a ctx tid params s = (s', Inr (ec, Some x))"
    and "fc_materializer f = full_event_materializer"
  obtains m st t' v' where "req_Message params = Some m" "Get (fc_store f) ctx tid s = Inr st"
    "msg_TaskID m = '''' \<longrightarrow> fc_taskRetrySupported f" "msg_TaskID m \<noteq> '''' \<longrightarrow> msg_TaskID m = tid"
    "msg_ContextID m \<noteq> '''' \<longrightarrow> msg_ContextID m = task_ContextID (st_Task st)"
    "\<not> Terminal (ts_State (task_Status (st_Task st)))"
    "(ec, Some x) = existing_context params m a t' t' v'"
    "if list_ex (\<lambda>h. msg_ID h = msg_ID m) (task_History (st_Task st))
     then s' = s \<and> t' = st_Task st \<and> v' = st_Version st
     else t' = applyShallowHistoryUpdate (st_Task st) m \<and>
       Update (fc_store f) ctx \<lparr>upd_Task = t', upd_Event = EMessage m, upd_PrevTask = st_Task st,
         upd_PrevVersion = st_Version st\<rparr> s = (s', Inr v')"
proof -
  from assms(1) obtain m where m: "req_Message params = Some m"
    by (auto simp: loadExecutionContext_def split: option.splits)
  from assms(1) m have nr: "msg_TaskID m = '''' \<longrightarrow> fc_taskRetrySupported f"
    by (auto simp: loadExecutionContext_def createNewExecutionContext_def simp del: Let_def split: if_splits)
  from assms(1) m nr obtain st where g: "Get (fc_store f) ctx tid s = Inr st"
    by (cases "Get (fc_store f) ctx tid s")
       (auto simp: loadExecutionContext_def createNewExecutionContext_def split: if_splits)
  note l = assms(1)[unfolded loadExecutionContext_def m option.case g sum.case Let_def]
  from l nr have c: "msg_TaskID m \<noteq> '''' \<longrightarrow> msg_TaskID m = tid"
    "msg_ContextID m \<noteq> '''' \<longrightarrow> msg_ContextID m = task_ContextID (st_Task st)"
    "\<not> Terminal (ts_State (task_Status (st_Task st)))" by (auto split: if_splits)
  show ?thesis
  proof (cases "list_ex (\<lambda>h. msg_ID h = msg_ID m) (task_History (st_Task st))")
    case True
    with l nr c that[OF m g nr c, of "st_Task st" "st_Version st"] show ?thesis by (auto split: if_splits)
  next
    case False
    with l nr c assms(2) obtain t' v' where
      "factory_updateHistory f ctx (st_Task st) (st_Version st) m s = (s', Inr (t', v'))"
      "(ec, Some x) = existing_context params m a t' t' v'"
      by (auto split: if_splits prod.splits sum.splits)
    with factory_updateHistoryE[OF this(1) assms(2)] that[OF m g nr c, of t' v'] False show ?thesis by auto
  qed
qed

lemma history_with_status_mem: "x \<in> set (task_History t) \<Longrightarrow> x \<in> set (history_with_status t)"
  by (simp add: history_with_status_def split: option.splits)

context task_store_ids begin

lemma loadExecutionContext_retry:
  assumes f: "fc_store f = ops" "fc_materializer f = full_event_materializer" and s: "inv s"
    and l: "loadExecutionContext f uuid a ctx tid params s = (s', Inr (ec, Some x))"
  shows "inv s' \<and> loadExecutionContext f uuid' a ctx tid params s' = (s', Inr (ec, Some x)) \<and>
    (\<exists>st. Get ops ctx tid s' = Inr st \<and> ec_StoredTask ec = Some (st_Task st) \<and>
       snd x = st\<lparr>st_User := ''''\<rparr> \<and>
       (\<exists>m. req_Message params = Some m \<and> msg_ID m \<in> msg_ID ` set (task_History (st_Task st))))"
  using l f(2)
proof (rule loadExecutionContext_existingE)
  fix m st t' v'
  assume m: "req_Message params = Some m" and g: "Get (fc_store f) ctx tid s = Inr st"
    and c: "msg_TaskID m = '''' \<longrightarrow> fc_taskRetrySupported f" "msg_TaskID m \<noteq> '''' \<longrightarrow> msg_TaskID m = tid"
    "msg_ContextID m \<noteq> '''' \<longrightarrow> msg_ContextID m = task_ContextID (st_Task st)"
    "\<not> Terminal (ts_State (task_Status (st_Task st)))"
    and ec: "(ec, Some x) = existing_context params m a t' t' v'"
    and upd: "if list_ex (\<lambda>h. msg_ID h = msg_ID m) (task_History (st_Task st))
     then s' = s \<and> t' = st_Task st \<and> v' = st_Version st
     else t' = applyShallowHistoryUpdate (st_Task st) m \<and>
       Update (fc_store f) ctx \<lparr>upd_Task = t', upd_Event = EMessage m, upd_PrevTask = st_Task st,
         upd_PrevVersion = st_Version st\<rparr> s = (s', Inr v')"
  from get_id[OF s] g f(1) have tid: "task_ID (st_Task st) = tid" by simp
  have "\<exists>st'. inv s' \<and> Get ops ctx tid s' = Inr st' \<and> st_Task st' = t' \<and> st_Version st' = v' \<and>
      task_ContextID t' = task_ContextID (st_Task st) \<and> task_Status t' = task_Status (st_Task st) \<and>
      list_ex (\<lambda>h. msg_ID h = msg_ID m) (task_History t')"
  proof (cases "list_ex (\<lambda>h. msg_ID h = msg_ID m) (task_History (st_Task st))")
    case True
    with upd g f(1) s show ?thesis by auto
  next
    case False
    with upd f(1) have t': "t' = applyShallowHistoryUpdate (st_Task st) m"
      and u: "Update ops ctx \<lparr>upd_Task = t', upd_Event = EMessage m, upd_PrevTask = st_Task st,
         upd_PrevVersion = st_Version st\<rparr> s = (s', Inr v')" by auto
    from update_visible[OF s u] update_inv[OF s u] t' tid show ?thesis by auto
  qed
  then obtain st' where st': "inv s'" "Get ops ctx tid s' = Inr st'" "st_Task st' = t'" "st_Version st' = v'"
    "task_ContextID t' = task_ContextID (st_Task st)" "task_Status t' = task_Status (st_Task st)"
    "list_ex (\<lambda>h. msg_ID h = msg_ID m) (task_History t')" by blast
  have "loadExecutionContext f uuid' a ctx tid params s' = (s', Inr (existing_context params m a t' t' v'))"
    using m c st' f(1) by (auto simp: loadExecutionContext_def Let_def)
  moreover from st'(7) have "msg_ID m \<in> msg_ID ` set (task_History t')" by (auto simp: list_ex_iff intro: rev_image_eqI)
  ultimately show ?thesis using st' ec m by (auto simp: existing_context_def)
qed

end

section \<open>Properties\<close>


text \<open>
  When the agent or the queue fails while a task is tracked and unfinished, the task is moved to
  the failed state: the store and the manager hold the failed task, its artifacts, its history and
  metadata are kept, it is the result of the execution, and no event can change it afterwards.
\<close>

lemma ProcessError_fails_task:
  assumes p: "pc_store p = in_memory_ops cfg tf" "pc_materializer p = full_event_materializer"
    and s: "im_inv s" "synced (in_memory_ops cfg tf) ctx mgr s"
    and mgr: "mgr_ok mgr" "mgr_tracked mgr = Some t" "Task_TaskInfo t = mgr_taskInfo mgr"
      "\<not> Terminal (mgr_state mgr)"
  shows "\<exists>mgr' s' t' st. processor_ProcessError p now ctx cause mgr s = (mgr', s', (Some (RTask t'), None)) \<and>
    ts_State (task_Status t') = TaskStateFailed \<and> task_Artifacts t' = task_Artifacts t \<and>
    task_History t' = history_with_status t \<and> task_Metadata t' = task_Metadata t \<and>
    mgr_tracked mgr' = Some t' \<and> im_Get cfg ctx (task_ID t) s' = Inr st \<and> st_Task st = t' \<and>
    (\<forall>(ops :: 'z store_ops) mat env ctx ev x. (\<forall>m. ev \<noteq> EMessage m) \<longrightarrow>
       fst (Process ops mat env ctx ev mgr' x) = mgr' \<and> fst (snd (Process ops mat env ctx ev mgr' x)) = x)"
proof -
  let ?e = "NewStatusUpdateEvent now (mgr_taskInfo mgr) TaskStateFailed None"
  let ?t' = "applyShallowStatusUpdate t ?e"
  from mgr s obtain st where st: "im_Get cfg ctx (task_ID t) s = Inr st" "st_Task st = t"
    "st_Version st = mgr_version mgr" by (auto simp: synced_def)
  with mem_live.get_acceptable[OF s(1)] have ok: "storable t" by fastforce
  have nt: "\<not> Terminal (ts_State (task_Status t))" using mgr by (simp add: mgr_ok_def)
  have e: "event_storable (EStatus ?e)" by (simp add: NewStatusUpdateEvent_def validateMeta_def)
  have info: "Task_TaskInfo t = event_TaskInfo (EStatus ?e)"
    by (simp add: mgr(3) NewStatusUpdateEvent_def)
  have a: "ApplyShallowUpdate t (EStatus ?e) = Inr ?t'"
    using nt info by (simp add: ApplyShallowUpdate_def validateUpdate_def Let_def)
  with ApplyUpdate_keeps_storable[OF ok e] have mat: "mat_fn full_event_materializer t (EStatus ?e) = Inr (Some ?t')"
    and ok': "storable ?t'"
    by (simp_all add: full_event_materializer_def NewFullUpdateMaterializer_def)
  let ?r = "\<lparr>upd_Task = ?t', upd_Event = EStatus ?e, upd_PrevTask = t, upd_PrevVersion = mgr_version mgr\<rparr>"
  from im_Update_conflict(2)[OF s(1), of cfg ctx ?r] st ok' obtain s' v where
    u: "im_Update cfg ctx ?r s = (s', Inr v)" by auto
  have ap: "mgr_apply (in_memory_ops cfg tf) full_event_materializer ctx (EStatus ?e) mgr s =
      (track ?t' v TaskStateFailed mgr, s', Inr v)"
    using mgr(2) mat u by (simp add: mgr_apply_def NewStatusUpdateEvent_def)
  have "processor_ProcessError p now ctx cause mgr s =
      (track ?t' v TaskStateFailed mgr, s', (Some (RTask ?t'), None))"
    using p mgr(2,4) ap by (simp add: processor_ProcessError_def SetTaskFailed_def loadResult_def InMemorySnapshot_def)
  moreover have "ts_State (task_Status ?t') = TaskStateFailed" by (simp add: NewStatusUpdateEvent_def)
  moreover have "task_Metadata ?t' = task_Metadata t"
    by (simp add: applyShallowStatusUpdate_def NewStatusUpdateEvent_def)
  moreover obtain st' where "im_Get cfg ctx (task_ID t) s' = Inr st'" "st_Task st' = ?t'"
    using mem.update_visible[OF s(1), of cfg tf ctx ?r s' v] u by auto
  moreover have "Process ops mat env ctx ev (track ?t' v TaskStateFailed mgr) x =
      (track ?t' v TaskStateFailed mgr, x, snd (snd (Process ops mat env ctx ev (track ?t' v TaskStateFailed mgr) x)))"
    if "\<forall>m. ev \<noteq> EMessage m" for ops :: "'z store_ops" and mat env ctx ev x
    using Process_terminal[of "track ?t' v TaskStateFailed mgr" ev ops mat env ctx x] that by simp
  ultimately show ?thesis by (metis fst_conv snd_conv track_simps(1) applyShallowStatusUpdate_simps(3,5))
qed

text \<open>
  Preparing an execution for a message to an existing task is idempotent: after a success the
  message is in the history of the stored task that the agent gets, and preparing it again, as a retry
  does, changes nothing and gives the same context, the same task and the same version.
\<close>

lemma loadExecutionContext_idempotent:
  assumes "fc_store f = in_memory_ops cfg tf" "fc_materializer f = full_event_materializer" "im_inv s"
    and "loadExecutionContext f uuid a ctx tid params s = (s', Inr (ec, Some x))"
  shows "im_inv s' \<and> loadExecutionContext f uuid' a ctx tid params s' = (s', Inr (ec, Some x)) \<and>
    (\<exists>st. im_Get cfg ctx tid s' = Inr st \<and> ec_StoredTask ec = Some (st_Task st) \<and>
       snd x = st\<lparr>st_User := ''''\<rparr> \<and>
       (\<exists>m. req_Message params = Some m \<and> msg_ID m \<in> msg_ID ` set (task_History (st_Task st))))"
  using mem_ids.loadExecutionContext_retry[OF assms] by simp

text \<open>
  A message to a finished task is refused as an unsupported operation and changes nothing, with
  every store and every materializer; a message that names no task and is not retried never reads the
  store and starts a new task under the id that was chosen for it.
\<close>

lemma loadExecutionContext_admission:
  assumes "req_Message params = Some m" "msg_TaskID m = tid \<or> msg_TaskID m = ''''"
  shows "msg_TaskID m = '''' \<and> \<not> fc_taskRetrySupported f \<and>
      loadExecutionContext f uuid a ctx tid params s = (s, Inr (createNewExecutionContext uuid tid params m)) \<or>
    \<not> (msg_TaskID m = '''' \<and> \<not> fc_taskRetrySupported f) \<and>
      (\<forall>st. Get (fc_store f) ctx tid s = Inr st \<and> Terminal (ts_State (task_Status (st_Task st))) \<and>
         (msg_ContextID m = '''' \<or> msg_ContextID m = task_ContextID (st_Task st)) \<longrightarrow>
         (\<exists>e. loadExecutionContext f uuid a ctx tid params s = (s, Inl e) \<and> errors_Is e ErrUnsupportedOperation))"
  using assms by (auto simp: loadExecutionContext_def Let_def)

text \<open>
  A canceler is made exactly for the tasks the caller can read that are unfinished or canceled
  already; otherwise the error says that the task cannot be canceled (or was not found). The manager
  of the cancelation starts in step with the store.
\<close>

lemma CreateCanceler_iff:
  assumes "fc_store f = in_memory_ops cfg tf" "im_inv s"
  shows "((\<exists>r. CreateCanceler f a ctx params s = Inr r) \<longleftrightarrow>
      (\<exists>st. im_Get cfg ctx (cancel_ID params) s = Inr st \<and>
        (Terminal (ts_State (task_Status (st_Task st))) \<longrightarrow>
           ts_State (task_Status (st_Task st)) = TaskStateCanceled))) \<and>
    (\<forall>ec t mgr. CreateCanceler f a ctx params s = Inr (ec, t, mgr) \<longrightarrow>
      synced (in_memory_ops cfg tf) ctx mgr s \<and> mgr_ok mgr \<and> mgr_tracked mgr = Some t \<and>
      Task_TaskInfo t = mgr_taskInfo mgr \<and> ec_StoredTask ec = Some t) \<and>
    (\<forall>e. CreateCanceler f a ctx params s = Inl e \<longrightarrow>
      errors_Is e ErrTaskNotCancelable \<or> (\<exists>e'. im_Get cfg ctx (cancel_ID params) s = Inl e'))"
proof (cases "im_Get cfg ctx (cancel_ID params) s")
  case (Inl e)
  with assms(1) show ?thesis by (simp add: CreateCanceler_def)
next
  case (Inr st)
  let ?t = "st_Task st"
  from Inr mem_live.get_acceptable[OF assms(2)] have "gob_task ?t" by (fastforce simp: storable_def)
  moreover from Inr mem_ids.get_id[OF assms(2)] have "task_ID ?t = cancel_ID params" by fastforce
  moreover have "ec_TaskID (with_call_context ctx ec) = ec_TaskID ec"
    "ec_ContextID (with_call_context ctx ec) = ec_ContextID ec"
    "ec_StoredTask (with_call_context ctx ec) = ec_StoredTask ec" for ec
    by (simp_all add: with_call_context_def split: option.splits)
  ultimately show ?thesis using Inr assms(1)
    by (auto simp: CreateCanceler_def Let_def NewManager_def DeepCopy_task_def synced_def mgr_ok_def
        ExecutorContext_TaskInfo_def Task_TaskInfo_def)
qed

section \<open>Witnesses\<close>

definition ex_proc :: "in_memory processor" where
  "ex_proc = \<lparr>pc_store = in_memory_ops ex_cfg unary_format, pc_materializer = full_event_materializer,
     pc_push = None, pc_taskID = ''a''\<rparr>"

definition ex_factory :: "(in_memory, unit) factory" where
  "ex_factory = \<lparr>fc_store = in_memory_ops ex_cfg unary_format, fc_push = None,
     fc_taskRetrySupported = False, fc_materializer = full_event_materializer\<rparr>"

definition ex_user_message :: message where
  "ex_user_message = \<lparr>msg_ID = ''m'', msg_ContextID = ''c'', msg_Extensions = [], msg_Metadata = None,
     msg_Parts = [], msg_ReferenceTasks = [], msg_Role = MessageRoleUser, msg_TaskID = ''a''\<rparr>"

definition ex_send :: send_request where
  "ex_send = \<lparr>req_Tenant = '''', req_Config = None, req_Message = Some ex_user_message, req_Metadata = None\<rparr>"

definition ex_done :: status_event where
  "ex_done = NewStatusUpdateEvent 0 \<lparr>ti_TaskID = ''a'', ti_ContextID = ''c''\<rparr> TaskStateCompleted None"

lemma ex_synced: "synced (in_memory_ops ex_cfg tf) background (ex_mgr\<lparr>mgr_version := 1\<rparr>) ex_store"
  by (simp add: synced_def ex_mgr_def ex_get)

lemma ex_task_info: "Task_TaskInfo (ex_task ''a'') = mgr_taskInfo (ex_mgr\<lparr>mgr_version := 1\<rparr>)"
  by (simp add: ex_mgr_def)

lemma ProcessError_fails_task_witness:
  "\<exists>mgr' s' t'. processor_ProcessError ex_proc 5 background (Errorf ''agent'' []) (ex_mgr\<lparr>mgr_version := 1\<rparr>)
     ex_store = (mgr', s', (Some (RTask t'), None)) \<and> ts_State (task_Status t') = TaskStateFailed"
proof -
  have h: "pc_store ex_proc = in_memory_ops ex_cfg unary_format" "pc_materializer ex_proc = full_event_materializer"
    "mgr_ok (ex_mgr\<lparr>mgr_version := 1\<rparr>)" "mgr_tracked (ex_mgr\<lparr>mgr_version := 1\<rparr>) = Some (ex_task ''a'')"
    "\<not> Terminal (mgr_state (ex_mgr\<lparr>mgr_version := 1\<rparr>))"
    by (simp_all add: ex_proc_def ex_mgr_def mgr_ok_def)
  from ProcessError_fails_task[OF h(1,2) ex_store_inv ex_synced h(3,4) ex_task_info h(5), of 5 "Errorf ''agent'' []"]
  show ?thesis by (elim exE conjE) (intro exI conjI; assumption)
qed

lemma ex_done_applied:
  "mat_fn full_event_materializer (ex_task ''a'') (EStatus ex_done) =
     Inr (Some (applyShallowStatusUpdate (ex_task ''a'') ex_done)) \<and>
   storable (applyShallowStatusUpdate (ex_task ''a'') ex_done)"
proof -
  have "ApplyShallowUpdate (ex_task ''a'') (EStatus ex_done) =
      Inr (applyShallowStatusUpdate (ex_task ''a'') ex_done)"
    by (simp add: ApplyShallowUpdate_def validateUpdate_def Let_def ex_done_def NewStatusUpdateEvent_def)
  with ApplyUpdate_keeps_storable[of "ex_task ''a''" "EStatus ex_done"] show ?thesis
    by (simp add: full_event_materializer_def NewFullUpdateMaterializer_def ex_done_def
        NewStatusUpdateEvent_def validateMeta_def)
qed


lemma loadExecutionContext_idempotent_witness:
  "\<exists>s' ec x. loadExecutionContext ex_factory '''' 0 background ''a'' ex_send ex_store = (s', Inr (ec, Some x)) \<and>
    loadExecutionContext ex_factory '''' 0 background ''a'' ex_send s' = (s', Inr (ec, Some x))"
proof -
  let ?t' = "applyShallowHistoryUpdate (ex_task ''a'') ex_user_message"
  let ?r = "\<lparr>upd_Task = ?t', upd_Event = EMessage ex_user_message, upd_PrevTask = ex_task ''a'',
     upd_PrevVersion = 1\<rparr>"
  have m: "message_ok ex_user_message" by (simp add: message_ok_def ex_user_message_def validateMeta_def)
  have a: "ApplyShallowUpdate (ex_task ''a'') (EMessage ex_user_message) = Inr ?t'"
    by (simp add: ApplyShallowUpdate_def validateUpdate_def Let_def ex_user_message_def
        Message_TaskInfo_def)
  with ApplyUpdate_keeps_storable[of "ex_task ''a''" "EMessage ex_user_message"] m
  have mat: "mat_fn full_event_materializer (ex_task ''a'') (EMessage ex_user_message) = Inr (Some ?t')"
    and ok: "storable ?t'"
    by (simp_all add: full_event_materializer_def NewFullUpdateMaterializer_def)
  obtain s' v where u: "im_Update ex_cfg background ?r ex_store = (s', Inr v)"
    using im_Update_conflict(2)[OF ex_store_inv, of ex_cfg background ?r] ex_get ok by auto
  have "loadExecutionContext ex_factory '''' 0 background ''a'' ex_send ex_store =
      (s', Inr (existing_context ex_send ex_user_message 0 ?t' ?t' v))"
    using mat u ex_get
    by (simp add: loadExecutionContext_def ex_factory_def ex_send_def factory_updateHistory_def Let_def)
       (simp add: ex_user_message_def ex_task_def)
  then obtain ec x where l: "loadExecutionContext ex_factory '''' 0 background ''a'' ex_send ex_store =
      (s', Inr (ec, Some x))" by (auto simp: existing_context_def)
  from loadExecutionContext_idempotent[OF _ _ ex_store_inv l] l show ?thesis
    by (auto simp: ex_factory_def)
qed

lemma loadExecutionContext_admission_witness:
  "loadExecutionContext ex_factory ''new'' 0 background ''t''
      (ex_send\<lparr>req_Message := Some (ex_user_message\<lparr>msg_TaskID := ''''\<rparr>)\<rparr>) ex_store =
   (ex_store, Inr (createNewExecutionContext ''new'' ''t''
      (ex_send\<lparr>req_Message := Some (ex_user_message\<lparr>msg_TaskID := ''''\<rparr>)\<rparr>) (ex_user_message\<lparr>msg_TaskID := ''''\<rparr>)))"
  using loadExecutionContext_admission[of "ex_send\<lparr>req_Message := Some (ex_user_message\<lparr>msg_TaskID := ''''\<rparr>)\<rparr>"
      "ex_user_message\<lparr>msg_TaskID := ''''\<rparr>" "''t''" ex_factory "''new''" 0 background ex_store]
  by (simp add: ex_factory_def)

lemma CreateCanceler_iff_witness:
  "\<exists>r. CreateCanceler ex_factory 0 background \<lparr>cancel_Tenant = '''', cancel_ID = ''a'', cancel_Metadata = None\<rparr>
     ex_store = Inr r"
  using CreateCanceler_iff[OF _ ex_store_inv, of ex_factory ex_cfg unary_format 0 background
      "\<lparr>cancel_Tenant = '''', cancel_ID = ''a'', cancel_Metadata = None\<rparr>"] ex_get
  by (simp add: ex_factory_def)

end
