(* ===== verification/WorkQueue.thy ===== *)
theory WorkQueue
  imports Core Limiter
begin

text \<open>
  \<open>a2asrv/workqueue\<close>: payloads, leases, the counting semaphore and the three work queues. The
  in-memory queue and the polling queue start goroutines; their steps are relations. Calls to the
  handler, and the read of a message from a polled queue, are what a step is given.
\<close>

section \<open>Payloads\<close>

definition PayloadTypeExecute :: string where
  [go_consts]: "PayloadTypeExecute = ''execute''"

definition PayloadTypeCancel :: string where
  [go_consts]: "PayloadTypeCancel = ''cancel''"

record payload =
  pl_Type :: string
  pl_TaskID :: task_id
  pl_CancelRequest :: "cancel_request option"
  pl_ExecuteRequest :: "send_request option"
  pl_CallContext :: metadata

section \<open>The semaphore (semaphore.go)\<close>

text \<open>A channel with a buffer: its capacity (\<open>None\<close>: nil, no limit) and the number of its elements.\<close>

record semaphore =
  sem_cap :: "nat option"
  sem_used :: nat

definition newSemaphore :: "int \<Rightarrow> semaphore" where
  "newSemaphore maxConcurrency =
     (if maxConcurrency \<le> 0 then \<lparr>sem_cap = None, sem_used = 0\<rparr>
      else \<lparr>sem_cap = Some (nat maxConcurrency), sem_used = 0\<rparr>)"

text \<open>\<open>acquire\<close> blocks where \<open>tryAcquire\<close> answers false; \<open>release\<close> blocks on an empty channel.\<close>

definition tryAcquire :: "semaphore \<Rightarrow> semaphore option" where
  "tryAcquire s =
     (case sem_cap s of
        None \<Rightarrow> Some s
      | Some c \<Rightarrow> if sem_used s < c then Some (s\<lparr>sem_used := Suc (sem_used s)\<rparr>) else None)"

definition sem_release :: "semaphore \<Rightarrow> semaphore option" where
  "sem_release s =
     (case sem_cap s of
        None \<Rightarrow> Some s
      | Some c \<Rightarrow> (case sem_used s of 0 \<Rightarrow> None | Suc n \<Rightarrow> Some (s\<lparr>sem_used := n\<rparr>)))"

text \<open>The semaphore counts the \<open>n\<close> holders and is within its limit.\<close>

definition sem_holds :: "semaphore \<Rightarrow> nat \<Rightarrow> bool" where
  "sem_holds s n = (case sem_cap s of None \<Rightarrow> True | Some c \<Rightarrow> sem_used s = n \<and> n \<le> c)"

lemma sem_holds_new [simp]: "sem_holds (newSemaphore m) 0"
  by (simp add: sem_holds_def newSemaphore_def)

lemma tryAcquire_holds: "tryAcquire s = Some s' \<Longrightarrow> sem_holds s n \<Longrightarrow> sem_holds s' (Suc n) \<and> sem_cap s' = sem_cap s"
  by (auto simp: tryAcquire_def sem_holds_def split: option.splits if_splits)

lemma tryAcquire_None: "tryAcquire s = None \<Longrightarrow> sem_holds s n \<Longrightarrow> sem_cap s = Some n"
  by (auto simp: tryAcquire_def sem_holds_def split: option.splits if_splits)

lemma sem_release_holds:
  "sem_release s = Some s' \<Longrightarrow> sem_holds s (Suc n) \<Longrightarrow> sem_holds s' n \<and> sem_cap s' = sem_cap s"
  by (auto simp: sem_release_def sem_holds_def split: option.splits nat.splits)

lemma sem_release_enabled: "sem_holds s (Suc n) \<Longrightarrow> sem_release s \<noteq> None"
  by (auto simp: sem_release_def sem_holds_def split: option.splits nat.splits)

section \<open>Leases (lease.go)\<close>

text \<open>What a lease is for: a kind of work (\<open>True\<close>: an execution) on a task.\<close>

type_synonym lease_key = "bool \<times> task_id"

definition payload_key :: "payload \<Rightarrow> lease_key" where
  "payload_key p = (pl_Type p = PayloadTypeExecute, pl_TaskID p)"

text \<open>The \<open>LeaseManager\<close> interface; a released lease is a closure over the manager.\<close>

record ('s, 'l) lease_ops =
  Acquire :: "payload \<Rightarrow> 's \<Rightarrow> 's \<times> (go_error + 'l)"
  Release :: "'l \<Rightarrow> 's \<Rightarrow> 's"
  lease_TaskID :: "'l \<Rightarrow> task_id"

text \<open>
  The in-memory manager. A lease token is the address of an empty struct; Go leaves open whether
  distinct allocations of size zero have distinct addresses, so the address of the \<open>n\<close>-th
  allocation is given by the argument \<open>alloc\<close>.
\<close>

record lease_manager =
  lm_executions :: "(task_id, addr) fmap"
  lm_cancelations :: "(task_id, addr) fmap"
  lm_allocations :: nat

record lease =
  lease_key :: lease_key
  lease_token :: addr

definition NewInMemoryLeaseManager :: lease_manager where
  "NewInMemoryLeaseManager = \<lparr>lm_executions = fmempty, lm_cancelations = fmempty, lm_allocations = 0\<rparr>"

definition lm_acquire ::
  "(nat \<Rightarrow> addr) \<Rightarrow> payload \<Rightarrow> lease_manager \<Rightarrow> lease_manager \<times> (go_error + lease)" where
  "lm_acquire alloc p q0 =
     (let leaseToken = alloc (lm_allocations q0);
          q = q0\<lparr>lm_allocations := Suc (lm_allocations q0)\<rparr>;
          tid = pl_TaskID p;
          l = \<lparr>lease_key = payload_key p, lease_token = leaseToken\<rparr>
      in if pl_Type p = PayloadTypeExecute
         then (if fmlookup (lm_executions q) tid \<noteq> None then (q, Inl (Sentinel ErrLeaseAlreadyTaken))
               else if fmlookup (lm_cancelations q) tid \<noteq> None
               then (q, Inl (Errorf ''task is being canceled: %w'' [Sentinel ErrLeaseAlreadyTaken]))
               else (q\<lparr>lm_executions := fmupd tid leaseToken (lm_executions q)\<rparr>, Inr l))
         else (if fmlookup (lm_cancelations q) tid \<noteq> None then (q, Inl (Sentinel ErrLeaseAlreadyTaken))
               else (q\<lparr>lm_cancelations := fmupd tid leaseToken (lm_cancelations q)\<rparr>, Inr l)))"

definition lm_table :: "bool \<Rightarrow> lease_manager \<Rightarrow> (task_id, addr) fmap" where
  "lm_table execute q = (if execute then lm_executions q else lm_cancelations q)"

definition lm_release :: "lease \<Rightarrow> lease_manager \<Rightarrow> lease_manager" where
  "lm_release l q =
     (let (execute, tid) = lease_key l
      in if fmlookup (lm_table execute q) tid = Some (lease_token l)
         then (if execute then q\<lparr>lm_executions := fmdrop tid (lm_executions q)\<rparr>
               else q\<lparr>lm_cancelations := fmdrop tid (lm_cancelations q)\<rparr>)
         else q)"

definition in_memory_leases :: "(nat \<Rightarrow> addr) \<Rightarrow> (lease_manager, lease) lease_ops" where
  "in_memory_leases alloc =
     \<lparr>Acquire = lm_acquire alloc, Release = lm_release, lease_TaskID = (\<lambda>l. snd (lease_key l))\<rparr>"

section \<open>The in-memory queue (inmemory.go)\<close>

text \<open>
  The queue after \<open>RegisterHandler\<close>: the leases, the quota, the handlers that run (with their
  leases) and the number of goroutines between the release of the lease and that of the quota.
\<close>

record ('s, 'l) work_queue =
  wq_leases :: 's
  wq_quota :: semaphore
  wq_running :: "('l \<times> payload) list"
  wq_ending :: nat

definition wq_registered :: "'s \<Rightarrow> int \<Rightarrow> ('s, 'l) work_queue" where
  "wq_registered s maxExecutions =
     \<lparr>wq_leases = s, wq_quota = newSemaphore maxExecutions, wq_running = [], wq_ending = 0\<rparr>"

definition wq_Write ::
  "('s, 'l) lease_ops \<Rightarrow> payload \<Rightarrow> ('s, 'l) work_queue \<Rightarrow> ('s, 'l) work_queue \<times> (go_error + task_id)" where
  "wq_Write ops p q =
     (case Acquire ops p (wq_leases q) of
        (s, Inl err) \<Rightarrow> (q\<lparr>wq_leases := s\<rparr>, Inl (Errorf ''failed to acquire a lease: %w'' [err]))
      | (s, Inr l) \<Rightarrow>
          (case tryAcquire (wq_quota q) of
             None \<Rightarrow> (q\<lparr>wq_leases := Release ops l s\<rparr>, Inl (Sentinel ErrConcurrencyLimitExceeded))
           | Some quota \<Rightarrow>
               (q\<lparr>wq_leases := s, wq_quota := quota, wq_running := wq_running q @ [(l, p)]\<rparr>,
                Inr (lease_TaskID ops l))))"

text \<open>The deferred calls of the goroutine whose handler has returned: the lease, then the quota.\<close>

definition wq_release_lease ::
  "('s, 'l) lease_ops \<Rightarrow> 'l \<times> payload \<Rightarrow> ('s, 'l) work_queue \<Rightarrow> ('s, 'l) work_queue" where
  "wq_release_lease ops lp q = q\<lparr>wq_leases := Release ops (fst lp) (wq_leases q),
     wq_running := remove1 lp (wq_running q), wq_ending := Suc (wq_ending q)\<rparr>"

inductive wq_reachable :: "('s, 'l) lease_ops \<Rightarrow> 's \<Rightarrow> int \<Rightarrow> ('s, 'l) work_queue \<Rightarrow> bool"
  for ops :: "('s, 'l) lease_ops" and s0 :: 's and m :: int where
  wq_init: "wq_reachable ops s0 m (wq_registered s0 m)"
| wq_write: "wq_reachable ops s0 m q \<Longrightarrow> wq_reachable ops s0 m (fst (wq_Write ops p q))"
| wq_handled: "wq_reachable ops s0 m q \<Longrightarrow> lp \<in> set (wq_running q) \<Longrightarrow>
    wq_reachable ops s0 m (wq_release_lease ops lp q)"
| wq_ended: "wq_reachable ops s0 m q \<Longrightarrow> wq_ending q = Suc n \<Longrightarrow> sem_release (wq_quota q) = Some quota \<Longrightarrow>
    wq_reachable ops s0 m (q\<lparr>wq_quota := quota, wq_ending := n\<rparr>)"

section \<open>The push queue (pushqueue.go)\<close>

text \<open>The returned handler: its quota is held around the call of the registered one.\<close>

definition push_handler ::
  "(payload \<Rightarrow> go_error + 'r) \<Rightarrow> payload \<Rightarrow> semaphore \<Rightarrow> semaphore \<times> (go_error + 'r)" where
  "push_handler handlerFn p quota =
     (case tryAcquire quota of
        None \<Rightarrow> (quota, Inl (Sentinel ErrConcurrencyLimitExceeded))
      | Some held \<Rightarrow>
          (case sem_release held of
             Some quota' \<Rightarrow> (quota', handlerFn p)
           | None \<Rightarrow> (held, handlerFn p)))"

section \<open>The polling queue (pullqueue.go)\<close>

text \<open>What becomes of a message: \<open>Complete\<close>, \<open>Return\<close> or neither is called.\<close>

datatype disposition = Completed | Returned go_error | Untouched

record 'r pull_config =
  BeforeExecutionCallback :: "(go_ctx \<Rightarrow> payload \<Rightarrow> go_error + go_ctx) option"
  AfterExecutionCallback :: "(go_ctx \<Rightarrow> payload \<Rightarrow> go_error + 'r \<Rightarrow> go_error option) option"

text \<open>The result also says whether the handler was called.\<close>

definition handleMessage ::
  "'r pull_config \<Rightarrow> (go_ctx \<Rightarrow> payload \<Rightarrow> go_error + 'r) \<Rightarrow> go_ctx \<Rightarrow> payload \<Rightarrow> bool \<times> disposition" where
  "handleMessage cfg handlerFn ctx msg =
     (let before = (case BeforeExecutionCallback cfg of None \<Rightarrow> Inr ctx | Some f \<Rightarrow> f ctx msg)
      in case before of
           Inl err \<Rightarrow> (False, Untouched)
         | Inr ctx' \<Rightarrow>
             (let result = handlerFn ctx' msg
              in if (case AfterExecutionCallback cfg of None \<Rightarrow> None | Some f \<Rightarrow> f ctx' msg result) \<noteq> None
                 then (True, Untouched)
                 else (case result of
                         Inr r \<Rightarrow> (True, Completed)
                       | Inl err \<Rightarrow>
                           if errors_Is err ErrMalformedPayload then (True, Completed)
                           else (True, Returned err))))"

text \<open>
  The polling loop and the handlers it has started. \<open>pq_reading\<close>: the loop holds a quota and waits
  for a message. The trace has the answers of the reads, and \<open>pq_delays\<close> the arguments of the
  calls of \<open>NextDelay\<close>.
\<close>

record 'm pull_queue =
  pq_quota :: semaphore
  pq_reading :: bool
  pq_attempt :: nat
  pq_handlers :: "'m list"
  pq_started :: "'m list"
  pq_trace :: "(go_error + 'm) list"
  pq_delays :: "nat list"
  pq_closed :: bool
  pq_shutdown :: bool

definition pull_start :: "int \<Rightarrow> 'm pull_queue" where
  "pull_start maxExecutions = \<lparr>pq_quota = newSemaphore maxExecutions, pq_reading = False, pq_attempt = 0,
     pq_handlers = [], pq_started = [], pq_trace = [], pq_delays = [], pq_closed = False, pq_shutdown = False\<rparr>"

definition pull_read :: "go_error + 'm \<Rightarrow> semaphore \<Rightarrow> 'm pull_queue \<Rightarrow> 'm pull_queue" where
  "pull_read r released q0 =
     (let q = q0\<lparr>pq_reading := False, pq_trace := pq_trace q0 @ [r]\<rparr>
      in case r of
           Inl err \<Rightarrow>
             if errors_Is err ErrWorkQueueClosed then q\<lparr>pq_quota := released, pq_closed := True\<rparr>
             else q\<lparr>pq_quota := released, pq_delays := pq_delays q @ [pq_attempt q],
                    pq_attempt := Suc (pq_attempt q)\<rparr>
         | Inr msg \<Rightarrow> q\<lparr>pq_attempt := 0, pq_handlers := msg # pq_handlers q,
                        pq_started := pq_started q @ [msg]\<rparr>)"

inductive pull_reachable :: "int \<Rightarrow> 'm pull_queue \<Rightarrow> bool" for m :: int where
  pull_init: "pull_reachable m (pull_start m)"
| pull_acquire: "pull_reachable m q \<Longrightarrow> \<not> pq_reading q \<Longrightarrow> \<not> pq_closed q \<Longrightarrow>
    tryAcquire (pq_quota q) = Some quota \<Longrightarrow>
    pull_reachable m (q\<lparr>pq_quota := quota, pq_reading := True\<rparr>)"
| pull_answer: "pull_reachable m q \<Longrightarrow> pq_reading q \<Longrightarrow> sem_release (pq_quota q) = Some quota \<Longrightarrow>
    pull_reachable m (pull_read r quota q)"
| pull_done: "pull_reachable m q \<Longrightarrow> msg \<in> set (pq_handlers q) \<Longrightarrow> sem_release (pq_quota q) = Some quota \<Longrightarrow>
    pull_reachable m (q\<lparr>pq_quota := quota, pq_handlers := remove1 msg (pq_handlers q)\<rparr>)"
| pull_drained: "pull_reachable m q \<Longrightarrow> pq_closed q \<Longrightarrow> pq_handlers q = [] \<Longrightarrow>
    pull_reachable m (q\<lparr>pq_shutdown := True\<rparr>)"

section \<open>Backoff (retry.go)\<close>

text \<open>
  Durations in nanoseconds. The code computes in float64, which is exact here as long as the two
  configured durations are below \<open>2 ^ 53\<close> (104 days): a product with a power of two is exact or
  infinite. \<open>rnd n\<close> is \<open>rand.Int63n(n)\<close>.
\<close>

record read_backoff =
  BaseDelay :: int
  MaxDelay :: int

definition defaultExponentialBackoff :: read_backoff where
  "defaultExponentialBackoff = \<lparr>BaseDelay = 1000000000, MaxDelay = 30000000000\<rparr>"

definition backoff_cap :: "read_backoff \<Rightarrow> nat \<Rightarrow> int" where
  "backoff_cap e attempt = (let delay = BaseDelay e * 2 ^ attempt in if delay > MaxDelay e then MaxDelay e else delay)"

definition NextDelay :: "(int \<Rightarrow> int) \<Rightarrow> read_backoff \<Rightarrow> nat \<Rightarrow> int" where
  "NextDelay rnd e attempt = rnd (backoff_cap e attempt + 1)"

section \<open>The contract of a lease manager\<close>

text \<open>
  \<open>held\<close> is the set of keys that are leased and \<open>owns s l\<close> says that \<open>l\<close> is the current
  lease of its key. An execution needs that its task is neither executed nor canceled, a cancelation
  that it is not canceled; a refusal is \<open>ErrLeaseAlreadyTaken\<close> and changes no lease; releasing the
  current lease frees its key and no other.
\<close>

definition admits :: "lease_key set \<Rightarrow> lease_key \<Rightarrow> bool" where
  "admits ks k = (k \<notin> ks \<and> (fst k \<longrightarrow> (False, snd k) \<notin> ks))"

locale lease_manager =
  fixes ops :: "('s, 'l) lease_ops" and key :: "'l \<Rightarrow> lease_key"
    and held :: "'s \<Rightarrow> lease_key set" and owns :: "'s \<Rightarrow> 'l \<Rightarrow> bool"
  assumes acquire_ok: "\<And>p s s' l. Acquire ops p s = (s', Inr l) \<Longrightarrow>
      admits (held s) (payload_key p) \<and> key l = payload_key p \<and> held s' = insert (payload_key p) (held s) \<and>
      owns s' l \<and> lease_TaskID ops l = pl_TaskID p"
    and acquire_enabled: "\<And>p s. admits (held s) (payload_key p) \<Longrightarrow> \<exists>s' l. Acquire ops p s = (s', Inr l)"
    and acquire_err: "\<And>p s s' e. Acquire ops p s = (s', Inl e) \<Longrightarrow>
      held s' = held s \<and> errors_Is e ErrLeaseAlreadyTaken"
    and acquire_owns: "\<And>p s s' r l. Acquire ops p s = (s', r) \<Longrightarrow> owns s l \<Longrightarrow> owns s' l"
    and owns_held: "\<And>s l. owns s l \<Longrightarrow> key l \<in> held s"
    and release_held: "\<And>s l. owns s l \<Longrightarrow> held (Release ops l s) = held s - {key l}"
    and release_owns: "\<And>s l l'. owns s l' \<Longrightarrow> key l' \<noteq> key l \<Longrightarrow> owns (Release ops l s) l'"
begin

definition queue_ok :: "int \<Rightarrow> ('s, 'l) work_queue \<Rightarrow> bool" where
  "queue_ok m q \<longleftrightarrow>
     distinct (map (key \<circ> fst) (wq_running q)) \<and> held (wq_leases q) = (key \<circ> fst) ` set (wq_running q) \<and>
     (\<forall>lp \<in> set (wq_running q). owns (wq_leases q) (fst lp) \<and> key (fst lp) = payload_key (snd lp)) \<and>
     sem_holds (wq_quota q) (length (wq_running q) + wq_ending q) \<and> sem_cap (wq_quota q) = sem_cap (newSemaphore m)"

lemma write_refused:
  assumes "wq_Write ops p q = (q', Inl e)"
  shows "held (wq_leases q') = held (wq_leases q) \<and> wq_quota q' = wq_quota q \<and> wq_running q' = wq_running q \<and>
    wq_ending q' = wq_ending q"
proof (cases "Acquire ops p (wq_leases q)")
  case (Pair s r)
  show ?thesis
  proof (cases r)
    case (Inl err)
    with assms Pair have "q' = q\<lparr>wq_leases := s\<rparr>" by (simp add: wq_Write_def)
    with acquire_err[OF Pair[unfolded Inl]] show ?thesis by simp
  next
    case (Inr l)
    from acquire_ok[OF Pair[unfolded Inr]] have ok: "payload_key p \<notin> held (wq_leases q)"
      "key l = payload_key p" "held s = insert (payload_key p) (held (wq_leases q))" "owns s l"
      by (simp_all add: admits_def)
    from assms Pair Inr have "q' = q\<lparr>wq_leases := Release ops l s\<rparr>"
      by (cases "tryAcquire (wq_quota q)") (simp_all add: wq_Write_def)
    with release_held[OF ok(4)] ok(1-3) show ?thesis by simp
  qed
qed

lemma write_ok:
  assumes q: "queue_ok m q" and "wq_Write ops p q = (q', r)"
  shows "queue_ok m q'"
proof (cases "Acquire ops p (wq_leases q)")
  case (Pair s a)
  note acq = this
  show ?thesis
  proof (cases r)
    case (Inl e)
    have "owns (wq_leases q') l" if l: "owns (wq_leases q) l" for l
    proof (cases a)
      case (Inl err)
      with assms(2) acq acquire_owns[OF acq l] show ?thesis by (auto simp: wq_Write_def)
    next
      case (Inr l')
      from acquire_ok[OF acq[unfolded Inr]] owns_held[OF l] have "key l \<noteq> key l'"
        by (auto simp: admits_def)
      from release_owns[OF acquire_owns[OF acq l] this] assms(2) acq Inr \<open>r = Inl e\<close>
      show ?thesis by (auto simp: wq_Write_def split: option.splits)
    qed
    with write_refused[OF assms(2)[unfolded Inl]] q show ?thesis by (simp add: queue_ok_def)
  next
    case (Inr tid)
    with assms(2) acq obtain l quota where a: "a = Inr l" "tryAcquire (wq_quota q) = Some quota"
      "q' = q\<lparr>wq_leases := s, wq_quota := quota, wq_running := wq_running q @ [(l, p)]\<rparr>"
      by (auto simp: wq_Write_def split: sum.splits option.splits)
    from acquire_ok[OF acq[unfolded a(1)]] have ok: "admits (held (wq_leases q)) (payload_key p)"
      "key l = payload_key p" "held s = insert (payload_key p) (held (wq_leases q))" "owns s l" by auto
    from q tryAcquire_holds[OF a(2)] acquire_owns[OF acq] ok a(3) show ?thesis
      by (auto simp: queue_ok_def admits_def)
  qed
qed

lemma release_lease_ok:
  assumes q: "queue_ok m q" and lp: "lp \<in> set (wq_running q)"
  shows "queue_ok m (wq_release_lease ops lp q)"
proof -
  let ?xs = "wq_running q"
  from q have d: "distinct (map (key \<circ> fst) ?xs)" by (simp add: queue_ok_def)
  then have dx: "distinct ?xs" and inj: "inj_on (key \<circ> fst) (set ?xs)" by (auto simp: distinct_map)
  have keys: "(key \<circ> fst) ` set (remove1 lp ?xs) = (key \<circ> fst) ` set ?xs - {key (fst lp)}"
    using inj lp dx by (auto simp: inj_on_def)
  have "distinct (map (key \<circ> fst) (remove1 lp ?xs))"
    using dx inj by (auto simp: distinct_map intro: inj_on_subset)
  moreover have "held (Release ops (fst lp) (wq_leases q)) = (key \<circ> fst) ` set (remove1 lp ?xs)"
    using q lp keys by (simp add: queue_ok_def release_held)
  moreover have "owns (Release ops (fst lp) (wq_leases q)) (fst x)" if "x \<in> set (remove1 lp ?xs)" for x
  proof (rule release_owns)
    from that dx have x: "x \<in> set ?xs" "x \<noteq> lp" by auto
    with q show "owns (wq_leases q) (fst x)" by (simp add: queue_ok_def)
    from x lp inj show "key (fst x) \<noteq> key (fst lp)" by (auto simp: inj_on_def)
  qed
  moreover have "Suc (length (remove1 lp ?xs) + wq_ending q) = length ?xs + wq_ending q"
    using length_pos_if_in_set[OF lp] lp by (simp add: length_remove1)
  then have "sem_holds (wq_quota q) (Suc (length (remove1 lp ?xs) + wq_ending q))"
    using q by (simp only: queue_ok_def)
  ultimately show ?thesis using q dx by (simp add: queue_ok_def wq_release_lease_def)
qed

lemma reachable_ok: "wq_reachable ops s0 m q \<Longrightarrow> held s0 = {} \<Longrightarrow> queue_ok m q"
proof (induction rule: wq_reachable.induct)
  case wq_init
  then show ?case by (simp add: queue_ok_def wq_registered_def)
next
  case (wq_write q p)
  then show ?case using write_ok by (metis prod.collapse)
next
  case (wq_handled q lp)
  then show ?case using release_lease_ok by blast
next
  case (wq_ended q n quota)
  then show ?case using sem_release_holds[of "wq_quota q" quota "length (wq_running q) + n"]
    by (simp add: queue_ok_def)
qed

text \<open>
  The queue takes work exactly when the lease is free and the quota is not exhausted; nothing stays
  leased when no handler runs.
\<close>

lemma write_iff:
  assumes "queue_ok m q"
  shows "(\<exists>q' tid. wq_Write ops p q = (q', Inr tid)) \<longleftrightarrow>
    admits ((payload_key \<circ> snd) ` set (wq_running q)) (payload_key p) \<and>
    (m \<le> 0 \<or> int (length (wq_running q) + wq_ending q) < m)"
proof -
  have h: "held (wq_leases q) = (payload_key \<circ> snd) ` set (wq_running q)"
    using assms by (auto simp: queue_ok_def)
  have t: "tryAcquire (wq_quota q) \<noteq> None \<longleftrightarrow> m \<le> 0 \<or> int (length (wq_running q) + wq_ending q) < m"
    using assms by (auto simp: queue_ok_def sem_holds_def tryAcquire_def newSemaphore_def split: option.splits if_splits)
  show ?thesis
  proof (cases "Acquire ops p (wq_leases q)")
    case (Pair s a)
    then show ?thesis
      using acquire_ok[of p "wq_leases q" s] acquire_enabled[of "wq_leases q" p] h t
      by (cases a; cases "tryAcquire (wq_quota q)") (auto simp: wq_Write_def)
  qed
qed

end

section \<open>The in-memory leases keep the contract\<close>

definition lm_held :: "lease_manager \<Rightarrow> lease_key set" where
  "lm_held q = {(execute, tid). fmlookup (lm_table execute q) tid \<noteq> None}"

definition lm_owns :: "lease_manager \<Rightarrow> lease \<Rightarrow> bool" where
  "lm_owns q l = (fmlookup (lm_table (fst (lease_key l)) q) (snd (lease_key l)) = Some (lease_token l))"

lemma in_memory_leases_simps [simp]:
  "Acquire (in_memory_leases alloc) = lm_acquire alloc" "Release (in_memory_leases alloc) = lm_release"
  "lease_TaskID (in_memory_leases alloc) l = snd (lease_key l)"
  by (simp_all add: in_memory_leases_def)

lemma lm_table_acquired:
  "lm_acquire alloc p q = (q', Inr l) \<Longrightarrow> fmlookup (lm_table k q') tid =
     (if (k, tid) = payload_key p then Some (lease_token l) else fmlookup (lm_table k q) tid)"
  by (auto simp: lm_acquire_def lm_table_def payload_key_def Let_def split: if_splits)

lemma lm_table_refused: "lm_acquire alloc p q = (q', Inl e) \<Longrightarrow> lm_table k q' = lm_table k q"
  by (auto simp: lm_acquire_def lm_table_def Let_def split: if_splits)

lemma lm_acquire_iff:
  "(\<exists>q' l. lm_acquire alloc p q = (q', Inr l)) \<longleftrightarrow> admits (lm_held q) (payload_key p)"
  by (auto simp: lm_acquire_def admits_def lm_held_def lm_table_def payload_key_def Let_def)

lemma lm_table_released:
  "fmlookup (lm_table k (lm_release l q)) tid =
     (if (k, tid) = lease_key l \<and> fmlookup (lm_table k q) tid = Some (lease_token l) then None
      else fmlookup (lm_table k q) tid)"
  by (auto simp: lm_release_def lm_table_def Let_def split: prod.splits)

interpretation leases: lease_manager "in_memory_leases alloc" lease_key lm_held lm_owns
proof unfold_locales
  fix p and s s' :: lease_manager and l
  assume a: "Acquire (in_memory_leases alloc) p s = (s', Inr l)"
  from a lm_acquire_iff[of alloc p s] have "admits (lm_held s) (payload_key p)" by auto
  moreover from a have "lease_key l = payload_key p"
    by (auto simp: lm_acquire_def Let_def split: if_splits)
  moreover have "lm_held s' = insert (payload_key p) (lm_held s)"
    using a by (auto simp: lm_held_def lm_table_acquired split: if_splits)
  ultimately show "admits (lm_held s) (payload_key p) \<and> lease_key l = payload_key p \<and>
      lm_held s' = insert (payload_key p) (lm_held s) \<and> lm_owns s' l \<and>
      lease_TaskID (in_memory_leases alloc) l = pl_TaskID p"
    using a by (simp add: lm_owns_def lm_table_acquired) (simp add: payload_key_def)
next
  fix p and s s' :: lease_manager and r l
  assume a: "Acquire (in_memory_leases alloc) p s = (s', r)" and o: "lm_owns s l"
  show "lm_owns s' l"
  proof (cases r)
    case (Inl e)
    with a o show ?thesis by (simp add: lm_owns_def lm_table_refused)
  next
    case (Inr l')
    with a lm_acquire_iff[of alloc p s] have "payload_key p \<notin> lm_held s" by (auto simp: admits_def)
    with o have "lease_key l \<noteq> payload_key p" by (auto simp: lm_owns_def lm_held_def)
    with a o Inr show ?thesis by (auto simp: lm_owns_def lm_table_acquired prod_eq_iff)
  qed
next
  show "lm_held s' = lm_held s \<and> errors_Is e ErrLeaseAlreadyTaken"
    if "Acquire (in_memory_leases alloc) p s = (s', Inl e)" for p s s' e
    using that by (auto simp: lm_held_def lm_table_refused) (auto simp: lm_acquire_def Let_def split: if_splits)
next
  show "\<exists>s' l. Acquire (in_memory_leases alloc) p s = (s', Inr l)"
    if "admits (lm_held s) (payload_key p)" for p s
    using that lm_acquire_iff[of alloc p s] by simp
qed (auto simp: lm_owns_def lm_held_def lm_table_released prod_eq_iff)

section \<open>Invariant of the polling queue\<close>

text \<open>The number of failed reads since the last message.\<close>

definition failures :: "(go_error + 'm) list \<Rightarrow> nat" where
  "failures tr = length (takeWhile isl (rev tr))"

definition messages :: "(go_error + 'm) list \<Rightarrow> 'm list" where
  "messages tr = map projr (filter (\<lambda>r. \<not> isl r) tr)"

lemma failures_simps [simp]: "failures [] = 0" "failures (tr @ [Inl e]) = Suc (failures tr)"
  "failures (tr @ [Inr m]) = 0"
  by (simp_all add: failures_def)

lemma messages_simps [simp]: "messages [] = []" "messages (tr @ [Inl e]) = messages tr"
  "messages (tr @ [Inr m]) = messages tr @ [m]"
  by (simp_all add: messages_def)

definition pull_inv :: "int \<Rightarrow> 'm pull_queue \<Rightarrow> bool" where
  "pull_inv m q \<longleftrightarrow>
     sem_holds (pq_quota q) (length (pq_handlers q) + (if pq_reading q then 1 else 0)) \<and>
     sem_cap (pq_quota q) = sem_cap (newSemaphore m) \<and>
     pq_started q = messages (pq_trace q) \<and> mset (pq_handlers q) \<subseteq># mset (pq_started q) \<and>
     (\<not> pq_closed q \<longrightarrow> pq_attempt q = failures (pq_trace q)) \<and>
     (pq_closed q \<longrightarrow> \<not> pq_reading q) \<and> (pq_shutdown q \<longrightarrow> pq_closed q \<and> pq_handlers q = []) \<and>
     (\<forall>e. Inl e \<in> set (pq_trace q) \<and> errors_Is e ErrWorkQueueClosed \<longrightarrow> pq_closed q)"

lemma pull_read_inv:
  assumes "pull_inv m q" "pq_reading q" "sem_release (pq_quota q) = Some quota"
  shows "pull_inv m (pull_read r quota q)"
proof -
  from assms have h: "sem_holds (pq_quota q) (Suc (length (pq_handlers q)))" "\<not> pq_closed q" "\<not> pq_shutdown q"
    by (auto simp: pull_inv_def)
  from sem_release_holds[OF assms(3) h(1)] have r: "sem_holds quota (length (pq_handlers q))"
    "sem_cap quota = sem_cap (pq_quota q)" by auto
  show ?thesis
  proof (cases r)
    case (Inl err)
    with assms(1) h(2,3) r show ?thesis by (auto simp: pull_inv_def pull_read_def Let_def)
  next
    case (Inr msg)
    with assms(1) h r show ?thesis
      by (auto simp: pull_inv_def pull_read_def Let_def subset_mset.add_mono subset_mset.le_add_same_cancel1
          intro: subset_mset.order_trans)
  qed
qed

lemma pull_reachable_inv: "pull_reachable m q \<Longrightarrow> pull_inv m q"
proof (induction rule: pull_reachable.induct)
  case pull_init
  show ?case by (simp add: pull_inv_def pull_start_def)
next
  case (pull_acquire q quota)
  then show ?case using tryAcquire_holds[of "pq_quota q" quota "length (pq_handlers q)"]
    by (auto simp: pull_inv_def)
next
  case (pull_answer q quota r)
  then show ?case using pull_read_inv by blast
next
  case (pull_done q msg quota)
  from pull_done.hyps(2) obtain n where n: "length (pq_handlers q) = Suc n"
    by (cases "pq_handlers q") auto
  then have l: "length (remove1 msg (pq_handlers q)) = n" using pull_done.hyps(2) by (simp add: length_remove1)
  have "mset (remove1 msg (pq_handlers q)) \<subseteq># mset (pq_started q)"
    using pull_done.IH by (auto simp: pull_inv_def intro: subset_mset.order_trans diff_subset_eq_self)
  moreover have "sem_holds quota (length (remove1 msg (pq_handlers q)) + (if pq_reading q then 1 else 0)) \<and>
      sem_cap quota = sem_cap (pq_quota q)"
    using sem_release_holds[OF pull_done.hyps(3), of "n + (if pq_reading q then 1 else 0)"] pull_done.IH n
    unfolding l by (simp add: pull_inv_def)
  moreover have "pq_shutdown q \<longrightarrow> False" using pull_done.IH pull_done.hyps(2) by (auto simp: pull_inv_def)
  ultimately show ?case using pull_done.IH by (auto simp: pull_inv_def)
next
  case (pull_drained q)
  then show ?case by (auto simp: pull_inv_def)
qed

section \<open>Properties\<close>


text \<open>
  Refused work leaves no trace: after an error of the in-memory queue's \<open>Write\<close>, the leases, the
  quota and the running handlers are the ones before, also when the lease had been acquired and only
  the quota was missing.
\<close>

lemma work_queue_refusal:
  assumes "wq_Write (in_memory_leases alloc) p q = (q', Inl e)"
  shows "lm_held (wq_leases q') = lm_held (wq_leases q) \<and> wq_quota q' = wq_quota q \<and>
    wq_running q' = wq_running q \<and> wq_ending q' = wq_ending q"
  using leases.write_refused[OF assms] .

text \<open>
  Releasing a lease a second time, after another holder has leased the same work, does nothing
  if the two tokens have different addresses, and frees the other holder's lease if they have the
  same one. The tokens are addresses of empty structs, which need not differ.
\<close>

lemma stale_release:
  assumes "lm_acquire alloc p q = (q1, Inr l1)" "lm_acquire alloc p (lm_release l1 q1) = (q2, Inr l2)"
  shows "payload_key p \<in> lm_held q2 \<and>
    (payload_key p \<in> lm_held (lm_release l1 q2) \<longleftrightarrow>
       alloc (lm_allocations q) \<noteq> alloc (Suc (lm_allocations q)))"
proof -
  from leases.acquire_ok[of alloc] assms have h: "payload_key p \<in> lm_held q2" "lease_key l1 = payload_key p"
    "lease_key l2 = payload_key p" "lm_owns q2 l2" by (metis in_memory_leases_simps(1) insertI1)+
  have t: "lease_token l1 = alloc (lm_allocations q)" "lm_allocations q1 = Suc (lm_allocations q)"
    using assms(1) by (auto simp: lm_acquire_def Let_def split: if_splits)
  have "lm_allocations (lm_release l1 q1) = lm_allocations q1"
    by (auto simp: lm_release_def split: prod.splits)
  with t assms(2) have "lease_token l2 = alloc (Suc (lm_allocations q))"
    by (auto simp: lm_acquire_def Let_def split: if_splits)
  with h t show ?thesis
    by (cases "payload_key p") (auto simp: lm_held_def lm_owns_def lm_table_released)
qed

text \<open>
  The polling queue handles every message it reads, in the order of the reads, at most the
  configured number at a time (counting a read in progress), asks the retry policy with the number of
  failed reads since the last message, and after the queue was closed reads nothing more and
  shuts down only when every handler is done.
\<close>

lemma pull_queue_correct:
  assumes "pull_reachable m q"
  shows "pq_started q = messages (pq_trace q) \<and>
    (0 < m \<longrightarrow> int (length (pq_handlers q) + (if pq_reading q then 1 else 0)) \<le> m) \<and>
    mset (pq_handlers q) \<subseteq># mset (pq_started q) \<and>
    (\<not> pq_closed q \<longrightarrow> pq_attempt q = failures (pq_trace q)) \<and>
    ((\<exists>e. Inl e \<in> set (pq_trace q) \<and> errors_Is e ErrWorkQueueClosed) \<longrightarrow> \<not> pq_reading q) \<and>
    (pq_shutdown q \<longrightarrow> pq_handlers q = [])"
proof -
  from pull_reachable_inv[OF assms] have i: "pull_inv m q" .
  then have "0 < m \<longrightarrow> int (length (pq_handlers q) + (if pq_reading q then 1 else 0)) \<le> m"
    by (auto simp: pull_inv_def sem_holds_def newSemaphore_def)
  with i show ?thesis by (auto simp: pull_inv_def)
qed

text \<open>
  The read backoff stays within its bounds and starts at its base: for durations that are exact in
  float64 a delay is never negative nor above the maximum, and the bound never decreases from one
  failed attempt to the next.
\<close>

lemma NextDelay_bounds:
  assumes "0 \<le> BaseDelay e" "0 \<le> MaxDelay e" "MaxDelay e < 2 ^ 53" "BaseDelay e < 2 ^ 53"
    and "\<And>n. 0 < n \<Longrightarrow> 0 \<le> rnd n \<and> rnd n < n"
  shows "0 \<le> NextDelay rnd e attempt \<and> NextDelay rnd e attempt \<le> MaxDelay e \<and>
    NextDelay rnd e attempt \<le> BaseDelay e * 2 ^ attempt \<and>
    backoff_cap e attempt \<le> backoff_cap e (Suc attempt)"
proof -
  have "0 \<le> backoff_cap e attempt" "backoff_cap e attempt \<le> MaxDelay e"
    "backoff_cap e attempt \<le> BaseDelay e * 2 ^ attempt"
    using assms(1,2) by (auto simp: backoff_cap_def Let_def)
  moreover have "BaseDelay e * 2 ^ attempt \<le> BaseDelay e * 2 ^ Suc attempt"
    using assms(1) by (intro mult_left_mono) simp_all
  then have "backoff_cap e attempt \<le> backoff_cap e (Suc attempt)"
    unfolding backoff_cap_def Let_def by auto
  moreover have "0 \<le> rnd (backoff_cap e attempt + 1) \<and> rnd (backoff_cap e attempt + 1) < backoff_cap e attempt + 1"
    using assms(5)[of "backoff_cap e attempt + 1"] \<open>0 \<le> backoff_cap e attempt\<close> by simp
  ultimately show ?thesis by (auto simp: NextDelay_def)
qed

section \<open>Witnesses\<close>

definition ex_payload :: "string \<Rightarrow> payload" where
  "ex_payload k = \<lparr>pl_Type = k, pl_TaskID = ''t'', pl_CancelRequest = None, pl_ExecuteRequest = None,
     pl_CallContext = None\<rparr>"

definition ex_queue :: "(lease_manager, lease) work_queue" where
  "ex_queue = fst (wq_Write (in_memory_leases (\<lambda>n. 0)) (ex_payload ''cancel'')
     (wq_registered NewInMemoryLeaseManager 1))"

lemma ex_queue_reachable: "wq_reachable (in_memory_leases (\<lambda>n. 0)) NewInMemoryLeaseManager 1 ex_queue"
  unfolding ex_queue_def by (rule wq_write[OF wq_init])


lemma work_queue_refusal_witness:
  "\<exists>q' e. wq_Write (in_memory_leases (\<lambda>n. 0)) (ex_payload ''cancel'') ex_queue = (q', Inl e) \<and>
     lm_held (wq_leases q') = lm_held (wq_leases ex_queue)"
proof -
  obtain q' e where "wq_Write (in_memory_leases (\<lambda>n. 0)) (ex_payload ''cancel'') ex_queue = (q', Inl e)"
    by (simp add: ex_queue_def wq_Write_def wq_registered_def NewInMemoryLeaseManager_def lm_acquire_def
        ex_payload_def payload_key_def tryAcquire_def newSemaphore_def go_consts Let_def)
  then show ?thesis using work_queue_refusal by blast
qed

lemma stale_release_witness:
  "\<exists>q1 l1 q2 l2. lm_acquire (\<lambda>n. 0) (ex_payload ''execute'') NewInMemoryLeaseManager = (q1, Inr l1) \<and>
     lm_acquire (\<lambda>n. 0) (ex_payload ''execute'') (lm_release l1 q1) = (q2, Inr l2) \<and>
     payload_key (ex_payload ''execute'') \<notin> lm_held (lm_release l1 q2)"
proof -
  let ?p = "ex_payload ''execute''" and ?l = "\<lparr>lease_key = (True, ''t''), lease_token = 0\<rparr>"
  let ?q1 = "\<lparr>lm_executions = fmupd ''t'' 0 fmempty, lm_cancelations = fmempty, lm_allocations = 1\<rparr>"
  let ?q2 = "\<lparr>lm_executions = fmupd ''t'' 0 fmempty, lm_cancelations = fmempty, lm_allocations = 2\<rparr>"
  have 1: "lm_acquire (\<lambda>n. 0) ?p NewInMemoryLeaseManager = (?q1, Inr ?l)"
    by (simp add: lm_acquire_def NewInMemoryLeaseManager_def ex_payload_def payload_key_def go_consts Let_def)
  have 2: "lm_acquire (\<lambda>n. 0) ?p (lm_release ?l ?q1) = (?q2, Inr ?l)"
    by (simp add: lm_acquire_def lm_release_def lm_table_def ex_payload_def payload_key_def go_consts Let_def
        fmap_ext)
  from stale_release[OF 1 2] 1 2 show ?thesis by (intro exI conjI) auto
qed

lemma pull_queue_correct_witness:
  "let q = pull_read (Inr ''m'') \<lparr>sem_cap = Some 1, sem_used = 0\<rparr>
     ((pull_start 1)\<lparr>pq_quota := \<lparr>sem_cap = Some 1, sem_used = 1\<rparr>, pq_reading := True\<rparr>)
   in pq_started q = [''m''] \<and> int (length (pq_handlers q)) \<le> 1"
proof -
  let ?a = "(pull_start 1)\<lparr>pq_quota := \<lparr>sem_cap = Some 1, sem_used = 1\<rparr>, pq_reading := True\<rparr> :: string pull_queue"
  have "pull_reachable 1 ?a"
    by (rule pull_acquire[OF pull_init]) (simp_all add: pull_start_def tryAcquire_def newSemaphore_def)
  then have "pull_reachable 1 (pull_read (Inr ''m'') \<lparr>sem_cap = Some 1, sem_used = 0\<rparr> ?a)"
    by (rule pull_answer) (simp_all add: sem_release_def)
  from pull_queue_correct[OF this] show ?thesis
    by (simp add: Let_def pull_read_def pull_start_def messages_def)
qed

lemma NextDelay_bounds_witness:
  "NextDelay (\<lambda>n. n - 1) defaultExponentialBackoff 9 \<le> 30000000000"
  using NextDelay_bounds[of defaultExponentialBackoff "\<lambda>n. n - 1" 9]
  by (simp add: defaultExponentialBackoff_def)

end
