(* ===== verification/Distributed.thy ===== *)
theory Distributed
  imports WorkQueue Execution
begin

text \<open>
  Cluster mode: the front end that submits work and subscribes to its events
  (\<open>internal/taskexec/distributed_manager.go\<close>) and the back end that handles a payload
  (\<open>internal/taskexec/work_queue_handler.go\<close>). The work queue, the manager of event queues and
  the context codec are parameters; the contract of the queue manager is a locale, which the in-memory
  manager of the theory \<open>EventQueue\<close> keeps.
\<close>

section \<open>The back end\<close>

text \<open>
  What handling a payload calls, on a state \<open>'w\<close>: the factory, the queue manager, the execution
  (with the kind of work and the order in which its goroutines end), the closing of the queue and the
  cleaner.
\<close>

record 'w backend =
  be_CreateExecutor :: "task_id \<Rightarrow> send_request \<Rightarrow> 'w \<Rightarrow> 'w \<times> go_error option"
  be_CreateCanceler :: "cancel_request \<Rightarrow> 'w \<Rightarrow> 'w \<times> go_error option"
  be_CreateWriter :: "task_id \<Rightarrow> 'w \<Rightarrow> 'w \<times> go_error option"
  be_run :: "bool \<Rightarrow> 'w \<Rightarrow> 'w \<times> completion list"
  be_Cleanup :: "outcome \<Rightarrow> 'w \<Rightarrow> 'w"
  be_CloseWriter :: "'w \<Rightarrow> 'w"

text \<open>The second half of \<open>handle\<close>, after the factory.\<close>

definition handle_run :: "'w backend \<Rightarrow> payload \<Rightarrow> bool \<Rightarrow> 'w \<Rightarrow> 'w \<times> outcome" where
  "handle_run be p execute w =
     (case be_CreateWriter be (pl_TaskID p) w of
        (w1, Some err) \<Rightarrow> (w1, (None, Some (Errorf ''failed to create a queue: %w'' [err])))
      | (w1, None) \<Rightarrow>
          (let (w2, cs) = be_run be execute w1; r = runProducerConsumer cs
           in (be_CloseWriter be (be_Cleanup be r w2), r)))"

definition handle :: "'w backend \<Rightarrow> payload \<Rightarrow> 'w \<Rightarrow> 'w \<times> outcome" where
  "handle be p w =
     (if pl_Type p = PayloadTypeExecute then
        (case pl_ExecuteRequest p of
           None \<Rightarrow> (w, (None, Some (Errorf ''execution request not set: %w'' [Sentinel ErrMalformedPayload])))
         | Some req \<Rightarrow>
             (case be_CreateExecutor be (pl_TaskID p) req w of
                (w1, Some err) \<Rightarrow> (w1, (None, Some (Errorf ''executor setup failed: %w'' [err])))
              | (w1, None) \<Rightarrow> handle_run be p True w1))
      else if pl_Type p = PayloadTypeCancel then
        (case pl_CancelRequest p of
           None \<Rightarrow> (w, (None, Some (Errorf ''cancelation request not set: %w'' [Sentinel ErrMalformedPayload])))
         | Some req \<Rightarrow>
             (case be_CreateCanceler be req w of
                (w1, Some err) \<Rightarrow> (w1, (None, Some (Errorf ''canceler setup failed: %w'' [err])))
              | (w1, None) \<Rightarrow> handle_run be p False w1))
      else (w, (None, Some (Errorf ''unknown payload type: %q'' []))))"

text \<open>
  The function that \<open>newWorkQueueHandler\<close> registers with the work queue: the call context is
  decoded first. The back end gets the context.
\<close>

definition registered_handler ::
  "(go_ctx \<Rightarrow> metadata \<Rightarrow> go_error + go_ctx) option \<Rightarrow> (go_ctx \<Rightarrow> 'w backend) \<Rightarrow> go_ctx \<Rightarrow> payload \<Rightarrow> 'w \<Rightarrow>
     'w \<times> outcome" where
  "registered_handler decode be ctx p w =
     (case (decode, pl_CallContext p) of
        (Some dec, Some c) \<Rightarrow>
          (case dec ctx (Some c) of
             Inl err \<Rightarrow> (w, (None, Some (Errorf ''context decoding failed: %w'' [err])))
           | Inr localCtx \<Rightarrow> handle (be localCtx) p w)
      | _ \<Rightarrow> handle (be ctx) p w)"

text \<open>A result and an error as the answer a queue looks at.\<close>

definition outcome_sum :: "outcome \<Rightarrow> go_error + send_result option" where
  "outcome_sum r = (case snd r of Some err \<Rightarrow> Inl err | None \<Rightarrow> Inr (fst r))"

section \<open>The front end\<close>

text \<open>The queue manager: readers are opened for a task and closed.\<close>

record ('q, 'r) queue_ops =
  CreateReader :: "task_id \<Rightarrow> 'q \<Rightarrow> 'q \<times> (go_error + 'r)"
  CloseReader :: "'r \<Rightarrow> 'q \<Rightarrow> 'q"

type_synonym 'k work_writer = "payload \<Rightarrow> 'k \<Rightarrow> 'k \<times> (go_error + task_id)"

definition encodeContext :: "(go_ctx \<Rightarrow> go_error + metadata) option \<Rightarrow> go_ctx \<Rightarrow> go_error + metadata" where
  "encodeContext codec ctx =
     (case codec of
        None \<Rightarrow> Inr None
      | Some enc \<Rightarrow>
          (case enc ctx of Inl err \<Rightarrow> Inl (Errorf ''context encoding failed: %w'' [err]) | Inr r \<Rightarrow> Inr r))"

text \<open>The checks of \<open>Execute\<close> on the task that a message names.\<close>

definition check_existing :: "'s store_ops \<Rightarrow> go_ctx \<Rightarrow> 's \<Rightarrow> message \<Rightarrow> go_error option" where
  "check_existing ops ctx s msg =
     (case Get ops ctx (msg_TaskID msg) s of
        Inl err \<Rightarrow> Some (Errorf ''task loading failed: %w'' [err])
      | Inr st \<Rightarrow>
          if msg_ContextID msg \<noteq> '''' \<and> msg_ContextID msg \<noteq> task_ContextID (st_Task st)
          then Some (Errorf ''message contextID different from task contextID: %w'' [Sentinel ErrInvalidParams])
          else if Terminal (ts_State (task_Status (st_Task st)))
          then Some (Errorf ''task in a terminal state %q: %w'' [Sentinel ErrUnsupportedOperation])
          else None)"

text \<open>
  The second half of \<open>Execute\<close>: it subscribes, writes the payload and subscribes again if the work
  queue chose another task id. The answer is the reader and the task of the subscription.
\<close>

definition dist_submit ::
  "('q, 'r) queue_ops \<Rightarrow> 'k work_writer \<Rightarrow> message \<Rightarrow> payload \<Rightarrow> 'q \<times> 'k \<Rightarrow>
     ('q \<times> 'k) \<times> (go_error + 'r \<times> task_id)" where
  "dist_submit qops wq msg p = (\<lambda>(q, k).
     (case CreateReader qops (pl_TaskID p) q of
        (q1, Inl err) \<Rightarrow> ((q1, k), Inl (Errorf ''failed to subscribe to execution events: %w'' [err]))
      | (q1, Inr reader) \<Rightarrow>
          (case wq p k of
             (k1, Inl err) \<Rightarrow>
               ((CloseReader qops reader q1, k1), Inl (Errorf ''failed to create work item: %w'' [err]))
           | (k1, Inr taskID) \<Rightarrow>
               if taskID \<noteq> pl_TaskID p
               then
                 (let q2 = CloseReader qops reader q1
                  in if msg_TaskID msg \<noteq> ''''
                     then ((q2, k1), Inl (Errorf ''bug: work queue task id override only allowed for new tasks'' []))
                     else (case CreateReader qops taskID q2 of
                             (q3, Inl err) \<Rightarrow>
                               ((q3, k1), Inl (Errorf ''failed to subscribe to execution events after task id override: %w'' [err]))
                           | (q3, Inr reader') \<Rightarrow> ((q3, k1), Inr (reader', taskID))))
               else ((q1, k1), Inr (reader, taskID)))))"

definition message_required :: go_error where
  "message_required = Errorf ''message is required: %w'' [Sentinel ErrInvalidParams]"

text \<open>\<open>newID\<close> is the generated task id.\<close>

definition dist_Execute ::
  "'s store_ops \<Rightarrow> ('q, 'r) queue_ops \<Rightarrow> 'k work_writer \<Rightarrow> (go_ctx \<Rightarrow> go_error + metadata) option \<Rightarrow> task_id \<Rightarrow>
     go_ctx \<Rightarrow> send_request option \<Rightarrow> 's \<Rightarrow> 'q \<times> 'k \<Rightarrow> ('q \<times> 'k) \<times> (go_error + 'r \<times> task_id)" where
  "dist_Execute ops qops wq codec newID ctx request s qk =
     (case request of
        None \<Rightarrow> (qk, Inl message_required)
      | Some req \<Rightarrow>
          (case req_Message req of
             None \<Rightarrow> (qk, Inl message_required)
           | Some msg \<Rightarrow>
               (let isNewTask = (msg_TaskID msg = '''')
                in case (if isNewTask then None else check_existing ops ctx s msg) of
                     Some err \<Rightarrow> (qk, Inl err)
                   | None \<Rightarrow>
                       (case encodeContext codec ctx of
                          Inl err \<Rightarrow> (qk, Inl err)
                        | Inr encodedCtx \<Rightarrow>
                            dist_submit qops wq msg
                              \<lparr>pl_Type = PayloadTypeExecute,
                               pl_TaskID = (if isNewTask then newID else msg_TaskID msg),
                               pl_CancelRequest = None, pl_ExecuteRequest = Some req,
                               pl_CallContext = encodedCtx\<rparr> qk))))"

definition dist_Resubscribe ::
  "'s store_ops \<Rightarrow> ('q, 'r) queue_ops \<Rightarrow> go_ctx \<Rightarrow> task_id \<Rightarrow> 's \<Rightarrow> 'q \<Rightarrow> 'q \<times> (go_error + 'r \<times> task_id)" where
  "dist_Resubscribe ops qops ctx taskID s q =
     (case Get ops ctx taskID s of
        Inl err \<Rightarrow> (q, Inl (Sentinel ErrTaskNotFound))
      | Inr st \<Rightarrow>
          (case CreateReader qops taskID q of
             (q1, Inl err) \<Rightarrow> (q1, Inl (Errorf ''failed to get event queue: %w'' [err]))
           | (q1, Inr reader) \<Rightarrow> (q1, Inr (reader, taskID))))"

text \<open>
  The loop of \<open>Cancel\<close> over the items of its subscription: the task of a final event, if it is
  one, and the error that ended it.
\<close>

fun cancel_scan :: "item list \<Rightarrow> task option \<times> go_error option" where
  "cancel_scan [] = (None, None)"
| "cancel_scan ((ev, Some err) # its) = (None, Some err)"
| "cancel_scan ((None, None) # its) = cancel_scan its"
| "cancel_scan ((Some ev, None) # its) =
     (if IsFinal ev then ((case ev of ETask a t \<Rightarrow> Some t | _ \<Rightarrow> None), None) else cancel_scan its)"

text \<open>
  \<open>s\<close>, \<open>s1\<close> and \<open>s2\<close> are the store when the task is loaded, when the subscription takes
  its snapshot and when the result is read; \<open>reads\<close> are the answers of the reader and \<open>a\<close>
  the address of the snapshot. The subscription closes its reader when it ends.
\<close>

definition dist_Cancel ::
  "'s store_ops \<Rightarrow> ('q, 'r) queue_ops \<Rightarrow> 'k work_writer \<Rightarrow> (go_ctx \<Rightarrow> go_error + metadata) option \<Rightarrow> addr \<Rightarrow>
     go_ctx \<Rightarrow> cancel_request \<Rightarrow> 's \<Rightarrow> 's \<Rightarrow> 's \<Rightarrow> (go_error + queue_message) list \<Rightarrow> 'q \<times> 'k \<Rightarrow>
     ('q \<times> 'k) \<times> (go_error + task)" where
  "dist_Cancel ops qops wq codec a ctx req s s1 s2 reads = (\<lambda>(q, k).
     (case Get ops ctx (cancel_ID req) s of
        Inl err \<Rightarrow> ((q, k), Inl (Errorf ''failed to load a task: %w'' [err]))
      | Inr storedTask \<Rightarrow>
          (let task = st_Task storedTask; state = ts_State (task_Status task)
           in if state = TaskStateCanceled then ((q, k), Inr task)
              else if Terminal state
              then ((q, k), Inl (Errorf ''task in non-cancelable state %q: %w'' [Sentinel ErrTaskNotCancelable]))
              else
                (case CreateReader qops (cancel_ID req) q of
                   (q1, Inl err) \<Rightarrow> ((q1, k), Inl (Errorf ''failed to get or create queue: %w'' [err]))
                 | (q1, Inr reader) \<Rightarrow>
                     (case encodeContext codec ctx of
                        Inl err \<Rightarrow> ((CloseReader qops reader q1, k), Inl err)
                      | Inr encodedCtx \<Rightarrow>
                          (let (k1, written) = wq \<lparr>pl_Type = PayloadTypeCancel, pl_TaskID = cancel_ID req,
                                 pl_CancelRequest = Some req, pl_ExecuteRequest = None,
                                 pl_CallContext = encodedCtx\<rparr> k
                           in case (case written of
                                      Inl err \<Rightarrow>
                                        if errors_Is err ErrLeaseAlreadyTaken then None
                                        else Some (Errorf ''failed to create work item: %w'' [err])
                                    | Inr taskID \<Rightarrow>
                                        if taskID \<noteq> cancel_ID req
                                        then Some (Errorf ''bug: work-queue task id override is only allowed for executions'' [])
                                        else None) of
                                Some err \<Rightarrow> ((q1, k1), Inl err)
                              | None \<Rightarrow>
                                  (let items = remoteSubscription_Events a False (Some (st_Version storedTask))
                                                 (Get ops ctx (cancel_ID req) s1) reads;
                                       q2 = CloseReader qops reader q1
                                   in case cancel_scan items of
                                        (Some result, e) \<Rightarrow> ((q2, k1), convertToCancelationResult (Some (RTask result)) None)
                                      | (None, subscriptionErr) \<Rightarrow>
                                          (case Get ops ctx (cancel_ID req) s2 of
                                             Inl err \<Rightarrow>
                                               ((q2, k1), Inl (case subscriptionErr of
                                                  None \<Rightarrow> Errorf ''failed to load a task: %w'' [err]
                                                | Some se \<Rightarrow> Errorf ''failed to load a task after subscription error: %w: %w'' [err, se]))
                                           | Inr st \<Rightarrow>
                                               ((q2, k1), convertToCancelationResult (Some (RTask (st_Task st))) None)))))))))"

section \<open>The contract of the queue manager\<close>

text \<open>
  \<open>readers q\<close> are the readers that are open: a new one is none of them, a failed creation opens
  none, and closing closes that reader only.
\<close>

locale queue_manager_ops =
  fixes qops :: "('q, 'r) queue_ops" and inv :: "'q \<Rightarrow> bool" and readers :: "'q \<Rightarrow> (task_id \<times> 'r) set"
  assumes create_reader: "\<And>tid q q' r. inv q \<Longrightarrow> CreateReader qops tid q = (q', Inr r) \<Longrightarrow>
      inv q' \<and> (\<forall>t. (t, r) \<notin> readers q) \<and> readers q' = insert (tid, r) (readers q)"
    and create_failed: "\<And>tid q q' e. inv q \<Longrightarrow> CreateReader qops tid q = (q', Inl e) \<Longrightarrow>
      inv q' \<and> readers q' = readers q"
    and close_reader: "\<And>q r. inv q \<Longrightarrow>
      inv (CloseReader qops r q) \<and> readers (CloseReader qops r q) = {x \<in> readers q. snd x \<noteq> r}"
begin

lemma closed_again:
  assumes "inv q" "CreateReader qops tid q = (q', Inr r)"
  shows "inv (CloseReader qops r q') \<and> readers (CloseReader qops r q') = readers q"
  using create_reader[OF assms] close_reader[of q' r] by auto

text \<open>
  \<open>Execute\<close> opens no reader that it does not return: after an error the open readers are the
  ones before, after a success the returned one is added.
\<close>

definition readers_after :: "'q \<Rightarrow> 'q \<Rightarrow> go_error + 'r \<times> task_id \<Rightarrow> bool" where
  "readers_after q q' res = (case res of
     Inl err \<Rightarrow> readers q' = readers q
   | Inr (r, tid) \<Rightarrow> readers q' = insert (tid, r) (readers q) \<and> (tid, r) \<notin> readers q)"

lemma submit_readers:
  assumes q: "inv q" and e: "dist_submit qops wq msg p (q, k) = ((q', k'), res)"
  shows "inv q' \<and> readers_after q q' res"
proof -
  obtain q1 c where c: "CreateReader qops (pl_TaskID p) q = (q1, c)" by fastforce
  show ?thesis
  proof (cases c)
    case (Inl err)
    with c create_failed[OF q] e show ?thesis by (fastforce simp: dist_submit_def readers_after_def)
  next
    case (Inr reader)
    note c = c[unfolded Inr] and again = closed_again[OF q c[unfolded Inr]]
    obtain k1 r where w: "wq p k = (k1, r)" by fastforce
    show ?thesis
    proof (cases r)
      case (Inl err)
      with e c w again show ?thesis by (auto simp: dist_submit_def readers_after_def)
    next
      case (Inr taskID)
      obtain q3 r3 where c3: "CreateReader qops taskID (CloseReader qops reader q1) = (q3, r3)" by fastforce
      have "inv q3 \<and> readers_after q q3 (map_sum id (\<lambda>r. (r, taskID)) r3)"
        using c3 again create_failed[of "CloseReader qops reader q1" taskID q3]
          create_reader[of "CloseReader qops reader q1" taskID q3]
        by (cases r3) (auto simp: readers_after_def)
      with e c w Inr again c3 create_reader[OF q c] show ?thesis
        by (cases "taskID = pl_TaskID p"; cases r3) (auto simp: dist_submit_def readers_after_def Let_def split: if_splits)
    qed
  qed
qed

lemma Execute_readers:
  assumes "inv q" "dist_Execute ops qops wq codec newID ctx request s (q, k) = ((q', k'), res)"
  shows "inv q' \<and> readers_after q q' res"
proof -
  have "?thesis \<or> (\<exists>msg p. dist_submit qops wq msg p (q, k) = ((q', k'), res))"
    using assms by (auto simp: dist_Execute_def Let_def readers_after_def split: option.splits sum.splits)
  then show ?thesis using submit_readers[OF assms(1)] by (elim disjE exE) assumption+
qed

end

section \<open>The in-memory manager keeps the contract\<close>

text \<open>A reader is the number of a queue and its task; closing it unregisters the queue.\<close>

definition qm_close :: "task_id \<times> queue_id \<Rightarrow> queue_manager \<Rightarrow> queue_manager" where
  "qm_close r m =
     (case fmlookup (qmgr_brokers m) (fst r) of
        None \<Rightarrow> m
      | Some b \<Rightarrow> m\<lparr>qmgr_brokers := fmupd (fst r) (broker_unregister (snd r) b) (qmgr_brokers m)\<rparr>)"

definition in_memory_queues :: "(queue_manager, task_id \<times> queue_id) queue_ops" where
  "in_memory_queues =
     \<lparr>CreateReader = (\<lambda>tid m. (let (m', r) = createReadWriter tid m in (m', map_sum id (Pair tid) r))),
      CloseReader = qm_close\<rparr>"

definition qm_readers :: "queue_manager \<Rightarrow> (task_id \<times> task_id \<times> queue_id) set" where
  "qm_readers m = {(tid, tid', q). tid = tid' \<and>
     (\<exists>b. fmlookup (qmgr_brokers m) tid = Some b \<and> q \<in> set (br_registered b))}"

definition qm_inv :: "queue_manager \<Rightarrow> bool" where
  "qm_inv m = (qmgr_inv m \<and> fmpred (\<lambda>tid b. set (br_registered b) \<subseteq> set (br_used b)) (qmgr_brokers m))"

lemma in_memory_queues_simps [simp]:
  "CreateReader in_memory_queues tid m = (let (m', r) = createReadWriter tid m in (m', map_sum id (Pair tid) r))"
  "CloseReader in_memory_queues = qm_close"
  by (simp_all add: in_memory_queues_def)

text \<open>The broker a new queue of the task is registered with.\<close>

definition qm_broker :: "queue_manager \<Rightarrow> task_id \<Rightarrow> broker" where
  "qm_broker m tid = (case fmlookup (qmgr_brokers m) tid of
     None \<Rightarrow> newInMemoryEventBroker (qmgr_bufferSize m) | Some b \<Rightarrow> b)"

lemma createReadWriter_qm:
  fixes tid :: task_id
  assumes "qm_inv m"
  defines "b \<equiv> qm_broker m tid"
  shows "createReadWriter tid m =
      (m\<lparr>qmgr_brokers := fmupd tid (broker_connect (next_queue b) b) (qmgr_brokers m)\<rparr>, Inr (next_queue b)) \<and>
    next_queue b \<notin> set (br_registered b) \<and>
    qm_inv (m\<lparr>qmgr_brokers := fmupd tid (broker_connect (next_queue b) b) (qmgr_brokers m)\<rparr>)"
proof -
  have b: "\<not> br_destroyed b \<and> set (br_registered b) \<subseteq> set (br_used b)"
    using assms by (auto simp: qm_inv_def qmgr_inv_def fmpred_iff newInMemoryEventBroker_def qm_broker_def split: option.splits)
  moreover have "createReadWriter tid m =
      (m\<lparr>qmgr_brokers := fmupd tid (broker_connect (next_queue b) b) (qmgr_brokers m)\<rparr>, Inr (next_queue b))"
    using b by (simp add: createReadWriter_def Let_def qm_broker_def[symmetric] flip: b_def)
  ultimately show ?thesis using next_queue_fresh[of b] assms(1)
    by (auto simp: qm_inv_def qmgr_inv_def fmpred_iff broker_connect_def)
qed

interpretation queues: queue_manager_ops in_memory_queues qm_inv qm_readers
proof unfold_locales
  fix tid q q' r
  assume q: "qm_inv q" and c: "CreateReader in_memory_queues tid q = (q', Inr r)"
  let ?b = "qm_broker q tid"
  from createReadWriter_qm[OF q, of tid] c have r: "r = (tid, next_queue ?b)"
    "q' = q\<lparr>qmgr_brokers := fmupd tid (broker_connect (next_queue ?b) ?b) (qmgr_brokers q)\<rparr>" "qm_inv q'"
    "next_queue ?b \<notin> set (br_registered ?b)" by auto
  from r(4) have "(t, r) \<notin> qm_readers q" for t by (auto simp: qm_readers_def r(1) qm_broker_def)
  moreover have "qm_readers q' = insert (tid, r) (qm_readers q)"
    by (auto simp: qm_readers_def r(1,2) broker_connect_def newInMemoryEventBroker_def qm_broker_def
        split: option.splits if_splits)
  ultimately show "qm_inv q' \<and> (\<forall>t. (t, r) \<notin> qm_readers q) \<and> qm_readers q' = insert (tid, r) (qm_readers q)"
    using r(3) by blast
next
  show "qm_inv q' \<and> qm_readers q' = qm_readers q"
    if "qm_inv q" "CreateReader in_memory_queues tid q = (q', Inl e)" for tid q q' e
    using createReadWriter_qm[OF that(1), of tid] that(2) by auto
next
  show "qm_inv (CloseReader in_memory_queues r q) \<and>
      qm_readers (CloseReader in_memory_queues r q) = {x \<in> qm_readers q. snd x \<noteq> r}" if "qm_inv q" for q r
    using that by (cases r) (auto simp: qm_close_def qm_readers_def qm_inv_def qmgr_inv_def fmpred_iff
        broker_unregister_def split: option.splits if_splits, fastforce)
qed

section \<open>Properties\<close>

text \<open>
  In cluster mode, \<open>Execute\<close> leaks no reader of the event queue, whatever fails: after an error
  the open readers are those from before the call, and after a success there is one more, the one of
  the returned subscription; also when the work queue replaces the task id and the reader is opened a
  second time.
\<close>

lemma Execute_leaks_no_reader:
  assumes "qm_inv q" "dist_Execute ops in_memory_queues wq codec newID ctx request s (q, k) = ((q', k'), res)"
  shows "qm_inv q' \<and>
    (case res of
       Inl err \<Rightarrow> qm_readers q' = qm_readers q
     | Inr (r, tid) \<Rightarrow> qm_readers q' = insert (tid, r) (qm_readers q) \<and> (tid, r) \<notin> qm_readers q)"
  using queues.Execute_readers[OF assms] unfolding queues.readers_after_def .

text \<open>
  In cluster mode a message is checked before anything is submitted: a message to a finished task,
  with the wrong context, or to a task that cannot be loaded is refused, and neither a queue nor a
  work item is created. What is submitted is an execution of the named task, or of the new id.
\<close>

lemma dist_Execute_admission:
  "(case request of
      None \<Rightarrow> True
    | Some req \<Rightarrow> (case req_Message req of
        None \<Rightarrow> True
      | Some msg \<Rightarrow> msg_TaskID msg \<noteq> '''' \<and> check_existing ops ctx s msg \<noteq> None)) \<and>
     (\<exists>err. dist_Execute ops qops wq codec newID ctx request s qk = (qk, Inl err)) \<or>
   (\<exists>err. encodeContext codec ctx = Inl err \<and> dist_Execute ops qops wq codec newID ctx request s qk = (qk, Inl err)) \<or>
   (\<exists>req msg p. request = Some req \<and> req_Message req = Some msg \<and>
      pl_Type p = PayloadTypeExecute \<and> pl_ExecuteRequest p = Some req \<and>
      pl_TaskID p = (if msg_TaskID msg = '''' then newID else msg_TaskID msg) \<and>
      Inr (pl_CallContext p) = encodeContext codec ctx \<and>
      (msg_TaskID msg = '''' \<or> (\<exists>st. Get ops ctx (msg_TaskID msg) s = Inr st \<and>
         \<not> Terminal (ts_State (task_Status (st_Task st))))) \<and>
      dist_Execute ops qops wq codec newID ctx request s qk = dist_submit qops wq msg p qk)"
proof (cases request)
  case None
  then show ?thesis by (simp add: dist_Execute_def)
next
  case (Some req)
  show ?thesis
  proof (cases "req_Message req")
    case None
    with Some show ?thesis by (simp add: dist_Execute_def)
  next
    case m: (Some msg)
    show ?thesis
    proof (cases "msg_TaskID msg \<noteq> '''' \<and> check_existing ops ctx s msg \<noteq> None")
      case True
      with Some m show ?thesis by (auto simp: dist_Execute_def)
    next
      case False
      then have ok: "msg_TaskID msg = '''' \<or> (\<exists>st. Get ops ctx (msg_TaskID msg) s = Inr st \<and>
          \<not> Terminal (ts_State (task_Status (st_Task st))))"
        by (auto simp: check_existing_def split: sum.splits if_splits)
      from False have c: "(if msg_TaskID msg = '''' then None else check_existing ops ctx s msg) = None"
        by auto
      show ?thesis
      proof (cases "encodeContext codec ctx")
        case (Inl err)
        with Some m c show ?thesis by (simp add: dist_Execute_def)
      next
        case (Inr enc)
        let ?p = "\<lparr>pl_Type = PayloadTypeExecute, pl_TaskID = (if msg_TaskID msg = '''' then newID else msg_TaskID msg),
          pl_CancelRequest = None, pl_ExecuteRequest = Some req, pl_CallContext = enc\<rparr>"
        have "dist_Execute ops qops wq codec newID ctx request s qk = dist_submit qops wq msg ?p qk"
          using Some m c Inr by (simp add: dist_Execute_def Let_def)
        with Some m ok Inr show ?thesis by (intro disjI2 exI[of _ req] exI[of _ msg] exI[of _ ?p]) simp
      qed
    qed
  qed
qed

text \<open>
  C35: A cancelation whose work item cannot be written, for another reason than a cancelation that runs
  already, leaves the reader it opened registered: there is one open reader more than before the
  call, and nobody holds it.
\<close>

lemma Cancel_leaks_reader:
  assumes "qm_inv q" "Get ops ctx (cancel_ID req) s = Inr st" "\<not> Terminal (ts_State (task_Status (st_Task st)))"
    and "encodeContext codec ctx = Inr enc"
    and "\<And>p k. wq p k = (k, Inl err)" "\<not> errors_Is err ErrLeaseAlreadyTaken"
  shows "\<exists>q' e r. dist_Cancel ops in_memory_queues wq codec a ctx req s s1 s2 reads (q, k) = ((q', k), Inl e) \<and>
    (cancel_ID req, r) \<notin> qm_readers q \<and> qm_readers q' = insert (cancel_ID req, r) (qm_readers q)"
proof -
  obtain q1 c where c: "CreateReader in_memory_queues (cancel_ID req) q = (q1, c)" by fastforce
  with createReadWriter_qm[OF assms(1), of "cancel_ID req"] obtain r where r: "c = Inr r" by auto
  from assms(3) have "ts_State (task_Status (st_Task st)) \<noteq> TaskStateCanceled" by auto
  with assms(2-6) c r have "dist_Cancel ops in_memory_queues wq codec a ctx req s s1 s2 reads (q, k) =
      ((q1, k), Inl (Errorf ''failed to create work item: %w'' [err]))"
    by (simp add: dist_Cancel_def Let_def)
  moreover from queues.create_reader[OF assms(1) c[unfolded r]]
  have "(cancel_ID req, r) \<notin> qm_readers q \<and> qm_readers q1 = insert (cancel_ID req, r) (qm_readers q)" by blast
  ultimately show ?thesis by blast
qed

text \<open>
  A registered queue that nobody reads stops its broker: once its buffer is full and a broadcast
  is waiting for it, no step but a read or a drain of that queue, or the end of the broker, lets the
  broadcast end, so no registration and no other broadcast is taken.
\<close>

lemma full_reader_blocks:
  assumes "broker_reachable n b" "br_dispatch b = Some (q, m, rest)" "r \<in> set rest" "length (br_buffer b r) = n" "0 < n"
    and "broker_step b b'" "\<not> br_destroyed b'" "br_consumed b' r = br_consumed b r"
  shows "\<exists>rest'. br_dispatch b' = Some (q, m, rest') \<and> r \<in> set rest' \<and> length (br_buffer b' r) = n \<and>
    br_registered b' = br_registered b"
proof -
  from broker_reachable_inv[OF assms(1)] assms(2) have d: "distinct rest" "br_bufferSize b = n"
    by (auto simp: broker_inv_def pending_def)
  from assms(6) show ?thesis
  proof (cases rule: broker_step.cases)
    case (bs_deliver q' m' rest' r')
    with assms d show ?thesis by (auto simp: broker_deliver_def)
  next
    case (bs_handoff q' m' rest' r')
    with assms d show ?thesis by (auto simp: broker_deliver_def)
  next
    case (bs_consume r' m' ms)
    with assms show ?thesis by (auto simp: broker_consume_def split: if_splits)
  next
    case bs_destroy
    with assms show ?thesis by (simp add: broker_destroy_def)
  qed (use assms in \<open>auto simp: idle_def\<close>)
qed

text \<open>
  A cancelation that succeeds in cluster mode returns a canceled task: the task that was canceled
  already (then nothing is submitted), the one of a final event, or the stored one.
\<close>

lemma dist_Cancel_result:
  assumes "dist_Cancel ops qops wq codec a ctx req s s1 s2 reads (q, k) = ((q', k'), Inr t)"
  shows "ts_State (task_Status t) = TaskStateCanceled \<and>
    ((\<exists>st. Get ops ctx (cancel_ID req) s = Inr st \<and> st_Task st = t) \<and> q' = q \<and> k' = k \<or>
     (\<exists>st. Get ops ctx (cancel_ID req) s2 = Inr st \<and> st_Task st = t) \<or>
     (\<exists>st items. Get ops ctx (cancel_ID req) s = Inr st \<and>
        items = remoteSubscription_Events a False (Some (st_Version st)) (Get ops ctx (cancel_ID req) s1) reads \<and>
        fst (cancel_scan items) = Some t))"
  using assms
  by (auto simp: dist_Cancel_def convertToCancelationResult_def Let_def
      split: sum.splits option.splits if_splits prod.splits)

text \<open>
  In the polling queue a payload without its request is completed, not returned, and starts nothing
  (it would fail every time), while a payload of an unknown kind is returned, since another version of
  the program may know it; a failed execution is returned and a successful one completed.
\<close>

lemma payload_disposition:
  assumes "BeforeExecutionCallback cfg = None" "AfterExecutionCallback cfg = None"
  shows "(pl_Type p = PayloadTypeExecute \<and> pl_ExecuteRequest p = None \<or>
      pl_Type p = PayloadTypeCancel \<and> pl_CancelRequest p = None \<longrightarrow>
        handleMessage cfg (\<lambda>ctx p. outcome_sum (snd (handle be p w))) ctx p = (True, Completed) \<and>
        fst (handle be p w) = w) \<and>
    (pl_Type p \<noteq> PayloadTypeExecute \<and> pl_Type p \<noteq> PayloadTypeCancel \<longrightarrow>
        (\<exists>e. handleMessage cfg (\<lambda>ctx p. outcome_sum (snd (handle be p w))) ctx p = (True, Returned e)) \<and>
        fst (handle be p w) = w) \<and>
    (snd (snd (handle be p w)) = None \<longrightarrow>
        handleMessage cfg (\<lambda>ctx p. outcome_sum (snd (handle be p w))) ctx p = (True, Completed)) \<and>
    (\<forall>e. snd (snd (handle be p w)) = Some e \<and> \<not> errors_Is e ErrMalformedPayload \<longrightarrow>
        handleMessage cfg (\<lambda>ctx p. outcome_sum (snd (handle be p w))) ctx p = (True, Returned e))"
  using assms by (auto simp: handleMessage_def handle_def outcome_sum_def PayloadTypeExecute_def PayloadTypeCancel_def)

section \<open>Witnesses\<close>

definition ex_qm :: queue_manager where
  "ex_qm = NewInMemoryManager None"

lemma ex_qm_inv: "qm_inv ex_qm"
  by (simp add: ex_qm_def qm_inv_def qmgr_inv_new) (simp add: NewInMemoryManager_def)

definition ex_new_message :: message where
  "ex_new_message = \<lparr>msg_ID = ''m'', msg_ContextID = '''', msg_Extensions = [], msg_Metadata = None,
     msg_Parts = [], msg_ReferenceTasks = [], msg_Role = MessageRoleUser, msg_TaskID = ''''\<rparr>"

definition ex_new_request :: send_request where
  "ex_new_request = \<lparr>req_Tenant = '''', req_Config = None, req_Message = Some ex_new_message, req_Metadata = None\<rparr>"

definition ex_running_task :: task where
  "ex_running_task = \<lparr>task_ID = ''t'', task_Artifacts = [], task_ContextID = ''c'', task_History = [],
     task_Metadata = None, task_Status = \<lparr>ts_Message = None, ts_State = TaskStateWorking, ts_Timestamp = None\<rparr>\<rparr>"

text \<open>A store with one task and a work queue that replaces the task id or refuses.\<close>

definition ex_ops :: "task_state \<Rightarrow> unit store_ops" where
  "ex_ops state = \<lparr>Create = (\<lambda>ctx t s. (s, Inl (Sentinel ErrTaskAlreadyExists))),
     Update = (\<lambda>ctx r s. (s, Inl (Sentinel ErrConcurrentModification))),
     Get = (\<lambda>ctx tid s. Inr \<lparr>st_Task = ex_running_task\<lparr>task_Status := (task_Status ex_running_task)\<lparr>ts_State := state\<rparr>\<rparr>,
        st_Version = 1, st_User = ''''\<rparr>),
     List = (\<lambda>ctx r s. Inl (Sentinel ErrUnsupportedOperation))\<rparr>"

definition ex_override :: "unit work_writer" where
  "ex_override p k = (k, Inr ''other'')"

lemma Execute_leaks_no_reader_witness:
  "\<exists>q' r. dist_Execute (ex_ops TaskStateWorking) in_memory_queues ex_override None ''new'' background
       (Some ex_new_request) () (ex_qm, ()) = ((q', ()), Inr (r, ''other'')) \<and>
     qm_readers q' = insert (''other'', r) (qm_readers ex_qm)"
proof -
  have "\<exists>q' r. dist_Execute (ex_ops TaskStateWorking) in_memory_queues ex_override None ''new'' background
       (Some ex_new_request) () (ex_qm, ()) = ((q', ()), Inr (r, ''other''))"
    by (simp add: dist_Execute_def dist_submit_def ex_override_def ex_qm_def ex_new_request_def ex_new_message_def
        encodeContext_def createReadWriter_def NewInMemoryManager_def newInMemoryEventBroker_def broker_connect_def
        qm_close_def broker_unregister_def Let_def)
  then obtain q' r where e: "dist_Execute (ex_ops TaskStateWorking) in_memory_queues ex_override None ''new'' background
       (Some ex_new_request) () (ex_qm, ()) = ((q', ()), Inr (r, ''other''))" by blast
  from Execute_leaks_no_reader[OF ex_qm_inv e] e show ?thesis by auto
qed

lemma dist_Execute_admission_witness:
  "\<exists>err. dist_Execute (ex_ops TaskStateCompleted) in_memory_queues ex_override None ''new'' background
     (Some (ex_new_request\<lparr>req_Message := Some (ex_new_message\<lparr>msg_TaskID := ''t''\<rparr>)\<rparr>)) () (ex_qm, ()) =
     ((ex_qm, ()), Inl err)"
  using dist_Execute_admission[where request = "Some (ex_new_request\<lparr>req_Message := Some (ex_new_message\<lparr>msg_TaskID := ''t''\<rparr>)\<rparr>)"
      and ops = "ex_ops TaskStateCompleted" and ctx = background and s = "()" and qops = in_memory_queues
      and wq = ex_override and codec = None and newID = "''new''" and qk = "(ex_qm, ())"]
  by (auto simp: ex_ops_def encodeContext_def)

lemma Cancel_leaks_reader_witness:
  "\<exists>q' e r. dist_Cancel (ex_ops TaskStateWorking) in_memory_queues
       (\<lambda>p k. (k, Inl (Sentinel ErrConcurrencyLimitExceeded))) None 0 background
       \<lparr>cancel_Tenant = '''', cancel_ID = ''t'', cancel_Metadata = None\<rparr> () () () [] (ex_qm, ()) = ((q', ()), Inl e) \<and>
     qm_readers q' = insert (''t'', r) (qm_readers ex_qm)"
  using Cancel_leaks_reader[OF ex_qm_inv, of "ex_ops TaskStateWorking" background
      "\<lparr>cancel_Tenant = '''', cancel_ID = ''t'', cancel_Metadata = None\<rparr>" "()" _ None None
      "\<lambda>p k. (k, Inl (Sentinel ErrConcurrencyLimitExceeded))" "Sentinel ErrConcurrencyLimitExceeded" "0" "()" "()" "[]" "()"]
  by (fastforce simp: ex_ops_def encodeContext_def)

definition ex_full_broker :: broker where
  "ex_full_broker = broker_broadcast 1 ex_message
     ((broker_deliver False 2 (1, ex_message, [2])
        (broker_broadcast 1 ex_message (broker_connect 2 (broker_connect 1 (newInMemoryEventBroker 1)))))\<lparr>br_dispatch := None\<rparr>)"

lemma full_reader_blocks_witness:
  "length (br_buffer ex_full_broker 2) = 1 \<and> (\<nexists>q. broker_step ex_full_broker (broker_connect q ex_full_broker))"
proof -
  let ?b1 = "broker_deliver False 2 (1, ex_message, [2])
     (broker_broadcast 1 ex_message (broker_connect 2 (broker_connect 1 (newInMemoryEventBroker 1))))"
  have b1: "broker_reachable 1 ?b1" using ex_broker_reachable by (simp add: ex_broker_def)
  have d: "br_dispatch ?b1 = Some (1, ex_message, [])" by (simp add: broker_deliver_def)
  have f: "br_dispatch ex_full_broker = Some (1, ex_message, [2])" "length (br_buffer ex_full_broker 2) = 1"
    "\<not> br_destroyed ex_full_broker"
    by (simp_all add: ex_full_broker_def broker_deliver_def broker_broadcast_def broker_connect_def newInMemoryEventBroker_def)
  have u: "idle (?b1\<lparr>br_dispatch := None\<rparr>)" "1 \<in> set (br_used (?b1\<lparr>br_dispatch := None\<rparr>))"
    by (simp_all add: idle_def broker_deliver_def broker_broadcast_def broker_connect_def newInMemoryEventBroker_def)
  have r: "broker_reachable 1 ex_full_broker" unfolding ex_full_broker_def
    by (rule br_next[OF br_next[OF b1 bs_dispatched[OF d]] bs_broadcast[OF u]])
  have "\<not> broker_step ex_full_broker (broker_connect q ex_full_broker)" for q
  proof
    assume s: "broker_step ex_full_broker (broker_connect q ex_full_broker)"
    have "q \<noteq> 2 \<Longrightarrow> br_consumed (broker_connect q ex_full_broker) 2 = br_consumed ex_full_broker 2"
      "br_consumed ex_full_broker 2 = []"
      by (simp_all add: broker_connect_def ex_full_broker_def broker_deliver_def broker_broadcast_def newInMemoryEventBroker_def)
    then have "br_consumed (broker_connect q ex_full_broker) 2 = br_consumed ex_full_broker 2"
      by (cases "q = 2") (simp_all add: broker_connect_def)
    from full_reader_blocks[OF r f(1) _ f(2) _ s _ this] f(3) show False by (simp add: broker_connect_def)
  qed
  with f(2) show ?thesis by blast
qed

lemma dist_Cancel_result_witness:
  "ts_State (task_Status (projr (snd (dist_Cancel (ex_ops TaskStateCanceled) in_memory_queues ex_override None 0 background
       \<lparr>cancel_Tenant = '''', cancel_ID = ''t'', cancel_Metadata = None\<rparr> () () () [] (ex_qm, ()))))) = TaskStateCanceled"
proof -
  obtain t where t: "dist_Cancel (ex_ops TaskStateCanceled) in_memory_queues ex_override None 0 background
       \<lparr>cancel_Tenant = '''', cancel_ID = ''t'', cancel_Metadata = None\<rparr> () () () [] (ex_qm, ()) = ((ex_qm, ()), Inr t)"
    by (simp add: dist_Cancel_def ex_ops_def)
  from dist_Cancel_result[OF t] t show ?thesis by simp
qed

lemma payload_disposition_witness:
  "handleMessage \<lparr>BeforeExecutionCallback = None, AfterExecutionCallback = None\<rparr>
     (\<lambda>ctx p. outcome_sum (snd (handle undefined p ()))) background (ex_payload ''execute'') = (True, Completed)"
  using payload_disposition[of "\<lparr>BeforeExecutionCallback = None, AfterExecutionCallback = None\<rparr>"
      "ex_payload ''execute''" undefined "()" background]
  by (simp add: ex_payload_def go_consts)

end
