(* ===== verification/Handler.thy ===== *)
theory Handler
  imports AgentExec Distributed
begin

text \<open>
  \<open>a2asrv/handler.go\<close>: the default request handler. The execution manager and the extended card
  are arguments: a call of the manager gives an error or a subscription, which is the list of its
  items. The state of the store is given for each time the handler reads it.
\<close>

section \<open>Handler and construction\<close>

text \<open>
  The dependencies that the methods use. \<open>h_push\<close> is present when both the push store and the
  sender are.
\<close>

record ('s, 'p) handler =
  h_taskStore :: "'s store_ops"
  h_push :: "'p push_store_ops option"

text \<open>The authenticator of the default task store (\<open>middleware.go\<close>).\<close>

definition NewTaskStoreAuthenticator :: "go_ctx \<Rightarrow> go_error + string" where
  "NewTaskStoreAuthenticator ctx =
     (case CallContextFrom ctx of
        None \<Rightarrow> Inl (Sentinel ErrUnauthenticated)
      | Some callCtx \<Rightarrow> Inr (user_Name (cc_User callCtx)))"

text \<open>
  What \<open>NewHandler\<close> decides: which dependencies are given, and the mode, the defaults, or the
  panic that follows. The enforcer of capabilities is given by whether it requires push support.
\<close>

record handler_options =
  opt_enforced_push :: bool
  opt_push :: bool
  opt_workQueue :: bool
  opt_taskStore :: bool
  opt_queueManager :: bool

datatype handler_mode =
    Distributed_mode
  | Local_mode "bool" "bool"   \<comment> \<open>whether the queue manager and the task store are the defaults\<close>

definition NewHandler :: "handler_options \<Rightarrow> string + handler_mode" where
  "NewHandler h =
     (if opt_enforced_push h \<and> \<not> opt_push h
      then Inl ''push notifications are enforced and supported but push config store or sender are not configured''
      else if opt_workQueue h
      then (if \<not> opt_taskStore h \<or> \<not> opt_queueManager h
            then Inl ''TaskStore and QueueManager must be provided for cluster mode''
            else Inr Distributed_mode)
      else Inr (Local_mode (\<not> opt_queueManager h) (\<not> opt_taskStore h)))"

section \<open>Tasks\<close>

definition handler_GetTask ::
  "('s, 'p) handler \<Rightarrow> go_ctx \<Rightarrow> get_request \<Rightarrow> 's \<Rightarrow> go_error + task" where
  "handler_GetTask h ctx req s =
     (if get_ID req = '''' then Inl (Errorf ''missing TaskID: %w'' [Sentinel ErrInvalidParams])
      else (case Get (h_taskStore h) ctx (get_ID req) s of
              Inl err \<Rightarrow> Inl (Errorf ''failed to get task: %w'' [err])
            | Inr storedTask \<Rightarrow>
                (let task = st_Task storedTask
                 in case get_HistoryLength req of
                      None \<Rightarrow> Inr task
                    | Some historyLength \<Rightarrow>
                        if historyLength \<le> 0 then Inr (task\<lparr>task_History := []\<rparr>)
                        else if historyLength < int (length (task_History task))
                        then Inr (task\<lparr>task_History := last_n (nat historyLength) (task_History task)\<rparr>)
                        else Inr task)))"

definition handler_ListTasks ::
  "('s, 'p) handler \<Rightarrow> go_ctx \<Rightarrow> list_request \<Rightarrow> 's \<Rightarrow> go_error + list_response" where
  "handler_ListTasks h ctx req s =
     (case List (h_taskStore h) ctx req s of
        Inl err \<Rightarrow> Inl (Errorf ''failed to list tasks: %w'' [err])
      | Inr listResponse \<Rightarrow> Inr listResponse)"

definition handler_CancelTask ::
  "(cancel_request \<Rightarrow> go_error + task) \<Rightarrow> cancel_request option \<Rightarrow> go_error + task" where
  "handler_CancelTask cancel request =
     (case request of
        None \<Rightarrow> Inl (Sentinel ErrInvalidParams)
      | Some req \<Rightarrow>
          if cancel_ID req = '''' then Inl (Sentinel ErrInvalidParams)
          else (case cancel req of
                  Inl err \<Rightarrow> Inl (Errorf ''failed to cancel: %w'' [err])
                | Inr response \<Rightarrow> Inr response))"

section \<open>Messages\<close>

definition handleSendMessage ::
  "(send_request \<Rightarrow> go_error + item list) \<Rightarrow> send_request option \<Rightarrow> go_error + item list" where
  "handleSendMessage execute request =
     (case request of
        None \<Rightarrow> Inl (Errorf ''SendMessageRequest is required: %w'' [Sentinel ErrInvalidParams])
      | Some req \<Rightarrow>
          (case req_Message req of
             None \<Rightarrow> Inl (Errorf ''message is required: %w'' [Sentinel ErrInvalidParams])
           | Some msg \<Rightarrow>
               if msg_ID msg = '''' then Inl (Errorf ''message ID is required: %w'' [Sentinel ErrInvalidParams])
               else if msg_Parts msg = [] then Inl (Errorf ''message parts is required: %w'' [Sentinel ErrInvalidParams])
               else if msg_Role msg = '''' then Inl (Errorf ''message role is required: %w'' [Sentinel ErrInvalidParams])
               else execute req))"

definition return_immediately :: "send_request \<Rightarrow> bool" where
  "return_immediately req = (case req_Config req of None \<Rightarrow> False | Some c \<Rightarrow> cfg_ReturnImmediately c)"

text \<open>\<open>Some tid\<close>: the call is interrupted and the task \<open>tid\<close> is returned.\<close>

definition shouldInterruptNonStreaming :: "send_request \<Rightarrow> event \<Rightarrow> task_id option" where
  "shouldInterruptNonStreaming req event =
     (if return_immediately req
      then (case event of EMessage m \<Rightarrow> None | _ \<Rightarrow> Some (ti_TaskID (event_TaskInfo event)))
      else (case event of
              ETask a v \<Rightarrow>
                if ts_State (task_Status v) = TaskStateAuthRequired then Some (task_ID v) else None
            | EStatus v \<Rightarrow>
                if ts_State (se_Status v) = TaskStateAuthRequired then Some (se_TaskID v) else None
            | _ \<Rightarrow> None))"

text \<open>
  The loop of \<open>SendMessage\<close>: it ends with the first error, with an interrupt, or with the last
  event. An item without event and error (a promise with a nil result) has no task info.
\<close>

datatype send_scan =
    ScanError go_error
  | ScanInterrupt task_id
  | ScanDone "event option"

fun scan_items :: "send_request \<Rightarrow> event option \<Rightarrow> item list \<Rightarrow> send_scan" where
  "scan_items req lastEvent [] = ScanDone lastEvent"
| "scan_items req lastEvent ((ev, Some err) # its) = ScanError err"
| "scan_items req lastEvent ((None, None) # its) =
     (if return_immediately req then ScanError nil_panic else scan_items req None its)"
| "scan_items req lastEvent ((Some ev, None) # its) =
     (case shouldInterruptNonStreaming req ev of
        Some tid \<Rightarrow> ScanInterrupt tid
      | None \<Rightarrow> scan_items req (Some ev) its)"

text \<open>\<open>s\<close> is the store when the task of the answer is loaded.\<close>

definition handler_SendMessage ::
  "('s, 'p) handler \<Rightarrow> (send_request \<Rightarrow> go_error + item list) \<Rightarrow> go_ctx \<Rightarrow> send_request option \<Rightarrow> 's \<Rightarrow>
     go_error + send_result" where
  "handler_SendMessage h execute ctx request s =
     (case handleSendMessage execute request of
        Inl err \<Rightarrow> Inl err
      | Inr items \<Rightarrow>
          (case scan_items (the request) None items of
             ScanError err \<Rightarrow> Inl err
           | ScanInterrupt taskID \<Rightarrow>
               (case Get (h_taskStore h) ctx taskID s of
                  Inl err \<Rightarrow> Inl (Errorf ''failed to load task on event processing interrupt: %w'' [err])
                | Inr storedTask \<Rightarrow> Inr (RTask (st_Task storedTask)))
           | ScanDone None \<Rightarrow>
               Inl (Errorf ''execution finished without producing any events: %w'' [Sentinel ErrInvalidAgentResponse])
           | ScanDone (Some (EMessage m)) \<Rightarrow> Inr (RMessage m)
           | ScanDone (Some (ETask a t)) \<Rightarrow> Inr (RTask t)
           | ScanDone (Some ev) \<Rightarrow>
               (case Get (h_taskStore h) ctx (ti_TaskID (event_TaskInfo ev)) s of
                  Inl err \<Rightarrow> Inl (Errorf ''failed to load result after execution finished: %w'' [err])
                | Inr task \<Rightarrow> Inr (RTask (st_Task task)))))"

definition handler_SendStreamingMessage ::
  "(send_request \<Rightarrow> go_error + item list) \<Rightarrow> send_request option \<Rightarrow> item list" where
  "handler_SendStreamingMessage execute request =
     (case handleSendMessage execute request of
        Inl err \<Rightarrow> [(None, Some err)]
      | Inr items \<Rightarrow> items)"

definition handler_SubscribeToTask ::
  "('s, 'p) handler \<Rightarrow> (task_id \<Rightarrow> go_error + item list) \<Rightarrow> addr \<Rightarrow> go_ctx \<Rightarrow> subscribe_request option \<Rightarrow> 's \<Rightarrow>
     item list" where
  "handler_SubscribeToTask h resubscribe a ctx request s =
     (case request of
        None \<Rightarrow> [(None, Some (Sentinel ErrInvalidParams))]
      | Some req \<Rightarrow>
          (case resubscribe (sub_ID req) of
             Inr items \<Rightarrow> items
           | Inl err \<Rightarrow>
               (case Get (h_taskStore h) ctx (sub_ID req) s of
                  Inl getErr \<Rightarrow> [(None, Some (Errorf ''%w: %w'' [Sentinel ErrTaskNotFound, err]))]
                | Inr storedTask \<Rightarrow>
                    if Terminal (ts_State (task_Status (st_Task storedTask)))
                    then [(None, Some (Errorf ''task in a terminal state %q: %w'' [Sentinel ErrUnsupportedOperation]))]
                    else [(Some (ETask a (st_Task storedTask)), None)])))"

section \<open>Push configurations\<close>

text \<open>
  The check that push is supported and the reading of the task that authorizes the caller; the four
  methods differ in what they then do.
\<close>

definition authorized_push ::
  "('s, 'p) handler \<Rightarrow> string \<Rightarrow> go_ctx \<Rightarrow> task_id \<Rightarrow> 's \<Rightarrow> go_error + 'p push_store_ops" where
  "authorized_push h text ctx tid s =
     (case h_push h of
        None \<Rightarrow> Inl (Sentinel ErrPushNotificationNotSupported)
      | Some push \<Rightarrow>
          (case Get (h_taskStore h) ctx tid s of
             Inl err \<Rightarrow> Inl (Errorf text [err])
           | Inr st \<Rightarrow> Inr push))"

definition handler_GetTaskPushConfig ::
  "('s, 'p) handler \<Rightarrow> go_ctx \<Rightarrow> push_request \<Rightarrow> 's \<Rightarrow> 'p \<Rightarrow> go_error + push_config" where
  "handler_GetTaskPushConfig h ctx req s ps =
     (case authorized_push h ''failed to get push config: %w'' ctx (pr_TaskID req) s of
        Inl err \<Rightarrow> Inl err
      | Inr push \<Rightarrow>
          (case push_Get push (pr_TaskID req) (pr_ID req) ps of
             Inl err \<Rightarrow> Inl (Errorf ''failed to get push config: %w'' [err])
           | Inr config \<Rightarrow> Inr config))"

definition handler_ListTaskPushConfigs ::
  "('s, 'p) handler \<Rightarrow> go_ctx \<Rightarrow> task_id \<Rightarrow> 's \<Rightarrow> 'p \<Rightarrow> go_error + push_config list" where
  "handler_ListTaskPushConfigs h ctx tid s ps =
     (case authorized_push h ''failed to list push configs: %w'' ctx tid s of
        Inl err \<Rightarrow> Inl err
      | Inr push \<Rightarrow>
          (case push_List push tid ps of
             Inl err \<Rightarrow> Inl (Errorf ''failed to list push configs: %w'' [err])
           | Inr configs \<Rightarrow> Inr configs))"

definition handler_CreateTaskPushConfig ::
  "('s, 'p) handler \<Rightarrow> string \<Rightarrow> go_ctx \<Rightarrow> push_config \<Rightarrow> 's \<Rightarrow> 'p \<Rightarrow> 'p \<times> (go_error + push_config)" where
  "handler_CreateTaskPushConfig h uuid ctx req s ps =
     (case authorized_push h ''failed to create push config: %w'' ctx (pc_TaskID req) s of
        Inl err \<Rightarrow> (ps, Inl err)
      | Inr push \<Rightarrow>
          (case push_Save push uuid (pc_TaskID req) req ps of
             (ps', Inl err) \<Rightarrow> (ps', Inl (Errorf ''failed to create push config: %w'' [err]))
           | (ps', Inr saved) \<Rightarrow> (ps', Inr saved)))"

definition handler_DeleteTaskPushConfig ::
  "('s, 'p) handler \<Rightarrow> go_ctx \<Rightarrow> push_request \<Rightarrow> 's \<Rightarrow> 'p \<Rightarrow> 'p \<times> go_error option" where
  "handler_DeleteTaskPushConfig h ctx req s ps =
     (case authorized_push h ''failed to delete push config: %w'' ctx (pr_TaskID req) s of
        Inl err \<Rightarrow> (ps, Some err)
      | Inr push \<Rightarrow> (push_Delete push (pr_TaskID req) (pr_ID req) ps, None))"

definition handler_GetExtendedAgentCard :: "(unit \<Rightarrow> go_error + 'card) option \<Rightarrow> go_error + 'card" where
  "handler_GetExtendedAgentCard producer =
     (case producer of
        None \<Rightarrow> Inl (Sentinel ErrExtendedCardNotConfigured)
      | Some p \<Rightarrow> p ())"

section \<open>Properties\<close>

text \<open>A message that the handler passes on.\<close>

definition valid_message :: "message \<Rightarrow> bool" where
  "valid_message m = (msg_ID m \<noteq> '''' \<and> msg_Parts m \<noteq> [] \<and> msg_Role m \<noteq> '''')"

lemma handleSendMessage_Inr:
  "handleSendMessage execute request = Inr items \<Longrightarrow>
     \<exists>req m. request = Some req \<and> req_Message req = Some m \<and> valid_message m \<and> execute req = Inr items"
  by (auto simp: handleSendMessage_def valid_message_def split: option.splits if_splits)

lemma handleSendMessage_valid:
  "req_Message req = Some m \<Longrightarrow> valid_message m \<Longrightarrow> handleSendMessage execute (Some req) = execute req"
  by (simp add: handleSendMessage_def valid_message_def)

lemma handleSendMessage_refused:
  assumes "\<nexists>req m. request = Some req \<and> req_Message req = Some m \<and> valid_message m"
  shows "\<exists>err. errors_Is err ErrInvalidParams \<and> (\<forall>execute. handleSendMessage execute request = Inl err)"
proof (cases "\<exists>req m. request = Some req \<and> req_Message req = Some m")
  case True
  then obtain req m where m: "request = Some req" "req_Message req = Some m" by blast
  with assms have "\<not> valid_message m" by blast
  with m show ?thesis
    by (cases "msg_ID m = []"; cases "msg_Parts m = []") (auto simp: handleSendMessage_def valid_message_def)
next
  case False
  then show ?thesis by (cases request) (auto simp: handleSendMessage_def split: option.splits)
qed

text \<open>An item that lets the loop go on.\<close>

fun passing :: "send_request \<Rightarrow> item \<Rightarrow> bool" where
  "passing req (ev, Some err) = False"
| "passing req (None, None) = (\<not> return_immediately req)"
| "passing req (Some ev, None) = (shouldInterruptNonStreaming req ev = None)"

lemma scan_done:
  "scan_items req l its = ScanDone r \<Longrightarrow>
     list_all (passing req) its \<and> r = (if its = [] then l else fst (last its))"
proof (induction req l its rule: scan_items.induct)
  case (3 req l its)
  then show ?case by (auto split: if_splits)
next
  case (4 req l ev its)
  then show ?case by (auto split: option.splits)
qed simp_all

lemma scan_interrupt:
  "scan_items req l its = ScanInterrupt tid \<Longrightarrow>
     \<exists>pre ev post. its = pre @ (Some ev, None) # post \<and> shouldInterruptNonStreaming req ev = Some tid \<and>
       list_all (passing req) pre"
proof (induction req l its rule: scan_items.induct)
  case (3 req l its)
  then have "\<not> return_immediately req" by auto
  with 3 obtain pre ev post where "its = pre @ (Some ev, None) # post"
    "shouldInterruptNonStreaming req ev = Some tid" "list_all (passing req) pre"
    by auto
  with \<open>\<not> return_immediately req\<close> show ?case by (intro exI[of _ "(None, None) # pre"]) auto
next
  case (4 req l ev its)
  show ?case
  proof (cases "shouldInterruptNonStreaming req ev")
    case None
    with 4 obtain pre ev' post where "its = pre @ (Some ev', None) # post"
      "shouldInterruptNonStreaming req ev' = Some tid" "list_all (passing req) pre"
      by auto
    with None show ?thesis by (intro exI[of _ "(Some ev, None) # pre"]) auto
  next
    case (Some t)
    with 4 show ?thesis by (intro exI[of _ "[]"]) auto
  qed
qed simp_all

text \<open>
  What a blocking send answers. A valid message is executed; if the call succeeds, either an event
  interrupted it (the caller asked to return immediately, or the task waits for authentication) and
  the answer is the stored task of that event, or the execution ran to its last event without an error
  and the answer is that event, or the stored task it belongs to.
\<close>

lemma SendMessage_answer:
  assumes "handler_SendMessage h execute ctx request s = Inr r"
  shows "\<exists>req m items. request = Some req \<and> req_Message req = Some m \<and> valid_message m \<and> execute req = Inr items \<and>
    ((\<exists>pre ev post st. items = pre @ (Some ev, None) # post \<and> list_all (passing req) pre \<and>
        (return_immediately req \<or>
         (\<exists>a t. ev = ETask a t \<and> ts_State (task_Status t) = TaskStateAuthRequired) \<or>
         (\<exists>e. ev = EStatus e \<and> ts_State (se_Status e) = TaskStateAuthRequired)) \<and>
        Get (h_taskStore h) ctx (ti_TaskID (event_TaskInfo ev)) s = Inr st \<and> r = RTask (st_Task st)) \<or>
     (\<exists>ev. items \<noteq> [] \<and> list_all (passing req) items \<and> fst (last items) = Some ev \<and>
        (ev = result_event (case ev of ETask a t \<Rightarrow> a | _ \<Rightarrow> 0) r \<or>
         (\<exists>st. Get (h_taskStore h) ctx (ti_TaskID (event_TaskInfo ev)) s = Inr st \<and> r = RTask (st_Task st)))))"
proof -
  from assms obtain items where hs: "handleSendMessage execute request = Inr items"
    by (auto simp: handler_SendMessage_def split: sum.splits)
  from handleSendMessage_Inr[OF this] obtain req m where v: "request = Some req" "req_Message req = Some m"
    "valid_message m" "execute req = Inr items" by blast
  have task: "(return_immediately req \<or>
      (\<exists>a t. ev = ETask a t \<and> ts_State (task_Status t) = TaskStateAuthRequired) \<or>
      (\<exists>e. ev = EStatus e \<and> ts_State (se_Status e) = TaskStateAuthRequired)) \<and> tid = ti_TaskID (event_TaskInfo ev)"
    if "shouldInterruptNonStreaming req ev = Some tid" for ev tid
    using that by (auto simp: shouldInterruptNonStreaming_def Task_TaskInfo_def split: event.splits if_splits)
  show ?thesis
  proof (cases "scan_items req None items")
    case (ScanError err)
    with assms hs v(1) show ?thesis by (simp add: handler_SendMessage_def)
  next
    case (ScanInterrupt tid)
    with assms hs v(1) obtain st where st: "Get (h_taskStore h) ctx tid s = Inr st" "r = RTask (st_Task st)"
      by (auto simp: handler_SendMessage_def split: sum.splits)
    from scan_interrupt[OF ScanInterrupt] obtain pre ev post where
      "items = pre @ (Some ev, None) # post" "shouldInterruptNonStreaming req ev = Some tid"
      "list_all (passing req) pre" by blast
    with task[of ev tid] st v show ?thesis by blast
  next
    case (ScanDone e)
    with assms hs v(1) obtain ev where ev: "e = Some ev"
      by (auto simp: handler_SendMessage_def split: option.splits)
    from scan_done[OF ScanDone] ev have i: "items \<noteq> []" "list_all (passing req) items" "fst (last items) = Some ev"
      by (auto split: if_splits)
    have "ev = result_event (case ev of ETask a t \<Rightarrow> a | _ \<Rightarrow> 0) r \<or>
        (\<exists>st. Get (h_taskStore h) ctx (ti_TaskID (event_TaskInfo ev)) s = Inr st \<and> r = RTask (st_Task st))"
      using assms hs v(1) ScanDone ev
      by (cases ev) (auto simp: handler_SendMessage_def split: sum.splits)
    with i v show ?thesis by blast
  qed
qed

text \<open>
  A malformed send is refused as invalid parameters before anything is executed: without a request,
  a message, a message id, parts or a role, both kinds of send answer that error whatever the execution
  manager would do, and every other message reaches it.
\<close>

lemma send_validation:
  "if \<exists>req m. request = Some req \<and> req_Message req = Some m \<and> valid_message m
   then handleSendMessage execute request = execute (the request)
   else (\<exists>err. errors_Is err ErrInvalidParams \<and>
     (\<forall>execute s. handler_SendMessage h execute ctx request s = Inl err \<and>
        handler_SendStreamingMessage execute request = [(None, Some err)]))"
proof (cases "\<exists>req m. request = Some req \<and> req_Message req = Some m \<and> valid_message m")
  case True
  then show ?thesis using handleSendMessage_valid by fastforce
next
  case False
  from handleSendMessage_refused[OF this] obtain err where
    err: "errors_Is err ErrInvalidParams" "\<And>execute. handleSendMessage execute request = Inl err" by blast
  then have "\<forall>execute s. handler_SendMessage h execute ctx request s = Inl err \<and>
      handler_SendStreamingMessage execute request = [(None, Some err)]"
    by (simp add: handler_SendMessage_def handler_SendStreamingMessage_def)
  with False err(1) show ?thesis by (simp only: if_False) blast
qed

text \<open>
  C40: Only the owner of a task reaches its push configurations: with the in-memory task store, for a task
  of another user (or an unknown one) each of the four methods fails with "task not found" and leaves
  the configurations as they are.
\<close>

lemma push_configs_owner_only:
  assumes "h_taskStore h = in_memory_ops cfg tf" "h_push h = Some push" "Authenticator cfg ctx = Inr u"
    and "\<forall>st. fmlookup (im_tasks s) tid = Some st \<longrightarrow> s_user st \<noteq> u"
  shows "\<exists>e1 e2 e3 e4. list_all (\<lambda>e. errors_Is e ErrTaskNotFound) [e1, e2, e3, e4] \<and>
    handler_GetTaskPushConfig h ctx \<lparr>pr_Tenant = tenant, pr_TaskID = tid, pr_ID = cid\<rparr> s ps = Inl e1 \<and>
    handler_ListTaskPushConfigs h ctx tid s ps = Inl e2 \<and>
    handler_CreateTaskPushConfig h uuid ctx (c\<lparr>pc_TaskID := tid\<rparr>) s ps = (ps, Inl e3) \<and>
    handler_DeleteTaskPushConfig h ctx \<lparr>pr_Tenant = tenant, pr_TaskID = tid, pr_ID = cid\<rparr> s ps = (ps, Some e4)"
proof -
  have "im_Get cfg ctx tid s = Inl (Sentinel ErrTaskNotFound)"
    using assms(3,4) by (auto simp: im_Get_def split: option.splits)
  with assms(1,2) show ?thesis
    by (simp add: authorized_push_def handler_GetTaskPushConfig_def handler_ListTaskPushConfigs_def
        handler_CreateTaskPushConfig_def handler_DeleteTaskPushConfig_def)
qed

text \<open>
  C33: Subscribing to a task of another user. In cluster mode the call fails with "task not found" and
  opens no reader. In local mode the subscription of a running execution does not fail: the store
  hides the task from the caller, which the loop takes for a task that is not stored yet, and the
  caller gets every event of the execution up to the final one.
\<close>

lemma foreign_subscription:
  assumes "Authenticator cfg ctx = Inr u" "fmlookup (im_tasks s) tid = Some st" "s_user st \<noteq> u"
  shows "dist_Resubscribe (in_memory_ops cfg tf) qops ctx tid s q = (q, Inl (Sentinel ErrTaskNotFound)) \<and>
    localSubscription_Events a False True (im_Get cfg ctx tid s) (map Inr ms) w =
      map (\<lambda>m. (qm_Event m, None)) (until_final ms)"
proof -
  have g: "im_Get cfg ctx tid s = Inl (Sentinel ErrTaskNotFound)"
    using assms by (simp add: im_Get_def)
  have "filter (\<lambda>m. After (qm_TaskVersion m) TaskVersionMissing) ms = ms"
    by (simp add: After_def)
  with g show ?thesis
    by (simp add: dist_Resubscribe_def localSubscription_Events_def local_loop_messages)
qed

text \<open>
  Reading a task gives the stored task with its most recent messages: the history in the answer is
  a suffix of the stored one, of the requested length or the whole if it is shorter, and nothing else
  is changed.
\<close>

lemma GetTask_answer:
  assumes "handler_GetTask h ctx req s = Inr t"
  shows "\<exists>st older. Get (h_taskStore h) ctx (get_ID req) s = Inr st \<and>
    t = (st_Task st)\<lparr>task_History := task_History t\<rparr> \<and> task_History (st_Task st) = older @ task_History t \<and>
    (case get_HistoryLength req of
       None \<Rightarrow> older = []
     | Some n \<Rightarrow> length (task_History t) = min (nat n) (length (task_History (st_Task st))))"
proof -
  from assms obtain st where st: "Get (h_taskStore h) ctx (get_ID req) s = Inr st"
    by (auto simp: handler_GetTask_def split: if_splits sum.splits)
  let ?t = "st_Task st"
  have "\<exists>older. task_History ?t = older @ last_n k (task_History ?t)" if "k < length (task_History ?t)" for k
    by (metis append_take_drop_id last_n_def)
  moreover have "length (last_n k (task_History ?t)) = min k (length (task_History ?t))" for k
    by (simp add: last_n_def)
  ultimately show ?thesis using assms st
    by (fastforce simp: handler_GetTask_def Let_def split: if_splits option.splits)
qed

section \<open>Witnesses\<close>

definition ex_handler :: "(in_memory, push_configs) handler" where
  "ex_handler = \<lparr>h_taskStore = in_memory_ops ex_cfg unary_format,
     h_push = Some (in_memory_push_ops (\<lambda>url. True))\<rparr>"

definition ex_valid_send :: send_request where
  "ex_valid_send = ex_send\<lparr>req_Message := Some (ex_user_message\<lparr>msg_Parts := [NewTextPart ''x'']\<rparr>)\<rparr>"

definition ex_other_user :: go_ctx where
  "ex_other_user = background\<lparr>ctx_call := Some \<lparr>cc_method = '''', cc_svcParams = fmempty, cc_activatedExtensions = [],
      cc_User = NewAuthenticatedUser ''other'' None, cc_ProtocolVersion = [], cc_tenant = ''''\<rparr>\<rparr>"

lemma ex_other_auth: "Authenticator ex_cfg ex_other_user = Inr ''other''"
  by (simp add: ex_cfg_def ex_other_user_def NewAuthenticatedUser_def)

lemma ex_other_lookup: "fmlookup (im_tasks ex_store) ''a'' = Some (ex_stored ''a'' 0)" "s_user (ex_stored ''a'' 0) \<noteq> ''other''"
  by (simp_all add: ex_store_eq ex_stored_def)

lemma SendMessage_answer_witness:
  "\<exists>m. handler_SendMessage ex_handler (\<lambda>req. Inr [(Some (EStatus ex_done), None)]) background (Some ex_valid_send)
       ex_store = Inr (RTask (ex_task ''a'')) \<and> req_Message ex_valid_send = Some m \<and> valid_message m"
proof -
  have r: "handler_SendMessage ex_handler (\<lambda>req. Inr [(Some (EStatus ex_done), None)]) background (Some ex_valid_send)
      ex_store = Inr (RTask (ex_task ''a''))"
    by (simp add: handler_SendMessage_def handleSendMessage_def ex_valid_send_def ex_send_def ex_user_message_def
        shouldInterruptNonStreaming_def return_immediately_def ex_done_def NewStatusUpdateEvent_def ex_handler_def ex_get
        go_consts)
  from SendMessage_answer[OF r] r show ?thesis by blast
qed

lemma send_validation_witness:
  "\<exists>err. errors_Is err ErrInvalidParams \<and>
     handler_SendMessage ex_handler (\<lambda>req. Inr []) background (Some ex_send) ex_store = Inl err"
  using send_validation[where request = "Some ex_send" and h = ex_handler and ctx = background]
  by (auto simp: ex_send_def ex_user_message_def valid_message_def split: if_splits)

lemma push_configs_owner_only_witness:
  "\<exists>e. handler_GetTaskPushConfig ex_handler ex_other_user \<lparr>pr_Tenant = '''', pr_TaskID = ''a'', pr_ID = ''p''\<rparr>
     ex_store NewInMemoryPushStore = Inl e \<and> errors_Is e ErrTaskNotFound"
proof -
  have h: "h_taskStore ex_handler = in_memory_ops ex_cfg unary_format"
    "h_push ex_handler = Some (in_memory_push_ops (\<lambda>url. True))" by (simp_all add: ex_handler_def)
  have "\<forall>st. fmlookup (im_tasks ex_store) ''a'' = Some st \<longrightarrow> s_user st \<noteq> ''other''"
    using ex_other_lookup by simp
  from push_configs_owner_only[OF h ex_other_auth this, of "''''" "''p''" NewInMemoryPushStore] show ?thesis
    by fastforce
qed

lemma foreign_subscription_witness:
  "localSubscription_Events 0 False True (im_Get ex_cfg ex_other_user ''a'' ex_store) (map Inr [ex_message]) (None, None) =
     [(qm_Event ex_message, None)]"
  using foreign_subscription[OF ex_other_auth ex_other_lookup, where tf = unary_format and ms = "[ex_message]"
      and w = "(None, None)" and a = 0 and qops = in_memory_queues and q = ex_qm]
  by simp

lemma GetTask_answer_witness:
  "\<exists>t. handler_GetTask ex_handler background \<lparr>get_Tenant = '''', get_ID = ''a'', get_HistoryLength = Some 0\<rparr> ex_store = Inr t \<and>
     length (task_History t) = 0"
proof -
  obtain t where t: "handler_GetTask ex_handler background
      \<lparr>get_Tenant = '''', get_ID = ''a'', get_HistoryLength = Some 0\<rparr> ex_store = Inr t"
    by (simp add: handler_GetTask_def ex_handler_def ex_get Let_def)
  from GetTask_answer[OF t] t show ?thesis by auto
qed

end
