(* ===== verification/ProtoTasks.thy ===== *)
theory ProtoTasks
  imports GoJson "HOL-Library.Word"
begin

text \<open>
  The conversions between the data model and the protobuf messages of version 1,
  \<open>a2apb/v1/pbconv\<close>: messages, tasks, events, requests and responses. The generated structs of
  \<open>a2apb/v1/a2av1.pb.go\<close> are records with the fields' names behind a prefix. Enums are open: an
  int32 of any value. Repeated fields hold no nil, which unmarshalling never produces and \<open>Core\<close>
  has not; parts are the exception, because the code tests for them. The members of a one-of are
  non-nil for the same reason. The packages \<open>structpb\<close> and \<open>timestamppb\<close> are a parameter.
\<close>

section \<open>The libraries\<close>

text \<open>
  The types of a \<open>Struct\<close>, a \<open>Value\<close> and a \<open>Timestamp\<close> are parameters as well. \<open>AsInterface\<close> is
  called on a value that may be nil.
\<close>

record ('s, 'v, 't) pb_lib =
  pb_NewStruct :: "(string, any) fmap \<Rightarrow> go_error + 's"
  pb_AsMap :: "'s \<Rightarrow> (string, any) fmap"
  pb_NewValue :: "any \<Rightarrow> go_error + 'v"
  pb_AsInterface :: "'v option \<Rightarrow> any"
  pb_TimestampNew :: "gotime \<Rightarrow> 't"
  pb_AsTime :: "'t \<Rightarrow> gotime"

text \<open>
  Which values \<open>structpb.NewValue\<close> documents that it accepts; a map of strings is not one. What
  comes back is the JSON form of the value, a float32 with its exact value, and times come back
  exactly.
\<close>

primrec struct_value :: "any \<Rightarrow> bool" where
  "struct_value ANil = True"
| "struct_value (ABool b) = True"
| "struct_value (AInt k i) = True"
| "struct_value (AFloat k r) = True"
| "struct_value (AString s) = True"
| "struct_value (AArr xs) = list_all (\<lambda>b. b) (map struct_value xs)"
| "struct_value (AMap m) = fmpred (\<lambda>k b. b) (fmmap struct_value m)"
| "struct_value (AStrMap m) = False"
| "struct_value (AOther t) = False"

definition struct_map :: "(string, any) fmap \<Rightarrow> bool" where
  "struct_map m = fmpred (\<lambda>k v. struct_value v) m"

definition float_exact :: "rat \<Rightarrow> rat" where
  "float_exact r = r"

definition pb_ok :: "('s, 'v, 't) pb_lib \<Rightarrow> bool" where
  "pb_ok P = (
     (\<forall>m. isl (pb_NewStruct P m) = (\<not> struct_map m)) \<and>
     (\<forall>m s. pb_NewStruct P m = Inr s \<longrightarrow> pb_AsMap P s = norm_map float_exact m) \<and>
     (\<forall>v. isl (pb_NewValue P v) = (\<not> struct_value v)) \<and>
     (\<forall>v w. pb_NewValue P v = Inr w \<longrightarrow> pb_AsInterface P (Some w) = json_norm float_exact v) \<and>
     (\<forall>t. pb_AsTime P (pb_TimestampNew P t) = t))"

text \<open>A concrete library: values stand for themselves, in their JSON form.\<close>

definition plain_pb :: "((string, any) fmap, any, gotime) pb_lib" where
  "plain_pb = \<lparr>
     pb_NewStruct = (\<lambda>m. if struct_map m then Inr (norm_map float_exact m)
                      else Inl (Errorf ''proto: invalid type'' [])),
     pb_AsMap = (\<lambda>s. s),
     pb_NewValue = (\<lambda>v. if struct_value v then Inr (json_norm float_exact v)
                     else Inl (Errorf ''proto: invalid type'' [])),
     pb_AsInterface = (\<lambda>v. case v of None \<Rightarrow> ANil | Some w \<Rightarrow> w),
     pb_TimestampNew = (\<lambda>t. t), pb_AsTime = (\<lambda>t. t)\<rparr>"

lemma plain_pb_ok: "pb_ok plain_pb"
  by (simp add: pb_ok_def plain_pb_def)

section \<open>The protobuf messages\<close>

type_synonym int32 = "32 word"

datatype 'v pb_content = PText string | PRaw string | PUrl string | PData "'v option"

record ('s, 'v) pb_part =
  pp_Content :: "'v pb_content option"
  pp_Metadata :: "'s option"
  pp_Filename :: string
  pp_MediaType :: string

record ('s, 'v) pb_message =
  pm_MessageId :: string
  pm_ContextId :: string
  pm_TaskId :: string
  pm_Role :: int32
  pm_Parts :: "('s, 'v) pb_part option list"
  pm_Metadata :: "'s option"
  pm_Extensions :: "string list"
  pm_ReferenceTaskIds :: "string list"

record ('s, 'v, 't) pb_status =
  ps_State :: int32
  ps_Message :: "('s, 'v) pb_message option"
  ps_Timestamp :: "'t option"

record ('s, 'v) pb_artifact =
  pa_ArtifactId :: string
  pa_Name :: string
  pa_Description :: string
  pa_Parts :: "('s, 'v) pb_part option list"
  pa_Metadata :: "'s option"
  pa_Extensions :: "string list"

record ('s, 'v, 't) pb_task =
  pt_Id :: string
  pt_ContextId :: string
  pt_Status :: "('s, 'v, 't) pb_status option"
  pt_Artifacts :: "('s, 'v) pb_artifact list"
  pt_History :: "('s, 'v) pb_message list"
  pt_Metadata :: "'s option"

record ('s, 'v, 't) pb_status_event =
  pse_TaskId :: string
  pse_ContextId :: string
  pse_Status :: "('s, 'v, 't) pb_status option"
  pse_Metadata :: "'s option"

record ('s, 'v) pb_artifact_event =
  pae_TaskId :: string
  pae_ContextId :: string
  pae_Artifact :: "('s, 'v) pb_artifact option"
  pae_Append :: bool
  pae_LastChunk :: bool
  pae_Metadata :: "'s option"

datatype ('s, 'v, 't) pb_stream =
    PStreamTask "('s, 'v, 't) pb_task"
  | PStreamMessage "('s, 'v) pb_message"
  | PStreamStatus "('s, 'v, 't) pb_status_event"
  | PStreamArtifact "('s, 'v) pb_artifact_event"

datatype ('s, 'v, 't) pb_send_response =
    PSendTask "('s, 'v, 't) pb_task"
  | PSendMessage "('s, 'v) pb_message"

section \<open>Roles and states\<close>

definition ROLE_UNSPECIFIED :: int32 where
  [go_consts]: "ROLE_UNSPECIFIED = 0"
definition ROLE_USER :: int32 where
  [go_consts]: "ROLE_USER = 1"
definition ROLE_AGENT :: int32 where
  [go_consts]: "ROLE_AGENT = 2"

definition TASK_STATE_UNSPECIFIED :: int32 where
  [go_consts]: "TASK_STATE_UNSPECIFIED = 0"

definition TaskState_name :: "(int32 \<times> string) list" where
  "TaskState_name = [
     (0, ''TASK_STATE_UNSPECIFIED''),
     (1, ''TASK_STATE_SUBMITTED''),
     (2, ''TASK_STATE_WORKING''),
     (3, ''TASK_STATE_COMPLETED''),
     (4, ''TASK_STATE_FAILED''),
     (5, ''TASK_STATE_CANCELED''),
     (6, ''TASK_STATE_INPUT_REQUIRED''),
     (7, ''TASK_STATE_REJECTED''),
     (8, ''TASK_STATE_AUTH_REQUIRED'')]"

definition TaskState_value :: "(string \<times> int32) list" where
  "TaskState_value = [
     (''TASK_STATE_UNSPECIFIED'', 0),
     (''TASK_STATE_SUBMITTED'', 1),
     (''TASK_STATE_WORKING'', 2),
     (''TASK_STATE_COMPLETED'', 3),
     (''TASK_STATE_FAILED'', 4),
     (''TASK_STATE_CANCELED'', 5),
     (''TASK_STATE_INPUT_REQUIRED'', 6),
     (''TASK_STATE_REJECTED'', 7),
     (''TASK_STATE_AUTH_REQUIRED'', 8)]"

definition toProtoRole :: "message_role \<Rightarrow> int32" where
  "toProtoRole r =
     (if r = MessageRoleUser then ROLE_USER
      else if r = MessageRoleAgent then ROLE_AGENT
      else ROLE_UNSPECIFIED)"

definition fromProtoRole :: "int32 \<Rightarrow> message_role" where
  "fromProtoRole r =
     (if r = ROLE_USER then MessageRoleUser
      else if r = ROLE_AGENT then MessageRoleAgent
      else MessageRoleUnspecified)"

definition toProtoTaskState :: "task_state \<Rightarrow> int32" where
  "toProtoTaskState state =
     (case map_of TaskState_value state of
        Some code \<Rightarrow> code
      | None \<Rightarrow> TASK_STATE_UNSPECIFIED)"

definition fromProtoTaskState :: "int32 \<Rightarrow> task_state" where
  "fromProtoTaskState state =
     (if state \<noteq> TASK_STATE_UNSPECIFIED
      then (case map_of TaskState_name state of
              Some name \<Rightarrow> name
            | None \<Rightarrow> TaskStateUnspecified)
      else TaskStateUnspecified)"

section \<open>From the data model (to_proto.go)\<close>

definition toProtoMap :: "('s, 'v, 't) pb_lib \<Rightarrow> metadata \<Rightarrow> go_error + 's option" where
  "toProtoMap P meta =
     nilable (\<lambda>m. wrapf ''failed to convert metadata to proto struct: %w'' (pb_NewStruct P m)) meta"

definition toProtoDataPart :: "('s, 'v, 't) pb_lib \<Rightarrow> any \<Rightarrow> go_error + 'v pb_content" where
  "toProtoDataPart P v =
     on_ok (wrapf ''failed to convert data to proto value: %w'' (pb_NewValue P v)) (\<lambda>value.
       Inr (PData (Some value)))"

definition toProtoPart :: "('s, 'v, 't) pb_lib \<Rightarrow> part \<Rightarrow> go_error + ('s, 'v) pb_part" where
  "toProtoPart P p =
     on_ok (wrapf ''failed to convert metadata to proto struct: %w'' (toProtoMap P (part_Metadata p))) (\<lambda>meta.
       let pPart = \<lparr>pp_Content = None, pp_Metadata = meta, pp_Filename = part_Filename p,
             pp_MediaType = part_MediaType p\<rparr>
       in case part_Content p of
            Some (Text s) \<Rightarrow> Inr (pPart\<lparr>pp_Content := Some (PText s)\<rparr>)
          | Some (Raw s) \<Rightarrow> Inr (pPart\<lparr>pp_Content := Some (PRaw s)\<rparr>)
          | Some (Data v) \<Rightarrow>
              on_ok (wrapf ''failed to convert data to proto value: %w'' (toProtoDataPart P v)) (\<lambda>content.
                Inr (pPart\<lparr>pp_Content := Some content\<rparr>))
          | Some (URL s) \<Rightarrow> Inr (pPart\<lparr>pp_Content := Some (PUrl s)\<rparr>)
          | None \<Rightarrow> Inl (Errorf ''unsupported part type: %T'' []))"

definition toProtoParts :: "('s, 'v, 't) pb_lib \<Rightarrow> part list \<Rightarrow> go_error + ('s, 'v) pb_part option list" where
  "toProtoParts P parts =
     conv_list (\<lambda>p. on_ok (wrapf ''failed to convert part: %w'' (toProtoPart P p)) (\<lambda>pPart. Inr (Some pPart)))
       parts"

text \<open>\<open>toProtoMessage\<close> and its like are defined on non-nil pointers; \<open>nilable\<close> adds the nil case.\<close>

definition toProtoMessage :: "('s, 'v, 't) pb_lib \<Rightarrow> message \<Rightarrow> go_error + ('s, 'v) pb_message" where
  "toProtoMessage P msg =
     on_ok (wrapf ''failed to convert parts: %w'' (toProtoParts P (msg_Parts msg))) (\<lambda>parts.
     on_ok (wrapf ''failed to convert metadata to proto struct: %w'' (toProtoMap P (msg_Metadata msg))) (\<lambda>pMetadata.
       Inr \<lparr>pm_MessageId = msg_ID msg, pm_ContextId = msg_ContextID msg, pm_TaskId = msg_TaskID msg,
            pm_Role = toProtoRole (msg_Role msg), pm_Parts = parts, pm_Metadata = pMetadata,
            pm_Extensions = msg_Extensions msg, pm_ReferenceTaskIds = msg_ReferenceTasks msg\<rparr>))"

definition toProtoMessages :: "('s, 'v, 't) pb_lib \<Rightarrow> message list \<Rightarrow> go_error + ('s, 'v) pb_message list" where
  "toProtoMessages P msgs =
     conv_list (\<lambda>msg. wrapf ''failed to convert message: %w'' (toProtoMessage P msg)) msgs"

definition toProtoTaskStatus ::
  "('s, 'v, 't) pb_lib \<Rightarrow> task_status \<Rightarrow> go_error + ('s, 'v, 't) pb_status" where
  "toProtoTaskStatus P st =
     on_ok (wrapf ''failed to convert message for task status: %w''
              (nilable (toProtoMessage P) (ts_Message st))) (\<lambda>pMsg.
       Inr \<lparr>ps_State = toProtoTaskState (ts_State st), ps_Message = pMsg,
            ps_Timestamp = map_option (pb_TimestampNew P) (ts_Timestamp st)\<rparr>)"

definition toProtoArtifact :: "('s, 'v, 't) pb_lib \<Rightarrow> artifact \<Rightarrow> go_error + ('s, 'v) pb_artifact" where
  "toProtoArtifact P a =
     on_ok (wrapf ''failed to convert metadata to proto struct: %w'' (toProtoMap P (art_Metadata a))) (\<lambda>meta.
     on_ok (wrapf ''failed to convert to proto parts: %w'' (toProtoParts P (art_Parts a))) (\<lambda>parts.
       Inr \<lparr>pa_ArtifactId = art_ID a, pa_Name = art_Name a, pa_Description = art_Description a,
            pa_Parts = parts, pa_Metadata = meta, pa_Extensions = art_Extensions a\<rparr>))"

definition toProtoArtifacts :: "('s, 'v, 't) pb_lib \<Rightarrow> artifact list \<Rightarrow> go_error + ('s, 'v) pb_artifact list" where
  "toProtoArtifacts P artifacts =
     conv_list (\<lambda>a. wrapf ''failed to convert artifact: %w'' (toProtoArtifact P a)) artifacts"

definition ToProtoTask :: "('s, 'v, 't) pb_lib \<Rightarrow> task \<Rightarrow> go_error + ('s, 'v, 't) pb_task" where
  "ToProtoTask P t =
     on_ok (wrapf ''failed to convert status: %w'' (toProtoTaskStatus P (task_Status t))) (\<lambda>status.
     on_ok (wrapf ''failed to convert artifacts: %w'' (toProtoArtifacts P (task_Artifacts t))) (\<lambda>artifacts.
     on_ok (wrapf ''failed to convert history: %w'' (toProtoMessages P (task_History t))) (\<lambda>history.
     on_ok (wrapf ''failed to convert metadata to proto struct: %w'' (toProtoMap P (task_Metadata t))) (\<lambda>meta.
       Inr \<lparr>pt_Id = task_ID t, pt_ContextId = task_ContextID t, pt_Status = Some status,
            pt_Artifacts = artifacts, pt_History = history, pt_Metadata = meta\<rparr>))))"

fun ToProtoSendMessageResponse ::
  "('s, 'v, 't) pb_lib \<Rightarrow> send_result \<Rightarrow> go_error + ('s, 'v, 't) pb_send_response" where
  "ToProtoSendMessageResponse P (RMessage r) = on_ok (toProtoMessage P r) (\<lambda>pMsg. Inr (PSendMessage pMsg))"
| "ToProtoSendMessageResponse P (RTask r) = on_ok (ToProtoTask P r) (\<lambda>pTask. Inr (PSendTask pTask))"

fun ToProtoStreamResponse ::
  "('s, 'v, 't) pb_lib \<Rightarrow> event option \<Rightarrow> go_error + ('s, 'v, 't) pb_stream" where
  "ToProtoStreamResponse P (Some (EMessage e)) =
     on_ok (toProtoMessage P e) (\<lambda>pMsg. Inr (PStreamMessage pMsg))"
| "ToProtoStreamResponse P (Some (ETask a e)) =
     on_ok (ToProtoTask P e) (\<lambda>pTask. Inr (PStreamTask pTask))"
| "ToProtoStreamResponse P (Some (EStatus e)) =
     on_ok (toProtoTaskStatus P (se_Status e)) (\<lambda>pStatus.
     on_ok (toProtoMap P (se_Metadata e)) (\<lambda>meta.
       Inr (PStreamStatus \<lparr>pse_TaskId = se_TaskID e, pse_ContextId = se_ContextID e,
              pse_Status = Some pStatus, pse_Metadata = meta\<rparr>)))"
| "ToProtoStreamResponse P (Some (EArtifact e)) =
     on_ok (toProtoArtifact P (ae_Artifact e)) (\<lambda>pArtifact.
     on_ok (toProtoMap P (ae_Metadata e)) (\<lambda>meta.
       Inr (PStreamArtifact \<lparr>pae_TaskId = ae_TaskID e, pae_ContextId = ae_ContextID e,
              pae_Artifact = Some pArtifact, pae_Append = ae_Append e, pae_LastChunk = ae_LastChunk e,
              pae_Metadata = meta\<rparr>)))"
| "ToProtoStreamResponse P None = Inl (Errorf ''unsupported Event type: %T'' [])"

section \<open>To the data model (from_proto.go)\<close>

definition fromProtoMap :: "('s, 'v, 't) pb_lib \<Rightarrow> 's option \<Rightarrow> metadata" where
  "fromProtoMap P meta = map_option (pb_AsMap P) meta"

definition fromProtoPart :: "('s, 'v, 't) pb_lib \<Rightarrow> ('s, 'v) pb_part option \<Rightarrow> go_error + part" where
  "fromProtoPart P pPart =
     (case pPart of
        None \<Rightarrow> Inl (Errorf ''part cannot be nil'' [])
      | Some p \<Rightarrow>
          (let part = \<lparr>part_Content = None, part_Filename = pp_Filename p,
                 part_MediaType = pp_MediaType p, part_Metadata = fromProtoMap P (pp_Metadata p)\<rparr>
           in case pp_Content p of
                Some (PText s) \<Rightarrow> Inr (part\<lparr>part_Content := Some (Text s)\<rparr>)
              | Some (PRaw s) \<Rightarrow> Inr (part\<lparr>part_Content := Some (Raw s)\<rparr>)
              | Some (PData v) \<Rightarrow> Inr (part\<lparr>part_Content := Some (Data (pb_AsInterface P v))\<rparr>)
              | Some (PUrl s) \<Rightarrow> Inr (part\<lparr>part_Content := Some (URL s)\<rparr>)
              | None \<Rightarrow> Inl (Errorf ''unsupported part type: %T'' [])))"

definition fromProtoParts :: "('s, 'v, 't) pb_lib \<Rightarrow> ('s, 'v) pb_part option list \<Rightarrow> go_error + part list" where
  "fromProtoParts P pParts =
     conv_list (\<lambda>p. wrapf ''failed to convert part: %w'' (fromProtoPart P p)) pParts"

definition FromProtoMessage :: "('s, 'v, 't) pb_lib \<Rightarrow> ('s, 'v) pb_message \<Rightarrow> go_error + message" where
  "FromProtoMessage P pMsg =
     on_ok (fromProtoParts P (pm_Parts pMsg)) (\<lambda>contentParts.
       if pm_MessageId pMsg = '''' then Inl (Errorf ''message id cannot be empty'' [])
       else if pm_Role pMsg = ROLE_UNSPECIFIED then Inl (Errorf ''message role cannot be unspecified'' [])
       else Inr \<lparr>msg_ID = pm_MessageId pMsg, msg_ContextID = pm_ContextId pMsg,
              msg_Extensions = pm_Extensions pMsg, msg_Metadata = fromProtoMap P (pm_Metadata pMsg),
              msg_Parts = contentParts, msg_ReferenceTasks = pm_ReferenceTaskIds pMsg,
              msg_Role = fromProtoRole (pm_Role pMsg), msg_TaskID = pm_TaskId pMsg\<rparr>)"

definition fromProtoMessages ::
  "('s, 'v, 't) pb_lib \<Rightarrow> ('s, 'v) pb_message list \<Rightarrow> go_error + message list" where
  "fromProtoMessages P pMsgs =
     conv_list (\<lambda>pMsg. wrapf ''failed to convert message: %w'' (FromProtoMessage P pMsg)) pMsgs"

definition fromProtoTaskStatus ::
  "('s, 'v, 't) pb_lib \<Rightarrow> ('s, 'v, 't) pb_status option \<Rightarrow> go_error + task_status" where
  "fromProtoTaskStatus P pStatus =
     (case pStatus of
        None \<Rightarrow> Inl (Errorf ''invalid status'' [])
      | Some s \<Rightarrow>
          on_ok (wrapf ''failed to convert message for task status: %w''
                   (nilable (FromProtoMessage P) (ps_Message s))) (\<lambda>msg.
            Inr \<lparr>ts_Message = msg, ts_State = fromProtoTaskState (ps_State s),
                 ts_Timestamp = map_option (pb_AsTime P) (ps_Timestamp s)\<rparr>))"

definition fromProtoArtifact :: "('s, 'v, 't) pb_lib \<Rightarrow> ('s, 'v) pb_artifact \<Rightarrow> go_error + artifact" where
  "fromProtoArtifact P pArtifact =
     on_ok (wrapf ''failed to convert from proto parts: %w'' (fromProtoParts P (pa_Parts pArtifact))) (\<lambda>contentParts.
       if pa_ArtifactId pArtifact = '''' then Inl (Errorf ''artifact id cannot be empty'' [])
       else Inr \<lparr>art_ID = pa_ArtifactId pArtifact, art_Description = pa_Description pArtifact,
              art_Extensions = pa_Extensions pArtifact,
              art_Metadata = fromProtoMap P (pa_Metadata pArtifact),
              art_Name = pa_Name pArtifact, art_Parts = contentParts\<rparr>)"

definition fromProtoArtifacts ::
  "('s, 'v, 't) pb_lib \<Rightarrow> ('s, 'v) pb_artifact list \<Rightarrow> go_error + artifact list" where
  "fromProtoArtifacts P pArtifacts =
     conv_list (\<lambda>a. wrapf ''failed to convert artifact: %w'' (fromProtoArtifact P a)) pArtifacts"

definition FromProtoTask :: "('s, 'v, 't) pb_lib \<Rightarrow> ('s, 'v, 't) pb_task \<Rightarrow> go_error + task" where
  "FromProtoTask P pTask =
     (if pt_Id pTask = '''' then Inl (Errorf ''task id cannot be empty'' [])
      else
        on_ok (wrapf ''failed to convert status: %w'' (fromProtoTaskStatus P (pt_Status pTask))) (\<lambda>status.
        on_ok (wrapf ''failed to convert artifacts: %w'' (fromProtoArtifacts P (pt_Artifacts pTask))) (\<lambda>artifacts.
        on_ok (wrapf ''failed to convert history: %w'' (fromProtoMessages P (pt_History pTask))) (\<lambda>history.
          Inr \<lparr>task_ID = pt_Id pTask, task_Artifacts = artifacts, task_ContextID = pt_ContextId pTask,
               task_History = history, task_Metadata = fromProtoMap P (pt_Metadata pTask),
               task_Status = status\<rparr>))))"

text \<open>
  A one-of without a member is an error. An artifact update without an artifact gives an event
  whose \<open>Artifact\<close> is nil, which the events of \<open>Core\<close> never have: it is kept apart. The address
  of a decoded task is an argument.
\<close>

definition FromProtoSendMessageResponse ::
  "('s, 'v, 't) pb_lib \<Rightarrow> ('s, 'v, 't) pb_send_response option \<Rightarrow> go_error + send_result" where
  "FromProtoSendMessageResponse P payload =
     (case payload of
        Some (PSendMessage m) \<Rightarrow> on_ok (FromProtoMessage P m) (\<lambda>msg. Inr (RMessage msg))
      | Some (PSendTask t) \<Rightarrow> on_ok (FromProtoTask P t) (\<lambda>t'. Inr (RTask t'))
      | None \<Rightarrow> Inl (Errorf ''unsupported SendMessageResponse payload type: %T'' []))"

datatype decoded_event =
    Whole event
  | NilArtifact task_id context_id bool bool metadata

definition FromProtoStreamResponse ::
  "('s, 'v, 't) pb_lib \<Rightarrow> addr \<Rightarrow> ('s, 'v, 't) pb_stream option \<Rightarrow> go_error + decoded_event" where
  "FromProtoStreamResponse P a payload =
     (case payload of
        Some (PStreamMessage m) \<Rightarrow> on_ok (FromProtoMessage P m) (\<lambda>msg. Inr (Whole (EMessage msg)))
      | Some (PStreamTask t) \<Rightarrow> on_ok (FromProtoTask P t) (\<lambda>t'. Inr (Whole (ETask a t')))
      | Some (PStreamStatus u) \<Rightarrow>
          on_ok (fromProtoTaskStatus P (pse_Status u)) (\<lambda>status.
            Inr (Whole (EStatus \<lparr>se_ContextID = pse_ContextId u, se_Status = status,
                   se_TaskID = pse_TaskId u, se_Metadata = fromProtoMap P (pse_Metadata u)\<rparr>)))
      | Some (PStreamArtifact u) \<Rightarrow>
          on_ok (nilable (fromProtoArtifact P) (pae_Artifact u)) (\<lambda>artifact.
            case artifact of
              None \<Rightarrow> Inr (NilArtifact (pae_TaskId u) (pae_ContextId u) (pae_Append u)
                         (pae_LastChunk u) (fromProtoMap P (pae_Metadata u)))
            | Some art \<Rightarrow> Inr (Whole (EArtifact \<lparr>ae_Append = pae_Append u, ae_Artifact = art,
                ae_ContextID = pae_ContextId u, ae_LastChunk = pae_LastChunk u,
                ae_TaskID = pae_TaskId u, ae_Metadata = fromProtoMap P (pae_Metadata u)\<rparr>)))
      | None \<Rightarrow> Inl (Errorf ''unsupported StreamResponse payload type: %T'' []))"

section \<open>What is kept\<close>

text \<open>
  The values the receiver sees: metadata and data in their JSON form, unknown states unspecified.
\<close>

definition norm_meta :: "metadata \<Rightarrow> metadata" where
  "norm_meta = map_option (norm_map float_exact)"

fun norm_content :: "part_content \<Rightarrow> part_content" where
  "norm_content (Data v) = Data (json_norm float_exact v)"
| "norm_content c = c"

definition norm_part :: "part \<Rightarrow> part" where
  "norm_part p = p\<lparr>part_Content := map_option norm_content (part_Content p),
     part_Metadata := norm_meta (part_Metadata p)\<rparr>"

definition norm_message :: "message \<Rightarrow> message" where
  "norm_message m = m\<lparr>msg_Metadata := norm_meta (msg_Metadata m), msg_Parts := map norm_part (msg_Parts m)\<rparr>"

definition norm_state :: "task_state \<Rightarrow> task_state" where
  "norm_state s =
     (if s \<in> set [TaskStateSubmitted, TaskStateWorking, TaskStateCompleted, TaskStateFailed,
                  TaskStateCanceled, TaskStateInputRequired, TaskStateRejected, TaskStateAuthRequired]
      then s else TaskStateUnspecified)"

definition norm_status :: "task_status \<Rightarrow> task_status" where
  "norm_status s = s\<lparr>ts_Message := map_option norm_message (ts_Message s), ts_State := norm_state (ts_State s)\<rparr>"

definition norm_artifact :: "artifact \<Rightarrow> artifact" where
  "norm_artifact a = a\<lparr>art_Metadata := norm_meta (art_Metadata a), art_Parts := map norm_part (art_Parts a)\<rparr>"

definition norm_task :: "task \<Rightarrow> task" where
  "norm_task t = t\<lparr>task_Artifacts := map norm_artifact (task_Artifacts t),
     task_History := map norm_message (task_History t), task_Metadata := norm_meta (task_Metadata t),
     task_Status := norm_status (task_Status t)\<rparr>"

fun norm_event :: "event \<Rightarrow> event" where
  "norm_event (EMessage m) = EMessage (norm_message m)"
| "norm_event (ETask a t) = ETask a (norm_task t)"
| "norm_event (EStatus e) = EStatus (e\<lparr>se_Status := norm_status (se_Status e), se_Metadata := norm_meta (se_Metadata e)\<rparr>)"
| "norm_event (EArtifact e) = EArtifact (e\<lparr>ae_Artifact := norm_artifact (ae_Artifact e), ae_Metadata := norm_meta (ae_Metadata e)\<rparr>)"

text \<open>Which values the sender can encode, and which of these the receiver accepts.\<close>

definition sendable_meta :: "metadata \<Rightarrow> bool" where
  "sendable_meta m = pred_option struct_map m"

definition sendable_part :: "part \<Rightarrow> bool" where
  "sendable_part p = (sendable_meta (part_Metadata p) \<and>
     (case part_Content p of None \<Rightarrow> False | Some (Data v) \<Rightarrow> struct_value v | Some c \<Rightarrow> True))"

definition sendable_message :: "message \<Rightarrow> bool" where
  "sendable_message m = (list_all sendable_part (msg_Parts m) \<and> sendable_meta (msg_Metadata m))"

definition sendable_status :: "task_status \<Rightarrow> bool" where
  "sendable_status s = pred_option sendable_message (ts_Message s)"

definition sendable_artifact :: "artifact \<Rightarrow> bool" where
  "sendable_artifact a = (sendable_meta (art_Metadata a) \<and> list_all sendable_part (art_Parts a))"

definition sendable_task :: "task \<Rightarrow> bool" where
  "sendable_task t = (sendable_status (task_Status t) \<and> list_all sendable_artifact (task_Artifacts t) \<and>
     list_all sendable_message (task_History t) \<and> sendable_meta (task_Metadata t))"

fun sendable_event :: "event \<Rightarrow> bool" where
  "sendable_event (EMessage m) = sendable_message m"
| "sendable_event (ETask a t) = sendable_task t"
| "sendable_event (EStatus e) = (sendable_status (se_Status e) \<and> sendable_meta (se_Metadata e))"
| "sendable_event (EArtifact e) = (sendable_artifact (ae_Artifact e) \<and> sendable_meta (ae_Metadata e))"

definition valid_message :: "message \<Rightarrow> bool" where
  "valid_message m = (msg_ID m \<noteq> '''' \<and> (msg_Role m = MessageRoleUser \<or> msg_Role m = MessageRoleAgent))"

definition valid_status :: "task_status \<Rightarrow> bool" where
  "valid_status s = pred_option valid_message (ts_Message s)"

definition valid_artifact :: "artifact \<Rightarrow> bool" where
  "valid_artifact a = (art_ID a \<noteq> '''')"

definition valid_task :: "task \<Rightarrow> bool" where
  "valid_task t = (task_ID t \<noteq> '''' \<and> valid_status (task_Status t) \<and>
     list_all valid_artifact (task_Artifacts t) \<and> list_all valid_message (task_History t))"

fun valid_event :: "event \<Rightarrow> bool" where
  "valid_event (EMessage m) = valid_message m"
| "valid_event (ETask a t) = valid_task t"
| "valid_event (EStatus e) = valid_status (se_Status e)"
| "valid_event (EArtifact e) = valid_artifact (ae_Artifact e)"

section \<open>Round trips\<close>

lemma pb_ok_facts:
  assumes "pb_ok P"
  shows "isl (pb_NewStruct P m) = (\<not> struct_map m)"
    and "pb_NewStruct P m = Inr s \<Longrightarrow> pb_AsMap P s = norm_map float_exact m"
    and "isl (pb_NewValue P v) = (\<not> struct_value v)"
    and "pb_NewValue P v = Inr w \<Longrightarrow> pb_AsInterface P (Some w) = json_norm float_exact v"
    and "pb_AsTime P (pb_TimestampNew P t) = t"
  using assms by (auto simp: pb_ok_def)

lemma toProtoMap_isl: "pb_ok P \<Longrightarrow> isl (toProtoMap P m) = (\<not> sendable_meta m)"
  by (cases m) (simp_all add: toProtoMap_def sendable_meta_def isl_on_ok pb_ok_facts)

lemma toProtoMap_back: "pb_ok P \<Longrightarrow> toProtoMap P m = Inr q \<Longrightarrow> fromProtoMap P q = norm_meta m"
  by (cases m) (auto simp: toProtoMap_def fromProtoMap_def norm_meta_def on_ok_Inr_iff pb_ok_facts)

lemma toProtoPart_isl: "pb_ok P \<Longrightarrow> isl (toProtoPart P p) = (\<not> sendable_part p)"
  by (auto simp: toProtoPart_def toProtoDataPart_def sendable_part_def isl_on_ok toProtoMap_isl pb_ok_facts Let_def
      split: option.splits part_content.splits)

lemma toProtoPart_back:
  "pb_ok P \<Longrightarrow> toProtoPart P p = Inr q \<Longrightarrow> fromProtoPart P (Some q) = Inr (norm_part p)"
  by (cases "part_Content p", simp_all add: toProtoPart_def toProtoDataPart_def on_ok_Inr_iff,
      cases "the (part_Content p)")
    (auto simp: toProtoDataPart_def fromProtoPart_def norm_part_def on_ok_Inr_iff toProtoMap_back pb_ok_facts Let_def)

lemma toProtoParts_isl: "pb_ok P \<Longrightarrow> isl (toProtoParts P ps) = (\<not> list_all sendable_part ps)"
  by (simp add: toProtoParts_def isl_conv_list isl_on_ok toProtoPart_isl)

lemma toProtoParts_back:
  assumes "pb_ok P" "toProtoParts P ps = Inr qs"
  shows "fromProtoParts P qs = Inr (map norm_part ps)"
proof -
  have "list_all2 (\<lambda>p q. fromProtoPart P q = Inr (norm_part p)) ps qs"
    using assms(2) unfolding toProtoParts_def conv_list_Inr_iff
    by (rule list_all2_mono) (auto simp: on_ok_Inr_iff toProtoPart_back[OF assms(1)])
  then show ?thesis
    by (simp add: fromProtoParts_def conv_list_Inr_iff list_all2_map2 list.rel_map list_all2_conv_all_nth)
qed

lemma fromProtoRole_back:
  "toProtoRole r = ROLE_UNSPECIFIED \<longleftrightarrow> r \<noteq> MessageRoleUser \<and> r \<noteq> MessageRoleAgent"
  "r = MessageRoleUser \<or> r = MessageRoleAgent \<Longrightarrow> fromProtoRole (toProtoRole r) = r"
  by (auto simp: toProtoRole_def fromProtoRole_def go_consts)

lemma fromProtoTaskState_back: "fromProtoTaskState (toProtoTaskState s) = norm_state s"
  by (simp add: toProtoTaskState_def fromProtoTaskState_def norm_state_def TaskState_value_def TaskState_name_def
      go_consts)

lemma toProtoMessage_isl: "pb_ok P \<Longrightarrow> isl (toProtoMessage P m) = (\<not> sendable_message m)"
  by (simp add: toProtoMessage_def sendable_message_def isl_on_ok toProtoParts_isl toProtoMap_isl)

lemma toProtoMessage_back:
  "pb_ok P \<Longrightarrow> toProtoMessage P m = Inr p \<Longrightarrow>
     yields (FromProtoMessage P p) (valid_message m) (norm_message m)"
  by (auto simp: toProtoMessage_def FromProtoMessage_def on_ok_Inr_iff yields_def valid_message_def norm_message_def
      toProtoParts_back toProtoMap_back fromProtoRole_back)

lemma toProtoMessages_isl: "pb_ok P \<Longrightarrow> isl (toProtoMessages P ms) = (\<not> list_all sendable_message ms)"
  by (simp add: toProtoMessages_def isl_conv_list toProtoMessage_isl)

lemma toProtoMessages_back:
  assumes "pb_ok P" "toProtoMessages P ms = Inr ps"
  shows "yields (fromProtoMessages P ps) (list_all valid_message ms) (map norm_message ms)"
  unfolding fromProtoMessages_def
  by (rule yields_list, rule list_all2_mono[OF assms(2)[unfolded toProtoMessages_def conv_list_Inr_iff]])
    (auto intro: yields_wrapf toProtoMessage_back[OF assms(1)])

lemma toProtoTaskStatus_isl: "pb_ok P \<Longrightarrow> isl (toProtoTaskStatus P s) = (\<not> sendable_status s)"
  by (cases "ts_Message s")
    (simp_all add: toProtoTaskStatus_def sendable_status_def isl_on_ok toProtoMessage_isl)

lemma toProtoTaskStatus_back:
  assumes "pb_ok P" "toProtoTaskStatus P s = Inr p"
  shows "yields (fromProtoTaskStatus P (Some p)) (valid_status s) (norm_status s)"
proof -
  obtain pMsg where pMsg: "nilable (toProtoMessage P) (ts_Message s) = Inr pMsg"
    and p: "p = \<lparr>ps_State = toProtoTaskState (ts_State s), ps_Message = pMsg,
        ps_Timestamp = map_option (pb_TimestampNew P) (ts_Timestamp s)\<rparr>"
    using assms(2) by (auto simp: toProtoTaskStatus_def on_ok_Inr_iff)
  have "rel_option (\<lambda>m p. yields (FromProtoMessage P p) (valid_message m) (norm_message m)) (ts_Message s) pMsg"
    using pMsg unfolding nilable_Inr_iff
    by (rule option.rel_mono_strong) (rule toProtoMessage_back[OF assms(1)])
  then have "yields (nilable (FromProtoMessage P) pMsg) (pred_option valid_message (ts_Message s))
      (map_option norm_message (ts_Message s))"
    by (rule yields_nilable)
  then show ?thesis
    using assms(1) by (cases s)
      (auto simp: fromProtoTaskStatus_def p yields_def valid_status_def norm_status_def isl_on_ok
        fromProtoTaskState_back option.map_comp o_def pb_ok_facts option.map_ident)
qed

lemma toProtoArtifact_isl: "pb_ok P \<Longrightarrow> isl (toProtoArtifact P a) = (\<not> sendable_artifact a)"
  by (simp add: toProtoArtifact_def sendable_artifact_def isl_on_ok toProtoParts_isl toProtoMap_isl)

lemma toProtoArtifact_back:
  "pb_ok P \<Longrightarrow> toProtoArtifact P a = Inr p \<Longrightarrow>
     yields (fromProtoArtifact P p) (valid_artifact a) (norm_artifact a)"
  by (auto simp: toProtoArtifact_def fromProtoArtifact_def on_ok_Inr_iff yields_def valid_artifact_def
      norm_artifact_def toProtoParts_back toProtoMap_back)

lemma toProtoArtifacts_isl: "pb_ok P \<Longrightarrow> isl (toProtoArtifacts P as) = (\<not> list_all sendable_artifact as)"
  by (simp add: toProtoArtifacts_def isl_conv_list toProtoArtifact_isl)

lemma toProtoArtifacts_back:
  assumes "pb_ok P" "toProtoArtifacts P as = Inr ps"
  shows "yields (fromProtoArtifacts P ps) (list_all valid_artifact as) (map norm_artifact as)"
  unfolding fromProtoArtifacts_def
  by (rule yields_list, rule list_all2_mono[OF assms(2)[unfolded toProtoArtifacts_def conv_list_Inr_iff]])
    (auto intro: yields_wrapf toProtoArtifact_back[OF assms(1)])

lemma ToProtoTask_isl: "pb_ok P \<Longrightarrow> isl (ToProtoTask P t) = (\<not> sendable_task t)"
  by (simp add: ToProtoTask_def sendable_task_def isl_on_ok toProtoTaskStatus_isl toProtoArtifacts_isl
      toProtoMessages_isl toProtoMap_isl)

lemma ToProtoTask_back:
  assumes "pb_ok P" "ToProtoTask P t = Inr p"
  shows "yields (FromProtoTask P p) (valid_task t) (norm_task t)"
proof -
  obtain status arts hist meta where c: "toProtoTaskStatus P (task_Status t) = Inr status"
    "toProtoArtifacts P (task_Artifacts t) = Inr arts" "toProtoMessages P (task_History t) = Inr hist"
    "toProtoMap P (task_Metadata t) = Inr meta"
    and p: "p = \<lparr>pt_Id = task_ID t, pt_ContextId = task_ContextID t, pt_Status = Some status,
        pt_Artifacts = arts, pt_History = hist, pt_Metadata = meta\<rparr>"
    using assms(2) by (auto simp: ToProtoTask_def on_ok_Inr_iff)
  show ?thesis
    using toProtoTaskStatus_back[OF assms(1) c(1)] toProtoArtifacts_back[OF assms(1) c(2)]
      toProtoMessages_back[OF assms(1) c(3)] toProtoMap_back[OF assms(1) c(4)]
    by (cases t) (auto simp: FromProtoTask_def p yields_def valid_task_def norm_task_def isl_on_ok split: if_splits)
qed

lemma ToProtoStreamResponse_isl:
  "pb_ok P \<Longrightarrow> isl (ToProtoStreamResponse P (Some e)) = (\<not> sendable_event e)"
  by (cases e) (simp_all add: isl_on_ok toProtoMessage_isl ToProtoTask_isl toProtoTaskStatus_isl toProtoArtifact_isl
      toProtoMap_isl)

fun same_address :: "addr \<Rightarrow> event \<Rightarrow> event" where
  "same_address a (ETask b t) = ETask a t"
| "same_address a e = e"

lemma ToProtoStreamResponse_back:
  assumes "pb_ok P" "ToProtoStreamResponse P (Some e) = Inr p"
  shows "yields (FromProtoStreamResponse P a (Some p)) (valid_event e) (Whole (same_address a (norm_event e)))"
proof (cases e)
  case (EMessage m)
  then show ?thesis
    using assms toProtoMessage_back[OF assms(1), of m]
    by (auto simp: on_ok_Inr_iff FromProtoStreamResponse_def yields_def isl_on_ok split: if_splits)
next
  case (ETask b t)
  then show ?thesis
    using assms ToProtoTask_back[OF assms(1), of t]
    by (auto simp: on_ok_Inr_iff FromProtoStreamResponse_def yields_def isl_on_ok split: if_splits)
next
  case (EStatus u)
  then show ?thesis
    using assms toProtoTaskStatus_back[OF assms(1), of "se_Status u"] toProtoMap_back[OF assms(1), of "se_Metadata u"]
    by (cases u) (auto simp: on_ok_Inr_iff FromProtoStreamResponse_def yields_def isl_on_ok split: if_splits)
next
  case (EArtifact u)
  then show ?thesis
    using assms toProtoArtifact_back[OF assms(1), of "ae_Artifact u"] toProtoMap_back[OF assms(1), of "ae_Metadata u"]
    by (cases u) (auto simp: on_ok_Inr_iff FromProtoStreamResponse_def yields_def isl_on_ok split: if_splits)
qed

text \<open>
  C26: An event sent over gRPC: encoding fails exactly for values that a protobuf \<open>Struct\<close> cannot hold
  and parts without content. What is encoded is refused by the receiver if an id is missing or a
  role is unknown, and is otherwise the same event with its metadata and data in JSON form and an
  unknown task state unspecified.
\<close>

theorem stream_event_roundtrip:
  assumes "pb_ok P"
  shows "case ToProtoStreamResponse P (Some e) of
      Inl err \<Rightarrow> \<not> sendable_event e
    | Inr p \<Rightarrow> sendable_event e \<and>
        (if valid_event e
         then FromProtoStreamResponse P a (Some p) = Inr (Whole (same_address a (norm_event e)))
         else isl (FromProtoStreamResponse P a (Some p)))"
proof (cases "ToProtoStreamResponse P (Some e)")
  case (Inl err)
  then show ?thesis using ToProtoStreamResponse_isl[OF assms, of e] by simp
next
  case (Inr p)
  then show ?thesis
    using ToProtoStreamResponse_isl[OF assms, of e] ToProtoStreamResponse_back[OF assms Inr, of a]
    by (auto simp: yields_def)
qed

text \<open>The receiver can send the event on, and nothing more is lost.\<close>

lemma struct_value_norm: "struct_value v \<Longrightarrow> struct_value (json_norm f32 v)"
proof (induction v)
  case (AMap m)
  then show ?case by (auto simp: fmpred_iff norm_map_def intro: fmran'I)
qed (auto simp: list_all_iff)

lemma sendable_norm_meta: "sendable_meta m \<Longrightarrow> sendable_meta (norm_meta m)"
  by (cases m) (auto simp: sendable_meta_def norm_meta_def struct_map_def fmpred_iff intro: struct_value_norm)

lemma sendable_norm_part: "sendable_part p \<Longrightarrow> sendable_part (norm_part p)"
  by (auto simp: sendable_part_def norm_part_def sendable_norm_meta struct_value_norm
      split: option.splits part_content.splits)

lemma sendable_norm_message: "sendable_message m \<Longrightarrow> sendable_message (norm_message m)"
  by (auto simp: sendable_message_def norm_message_def list_all_iff sendable_norm_meta sendable_norm_part)

lemma sendable_norm_status: "sendable_status s \<Longrightarrow> sendable_status (norm_status s)"
  by (cases "ts_Message s") (simp_all add: sendable_status_def norm_status_def sendable_norm_message)

lemma sendable_norm_artifact: "sendable_artifact a \<Longrightarrow> sendable_artifact (norm_artifact a)"
  by (auto simp: sendable_artifact_def norm_artifact_def list_all_iff sendable_norm_meta sendable_norm_part)

lemma sendable_norm_event: "sendable_event e \<Longrightarrow> sendable_event (norm_event e)"
  by (cases e) (auto simp: sendable_norm_message sendable_norm_status sendable_norm_artifact sendable_norm_meta
      sendable_task_def norm_task_def list_all_iff)

lemma norm_meta_idem [simp]: "norm_meta (norm_meta m) = norm_meta m"
  by (cases m) (simp_all add: norm_meta_def)

lemma norm_part_idem [simp]: "norm_part (norm_part p) = norm_part p"
proof -
  have "norm_content (norm_content c) = norm_content c" for c
    by (cases c) (simp_all add: json_norm_idem)
  then show ?thesis by (simp add: norm_part_def option.map_comp o_def)
qed

lemma norm_message_idem [simp]: "norm_message (norm_message m) = norm_message m"
  by (simp add: norm_message_def)

lemma norm_status_idem [simp]: "norm_status (norm_status s) = norm_status s"
  by (simp add: norm_status_def norm_state_def option.map_comp o_def)

lemma norm_artifact_idem [simp]: "norm_artifact (norm_artifact a) = norm_artifact a"
  by (simp add: norm_artifact_def)

lemma norm_event_idem: "norm_event (norm_event e) = norm_event e"
  by (cases e) (simp_all add: norm_task_def)

lemma stream_event_roundtrip_witness:
  "FromProtoStreamResponse plain_pb 7 (Some (projr (ToProtoStreamResponse plain_pb
       (Some (EStatus (NewStatusUpdateEvent 1700000000123456789 \<lparr>ti_TaskID = ''t'', ti_ContextID = ''c''\<rparr>
          TaskStateWorking (Some (NewMessage ''m'' MessageRoleAgent [NewDataPart (AInt KInt 5)]))))))))
   = Inr (Whole (EStatus (NewStatusUpdateEvent 1700000000123456789 \<lparr>ti_TaskID = ''t'', ti_ContextID = ''c''\<rparr>
          TaskStateWorking (Some (NewMessage ''m'' MessageRoleAgent [NewDataPart (AFloat KFloat64 5)])))))"
proof -
  let ?e = "EStatus (NewStatusUpdateEvent 1700000000123456789 \<lparr>ti_TaskID = ''t'', ti_ContextID = ''c''\<rparr>
     TaskStateWorking (Some (NewMessage ''m'' MessageRoleAgent [NewDataPart (AInt KInt 5)])))"
  have s: "sendable_event ?e"
    by (simp add: NewStatusUpdateEvent_def sendable_status_def sendable_message_def NewMessage_def sendable_part_def
        sendable_meta_def NewDataPart_def)
  have v: "valid_event ?e"
    by (simp add: NewStatusUpdateEvent_def valid_status_def valid_message_def NewMessage_def)
  have "norm_event ?e = EStatus (NewStatusUpdateEvent 1700000000123456789 \<lparr>ti_TaskID = ''t'', ti_ContextID = ''c''\<rparr>
          TaskStateWorking (Some (NewMessage ''m'' MessageRoleAgent [NewDataPart (AFloat KFloat64 5)])))"
    by (simp add: NewStatusUpdateEvent_def norm_status_def norm_message_def NewMessage_def norm_part_def
        NewDataPart_def norm_meta_def norm_state_def go_consts float64_of_int_exact)
  then show ?thesis
    using stream_event_roundtrip[OF plain_pb_ok, of ?e 7] s v by (auto split: sum.splits)
qed

end
