(* ===== verification/ProtoRequests.thy ===== *)
theory ProtoRequests
  imports ProtoTasks
begin

text \<open>
  The conversions of requests, push configurations and listings of \<open>a2apb/v1/pbconv\<close>. A Go
  \<open>int\<close> becomes an int32 by truncation and comes back sign-extended. As in \<open>ProtoTasks\<close> the
  functions are defined on non-nil pointers and list elements are non-nil.
\<close>

section \<open>The remaining requests of a2a/push.go and a2a/core.go\<close>

record list_push_request =
  lpr_Tenant :: string
  lpr_TaskID :: task_id
  lpr_PageSize :: int
  lpr_PageToken :: string

record list_push_response =
  lps_Configs :: "push_config list"
  lps_NextPageToken :: string

record extended_card_request =
  ecr_Tenant :: string

section \<open>The protobuf messages\<close>

record pb_auth =
  pba_Scheme :: string
  pba_Credentials :: string

record pb_push_config =
  ppc_Tenant :: string
  ppc_Id :: string
  ppc_TaskId :: string
  ppc_Url :: string
  ppc_Token :: string
  ppc_Authentication :: "pb_auth option"

record pb_send_config =
  psc_AcceptedOutputModes :: "string list"
  psc_TaskPushNotificationConfig :: "pb_push_config option"
  psc_HistoryLength :: "int32 option"
  psc_ReturnImmediately :: bool

record ('s, 'v) pb_send_request =
  psr_Tenant :: string
  psr_Message :: "('s, 'v) pb_message option"
  psr_Configuration :: "pb_send_config option"
  psr_Metadata :: "'s option"

record pb_get_request =
  pgr_Tenant :: string
  pgr_Id :: string
  pgr_HistoryLength :: "int32 option"

record 't pb_list_request =
  plr_Tenant :: string
  plr_ContextId :: string
  plr_Status :: int32
  plr_PageSize :: "int32 option"
  plr_PageToken :: string
  plr_HistoryLength :: "int32 option"
  plr_StatusTimestampAfter :: "'t option"
  plr_IncludeArtifacts :: "bool option"

record ('s, 'v, 't) pb_list_response =
  pls_Tasks :: "('s, 'v, 't) pb_task list"
  pls_NextPageToken :: string
  pls_PageSize :: int32
  pls_TotalSize :: int32

record 's pb_cancel_request =
  pcr_Tenant :: string
  pcr_Id :: string
  pcr_Metadata :: "'s option"

record pb_subscribe_request =
  pbs_Tenant :: string
  pbs_Id :: string

record pb_push_request =
  ppr_Tenant :: string
  ppr_TaskId :: string
  ppr_Id :: string

record pb_list_push_request =
  plp_Tenant :: string
  plp_TaskId :: string
  plp_PageSize :: int32
  plp_PageToken :: string

record pb_list_push_response =
  plq_Configs :: "pb_push_config list"
  plq_NextPageToken :: string

record pb_card_request =
  pcd_Tenant :: string

section \<open>Push configurations\<close>

definition toProtoAuthenticationInfo :: "push_auth_info \<Rightarrow> pb_auth" where
  "toProtoAuthenticationInfo auth = \<lparr>pba_Scheme = pa_Scheme auth, pba_Credentials = pa_Credentials auth\<rparr>"

definition fromProtoAuthenticationInfo :: "pb_auth \<Rightarrow> go_error + push_auth_info" where
  "fromProtoAuthenticationInfo pAuth =
     (if pba_Scheme pAuth = '''' then Inl (Errorf ''authentication scheme cannot be empty'' [])
      else Inr \<lparr>pa_Credentials = pba_Credentials pAuth, pa_Scheme = pba_Scheme pAuth\<rparr>)"

definition ToProtoTaskPushConfig :: "push_config \<Rightarrow> pb_push_config" where
  "ToProtoTaskPushConfig config =
     \<lparr>ppc_Tenant = pc_Tenant config, ppc_Id = pc_ID config, ppc_TaskId = pc_TaskID config,
      ppc_Url = pc_URL config, ppc_Token = pc_Token config,
      ppc_Authentication = map_option toProtoAuthenticationInfo (pc_Auth config)\<rparr>"

definition FromProtoTaskPushConfig :: "pb_push_config \<Rightarrow> go_error + push_config" where
  "FromProtoTaskPushConfig p =
     on_ok (wrapf ''failed to convert authentication info: %w''
              (nilable fromProtoAuthenticationInfo (ppc_Authentication p))) (\<lambda>auth.
       if ppc_Url p = '''' then Inl (Errorf ''url cannot be empty'' [])
       else Inr \<lparr>pc_Tenant = ppc_Tenant p, pc_TaskID = ppc_TaskId p, pc_ID = ppc_Id p, pc_Auth = auth,
              pc_Token = ppc_Token p, pc_URL = ppc_Url p\<rparr>)"

definition ToProtoListTaskPushConfigResponse :: "list_push_response \<Rightarrow> pb_list_push_response" where
  "ToProtoListTaskPushConfigResponse r =
     \<lparr>plq_Configs = map ToProtoTaskPushConfig (lps_Configs r), plq_NextPageToken = lps_NextPageToken r\<rparr>"

definition FromProtoListTaskPushConfigResponse :: "pb_list_push_response \<Rightarrow> go_error + list_push_response" where
  "FromProtoListTaskPushConfigResponse r =
     on_ok (conv_list (\<lambda>c. wrapf ''failed to convert config: %w'' (FromProtoTaskPushConfig c)) (plq_Configs r))
       (\<lambda>configs. Inr \<lparr>lps_Configs = configs, lps_NextPageToken = plq_NextPageToken r\<rparr>)"

definition ToProtoListTaskPushConfigRequest :: "list_push_request \<Rightarrow> pb_list_push_request" where
  "ToProtoListTaskPushConfigRequest r =
     \<lparr>plp_Tenant = lpr_Tenant r, plp_TaskId = lpr_TaskID r, plp_PageSize = word_of_int (lpr_PageSize r),
      plp_PageToken = lpr_PageToken r\<rparr>"

definition FromProtoListTaskPushConfigRequest :: "pb_list_push_request \<Rightarrow> go_error + list_push_request" where
  "FromProtoListTaskPushConfigRequest r =
     (if plp_TaskId r = '''' then Inl (Errorf ''task id cannot be empty'' [])
      else Inr \<lparr>lpr_Tenant = plp_Tenant r, lpr_TaskID = plp_TaskId r, lpr_PageSize = sint (plp_PageSize r),
             lpr_PageToken = plp_PageToken r\<rparr>)"

text \<open>The requests to get and to delete a configuration have the same fields and conversions.\<close>

definition ToProtoGetTaskPushConfigRequest :: "push_request \<Rightarrow> pb_push_request" where
  "ToProtoGetTaskPushConfigRequest r =
     \<lparr>ppr_Tenant = pr_Tenant r, ppr_TaskId = pr_TaskID r, ppr_Id = pr_ID r\<rparr>"

definition FromProtoGetTaskPushConfigRequest :: "pb_push_request \<Rightarrow> go_error + push_request" where
  "FromProtoGetTaskPushConfigRequest r =
     (if ppr_TaskId r = '''' then Inl (Errorf ''task id cannot be empty'' [])
      else if ppr_Id r = '''' then Inl (Errorf ''config id cannot be empty'' [])
      else Inr \<lparr>pr_Tenant = ppr_Tenant r, pr_TaskID = ppr_TaskId r, pr_ID = ppr_Id r\<rparr>)"

definition ToProtoDeleteTaskPushConfigRequest :: "push_request \<Rightarrow> pb_push_request" where
  "ToProtoDeleteTaskPushConfigRequest r =
     \<lparr>ppr_Tenant = pr_Tenant r, ppr_TaskId = pr_TaskID r, ppr_Id = pr_ID r\<rparr>"

definition FromProtoDeleteTaskPushConfigRequest :: "pb_push_request \<Rightarrow> go_error + push_request" where
  "FromProtoDeleteTaskPushConfigRequest r =
     (if ppr_TaskId r = '''' then Inl (Errorf ''task id cannot be empty'' [])
      else if ppr_Id r = '''' then Inl (Errorf ''config id cannot be empty'' [])
      else Inr \<lparr>pr_Tenant = ppr_Tenant r, pr_TaskID = ppr_TaskId r, pr_ID = ppr_Id r\<rparr>)"

section \<open>Requests about tasks\<close>

text \<open>A history length that is negative as an int32 is dropped.\<close>

definition from_history :: "int32 option \<Rightarrow> int option" where
  "from_history h = (case h of None \<Rightarrow> None | Some n \<Rightarrow> if 0 \<le> sint n then Some (sint n) else None)"

definition toProtoSendMessageConfig :: "send_config \<Rightarrow> pb_send_config" where
  "toProtoSendMessageConfig c =
     \<lparr>psc_AcceptedOutputModes = cfg_AcceptedOutputModes c,
      psc_TaskPushNotificationConfig = map_option ToProtoTaskPushConfig (cfg_PushConfig c),
      psc_HistoryLength = map_option word_of_int (cfg_HistoryLength c),
      psc_ReturnImmediately = cfg_ReturnImmediately c\<rparr>"

definition fromProtoSendMessageConfig :: "pb_send_config \<Rightarrow> go_error + send_config" where
  "fromProtoSendMessageConfig conf =
     on_ok (wrapf ''failed to convert push config: %w''
              (nilable FromProtoTaskPushConfig (psc_TaskPushNotificationConfig conf))) (\<lambda>pConf.
       Inr \<lparr>cfg_AcceptedOutputModes = psc_AcceptedOutputModes conf,
            cfg_ReturnImmediately = psc_ReturnImmediately conf,
            cfg_HistoryLength = from_history (psc_HistoryLength conf), cfg_PushConfig = pConf\<rparr>)"

definition ToProtoSendMessageRequest ::
  "('s, 'v, 't) pb_lib \<Rightarrow> send_request \<Rightarrow> go_error + ('s, 'v) pb_send_request" where
  "ToProtoSendMessageRequest P req =
     on_ok (nilable (toProtoMessage P) (req_Message req)) (\<lambda>pMsg.
     on_ok (wrapf ''failed to convert metadata to proto struct: %w'' (toProtoMap P (req_Metadata req))) (\<lambda>pMeta.
       Inr \<lparr>psr_Tenant = req_Tenant req, psr_Message = pMsg,
            psr_Configuration = map_option toProtoSendMessageConfig (req_Config req), psr_Metadata = pMeta\<rparr>))"

definition FromProtoSendMessageRequest ::
  "('s, 'v, 't) pb_lib \<Rightarrow> ('s, 'v) pb_send_request \<Rightarrow> go_error + send_request" where
  "FromProtoSendMessageRequest P req =
     on_ok (nilable (FromProtoMessage P) (psr_Message req)) (\<lambda>msg.
       if msg = None then Inl (Errorf ''message cannot be nil'' [])
       else on_ok (nilable fromProtoSendMessageConfig (psr_Configuration req)) (\<lambda>config.
         Inr \<lparr>req_Tenant = psr_Tenant req, req_Config = config, req_Message = msg,
              req_Metadata = fromProtoMap P (psr_Metadata req)\<rparr>))"

definition ToProtoGetTaskRequest :: "get_request \<Rightarrow> pb_get_request" where
  "ToProtoGetTaskRequest r =
     \<lparr>pgr_Tenant = get_Tenant r, pgr_Id = get_ID r,
      pgr_HistoryLength = map_option word_of_int (get_HistoryLength r)\<rparr>"

definition FromProtoGetTaskRequest :: "pb_get_request \<Rightarrow> go_error + get_request" where
  "FromProtoGetTaskRequest r =
     (if pgr_Id r = '''' then Inl (Errorf ''task id cannot be empty'' [])
      else Inr \<lparr>get_Tenant = pgr_Tenant r, get_ID = pgr_Id r,
             get_HistoryLength = from_history (pgr_HistoryLength r)\<rparr>)"

definition ToProtoCancelTaskRequest ::
  "('s, 'v, 't) pb_lib \<Rightarrow> cancel_request \<Rightarrow> go_error + 's pb_cancel_request" where
  "ToProtoCancelTaskRequest P r =
     on_ok (toProtoMap P (cancel_Metadata r)) (\<lambda>meta.
       Inr \<lparr>pcr_Tenant = cancel_Tenant r, pcr_Id = cancel_ID r, pcr_Metadata = meta\<rparr>)"

definition FromProtoCancelTaskRequest ::
  "('s, 'v, 't) pb_lib \<Rightarrow> 's pb_cancel_request \<Rightarrow> go_error + cancel_request" where
  "FromProtoCancelTaskRequest P r =
     (if pcr_Id r = '''' then Inl (Errorf ''task id cannot be empty'' [])
      else Inr \<lparr>cancel_Tenant = pcr_Tenant r, cancel_ID = pcr_Id r,
             cancel_Metadata = fromProtoMap P (pcr_Metadata r)\<rparr>)"

definition ToProtoSubscribeToTaskRequest :: "subscribe_request \<Rightarrow> pb_subscribe_request" where
  "ToProtoSubscribeToTaskRequest r = \<lparr>pbs_Tenant = sub_Tenant r, pbs_Id = sub_ID r\<rparr>"

definition FromProtoSubscribeToTaskRequest :: "pb_subscribe_request \<Rightarrow> go_error + subscribe_request" where
  "FromProtoSubscribeToTaskRequest r =
     (if pbs_Id r = '''' then Inl (Errorf ''task id cannot be empty'' [])
      else Inr \<lparr>sub_Tenant = pbs_Tenant r, sub_ID = pbs_Id r\<rparr>)"

definition ToProtoListTasksRequest :: "('s, 'v, 't) pb_lib \<Rightarrow> list_request \<Rightarrow> 't pb_list_request" where
  "ToProtoListTasksRequest P r =
     \<lparr>plr_Tenant = list_Tenant r, plr_ContextId = list_ContextID r,
      plr_Status = toProtoTaskState (list_Status r), plr_PageSize = Some (word_of_int (list_PageSize r)),
      plr_PageToken = list_PageToken r,
      plr_HistoryLength = map_option word_of_int (list_HistoryLength r),
      plr_StatusTimestampAfter = map_option (pb_TimestampNew P) (list_StatusTimestampAfter r),
      plr_IncludeArtifacts = Some (list_IncludeArtifacts r)\<rparr>"

definition FromProtoListTasksRequest :: "('s, 'v, 't) pb_lib \<Rightarrow> 't pb_list_request \<Rightarrow> list_request" where
  "FromProtoListTasksRequest P r =
     \<lparr>list_Tenant = plr_Tenant r, list_ContextID = plr_ContextId r,
      list_Status = (if plr_Status r \<noteq> 0 then fromProtoTaskState (plr_Status r) else ''''),
      list_PageSize = (case plr_PageSize r of None \<Rightarrow> 0 | Some n \<Rightarrow> sint n),
      list_PageToken = plr_PageToken r,
      list_HistoryLength = from_history (plr_HistoryLength r),
      list_StatusTimestampAfter = map_option (pb_AsTime P) (plr_StatusTimestampAfter r),
      list_IncludeArtifacts = (case plr_IncludeArtifacts r of None \<Rightarrow> False | Some b \<Rightarrow> b)\<rparr>"

definition ToProtoListTasksResponse ::
  "('s, 'v, 't) pb_lib \<Rightarrow> list_response \<Rightarrow> go_error + ('s, 'v, 't) pb_list_response" where
  "ToProtoListTasksResponse P r =
     on_ok (conv_list (\<lambda>t. wrapf ''failed to convert task: %w'' (ToProtoTask P t)) (resp_Tasks r)) (\<lambda>tasks.
       Inr \<lparr>pls_Tasks = tasks, pls_NextPageToken = resp_NextPageToken r,
            pls_PageSize = word_of_int (resp_PageSize r), pls_TotalSize = word_of_int (resp_TotalSize r)\<rparr>)"

definition FromProtoListTasksResponse ::
  "('s, 'v, 't) pb_lib \<Rightarrow> ('s, 'v, 't) pb_list_response \<Rightarrow> go_error + list_response" where
  "FromProtoListTasksResponse P r =
     on_ok (conv_list (\<lambda>t. wrapf ''failed to convert task: %w'' (FromProtoTask P t)) (pls_Tasks r)) (\<lambda>tasks.
       Inr \<lparr>resp_Tasks = tasks, resp_TotalSize = sint (pls_TotalSize r), resp_PageSize = sint (pls_PageSize r),
            resp_NextPageToken = pls_NextPageToken r\<rparr>)"

definition ToProtoGetExtendedAgentCardRequest :: "extended_card_request \<Rightarrow> pb_card_request" where
  "ToProtoGetExtendedAgentCardRequest r = \<lparr>pcd_Tenant = ecr_Tenant r\<rparr>"

definition FromProtoGetExtendedAgentCardRequest :: "pb_card_request \<Rightarrow> extended_card_request" where
  "FromProtoGetExtendedAgentCardRequest r = \<lparr>ecr_Tenant = pcd_Tenant r\<rparr>"

section \<open>Integers\<close>

text \<open>An \<open>int\<close> that went through an int32, and a history length that did.\<close>

definition via_int32 :: "int \<Rightarrow> int" where
  "via_int32 n = sint (word_of_int n :: int32)"

definition via_history :: "int option \<Rightarrow> int option" where
  "via_history h = (case h of None \<Rightarrow> None | Some n \<Rightarrow> if 0 \<le> via_int32 n then Some (via_int32 n) else None)"

lemma via_int32_mod: "via_int32 n = (n + 2 ^ 31) mod 2 ^ 32 - 2 ^ 31"
  by (simp add: via_int32_def sint_sbintrunc' signed_take_bit_eq_take_bit_shift) (simp add: take_bit_eq_mod)

lemma via_int32_rem: "via_int32 n = (if n mod 2 ^ 32 < 2 ^ 31 then n mod 2 ^ 32 else n mod 2 ^ 32 - 2 ^ 32)"
proof -
  define q where "q = n mod 2 ^ 32"
  have q: "0 \<le> q" "q < 2 ^ 32" by (simp_all add: q_def)
  have shift: "via_int32 n = (q + 2 ^ 31) mod 2 ^ 32 - 2 ^ 31"
    unfolding via_int32_mod q_def by (simp only: mod_add_left_eq)
  show ?thesis
  proof (cases "q < 2 ^ 31")
    case True
    with q shift show ?thesis unfolding q_def[symmetric] by simp
  next
    case False
    have "(q + 2 ^ 31) mod 2 ^ 32 = (q + 2 ^ 31 - 2 ^ 32) mod 2 ^ 32"
      by (metis minus_mod_self2)
    also have "\<dots> = q + 2 ^ 31 - 2 ^ 32"
      by (rule mod_pos_pos_trivial) (use False q in simp_all)
    finally show ?thesis using False shift unfolding q_def[symmetric] by simp
  qed
qed

lemma via_int32_exact: "- (2 ^ 31) \<le> n \<Longrightarrow> n < 2 ^ 31 \<Longrightarrow> via_int32 n = n"
  by (simp add: via_int32_mod)

lemma via_int32_range: "- (2 ^ 31) \<le> via_int32 n \<and> via_int32 n < 2 ^ 31"
  by (simp add: via_int32_mod)

lemma from_to_history [simp]: "from_history (map_option word_of_int h) = via_history h"
  by (cases h) (simp_all add: from_history_def via_history_def via_int32_def)

section \<open>Round trips\<close>

definition valid_push_config :: "push_config \<Rightarrow> bool" where
  "valid_push_config c = (pc_URL c \<noteq> '''' \<and> pred_option (\<lambda>a. pa_Scheme a \<noteq> '''') (pc_Auth c))"

definition via_send_config :: "send_config \<Rightarrow> send_config" where
  "via_send_config c = c\<lparr>cfg_HistoryLength := via_history (cfg_HistoryLength c)\<rparr>"

definition norm_send_request :: "send_request \<Rightarrow> send_request" where
  "norm_send_request r = r\<lparr>req_Config := map_option via_send_config (req_Config r),
     req_Message := map_option norm_message (req_Message r), req_Metadata := norm_meta (req_Metadata r)\<rparr>"

definition valid_send_request :: "send_request \<Rightarrow> bool" where
  "valid_send_request r = (req_Message r \<noteq> None \<and> pred_option valid_message (req_Message r) \<and>
     pred_option (\<lambda>c. pred_option valid_push_config (cfg_PushConfig c)) (req_Config r))"

definition norm_list_request :: "list_request \<Rightarrow> list_request" where
  "norm_list_request r = r\<lparr>list_Status := norm_state (list_Status r), list_PageSize := via_int32 (list_PageSize r),
     list_HistoryLength := via_history (list_HistoryLength r)\<rparr>"

definition norm_list_response :: "list_response \<Rightarrow> list_response" where
  "norm_list_response r = r\<lparr>resp_Tasks := map norm_task (resp_Tasks r),
     resp_TotalSize := via_int32 (resp_TotalSize r), resp_PageSize := via_int32 (resp_PageSize r)\<rparr>"

lemma auth_back:
  "yields (fromProtoAuthenticationInfo (toProtoAuthenticationInfo a)) (pa_Scheme a \<noteq> '''') a"
  by (cases a) (simp add: fromProtoAuthenticationInfo_def toProtoAuthenticationInfo_def yields_def)

lemma push_config_back: "yields (FromProtoTaskPushConfig (ToProtoTaskPushConfig c)) (valid_push_config c) c"
proof -
  have "yields (nilable fromProtoAuthenticationInfo (map_option toProtoAuthenticationInfo (pc_Auth c)))
      (pred_option (\<lambda>a. pa_Scheme a \<noteq> '''') (pc_Auth c)) (map_option (\<lambda>a. a) (pc_Auth c))"
    by (rule yields_nilable) (cases "pc_Auth c"; simp add: auth_back)
  then show ?thesis
    by (cases c) (auto simp: FromProtoTaskPushConfig_def ToProtoTaskPushConfig_def valid_push_config_def yields_def
        isl_on_ok option.map_ident split: if_splits)
qed

lemma send_config_back:
  "yields (fromProtoSendMessageConfig (toProtoSendMessageConfig c))
     (pred_option valid_push_config (cfg_PushConfig c)) (via_send_config c)"
proof -
  have "yields (nilable FromProtoTaskPushConfig (map_option ToProtoTaskPushConfig (cfg_PushConfig c)))
      (pred_option valid_push_config (cfg_PushConfig c)) (map_option (\<lambda>a. a) (cfg_PushConfig c))"
    by (rule yields_nilable) (cases "cfg_PushConfig c"; simp add: push_config_back)
  then show ?thesis
    by (cases c) (auto simp: fromProtoSendMessageConfig_def toProtoSendMessageConfig_def via_send_config_def
        yields_def isl_on_ok option.map_ident split: if_splits)
qed

lemma ToProtoSendMessageRequest_isl:
  "pb_ok P \<Longrightarrow> isl (ToProtoSendMessageRequest P r) =
     (\<not> (pred_option sendable_message (req_Message r) \<and> sendable_meta (req_Metadata r)))"
  by (cases "req_Message r") (simp_all add: ToProtoSendMessageRequest_def isl_on_ok toProtoMessage_isl toProtoMap_isl)

lemma ToProtoSendMessageRequest_back:
  assumes "pb_ok P" "ToProtoSendMessageRequest P r = Inr p"
  shows "yields (FromProtoSendMessageRequest P p) (valid_send_request r) (norm_send_request r)"
proof -
  obtain pMsg pMeta where m: "nilable (toProtoMessage P) (req_Message r) = Inr pMsg"
    and meta: "toProtoMap P (req_Metadata r) = Inr pMeta"
    and p: "p = \<lparr>psr_Tenant = req_Tenant r, psr_Message = pMsg,
        psr_Configuration = map_option toProtoSendMessageConfig (req_Config r), psr_Metadata = pMeta\<rparr>"
    using assms(2) by (auto simp: ToProtoSendMessageRequest_def on_ok_Inr_iff)
  have msg: "yields (nilable (FromProtoMessage P) pMsg) (pred_option valid_message (req_Message r))
      (map_option norm_message (req_Message r))"
    by (rule yields_nilable, rule option.rel_mono_strong[OF m[unfolded nilable_Inr_iff]])
      (rule toProtoMessage_back[OF assms(1)])
  have conf: "yields (nilable fromProtoSendMessageConfig (map_option toProtoSendMessageConfig (req_Config r)))
      (pred_option (\<lambda>c. pred_option valid_push_config (cfg_PushConfig c)) (req_Config r))
      (map_option via_send_config (req_Config r))"
    by (rule yields_nilable) (cases "req_Config r"; simp add: send_config_back)
  show ?thesis
    using msg conf toProtoMap_back[OF assms(1) meta]
    by (cases r) (auto simp: FromProtoSendMessageRequest_def p yields_def isl_on_ok valid_send_request_def
        norm_send_request_def split: if_splits)
qed

lemma get_request_back:
  "yields (FromProtoGetTaskRequest (ToProtoGetTaskRequest r)) (get_ID r \<noteq> '''')
     (r\<lparr>get_HistoryLength := via_history (get_HistoryLength r)\<rparr>)"
  by (cases r) (simp add: FromProtoGetTaskRequest_def ToProtoGetTaskRequest_def yields_def)

lemma cancel_request_back:
  "pb_ok P \<Longrightarrow> ToProtoCancelTaskRequest P r = Inr p \<Longrightarrow>
     yields (FromProtoCancelTaskRequest P p) (cancel_ID r \<noteq> '''')
       (r\<lparr>cancel_Metadata := norm_meta (cancel_Metadata r)\<rparr>)"
  by (cases r) (auto simp: FromProtoCancelTaskRequest_def ToProtoCancelTaskRequest_def yields_def on_ok_Inr_iff
      toProtoMap_back)

lemma subscribe_request_back:
  "yields (FromProtoSubscribeToTaskRequest (ToProtoSubscribeToTaskRequest r)) (sub_ID r \<noteq> '''') r"
  by (cases r) (simp add: FromProtoSubscribeToTaskRequest_def ToProtoSubscribeToTaskRequest_def yields_def)

lemma push_request_back:
  "yields (FromProtoGetTaskPushConfigRequest (ToProtoGetTaskPushConfigRequest r))
     (pr_TaskID r \<noteq> '''' \<and> pr_ID r \<noteq> '''') r"
  "yields (FromProtoDeleteTaskPushConfigRequest (ToProtoDeleteTaskPushConfigRequest r))
     (pr_TaskID r \<noteq> '''' \<and> pr_ID r \<noteq> '''') r"
  by (cases r; simp add: FromProtoGetTaskPushConfigRequest_def ToProtoGetTaskPushConfigRequest_def
      FromProtoDeleteTaskPushConfigRequest_def ToProtoDeleteTaskPushConfigRequest_def yields_def)+

lemma list_push_request_back:
  "yields (FromProtoListTaskPushConfigRequest (ToProtoListTaskPushConfigRequest r)) (lpr_TaskID r \<noteq> '''')
     (r\<lparr>lpr_PageSize := via_int32 (lpr_PageSize r)\<rparr>)"
  by (cases r) (simp add: FromProtoListTaskPushConfigRequest_def ToProtoListTaskPushConfigRequest_def yields_def
      via_int32_def)

lemma list_push_response_back:
  "yields (FromProtoListTaskPushConfigResponse (ToProtoListTaskPushConfigResponse r))
     (list_all valid_push_config (lps_Configs r)) r"
proof -
  have "yields (conv_list (\<lambda>c. wrapf ''failed to convert config: %w'' (FromProtoTaskPushConfig c))
      (map ToProtoTaskPushConfig (lps_Configs r))) (list_all valid_push_config (lps_Configs r))
      (map (\<lambda>c. c) (lps_Configs r))"
    by (rule yields_list) (simp add: list_all2_map2 list.rel_refl push_config_back yields_wrapf)
  then show ?thesis
    by (cases r) (auto simp: FromProtoListTaskPushConfigResponse_def ToProtoListTaskPushConfigResponse_def
        yields_def isl_on_ok split: if_splits)
qed

lemma list_request_back:
  assumes "pb_ok P"
  shows "FromProtoListTasksRequest P (ToProtoListTasksRequest P r) = norm_list_request r"
proof -
  have "(if toProtoTaskState s \<noteq> 0 then fromProtoTaskState (toProtoTaskState s) else '''') = norm_state s" for s
    using fromProtoTaskState_back[of s] by (auto simp: fromProtoTaskState_def go_consts)
  from this[of "list_Status r"] show ?thesis
    using assms by (cases r) (simp add: FromProtoListTasksRequest_def ToProtoListTasksRequest_def norm_list_request_def
        via_int32_def option.map_comp o_def pb_ok_facts option.map_ident split: if_splits)
qed

lemma list_response_back:
  assumes "pb_ok P" "ToProtoListTasksResponse P r = Inr p"
  shows "yields (FromProtoListTasksResponse P p) (list_all valid_task (resp_Tasks r)) (norm_list_response r)"
proof -
  obtain tasks where t: "conv_list (\<lambda>t. wrapf ''failed to convert task: %w'' (ToProtoTask P t)) (resp_Tasks r) = Inr tasks"
    and p: "p = \<lparr>pls_Tasks = tasks, pls_NextPageToken = resp_NextPageToken r,
            pls_PageSize = word_of_int (resp_PageSize r), pls_TotalSize = word_of_int (resp_TotalSize r)\<rparr>"
    using assms(2) by (auto simp: ToProtoListTasksResponse_def on_ok_Inr_iff)
  have "yields (conv_list (\<lambda>t. wrapf ''failed to convert task: %w'' (FromProtoTask P t)) tasks)
      (list_all valid_task (resp_Tasks r)) (map norm_task (resp_Tasks r))"
    by (rule yields_list, rule list_all2_mono[OF t[unfolded conv_list_Inr_iff]])
      (auto intro: yields_wrapf ToProtoTask_back[OF assms(1)])
  then show ?thesis
    by (cases r) (auto simp: FromProtoListTasksResponse_def p yields_def isl_on_ok norm_list_response_def
        via_int32_def split: if_splits)
qed

text \<open>
  A request to send a message over gRPC: it is encoded unless a protobuf \<open>Struct\<close> cannot hold its
  data. The server refuses it if the message, an id, a role, a URL or an authentication scheme is
  missing, and otherwise sees the same request, with metadata and data in JSON form and the
  history length as an int32, dropped when negative.
\<close>

theorem send_request_roundtrip:
  assumes "pb_ok P"
  shows "case ToProtoSendMessageRequest P r of
      Inl err \<Rightarrow> \<not> (pred_option sendable_message (req_Message r) \<and> sendable_meta (req_Metadata r))
    | Inr p \<Rightarrow> if valid_send_request r then FromProtoSendMessageRequest P p = Inr (norm_send_request r)
              else isl (FromProtoSendMessageRequest P p)"
proof (cases "ToProtoSendMessageRequest P r")
  case (Inl err)
  then show ?thesis using ToProtoSendMessageRequest_isl[OF assms, of r] by simp
next
  case (Inr p)
  then show ?thesis using ToProtoSendMessageRequest_back[OF assms Inr] by (simp add: yields_def)
qed

text \<open>
  C36: The history length of a request over gRPC: the server sees the number if it is within the
  positive int32 range; from \<open>2 ^ 31\<close> on it is dropped or replaced by another number, by its
  remainder.
\<close>

theorem history_over_grpc:
  assumes "get_ID r \<noteq> ''''" "get_HistoryLength r = Some n" "0 \<le> n"
  shows "FromProtoGetTaskRequest (ToProtoGetTaskRequest r) =
    Inr (r\<lparr>get_HistoryLength :=
      (if n mod 2 ^ 32 < 2 ^ 31 then Some (n mod 2 ^ 32) else None)\<rparr>)"
proof -
  have "via_int32 n = (if n mod 2 ^ 32 < 2 ^ 31 then n mod 2 ^ 32 else n mod 2 ^ 32 - 2 ^ 32)"
    by (rule via_int32_rem)
  then have "via_history (Some n) = (if n mod 2 ^ 32 < 2 ^ 31 then Some (n mod 2 ^ 32) else None)"
    by (simp add: via_history_def)
  then show ?thesis
    using get_request_back[of r] assms(1,2) by (simp add: yields_def)
qed

lemma history_over_grpc_witness:
  "FromProtoGetTaskRequest (ToProtoGetTaskRequest
     \<lparr>get_Tenant = '''', get_ID = ''t'', get_HistoryLength = Some 4294967297\<rparr>) =
   Inr \<lparr>get_Tenant = '''', get_ID = ''t'', get_HistoryLength = Some 1\<rparr>"
  using history_over_grpc[of "\<lparr>get_Tenant = '''', get_ID = ''t'', get_HistoryLength = Some 4294967297\<rparr>" 4294967297]
  by simp

lemma send_request_roundtrip_witness:
  "isl (FromProtoSendMessageRequest plain_pb (projr (ToProtoSendMessageRequest plain_pb
     \<lparr>req_Tenant = ''x'', req_Config = None, req_Message = Some (NewMessage '''' MessageRoleUser [NewTextPart ''hi'']),
      req_Metadata = None\<rparr>)))"
  using send_request_roundtrip[OF plain_pb_ok, of "\<lparr>req_Tenant = ''x'', req_Config = None,
      req_Message = Some (NewMessage '''' MessageRoleUser [NewTextPart ''hi'']), req_Metadata = None\<rparr>"]
  by (simp add: valid_send_request_def valid_message_def NewMessage_def sendable_message_def sendable_part_def
      sendable_meta_def NewTextPart_def split: sum.splits)

end
