(* ===== verification/ProtoCards.thy ===== *)
theory ProtoCards
  imports ProtoTasks AgentCards
begin

text \<open>
  The conversions of agent cards and security schemes of \<open>a2apb/v1/pbconv\<close>. A repeated field that
  the code compares with nil is an option; \<open>make\<close> gives a non-nil slice. Pointers to strings and
  booleans are options, and elements of repeated fields and maps are non-nil.
\<close>

section \<open>The protobuf messages\<close>

record pb_auth_code_flow =
  pac_AuthorizationUrl :: string
  pac_TokenUrl :: string
  pac_RefreshUrl :: string
  pac_Scopes :: scopes_map
  pac_PkceRequired :: bool

record pb_client_credentials_flow =
  pcc_TokenUrl :: string
  pcc_RefreshUrl :: string
  pcc_Scopes :: scopes_map

record pb_implicit_flow =
  pim_AuthorizationUrl :: string
  pim_RefreshUrl :: string
  pim_Scopes :: scopes_map

record pb_password_flow =
  ppw_TokenUrl :: string
  ppw_RefreshUrl :: string
  ppw_Scopes :: scopes_map

record pb_device_code_flow =
  pdc_DeviceAuthorizationUrl :: string
  pdc_TokenUrl :: string
  pdc_RefreshUrl :: string
  pdc_Scopes :: scopes_map

datatype pb_flow =
    PAuthorizationCode pb_auth_code_flow
  | PClientCredentials pb_client_credentials_flow
  | PImplicit pb_implicit_flow
  | PPassword pb_password_flow
  | PDeviceCode pb_device_code_flow

record pb_api_key_scheme =
  pak_Description :: string
  pak_Location :: string
  pak_Name :: string

record pb_http_auth_scheme =
  pha_Description :: string
  pha_Scheme :: string
  pha_BearerFormat :: string

record pb_openid_scheme =
  poi_Description :: string
  poi_OpenIdConnectUrl :: string

record pb_mutual_tls_scheme =
  pmt_Description :: string

text \<open>The one-of of the flows: the outer option is the pointer, the inner one an unset member.\<close>

record pb_oauth2_scheme =
  po2_Description :: string
  po2_Flows :: "pb_flow option option"
  po2_Oauth2MetadataUrl :: string

datatype pb_scheme =
    PApiKey pb_api_key_scheme
  | PHttpAuth pb_http_auth_scheme
  | POAuth2 pb_oauth2_scheme
  | POpenIdConnect pb_openid_scheme
  | PMtls pb_mutual_tls_scheme

record pb_string_list =
  psl_List :: "string list"

record pb_requirement =
  prq_Schemes :: "(string, pb_string_list) fmap"

record pb_interface =
  pif_Url :: string
  pif_ProtocolBinding :: string
  pif_Tenant :: string
  pif_ProtocolVersion :: string

record pb_provider =
  ppv_Url :: string
  ppv_Organization :: string

record 's pb_extension =
  pex_Uri :: string
  pex_Description :: string
  pex_Required :: bool
  pex_Params :: "'s option"

record 's pb_capabilities =
  pca_Streaming :: "bool option"
  pca_PushNotifications :: "bool option"
  pca_Extensions :: "'s pb_extension list"
  pca_ExtendedAgentCard :: "bool option"

record pb_skill =
  psk_Id :: string
  psk_Name :: string
  psk_Description :: string
  psk_Tags :: "string list option"
  psk_Examples :: "string list"
  psk_InputModes :: "string list"
  psk_OutputModes :: "string list"
  psk_SecurityRequirements :: "pb_requirement list"

record 's pb_signature =
  psg_Protected :: string
  psg_Signature :: string
  psg_Header :: "'s option"

record 's pb_card =
  pcd_Name :: string
  pcd_Description :: string
  pcd_SupportedInterfaces :: "pb_interface list option"
  pcd_Provider :: "pb_provider option"
  pcd_Version :: string
  pcd_DocumentationUrl :: "string option"
  pcd_Capabilities :: "'s pb_capabilities option"
  pcd_SecuritySchemes :: "(string, pb_scheme option) fmap"
  pcd_SecurityRequirements :: "pb_requirement list"
  pcd_DefaultInputModes :: "string list option"
  pcd_DefaultOutputModes :: "string list option"
  pcd_Skills :: "pb_skill list option"
  pcd_Signatures :: "'s pb_signature list option"
  pcd_IconUrl :: "string option"

text \<open>A getter of an optional scalar: the zero value for nil.\<close>

definition get_string :: "string option \<Rightarrow> string" where
  "get_string s = (case s of None \<Rightarrow> '''' | Some v \<Rightarrow> v)"

definition get_bool :: "bool option \<Rightarrow> bool" where
  "get_bool b = (case b of None \<Rightarrow> False | Some v \<Rightarrow> v)"

section \<open>From the data model (to_proto.go)\<close>

definition toProtoSupportedInterfaces :: "agent_interface list \<Rightarrow> pb_interface list" where
  "toProtoSupportedInterfaces interfaces =
     map (\<lambda>i. \<lparr>pif_Url = if_URL i, pif_ProtocolBinding = if_ProtocolBinding i, pif_Tenant = if_Tenant i,
               pif_ProtocolVersion = if_ProtocolVersion i\<rparr>) interfaces"

definition toProtoAgentProvider :: "agent_provider \<Rightarrow> pb_provider" where
  "toProtoAgentProvider provider = \<lparr>ppv_Url = prov_URL provider, ppv_Organization = prov_Org provider\<rparr>"

definition toProtoAgentExtensions ::
  "('s, 'v, 't) pb_lib \<Rightarrow> agent_extension list \<Rightarrow> go_error + 's pb_extension list" where
  "toProtoAgentExtensions P extensions =
     conv_list (\<lambda>ext.
       on_ok (wrapf ''failed to convert extension params: %w'' (toProtoMap P (ext_Params ext))) (\<lambda>params.
         Inr \<lparr>pex_Uri = ext_URI ext, pex_Description = ext_Description ext, pex_Required = ext_Required ext,
              pex_Params = params\<rparr>)) extensions"

definition toProtoCapabilities ::
  "('s, 'v, 't) pb_lib \<Rightarrow> agent_capabilities \<Rightarrow> go_error + 's pb_capabilities" where
  "toProtoCapabilities P capabilities =
     on_ok (wrapf ''failed to convert extensions: %w'' (toProtoAgentExtensions P (cap_Extensions capabilities)))
       (\<lambda>extensions.
         Inr \<lparr>pca_Streaming = Some (cap_Streaming capabilities),
              pca_PushNotifications = Some (cap_PushNotifications capabilities),
              pca_Extensions = extensions,
              pca_ExtendedAgentCard = Some (cap_ExtendedAgentCard capabilities)\<rparr>)"

definition toProtoAuthzOAuthCodeFlow :: "auth_code_flow \<Rightarrow> pb_flow" where
  "toProtoAuthzOAuthCodeFlow f = PAuthorizationCode
     \<lparr>pac_AuthorizationUrl = acf_AuthorizationURL f, pac_TokenUrl = acf_TokenURL f,
      pac_RefreshUrl = acf_RefreshURL f, pac_Scopes = acf_Scopes f, pac_PkceRequired = acf_PKCERequired f\<rparr>"

definition toProtoCredentialsOAuthFlow :: "client_credentials_flow \<Rightarrow> pb_flow" where
  "toProtoCredentialsOAuthFlow f = PClientCredentials
     \<lparr>pcc_TokenUrl = ccf_TokenURL f, pcc_RefreshUrl = ccf_RefreshURL f, pcc_Scopes = ccf_Scopes f\<rparr>"

definition toProtoImplicitOAuthFlow :: "implicit_flow \<Rightarrow> pb_flow" where
  "toProtoImplicitOAuthFlow f = PImplicit
     \<lparr>pim_AuthorizationUrl = imf_AuthorizationURL f, pim_RefreshUrl = imf_RefreshURL f, pim_Scopes = imf_Scopes f\<rparr>"

definition toProtoPasswordOAuthFlows :: "password_flow \<Rightarrow> pb_flow" where
  "toProtoPasswordOAuthFlows f = PPassword
     \<lparr>ppw_TokenUrl = pwf_TokenURL f, ppw_RefreshUrl = pwf_RefreshURL f, ppw_Scopes = pwf_Scopes f\<rparr>"

definition toProtoDeviceCodeOAuthFlow :: "device_code_flow \<Rightarrow> pb_flow" where
  "toProtoDeviceCodeOAuthFlow f = PDeviceCode
     \<lparr>pdc_DeviceAuthorizationUrl = dcf_DeviceAuthorizationURL f, pdc_TokenUrl = dcf_TokenURL f,
      pdc_RefreshUrl = dcf_RefreshURL f, pdc_Scopes = dcf_Scopes f\<rparr>"

definition toProtoOAuthFlows :: "oauth_flows \<Rightarrow> go_error + pb_flow" where
  "toProtoOAuthFlows flows =
     (let unsupported = Inl (Errorf ''unsupported OAuthFlows type: %T'' [])
      in case (case flows of
            FlowPointer (AuthorizationCode f) \<Rightarrow> Inr [toProtoAuthzOAuthCodeFlow f]
          | FlowPointer (ClientCredentials f) \<Rightarrow> Inr [toProtoCredentialsOAuthFlow f]
          | FlowPointer (Implicit f) \<Rightarrow> Inr [toProtoImplicitOAuthFlow f]
          | FlowPointer (Password f) \<Rightarrow> Inr [toProtoPasswordOAuthFlows f]
          | FlowPointer (DeviceCode f) \<Rightarrow> Inr [toProtoDeviceCodeOAuthFlow f]
          | FlowValue f \<Rightarrow> unsupported
          | NilFlow \<Rightarrow> unsupported) of
           Inl err \<Rightarrow> Inl err
         | Inr result \<Rightarrow>
             (if length result = 0 then Inl (Errorf ''no OAuthFlows found'' [])
              else if length result > 1 then Inl (Errorf ''only one OAuthFlow is allowed'' [])
              else Inr (result ! 0)))"

definition toProtoSecurityScheme :: "security_scheme \<Rightarrow> go_error + pb_scheme" where
  "toProtoSecurityScheme scheme =
     (case scheme of
        APIKey s \<Rightarrow> Inr (PApiKey \<lparr>pak_Description = aks_Description s, pak_Location = aks_Location s,
                            pak_Name = aks_Name s\<rparr>)
      | HTTPAuth s \<Rightarrow> Inr (PHttpAuth \<lparr>pha_Description = has_Description s, pha_Scheme = has_Scheme s,
                            pha_BearerFormat = has_BearerFormat s\<rparr>)
      | OpenIDConnect s \<Rightarrow> Inr (POpenIdConnect \<lparr>poi_Description = ois_Description s,
                            poi_OpenIdConnectUrl = ois_OpenIDConnectURL s\<rparr>)
      | MutualTLS s \<Rightarrow> Inr (PMtls \<lparr>pmt_Description = mts_Description s\<rparr>)
      | OAuth2 s \<Rightarrow>
          on_ok (wrapf ''failed to convert OAuth flows: %w'' (toProtoOAuthFlows (oas_Flows s))) (\<lambda>pFlows.
            Inr (POAuth2 \<lparr>po2_Description = oas_Description s, po2_Flows = Some (Some pFlows),
                   po2_Oauth2MetadataUrl = oas_Oauth2MetadataURL s\<rparr>))
      | OtherScheme \<Rightarrow> Inl (Errorf ''unsupported security scheme type: %T'' []))"

definition toProtoSecuritySchemes :: "named_schemes \<Rightarrow> go_error + (string, pb_scheme option) fmap" where
  "toProtoSecuritySchemes schemes =
     fmap_all (\<lambda>scheme.
       on_ok (wrapf ''failed to convert security scheme: %w'' (toProtoSecurityScheme scheme)) (\<lambda>p. Inr (Some p)))
       (gm_fmap schemes)"

definition toProtoSecurity :: "security_requirements list \<Rightarrow> pb_requirement list" where
  "toProtoSecurity security =
     map (\<lambda>sec. \<lparr>prq_Schemes = fmmap (\<lambda>scopes. \<lparr>psl_List = scopes\<rparr>) sec\<rparr>) security"

definition toProtoSkills :: "agent_skill list \<Rightarrow> pb_skill list" where
  "toProtoSkills skills =
     map (\<lambda>skill. \<lparr>psk_Id = skill_ID skill, psk_Name = skill_Name skill,
            psk_Description = skill_Description skill, psk_Tags = skill_Tags skill,
            psk_Examples = skill_Examples skill, psk_InputModes = skill_InputModes skill,
            psk_OutputModes = skill_OutputModes skill,
            psk_SecurityRequirements = toProtoSecurity (skill_SecurityRequirements skill)\<rparr>) skills"

definition toProtoAgentCardSignatures ::
  "('s, 'v, 't) pb_lib \<Rightarrow> card_signature list option \<Rightarrow> go_error + 's pb_signature list option" where
  "toProtoAgentCardSignatures P signatures =
     nilable (conv_list (\<lambda>v. on_ok (toProtoMap P (sig_Header v)) (\<lambda>header.
       Inr \<lparr>psg_Protected = sig_Protected v, psg_Signature = sig_Signature v, psg_Header = header\<rparr>))) signatures"

definition ToProtoAgentCard :: "('s, 'v, 't) pb_lib \<Rightarrow> agent_card \<Rightarrow> go_error + 's pb_card" where
  "ToProtoAgentCard P ac =
     on_ok (wrapf ''failed to convert agent capabilities: %w'' (toProtoCapabilities P (card_Capabilities ac)))
       (\<lambda>capabilities.
     on_ok (wrapf ''failed to convert security schemes: %w'' (toProtoSecuritySchemes (card_SecuritySchemes ac)))
       (\<lambda>schemes.
     on_ok (wrapf ''failed to convert signatures: %w'' (toProtoAgentCardSignatures P (card_Signatures ac)))
       (\<lambda>signatures.
       Inr \<lparr>pcd_Name = card_Name ac, pcd_Description = card_Description ac,
            pcd_SupportedInterfaces = Some (toProtoSupportedInterfaces (slice (card_SupportedInterfaces ac))),
            pcd_Provider = map_option toProtoAgentProvider (card_Provider ac), pcd_Version = card_Version ac,
            pcd_DocumentationUrl = Some (card_DocumentationURL ac), pcd_Capabilities = Some capabilities,
            pcd_SecuritySchemes = schemes,
            pcd_SecurityRequirements = toProtoSecurity (card_SecurityRequirements ac),
            pcd_DefaultInputModes = card_DefaultInputModes ac,
            pcd_DefaultOutputModes = card_DefaultOutputModes ac,
            pcd_Skills = Some (toProtoSkills (slice (card_Skills ac))), pcd_Signatures = signatures,
            pcd_IconUrl = Some (card_IconURL ac)\<rparr>)))"

section \<open>To the data model (from_proto.go)\<close>

definition fromProtoSupportedInterfaces :: "pb_interface list option \<Rightarrow> go_error + agent_interface list option" where
  "fromProtoSupportedInterfaces pInterfaces =
     nilable (conv_list (\<lambda>pIface.
       if pif_Url pIface = '''' then Inl (Errorf ''url cannot be empty'' [])
       else if pif_ProtocolBinding pIface = '''' then Inl (Errorf ''protocol binding cannot be empty'' [])
       else Inr \<lparr>if_URL = pif_Url pIface, if_ProtocolBinding = pif_ProtocolBinding pIface,
              if_Tenant = pif_Tenant pIface, if_ProtocolVersion = pif_ProtocolVersion pIface\<rparr>)) pInterfaces"

definition fromProtoAgentProvider :: "pb_provider \<Rightarrow> go_error + agent_provider" where
  "fromProtoAgentProvider pProvider =
     (if ppv_Organization pProvider = '''' then Inl (Errorf ''organization cannot be empty'' [])
      else if ppv_Url pProvider = '''' then Inl (Errorf ''url cannot be empty'' [])
      else Inr \<lparr>prov_Org = ppv_Organization pProvider, prov_URL = ppv_Url pProvider\<rparr>)"

text \<open>\<open>AsMap\<close> of a nil \<open>Struct\<close> is a new, empty map.\<close>

definition fromProtoAgentExtensions :: "('s, 'v, 't) pb_lib \<Rightarrow> 's pb_extension list \<Rightarrow> agent_extension list" where
  "fromProtoAgentExtensions P pExtensions =
     map (\<lambda>pExt. \<lparr>ext_Description = pex_Description pExt,
            ext_Params = Some (case pex_Params pExt of None \<Rightarrow> fmempty | Some s \<Rightarrow> pb_AsMap P s),
            ext_Required = pex_Required pExt, ext_URI = pex_Uri pExt\<rparr>) pExtensions"

definition fromProtoCapabilities ::
  "('s, 'v, 't) pb_lib \<Rightarrow> 's pb_capabilities option \<Rightarrow> go_error + agent_capabilities" where
  "fromProtoCapabilities P pCapabilities =
     (case pCapabilities of
        None \<Rightarrow> Inl (Errorf ''capabilities is nil'' [])
      | Some c \<Rightarrow> Inr \<lparr>cap_Extensions = fromProtoAgentExtensions P (pca_Extensions c),
          cap_PushNotifications = get_bool (pca_PushNotifications c), cap_Streaming = get_bool (pca_Streaming c),
          cap_ExtendedAgentCard = get_bool (pca_ExtendedAgentCard c)\<rparr>)"

definition fromProtoOAuthFlows :: "pb_flow option option \<Rightarrow> go_error + oauth_flows" where
  "fromProtoOAuthFlows pFlows =
     (case pFlows of
        None \<Rightarrow> Inl (Errorf ''oauth flows is nil'' [])
      | Some flow \<Rightarrow>
          (case flow of
             Some (PAuthorizationCode f) \<Rightarrow> Inr (FlowPointer (AuthorizationCode
               \<lparr>acf_AuthorizationURL = pac_AuthorizationUrl f, acf_RefreshURL = pac_RefreshUrl f,
                acf_Scopes = pac_Scopes f, acf_TokenURL = pac_TokenUrl f, acf_PKCERequired = pac_PkceRequired f\<rparr>))
           | Some (PClientCredentials f) \<Rightarrow> Inr (FlowPointer (ClientCredentials
               \<lparr>ccf_RefreshURL = pcc_RefreshUrl f, ccf_Scopes = pcc_Scopes f, ccf_TokenURL = pcc_TokenUrl f\<rparr>))
           | Some (PImplicit f) \<Rightarrow> Inr (FlowPointer (Implicit
               \<lparr>imf_AuthorizationURL = pim_AuthorizationUrl f, imf_RefreshURL = pim_RefreshUrl f,
                imf_Scopes = pim_Scopes f\<rparr>))
           | Some (PPassword f) \<Rightarrow> Inr (FlowPointer (Password
               \<lparr>pwf_RefreshURL = ppw_RefreshUrl f, pwf_Scopes = ppw_Scopes f, pwf_TokenURL = ppw_TokenUrl f\<rparr>))
           | Some (PDeviceCode f) \<Rightarrow> Inr (FlowPointer (DeviceCode
               \<lparr>dcf_DeviceAuthorizationURL = pdc_DeviceAuthorizationUrl f, dcf_RefreshURL = pdc_RefreshUrl f,
                dcf_Scopes = pdc_Scopes f, dcf_TokenURL = pdc_TokenUrl f\<rparr>))
           | None \<Rightarrow> Inl (Errorf ''unsupported oauth flow type: %T'' [])))"

definition fromProtoSecurityScheme :: "pb_scheme option \<Rightarrow> go_error + security_scheme" where
  "fromProtoSecurityScheme pScheme =
     (case pScheme of
        Some (PApiKey s) \<Rightarrow> Inr (APIKey \<lparr>aks_Description = pak_Description s, aks_Location = pak_Location s,
          aks_Name = pak_Name s\<rparr>)
      | Some (PHttpAuth s) \<Rightarrow> Inr (HTTPAuth \<lparr>has_BearerFormat = pha_BearerFormat s,
          has_Description = pha_Description s, has_Scheme = pha_Scheme s\<rparr>)
      | Some (POpenIdConnect s) \<Rightarrow> Inr (OpenIDConnect \<lparr>ois_Description = poi_Description s,
          ois_OpenIDConnectURL = poi_OpenIdConnectUrl s\<rparr>)
      | Some (POAuth2 s) \<Rightarrow>
          on_ok (wrapf ''failed to convert OAuthFlows: %w'' (fromProtoOAuthFlows (po2_Flows s))) (\<lambda>flows.
            Inr (OAuth2 \<lparr>oas_Description = po2_Description s, oas_Flows = flows,
                   oas_Oauth2MetadataURL = po2_Oauth2MetadataUrl s\<rparr>))
      | Some (PMtls s) \<Rightarrow> Inr (MutualTLS \<lparr>mts_Description = pmt_Description s\<rparr>)
      | None \<Rightarrow> Inl (Errorf ''unsupported security scheme type: %T'' []))"

definition fromProtoSecuritySchemes :: "(string, pb_scheme option) fmap \<Rightarrow> go_error + named_schemes" where
  "fromProtoSecuritySchemes pSchemes =
     on_ok (fmap_all (\<lambda>p. wrapf ''failed to convert security scheme: %w'' (fromProtoSecurityScheme p)) pSchemes)
       (\<lambda>schemes. Inr (Some schemes))"

definition fromProtoSecurity :: "pb_requirement list \<Rightarrow> security_requirements list" where
  "fromProtoSecurity pSecurity = map (\<lambda>pSec. fmmap psl_List (prq_Schemes pSec)) pSecurity"

definition fromProtoSkills :: "pb_skill list option \<Rightarrow> go_error + agent_skill list option" where
  "fromProtoSkills pSkills =
     nilable (conv_list (\<lambda>pSkill.
       if psk_Id pSkill = '''' then Inl (Errorf ''skill ID cannot be empty'' [])
       else if psk_Name pSkill = '''' then Inl (Errorf ''skill name cannot be empty'' [])
       else if psk_Description pSkill = '''' then Inl (Errorf ''skill description cannot be empty'' [])
       else if psk_Tags pSkill = None then Inl (Errorf ''skill tags cannot be empty'' [])
       else Inr \<lparr>skill_Description = psk_Description pSkill, skill_Examples = psk_Examples pSkill,
              skill_ID = psk_Id pSkill, skill_InputModes = psk_InputModes pSkill, skill_Name = psk_Name pSkill,
              skill_OutputModes = psk_OutputModes pSkill,
              skill_SecurityRequirements = fromProtoSecurity (psk_SecurityRequirements pSkill),
              skill_Tags = psk_Tags pSkill\<rparr>)) pSkills"

definition fromProtoAgentCardSignatures ::
  "('s, 'v, 't) pb_lib \<Rightarrow> 's pb_signature list option \<Rightarrow> go_error + card_signature list option" where
  "fromProtoAgentCardSignatures P signatures =
     nilable (conv_list (\<lambda>v.
       if psg_Protected v = '''' then Inl (Errorf ''signature protected cannot be empty'' [])
       else if psg_Signature v = '''' then Inl (Errorf ''signature cannot be empty'' [])
       else Inr \<lparr>sig_Header = fromProtoMap P (psg_Header v), sig_Protected = psg_Protected v,
              sig_Signature = psg_Signature v\<rparr>)) signatures"

definition FromProtoAgentCard :: "('s, 'v, 't) pb_lib \<Rightarrow> 's pb_card \<Rightarrow> go_error + agent_card" where
  "FromProtoAgentCard P pCard =
     (if pcd_Name pCard = '''' then Inl (Errorf ''agent card name cannot be empty'' [])
      else if pcd_Description pCard = '''' then Inl (Errorf ''agent card description cannot be empty'' [])
      else
        on_ok (wrapf ''failed to convert supported interfaces: %w''
                 (fromProtoSupportedInterfaces (pcd_SupportedInterfaces pCard))) (\<lambda>interfaces.
        if interfaces = None then Inl (Errorf ''supported interfaces cannot be empty'' [])
        else
        on_ok (wrapf ''failed to convert agent provider: %w''
                 (nilable fromProtoAgentProvider (pcd_Provider pCard))) (\<lambda>provider.
        if pcd_Version pCard = '''' then Inl (Errorf ''agent card version cannot be empty'' [])
        else
        on_ok (wrapf ''failed to convert agent capabilities: %w''
                 (fromProtoCapabilities P (pcd_Capabilities pCard))) (\<lambda>capabilities.
        if pcd_DefaultInputModes pCard = None then Inl (Errorf ''default input modes cannot be empty'' [])
        else if pcd_DefaultOutputModes pCard = None then Inl (Errorf ''default output modes cannot be empty'' [])
        else
        on_ok (wrapf ''failed to convert security schemes: %w''
                 (fromProtoSecuritySchemes (pcd_SecuritySchemes pCard))) (\<lambda>schemes.
        on_ok (wrapf ''failed to convert skills: %w'' (fromProtoSkills (pcd_Skills pCard))) (\<lambda>skills.
        if skills = None then Inl (Errorf ''skills cannot be empty'' [])
        else
        on_ok (wrapf ''failed to convert signatures: %w''
                 (fromProtoAgentCardSignatures P (pcd_Signatures pCard))) (\<lambda>signatures.
          Inr \<lparr>card_SupportedInterfaces = interfaces, card_Capabilities = capabilities,
               card_DefaultInputModes = pcd_DefaultInputModes pCard,
               card_DefaultOutputModes = pcd_DefaultOutputModes pCard,
               card_Description = pcd_Description pCard,
               card_DocumentationURL = get_string (pcd_DocumentationUrl pCard),
               card_IconURL = get_string (pcd_IconUrl pCard), card_Name = pcd_Name pCard,
               card_Provider = provider,
               card_SecurityRequirements = fromProtoSecurity (pcd_SecurityRequirements pCard),
               card_SecuritySchemes = schemes, card_Signatures = signatures, card_Skills = skills,
               card_Version = pcd_Version pCard\<rparr>)))))))"

section \<open>What is kept of a card\<close>

definition norm_extension :: "agent_extension \<Rightarrow> agent_extension" where
  "norm_extension e = e\<lparr>ext_Params := Some (norm_map float_exact (gm_fmap (ext_Params e)))\<rparr>"

definition norm_card :: "agent_card \<Rightarrow> agent_card" where
  "norm_card c = c\<lparr>
     card_SupportedInterfaces := Some (slice (card_SupportedInterfaces c)),
     card_Capabilities := (card_Capabilities c)\<lparr>cap_Extensions :=
       map norm_extension (cap_Extensions (card_Capabilities c))\<rparr>,
     card_SecuritySchemes := Some (gm_fmap (card_SecuritySchemes c)),
     card_Signatures := map_option (map (\<lambda>s. s\<lparr>sig_Header := norm_meta (sig_Header s)\<rparr>)) (card_Signatures c),
     card_Skills := Some (slice (card_Skills c))\<rparr>"

definition valid_interface :: "agent_interface \<Rightarrow> bool" where
  "valid_interface i = (if_URL i \<noteq> '''' \<and> if_ProtocolBinding i \<noteq> '''')"

definition valid_provider :: "agent_provider \<Rightarrow> bool" where
  "valid_provider p = (prov_Org p \<noteq> '''' \<and> prov_URL p \<noteq> '''')"

definition valid_skill :: "agent_skill \<Rightarrow> bool" where
  "valid_skill s = (skill_ID s \<noteq> '''' \<and> skill_Name s \<noteq> '''' \<and> skill_Description s \<noteq> '''' \<and> skill_Tags s \<noteq> None)"

definition valid_signature :: "card_signature \<Rightarrow> bool" where
  "valid_signature s = (sig_Protected s \<noteq> '''' \<and> sig_Signature s \<noteq> '''')"

definition valid_card :: "agent_card \<Rightarrow> bool" where
  "valid_card c = (card_Name c \<noteq> '''' \<and> card_Description c \<noteq> '''' \<and>
     list_all valid_interface (slice (card_SupportedInterfaces c)) \<and>
     pred_option valid_provider (card_Provider c) \<and> card_Version c \<noteq> '''' \<and>
     card_DefaultInputModes c \<noteq> None \<and> card_DefaultOutputModes c \<noteq> None \<and>
     list_all valid_skill (slice (card_Skills c)) \<and>
     pred_option (list_all valid_signature) (card_Signatures c))"

definition sendable_scheme :: "security_scheme \<Rightarrow> bool" where
  "sendable_scheme s = (case s of OAuth2 o2 \<Rightarrow> (\<exists>f. oas_Flows o2 = FlowPointer f) | OtherScheme \<Rightarrow> False | _ \<Rightarrow> True)"

definition sendable_card :: "agent_card \<Rightarrow> bool" where
  "sendable_card c = (
     list_all (\<lambda>e. sendable_meta (ext_Params e)) (cap_Extensions (card_Capabilities c)) \<and>
     fmpred (\<lambda>n s. sendable_scheme s) (gm_fmap (card_SecuritySchemes c)) \<and>
     pred_option (list_all (\<lambda>s. sendable_meta (sig_Header s))) (card_Signatures c))"

section \<open>Round trip of a card\<close>

lemma list_all2_map_eq: "list_all2 (\<lambda>x y. f y = g x) xs ys \<Longrightarrow> map f ys = map g xs"
  by (induction rule: list_all2_induct) simp_all

lemma isl_nilable: "isl (nilable f p) = (\<not> pred_option (\<lambda>x. \<not> isl (f x)) p)"
  by (cases p) (simp_all add: isl_on_ok)

lemma isl_fmap_all: "isl (fmap_all f m) = (\<not> fmpred (\<lambda>k v. \<not> isl (f v)) m)"
  by (simp add: fmap_all_def)

lemma toProtoAgentExtensions_isl:
  "pb_ok P \<Longrightarrow> isl (toProtoAgentExtensions P es) = (\<not> list_all (\<lambda>e. sendable_meta (ext_Params e)) es)"
  by (simp add: toProtoAgentExtensions_def isl_conv_list isl_on_ok toProtoMap_isl)

lemma toProtoAgentExtensions_back:
  fixes ps :: "'a pb_extension list"
  assumes "pb_ok P" "toProtoAgentExtensions P es = Inr ps"
  shows "fromProtoAgentExtensions P ps = map norm_extension es"
proof -
  have "list_all2 (\<lambda>e p. \<lparr>ext_Description = pex_Description p,
            ext_Params = Some (case pex_Params p of None \<Rightarrow> fmempty | Some s \<Rightarrow> pb_AsMap P s),
            ext_Required = pex_Required p, ext_URI = pex_Uri p\<rparr> = norm_extension e) es ps"
    using assms(2) unfolding toProtoAgentExtensions_def conv_list_Inr_iff
  proof (rule list_all2_mono)
    fix e :: agent_extension and p :: "'a pb_extension"
    assume "on_ok (wrapf ''failed to convert extension params: %w'' (toProtoMap P (ext_Params e))) (\<lambda>params.
         Inr \<lparr>pex_Uri = ext_URI e, pex_Description = ext_Description e, pex_Required = ext_Required e,
              pex_Params = params\<rparr>) = Inr p"
    then show "\<lparr>ext_Description = pex_Description p,
            ext_Params = Some (case pex_Params p of None \<Rightarrow> fmempty | Some s \<Rightarrow> pb_AsMap P s),
            ext_Required = pex_Required p, ext_URI = pex_Uri p\<rparr> = norm_extension e"
      by (cases e; cases "ext_Params e")
        (auto simp: on_ok_Inr_iff toProtoMap_def norm_extension_def pb_ok_facts[OF assms(1)])
  qed
  then show ?thesis unfolding fromProtoAgentExtensions_def by (rule list_all2_map_eq)
qed

lemma toProtoOAuthFlows_isl: "isl (toProtoOAuthFlows f) = (\<not> (\<exists>g. f = FlowPointer g))"
  by (auto simp: toProtoOAuthFlows_def Let_def split: oauth_flows.splits oauth_flow.splits)

lemma toProtoOAuthFlows_back:
  "toProtoOAuthFlows f = Inr p \<Longrightarrow> fromProtoOAuthFlows (Some (Some p)) = Inr f"
  by (auto simp: toProtoOAuthFlows_def fromProtoOAuthFlows_def toProtoAuthzOAuthCodeFlow_def
      toProtoCredentialsOAuthFlow_def toProtoImplicitOAuthFlow_def toProtoPasswordOAuthFlows_def
      toProtoDeviceCodeOAuthFlow_def Let_def split: oauth_flows.splits oauth_flow.splits)

lemma toProtoSecurityScheme_isl: "isl (toProtoSecurityScheme s) = (\<not> sendable_scheme s)"
  by (cases s) (simp_all add: toProtoSecurityScheme_def sendable_scheme_def isl_on_ok toProtoOAuthFlows_isl)

lemma toProtoSecurityScheme_back:
  "toProtoSecurityScheme s = Inr p \<Longrightarrow> fromProtoSecurityScheme (Some p) = Inr s"
  by (cases s) (auto simp: toProtoSecurityScheme_def fromProtoSecurityScheme_def on_ok_Inr_iff toProtoOAuthFlows_back)

lemma toProtoSecuritySchemes_isl:
  "isl (toProtoSecuritySchemes ss) = (\<not> fmpred (\<lambda>n s. sendable_scheme s) (gm_fmap ss))"
  by (simp add: toProtoSecuritySchemes_def isl_fmap_all isl_on_ok toProtoSecurityScheme_isl)

lemma toProtoSecuritySchemes_back:
  assumes "toProtoSecuritySchemes ss = Inr ps"
  shows "fromProtoSecuritySchemes ps = Inr (Some (gm_fmap ss))"
proof -
  have "fmap_all (\<lambda>p. wrapf ''failed to convert security scheme: %w'' (fromProtoSecurityScheme p)) ps =
      Inr (fmmap (\<lambda>s. s) (gm_fmap ss))"
    by (rule fmap_all_roundtrip[OF assms[unfolded toProtoSecuritySchemes_def]])
      (auto simp: on_ok_Inr_iff toProtoSecurityScheme_back)
  then show ?thesis by (simp add: fromProtoSecuritySchemes_def fmap.map_ident)
qed

lemma toProtoSecurity_back [simp]: "fromProtoSecurity (toProtoSecurity rs) = rs"
  by (simp add: fromProtoSecurity_def toProtoSecurity_def fmap.map_comp o_def fmap.map_ident)

lemma skills_back:
  "yields (fromProtoSkills (Some (toProtoSkills ss))) (list_all valid_skill ss) (Some ss)"
proof -
  have "yields (fromProtoSkills (Some (toProtoSkills ss))) (pred_option (list_all valid_skill) (Some ss))
      (map_option (map (\<lambda>s. s)) (Some ss))"
    unfolding fromProtoSkills_def
    by (rule yields_nilable, unfold option.rel_inject, rule yields_list)
      (auto simp: toProtoSkills_def list_all2_map2 list_all2_same yields_def valid_skill_def)
  then show ?thesis by simp
qed

lemma interfaces_back:
  "yields (fromProtoSupportedInterfaces (Some (toProtoSupportedInterfaces is))) (list_all valid_interface is) (Some is)"
proof -
  have "yields (fromProtoSupportedInterfaces (Some (toProtoSupportedInterfaces is)))
      (pred_option (list_all valid_interface) (Some is)) (map_option (map (\<lambda>s. s)) (Some is))"
    unfolding fromProtoSupportedInterfaces_def
    by (rule yields_nilable, unfold option.rel_inject, rule yields_list)
      (auto simp: toProtoSupportedInterfaces_def list_all2_map2 list_all2_same yields_def valid_interface_def)
  then show ?thesis by simp
qed

lemma provider_back:
  "yields (nilable fromProtoAgentProvider (map_option toProtoAgentProvider p)) (pred_option valid_provider p) p"
proof -
  have "yields (nilable fromProtoAgentProvider (map_option toProtoAgentProvider p)) (pred_option valid_provider p)
      (map_option (\<lambda>p. p) p)"
    by (rule yields_nilable) (cases p; auto simp: yields_def fromProtoAgentProvider_def toProtoAgentProvider_def
        valid_provider_def)
  then show ?thesis by (simp add: option.map_ident)
qed

lemma toProtoAgentCardSignatures_isl:
  "pb_ok P \<Longrightarrow> isl (toProtoAgentCardSignatures P ss) =
     (\<not> pred_option (list_all (\<lambda>s. sendable_meta (sig_Header s))) ss)"
  by (simp add: toProtoAgentCardSignatures_def isl_nilable isl_conv_list isl_on_ok toProtoMap_isl)

lemma toProtoAgentCardSignatures_back:
  fixes ps :: "'a pb_signature list option"
  assumes "pb_ok P" "toProtoAgentCardSignatures P ss = Inr ps"
  shows "yields (fromProtoAgentCardSignatures P ps) (pred_option (list_all valid_signature) ss)
    (map_option (map (\<lambda>s. s\<lparr>sig_Header := norm_meta (sig_Header s)\<rparr>)) ss)"
  unfolding fromProtoAgentCardSignatures_def
proof (rule yields_nilable, rule option.rel_mono_strong[OF assms(2)[unfolded toProtoAgentCardSignatures_def nilable_Inr_iff]],
    rule yields_list, unfold conv_list_Inr_iff, erule list_all2_mono)
  fix s :: card_signature and p :: "'a pb_signature"
  assume "on_ok (toProtoMap P (sig_Header s)) (\<lambda>header.
       Inr \<lparr>psg_Protected = sig_Protected s, psg_Signature = sig_Signature s, psg_Header = header\<rparr>) = Inr p"
  then show "yields (if psg_Protected p = '''' then Inl (Errorf ''signature protected cannot be empty'' [])
       else if psg_Signature p = '''' then Inl (Errorf ''signature cannot be empty'' [])
       else Inr \<lparr>sig_Header = fromProtoMap P (psg_Header p), sig_Protected = psg_Protected p,
              sig_Signature = psg_Signature p\<rparr>) (valid_signature s) (s\<lparr>sig_Header := norm_meta (sig_Header s)\<rparr>)"
    by (cases s) (auto simp: on_ok_Inr_iff yields_def valid_signature_def toProtoMap_back[OF assms(1)])
qed

lemma ToProtoAgentCard_isl: "pb_ok P \<Longrightarrow> isl (ToProtoAgentCard P c) = (\<not> sendable_card c)"
  by (simp add: ToProtoAgentCard_def toProtoCapabilities_def sendable_card_def isl_on_ok toProtoAgentExtensions_isl
      toProtoSecuritySchemes_isl toProtoAgentCardSignatures_isl)

lemma ToProtoAgentCard_back:
  assumes "pb_ok P" "ToProtoAgentCard P c = Inr p"
  shows "yields (FromProtoAgentCard P p) (valid_card c) (norm_card c)"
proof -
  obtain es ss gs where c: "toProtoAgentExtensions P (cap_Extensions (card_Capabilities c)) = Inr es"
    "toProtoSecuritySchemes (card_SecuritySchemes c) = Inr ss"
    "toProtoAgentCardSignatures P (card_Signatures c) = Inr gs"
    and p: "p = \<lparr>pcd_Name = card_Name c, pcd_Description = card_Description c,
            pcd_SupportedInterfaces = Some (toProtoSupportedInterfaces (slice (card_SupportedInterfaces c))),
            pcd_Provider = map_option toProtoAgentProvider (card_Provider c), pcd_Version = card_Version c,
            pcd_DocumentationUrl = Some (card_DocumentationURL c),
            pcd_Capabilities = Some \<lparr>pca_Streaming = Some (cap_Streaming (card_Capabilities c)),
              pca_PushNotifications = Some (cap_PushNotifications (card_Capabilities c)),
              pca_Extensions = es,
              pca_ExtendedAgentCard = Some (cap_ExtendedAgentCard (card_Capabilities c))\<rparr>,
            pcd_SecuritySchemes = ss,
            pcd_SecurityRequirements = toProtoSecurity (card_SecurityRequirements c),
            pcd_DefaultInputModes = card_DefaultInputModes c,
            pcd_DefaultOutputModes = card_DefaultOutputModes c,
            pcd_Skills = Some (toProtoSkills (slice (card_Skills c))), pcd_Signatures = gs,
            pcd_IconUrl = Some (card_IconURL c)\<rparr>"
    using assms(2) by (auto simp: ToProtoAgentCard_def toProtoCapabilities_def on_ok_Inr_iff)
  have caps: "fromProtoCapabilities P (pcd_Capabilities p) = Inr (card_Capabilities (norm_card c))"
    using toProtoAgentExtensions_back[OF assms(1) c(1)]
    by (cases "card_Capabilities c") (simp add: p fromProtoCapabilities_def norm_card_def get_bool_def)
  show ?thesis
    using interfaces_back[of "slice (card_SupportedInterfaces c)"] provider_back[of "card_Provider c"]
      skills_back[of "slice (card_Skills c)"] toProtoAgentCardSignatures_back[OF assms(1) c(3)] caps
    by (cases c) (auto simp: FromProtoAgentCard_def p yields_def isl_on_ok valid_card_def
        toProtoSecuritySchemes_back[OF c(2)] norm_card_def get_string_def split: if_splits)
qed


lemma OAuth2_UnmarshalJSON_value: "OAuth2_UnmarshalJSON w = Inr s \<Longrightarrow> \<exists>v. oas_Flows s = FlowValue v"
  by (auto simp: OAuth2_UnmarshalJSON_def Let_def split: if_splits)

lemma unwrap_OAuth2_value: "unwrap_scheme w = Inr (OAuth2 s) \<Longrightarrow> \<exists>v. oas_Flows s = FlowValue v"
  by (auto simp: unwrap_scheme_def Let_def dest: OAuth2_UnmarshalJSON_value split: option.splits sum.splits if_splits)

lemma fromProto_OAuth2_pointer: "fromProtoSecurityScheme p = Inr (OAuth2 s) \<Longrightarrow> \<exists>f. oas_Flows s = FlowPointer f"
  by (auto simp: fromProtoSecurityScheme_def fromProtoOAuthFlows_def on_ok_Inr_iff
      split: option.splits pb_scheme.splits pb_flow.splits)

text \<open>
  Cards with an OAuth2 scheme cannot go from one encoding to the other: one decoded from JSON
  cannot be sent over gRPC, and one received over gRPC cannot be encoded as JSON.
\<close>

theorem oauth_card_stays:
  assumes "pb_ok P" "fmlookup (gm_fmap (card_SecuritySchemes c)) n = Some (OAuth2 s)"
  shows "(NamedSecuritySchemes_UnmarshalJSON b = Inr (card_SecuritySchemes c) \<longrightarrow> isl (ToProtoAgentCard P c)) \<and>
    (FromProtoAgentCard P p = Inr c \<longrightarrow> isl (NamedSecuritySchemes_MarshalJSON (card_SecuritySchemes c)))"
proof (intro conjI impI)
  assume "NamedSecuritySchemes_UnmarshalJSON b = Inr (card_SecuritySchemes c)"
  then obtain m where m: "fmap_all unwrap_scheme b = Inr m" "card_SecuritySchemes c = Some m"
    by (auto simp: NamedSecuritySchemes_UnmarshalJSON_def split: sum.splits)
  then have "n |\<in>| fmdom b" using assms(2) fmap_all_dom[OF m(1)] by (auto simp: fmlookup_dom_iff)
  then obtain w where "fmlookup b n = Some w" by (auto simp: fmlookup_dom_iff)
  with fmap_all_Inr[OF m(1)] assms(2) m(2) have "unwrap_scheme w = Inr (OAuth2 s)" by fastforce
  then have "\<not> sendable_scheme (OAuth2 s)"
    by (auto simp: sendable_scheme_def dest: unwrap_OAuth2_value)
  then show "isl (ToProtoAgentCard P c)"
    using assms(2) by (auto simp: ToProtoAgentCard_isl[OF assms(1)] sendable_card_def fmpred_iff)
next
  assume "FromProtoAgentCard P p = Inr c"
  then have "fromProtoSecuritySchemes (pcd_SecuritySchemes p) = Inr (card_SecuritySchemes c)"
    by (auto simp: FromProtoAgentCard_def on_ok_Inr_iff split: if_splits)
  then obtain m where m: "card_SecuritySchemes c = Some m"
    "fmap_all (\<lambda>p. wrapf ''failed to convert security scheme: %w'' (fromProtoSecurityScheme p))
       (pcd_SecuritySchemes p) = Inr m"
    by (fastforce simp: fromProtoSecuritySchemes_def on_ok_Inr_iff)
  then have "n |\<in>| fmdom (pcd_SecuritySchemes p)"
    using assms(2) fmap_all_dom[OF m(2)] by (auto simp: fmlookup_dom_iff)
  then obtain w where "fmlookup (pcd_SecuritySchemes p) n = Some w" by (auto simp: fmlookup_dom_iff)
  with fmap_all_Inr[OF m(2)] assms(2) m(1) have "fromProtoSecurityScheme w = Inr (OAuth2 s)" by fastforce
  then obtain f where "oas_Flows s = FlowPointer f" using fromProto_OAuth2_pointer by blast
  then have "isl (wrap_scheme (OAuth2 s))" by (simp add: OAuth2_MarshalJSON_def)
  then show "isl (NamedSecuritySchemes_MarshalJSON (card_SecuritySchemes c))"
    using assms(2) by (auto simp: NamedSecuritySchemes_MarshalJSON_def isl_fmap_all fmpred_iff simp del: wrap_scheme.simps)
qed

section \<open>A concrete card\<close>

definition ex_flow :: oauth_flow where
  "ex_flow = ClientCredentials \<lparr>ccf_RefreshURL = '''', ccf_Scopes = None, ccf_TokenURL = ''https://t''\<rparr>"

definition ex_oauth_card :: "oauth_flows \<Rightarrow> agent_card" where
  "ex_oauth_card flows = \<lparr>
     card_SupportedInterfaces = Some [NewAgentInterface ''https://a'' TransportProtocolGRPC],
     card_Capabilities = \<lparr>cap_Extensions = [\<lparr>ext_Description = '''', ext_Params = None, ext_Required = False,
       ext_URI = ''urn:x''\<rparr>], cap_PushNotifications = False, cap_Streaming = True, cap_ExtendedAgentCard = False\<rparr>,
     card_DefaultInputModes = Some [''text/plain''], card_DefaultOutputModes = Some [''text/plain''],
     card_Description = ''An agent'', card_DocumentationURL = '''', card_IconURL = '''', card_Name = ''Agent'',
     card_Provider = None, card_SecurityRequirements = [],
     card_SecuritySchemes = Some (fmupd ''oauth'' (OAuth2 \<lparr>oas_Description = '''', oas_Flows = flows,
       oas_Oauth2MetadataURL = ''''\<rparr>) fmempty),
     card_Signatures = None, card_Skills = None, card_Version = ''1''\<rparr>"


lemma oauth_card_stays_witness:
  "isl (ToProtoAgentCard plain_pb (ex_oauth_card (FlowValue ex_flow)))"
proof -
  let ?o = "\<lparr>oas_Description = '''', oas_Flows = FlowValue ex_flow, oas_Oauth2MetadataURL = ''''\<rparr>"
  have "NamedSecuritySchemes_UnmarshalJSON (projr (NamedSecuritySchemes_MarshalJSON
      (card_SecuritySchemes (ex_oauth_card (FlowValue ex_flow))))) =
      Inr (card_SecuritySchemes (ex_oauth_card (FlowValue ex_flow)))"
    using schemes_json_roundtrip[of "card_SecuritySchemes (ex_oauth_card (FlowValue ex_flow))"]
    by (simp add: ex_oauth_card_def NamedSecuritySchemes_MarshalJSON_def OAuth2_MarshalJSON_def fmap_all_def fmpred_iff)
  then show ?thesis
    using oauth_card_stays[OF plain_pb_ok, of "ex_oauth_card (FlowValue ex_flow)" "''oauth''" ?o]
    by (simp add: ex_oauth_card_def)
qed

end
