(* ===== verification/GrpcTransport.thy ===== *)
theory GrpcTransport
  imports ProtoRequests ProtoCards Interceptors
begin

text \<open>
  The gRPC transport of version 1: the server's translation layer \<open>a2agrpc/v1/handler.go\<close> over a
  request handler, the client transport \<open>a2agrpc/v1/client.go\<close>, and a call through both. The
  request handler is an argument, an interface of the code (\<open>a2asrv/handler.go\<close>); the generated
  stubs, the gRPC runtime and its status package are arguments as well.
\<close>

section \<open>The request handler\<close>

text \<open>
  The methods get a context and a request and return, beside the result, the call context of the
  context afterwards, which the handler reaches through a pointer. A stream is the list of its
  items, consumed to the end. The state \<open>'w\<close> is that of the handler.
\<close>

type_synonym ('w, 'req, 'res) rh_method = "go_ctx \<Rightarrow> 'req \<Rightarrow> 'w \<Rightarrow> 'w \<times> call_context \<times> (go_error + 'res)"
type_synonym ('w, 'req) rh_stream = "go_ctx \<Rightarrow> 'req \<Rightarrow> 'w \<Rightarrow> 'w \<times> call_context \<times> (go_error + event) list"

record 'w request_handler =
  rh_GetTask :: "('w, get_request, task) rh_method"
  rh_ListTasks :: "('w, list_request, list_response) rh_method"
  rh_CancelTask :: "('w, cancel_request, task) rh_method"
  rh_SendMessage :: "('w, send_request, send_result) rh_method"
  rh_SubscribeToTask :: "('w, subscribe_request) rh_stream"
  rh_SendStreamingMessage :: "('w, send_request) rh_stream"
  rh_GetTaskPushConfig :: "('w, push_request, push_config) rh_method"
  rh_ListTaskPushConfigs :: "('w, list_push_request, list_push_response) rh_method"
  rh_CreateTaskPushConfig :: "('w, push_config, push_config) rh_method"
  rh_DeleteTaskPushConfig :: "('w, push_request, unit) rh_method"
  rh_GetExtendedAgentCard :: "('w, extended_card_request, agent_card) rh_method"

section \<open>The server (a2agrpc/v1/handler.go)\<close>

text \<open>\<open>status.Errorf\<close>, and an error that goes to the gRPC runtime.\<close>

type_synonym 's server_error = "go_error + 's grpc_status"

definition statusf :: "grpc_code \<Rightarrow> string \<Rightarrow> string \<Rightarrow> 's server_error" where
  "statusf code prefix err = Inr \<lparr>gs_Code = code, gs_Message = prefix @ err, gs_Details = []\<rparr>"

text \<open>The incoming metadata, if there is any, as the list of its entries in the order of a range loop.\<close>

definition withCallContext :: "go_ctx \<Rightarrow> (string \<times> string list) list option \<Rightarrow> go_ctx \<times> call_context" where
  "withCallContext ctx md =
     (let svcParams = (case md of Some meta \<Rightarrow> NewServiceParams meta | None \<Rightarrow> fmempty);
          callCtx = (NewCallContext svcParams)\<lparr>cc_ProtocolVersion := Version\<rparr>
      in (ctx\<lparr>ctx_call := Some callCtx\<rparr>, callCtx))"

definition toTrailer :: "call_context \<Rightarrow> (string, string list) fmap" where
  "toTrailer callCtx =
     (let activated = cc_activatedExtensions callCtx
      in if length activated = 0 then fmempty
         else fmupd (to_lower SvcParamExtensions) activated fmempty)"

text \<open>
  What the server gets from its libraries: the protobuf and status packages, the texts of errors,
  the outcome of \<open>grpc.SetTrailer\<close> and of the sends of a stream.
\<close>

record ('s, 'v, 't, 'd) grpc_env =
  ge_pb :: "('s, 'v, 't) pb_lib"
  ge_status :: "'d grpc_ops"
  ge_text :: "go_error \<Rightarrow> string"
  ge_SetTrailer :: "(string, string list) fmap \<Rightarrow> go_error option"
  ge_Send :: "('s, 'v, 't) pb_stream \<Rightarrow> go_error option"

text \<open>
  The body that the unary methods share. The trailer is part of the answer.
\<close>

definition unary_method ::
  "('s, 'v, 't, 'd) grpc_env \<Rightarrow> ('p \<Rightarrow> go_error + 'req) \<Rightarrow> ('w, 'req, 'res) rh_method \<Rightarrow>
     ('res \<Rightarrow> go_error + 'q) \<Rightarrow> string \<Rightarrow> go_ctx \<Rightarrow> (string \<times> string list) list option \<Rightarrow> 'p \<Rightarrow> 'w \<Rightarrow>
     'w \<times> ('d server_error + 'q \<times> (string, string list) fmap)" where
  "unary_method E fromReq call toRes failure ctx md pbReq w =
     (case fromReq pbReq of
        Inl err \<Rightarrow> (w, Inl (statusf InvalidArgument ''failed to convert request: '' (ge_text E err)))
      | Inr req \<Rightarrow>
          (let (ctx', callCtx) = withCallContext ctx md;
               (w', callCtx', res) = call ctx' req w
           in case res of
                Inl err \<Rightarrow> (w', Inl (ToGRPCError (ge_status E) (ge_text E) err))
              | Inr r \<Rightarrow>
                  (case ge_SetTrailer E (toTrailer callCtx') of
                     Some err \<Rightarrow> (w', Inl (statusf Internal ''failed to send active extensions: '' (ge_text E err)))
                   | None \<Rightarrow>
                       (case toRes r of
                          Inl err \<Rightarrow> (w', Inl (statusf Internal failure (ge_text E err)))
                        | Inr pbRes \<Rightarrow> (w', Inr (pbRes, toTrailer callCtx'))))))"

definition grpc_SendMessage where
  "grpc_SendMessage E h = unary_method E (FromProtoSendMessageRequest (ge_pb E)) (rh_SendMessage h)
     (ToProtoSendMessageResponse (ge_pb E)) ''failed to convert response: ''"

definition grpc_GetTask where
  "grpc_GetTask E h = unary_method E FromProtoGetTaskRequest (rh_GetTask h)
     (ToProtoTask (ge_pb E)) ''failed to convert task: ''"

definition grpc_ListTasks where
  "grpc_ListTasks E h = unary_method E (\<lambda>p. Inr (FromProtoListTasksRequest (ge_pb E) p)) (rh_ListTasks h)
     (ToProtoListTasksResponse (ge_pb E)) ''failed to convert response: ''"

definition grpc_CancelTask where
  "grpc_CancelTask E h = unary_method E (FromProtoCancelTaskRequest (ge_pb E)) (rh_CancelTask h)
     (ToProtoTask (ge_pb E)) ''failed to convert task: ''"

definition grpc_CreateTaskPushNotificationConfig where
  "grpc_CreateTaskPushNotificationConfig E h = unary_method E FromProtoTaskPushConfig (rh_CreateTaskPushConfig h)
     (\<lambda>c. Inr (ToProtoTaskPushConfig c)) ''failed to convert push config: ''"

definition grpc_GetTaskPushNotificationConfig where
  "grpc_GetTaskPushNotificationConfig E h = unary_method E FromProtoGetTaskPushConfigRequest
     (rh_GetTaskPushConfig h) (\<lambda>c. Inr (ToProtoTaskPushConfig c)) ''failed to convert push config: ''"

definition grpc_ListTaskPushNotificationConfigs where
  "grpc_ListTaskPushNotificationConfigs E h = unary_method E FromProtoListTaskPushConfigRequest
     (rh_ListTaskPushConfigs h)
     (\<lambda>configs. Inr (ToProtoListTaskPushConfigResponse \<lparr>lps_Configs = lps_Configs configs,
        lps_NextPageToken = lps_NextPageToken configs\<rparr>)) ''failed to convert list of push configs: ''"

definition grpc_DeleteTaskPushNotificationConfig where
  "grpc_DeleteTaskPushNotificationConfig E h = unary_method E FromProtoDeleteTaskPushConfigRequest
     (rh_DeleteTaskPushConfig h) Inr ''''"

definition grpc_GetExtendedAgentCard where
  "grpc_GetExtendedAgentCard E h ctx md pbReq w =
     (let (ctx', callCtx) = withCallContext ctx md;
          (w', callCtx', res) = rh_GetExtendedAgentCard h ctx' (FromProtoGetExtendedAgentCardRequest pbReq) w
      in case res of
           Inl err \<Rightarrow> (w', Inl (ToGRPCError (ge_status E) (ge_text E) err))
         | Inr ac \<Rightarrow>
             (case ToProtoAgentCard (ge_pb E) ac of
                Inl err \<Rightarrow> (w', Inl (statusf Internal ''failed to convert agent card: '' (ge_text E err)))
              | Inr pbCard \<Rightarrow> (w', Inr (pbCard, fmempty))))"

text \<open>The loop of the streaming methods: what was sent, and the error that ended it.\<close>

fun stream_loop ::
  "('s, 'v, 't, 'd) grpc_env \<Rightarrow> (go_error + event) list \<Rightarrow> ('s, 'v, 't) pb_stream list \<times> 'd server_error option" where
  "stream_loop E [] = ([], None)"
| "stream_loop E (Inl err # items) = ([], Some (ToGRPCError (ge_status E) (ge_text E) err))"
| "stream_loop E (Inr event # items) =
     (case ToProtoStreamResponse (ge_pb E) (Some event) of
        Inl err \<Rightarrow> ([], Some (statusf Internal ''failed to convert response: '' (ge_text E err)))
      | Inr pbResp \<Rightarrow>
          (case ge_Send E pbResp of
             Some err \<Rightarrow> ([], Some (statusf (OtherCode 10) ''failed to send response: '' (ge_text E err)))
           | None \<Rightarrow> (let (sent, e) = stream_loop E items in (pbResp # sent, e))))"

definition stream_method ::
  "('s, 'v, 't, 'd) grpc_env \<Rightarrow> ('p \<Rightarrow> go_error + 'req) \<Rightarrow> ('w, 'req) rh_stream \<Rightarrow> go_ctx \<Rightarrow>
     (string \<times> string list) list option \<Rightarrow> 'p \<Rightarrow> 'w \<Rightarrow>
     'w \<times> ('s, 'v, 't) pb_stream list \<times> ('d server_error + (string, string list) fmap)" where
  "stream_method E fromReq call ctx md pbReq w =
     (case fromReq pbReq of
        Inl err \<Rightarrow> (w, [], Inl (statusf InvalidArgument ''failed to convert request: '' (ge_text E err)))
      | Inr req \<Rightarrow>
          (let (ctx', callCtx) = withCallContext ctx md;
               (w', callCtx', items) = call ctx' req w;
               (sent, failed) = stream_loop E items
           in (w', sent, case failed of Some e \<Rightarrow> Inl e | None \<Rightarrow> Inr (toTrailer callCtx'))))"

definition grpc_SendStreamingMessage where
  "grpc_SendStreamingMessage E h =
     stream_method E (FromProtoSendMessageRequest (ge_pb E)) (rh_SendStreamingMessage h)"

definition grpc_SubscribeToTask where
  "grpc_SubscribeToTask E h = stream_method E FromProtoSubscribeToTaskRequest (rh_SubscribeToTask h)"

section \<open>The client (a2agrpc/v1/client.go)\<close>

text \<open>The service parameters in the order of a range loop; the outgoing metadata of the context.\<close>

definition withGRPCMetadata ::
  "(string, string list) fmap option \<Rightarrow> (string \<times> string list) list \<Rightarrow> (string, string list) fmap option" where
  "withGRPCMetadata outgoing params =
     (if length params = 0 then outgoing
      else Some (foldl (\<lambda>meta (k, vals). fmupd (to_lower k) vals meta)
                  (case outgoing of None \<Rightarrow> fmempty | Some m \<Rightarrow> m) params))"

text \<open>
  A stub sends the metadata and a request and returns a response or an error. \<open>Inl\<close> of the outer
  sum is a panic of \<open>FromGRPCError\<close>.
\<close>

type_synonym ('w, 'p, 'q) stub = "(string, string list) fmap option \<Rightarrow> 'p \<Rightarrow> 'w \<Rightarrow> 'w \<times> (go_error + 'q)"
type_synonym 'a client_result = "string + go_error + 'a"

definition client_error :: "'d grpc_ops \<Rightarrow> go_error \<Rightarrow> 'a client_result" where
  "client_error G err = (case FromGRPCError G err of Inl panic \<Rightarrow> Inl panic | Inr e \<Rightarrow> Inr (Inl e))"

definition unary_call ::
  "'d grpc_ops \<Rightarrow> ('w, 'p, 'q) stub \<Rightarrow> ('req \<Rightarrow> go_error + 'p) \<Rightarrow> ('q \<Rightarrow> go_error + 'res) \<Rightarrow>
     (string, string list) fmap option \<Rightarrow> (string \<times> string list) list \<Rightarrow> 'req \<Rightarrow> 'w \<Rightarrow> 'w \<times> 'res client_result" where
  "unary_call G send toReq fromRes outgoing params req w =
     (case toReq req of
        Inl err \<Rightarrow> (w, Inr (Inl err))
      | Inr pbReq \<Rightarrow>
          (let (w', answer) = send (withGRPCMetadata outgoing params) pbReq w
           in case answer of
                Inl err \<Rightarrow> (w', client_error G err)
              | Inr pbRes \<Rightarrow> (w', Inr (fromRes pbRes))))"

definition client_GetTask where
  "client_GetTask P G send = unary_call G send (\<lambda>r. Inr (ToProtoGetTaskRequest r)) (FromProtoTask P)"

definition client_ListTasks where
  "client_ListTasks P G send =
     unary_call G send (\<lambda>r. Inr (ToProtoListTasksRequest P r)) (FromProtoListTasksResponse P)"

definition client_CancelTask where
  "client_CancelTask P G send = unary_call G send (ToProtoCancelTaskRequest P) (FromProtoTask P)"

definition client_SendMessage where
  "client_SendMessage P G send =
     unary_call G send (ToProtoSendMessageRequest P) (\<lambda>r. FromProtoSendMessageResponse P (Some r))"

definition client_GetTaskPushConfig where
  "client_GetTaskPushConfig G send =
     unary_call G send (\<lambda>r. Inr (ToProtoGetTaskPushConfigRequest r)) FromProtoTaskPushConfig"

definition client_ListTaskPushConfigs where
  "client_ListTaskPushConfigs G send =
     unary_call G send (\<lambda>r. Inr (ToProtoListTaskPushConfigRequest r))
       (\<lambda>p. on_ok (FromProtoListTaskPushConfigResponse p) (\<lambda>resp. Inr (lps_Configs resp)))"

definition client_CreateTaskPushConfig where
  "client_CreateTaskPushConfig G send =
     unary_call G send (\<lambda>r. Inr (ToProtoTaskPushConfig r)) FromProtoTaskPushConfig"

definition client_DeleteTaskPushConfig where
  "client_DeleteTaskPushConfig G send =
     unary_call G send (\<lambda>r. Inr (ToProtoDeleteTaskPushConfigRequest r)) (\<lambda>u. Inr ())"

definition client_GetExtendedAgentCard where
  "client_GetExtendedAgentCard P G send =
     unary_call G send (\<lambda>r. Inr (ToProtoGetExtendedAgentCardRequest r)) (FromProtoAgentCard P)"

text \<open>
  The loop over a stream for a consumer that takes all items: the received messages and, if the
  stream does not end with \<open>io.EOF\<close>, the error of the last \<open>Recv\<close>. Decoded tasks get an address.
\<close>

fun drainEventStream ::
  "('s, 'v, 't) pb_lib \<Rightarrow> 'd grpc_ops \<Rightarrow> addr \<Rightarrow> ('s, 'v, 't) pb_stream list \<Rightarrow> go_error option \<Rightarrow>
     decoded_event client_result list" where
  "drainEventStream P G a [] None = []"
| "drainEventStream P G a [] (Some err) = [client_error G err]"
| "drainEventStream P G a (pResp # received) stop_error =
     (case FromProtoStreamResponse P a (Some pResp) of
        Inl err \<Rightarrow> [Inr (Inl err)]
      | Inr resp \<Rightarrow> Inr (Inr resp) # drainEventStream P G a received stop_error)"

type_synonym ('w, 'p, 's, 'v, 't) stream_stub =
  "(string, string list) fmap option \<Rightarrow> 'p \<Rightarrow> 'w \<Rightarrow> 'w \<times> (go_error + ('s, 'v, 't) pb_stream list \<times> go_error option)"

definition stream_call ::
  "('s, 'v, 't) pb_lib \<Rightarrow> 'd grpc_ops \<Rightarrow> ('w, 'p, 's, 'v, 't) stream_stub \<Rightarrow> ('req \<Rightarrow> go_error + 'p) \<Rightarrow> addr \<Rightarrow>
     (string, string list) fmap option \<Rightarrow> (string \<times> string list) list \<Rightarrow> 'req \<Rightarrow> 'w \<Rightarrow>
     'w \<times> decoded_event client_result list" where
  "stream_call P G open_stream toReq a outgoing params req w =
     (case toReq req of
        Inl err \<Rightarrow> (w, [Inr (Inl err)])
      | Inr pbReq \<Rightarrow>
          (let (w', opened) = open_stream (withGRPCMetadata outgoing params) pbReq w
           in case opened of
                Inl err \<Rightarrow> (w', [client_error G err])
              | Inr (received, stop_error) \<Rightarrow> (w', drainEventStream P G a received stop_error)))"

definition client_SubscribeToTask where
  "client_SubscribeToTask P G open_stream =
     stream_call P G open_stream (\<lambda>r. Inr (ToProtoSubscribeToTaskRequest r))"

definition client_SendStreamingMessage where
  "client_SendStreamingMessage P G open_stream = stream_call P G open_stream (ToProtoSendMessageRequest P)"

section \<open>A call through both sides\<close>

text \<open>
  The client's stub is the server's method: the runtime turns a returned error into a status and the
  status, at the client, into an error \<open>as_err st\<close>. \<open>incoming\<close> is the metadata that the server
  sees for the one that the client sent.
\<close>

definition wire_status :: "'d grpc_ops \<Rightarrow> 'd server_error \<Rightarrow> 'd grpc_status" where
  "wire_status G e = (case e of Inl err \<Rightarrow> the (FromError G err) | Inr st \<Rightarrow> st)"

definition connect where
  "connect G as_err incoming ctx method outgoing p w =
     (let (w', r) = method ctx (incoming outgoing) p w
      in (w', case r of Inl e \<Rightarrow> Inl (as_err (wire_status G e)) | Inr (q, trailer) \<Rightarrow> Inr q))"

definition connect_stream where
  "connect_stream G as_err incoming ctx method outgoing p w =
     (let (w', sent, r) = method ctx (incoming outgoing) p w
      in (w', Inr (sent, case r of Inl e \<Rightarrow> Some (as_err (wire_status G e)) | Inr trailer \<Rightarrow> None)))"

text \<open>
  The documented behaviour of the libraries: details are attached, a status is found in its error,
  and trailers can be set.
\<close>

definition net_ok :: "('s, 'v, 't, 'd) grpc_env \<Rightarrow> ('d grpc_status \<Rightarrow> go_error) \<Rightarrow> bool" where
  "net_ok E as_err = (pb_ok (ge_pb E) \<and> grpc_ok (ge_status E) \<and>
     (\<forall>st. FromError (ge_status E) (as_err st) = Some st) \<and>
     (\<forall>st ds. AttachDetails (ge_status E) st ds \<noteq> None) \<and> (\<forall>t. ge_SetTrailer E t = None))"

definition is_kind :: "'a client_result \<Rightarrow> sentinel \<Rightarrow> bool" where
  "is_kind r s = (\<exists>e. r = Inr (Inl e) \<and> (\<forall>t. errors_Is e t \<longleftrightarrow> t = s))"

lemma net_okD:
  assumes "net_ok E as_err"
  shows "pb_ok (ge_pb E)" "grpc_ok (ge_status E)" "FromError (ge_status E) (as_err st) = Some st"
    "AttachDetails (ge_status E) st ds \<noteq> None" "ge_SetTrailer E t = None"
  using assms by (auto simp: net_ok_def)

lemma plain_status_kind:
  assumes "net_ok E as_err" "List.find (\<lambda>(c, e). code = c) grpc_errorMappings = Some (code, s)"
  shows "is_kind (client_error (ge_status E) (as_err \<lparr>gs_Code = code, gs_Message = m, gs_Details = []\<rparr>)) s"
  using assms(2)
  by (simp add: is_kind_def client_error_def FromGRPCError_def net_okD[OF assms(1)] FromGRPCStatus_def Let_def
      start_collecting_def finish_error_def NewError_def) blast

lemma invalid_argument_kind:
  "net_ok E as_err \<Longrightarrow>
     is_kind (client_error (ge_status E) (as_err (wire_status (ge_status E) (statusf InvalidArgument m err)))) ErrInvalidParams"
  unfolding wire_status_def statusf_def sum.case
  by (rule plain_status_kind) (simp_all add: grpc_errorMappings_def)

lemma internal_kind:
  "net_ok E as_err \<Longrightarrow>
     is_kind (client_error (ge_status E) (as_err (wire_status (ge_status E) (statusf Internal m err)))) ErrInternalError"
  unfolding wire_status_def statusf_def sum.case
  by (rule plain_status_kind) (simp_all add: grpc_errorMappings_def)

lemma server_error_kind:
  assumes net: "net_ok E as_err" and kind: "carries err s" and free: "FromError (ge_status E) err = None"
  shows "is_kind (client_error (ge_status E)
    (as_err (wire_status (ge_status E) (ToGRPCError (ge_status E) (ge_text E) err)))) s"
proof -
  obtain st where st: "ToGRPCError (ge_status E) (ge_text E) err = Inr st"
    using free by (cases "ToGRPCError (ge_status E) (ge_text E) err")
      (auto simp: ToGRPCError_def Let_def split: prod.splits option.splits if_splits)
  have "gs_Details st \<noteq> []"
    using st free by (auto simp: ToGRPCError_def Let_def net_okD(4)[OF net] split: prod.splits option.splits dest!: grpc_ok_attach[OF _ net_okD(2)[OF net]])
  from grpc_error_kind[OF net_okD(2)[OF net] kind free st this] show ?thesis
    by (auto simp: is_kind_def client_error_def FromGRPCError_def net_okD[OF net] wire_status_def st)
qed

text \<open>A unary call, step by step.\<close>

lemma unary_over_grpc:
  assumes net: "net_ok E as_err" and req: "toReq req = Inr p"
  shows "unary_call (ge_status E) (connect (ge_status E) as_err incoming ctx (unary_method E fromReq call toRes failure))
      toReq fromRes outgoing params req w =
    (case fromReq p of
       Inl err \<Rightarrow> (w, client_error (ge_status E) (as_err (wire_status (ge_status E)
         (statusf InvalidArgument ''failed to convert request: '' (ge_text E err)))))
     | Inr req' \<Rightarrow>
         (let (w', cc, res) = call (fst (withCallContext ctx (incoming (withGRPCMetadata outgoing params)))) req' w
          in (w', case res of
                Inl err \<Rightarrow> client_error (ge_status E)
                  (as_err (wire_status (ge_status E) (ToGRPCError (ge_status E) (ge_text E) err)))
              | Inr r \<Rightarrow>
                  (case toRes r of
                     Inl err \<Rightarrow> client_error (ge_status E)
                       (as_err (wire_status (ge_status E) (statusf Internal failure (ge_text E err))))
                   | Inr q \<Rightarrow> Inr (fromRes q)))))"
  by (simp add: unary_call_def req connect_def unary_method_def withCallContext_def Let_def net_okD[OF net]
      case_prod_unfold split: sum.splits)

definition sendable_request :: "send_request \<Rightarrow> bool" where
  "sendable_request r = (pred_option sendable_message (req_Message r) \<and> sendable_meta (req_Metadata r))"

fun sendable_result :: "send_result \<Rightarrow> bool" where
  "sendable_result (RMessage m) = sendable_message m"
| "sendable_result (RTask t) = sendable_task t"

fun valid_result :: "send_result \<Rightarrow> bool" where
  "valid_result (RMessage m) = valid_message m"
| "valid_result (RTask t) = valid_task t"

fun norm_result :: "send_result \<Rightarrow> send_result" where
  "norm_result (RMessage m) = RMessage (norm_message m)"
| "norm_result (RTask t) = RTask (norm_task t)"

lemma send_response_isl:
  "pb_ok P \<Longrightarrow> isl (ToProtoSendMessageResponse P v) = (\<not> sendable_result v)"
  by (cases v) (simp_all add: isl_on_ok toProtoMessage_isl ToProtoTask_isl)

lemma send_response_back:
  assumes "pb_ok P" "ToProtoSendMessageResponse P v = Inr q"
  shows "yields (FromProtoSendMessageResponse P (Some q)) (valid_result v) (norm_result v)"
  using assms toProtoMessage_back[OF assms(1)] ToProtoTask_back[OF assms(1)]
  by (cases v) (fastforce simp: FromProtoSendMessageResponse_def on_ok_Inr_iff yields_def isl_on_ok split: if_splits)+

text \<open>
  C6: Sending a message over gRPC is a call of the request handler. A request that the server cannot
  accept never reaches it and is refused as invalid parameters. Otherwise the handler gets the
  request (as \<open>norm_send_request\<close>) in a call context with the client's parameters, and the client
  gets its error's kind, or its result (as \<open>norm_result\<close>): an internal error if that cannot be
  encoded, and an error if it lacks an id or a role.
\<close>

theorem send_message_over_grpc:
  assumes net: "net_ok E as_err" and req: "sendable_request r"
    and call: "rh_SendMessage h (fst (withCallContext ctx (incoming (withGRPCMetadata outgoing params))))
      (norm_send_request r) w = (w', cc, res)"
    and answer: "client_SendMessage (ge_pb E) (ge_status E)
      (connect (ge_status E) as_err incoming ctx (grpc_SendMessage E h)) outgoing params r w = (w2, answer)"
  shows "if \<not> valid_send_request r then w2 = w \<and> is_kind answer ErrInvalidParams
    else w2 = w' \<and>
      (case res of
         Inl err \<Rightarrow> \<forall>s. carries err s \<longrightarrow> FromError (ge_status E) err = None \<longrightarrow> is_kind answer s
       | Inr v \<Rightarrow>
           (if \<not> sendable_result v then is_kind answer ErrInternalError
            else if valid_result v then answer = Inr (Inr (norm_result v))
            else \<exists>err. answer = Inr (Inl err)))"
proof -
  note pb = net_okD(1)[OF net]
  obtain p where p: "ToProtoSendMessageRequest (ge_pb E) r = Inr p"
    using ToProtoSendMessageRequest_isl[OF pb, of r] req
    by (cases "ToProtoSendMessageRequest (ge_pb E) r") (auto simp: sendable_request_def)
  note bk = ToProtoSendMessageRequest_back[OF pb p]
  note steps = unary_over_grpc[where toReq = "ToProtoSendMessageRequest (ge_pb E)" and req = r
      and fromReq = "FromProtoSendMessageRequest (ge_pb E)" and call = "rh_SendMessage h"
      and toRes = "ToProtoSendMessageResponse (ge_pb E)" and failure = "''failed to convert response: ''"
      and fromRes = "\<lambda>q. FromProtoSendMessageResponse (ge_pb E) (Some q)"
      and incoming = incoming and ctx = ctx and outgoing = outgoing and params = params and w = w,
      OF net p, folded grpc_SendMessage_def client_SendMessage_def, unfolded answer]
  show ?thesis
  proof (cases "valid_send_request r")
    case False
    with bk obtain err where "FromProtoSendMessageRequest (ge_pb E) p = Inl err"
      by (auto simp: yields_def isl_def)
    with steps False show ?thesis by (simp add: invalid_argument_kind[OF net])
  next
    case True
    with bk have "FromProtoSendMessageRequest (ge_pb E) p = Inr (norm_send_request r)"
      by (simp add: yields_def)
    with steps call have eq: "w2 = w'" and ans: "answer = (case res of
        Inl err \<Rightarrow> client_error (ge_status E)
                  (as_err (wire_status (ge_status E) (ToGRPCError (ge_status E) (ge_text E) err)))
      | Inr r \<Rightarrow>
          (case ToProtoSendMessageResponse (ge_pb E) r of
             Inl err \<Rightarrow> client_error (ge_status E)
               (as_err (wire_status (ge_status E) (statusf Internal ''failed to convert response: '' (ge_text E err))))
           | Inr q \<Rightarrow> Inr (FromProtoSendMessageResponse (ge_pb E) (Some q))))"
      by simp_all
    show ?thesis
    proof (cases res)
      case (Inl err)
      then show ?thesis using True eq ans by (simp add: server_error_kind[OF net])
    next
      case (Inr v)
      show ?thesis
        using True eq ans Inr internal_kind[OF net] send_response_isl[OF pb, of v] send_response_back[OF pb, of v]
        by (cases "ToProtoSendMessageResponse (ge_pb E) v") (auto simp: yields_def isl_def)
    qed
  qed
qed

text \<open>A stream of events.\<close>

lemma stream_loop_events:
  assumes "pb_ok (ge_pb E)" "list_all sendable_event es" "\<forall>m. ge_Send E m = None"
  shows "\<exists>ps. stream_loop E (map Inr es @ items) = (ps @ fst (stream_loop E items), snd (stream_loop E items)) \<and>
    list_all2 (\<lambda>e p. ToProtoStreamResponse (ge_pb E) (Some e) = Inr p) es ps"
  using assms(2)
proof (induction es)
  case (Cons e es)
  obtain p where "ToProtoStreamResponse (ge_pb E) (Some e) = Inr p"
    using ToProtoStreamResponse_isl[OF assms(1), of e] Cons.prems
    by (cases "ToProtoStreamResponse (ge_pb E) (Some e)") auto
  moreover obtain ps where
    "stream_loop E (map Inr es @ items) = (ps @ fst (stream_loop E items), snd (stream_loop E items))"
    "list_all2 (\<lambda>e p. ToProtoStreamResponse (ge_pb E) (Some e) = Inr p) es ps"
    using Cons by auto
  ultimately show ?case using assms(3) by (intro exI[of _ "p # ps"]) simp
qed simp

lemma drain_events:
  assumes "pb_ok P" "list_all2 (\<lambda>e p. ToProtoStreamResponse P (Some e) = Inr p) es ps" "list_all valid_event es"
  shows "drainEventStream P G a (ps @ received) stop_error =
    map (\<lambda>e. Inr (Inr (Whole (same_address a (norm_event e))))) es @ drainEventStream P G a received stop_error"
  using assms(2,3)
proof (induction rule: list_all2_induct)
  case (Cons e es p ps)
  from ToProtoStreamResponse_back[OF assms(1) Cons(1), of a] Cons show ?case by (simp add: yields_def)
qed simp


section \<open>A concrete connection\<close>

text \<open>
  A status package whose statuses can be read back from their errors. It has no structs, so statuses
  carry the reason only.
\<close>

fun code_number :: "grpc_code \<Rightarrow> nat" where
  "code_number Canceled = 0" | "code_number InvalidArgument = 1" | "code_number DeadlineExceeded = 2"
| "code_number NotFound = 3" | "code_number PermissionDenied = 4" | "code_number FailedPrecondition = 5"
| "code_number Unimplemented = 6" | "code_number Internal = 7" | "code_number Unauthenticated = 8"
| "code_number (OtherCode n) = 9 + n"

definition number_code :: "nat \<Rightarrow> grpc_code" where
  "number_code n =
     (if n < 9 then [Canceled, InvalidArgument, DeadlineExceeded, NotFound, PermissionDenied, FailedPrecondition,
        Unimplemented, Internal, Unauthenticated] ! n
      else OtherCode (n - 9))"

fun detail_error :: "unit grpc_detail \<Rightarrow> go_error" where
  "detail_error (DErrorInfo r d m) = A2AError None r (Some (fmmap AString m)) [\<lparr>TypeURL = d, Value = None\<rparr>]"
| "detail_error (DStruct u) = Errorf ''struct'' []"
| "detail_error DOther = Errorf '''' []"

fun error_detail :: "go_error \<Rightarrow> unit grpc_detail" where
  "error_detail (A2AError None r (Some m) [t]) = DErrorInfo r (TypeURL t) (string_map m)"
| "error_detail (Errorf (c # cs) es) = DStruct ()"
| "error_detail e = DOther"

definition status_error :: "unit grpc_status \<Rightarrow> go_error" where
  "status_error st = Errorf (gs_Message st)
     (Errorf (replicate (code_number (gs_Code st)) CHR ''x'') [] # map detail_error (gs_Details st))"

fun error_status :: "go_error \<Rightarrow> unit grpc_status option" where
  "error_status (Errorf m (Errorf n [] # ds)) =
     Some \<lparr>gs_Code = number_code (length n), gs_Message = m, gs_Details = map error_detail ds\<rparr>"
| "error_status e = None"

lemma error_status_back: "error_status (status_error st) = Some st"
proof -
  have "number_code (code_number c) = c" for c by (cases c) (simp_all add: number_code_def)
  moreover have "error_detail (detail_error d) = d" for d by (cases d) simp_all
  then have "map error_detail (map detail_error ds) = ds" for ds by (induction ds) simp_all
  ultimately show ?thesis by (simp add: status_error_def del: map_map)
qed

definition plain_env :: "((string, any) fmap, any, gotime, unit) grpc_env" where
  "plain_env = \<lparr>ge_pb = plain_pb,
     ge_status = \<lparr>NewStruct = (\<lambda>m. None), AsMap = (\<lambda>u. fmempty),
       AttachDetails = (\<lambda>st ds. Some (st\<lparr>gs_Details := gs_Details st @ ds\<rparr>)), FromError = error_status\<rparr>,
     ge_text = (\<lambda>e. ''failed''), ge_SetTrailer = (\<lambda>t. None), ge_Send = (\<lambda>m. None)\<rparr>"

lemma plain_env_ok: "net_ok plain_env status_error"
  by (simp add: net_ok_def plain_env_def plain_pb_ok grpc_ok_def error_status_back)

text \<open>
  A handler that counts the calls, answers a message with a message or a stream of one event and an
  error, and refuses everything else.
\<close>

definition refuse :: "go_ctx \<Rightarrow> 'req \<Rightarrow> nat \<Rightarrow> nat \<times> call_context \<times> (go_error + 'res)" where
  "refuse ctx req w = (w, NewCallContext fmempty, Inl (Sentinel ErrUnsupportedOperation))"

definition echo_handler :: "nat request_handler" where
  "echo_handler = \<lparr>rh_GetTask = refuse, rh_ListTasks = refuse, rh_CancelTask = refuse,
     rh_SendMessage = (\<lambda>ctx req w. (Suc w, NewCallContext fmempty,
       Inr (RMessage (NewMessage ''r'' MessageRoleAgent [NewDataPart (AInt KInt (int w))])))),
     rh_SubscribeToTask = (\<lambda>ctx req w. (w, NewCallContext fmempty, [])),
     rh_SendStreamingMessage = (\<lambda>ctx req w. (Suc w, NewCallContext fmempty,
       [Inr (EMessage (NewMessage ''r'' MessageRoleAgent [NewDataPart (AInt KInt (int w))])),
        Inl (Sentinel ErrTaskNotFound)])),
     rh_GetTaskPushConfig = refuse, rh_ListTaskPushConfigs = refuse, rh_CreateTaskPushConfig = refuse,
     rh_DeleteTaskPushConfig = refuse, rh_GetExtendedAgentCard = refuse\<rparr>"

definition hello_request :: send_request where
  "hello_request = \<lparr>req_Tenant = '''', req_Config = None,
     req_Message = Some (NewMessage ''m'' MessageRoleUser [NewTextPart ''hello'']), req_Metadata = None\<rparr>"

lemma hello_request_ok: "sendable_request hello_request" "valid_send_request hello_request"
  by (simp_all add: sendable_request_def hello_request_def sendable_message_def NewMessage_def sendable_part_def
      sendable_meta_def NewTextPart_def valid_send_request_def valid_message_def)

lemma send_message_over_grpc_witness:
  "client_SendMessage plain_pb (ge_status plain_env)
     (connect (ge_status plain_env) status_error (\<lambda>md. None) background (grpc_SendMessage plain_env echo_handler))
     None [] hello_request 5 =
   (6, Inr (Inr (RMessage (NewMessage ''r'' MessageRoleAgent [NewDataPart (AFloat KFloat64 5)]))))"
proof -
  have pb: "ge_pb plain_env = plain_pb" by (simp add: plain_env_def)
  obtain w2 answer where ans: "client_SendMessage plain_pb (ge_status plain_env)
     (connect (ge_status plain_env) status_error (\<lambda>md. None) background (grpc_SendMessage plain_env echo_handler))
     None [] hello_request 5 = (w2, answer)" by fastforce
  have "w2 = 6 \<and> answer = Inr (Inr (norm_result (RMessage (NewMessage ''r'' MessageRoleAgent
      [NewDataPart (AInt KInt 5)]))))"
    using send_message_over_grpc[OF plain_env_ok hello_request_ok(1), of echo_handler background "\<lambda>md. None"
        None "[]" 5 6 "NewCallContext fmempty"
        "Inr (RMessage (NewMessage ''r'' MessageRoleAgent [NewDataPart (AInt KInt 5)]))" w2 answer]
      ans hello_request_ok(2)
    by (simp add: echo_handler_def pb sendable_message_def NewMessage_def sendable_part_def sendable_meta_def
        NewDataPart_def valid_message_def)
  then show ?thesis
    by (simp add: ans norm_message_def NewMessage_def norm_meta_def norm_part_def NewDataPart_def float64_of_int_exact)
qed


end
