(* ===== verification/PathTemplate.thy ===== *)
theory PathTemplate
  imports Prelude
begin

text \<open>
  URI path templates with one capture group (\<open>internal/pathtemplate/pathtemplate.go\<close>), which the
  multi-tenant HTTP handlers match requests with. Strings are byte strings.
\<close>

section \<open>The functions of the packages strings and net/url\<close>

definition TrimPrefix :: "string \<Rightarrow> string \<Rightarrow> string" where
  "TrimPrefix s p = (if take (length p) s = p then drop (length p) s else s)"

definition CutSuffix :: "string \<Rightarrow> string \<Rightarrow> string \<times> bool" where
  "CutSuffix s p =
     (if length p \<le> length s \<and> drop (length s - length p) s = p then (take (length s - length p) s, True) else (s, False))"

definition TrimSuffix :: "string \<Rightarrow> string \<Rightarrow> string" where
  "TrimSuffix s p = fst (CutSuffix s p)"

fun strings_Join :: "string list \<Rightarrow> string \<Rightarrow> string" where
  "strings_Join [] sep = ''''"
| "strings_Join [x] sep = x"
| "strings_Join (x # xs) sep = x @ sep @ strings_Join xs sep"

definition IndexByte :: "string \<Rightarrow> char \<Rightarrow> nat option" where
  "IndexByte s c = index_func (\<lambda>x. x = c) s"

definition LastIndexByte :: "string \<Rightarrow> char \<Rightarrow> nat option" where
  "LastIndexByte s c = map_option (\<lambda>i. length s - 1 - i) (index_func (\<lambda>x. x = c) (rev s))"

definition unhex :: "char \<Rightarrow> nat option" where
  "unhex c = (let n = of_char c in
     if 48 \<le> n \<and> n \<le> 57 then Some (n - 48)
     else if 97 \<le> n \<and> n \<le> 102 then Some (n - 97 + 10)
     else if 65 \<le> n \<and> n \<le> 70 then Some (n - 65 + 10) else None)"

fun PathUnescape :: "string \<Rightarrow> string option" where
  "PathUnescape [] = Some []"
| "PathUnescape (c # s) =
     (if c = CHR ''%'' then
        (case s of
           a # b # s' \<Rightarrow>
             (case (unhex a, unhex b) of
                (Some x, Some y) \<Rightarrow> map_option (\<lambda>r. char_of (16 * x + y) # r) (PathUnescape s')
              | _ \<Rightarrow> None)
         | _ \<Rightarrow> None)
      else map_option (\<lambda>r. c # r) (PathUnescape s))"

text \<open>
  \<open>url.PathEscape\<close>: every byte but the unreserved ones and \<open>$ & + : = @\<close> is escaped with two
  upper case digits.
\<close>

definition hexdigit :: "nat \<Rightarrow> char" where
  "hexdigit n = ''0123456789ABCDEF'' ! n"

definition path_safe :: "char \<Rightarrow> bool" where
  "path_safe c = (let n = of_char c :: nat in
     48 \<le> n \<and> n \<le> 57 \<or> 97 \<le> n \<and> n \<le> 122 \<or> 65 \<le> n \<and> n \<le> 90 \<or> c \<in> set ''-_.~$&+:=@'')"

definition escape_char :: "char \<Rightarrow> string" where
  "escape_char c =
     (if path_safe c then [c] else [CHR ''%'', hexdigit (of_char c div 16), hexdigit (of_char c mod 16)])"

definition PathEscape :: "string \<Rightarrow> string" where
  "PathEscape s = concat (map escape_char s)"

section \<open>Templates\<close>

record path_template =
  tp_prefix :: "string list"
  tp_capture :: "string list"
  tp_suffix :: "string list"

record match_result =
  Captured :: string
  Rest :: string

definition trimSlash :: "string \<Rightarrow> string" where
  "trimSlash s = TrimSuffix (TrimPrefix s ''/'') ''/''"

definition splitSegments :: "string \<Rightarrow> string list" where
  "splitSegments s = filter (\<lambda>segment. segment \<noteq> '''') (split_on (CHR ''/'') (trimSlash s))"

text \<open>\<open>New\<close>: the errors are told apart by their texts.\<close>

definition NewTemplate :: "string \<Rightarrow> string + path_template" where
  "NewTemplate raw0 =
     (let raw = trimSlash raw0 in
      if raw = '''' then Inl ''empty template''
      else (case (IndexByte raw (CHR ''{''), IndexByte raw (CHR ''}'')) of
          (Some captureStart, Some captureEnd) \<Rightarrow>
            if captureStart > captureEnd then Inl (''invalid capture group in '' @ raw)
            else if Some captureStart \<noteq> LastIndexByte raw (CHR ''{'') \<or> Some captureEnd \<noteq> LastIndexByte raw (CHR ''}'')
            then Inl (''duplicate { or } in '' @ raw)
            else Inr \<lparr>tp_prefix = splitSegments (take captureStart raw),
                      tp_capture = splitSegments (drop (captureStart + 1) (take captureEnd raw)),
                      tp_suffix = splitSegments (drop (captureEnd + 1) raw)\<rparr>
        | _ \<Rightarrow> Inl (''no capture group {} in '' @ raw)))"

section \<open>Matching\<close>

fun match_loop :: "string list \<Rightarrow> string list \<Rightarrow> bool \<Rightarrow> string list option" where
  "match_loop (tSegment # ts) (s # segments) escaped =
     (case (if escaped then PathUnescape s else Some s) of
        None \<Rightarrow> None
      | Some pSegment \<Rightarrow>
          if tSegment \<noteq> ''*'' \<and> tSegment \<noteq> pSegment then None
          else map_option ((#) pSegment) (match_loop ts segments escaped))"
| "match_loop ts segments escaped = Some []"

definition matchSegments :: "string list \<Rightarrow> string list \<Rightarrow> bool \<Rightarrow> string list option" where
  "matchSegments tmpl segments escaped =
     (if length segments < length tmpl then None else match_loop tmpl segments escaped)"

definition matchCapture ::
  "path_template \<Rightarrow> string list \<Rightarrow> bool \<Rightarrow> bool \<Rightarrow> (string list \<times> nat) option" where
  "matchCapture c segments escaped singleSegment =
     (if \<not> singleSegment then
        map_option (\<lambda>captured. (captured, length (tp_capture c))) (matchSegments (tp_capture c) segments escaped)
      else (case segments of
          [] \<Rightarrow> None
        | s # _ \<Rightarrow>
            (case PathUnescape s of
               None \<Rightarrow> None
             | Some decoded \<Rightarrow>
                 (let parts = split_on (CHR ''/'') decoded in
                  if length parts \<noteq> length (tp_capture c) then None
                  else map_option (\<lambda>captured. (captured, 1)) (matchSegments (tp_capture c) parts False)))))"

definition template_match :: "path_template \<Rightarrow> string list \<Rightarrow> bool \<Rightarrow> bool \<Rightarrow> match_result option" where
  "template_match c segments escaped singleSegmentCapture =
     (if matchSegments (tp_prefix c) segments escaped = None then None
      else (let segments1 = drop (length (tp_prefix c)) segments in
        case matchCapture c segments1 escaped singleSegmentCapture of
          None \<Rightarrow> None
        | Some (captured, consumed) \<Rightarrow>
            (let segments2 = drop consumed segments1 in
             if matchSegments (tp_suffix c) segments2 escaped = None then None
             else Some \<lparr>Captured = strings_Join captured ''/'',
                        Rest = CHR ''/'' # strings_Join (drop (length (tp_suffix c)) segments2) ''/''\<rparr>)))"

definition Match :: "path_template \<Rightarrow> string \<Rightarrow> match_result option" where
  "Match c path = template_match c (split_on (CHR ''/'') (trimSlash path)) False False"

definition MatchEscaped :: "path_template \<Rightarrow> string \<Rightarrow> match_result option" where
  "MatchEscaped c path =
     (let segments = split_on (CHR ''/'') (trimSlash path) in
      case template_match c segments True True of
        Some result \<Rightarrow> Some result
      | None \<Rightarrow> template_match c segments True False)"

section \<open>Escaping\<close>

lemma unhex_hexdigit: "n < 16 \<Longrightarrow> unhex (hexdigit n) = Some n"
  unfolding hexdigit_def unhex_def Let_def
  by (cases "n < 8"; simp add: nth_Cons split: nat.splits)

lemma path_safe_percent [simp]: "\<not> path_safe (CHR ''%'')" "\<not> path_safe (CHR ''/'')"
  by (simp_all add: path_safe_def)

lemma of_char_div_16 [simp]: "(of_char c :: nat) div 16 < 16"
proof -
  have "(of_char c :: nat) < 16 * 16" by simp
  then show ?thesis by (rule less_mult_imp_div_less)
qed

lemma PathUnescape_escape_char:
  "PathUnescape (escape_char c @ s) = map_option ((#) c) (PathUnescape s)"
proof (cases "path_safe c")
  case True
  then have "c \<noteq> CHR ''%''" by auto
  then show ?thesis using True by (simp add: escape_char_def)
next
  case False
  then show ?thesis using False by (simp add: escape_char_def unhex_hexdigit)
qed

lemma PathUnescape_PathEscape [simp]: "PathUnescape (PathEscape s) = Some s"
  by (induction s) (simp_all add: PathEscape_def PathUnescape_escape_char)

lemma PathEscape_no_slash: "CHR ''/'' \<notin> set (PathEscape s)"
proof -
  have "CHR ''/'' \<noteq> hexdigit n" if "n < 16" for n
  proof
    assume "CHR ''/'' = hexdigit n"
    then have "unhex (CHR ''/'') = Some n" using unhex_hexdigit[OF that] by simp
    then show False by (simp add: unhex_def)
  qed
  then have "CHR ''/'' \<notin> set (escape_char c)" for c
    by (auto simp: escape_char_def of_char_div_16)
  then show ?thesis by (auto simp: PathEscape_def)
qed

lemma PathEscape_empty [simp]: "PathEscape s = [] \<longleftrightarrow> s = []"
  by (cases s) (simp_all add: PathEscape_def escape_char_def)

lemma PathUnescape_plain: "CHR ''%'' \<notin> set s \<Longrightarrow> PathUnescape s = Some s"
  by (induction s) auto

section \<open>Joining and splitting\<close>

lemma strings_Join_Cons: "strings_Join (x # xs) sep = (if xs = [] then x else x @ sep @ strings_Join xs sep)"
  by (cases xs) simp_all

lemma Join_split [simp]: "strings_Join (split_on c s) [c] = s"
  by (induction s) (auto simp: strings_Join_Cons split: list.splits)

lemma split_Join:
  "xs \<noteq> [] \<Longrightarrow> \<forall>x\<in>set xs. c \<notin> set x \<Longrightarrow> split_on c (strings_Join xs [c]) = xs"
  by (induction xs) (auto simp: strings_Join_Cons split_on_single split_on_append)

lemma split_on_no_sep: "x \<in> set (split_on c s) \<Longrightarrow> c \<notin> set x"
  by (induction s arbitrary: x) (auto split: if_splits list.splits)

lemma split_on_subset: "x \<in> set (split_on c s) \<Longrightarrow> set x \<subseteq> set s"
proof (induction s arbitrary: x)
  case (Cons a s)
  obtain y ys where y: "split_on c s = y # ys" by (cases "split_on c s") auto
  with Cons.IH have "set y \<subseteq> set s" "\<And>z. z \<in> set ys \<Longrightarrow> set z \<subseteq> set s" by auto
  with Cons.prems y show ?case by (auto split: if_splits)
qed simp

section \<open>What matches\<close>

text \<open>A pattern segment accepts a decoded segment.\<close>

definition accepts :: "string \<Rightarrow> string \<Rightarrow> bool" where
  "accepts t p \<longleftrightarrow> t = ''*'' \<or> t = p"

definition decode_segment :: "bool \<Rightarrow> string \<Rightarrow> string option" where
  "decode_segment escaped s = (if escaped then PathUnescape s else Some s)"

definition matches :: "bool \<Rightarrow> string list \<Rightarrow> string list \<Rightarrow> string list \<Rightarrow> bool" where
  "matches escaped ts segments ps \<longleftrightarrow>
     list_all2 (\<lambda>s p. decode_segment escaped s = Some p) segments ps \<and> list_all2 accepts ts ps"

lemma matches_Nil [simp]: "matches e [] ss ps \<longleftrightarrow> ss = [] \<and> ps = []"
  by (auto simp: matches_def)

lemma matches_Cons:
  "matches e (t # ts) ss ps \<longleftrightarrow>
     (\<exists>s ss' p ps'. ss = s # ss' \<and> ps = p # ps' \<and> decode_segment e s = Some p \<and> accepts t p \<and> matches e ts ss' ps')"
  by (auto simp: matches_def list_all2_Cons1 list_all2_Cons2)

lemma matches_length: "matches e ts ss ps \<Longrightarrow> length ss = length ts"
  by (auto simp: matches_def dest!: list_all2_lengthD)

lemma match_loop_iff:
  assumes "length ts \<le> length segments"
  shows "match_loop ts segments e = Some ps \<longleftrightarrow> matches e ts (take (length ts) segments) ps"
  using assms
proof (induction ts segments e arbitrary: ps rule: match_loop.induct)
  case (1 t ts s segments e)
  then show ?case
    by (cases "decode_segment e s")
      (auto simp: matches_Cons decode_segment_def accepts_def split: option.splits if_splits)
qed auto

lemma matchSegments_iff:
  "matchSegments ts segments e = Some ps \<longleftrightarrow> (\<exists>ss rest. segments = ss @ rest \<and> matches e ts ss ps)"
proof
  assume "matchSegments ts segments e = Some ps"
  then have "length ts \<le> length segments" "match_loop ts segments e = Some ps"
    by (auto simp: matchSegments_def split: if_splits)
  then show "\<exists>ss rest. segments = ss @ rest \<and> matches e ts ss ps"
    by (intro exI[of _ "take (length ts) segments"] exI[of _ "drop (length ts) segments"]) (simp add: match_loop_iff)
next
  assume "\<exists>ss rest. segments = ss @ rest \<and> matches e ts ss ps"
  then obtain ss rest where "segments = ss @ rest" "matches e ts ss ps" by blast
  moreover from this(2) have "length ss = length ts" by (rule matches_length)
  ultimately show "matchSegments ts segments e = Some ps"
    by (simp add: matchSegments_def match_loop_iff)
qed

text \<open>The segments of a path split into the three parts of the template and the rest.\<close>

lemma template_match_iff:
  "template_match c segments e False = Some r \<longleftrightarrow>
     (\<exists>pre cap suf rest ps qs captured. segments = pre @ cap @ suf @ rest \<and>
        matches e (tp_prefix c) pre ps \<and> matches e (tp_capture c) cap captured \<and> matches e (tp_suffix c) suf qs \<and>
        r = \<lparr>Captured = strings_Join captured ''/'', Rest = CHR ''/'' # strings_Join rest ''/''\<rparr>)"
  (is "?l \<longleftrightarrow> ?r")
proof
  assume ?l
  then obtain ps captured qs where m: "matchSegments (tp_prefix c) segments e = Some ps"
    "matchSegments (tp_capture c) (drop (length (tp_prefix c)) segments) e = Some captured"
    "matchSegments (tp_suffix c) (drop (length (tp_capture c)) (drop (length (tp_prefix c)) segments)) e = Some qs"
    and r: "r = \<lparr>Captured = strings_Join captured ''/'', Rest = CHR ''/'' # strings_Join (drop (length (tp_suffix c))
      (drop (length (tp_capture c)) (drop (length (tp_prefix c)) segments))) ''/''\<rparr>"
    by (auto simp: template_match_def matchCapture_def Let_def split: if_splits option.splits)
  from m(1) obtain pre s1 where 1: "segments = pre @ s1" "matches e (tp_prefix c) pre ps"
    by (auto simp: matchSegments_iff)
  note l1 = matches_length[OF 1(2)]
  from m(2) l1 1 obtain cap s2 where 2: "s1 = cap @ s2" "matches e (tp_capture c) cap captured"
    by (auto simp: matchSegments_iff)
  note l2 = matches_length[OF 2(2)]
  from m(3) l1 l2 1 2 obtain suf rest where 3: "s2 = suf @ rest" "matches e (tp_suffix c) suf qs"
    by (auto simp: matchSegments_iff)
  note l3 = matches_length[OF 3(2)]
  have "segments = pre @ cap @ suf @ rest" using 1(1) 2(1) 3(1) by simp
  moreover from this have
    "r = \<lparr>Captured = strings_Join captured ''/'', Rest = CHR ''/'' # strings_Join rest ''/''\<rparr>"
    using r l1 l2 l3 by simp
  ultimately show ?r using 1(2) 2(2) 3(2) by blast
next
  assume ?r
  then obtain pre cap suf rest ps qs captured where s: "segments = pre @ cap @ suf @ rest"
    and m: "matches e (tp_prefix c) pre ps" "matches e (tp_capture c) cap captured" "matches e (tp_suffix c) suf qs"
    and r: "r = \<lparr>Captured = strings_Join captured ''/'', Rest = CHR ''/'' # strings_Join rest ''/''\<rparr>" by blast
  have "matchSegments (tp_prefix c) segments e = Some ps"
    "matchSegments (tp_capture c) (cap @ suf @ rest) e = Some captured"
    "matchSegments (tp_suffix c) (suf @ rest) e = Some qs"
    using m s by (auto simp: matchSegments_iff)
  then show ?l using m[THEN matches_length] s r
    by (simp add: template_match_def matchCapture_def Let_def)
qed

lemma matches_plain: "matches False ts ss ps \<longleftrightarrow> ss = ps \<and> list_all2 accepts ts ps"
proof -
  have "list_all2 (\<lambda>s p. decode_segment False s = Some p) ss ps \<longleftrightarrow> ss = ps"
    by (simp add: decode_segment_def list.rel_eq)
  then show ?thesis by (auto simp: matches_def)
qed

text \<open>
  A path matches a template exactly if its segments are accepted, in order, by the segments before
  the group, of the group and behind it; the group's segments are captured and what follows is the
  rest.
\<close>

theorem Match_spec:
  "Match c path = Some r \<longleftrightarrow>
     (\<exists>pre cap suf rest. split_on (CHR ''/'') (trimSlash path) = pre @ cap @ suf @ rest \<and>
        list_all2 accepts (tp_prefix c) pre \<and> list_all2 accepts (tp_capture c) cap \<and>
        list_all2 accepts (tp_suffix c) suf \<and>
        r = \<lparr>Captured = strings_Join cap ''/'', Rest = CHR ''/'' # strings_Join rest ''/''\<rparr>)"
  unfolding Match_def template_match_iff matches_plain by blast

text \<open>The templates that compile.\<close>

lemma IndexByte_iff: "IndexByte s c = Some i \<longleftrightarrow> (\<exists>u v. s = u @ c # v \<and> c \<notin> set u \<and> i = length u)"
proof
  assume "IndexByte s c = Some i"
  then have "i < length s" "s ! i = c" "\<forall>j<i. s ! j \<noteq> c"
    by (auto simp: IndexByte_def dest: index_func_Some)
  then show "\<exists>u v. s = u @ c # v \<and> c \<notin> set u \<and> i = length u"
    by (intro exI[of _ "take i s"] exI[of _ "drop (Suc i) s"])
      (auto simp: in_set_conv_nth id_take_nth_drop[symmetric])
next
  assume "\<exists>u v. s = u @ c # v \<and> c \<notin> set u \<and> i = length u"
  moreover have "c \<notin> set u \<Longrightarrow> index_func (\<lambda>x. x = c) u = None" for u by (auto simp: index_func_None)
  ultimately show "IndexByte s c = Some i" by (auto simp: IndexByte_def index_func_append)
qed

lemma LastIndexByte_iff: "LastIndexByte s c = Some i \<longleftrightarrow> (\<exists>u v. s = u @ c # v \<and> c \<notin> set v \<and> i = length u)"
proof
  assume "LastIndexByte s c = Some i"
  then obtain j where "IndexByte (rev s) c = Some j" "i = length s - 1 - j"
    by (auto simp: LastIndexByte_def IndexByte_def)
  then obtain u v where "rev s = u @ c # v" "c \<notin> set u" "i = length s - 1 - length u"
    by (auto simp: IndexByte_iff)
  moreover from this(1) have "rev (rev s) = rev v @ c # rev u" by simp
  then have "s = rev v @ c # rev u" by simp
  ultimately show "\<exists>u v. s = u @ c # v \<and> c \<notin> set v \<and> i = length u"
    by (intro exI[of _ "rev v"] exI[of _ "rev u"]) simp
next
  assume "\<exists>u v. s = u @ c # v \<and> c \<notin> set v \<and> i = length u"
  then obtain u v where "s = u @ c # v" "c \<notin> set v" "i = length u" by blast
  moreover from this have "IndexByte (rev s) c = Some (length v)"
    unfolding IndexByte_iff by (intro exI[of _ "rev v"] exI[of _ "rev u"]) simp
  ultimately show "LastIndexByte s c = Some i" by (simp add: LastIndexByte_def IndexByte_def)
qed

lemma IndexByteI: "c \<notin> set u \<Longrightarrow> IndexByte (u @ c # v) c = Some (length u)"
  unfolding IndexByte_iff by blast

lemma LastIndexByteI: "c \<notin> set v \<Longrightarrow> LastIndexByte (u @ c # v) c = Some (length u)"
  unfolding LastIndexByte_iff by blast

lemma sole_byte:
  assumes "IndexByte s c = Some i" "LastIndexByte s c = Some i"
  shows "\<exists>u v. s = u @ c # v \<and> c \<notin> set u \<and> c \<notin> set v \<and> i = length u"
proof -
  obtain u v where u: "s = u @ c # v" "c \<notin> set u" "i = length u"
    using assms(1) unfolding IndexByte_iff by blast
  obtain x y where x: "s = x @ c # y" "c \<notin> set y" "i = length x"
    using assms(2) unfolding LastIndexByte_iff by blast
  from u(1,3) x(1,3) have "v = y" by simp
  with u x(2) show ?thesis by blast
qed

text \<open>
  The templates that compile: after trimming one slash at each end they have exactly one opening
  and one closing brace, in this order, and their parts are split into their nonempty segments.
\<close>

theorem NewTemplate_iff:
  "NewTemplate raw = Inr t \<longleftrightarrow>
     (\<exists>p c s. trimSlash raw = p @ CHR ''{'' # c @ CHR ''}'' # s \<and>
        (\<forall>b \<in> set (p @ c @ s). b \<noteq> CHR ''{'' \<and> b \<noteq> CHR ''}'') \<and>
        t = \<lparr>tp_prefix = splitSegments p, tp_capture = splitSegments c, tp_suffix = splitSegments s\<rparr>)"
  (is "?l \<longleftrightarrow> ?r")
proof
  assume ?l
  then obtain i j where ij: "IndexByte (trimSlash raw) (CHR ''{'') = Some i" "IndexByte (trimSlash raw) (CHR ''}'') = Some j"
    "LastIndexByte (trimSlash raw) (CHR ''{'') = Some i" "LastIndexByte (trimSlash raw) (CHR ''}'') = Some j" "i \<le> j"
    and t: "t = \<lparr>tp_prefix = splitSegments (take i (trimSlash raw)),
      tp_capture = splitSegments (drop (i + 1) (take j (trimSlash raw))), tp_suffix = splitSegments (drop (j + 1) (trimSlash raw))\<rparr>"
    by (auto simp: NewTemplate_def Let_def split: if_splits option.splits)
  obtain u v where uv: "trimSlash raw = u @ CHR ''{'' # v" "CHR ''{'' \<notin> set u" "CHR ''{'' \<notin> set v" "i = length u"
    using sole_byte[OF ij(1,3)] by blast
  obtain x y where xy: "trimSlash raw = x @ CHR ''}'' # y" "CHR ''}'' \<notin> set x" "CHR ''}'' \<notin> set y" "j = length x"
    using sole_byte[OF ij(2,4)] by blast
  have "i < j" using ij(5) uv(1,4) xy(1,4) by (cases "i = j") auto
  define w where "w = drop (Suc i) x"
  have "take (Suc i) x = take (Suc i) (trimSlash raw)" using xy(1,4) \<open>i < j\<close> by simp
  also have "\<dots> = u @ [CHR ''{'']" using uv(1,4) by simp
  finally have x: "x = u @ CHR ''{'' # w" using append_take_drop_id[of "Suc i" x] by (simp add: w_def)
  then have v: "v = w @ CHR ''}'' # y" using uv(1) xy(1) by simp
  show ?r using t uv(1-3) xy(2-4) by (intro exI[of _ u] exI[of _ w] exI[of _ y]) (auto simp: x v uv(4))
next
  assume ?r
  then obtain p c s where raw: "trimSlash raw = p @ CHR ''{'' # c @ CHR ''}'' # s"
    and b: "\<forall>b \<in> set (p @ c @ s). b \<noteq> CHR ''{'' \<and> b \<noteq> CHR ''}''"
    and t: "t = \<lparr>tp_prefix = splitSegments p, tp_capture = splitSegments c, tp_suffix = splitSegments s\<rparr>" by blast
  let ?j = "length p + 1 + length c"
  have i: "IndexByte (trimSlash raw) (CHR ''{'') = Some (length p)" "LastIndexByte (trimSlash raw) (CHR ''{'') = Some (length p)"
    unfolding raw by (rule IndexByteI LastIndexByteI; use b in auto)+
  have split: "trimSlash raw = (p @ CHR ''{'' # c) @ CHR ''}'' # s" using raw by simp
  have "IndexByte (trimSlash raw) (CHR ''}'') = Some (length (p @ CHR ''{'' # c))"
    "LastIndexByte (trimSlash raw) (CHR ''}'') = Some (length (p @ CHR ''{'' # c))"
    unfolding split by (rule IndexByteI LastIndexByteI; use b in auto)+
  then have j: "IndexByte (trimSlash raw) (CHR ''}'') = Some ?j" "LastIndexByte (trimSlash raw) (CHR ''}'') = Some ?j" by simp_all
  show ?l using i j by (simp add: NewTemplate_def Let_def t raw)
qed

section \<open>Escaped paths\<close>

lemma match_loop_plain:
  "\<forall>s\<in>set segments. CHR ''%'' \<notin> set s \<Longrightarrow> match_loop ts segments True = match_loop ts segments False"
  by (induction ts segments True rule: match_loop.induct) (auto simp: PathUnescape_plain)

lemma matchSegments_plain:
  "\<forall>s\<in>set segments. CHR ''%'' \<notin> set s \<Longrightarrow> matchSegments ts segments True = matchSegments ts segments False"
  by (simp add: matchSegments_def match_loop_plain)

lemma match_one: "matchSegments [t] (s # segments) False = matchSegments [t] [s] False"
  by (simp add: matchSegments_def)

lemma matchCapture_single_plain:
  assumes "\<forall>s\<in>set segments. CHR ''%'' \<notin> set s \<and> CHR ''/'' \<notin> set s" "matchCapture c segments True True = Some r"
  shows "matchCapture c segments True False = Some r"
proof (cases segments)
  case Nil
  with assms show ?thesis by (simp add: matchCapture_def)
next
  case (Cons s ss)
  then have "CHR ''%'' \<notin> set s" "CHR ''/'' \<notin> set s" using assms(1) by auto
  then have s: "PathUnescape s = Some s" "split_on (CHR ''/'') s = [s]"
    by (simp_all add: PathUnescape_plain split_on_single)
  with assms(2) Cons have "length (tp_capture c) = 1"
    by (auto simp: matchCapture_def Let_def split: if_splits)
  then obtain t where t: "tp_capture c = [t]" by (cases "tp_capture c") auto
  from assms(1) have "matchSegments [t] segments True = matchSegments [t] segments False"
    by (intro matchSegments_plain) blast
  with assms(2) Cons s t show ?thesis by (auto simp: matchCapture_def Let_def match_one[of t s ss])
qed

text \<open>
  On a path without escapes the two ways to match agree, although the escaped one tries the
  single segment form first.
\<close>

theorem MatchEscaped_plain:
  assumes "CHR ''%'' \<notin> set path"
  shows "MatchEscaped c path = Match c path"
proof -
  let ?ss = "split_on (CHR ''/'') (trimSlash path)"
  have "set (trimSlash path) \<subseteq> set path"
    by (auto simp: trimSlash_def TrimSuffix_def CutSuffix_def TrimPrefix_def split: if_splits dest: in_set_takeD in_set_dropD)
  then have plain: "\<forall>s\<in>set ?ss. CHR ''%'' \<notin> set s \<and> CHR ''/'' \<notin> set s"
    using split_on_subset assms split_on_no_sep by fast
  have plain_drop: "\<forall>s\<in>set (drop n (drop m ?ss)). CHR ''%'' \<notin> set s \<and> CHR ''/'' \<notin> set s" for n m
    using plain by (blast dest: in_set_dropD)
  have seg: "matchSegments ts (drop n (drop m ?ss)) True = matchSegments ts (drop n (drop m ?ss)) False" for ts n m
    by (rule matchSegments_plain) (use plain_drop in blast)
  have same: "template_match c ?ss True False = template_match c ?ss False False"
    using seg[of _ 0 0] seg[of _ 0] seg by (simp add: template_match_def matchCapture_def Let_def split: option.splits)
  have "template_match c ?ss True False = Some r" if "template_match c ?ss True True = Some r" for r
    using that matchCapture_single_plain[OF plain_drop[of 0 "length (tp_prefix c)"], of c]
    by (auto simp: template_match_def Let_def split: if_splits option.splits)
  then show ?thesis using same
    by (cases "template_match c ?ss True True") (simp_all add: MatchEscaped_def Match_def Let_def)
qed

lemma MatchEscaped_tenant:
  assumes "tp_prefix c = []" "tp_suffix c = []" "rest \<noteq> []" "last rest \<noteq> CHR ''/''"
    and "tp_capture c = [''*''] \<or> list_all2 accepts (tp_capture c) (split_on (CHR ''/'') T)"
  shows "MatchEscaped c (''/'' @ PathEscape T @ ''/'' @ rest) = Some \<lparr>Captured = T, Rest = ''/'' @ rest\<rparr>"
proof -
  have "trimSlash (''/'' @ PathEscape T @ ''/'' @ rest) = PathEscape T @ CHR ''/'' # rest"
    using assms(3,4) by (cases rest rule: rev_cases) (simp_all add: trimSlash_def TrimPrefix_def TrimSuffix_def CutSuffix_def)
  then have ss: "split_on (CHR ''/'') (trimSlash (''/'' @ PathEscape T @ ''/'' @ rest)) =
      PathEscape T # split_on (CHR ''/'') rest"
    by (simp add: split_on_append PathEscape_no_slash)
  have parts: "matchSegments (tp_capture c) (split_on (CHR ''/'') T) False = Some (split_on (CHR ''/'') T)"
    if "list_all2 accepts (tp_capture c) (split_on (CHR ''/'') T)"
    using that by (simp add: matchSegments_iff matches_plain)
  have nil: "matchSegments [] xs e = Some []" for xs e by (simp add: matchSegments_def)
  consider "list_all2 accepts (tp_capture c) (split_on (CHR ''/'') T)"
    | "tp_capture c = [''*'']" "\<not> list_all2 accepts [''*''] (split_on (CHR ''/'') T)"
    using assms(5) by metis
  then show ?thesis
  proof cases
    case 1
    then show ?thesis using parts list_all2_lengthD[OF 1]
      by (simp del: append.simps add: MatchEscaped_def Let_def ss) (simp add: template_match_def matchCapture_def Let_def assms(1,2) nil)
  next
    case 2
    then have "length (split_on (CHR ''/'') T) \<noteq> 1"
      by (cases "split_on (CHR ''/'') T") (auto simp: accepts_def)
    then show ?thesis using 2
      by (simp del: append.simps add: MatchEscaped_def Let_def ss)
        (simp add: template_match_def matchCapture_def Let_def assms(1,2) nil matchSegments_def)
  qed
qed

text \<open>
  A client puts its tenant into the path as one escaped segment. A template that is a capture group
  only gives it back and leaves the rest of the path as it was, if the tenant's segments are accepted
  by those of the group; the group \<open>*\<close> takes every tenant.
\<close>

theorem tenant_in_path:
  assumes "tp_prefix c = []" "tp_suffix c = []" "rest \<noteq> []" "last rest \<noteq> CHR ''/''"
    and "tp_capture c = [''*''] \<or> list_all2 accepts (tp_capture c) (split_on (CHR ''/'') T)"
  shows "MatchEscaped c (''/'' @ PathEscape T @ ''/'' @ rest) = Some \<lparr>Captured = T, Rest = ''/'' @ rest\<rparr>"
  by (rule MatchEscaped_tenant[OF assms])

lemma tenant_in_path_witness:
  "MatchEscaped \<lparr>tp_prefix = [], tp_capture = [''locations'', ''*''], tp_suffix = []\<rparr> ''/locations%2Fx/tasks'' =
     Some \<lparr>Captured = ''locations/x'', Rest = ''/tasks''\<rparr>"
proof -
  have "PathEscape ''locations/x'' = ''locations%2Fx''"
    by (simp add: PathEscape_def escape_char_def path_safe_def hexdigit_def)
  then show ?thesis
    using tenant_in_path[of "\<lparr>tp_prefix = [], tp_capture = [''locations'', ''*''], tp_suffix = []\<rparr>" "''tasks''" "''locations/x''"]
    by (simp add: accepts_def)
qed

lemma MatchEscaped_plain_witness:
  "MatchEscaped \<lparr>tp_prefix = [], tp_capture = [''*''], tp_suffix = []\<rparr> ''/t/x'' =
   Match \<lparr>tp_prefix = [], tp_capture = [''*''], tp_suffix = []\<rparr> ''/t/x''"
  by (rule MatchEscaped_plain) simp

end
