(* ===== verification/Sse.thy ===== *)
theory Sse
  imports GoErrors PathTemplate
begin

text \<open>
  Server-sent events (\<open>internal/sse/sse.go\<close>): the writer of the servers and the parser of the
  clients, on byte strings.
\<close>

section \<open>Writing\<close>

text \<open>
  The response writer is an argument: \<open>sw_Write\<close> writes bytes and may fail, \<open>sw_Flusher\<close> says
  whether it can flush, which makes every write visible to the client.
\<close>

record 'w response_writer =
  sw_Write :: "string \<Rightarrow> 'w \<Rightarrow> 'w \<times> go_error option"
  sw_Flush :: "'w \<Rightarrow> 'w"
  sw_Flusher :: bool
  sw_Start :: "(string \<times> string) list \<Rightarrow> nat \<Rightarrow> 'w \<Rightarrow> 'w"

definition sse_NewWriter :: "'w response_writer \<Rightarrow> go_error + 'w response_writer" where
  "sse_NewWriter w = (if sw_Flusher w then Inr w else Inl (Errorf ''streaming not supported'' []))"

definition WriteHeaders :: "'w response_writer \<Rightarrow> 'w \<Rightarrow> 'w" where
  "WriteHeaders w = sw_Start w
     [(''Content-Type'', ''text/event-stream''), (''Cache-Control'', ''no-cache''),
      (''Connection'', ''keep-alive''), (''X-Accel-Buffering'', ''no'')] 200"

definition newline :: char where
  "newline = CHR 10"

definition WriteKeepAlive :: "'w response_writer \<Rightarrow> 'w \<Rightarrow> 'w \<times> go_error option" where
  "WriteKeepAlive w s =
     (case sw_Write w ('': keep-alive'' @ [newline, newline]) s of
        (s', Some err) \<Rightarrow> (s', Some err)
      | (s', None) \<Rightarrow> (sw_Flush w s', None))"

text \<open>The event id is a fresh UUID.\<close>

definition WriteData :: "'w response_writer \<Rightarrow> string \<Rightarrow> string \<Rightarrow> 'w \<Rightarrow> 'w \<times> go_error option" where
  "WriteData w eventID data s =
     (case sw_Write w (''id:'' @ '' '' @ eventID @ [newline]) s of
        (s1, Some err) \<Rightarrow> (s1, Some err)
      | (s1, None) \<Rightarrow>
          (case sw_Write w (''data:'' @ '' '' @ data @ [newline, newline]) s1 of
             (s2, Some err) \<Rightarrow> (s2, Some err)
           | (s2, None) \<Rightarrow> (sw_Flush w s2, None)))"

section \<open>Parsing\<close>

text \<open>
  The body: its bytes and the error of the read that ended it, if that was not the end of the file.
  The line scanner cuts at line feeds and drops one carriage return; a line that does not fit into
  the buffer together with its line feed stops it. A read that ends the body returns no bytes.
\<close>

record http_body =
  body_bytes :: string
  body_error :: "go_error option"

definition MaxSSETokenSize :: nat where
  "MaxSSETokenSize = 10 * 1024 * 1024"

definition ErrTooLong :: go_error where
  "ErrTooLong = Errorf ''bufio.Scanner: token too long'' []"

definition dropCR :: "string \<Rightarrow> string" where
  "dropCR l = TrimSuffix l [CHR 13]"

fun scan_lines :: "nat \<Rightarrow> string list \<Rightarrow> string list \<times> bool" where
  "scan_lines max_size [] = ([], False)"
| "scan_lines max_size (l # ls) =
     (if length l \<ge> max_size then ([], True)
      else if ls = [] then (if l = [] then [] else [dropCR l], False)
      else (let (ts, too_long) = scan_lines max_size ls in (dropCR l # ts, too_long)))"

definition byte_order_mark :: string where
  "byte_order_mark = [CHR 0xEF, CHR 0xBB, CHR 0xBF]"

text \<open>The closure \<open>flush\<close> for a consumer that takes all items: the blocks it yields and the buffer.\<close>

definition flush_event :: "string \<Rightarrow> string list \<times> string" where
  "flush_event event = (if length event = 0 then [] else [event], [])"

text \<open>The loop over the lines: the blocks it yields and the buffer it ends with.\<close>

fun parse_loop :: "bool \<Rightarrow> string \<Rightarrow> string list \<Rightarrow> string list \<times> string" where
  "parse_loop firstLine event [] = ([], event)"
| "parse_loop firstLine event (line # lines) =
     (let lineBytes = (if firstLine then TrimPrefix line byte_order_mark else line) in
      if length lineBytes = 0 then
        (let (out, event') = flush_event event; (outs, rest) = parse_loop False event' lines in (out @ outs, rest))
      else if take 5 lineBytes \<noteq> ''data:'' then parse_loop False event lines
      else (let data = drop 5 lineBytes;
                data' = (if length data > 0 \<and> data ! 0 = CHR '' '' then drop 1 data else data)
            in parse_loop False ((if length event > 0 then event @ [newline] else event) @ data') lines))"

definition ParseDataStream :: "http_body \<Rightarrow> (go_error + string) list" where
  "ParseDataStream body =
     (let (lines, too_long) = scan_lines MaxSSETokenSize (split_on newline (body_bytes body));
          (out, event) = parse_loop True [] lines
      in map Inr out @
         (if too_long then [Inl (Errorf ''SSE stream error'' [ErrTooLong])]
          else (case body_error body of
             Some err \<Rightarrow> [Inl (Errorf ''SSE stream error'' [err])]
           | None \<Rightarrow> map Inr (fst (flush_event event)))))"

section \<open>A written stream\<close>

text \<open>What a server does to a stream, and the bytes it has sent after it.\<close>

datatype sse_op = SseData string string | SseKeepAlive

definition buffer_writer :: "string response_writer" where
  "buffer_writer = \<lparr>sw_Write = (\<lambda>b s. (s @ b, None)), sw_Flush = (\<lambda>s. s), sw_Flusher = True,
     sw_Start = (\<lambda>headers status s. s)\<rparr>"

primrec run_op :: "'w response_writer \<Rightarrow> sse_op \<Rightarrow> 'w \<Rightarrow> 'w \<times> go_error option" where
  "run_op w (SseData eventID data) = WriteData w eventID data"
| "run_op w SseKeepAlive = WriteKeepAlive w"

definition sse_bytes :: "sse_op list \<Rightarrow> string" where
  "sse_bytes ops = foldl (\<lambda>s op. fst (run_op buffer_writer op s)) [] ops"

fun op_data :: "sse_op \<Rightarrow> string list" where
  "op_data (SseData eventID data) = [data]"
| "op_data SseKeepAlive = []"

text \<open>The ids and data a block can carry.\<close>

definition one_line :: "string \<Rightarrow> bool" where
  "one_line s \<longleftrightarrow> newline \<notin> set s \<and> (s \<noteq> [] \<longrightarrow> last s \<noteq> CHR 13) \<and> length s + 6 < MaxSSETokenSize"

fun sse_op_ok :: "sse_op \<Rightarrow> bool" where
  "sse_op_ok (SseData eventID data) \<longleftrightarrow> one_line eventID \<and> one_line data \<and> data \<noteq> []"
| "sse_op_ok SseKeepAlive \<longleftrightarrow> True"

fun op_lines :: "sse_op \<Rightarrow> string list" where
  "op_lines (SseData eventID data) = [''id: '' @ eventID, ''data: '' @ data, []]"
| "op_lines SseKeepAlive = ['': keep-alive'', []]"

definition end_line :: "string \<Rightarrow> string" where
  "end_line l = l @ [newline]"

lemma sse_bytes_lines: "sse_bytes ops = concat (map end_line (concat (map op_lines ops)))"
proof -
  have "fst (run_op buffer_writer op s) = s @ concat (map end_line (op_lines op))" for op s
    by (cases op) (simp_all add: WriteData_def WriteKeepAlive_def buffer_writer_def end_line_def)
  then have "foldl (\<lambda>s op. fst (run_op buffer_writer op s)) s ops = s @ concat (map end_line (concat (map op_lines ops)))" for s
    by (induction ops arbitrary: s) simp_all
  then show ?thesis by (simp add: sse_bytes_def)
qed

text \<open>The lines of a stream of whole blocks, or of one that was cut off.\<close>

lemma split_end_lines:
  "\<forall>l\<in>set ls. newline \<notin> set l \<Longrightarrow> newline \<notin> set p \<Longrightarrow>
   split_on newline (concat (map end_line ls) @ p) = ls @ [p]"
  by (induction ls) (simp_all add: end_line_def split_on_append split_on_single)

lemma take_end_lines:
  "\<exists>k p. take n (concat (map end_line ls)) = concat (map end_line (take k ls)) @ p \<and>
     (p = [] \<or> (\<exists>m. k < length ls \<and> p = take m (ls ! k)))"
proof (induction ls arbitrary: n)
  case (Cons l ls)
  show ?case
  proof (cases "n \<le> length l")
    case True
    then show ?thesis by (intro exI[of _ 0] exI[of _ "take n l"]) (auto simp: end_line_def)
  next
    case False
    then obtain j where n: "n = Suc (length l) + j" by (metis add_Suc_right le_Suc_ex not_less_eq_eq add_Suc)
    from Cons[of j] obtain k p where
      "take j (concat (map end_line ls)) = concat (map end_line (take k ls)) @ p"
      "p = [] \<or> (\<exists>m. k < length ls \<and> p = take m (ls ! k))" by blast
    moreover have "take n (end_line l @ xs) = end_line l @ take j xs" for xs
      by (simp add: n end_line_def)
    ultimately show ?thesis by (intro exI[of _ "Suc k"] exI[of _ p]) auto
  qed
qed simp

definition line_ok :: "string \<Rightarrow> bool" where
  "line_ok l \<longleftrightarrow> newline \<notin> set l \<and> dropCR l = l \<and> length l < MaxSSETokenSize"

lemma dropCR_id: "l = [] \<or> last l \<noteq> CHR 13 \<Longrightarrow> dropCR l = l"
  by (cases l rule: rev_cases) (simp_all add: dropCR_def TrimSuffix_def CutSuffix_def)

lemma op_lines_ok:
  assumes "sse_op_ok op" "l \<in> set (op_lines op)"
  shows "line_ok l"
proof -
  have newl: "newline \<noteq> c" if "c \<in> set ''id:at keplv-''" for c using that by (auto simp: newline_def)
  have big: "12 < MaxSSETokenSize" by (simp add: MaxSSETokenSize_def)
  show ?thesis using assms big
    by (cases op) (auto simp: line_ok_def one_line_def newl intro!: dropCR_id split: if_splits)
qed

lemma scan_lines_ok:
  "\<forall>l\<in>set ls. line_ok l \<Longrightarrow> length p < MaxSSETokenSize \<Longrightarrow>
   scan_lines MaxSSETokenSize (ls @ [p]) = (ls @ (if p = [] then [] else [dropCR p]), False)"
  by (induction ls) (auto simp: line_ok_def)

text \<open>The parser on the lines.\<close>

lemma parse_loop_append:
  "parse_loop f e (ls @ ls') =
     (case parse_loop f e ls of (out, e') \<Rightarrow>
        (case parse_loop (f \<and> ls = []) e' ls' of (out', e'') \<Rightarrow> (out @ out', e'')))"
  by (induction ls arbitrary: f e) (simp_all add: Let_def flush_event_def split: prod.splits)

lemma TrimPrefix_other: "l \<noteq> [] \<Longrightarrow> hd l \<noteq> c \<Longrightarrow> TrimPrefix l (c # p) = l"
  by (cases l) (simp_all add: TrimPrefix_def)

lemma parse_op_lines:
  assumes "sse_op_ok op"
  shows "parse_loop f [] (op_lines op) = (op_data op, [])"
  using assms by (cases op) (simp_all add: Let_def flush_event_def byte_order_mark_def TrimPrefix_other)

lemma parse_ops:
  "list_all sse_op_ok ops \<Longrightarrow> parse_loop f [] (concat (map op_lines ops)) = (concat (map op_data ops), [])"
  by (induction ops arbitrary: f) (simp_all add: parse_loop_append parse_op_lines)

lemma parse_written:
  assumes "list_all sse_op_ok ops"
  shows "ParseDataStream \<lparr>body_bytes = sse_bytes ops, body_error = err\<rparr> =
    map Inr (concat (map op_data ops)) @
    (case err of Some e \<Rightarrow> [Inl (Errorf ''SSE stream error'' [e])] | None \<Rightarrow> [])"
proof -
  have ok: "\<forall>l\<in>set (concat (map op_lines ops)). line_ok l"
    using assms by (auto simp: list_all_iff intro: op_lines_ok)
  then have "split_on newline (sse_bytes ops) = concat (map op_lines ops) @ [[]]"
    using split_end_lines[of "concat (map op_lines ops)" "[]"] by (simp add: sse_bytes_lines line_ok_def)
  moreover have "scan_lines MaxSSETokenSize (concat (map op_lines ops) @ [[]]) = (concat (map op_lines ops), False)"
    using scan_lines_ok[OF ok, of "[]"] by (simp add: MaxSSETokenSize_def)
  ultimately show ?thesis
    by (simp add: ParseDataStream_def parse_ops[OF assms] flush_event_def split: option.splits)
qed

text \<open>
  A client gets the data blocks a server has written, in order and with nothing added, whatever
  keep-alives are between them, and then the error of the connection, if there was one.
\<close>

theorem sse_roundtrip:
  assumes "list_all sse_op_ok ops"
  shows "ParseDataStream \<lparr>body_bytes = sse_bytes ops, body_error = err\<rparr> =
    map Inr (concat (map op_data ops)) @
    (case err of Some e \<Rightarrow> [Inl (Errorf ''SSE stream error'' [e])] | None \<Rightarrow> [])"
  by (rule parse_written[OF assms])

lemma take_line_ok: "line_ok l \<Longrightarrow> newline \<notin> set (take m l) \<and> length (take m l) < MaxSSETokenSize"
  by (auto simp: line_ok_def min_less_iff_disj dest: in_set_takeD)

lemma parse_no_data:
  assumes "l \<noteq> []" "hd l \<in> set ''id:''"
  shows "fst (parse_loop f e [dropCR l]) = []"
proof -
  have "dropCR l \<noteq> [] \<and> hd (dropCR l) = hd l"
    using assms by (cases l rule: rev_cases) (auto simp: dropCR_def TrimSuffix_def CutSuffix_def hd_append)
  with assms(2) show ?thesis
    by (auto simp: Let_def byte_order_mark_def TrimPrefix_other)
qed

text \<open>
  C16: If the connection breaks anywhere in a stream, within a block or between two, the client gets
  whole blocks only, a prefix of what was written, and then the error.
\<close>

theorem sse_cut_off:
  assumes "list_all sse_op_ok ops"
  shows "\<exists>k. ParseDataStream \<lparr>body_bytes = take n (sse_bytes ops), body_error = Some e\<rparr> =
    map Inr (take k (concat (map op_data ops))) @ [Inl (Errorf ''SSE stream error'' [e])]"
proof -
  let ?ls = "concat (map op_lines ops)"
  have ok: "\<forall>l\<in>set ?ls. line_ok l"
    using assms by (auto simp: list_all_iff intro: op_lines_ok)
  obtain k p where cut: "take n (sse_bytes ops) = concat (map end_line (take k ?ls)) @ p"
    "p = [] \<or> (\<exists>m. k < length ?ls \<and> p = take m (?ls ! k))"
    using take_end_lines[of n ?ls] by (auto simp: sse_bytes_lines)
  have ok_k: "\<forall>l\<in>set (take k ?ls). line_ok l" using ok by (blast dest: in_set_takeD)
  have line: "l = [] \<or> hd l \<in> set ''id:''" if "l \<in> set ?ls" for l
  proof -
    have "l \<in> set (op_lines op) \<Longrightarrow> l = [] \<or> hd l \<in> set ''id:''" for op by (cases op) auto
    with that show ?thesis by auto
  qed
  have p: "newline \<notin> set p \<and> length p < MaxSSETokenSize \<and> (p = [] \<or> hd p \<in> set ''id:'')"
  proof (cases "p = []")
    case False
    with cut(2) obtain m where m: "k < length ?ls" "p = take m (?ls ! k)" by blast
    then have l: "?ls ! k \<in> set ?ls" by (intro nth_mem)
    from m(2) False have "hd p = hd (?ls ! k)" "?ls ! k \<noteq> []" by auto
    moreover have "newline \<notin> set p" "length p < MaxSSETokenSize"
      using take_line_ok[OF bspec[OF ok l], of m] m(2) by simp_all
    ultimately show ?thesis using line[OF l] by simp
  qed (simp add: MaxSSETokenSize_def)
  define partial where "partial = (if p = [] then [] else [dropCR p])"
  have split: "split_on newline (take n (sse_bytes ops)) = take k ?ls @ [p]"
    unfolding cut(1) by (rule split_end_lines) (use ok_k p in \<open>auto simp: line_ok_def\<close>)
  have scan: "scan_lines MaxSSETokenSize (take k ?ls @ [p]) = (take k ?ls @ partial, False)"
    unfolding partial_def by (rule scan_lines_ok[OF ok_k]) (use p in blast)
  obtain out ev where out: "parse_loop True [] (take k ?ls) = (out, ev)" by fastforce
  have "fst (parse_loop f ev partial) = []" for f
    using p parse_no_data[of p f ev] by (auto simp: partial_def simp del: parse_loop.simps(2))
  then have "fst (parse_loop True [] (take k ?ls @ partial)) = out"
    by (simp add: parse_loop_append out split: prod.split) (metis fst_conv)
  then have got: "ParseDataStream \<lparr>body_bytes = take n (sse_bytes ops), body_error = Some e\<rparr> =
      map Inr out @ [Inl (Errorf ''SSE stream error'' [e])]"
    by (auto simp: ParseDataStream_def split scan split: prod.split)
  have "parse_loop True [] (take k ?ls @ drop k ?ls) = (concat (map op_data ops), [])"
    using parse_ops[OF assms] by simp
  then have "\<exists>rest. concat (map op_data ops) = out @ rest"
    unfolding parse_loop_append out by (auto split: prod.splits dest: sym)
  then have "out = take (length out) (concat (map op_data ops))" by auto
  with got show ?thesis by metis
qed

lemma sse_roundtrip_witness:
  "ParseDataStream \<lparr>body_bytes = sse_bytes [SseData ''1'' ''{}'', SseKeepAlive, SseData ''2'' ''[]''], body_error = None\<rparr> =
     [Inr ''{}'', Inr ''[]'']"
  using sse_roundtrip[of "[SseData ''1'' ''{}'', SseKeepAlive, SseData ''2'' ''[]'']" None]
  by (simp add: one_line_def newline_def MaxSSETokenSize_def)

lemma sse_cut_off_witness:
  "\<exists>k. ParseDataStream \<lparr>body_bytes = take 12 (sse_bytes [SseData ''1'' ''{}'']), body_error = Some ErrTooLong\<rparr> =
     map Inr (take k [''{}'']) @ [Inl (Errorf ''SSE stream error'' [ErrTooLong])]"
  using sse_cut_off[of "[SseData ''1'' ''{}'']" 12 ErrTooLong]
  by (simp add: one_line_def newline_def MaxSSETokenSize_def)

section \<open>Blocks of several lines\<close>

text \<open>
  The fields of one block, joined the way the standard does it: every data field adds its value and a
  line feed, and the last line feed is dropped.
\<close>

definition data_field :: "string \<Rightarrow> string" where
  "data_field v = ''data: '' @ v"

definition joined :: "string list \<Rightarrow> string" where
  "joined vs = strings_Join vs [newline]"

lemma parse_fields:
  "e \<noteq> [] \<Longrightarrow> vs \<noteq> [] \<Longrightarrow> parse_loop f e (map data_field vs @ [[]]) = ([e @ newline # joined vs], [])"
  by (induction vs arbitrary: f e)
    (auto simp: data_field_def joined_def Let_def flush_event_def byte_order_mark_def TrimPrefix_other strings_Join_Cons)

lemma joined_fields:
  assumes "v \<noteq> []"
  shows "parse_loop f [] (map data_field (v # vs) @ [[]]) = ([joined (v # vs)], [])"
  using assms parse_fields[of v vs]
  by (cases "vs = []") (simp_all add: data_field_def joined_def Let_def flush_event_def byte_order_mark_def
      TrimPrefix_other strings_Join_Cons)

text \<open>An empty first field does not count: the block \<open>data:\<close>, \<open>data: x\<close> is read as \<open>x\<close>.\<close>

lemma empty_first_field:
  "v \<noteq> [] \<Longrightarrow> parse_loop f [] (map data_field ([] # v # vs) @ [[]]) = ([joined (v # vs)], [])"
  using joined_fields[of v False vs]
  by (simp add: data_field_def Let_def byte_order_mark_def TrimPrefix_other)

end
