(* ===== verification/CoreJson.thy ===== *)
theory CoreJson
  imports ProtoRequests PageToken ErrorCodecs
begin

text \<open>
  The JSON form of messages, tasks, events and requests: the struct tags and the custom marshalers of
  \<open>a2a/core.go\<close> and \<open>a2a/push.go\<close>. A document is a syntax tree: integer literals are \<open>AInt\<close>,
  other numbers \<open>AFloat\<close>. Field names match exactly.
\<close>

section \<open>Writing and reading structs\<close>

text \<open>
  The text form of a time with milliseconds and its reading are an argument, as is the printing of a
  float32 (see \<open>json_norm\<close>).
\<close>

record json_lib =
  jl_time :: time_format
  jl_f32 :: "rat \<Rightarrow> rat"

text \<open>The fields of a struct in the order of the tags; \<open>None\<close> is a field left out by \<open>omitempty\<close>.\<close>

fun put_fields :: "(string \<times> any option) list \<Rightarrow> (string, any) fmap" where
  "put_fields [] = fmempty"
| "put_fields ((k, None) # kvs) = put_fields kvs"
| "put_fields ((k, Some v) # kvs) = fmupd k v (put_fields kvs)"

definition obj :: "(string \<times> any option) list \<Rightarrow> any" where
  "obj kvs = AMap (put_fields kvs)"

definition str_omit :: "string \<Rightarrow> any option" where
  "str_omit s = (if s = '''' then None else Some (AString s))"

definition bool_omit :: "bool \<Rightarrow> any option" where
  "bool_omit b = (if b then Some (ABool True) else None)"

definition int_lit :: "int \<Rightarrow> any" where
  "int_lit i = AInt KInt i"

definition int_omit :: "int \<Rightarrow> any option" where
  "int_omit i = (if i = 0 then None else Some (int_lit i))"

definition list_omit :: "any list \<Rightarrow> any option" where
  "list_omit xs = (if xs = [] then None else Some (AArr xs))"

definition meta_omit :: "metadata \<Rightarrow> any option" where
  "meta_omit m = (if gm_len m = 0 then None else Some (AMap (gm_fmap m)))"

text \<open>
  A decoder returns a value or fails. The flag says that the value has a nil pointer where the data
  model has none: a null element of a slice of pointers, which is left out, or a missing artifact.
\<close>

type_synonym 'a jdec = "(bool \<times> 'a) option"

definition jret :: "'a \<Rightarrow> 'a jdec" where
  "jret x = Some (False, x)"

definition jbind :: "'a jdec \<Rightarrow> ('a \<Rightarrow> 'b jdec) \<Rightarrow> 'b jdec" where
  "jbind d f = (case d of None \<Rightarrow> None | Some (b, x) \<Rightarrow> map_option (\<lambda>(b', y). (b \<or> b', y)) (f x))"

text \<open>The field \<open>k\<close>: \<open>null\<close> leaves the zero value as a missing field does.\<close>

definition jfield :: "(string, any) fmap \<Rightarrow> string \<Rightarrow> 'a \<Rightarrow> (any \<Rightarrow> 'a jdec) \<Rightarrow> 'a jdec" where
  "jfield m k zero dec =
     (case fmlookup m k of None \<Rightarrow> jret zero | Some v \<Rightarrow> if v = ANil then jret zero else dec v)"

fun jstruct :: "((string, any) fmap \<Rightarrow> 'a jdec) \<Rightarrow> any \<Rightarrow> 'a jdec" where
  "jstruct dec (AMap m) = dec m"
| "jstruct dec _ = None"

definition jsome :: "(any \<Rightarrow> 'a jdec) \<Rightarrow> any \<Rightarrow> 'a option jdec" where
  "jsome dec v = jbind (dec v) (\<lambda>x. jret (Some x))"

fun jstring :: "any \<Rightarrow> string jdec" where
  "jstring (AString s) = jret s"
| "jstring _ = None"

fun jbool :: "any \<Rightarrow> bool jdec" where
  "jbool (ABool b) = jret b"
| "jbool _ = None"

definition int64_range :: "int \<Rightarrow> bool" where
  "int64_range i \<longleftrightarrow> - (2 ^ 63) \<le> i \<and> i < 2 ^ 63"

fun jint :: "any \<Rightarrow> int jdec" where
  "jint (AInt k i) = (if int64_range i then jret i else None)"
| "jint _ = None"

fun jmap :: "json_lib \<Rightarrow> any \<Rightarrow> metadata jdec" where
  "jmap J (AMap m) = jret (Some (norm_map (jl_f32 J) m))"
| "jmap J _ = None"

fun jlist_loop :: "(any \<Rightarrow> 'a jdec) \<Rightarrow> any list \<Rightarrow> 'a list jdec" where
  "jlist_loop dec [] = jret []"
| "jlist_loop dec (v # vs) = jbind (dec v) (\<lambda>x. jbind (jlist_loop dec vs) (\<lambda>xs. jret (x # xs)))"

text \<open>A slice of strings, in which \<open>null\<close> is the empty string, and a slice of pointers.\<close>

fun jstrings :: "any \<Rightarrow> string list jdec" where
  "jstrings (AArr vs) = jlist_loop (\<lambda>v. if v = ANil then jret '''' else jstring v) vs"
| "jstrings _ = None"

fun jpointers :: "(any \<Rightarrow> 'a jdec) \<Rightarrow> any \<Rightarrow> 'a list jdec" where
  "jpointers dec (AArr vs) =
     jbind (jlist_loop dec (filter (\<lambda>v. v \<noteq> ANil) vs)) (\<lambda>xs. Some (ANil \<in> set vs, xs))"
| "jpointers dec _ = None"

fun jtime :: "json_lib \<Rightarrow> any \<Rightarrow> gotime option jdec" where
  "jtime J (AString s) = (case Parse (jl_time J) s of None \<Rightarrow> None | Some t \<Rightarrow> jret (Some t))"
| "jtime J _ = None"

definition time_text :: "json_lib \<Rightarrow> gotime option \<Rightarrow> any option" where
  "time_text J t = map_option (\<lambda>x. AString (Format (jl_time J) x)) t"

text \<open>Bytes are base64 with the standard alphabet.\<close>

definition swap_chars :: "(char \<times> char) list \<Rightarrow> string \<Rightarrow> string" where
  "swap_chars table = map (\<lambda>c. case map_of table c of Some d \<Rightarrow> d | None \<Rightarrow> c)"

definition bytes_text :: "string \<Rightarrow> string" where
  "bytes_text raw = swap_chars [(CHR ''-'', CHR ''+''), (CHR ''_'', CHR ''/'')] (b64_encode raw)"

fun jbytes :: "any \<Rightarrow> string jdec" where
  "jbytes (AString s) =
     (if CHR ''-'' \<in> set s \<or> CHR ''_'' \<in> set s then None
      else map_option (Pair False) (b64_decode (swap_chars [(CHR ''+'', CHR ''-''), (CHR ''/'', CHR ''_'')] s)))"
| "jbytes _ = None"

section \<open>Parts, messages, artifacts, tasks\<close>

definition Part_MarshalJSON :: "part \<Rightarrow> any" where
  "Part_MarshalJSON p = obj
     [(''text'', case part_Content p of Some (Text v) \<Rightarrow> Some (AString v) | _ \<Rightarrow> None),
      (''raw'', case part_Content p of Some (Raw v) \<Rightarrow> Some (AString (bytes_text v)) | _ \<Rightarrow> None),
      (''data'', case part_Content p of Some (Data v) \<Rightarrow> Some v | _ \<Rightarrow> None),
      (''url'', case part_Content p of Some (URL v) \<Rightarrow> if v \<noteq> '''' then Some (AString v) else None | _ \<Rightarrow> None),
      (''filename'', str_omit (part_Filename p)), (''mediaType'', str_omit (part_MediaType p)),
      (''metadata'', meta_omit (part_Metadata p))]"

text \<open>The candidates for the content in the order of the tests; the last one is taken if it is the only one.\<close>

definition part_contents :: "json_lib \<Rightarrow> string option \<Rightarrow> string option \<Rightarrow> string option \<Rightarrow> any option \<Rightarrow> part_content list" where
  "part_contents J t r u d =
     (let found = (case t of Some v \<Rightarrow> [Text v] | None \<Rightarrow> []) @ (case r of Some v \<Rightarrow> [Raw v] | None \<Rightarrow> []) @
        (case u of Some v \<Rightarrow> if v \<noteq> '''' then [URL v] else [] | None \<Rightarrow> [])
      in found @
        (case d of Some v \<Rightarrow> if length found = 0 \<or> v \<noteq> ANil then [Data (json_norm (jl_f32 J) v)] else [] | None \<Rightarrow> []))"

definition Part_UnmarshalJSON :: "json_lib \<Rightarrow> any \<Rightarrow> part jdec" where
  "Part_UnmarshalJSON J = jstruct (\<lambda>m.
     jbind (jfield m ''text'' None (jsome jstring)) (\<lambda>t.
     jbind (jfield m ''raw'' None (jsome jbytes)) (\<lambda>r.
     jbind (jfield m ''url'' None (jsome jstring)) (\<lambda>u.
     jbind (jfield m ''filename'' '''' jstring) (\<lambda>filename.
     jbind (jfield m ''mediaType'' '''' jstring) (\<lambda>mediaType.
     jbind (jfield m ''metadata'' None (jmap J)) (\<lambda>md.
       (case part_contents J t r u (fmlookup m ''data'') of
          [content] \<Rightarrow> jret \<lparr>part_Content = Some content, part_Filename = filename,
             part_MediaType = mediaType, part_Metadata = md\<rparr>
        | _ \<Rightarrow> None))))))))"

definition ContentParts_MarshalJSON :: "part list \<Rightarrow> any" where
  "ContentParts_MarshalJSON parts = AArr (map Part_MarshalJSON parts)"

definition ContentParts_UnmarshalJSON :: "json_lib \<Rightarrow> any \<Rightarrow> part list jdec" where
  "ContentParts_UnmarshalJSON J = jpointers (Part_UnmarshalJSON J)"

definition msg_json :: "message \<Rightarrow> any" where
  "msg_json m = obj
     [(''messageId'', Some (AString (msg_ID m))), (''contextId'', str_omit (msg_ContextID m)),
      (''extensions'', list_omit (map AString (msg_Extensions m))), (''metadata'', meta_omit (msg_Metadata m)),
      (''parts'', Some (ContentParts_MarshalJSON (msg_Parts m))),
      (''referenceTaskIds'', list_omit (map AString (msg_ReferenceTasks m))),
      (''role'', Some (AString (MessageRole_String (msg_Role m)))), (''taskId'', str_omit (msg_TaskID m))]"

definition message_of_json :: "json_lib \<Rightarrow> any \<Rightarrow> message jdec" where
  "message_of_json J = jstruct (\<lambda>m.
     jbind (jfield m ''messageId'' '''' jstring) (\<lambda>mid.
     jbind (jfield m ''contextId'' '''' jstring) (\<lambda>ctx.
     jbind (jfield m ''extensions'' [] jstrings) (\<lambda>exts.
     jbind (jfield m ''metadata'' None (jmap J)) (\<lambda>md.
     jbind (jfield m ''parts'' [] (ContentParts_UnmarshalJSON J)) (\<lambda>parts.
     jbind (jfield m ''referenceTaskIds'' [] jstrings) (\<lambda>refs.
     jbind (jfield m ''role'' '''' jstring) (\<lambda>role.
     jbind (jfield m ''taskId'' '''' jstring) (\<lambda>task.
       jret \<lparr>msg_ID = mid, msg_ContextID = ctx, msg_Extensions = exts, msg_Metadata = md, msg_Parts = parts,
         msg_ReferenceTasks = refs, msg_Role = MessageRole_UnmarshalJSON role, msg_TaskID = task\<rparr>)))))))))"

definition TaskStatus_MarshalJSON :: "json_lib \<Rightarrow> task_status \<Rightarrow> any" where
  "TaskStatus_MarshalJSON J s = obj
     [(''message'', map_option msg_json (ts_Message s)),
      (''state'', Some (AString (TaskState_String (ts_State s)))), (''timestamp'', time_text J (ts_Timestamp s))]"

definition zero_status :: task_status where
  "zero_status = \<lparr>ts_Message = None, ts_State = '''', ts_Timestamp = None\<rparr>"

definition status_of_json :: "json_lib \<Rightarrow> any \<Rightarrow> task_status jdec" where
  "status_of_json J = jstruct (\<lambda>m.
     jbind (jfield m ''message'' None (jsome (message_of_json J))) (\<lambda>msg.
     jbind (jfield m ''state'' '''' jstring) (\<lambda>state.
     jbind (jfield m ''timestamp'' None (jtime J)) (\<lambda>t.
       jret \<lparr>ts_Message = msg, ts_State = TaskStateFromString state, ts_Timestamp = t\<rparr>))))"

definition artifact_json :: "artifact \<Rightarrow> any" where
  "artifact_json a = obj
     [(''artifactId'', Some (AString (art_ID a))), (''description'', str_omit (art_Description a)),
      (''extensions'', list_omit (map AString (art_Extensions a))), (''metadata'', meta_omit (art_Metadata a)),
      (''name'', str_omit (art_Name a)), (''parts'', Some (ContentParts_MarshalJSON (art_Parts a)))]"

definition artifact_of_json :: "json_lib \<Rightarrow> any \<Rightarrow> artifact jdec" where
  "artifact_of_json J = jstruct (\<lambda>m.
     jbind (jfield m ''artifactId'' '''' jstring) (\<lambda>aid.
     jbind (jfield m ''description'' '''' jstring) (\<lambda>descr.
     jbind (jfield m ''extensions'' [] jstrings) (\<lambda>exts.
     jbind (jfield m ''metadata'' None (jmap J)) (\<lambda>md.
     jbind (jfield m ''name'' '''' jstring) (\<lambda>name.
     jbind (jfield m ''parts'' [] (ContentParts_UnmarshalJSON J)) (\<lambda>parts.
       jret \<lparr>art_ID = aid, art_Description = descr, art_Extensions = exts, art_Metadata = md,
         art_Name = name, art_Parts = parts\<rparr>)))))))"

definition task_json :: "json_lib \<Rightarrow> task \<Rightarrow> any" where
  "task_json J t = obj
     [(''id'', Some (AString (task_ID t))), (''artifacts'', list_omit (map artifact_json (task_Artifacts t))),
      (''contextId'', Some (AString (task_ContextID t))), (''history'', list_omit (map msg_json (task_History t))),
      (''metadata'', meta_omit (task_Metadata t)), (''status'', Some (TaskStatus_MarshalJSON J (task_Status t)))]"

definition task_of_json :: "json_lib \<Rightarrow> any \<Rightarrow> task jdec" where
  "task_of_json J = jstruct (\<lambda>m.
     jbind (jfield m ''id'' '''' jstring) (\<lambda>tid.
     jbind (jfield m ''artifacts'' [] (jpointers (artifact_of_json J))) (\<lambda>arts.
     jbind (jfield m ''contextId'' '''' jstring) (\<lambda>ctx.
     jbind (jfield m ''history'' [] (jpointers (message_of_json J))) (\<lambda>hist.
     jbind (jfield m ''metadata'' None (jmap J)) (\<lambda>md.
     jbind (jfield m ''status'' zero_status (status_of_json J)) (\<lambda>status.
       jret \<lparr>task_ID = tid, task_Artifacts = arts, task_ContextID = ctx, task_History = hist,
         task_Metadata = md, task_Status = status\<rparr>)))))))"

section \<open>Events\<close>

definition status_event_json :: "json_lib \<Rightarrow> status_event \<Rightarrow> any" where
  "status_event_json J e = obj
     [(''contextId'', Some (AString (se_ContextID e))), (''status'', Some (TaskStatus_MarshalJSON J (se_Status e))),
      (''taskId'', Some (AString (se_TaskID e))), (''metadata'', meta_omit (se_Metadata e))]"

definition status_event_of_json :: "json_lib \<Rightarrow> any \<Rightarrow> status_event jdec" where
  "status_event_of_json J = jstruct (\<lambda>m.
     jbind (jfield m ''contextId'' '''' jstring) (\<lambda>ctx.
     jbind (jfield m ''status'' zero_status (status_of_json J)) (\<lambda>status.
     jbind (jfield m ''taskId'' '''' jstring) (\<lambda>task.
     jbind (jfield m ''metadata'' None (jmap J)) (\<lambda>md.
       jret \<lparr>se_ContextID = ctx, se_Status = status, se_TaskID = task, se_Metadata = md\<rparr>)))))"

definition artifact_event_json :: "artifact_event \<Rightarrow> any" where
  "artifact_event_json e = obj
     [(''append'', bool_omit (ae_Append e)), (''artifact'', Some (artifact_json (ae_Artifact e))),
      (''contextId'', Some (AString (ae_ContextID e))), (''lastChunk'', bool_omit (ae_LastChunk e)),
      (''taskId'', Some (AString (ae_TaskID e))), (''metadata'', meta_omit (ae_Metadata e))]"

definition artifact_event_of_json :: "json_lib \<Rightarrow> any \<Rightarrow> artifact_event jdec" where
  "artifact_event_of_json J = jstruct (\<lambda>m.
     jbind (jfield m ''append'' False jbool) (\<lambda>app.
     jbind (jfield m ''artifact'' None (jsome (artifact_of_json J))) (\<lambda>art.
     jbind (case art of None \<Rightarrow> Some (True, new_artifact '''' []) | Some a \<Rightarrow> jret a) (\<lambda>art'.
     jbind (jfield m ''contextId'' '''' jstring) (\<lambda>ctx.
     jbind (jfield m ''lastChunk'' False jbool) (\<lambda>lst.
     jbind (jfield m ''taskId'' '''' jstring) (\<lambda>task.
     jbind (jfield m ''metadata'' None (jmap J)) (\<lambda>md.
       jret \<lparr>ae_Append = app, ae_Artifact = art', ae_ContextID = ctx, ae_LastChunk = lst, ae_TaskID = task,
         ae_Metadata = md\<rparr>))))))))"

text \<open>The struct \<open>event\<close> that \<open>StreamResponse\<close> is written and read through.\<close>

definition wrapper_json :: "json_lib \<Rightarrow> event_wrapper \<Rightarrow> any" where
  "wrapper_json J w = obj
     [(''message'', map_option msg_json (w_Message w)), (''task'', map_option (\<lambda>(a, t). task_json J t) (w_Task w)),
      (''statusUpdate'', map_option (status_event_json J) (w_StatusUpdate w)),
      (''artifactUpdate'', map_option artifact_event_json (w_ArtifactUpdate w))]"

definition wrapper_of_json :: "json_lib \<Rightarrow> addr \<Rightarrow> any \<Rightarrow> event_wrapper jdec" where
  "wrapper_of_json J a = jstruct (\<lambda>m.
     jbind (jfield m ''message'' None (jsome (message_of_json J))) (\<lambda>msg.
     jbind (jfield m ''task'' None (jsome (task_of_json J))) (\<lambda>task.
     jbind (jfield m ''statusUpdate'' None (jsome (status_event_of_json J))) (\<lambda>status.
     jbind (jfield m ''artifactUpdate'' None (jsome (artifact_event_of_json J))) (\<lambda>art.
       jret \<lparr>w_Message = msg, w_Task = map_option (Pair a) task, w_StatusUpdate = status,
         w_ArtifactUpdate = art\<rparr>)))))"

text \<open>\<open>json.Marshal\<close> refuses a tree with an opaque value.\<close>

definition json_marshal :: "any \<Rightarrow> go_error + any" where
  "json_marshal v = (if json_encodable v then Inr v else Inl (Errorf ''json: unsupported type'' []))"

definition marshal_event :: "json_lib \<Rightarrow> event option \<Rightarrow> go_error + any" where
  "marshal_event J e = on_ok (StreamResponse_MarshalJSON e) (\<lambda>w. json_marshal (wrapper_json J w))"

definition unmarshal_event :: "json_lib \<Rightarrow> addr \<Rightarrow> any \<Rightarrow> go_error + bool \<times> event" where
  "unmarshal_event J a doc =
     (case (if doc = ANil then jret empty_wrapper else wrapper_of_json J a doc) of
        None \<Rightarrow> Inl (Errorf ''failed to unmarshal event: %w'' [])
      | Some (b, w) \<Rightarrow> on_ok (StreamResponse_UnmarshalJSON w) (\<lambda>e. Inr (b, e)))"

section \<open>What is kept\<close>

text \<open>
  The value the receiver has: data and metadata in decoded form, empty metadata gone, unknown states
  unspecified, timestamps cut to milliseconds.
\<close>

definition wire_meta :: "json_lib \<Rightarrow> metadata \<Rightarrow> metadata" where
  "wire_meta J m = (if gm_len m = 0 then None else Some (norm_map (jl_f32 J) (gm_fmap m)))"

fun wire_content :: "json_lib \<Rightarrow> part_content \<Rightarrow> part_content" where
  "wire_content J (Data v) = Data (json_norm (jl_f32 J) v)"
| "wire_content J c = c"

definition wire_part :: "json_lib \<Rightarrow> part \<Rightarrow> part" where
  "wire_part J p = p\<lparr>part_Content := map_option (wire_content J) (part_Content p),
     part_Metadata := wire_meta J (part_Metadata p)\<rparr>"

definition wire_message :: "json_lib \<Rightarrow> message \<Rightarrow> message" where
  "wire_message J m = m\<lparr>msg_Metadata := wire_meta J (msg_Metadata m), msg_Parts := map (wire_part J) (msg_Parts m),
     msg_Role := MessageRole_UnmarshalJSON (MessageRole_String (msg_Role m))\<rparr>"

definition wire_status :: "json_lib \<Rightarrow> task_status \<Rightarrow> task_status" where
  "wire_status J s = s\<lparr>ts_Message := map_option (wire_message J) (ts_Message s),
     ts_State := TaskStateFromString (ts_State s), ts_Timestamp := map_option truncate_ms (ts_Timestamp s)\<rparr>"

definition wire_artifact :: "json_lib \<Rightarrow> artifact \<Rightarrow> artifact" where
  "wire_artifact J a = a\<lparr>art_Metadata := wire_meta J (art_Metadata a), art_Parts := map (wire_part J) (art_Parts a)\<rparr>"

definition wire_task :: "json_lib \<Rightarrow> task \<Rightarrow> task" where
  "wire_task J t = t\<lparr>task_Artifacts := map (wire_artifact J) (task_Artifacts t),
     task_History := map (wire_message J) (task_History t), task_Metadata := wire_meta J (task_Metadata t),
     task_Status := wire_status J (task_Status t)\<rparr>"

fun wire_event :: "json_lib \<Rightarrow> event \<Rightarrow> event" where
  "wire_event J (EMessage m) = EMessage (wire_message J m)"
| "wire_event J (ETask a t) = ETask a (wire_task J t)"
| "wire_event J (EStatus e) = EStatus (e\<lparr>se_Status := wire_status J (se_Status e), se_Metadata := wire_meta J (se_Metadata e)\<rparr>)"
| "wire_event J (EArtifact e) = EArtifact (e\<lparr>ae_Artifact := wire_artifact J (ae_Artifact e),
     ae_Metadata := wire_meta J (ae_Metadata e)\<rparr>)"

text \<open>
  A part can be read back if it has content and is no empty URL. A time can be written with a year of
  four digits; reading it gives the time cut to milliseconds.
\<close>

definition readable_part :: "part \<Rightarrow> bool" where
  "readable_part p = (case part_Content p of None \<Rightarrow> False | Some (URL v) \<Rightarrow> v \<noteq> '''' | _ \<Rightarrow> True)"

definition readable_message :: "message \<Rightarrow> bool" where
  "readable_message m = list_all readable_part (msg_Parts m)"

definition readable_status :: "task_status \<Rightarrow> bool" where
  "readable_status s = pred_option readable_message (ts_Message s)"

definition readable_artifact :: "artifact \<Rightarrow> bool" where
  "readable_artifact a = list_all readable_part (art_Parts a)"

definition readable_task :: "task \<Rightarrow> bool" where
  "readable_task t = (list_all readable_artifact (task_Artifacts t) \<and> list_all readable_message (task_History t) \<and>
     readable_status (task_Status t))"

fun readable_event :: "event \<Rightarrow> bool" where
  "readable_event (EMessage m) = readable_message m"
| "readable_event (ETask a t) = readable_task t"
| "readable_event (EStatus e) = readable_status (se_Status e)"
| "readable_event (EArtifact e) = readable_artifact (ae_Artifact e)"

definition time_range :: "gotime \<Rightarrow> bool" where
  "time_range t \<longleftrightarrow> - 62135596800000000000 \<le> t \<and> t < 253402300800000000000"

definition json_lib_ok :: "json_lib \<Rightarrow> bool" where
  "json_lib_ok J \<longleftrightarrow> (\<forall>t. time_range t \<longrightarrow> Parse (jl_time J) (Format (jl_time J) t) = Some (truncate_ms t))"

definition timed_status :: "task_status \<Rightarrow> bool" where
  "timed_status s = pred_option time_range (ts_Timestamp s)"

fun timed_event :: "event \<Rightarrow> bool" where
  "timed_event (EMessage m) = True"
| "timed_event (ETask a t) = timed_status (task_Status t)"
| "timed_event (EStatus e) = timed_status (se_Status e)"
| "timed_event (EArtifact e) = True"

section \<open>Reading what was written\<close>

lemma jbind_simps [simp]:
  "jbind (jret x) f = f x"
  "jbind None f = None"
  "jbind (if b then d else None) f = (if b then jbind d f else None)"
  by (cases "f x") (auto simp: jbind_def jret_def)

lemma jret_inject [simp]: "jret x = jret y \<longleftrightarrow> x = y" "jret x \<noteq> None" "None \<noteq> jret x"
  by (simp_all add: jret_def)

text \<open>The field of a struct that was written with these fields.\<close>

definition jvalue :: "any option \<Rightarrow> 'a \<Rightarrow> (any \<Rightarrow> 'a jdec) \<Rightarrow> 'a jdec" where
  "jvalue v zero dec = (case v of None \<Rightarrow> jret zero | Some v \<Rightarrow> if v = ANil then jret zero else dec v)"

lemma fmlookup_put_here: "k \<notin> fst ` set kvs \<Longrightarrow> fmlookup (put_fields ((k, v) # kvs)) k = v"
proof -
  assume "k \<notin> fst ` set kvs"
  then have "fmlookup (put_fields kvs) k = None" by (induction kvs rule: put_fields.induct) auto
  then show ?thesis by (cases v) simp_all
qed

lemma fmlookup_put_other: "k \<noteq> k' \<Longrightarrow> fmlookup (put_fields ((k', v) # kvs)) k = fmlookup (put_fields kvs) k"
  by (cases v) simp_all

lemma jfield_here: "k \<notin> fst ` set kvs \<Longrightarrow> jfield (put_fields ((k, v) # kvs)) k zero dec = jvalue v zero dec"
  by (simp add: jfield_def fmlookup_put_here jvalue_def del: put_fields.simps)

lemma jfield_other: "k \<noteq> k' \<Longrightarrow> jfield (put_fields ((k', v) # kvs)) k zero dec = jfield (put_fields kvs) k zero dec"
  by (simp add: jfield_def fmlookup_put_other del: put_fields.simps)

lemma jfield_none [simp]: "jfield fmempty k zero dec = jret zero"
  by (simp add: jfield_def)

declare put_fields.simps(2,3) [simp del]

lemmas field_eqs = fmlookup_put_here fmlookup_put_other jfield_here jfield_other

lemma jstruct_obj [simp]: "jstruct dec (obj kvs) = dec (put_fields kvs)"
  by (simp add: obj_def)

lemma obj_not_nil [simp]: "obj kvs \<noteq> ANil"
  by (simp add: obj_def)

lemma jlist_loop_map:
  "\<forall>x\<in>set xs. dec (enc x) = (if ok x then jret (h x) else None) \<Longrightarrow>
   jlist_loop dec (map enc xs) = (if list_all ok xs then jret (map h xs) else None)"
  by (induction xs) auto

lemma jstrings_back [simp]: "jstrings (AArr (map AString xs)) = jret xs"
  using jlist_loop_map[of xs "\<lambda>v. if v = ANil then jret '''' else jstring v" AString "\<lambda>x. True" "\<lambda>x. x"]
  by (simp add: list_all_iff)

lemma jpointers_back:
  assumes "\<forall>x\<in>set xs. enc x \<noteq> ANil \<and> dec (enc x) = (if ok x then jret (h x) else None)"
  shows "jpointers dec (AArr (map enc xs)) = (if list_all ok xs then jret (map h xs) else None)"
proof -
  have "filter (\<lambda>v. v \<noteq> ANil) (map enc xs) = map enc xs" "ANil \<notin> set (map enc xs)"
    using assms by (auto simp: filter_id_conv)
  moreover have "jlist_loop dec (map enc xs) = (if list_all ok xs then jret (map h xs) else None)"
    using assms by (intro jlist_loop_map) blast
  ultimately show ?thesis by (simp add: jret_def jbind_def)
qed

lemma jvalue_simps [simp]:
  "jvalue (Some (AString s)) zs jstring = jret s"
  "jvalue (str_omit s) '''' jstring = jret s"
  "jvalue (bool_omit b) False jbool = jret b"
  "jvalue (meta_omit m) None (jmap J) = jret (wire_meta J m)"
  "jvalue None zero dec = jret zero"
  "jvalue (list_omit (map AString xs)) [] jstrings = jret xs"
  using jstrings_back[of xs]
  by (auto simp: jvalue_def str_omit_def bool_omit_def meta_omit_def wire_meta_def list_omit_def simp del: jstrings_back)

lemma jvalue_obj: "jvalue (Some (obj kvs)) zero dec = dec (obj kvs)"
  by (simp add: jvalue_def)

lemma jvalue_jsome:
  assumes "\<And>x. enc x \<noteq> ANil" "\<And>x. v = Some x \<Longrightarrow> dec (enc x) = (if ok x then jret (h x) else None)"
  shows "jvalue (map_option enc v) None (jsome dec) = (if pred_option ok v then jret (map_option h v) else None)"
  using assms by (cases v) (auto simp: jvalue_def jsome_def)

lemma jvalue_list:
  assumes "\<And>x. enc x \<noteq> ANil" "\<And>x. x \<in> set xs \<Longrightarrow> dec (enc x) = (if ok x then jret (h x) else None)"
  shows "jvalue (list_omit (map enc xs)) [] (jpointers dec) = (if list_all ok xs then jret (map h xs) else None)"
  using assms jpointers_back[of xs enc dec ok h] by (auto simp: jvalue_def list_omit_def)

lemma b64_text_chars: "set (b64_encode s) \<subseteq> insert (CHR ''='') (set b64_alphabet)"
proof -
  have "set (b64_encode_bytes bs) \<subseteq> insert (CHR ''='') (set b64_alphabet)" if "\<forall>b\<in>set bs. b < 256" for bs
    using that
  proof (induction bs rule: b64_encode_bytes.induct)
    case (2 a)
    then have "a < 256" by simp
    from b64_group(1,2)[OF this, of 0 0] b64_char_in show ?case by simp
  next
    case (3 a b)
    then have "a < 256" "b < 256" by simp_all
    from b64_group(1,2,3)[OF this, of 0] b64_char_in show ?case by simp
  next
    case (4 a b c bs)
    then have "a < 256" "b < 256" "c < 256" by simp_all
    from b64_group(1-4)[OF this] b64_char_in 4 show ?case by simp
  qed simp
  then show ?thesis by (simp add: b64_encode_def)
qed

lemma jbytes_back [simp]: "jbytes (AString (bytes_text raw)) = jret raw"
proof -
  let ?std = "[(CHR ''-'', CHR ''+''), (CHR ''_'', CHR ''/'')]" and ?url = "[(CHR ''+'', CHR ''-''), (CHR ''/'', CHR ''_'')]"
  have "CHR ''+'' \<notin> set (b64_encode raw)" "CHR ''/'' \<notin> set (b64_encode raw)"
    using b64_text_chars[of raw] by (auto simp: b64_alphabet_def)
  then have "swap_chars ?url (swap_chars ?std (b64_encode raw)) = b64_encode raw"
    by (auto simp: swap_chars_def intro!: map_idI)
  moreover have "CHR ''-'' \<notin> set (bytes_text raw)" "CHR ''_'' \<notin> set (bytes_text raw)"
    by (auto simp: bytes_text_def swap_chars_def split: if_splits)
  ultimately show ?thesis by (simp add: bytes_text_def jret_def)
qed

lemma jvalue_bytes [simp]: "jvalue (Some (AString (bytes_text raw))) None (jsome jbytes) = jret (Some raw)"
  unfolding jvalue_def jsome_def by (simp del: jbytes.simps)

lemma jvalue_text [simp]: "jvalue (Some (AString v)) None (jsome jstring) = jret (Some v)"
  by (simp add: jvalue_def jsome_def)

lemma Part_not_nil [simp]: "Part_MarshalJSON p \<noteq> ANil"
  by (simp add: Part_MarshalJSON_def)

lemma part_back:
  "Part_UnmarshalJSON J (Part_MarshalJSON p) = (if readable_part p then jret (wire_part J p) else None)"
proof (cases p)
  case (fields content filename mediaType md)
  show ?thesis
  proof (cases content)
    case None
    then show ?thesis
      by (simp add: fields Part_UnmarshalJSON_def Part_MarshalJSON_def field_eqs part_contents_def readable_part_def)
  next
    case (Some c)
    then show ?thesis
      by (cases c) (simp_all add: fields Part_UnmarshalJSON_def Part_MarshalJSON_def field_eqs part_contents_def
          readable_part_def wire_part_def)
  qed
qed

lemma parts_back:
  "ContentParts_UnmarshalJSON J (ContentParts_MarshalJSON ps) =
     (if list_all readable_part ps then jret (map (wire_part J) ps) else None)"
  unfolding ContentParts_UnmarshalJSON_def ContentParts_MarshalJSON_def
  by (rule jpointers_back) (simp add: part_back)

lemma jvalue_parts [simp]:
  "jvalue (Some (ContentParts_MarshalJSON ps)) [] (ContentParts_UnmarshalJSON J) =
     (if list_all readable_part ps then jret (map (wire_part J) ps) else None)"
  using parts_back[of J ps] by (simp add: jvalue_def ContentParts_MarshalJSON_def)

lemma message_back:
  "message_of_json J (msg_json m) = (if readable_message m then jret (wire_message J m) else None)"
  by (cases m) (simp add: message_of_json_def msg_json_def field_eqs readable_message_def wire_message_def)

lemma message_not_nil [simp]: "msg_json m \<noteq> ANil"
  by (simp add: msg_json_def)

lemma wire_state: "TaskStateFromString (TaskState_String s) = TaskStateFromString s"
  by (simp add: TaskStateFromString_def TaskState_String_def go_consts)

lemma jvalue_time:
  "json_lib_ok J \<Longrightarrow> pred_option time_range t \<Longrightarrow> jvalue (time_text J t) None (jtime J) = jret (map_option truncate_ms t)"
  by (cases t) (simp_all add: jvalue_def time_text_def json_lib_ok_def)

lemma status_back:
  assumes "json_lib_ok J" "timed_status s"
  shows "status_of_json J (TaskStatus_MarshalJSON J s) = (if readable_status s then jret (wire_status J s) else None)"
proof -
  have "jvalue (map_option msg_json v) None (jsome (message_of_json J)) =
      (if pred_option readable_message v then jret (map_option (wire_message J) v) else None)" for v
    by (rule jvalue_jsome) (simp_all add: message_back)
  then show ?thesis using assms
    by (cases s) (simp add: status_of_json_def TaskStatus_MarshalJSON_def field_eqs jvalue_time timed_status_def
        readable_status_def wire_status_def wire_state)
qed

lemma artifact_back:
  "artifact_of_json J (artifact_json a) = (if readable_artifact a then jret (wire_artifact J a) else None)"
  by (cases a) (simp add: artifact_of_json_def artifact_json_def field_eqs readable_artifact_def wire_artifact_def)

lemma artifact_not_nil [simp]: "artifact_json a \<noteq> ANil"
  by (simp add: artifact_json_def)

lemma jvalue_status:
  assumes "json_lib_ok J" "timed_status s"
  shows "jvalue (Some (TaskStatus_MarshalJSON J s)) zero_status (status_of_json J) =
    (if readable_status s then jret (wire_status J s) else None)"
  using status_back[OF assms] by (simp add: jvalue_def TaskStatus_MarshalJSON_def)

lemma task_back:
  assumes "json_lib_ok J" "timed_status (task_Status t)"
  shows "task_of_json J (task_json J t) = (if readable_task t then jret (wire_task J t) else None)"
proof -
  have "jvalue (list_omit (map artifact_json arts)) [] (jpointers (artifact_of_json J)) =
      (if list_all readable_artifact arts then jret (map (wire_artifact J) arts) else None)" for arts
    by (rule jvalue_list) (simp_all add: artifact_back)
  moreover have "jvalue (list_omit (map msg_json ms)) [] (jpointers (message_of_json J)) =
      (if list_all readable_message ms then jret (map (wire_message J) ms) else None)" for ms
    by (rule jvalue_list) (simp_all add: message_back)
  ultimately show ?thesis using assms
    by (cases t) (simp add: task_of_json_def task_json_def field_eqs jvalue_status readable_task_def wire_task_def)
qed

section \<open>Events over JSON\<close>

lemma encodable_put_fields:
  "distinct (map fst kvs) \<Longrightarrow> encodable_map (put_fields kvs) \<longleftrightarrow> list_all (\<lambda>(k, v). pred_option json_encodable v) kvs"
proof (induction kvs rule: put_fields.induct)
  case (3 k v kvs)
  then have "fmdrop k (put_fields kvs) = put_fields kvs"
    using fmlookup_put_here[of k kvs None] by (intro fmap_ext) (auto simp: put_fields.simps)
  with 3 show ?case by (simp add: put_fields.simps encodable_map_upd_iff)
qed (simp_all add: put_fields.simps)

lemma encodable_obj [simp]:
  "distinct (map fst kvs) \<Longrightarrow> json_encodable (obj kvs) \<longleftrightarrow> list_all (\<lambda>(k, v). pred_option json_encodable v) kvs"
  by (simp add: obj_def encodable_put_fields)

lemma jvalue_wrapped:
  assumes "enc x \<noteq> ANil" "dec (enc x) = (if ok then jret y else None)"
  shows "jvalue (Some (enc x)) None (jsome dec) = (if ok then jret (Some y) else None)"
  using assms by (simp add: jvalue_def jsome_def)

lemma event_wrapper_back:
  assumes "json_lib_ok J" "timed_event e"
  shows "\<exists>w. StreamResponse_MarshalJSON (Some e) = Inr w \<and> wrapper_json J w \<noteq> ANil \<and>
    (if readable_event e
     then \<exists>w'. wrapper_of_json J a (wrapper_json J w) = jret w' \<and>
       StreamResponse_UnmarshalJSON w' = Inr (same_address a (wire_event J e))
     else wrapper_of_json J a (wrapper_json J w) = None)"
proof (cases e)
  case (EMessage m)
  note msg_back = jvalue_wrapped[where enc = msg_json and dec = "message_of_json J", OF message_not_nil message_back]
  show ?thesis
    by (simp add: EMessage wrapper_of_json_def wrapper_json_def field_eqs empty_wrapper_def msg_back
        StreamResponse_UnmarshalJSON_def)
next
  case (ETask b t)
  then have "task_of_json J (task_json J t) = (if readable_task t then jret (wire_task J t) else None)"
    using assms by (simp add: task_back)
  from jvalue_wrapped[where enc = "task_json J" and dec = "task_of_json J", OF _ this] show ?thesis
    by (simp add: ETask wrapper_of_json_def wrapper_json_def field_eqs empty_wrapper_def
        StreamResponse_UnmarshalJSON_def task_json_def)
next
  case (EStatus s)
  then have "status_event_of_json J (status_event_json J s) = (if readable_status (se_Status s)
      then jret (s\<lparr>se_Status := wire_status J (se_Status s), se_Metadata := wire_meta J (se_Metadata s)\<rparr>) else None)"
    using assms by (cases s) (simp add: status_event_of_json_def status_event_json_def field_eqs jvalue_status)
  from jvalue_wrapped[where enc = "status_event_json J" and dec = "status_event_of_json J", OF _ this] show ?thesis
    by (simp add: EStatus wrapper_of_json_def wrapper_json_def field_eqs empty_wrapper_def
        StreamResponse_UnmarshalJSON_def status_event_json_def)
next
  case (EArtifact u)
  note art = jvalue_wrapped[where enc = artifact_json and dec = "artifact_of_json J", OF artifact_not_nil artifact_back]
  have "artifact_event_of_json J (artifact_event_json u) = (if readable_artifact (ae_Artifact u)
      then jret (u\<lparr>ae_Artifact := wire_artifact J (ae_Artifact u), ae_Metadata := wire_meta J (ae_Metadata u)\<rparr>) else None)"
    by (cases u) (simp add: artifact_event_of_json_def artifact_event_json_def field_eqs art)
  from jvalue_wrapped[where enc = artifact_event_json and dec = "artifact_event_of_json J", OF _ this] show ?thesis
    by (simp add: EArtifact wrapper_of_json_def wrapper_json_def field_eqs empty_wrapper_def
        StreamResponse_UnmarshalJSON_def artifact_event_json_def)
qed

lemma event_back:
  assumes "json_lib_ok J" "timed_event e" "marshal_event J (Some e) = Inr doc"
  shows "unmarshal_event J a doc =
    (if readable_event e then Inr (False, same_address a (wire_event J e))
     else Inl (Errorf ''failed to unmarshal event: %w'' []))"
proof -
  obtain w where w: "StreamResponse_MarshalJSON (Some e) = Inr w" "wrapper_json J w \<noteq> ANil"
    "if readable_event e
     then \<exists>w'. wrapper_of_json J a (wrapper_json J w) = jret w' \<and>
       StreamResponse_UnmarshalJSON w' = Inr (same_address a (wire_event J e))
     else wrapper_of_json J a (wrapper_json J w) = None"
    using event_wrapper_back[OF assms(1,2)] by blast
  from assms(3) w(1) have "doc = wrapper_json J w"
    by (simp add: marshal_event_def json_marshal_def split: if_splits)
  with w(2,3) show ?thesis by (auto simp: unmarshal_event_def jret_def split: if_splits)
qed

text \<open>
  An event that has been written as JSON is read back as the same event, with its data and
  metadata in decoded form and its timestamp cut to milliseconds; only an event with a part without
  content or with an empty URL cannot be read.
\<close>

theorem json_event_roundtrip:
  assumes "json_lib_ok J" "timed_event e" "marshal_event J (Some e) = Inr doc"
  shows "unmarshal_event J a doc =
    (if readable_event e then Inr (False, same_address a (wire_event J e))
     else Inl (Errorf ''failed to unmarshal event: %w'' []))"
  by (rule event_back[OF assms])

section \<open>JSON and protobuf\<close>

text \<open>
  The events that look the same to the clients of all transports: no float32 in dynamic values, no
  empty maps for metadata, times of whole milliseconds.
\<close>

primrec no_f32 :: "any \<Rightarrow> bool" where
  "no_f32 ANil = True"
| "no_f32 (ABool b) = True"
| "no_f32 (AInt k i) = True"
| "no_f32 (AFloat k r) = (k = KFloat64)"
| "no_f32 (AString s) = True"
| "no_f32 (AArr xs) = list_all (\<lambda>b. b) (map no_f32 xs)"
| "no_f32 (AMap m) = fmpred (\<lambda>k b. b) (fmmap no_f32 m)"
| "no_f32 (AStrMap m) = True"
| "no_f32 (AOther t) = True"

definition canon_meta :: "metadata \<Rightarrow> bool" where
  "canon_meta m = (case m of None \<Rightarrow> True | Some f \<Rightarrow> f \<noteq> fmempty \<and> no_f32 (AMap f))"

definition canon_part :: "part \<Rightarrow> bool" where
  "canon_part p = (canon_meta (part_Metadata p) \<and> (case part_Content p of Some (Data v) \<Rightarrow> no_f32 v | _ \<Rightarrow> True))"

definition canon_message :: "message \<Rightarrow> bool" where
  "canon_message m = (canon_meta (msg_Metadata m) \<and> list_all canon_part (msg_Parts m))"

definition canon_status :: "task_status \<Rightarrow> bool" where
  "canon_status s = (pred_option canon_message (ts_Message s) \<and> pred_option (\<lambda>t. truncate_ms t = t) (ts_Timestamp s))"

definition canon_artifact :: "artifact \<Rightarrow> bool" where
  "canon_artifact a = (canon_meta (art_Metadata a) \<and> list_all canon_part (art_Parts a))"

definition canon_task :: "task \<Rightarrow> bool" where
  "canon_task t = (canon_meta (task_Metadata t) \<and> list_all canon_artifact (task_Artifacts t) \<and>
     list_all canon_message (task_History t) \<and> canon_status (task_Status t))"

fun canon_event :: "event \<Rightarrow> bool" where
  "canon_event (EMessage m) = canon_message m"
| "canon_event (ETask a t) = canon_task t"
| "canon_event (EStatus e) = (canon_status (se_Status e) \<and> canon_meta (se_Metadata e))"
| "canon_event (EArtifact e) = (canon_artifact (ae_Artifact e) \<and> canon_meta (ae_Metadata e))"

lemma json_norm_no_f32: "no_f32 v \<Longrightarrow> json_norm f v = json_norm g v"
proof (induction v)
  case (AMap m)
  then have "norm_map f m = norm_map g m"
    by (intro fmap_ext) (auto simp: map_option_case fmpred_iff fmran'I split: option.splits)
  then show ?case by simp
qed (auto simp: list_all_iff)

lemma canon_meta_same: "canon_meta m \<Longrightarrow> wire_meta J m = norm_meta m"
  using json_norm_no_f32[of "AMap (the m)" "jl_f32 J" float_exact]
  by (cases m) (auto simp: canon_meta_def wire_meta_def norm_meta_def gm_len_keys gm_fmap_def gm_keys_def gm_len_def)

lemma canon_part_same: "canon_part p \<Longrightarrow> wire_part J p = norm_part p"
proof -
  assume c: "canon_part p"
  then have "map_option (wire_content J) (part_Content p) = map_option norm_content (part_Content p)"
    using json_norm_no_f32[of _ "jl_f32 J" float_exact]
    by (cases "part_Content p") (auto simp: canon_part_def split: part_content.splits)
  then show ?thesis using c by (simp add: wire_part_def norm_part_def canon_part_def canon_meta_same)
qed

lemma canon_message_same: "canon_message m \<Longrightarrow> valid_message m \<Longrightarrow> wire_message J m = norm_message m"
  by (auto simp: canon_message_def wire_message_def norm_message_def canon_meta_same canon_part_same list_all_iff
      valid_message_def MessageRole_UnmarshalJSON_def MessageRole_String_def go_consts)

lemma norm_state_same: "TaskStateFromString s = norm_state s"
  by (auto simp: TaskStateFromString_def norm_state_def)

lemma canon_status_same: "canon_status s \<Longrightarrow> valid_status s \<Longrightarrow> wire_status J s = norm_status s"
  by (cases "ts_Message s"; cases "ts_Timestamp s")
    (simp_all add: canon_status_def valid_status_def wire_status_def norm_status_def canon_message_same norm_state_same)

lemma canon_artifact_same: "canon_artifact a \<Longrightarrow> wire_artifact J a = norm_artifact a"
  by (auto simp: canon_artifact_def wire_artifact_def norm_artifact_def canon_meta_same canon_part_same list_all_iff)

lemma canon_event_same: "canon_event e \<Longrightarrow> valid_event e \<Longrightarrow> wire_event J e = norm_event e"
  by (cases e) (auto simp: canon_message_same canon_status_same canon_artifact_same canon_meta_same list_all_iff
      canon_task_def valid_task_def wire_task_def norm_task_def)


text \<open>A library whose times are texts of as many digits as milliseconds.\<close>

definition unary_ms :: json_lib where
  "unary_ms = \<lparr>jl_time = \<lparr>Format = (\<lambda>t. replicate (nat (t div 1000000 + 62135596800000)) (CHR ''1'')),
     Parse = (\<lambda>s. Some ((int (length s) - 62135596800000) * 1000000))\<rparr>, jl_f32 = float_exact\<rparr>"

lemma unary_ms_ok: "json_lib_ok unary_ms"
proof -
  have "int (nat (t div 1000000 + 62135596800000)) = t div 1000000 + 62135596800000" if "time_range t" for t
  proof -
    have "- 62135596800000000000 div 1000000 \<le> t div 1000000"
      by (rule zdiv_mono1) (use that in \<open>simp_all add: time_range_def\<close>)
    then show ?thesis by simp
  qed
  then show ?thesis
    by (simp add: json_lib_ok_def unary_ms_def truncate_ms_def minus_mod_eq_div_mult)
qed

definition hello_event :: event where
  "hello_event = EMessage (NewMessage ''m'' MessageRoleUser [NewTextPart ''hi''])"

lemma hello_event_json:
  "marshal_event J (Some hello_event) = Inr (obj [(''message'', Some (msg_json (NewMessage ''m'' MessageRoleUser [NewTextPart ''hi''])))])"
proof -
  let ?m = "NewMessage ''m'' MessageRoleUser [NewTextPart ''hi'']"
  have "wrapper_json J (empty_wrapper\<lparr>w_Message := Some ?m\<rparr>) = obj [(''message'', Some (msg_json ?m))]"
    by (simp add: wrapper_json_def empty_wrapper_def obj_def put_fields.simps)
  moreover have "json_encodable (msg_json ?m)"
    by (simp add: msg_json_def NewMessage_def NewTextPart_def str_omit_def list_omit_def meta_omit_def
        ContentParts_MarshalJSON_def Part_MarshalJSON_def gm_len_def gm_keys_def)
  ultimately show ?thesis by (simp add: marshal_event_def hello_event_def json_marshal_def)
qed

lemma hello_event_ok:
  "timed_event hello_event" "readable_event hello_event" "canon_event hello_event" "valid_event hello_event"
  "sendable_event hello_event" "wire_event J hello_event = hello_event"
  by (simp_all add: hello_event_def readable_message_def readable_part_def NewMessage_def NewTextPart_def
      wire_message_def wire_part_def wire_meta_def gm_len_def gm_keys_def MessageRole_UnmarshalJSON_def
      MessageRole_String_def go_consts canon_message_def canon_part_def canon_meta_def valid_message_def
      sendable_message_def sendable_part_def sendable_meta_def)

lemma json_event_roundtrip_witness:
  "unmarshal_event unary_ms 7 (obj [(''message'', Some (msg_json (NewMessage ''m'' MessageRoleUser [NewTextPart ''hi''])))]) =
     Inr (False, EMessage (NewMessage ''m'' MessageRoleUser [NewTextPart ''hi'']))"
  using json_event_roundtrip[OF unary_ms_ok hello_event_ok(1) hello_event_json, of 7]
  by (simp only: hello_event_ok if_True) (simp add: hello_event_def)


end
