(* ===== verification/RequestJson.thy ===== *)
theory RequestJson
  imports CoreJson
begin

text \<open>
  The JSON form of the requests and responses (struct tags and custom marshalers of \<open>a2a/core.go\<close> and
  \<open>a2a/push.go\<close>), for the JSON-RPC and the HTTP transport.
\<close>

section \<open>Push notification configurations\<close>

definition push_auth_json :: "push_auth_info \<Rightarrow> any" where
  "push_auth_json a = obj
     [(''credentials'', str_omit (pa_Credentials a)), (''scheme'', Some (AString (pa_Scheme a)))]"

definition push_auth_of_json :: "any \<Rightarrow> push_auth_info jdec" where
  "push_auth_of_json = jstruct (\<lambda>m.
     jbind (jfield m ''credentials'' '''' jstring) (\<lambda>c.
     jbind (jfield m ''scheme'' '''' jstring) (\<lambda>s. jret \<lparr>pa_Credentials = c, pa_Scheme = s\<rparr>)))"

definition push_config_json :: "push_config \<Rightarrow> any" where
  "push_config_json c = obj
     [(''tenant'', str_omit (pc_Tenant c)), (''taskId'', Some (AString (pc_TaskID c))), (''id'', str_omit (pc_ID c)),
      (''authentication'', map_option push_auth_json (pc_Auth c)), (''token'', str_omit (pc_Token c)),
      (''url'', Some (AString (pc_URL c)))]"

definition push_config_of_json :: "any \<Rightarrow> push_config jdec" where
  "push_config_of_json = jstruct (\<lambda>m.
     jbind (jfield m ''tenant'' '''' jstring) (\<lambda>tenant.
     jbind (jfield m ''taskId'' '''' jstring) (\<lambda>task.
     jbind (jfield m ''id'' '''' jstring) (\<lambda>cid.
     jbind (jfield m ''authentication'' None (jsome push_auth_of_json)) (\<lambda>auth.
     jbind (jfield m ''token'' '''' jstring) (\<lambda>token.
     jbind (jfield m ''url'' '''' jstring) (\<lambda>url.
       jret \<lparr>pc_Tenant = tenant, pc_TaskID = task, pc_ID = cid, pc_Auth = auth, pc_Token = token, pc_URL = url\<rparr>)))))))"

definition push_request_json :: "push_request \<Rightarrow> any" where
  "push_request_json r = obj
     [(''tenant'', str_omit (pr_Tenant r)), (''taskId'', Some (AString (pr_TaskID r))), (''id'', Some (AString (pr_ID r)))]"

definition push_request_of_json :: "any \<Rightarrow> push_request jdec" where
  "push_request_of_json = jstruct (\<lambda>m.
     jbind (jfield m ''tenant'' '''' jstring) (\<lambda>tenant.
     jbind (jfield m ''taskId'' '''' jstring) (\<lambda>task.
     jbind (jfield m ''id'' '''' jstring) (\<lambda>cid. jret \<lparr>pr_Tenant = tenant, pr_TaskID = task, pr_ID = cid\<rparr>))))"

definition list_push_request_json :: "list_push_request \<Rightarrow> any" where
  "list_push_request_json r = obj
     [(''tenant'', str_omit (lpr_Tenant r)), (''taskId'', Some (AString (lpr_TaskID r))),
      (''pageSize'', int_omit (lpr_PageSize r)), (''pageToken'', str_omit (lpr_PageToken r))]"

definition list_push_request_of_json :: "any \<Rightarrow> list_push_request jdec" where
  "list_push_request_of_json = jstruct (\<lambda>m.
     jbind (jfield m ''tenant'' '''' jstring) (\<lambda>tenant.
     jbind (jfield m ''taskId'' '''' jstring) (\<lambda>task.
     jbind (jfield m ''pageSize'' 0 jint) (\<lambda>size.
     jbind (jfield m ''pageToken'' '''' jstring) (\<lambda>token.
       jret \<lparr>lpr_Tenant = tenant, lpr_TaskID = task, lpr_PageSize = size, lpr_PageToken = token\<rparr>)))))"

definition list_push_response_json :: "list_push_response \<Rightarrow> any" where
  "list_push_response_json r = obj
     [(''configs'', Some (AArr (map push_config_json (lps_Configs r)))), (''nextPageToken'', str_omit (lps_NextPageToken r))]"

definition list_push_response_of_json :: "any \<Rightarrow> list_push_response jdec" where
  "list_push_response_of_json = jstruct (\<lambda>m.
     jbind (jfield m ''configs'' [] (jpointers push_config_of_json)) (\<lambda>configs.
     jbind (jfield m ''nextPageToken'' '''' jstring) (\<lambda>token.
       jret \<lparr>lps_Configs = configs, lps_NextPageToken = token\<rparr>)))"

section \<open>Messages and tasks\<close>

definition send_config_json :: "send_config \<Rightarrow> any" where
  "send_config_json c = obj
     [(''acceptedOutputModes'', list_omit (map AString (cfg_AcceptedOutputModes c))),
      (''returnImmediately'', bool_omit (cfg_ReturnImmediately c)),
      (''historyLength'', map_option int_lit (cfg_HistoryLength c)),
      (''taskPushNotificationConfig'', map_option push_config_json (cfg_PushConfig c))]"

definition send_config_of_json :: "any \<Rightarrow> send_config jdec" where
  "send_config_of_json = jstruct (\<lambda>m.
     jbind (jfield m ''acceptedOutputModes'' [] jstrings) (\<lambda>modes.
     jbind (jfield m ''returnImmediately'' False jbool) (\<lambda>now.
     jbind (jfield m ''historyLength'' None (jsome jint)) (\<lambda>h.
     jbind (jfield m ''taskPushNotificationConfig'' None (jsome push_config_of_json)) (\<lambda>push.
       jret \<lparr>cfg_AcceptedOutputModes = modes, cfg_ReturnImmediately = now, cfg_HistoryLength = h,
         cfg_PushConfig = push\<rparr>)))))"

definition send_request_json :: "send_request \<Rightarrow> any" where
  "send_request_json r = obj
     [(''tenant'', str_omit (req_Tenant r)), (''configuration'', map_option send_config_json (req_Config r)),
      (''message'', Some (case req_Message r of None \<Rightarrow> ANil | Some m \<Rightarrow> msg_json m)),
      (''metadata'', meta_omit (req_Metadata r))]"

definition send_request_of_json :: "json_lib \<Rightarrow> any \<Rightarrow> send_request jdec" where
  "send_request_of_json J = jstruct (\<lambda>m.
     jbind (jfield m ''tenant'' '''' jstring) (\<lambda>tenant.
     jbind (jfield m ''configuration'' None (jsome send_config_of_json)) (\<lambda>config.
     jbind (jfield m ''message'' None (jsome (message_of_json J))) (\<lambda>msg.
     jbind (jfield m ''metadata'' None (jmap J)) (\<lambda>md.
       jret \<lparr>req_Tenant = tenant, req_Config = config, req_Message = msg, req_Metadata = md\<rparr>)))))"

definition get_request_json :: "get_request \<Rightarrow> any" where
  "get_request_json r = obj
     [(''tenant'', str_omit (get_Tenant r)), (''id'', Some (AString (get_ID r))),
      (''historyLength'', map_option int_lit (get_HistoryLength r))]"

definition get_request_of_json :: "any \<Rightarrow> get_request jdec" where
  "get_request_of_json = jstruct (\<lambda>m.
     jbind (jfield m ''tenant'' '''' jstring) (\<lambda>tenant.
     jbind (jfield m ''id'' '''' jstring) (\<lambda>tid.
     jbind (jfield m ''historyLength'' None (jsome jint)) (\<lambda>h.
       jret \<lparr>get_Tenant = tenant, get_ID = tid, get_HistoryLength = h\<rparr>))))"

definition ListTasksRequest_MarshalJSON :: "json_lib \<Rightarrow> list_request \<Rightarrow> any" where
  "ListTasksRequest_MarshalJSON J r = obj
     [(''tenant'', str_omit (list_Tenant r)), (''contextId'', str_omit (list_ContextID r)),
      (''status'', if list_Status r = '''' then None else Some (AString (TaskState_String (list_Status r)))),
      (''pageSize'', int_omit (list_PageSize r)), (''pageToken'', str_omit (list_PageToken r)),
      (''historyLength'', map_option int_lit (list_HistoryLength r)),
      (''statusTimestampAfter'', time_text J (list_StatusTimestampAfter r)),
      (''includeArtifacts'', bool_omit (list_IncludeArtifacts r))]"

definition list_request_of_json :: "json_lib \<Rightarrow> any \<Rightarrow> list_request jdec" where
  "list_request_of_json J = jstruct (\<lambda>m.
     jbind (jfield m ''tenant'' '''' jstring) (\<lambda>tenant.
     jbind (jfield m ''contextId'' '''' jstring) (\<lambda>ctx.
     jbind (jfield m ''status'' '''' jstring) (\<lambda>status.
     jbind (jfield m ''pageSize'' 0 jint) (\<lambda>size.
     jbind (jfield m ''pageToken'' '''' jstring) (\<lambda>token.
     jbind (jfield m ''historyLength'' None (jsome jint)) (\<lambda>h.
     jbind (jfield m ''statusTimestampAfter'' None (jtime J)) (\<lambda>t.
     jbind (jfield m ''includeArtifacts'' False jbool) (\<lambda>arts.
       jret \<lparr>list_Tenant = tenant, list_ContextID = ctx, list_Status = TaskStateFromString status,
         list_PageSize = size, list_PageToken = token, list_HistoryLength = h, list_StatusTimestampAfter = t,
         list_IncludeArtifacts = arts\<rparr>)))))))))"

definition list_response_json :: "json_lib \<Rightarrow> list_response \<Rightarrow> any" where
  "list_response_json J r = obj
     [(''tasks'', Some (AArr (map (task_json J) (resp_Tasks r)))), (''totalSize'', Some (int_lit (resp_TotalSize r))),
      (''pageSize'', Some (int_lit (resp_PageSize r))), (''nextPageToken'', Some (AString (resp_NextPageToken r)))]"

definition list_response_of_json :: "json_lib \<Rightarrow> any \<Rightarrow> list_response jdec" where
  "list_response_of_json J = jstruct (\<lambda>m.
     jbind (jfield m ''tasks'' [] (jpointers (task_of_json J))) (\<lambda>tasks.
     jbind (jfield m ''totalSize'' 0 jint) (\<lambda>total.
     jbind (jfield m ''pageSize'' 0 jint) (\<lambda>size.
     jbind (jfield m ''nextPageToken'' '''' jstring) (\<lambda>token.
       jret \<lparr>resp_Tasks = tasks, resp_TotalSize = total, resp_PageSize = size, resp_NextPageToken = token\<rparr>)))))"

definition cancel_request_json :: "cancel_request \<Rightarrow> any" where
  "cancel_request_json r = obj
     [(''tenant'', str_omit (cancel_Tenant r)), (''id'', Some (AString (cancel_ID r))),
      (''metadata'', meta_omit (cancel_Metadata r))]"

definition cancel_request_of_json :: "json_lib \<Rightarrow> any \<Rightarrow> cancel_request jdec" where
  "cancel_request_of_json J = jstruct (\<lambda>m.
     jbind (jfield m ''tenant'' '''' jstring) (\<lambda>tenant.
     jbind (jfield m ''id'' '''' jstring) (\<lambda>tid.
     jbind (jfield m ''metadata'' None (jmap J)) (\<lambda>md.
       jret \<lparr>cancel_Tenant = tenant, cancel_ID = tid, cancel_Metadata = md\<rparr>))))"

definition subscribe_request_json :: "subscribe_request \<Rightarrow> any" where
  "subscribe_request_json r = obj [(''tenant'', str_omit (sub_Tenant r)), (''id'', Some (AString (sub_ID r)))]"

definition subscribe_request_of_json :: "any \<Rightarrow> subscribe_request jdec" where
  "subscribe_request_of_json = jstruct (\<lambda>m.
     jbind (jfield m ''tenant'' '''' jstring) (\<lambda>tenant.
     jbind (jfield m ''id'' '''' jstring) (\<lambda>tid. jret \<lparr>sub_Tenant = tenant, sub_ID = tid\<rparr>)))"

definition extended_card_request_json :: "extended_card_request \<Rightarrow> any" where
  "extended_card_request_json r = obj [(''tenant'', str_omit (ecr_Tenant r))]"

definition extended_card_request_of_json :: "any \<Rightarrow> extended_card_request jdec" where
  "extended_card_request_of_json = jstruct (\<lambda>m.
     jbind (jfield m ''tenant'' '''' jstring) (\<lambda>tenant. jret \<lparr>ecr_Tenant = tenant\<rparr>))"

section \<open>Reading what was written\<close>

text \<open>The integers of a Go program are in the range of int64.\<close>

definition go_history :: "int option \<Rightarrow> bool" where
  "go_history h = pred_option int64_range h"

lemma int_lit_simps [simp]:
  "int64_range i \<Longrightarrow> jvalue (Some (int_lit i)) zero jint = jret i"
  "int64_range i \<Longrightarrow> jvalue (int_omit i) 0 jint = jret i"
  "go_history h \<Longrightarrow> jvalue (map_option int_lit h) None (jsome jint) = jret h"
  by (cases h; simp add: jvalue_def int_lit_def int_omit_def go_history_def jsome_def)+

lemma jvalue_array: "jvalue (Some (AArr xs)) zero dec = dec (AArr xs)"
  by (simp add: jvalue_def)

lemma push_auth_back: "push_auth_of_json (push_auth_json a) = (if True then jret a else None)"
  by (cases a) (simp add: push_auth_of_json_def push_auth_json_def field_eqs)

lemma push_config_json_back: "push_config_of_json (push_config_json c) = jret c"
proof -
  have "jvalue (map_option push_auth_json v) None (jsome push_auth_of_json) =
      (if pred_option (\<lambda>_. True) v then jret (map_option (\<lambda>x. x) v) else None)" for v
    by (rule jvalue_jsome) (simp_all add: push_auth_back, simp add: push_auth_json_def)
  then show ?thesis
    by (cases c) (simp add: push_config_of_json_def push_config_json_def field_eqs pred_option_def option.map_ident)
qed

lemma push_config_not_nil [simp]: "push_config_json c \<noteq> ANil"
  by (simp add: push_config_json_def)

lemma push_request_json_back: "push_request_of_json (push_request_json r) = jret r"
  by (cases r) (simp add: push_request_of_json_def push_request_json_def field_eqs)

lemma list_push_request_json_back:
  "int64_range (lpr_PageSize r) \<Longrightarrow> list_push_request_of_json (list_push_request_json r) = jret r"
  by (cases r) (simp add: list_push_request_of_json_def list_push_request_json_def field_eqs)

lemma list_push_response_json_back: "list_push_response_of_json (list_push_response_json r) = jret r"
proof -
  have "jpointers push_config_of_json (AArr (map push_config_json cs)) =
      (if list_all (\<lambda>_. True) cs then jret (map (\<lambda>x. x) cs) else None)" for cs
    by (rule jpointers_back) (simp add: push_config_json_back)
  then show ?thesis
    by (cases r) (simp add: list_push_response_of_json_def list_push_response_json_def field_eqs jvalue_array
        list_all_iff del: jpointers.simps)
qed

lemma send_config_json_back:
  "go_history (cfg_HistoryLength c) \<Longrightarrow> send_config_of_json (send_config_json c) = (if True then jret c else None)"
proof -
  assume h: "go_history (cfg_HistoryLength c)"
  have "jvalue (map_option push_config_json v) None (jsome push_config_of_json) =
      (if pred_option (\<lambda>_. True) v then jret (map_option (\<lambda>x. x) v) else None)" for v
    by (rule jvalue_jsome) (simp_all add: push_config_json_back)
  then show ?thesis using h
    by (cases c) (simp add: send_config_of_json_def send_config_json_def field_eqs pred_option_def option.map_ident)
qed

lemma send_config_not_nil [simp]: "send_config_json c \<noteq> ANil"
  by (simp add: send_config_json_def)

lemma task_not_nil [simp]: "task_json J t \<noteq> ANil"
  by (simp add: task_json_def)

definition wire_send_request :: "json_lib \<Rightarrow> send_request \<Rightarrow> send_request" where
  "wire_send_request J r = r\<lparr>req_Message := map_option (wire_message J) (req_Message r),
     req_Metadata := wire_meta J (req_Metadata r)\<rparr>"

definition go_send_request :: "send_request \<Rightarrow> bool" where
  "go_send_request r = pred_option (\<lambda>c. go_history (cfg_HistoryLength c)) (req_Config r)"

lemma send_request_json_back:
  assumes "go_send_request r"
  shows "send_request_of_json J (send_request_json r) =
    (if pred_option readable_message (req_Message r) then jret (wire_send_request J r) else None)"
proof -
  have cfg: "jvalue (map_option send_config_json (req_Config r)) None (jsome send_config_of_json) =
      (if pred_option (\<lambda>_. True) (req_Config r) then jret (map_option (\<lambda>x. x) (req_Config r)) else None)"
    by (rule jvalue_jsome) (use assms in \<open>simp_all add: send_config_json_back go_send_request_def\<close>)
  have msg: "jvalue (Some (case v of None \<Rightarrow> ANil | Some m \<Rightarrow> msg_json m)) None (jsome (message_of_json J)) =
      (if pred_option readable_message v then jret (map_option (wire_message J) v) else None)" for v
    by (cases v) (simp_all add: jvalue_def jsome_def message_back)
  show ?thesis using cfg
    by (cases r) (simp add: send_request_of_json_def send_request_json_def field_eqs msg wire_send_request_def pred_option_def option.map_ident)
qed

lemma get_request_json_back:
  "go_history (get_HistoryLength r) \<Longrightarrow> get_request_of_json (get_request_json r) = jret r"
  by (cases r) (simp add: get_request_of_json_def get_request_json_def field_eqs)

definition wire_list_request :: "list_request \<Rightarrow> list_request" where
  "wire_list_request r = r\<lparr>list_Status := TaskStateFromString (list_Status r),
     list_StatusTimestampAfter := map_option truncate_ms (list_StatusTimestampAfter r)\<rparr>"

definition go_list_request :: "list_request \<Rightarrow> bool" where
  "go_list_request r = (int64_range (list_PageSize r) \<and> go_history (list_HistoryLength r) \<and>
     pred_option time_range (list_StatusTimestampAfter r))"

lemma list_request_json_back:
  assumes "json_lib_ok J" "go_list_request r"
  shows "list_request_of_json J (ListTasksRequest_MarshalJSON J r) = jret (wire_list_request r)"
proof -
  have "TaskStateFromString '''' = ''''" by (simp add: TaskStateFromString_def go_consts)
  moreover have "jvalue (if s = '''' then None else Some (AString (TaskState_String s))) '''' jstring =
      jret (if s = '''' then '''' else TaskState_String s)" for s by simp
  ultimately show ?thesis using assms
    by (cases r) (simp add: list_request_of_json_def ListTasksRequest_MarshalJSON_def field_eqs go_list_request_def
        jvalue_time wire_list_request_def wire_state)
qed

definition wire_list_response :: "json_lib \<Rightarrow> list_response \<Rightarrow> list_response" where
  "wire_list_response J r = r\<lparr>resp_Tasks := map (wire_task J) (resp_Tasks r)\<rparr>"

definition go_list_response :: "list_response \<Rightarrow> bool" where
  "go_list_response r = (int64_range (resp_TotalSize r) \<and> int64_range (resp_PageSize r) \<and>
     list_all (\<lambda>t. timed_status (task_Status t)) (resp_Tasks r))"

lemma list_response_json_back:
  assumes "json_lib_ok J" "go_list_response r"
  shows "list_response_of_json J (list_response_json J r) =
    (if list_all readable_task (resp_Tasks r) then jret (wire_list_response J r) else None)"
proof -
  have "jpointers (task_of_json J) (AArr (map (task_json J) (resp_Tasks r))) =
      (if list_all readable_task (resp_Tasks r) then jret (map (wire_task J) (resp_Tasks r)) else None)"
    by (rule jpointers_back) (use assms in \<open>auto simp: go_list_response_def list_all_iff task_back\<close>)
  then show ?thesis using assms(2)
    by (cases r) (simp add: list_response_of_json_def list_response_json_def field_eqs jvalue_array
        go_list_response_def wire_list_response_def del: jpointers.simps)
qed

lemma cancel_request_json_back:
  "cancel_request_of_json J (cancel_request_json r) = jret (r\<lparr>cancel_Metadata := wire_meta J (cancel_Metadata r)\<rparr>)"
  by (cases r) (simp add: cancel_request_of_json_def cancel_request_json_def field_eqs)

lemma subscribe_request_json_back: "subscribe_request_of_json (subscribe_request_json r) = jret r"
  by (cases r) (simp add: subscribe_request_of_json_def subscribe_request_json_def field_eqs)

lemma extended_card_request_json_back: "extended_card_request_of_json (extended_card_request_json r) = jret r"
  by (cases r) (simp add: extended_card_request_of_json_def extended_card_request_json_def field_eqs)

end
