(* ===== verification/RestRoutes.thy ===== *)
theory RestRoutes
  imports Interceptors PathTemplate RequestJson
begin

text \<open>
  Paths and query parameters of the HTTP+JSON binding: the path builder of \<open>internal/rest/rest.go\<close>,
  the routes the server registers (\<open>a2asrv/rest.go\<close>), the paths of the client
  (\<open>a2aclient/rest.go\<close>), and the text forms of the query parameters. The functions of the standard
  library they are passed to are modelled as far as they are used.
\<close>

section \<open>The path builder\<close>

text \<open>A \<open>PathBuilder\<close> is its prefix; the package level functions use the empty one.\<close>

definition path_ListTasks :: "string \<Rightarrow> string" where
  "path_ListTasks p = p @ ''/tasks''"

definition path_SendMessage :: "string \<Rightarrow> string" where
  "path_SendMessage p = p @ ''/message:send''"

definition path_StreamMessage :: "string \<Rightarrow> string" where
  "path_StreamMessage p = p @ ''/message:stream''"

definition path_GetExtendedAgentCard :: "string \<Rightarrow> string" where
  "path_GetExtendedAgentCard p = p @ ''/extendedAgentCard''"

definition path_GetTask :: "string \<Rightarrow> string \<Rightarrow> string" where
  "path_GetTask p taskID = p @ ''/tasks/'' @ taskID"

definition path_CancelTask :: "string \<Rightarrow> string \<Rightarrow> string" where
  "path_CancelTask p taskID = p @ ''/tasks/'' @ taskID @ '':cancel''"

definition path_SubscribeTask :: "string \<Rightarrow> string \<Rightarrow> string" where
  "path_SubscribeTask p taskID = p @ ''/tasks/'' @ taskID @ '':subscribe''"

definition path_PushConfigs :: "string \<Rightarrow> string \<Rightarrow> string" where
  "path_PushConfigs p taskID = p @ ''/tasks/'' @ taskID @ ''/pushNotificationConfigs''"

definition path_PushConfig :: "string \<Rightarrow> string \<Rightarrow> string \<Rightarrow> string" where
  "path_PushConfig p taskID configID = p @ ''/tasks/'' @ taskID @ ''/pushNotificationConfigs/'' @ configID"

lemmas path_defs = path_ListTasks_def path_SendMessage_def path_StreamMessage_def path_GetExtendedAgentCard_def
  path_GetTask_def path_CancelTask_def path_SubscribeTask_def path_PushConfigs_def path_PushConfig_def

section \<open>Clean paths\<close>

text \<open>\<open>path.Clean\<close> of a rooted path, on its segments; \<open>path.Join\<close> and \<open>URL.JoinPath\<close>.\<close>

fun clean_segments :: "string list \<Rightarrow> string list \<Rightarrow> string list" where
  "clean_segments done [] = rev done"
| "clean_segments done (s # ss) =
     (if s = '''' \<or> s = ''.'' then clean_segments done ss
      else if s = ''..'' then clean_segments (tl done) ss
      else clean_segments (s # done) ss)"

definition path_Clean :: "string \<Rightarrow> string" where
  "path_Clean p = CHR ''/'' # strings_Join (clean_segments [] (split_on (CHR ''/'') p)) ''/''"

definition ends_with_slash :: "string \<Rightarrow> bool" where
  "ends_with_slash p \<longleftrightarrow> p \<noteq> [] \<and> last p = CHR ''/''"

text \<open>The base is the escaped path of the endpoint's URL; the result is the path of the request.\<close>

definition JoinPath :: "string \<Rightarrow> string list \<Rightarrow> string" where
  "JoinPath base elems =
     (let p = path_Clean (strings_Join (filter (\<lambda>e. e \<noteq> '''') (base # elems)) ''/'')
      in if ends_with_slash (last (base # elems)) \<and> \<not> ends_with_slash p then p @ ''/'' else p)"

definition cleanPath :: "string \<Rightarrow> string" where
  "cleanPath p =
     (let np = path_Clean p in if ends_with_slash p \<and> np \<noteq> ''/'' then np @ ''/'' else np)"

section \<open>Routes\<close>

datatype rest_handler = HSendMessage | HStreamMessage | HListTasks | HGetOrSubscribe | HCancelOrSubscribe
  | HCreatePush | HGetPush | HListPush | HDeletePush | HExtendedCard

definition rest_routes :: "(string \<times> string \<times> rest_handler) list" where
  "rest_routes =
     [(''POST'', path_SendMessage '''', HSendMessage), (''POST'', path_StreamMessage '''', HStreamMessage),
      (''GET'', path_ListTasks '''', HListTasks), (''GET'', ''/tasks/{idAndAction}'', HGetOrSubscribe),
      (''POST'', ''/tasks/{idAndAction}'', HCancelOrSubscribe), (''POST'', path_PushConfigs '''' ''{id}'', HCreatePush),
      (''GET'', path_PushConfig '''' ''{id}'' ''{configId}'', HGetPush),
      (''GET'', path_PushConfigs '''' ''{id}'', HListPush),
      (''DELETE'', path_PushConfig '''' ''{id}'' ''{configId}'', HDeletePush),
      (''GET'', path_GetExtendedAgentCard '''', HExtendedCard)]"

text \<open>
  The matching of the mux: segment by segment, on unescaped segments; a wildcard takes one segment
  that is not empty. Patterns of one method do not overlap, so the first match is the only one.
\<close>

fun match_pattern :: "string list \<Rightarrow> string list \<Rightarrow> string list option" where
  "match_pattern [] [] = Some []"
| "match_pattern (p # ps) (s # ss) =
     (if p \<noteq> [] \<and> hd p = CHR ''{'' then (if s = [] then None else map_option ((#) s) (match_pattern ps ss))
      else if p = s then match_pattern ps ss else None)"
| "match_pattern _ _ = None"

definition mux_segments :: "string \<Rightarrow> string list" where
  "mux_segments path =
     map (\<lambda>s. case PathUnescape s of Some u \<Rightarrow> u | None \<Rightarrow> s) (split_on (CHR ''/'') (drop 1 path))"

definition find_route :: "string \<Rightarrow> string list \<Rightarrow> (rest_handler \<times> string list) option" where
  "find_route m segments = first_some (map (\<lambda>(m', pattern, h).
     if m' = m then map_option (Pair h) (match_pattern (split_on (CHR ''/'') (drop 1 pattern)) segments) else None) rest_routes)"

datatype mux_result = Route rest_handler "string list" | Redirect string | MethodNotAllowed | PageNotFound

definition mux_Handler :: "string \<Rightarrow> string \<Rightarrow> mux_result" where
  "mux_Handler m escapedPath =
     (let path = cleanPath escapedPath; segments = mux_segments path;
          found = (case find_route m segments of
              None \<Rightarrow> if m = ''HEAD'' then find_route ''GET'' segments else None
            | r \<Rightarrow> r)
      in if path \<noteq> escapedPath then Redirect path
         else (case found of
             Some (h, captured) \<Rightarrow> Route h captured
           | None \<Rightarrow> if \<exists>(m', pattern, h) \<in> set rest_routes. find_route m' segments \<noteq> None
                    then MethodNotAllowed else PageNotFound))"

section \<open>Numbers and flags as text\<close>

definition digit_char :: "nat \<Rightarrow> char" where
  "digit_char d = char_of (48 + d)"

fun nat_text :: "nat \<Rightarrow> string" where
  "nat_text n = (if n < 10 then [digit_char n] else nat_text (n div 10) @ [digit_char (n mod 10)])"

declare nat_text.simps [simp del]

definition Itoa :: "int \<Rightarrow> string" where
  "Itoa i = (if i < 0 then CHR ''-'' # nat_text (nat (- i)) else nat_text (nat i))"

definition digit_value :: "char \<Rightarrow> nat option" where
  "digit_value c = (let n = of_char c in if 48 \<le> n \<and> n \<le> 57 then Some (n - 48) else None)"

fun read_digits :: "nat \<Rightarrow> string \<Rightarrow> nat option" where
  "read_digits acc [] = Some acc"
| "read_digits acc (c # cs) = (case digit_value c of None \<Rightarrow> None | Some d \<Rightarrow> read_digits (10 * acc + d) cs)"

text \<open>\<open>strconv.Atoi\<close>: an optional sign, at least one digit, in the range of int64.\<close>

definition Atoi :: "string \<Rightarrow> int option" where
  "Atoi s =
     (let (neg, ds) = (case s of
          c # cs \<Rightarrow> if c = CHR ''-'' then (True, cs) else if c = CHR ''+'' then (False, cs) else (False, s)
        | [] \<Rightarrow> (False, []))
      in if ds = [] then None
         else (case read_digits 0 ds of
             None \<Rightarrow> None
           | Some n \<Rightarrow> (let i = (if neg then - int n else int n) in if int64_range i then Some i else None)))"

definition ParseBool :: "string \<Rightarrow> bool option" where
  "ParseBool s =
     (if s \<in> set [''1'', ''t'', ''T'', ''TRUE'', ''true'', ''True''] then Some True
      else if s \<in> set [''0'', ''f'', ''F'', ''FALSE'', ''false'', ''False''] then Some False else None)"

section \<open>Query parameters\<close>

type_synonym url_values = "(string, string list) fmap"

definition query_Get :: "url_values \<Rightarrow> string \<Rightarrow> string" where
  "query_Get q key = (case fmlookup q key of Some (v # vs) \<Rightarrow> v | _ \<Rightarrow> '''')"

definition query_Add :: "url_values \<Rightarrow> string \<Rightarrow> string \<Rightarrow> url_values" where
  "query_Add q key v = fmupd key ((case fmlookup q key of Some vs \<Rightarrow> vs | None \<Rightarrow> []) @ [v]) q"

text \<open>\<open>MergeQueryParams\<close>: the source in the order of a range loop.\<close>

definition MergeQueryParams :: "url_values \<Rightarrow> (string \<times> string list) list \<Rightarrow> url_values" where
  "MergeQueryParams dst src = foldl (\<lambda>q (k, vals). foldl (\<lambda>q v. query_Add q k v) q vals) dst src"

text \<open>The readers of the server: \<open>None\<close> is an error.\<close>

definition parseIntOpt :: "url_values \<Rightarrow> string \<Rightarrow> int option option" where
  "parseIntOpt query key =
     (let val = query_Get query key in if val = '''' then Some None else map_option Some (Atoi val))"

definition parseTimeOpt :: "json_lib \<Rightarrow> url_values \<Rightarrow> string \<Rightarrow> gotime option option" where
  "parseTimeOpt J query key =
     (let val = query_Get query key in if val = '''' then Some None else map_option Some (Parse (jl_time J) val))"

definition parseInt :: "url_values \<Rightarrow> string \<Rightarrow> int option" where
  "parseInt query key = (let val = query_Get query key in if val = '''' then Some 0 else Atoi val)"

definition parseBool :: "url_values \<Rightarrow> string \<Rightarrow> bool option" where
  "parseBool query key = (let val = query_Get query key in if val = '''' then Some False else ParseBool val)"

text \<open>What the client's \<open>GetTask\<close> and \<open>ListTasks\<close> put into the query.\<close>

definition get_task_query :: "get_request \<Rightarrow> url_values" where
  "get_task_query req =
     (case get_HistoryLength req of None \<Rightarrow> fmempty | Some n \<Rightarrow> query_Add fmempty ''historyLength'' (Itoa n))"

definition list_tasks_query :: "json_lib \<Rightarrow> list_request \<Rightarrow> url_values" where
  "list_tasks_query J req =
     (let q0 = fmempty;
          q1 = (if list_ContextID req \<noteq> '''' then query_Add q0 ''contextId'' (list_ContextID req) else q0);
          q2 = (if list_Status req \<noteq> '''' then query_Add q1 ''status'' (list_Status req) else q1);
          q3 = (if list_PageSize req \<noteq> 0 then query_Add q2 ''pageSize'' (Itoa (list_PageSize req)) else q2);
          q4 = (if list_PageToken req \<noteq> '''' then query_Add q3 ''pageToken'' (list_PageToken req) else q3);
          q5 = (case list_HistoryLength req of None \<Rightarrow> q4 | Some n \<Rightarrow> query_Add q4 ''historyLength'' (Itoa n));
          q6 = (case list_StatusTimestampAfter req of None \<Rightarrow> q5
                | Some t \<Rightarrow> query_Add q5 ''statusTimestampAfter'' (Format (jl_time J) t))
      in if list_IncludeArtifacts req then query_Add q6 ''includeArtifacts'' ''true'' else q6)"

text \<open>The part of \<open>handleListTasks\<close> that reads the request from the query.\<close>

definition read_list_query :: "json_lib \<Rightarrow> url_values \<Rightarrow> list_request option" where
  "read_list_query J query =
     (case parseInt query ''pageSize'' of
        None \<Rightarrow> None
      | Some pageSize \<Rightarrow>
          (case parseBool query ''includeArtifacts'' of
             None \<Rightarrow> None
           | Some includeArtifacts \<Rightarrow>
               (case parseIntOpt query ''historyLength'' of
                  None \<Rightarrow> None
                | Some historyLength \<Rightarrow>
                    (case parseTimeOpt J query ''statusTimestampAfter'' of
                       None \<Rightarrow> None
                     | Some statusTimestampAfter \<Rightarrow>
                         Some \<lparr>list_Tenant = '''', list_ContextID = query_Get query ''contextId'',
                           list_Status = TaskStateFromString (query_Get query ''status''), list_PageSize = pageSize,
                           list_PageToken = query_Get query ''pageToken'', list_HistoryLength = historyLength,
                           list_StatusTimestampAfter = statusTimestampAfter,
                           list_IncludeArtifacts = includeArtifacts\<rparr>))))"

section \<open>The client's paths reach the server's handlers\<close>

definition clean_segment :: "string \<Rightarrow> bool" where
  "clean_segment s \<longleftrightarrow> s \<noteq> '''' \<and> s \<noteq> ''.'' \<and> s \<noteq> ''..'' \<and> CHR ''/'' \<notin> set s"

definition unescaped :: "string \<Rightarrow> string" where
  "unescaped s = (case PathUnescape s of Some u \<Rightarrow> u | None \<Rightarrow> s)"

definition path_of :: "string list \<Rightarrow> string" where
  "path_of segments = CHR ''/'' # strings_Join segments ''/''"

lemma clean_segments_clean:
  "list_all clean_segment ss \<Longrightarrow> clean_segments acc ss = rev acc @ ss"
  by (induction ss arbitrary: acc) (auto simp: clean_segment_def)

lemma split_path_of:
  "segments \<noteq> [] \<Longrightarrow> list_all clean_segment segments \<Longrightarrow> split_on (CHR ''/'') (path_of segments) = '''' # segments"
  using split_Join[of segments "CHR ''/''"] by (auto simp: path_of_def clean_segment_def list_all_iff)

lemma path_Clean_path_of:
  "segments \<noteq> [] \<Longrightarrow> list_all clean_segment segments \<Longrightarrow> path_Clean (path_of segments) = path_of segments"
  unfolding path_Clean_def by (simp add: split_path_of clean_segments_clean) (simp add: path_of_def)

lemma last_Join: "xs \<noteq> [] \<Longrightarrow> last xs \<noteq> [] \<Longrightarrow> strings_Join xs sep \<noteq> [] \<and> last (strings_Join xs sep) = last (last xs)"
  by (induction xs) (auto simp: strings_Join_Cons split: if_splits)

lemma path_of_no_slash:
  assumes "segments \<noteq> []" "list_all clean_segment segments"
  shows "\<not> ends_with_slash (path_of segments)"
proof -
  have l: "clean_segment (last segments)" using assms by (simp add: list_all_iff)
  then have "last segments \<noteq> []" "last (last segments) \<noteq> CHR ''/''"
    by (auto simp: clean_segment_def dest: last_in_set)
  with last_Join[OF assms(1), of "''/''"] show ?thesis
    by (auto simp: ends_with_slash_def path_of_def)
qed

lemma cleanPath_path_of:
  "segments \<noteq> [] \<Longrightarrow> list_all clean_segment segments \<Longrightarrow> cleanPath (path_of segments) = path_of segments"
  by (simp add: cleanPath_def path_Clean_path_of path_of_no_slash)

lemma mux_segments_path_of:
  "segments \<noteq> [] \<Longrightarrow> list_all clean_segment segments \<Longrightarrow> mux_segments (path_of segments) = map unescaped segments"
  using split_Join[of segments "CHR ''/''"]
  by (auto simp: mux_segments_def path_of_def clean_segment_def list_all_iff unescaped_def)

lemma JoinPath_root:
  "segments \<noteq> [] \<Longrightarrow> list_all clean_segment segments \<Longrightarrow> JoinPath '''' [path_of segments] = path_of segments"
  by (simp add: JoinPath_def path_Clean_path_of path_of_no_slash) (simp add: path_of_def)

lemma JoinPath_tenant:
  assumes "segments \<noteq> []" "list_all clean_segment segments" "clean_segment t"
  shows "JoinPath '''' [t, path_of segments] = path_of (t # segments)"
proof -
  have t: "t \<noteq> []" "CHR ''/'' \<notin> set t" using assms(3) by (auto simp: clean_segment_def)
  have "split_on (CHR ''/'') (t @ ''/'' @ path_of segments) = t # '''' # segments"
    using split_path_of[OF assms(1,2)] t by (simp add: split_on_append)
  then have "path_Clean (t @ ''/'' @ path_of segments) = path_of (t # segments)"
    unfolding path_Clean_def using clean_segments_clean[OF assms(2), of "[t]"] assms(3)
    by (simp add: clean_segment_def path_of_def)
  then show ?thesis using t path_of_no_slash[OF assms(1,2)]
    by (simp add: JoinPath_def path_of_def)
qed

lemma mux_path_of:
  assumes "segments \<noteq> []" "list_all clean_segment segments" "find_route m (map unescaped segments) = Some (h, captured)"
  shows "mux_Handler m (path_of segments) = Route h captured"
  using assms by (simp add: mux_Handler_def cleanPath_path_of mux_segments_path_of Let_def)

text \<open>The ids that survive as a path segment.\<close>

definition path_id :: "string \<Rightarrow> bool" where
  "path_id s \<longleftrightarrow> s \<noteq> '''' \<and> s \<noteq> ''.'' \<and> s \<noteq> ''..''"

lemma PathEscape_inj: "PathEscape s = PathEscape t \<longleftrightarrow> s = t"
  by (metis PathUnescape_PathEscape option.inject)

lemma escaped_dots: "PathEscape ''.'' = ''.''" "PathEscape ''..'' = ''..''"
  by (simp_all add: PathEscape_def escape_char_def path_safe_def)

lemma clean_escaped: "path_id s \<Longrightarrow> clean_segment (PathEscape s)"
  using PathEscape_inj[of s "''.''"] PathEscape_inj[of s "''..''"] PathEscape_no_slash
  by (simp add: path_id_def clean_segment_def escaped_dots)

lemma unescape_append: "PathUnescape s = Some u \<Longrightarrow> CHR ''%'' \<notin> set t \<Longrightarrow> PathUnescape (s @ t) = Some (u @ t)"
proof (induction s arbitrary: u rule: PathUnescape.induct)
  case (2 c s)
  show ?case
  proof (cases "c = CHR ''%''")
    case True
    with 2 show ?thesis by (cases s rule: PathUnescape.cases; cases "tl s") (auto split: option.splits list.splits)
  next
    case False
    with 2 show ?thesis by auto
  qed
qed (simp add: PathUnescape_plain)

lemma unescaped_escaped [simp]:
  "unescaped (PathEscape s) = s"
  "CHR ''%'' \<notin> set t \<Longrightarrow> unescaped (PathEscape s @ t) = s @ t"
  by (simp_all add: unescaped_def unescape_append)

lemma clean_escaped_suffix:
  "CHR ''/'' \<notin> set t \<Longrightarrow> 3 \<le> length t \<Longrightarrow> clean_segment (PathEscape s @ t)"
  using PathEscape_no_slash[of s] by (auto simp: clean_segment_def append_eq_Cons_conv)

lemma client_routes:
  assumes "path_id taskID" "path_id configID"
  shows "mux_Handler ''GET'' (JoinPath '''' [path_GetTask '''' (PathEscape taskID)]) = Route HGetOrSubscribe [taskID]"
    and "mux_Handler ''POST'' (JoinPath '''' [path_CancelTask '''' (PathEscape taskID)]) =
      Route HCancelOrSubscribe [taskID @ '':cancel'']"
    and "mux_Handler ''POST'' (JoinPath '''' [path_SubscribeTask '''' (PathEscape taskID)]) =
      Route HCancelOrSubscribe [taskID @ '':subscribe'']"
    and "mux_Handler ''POST'' (JoinPath '''' [path_PushConfigs '''' (PathEscape taskID)]) = Route HCreatePush [taskID]"
    and "mux_Handler ''GET'' (JoinPath '''' [path_PushConfigs '''' (PathEscape taskID)]) = Route HListPush [taskID]"
    and "mux_Handler ''GET'' (JoinPath '''' [path_PushConfig '''' (PathEscape taskID) (PathEscape configID)]) =
      Route HGetPush [taskID, configID]"
    and "mux_Handler ''DELETE'' (JoinPath '''' [path_PushConfig '''' (PathEscape taskID) (PathEscape configID)]) =
      Route HDeletePush [taskID, configID]"
proof -
  let ?t = "PathEscape taskID" and ?c = "PathEscape configID"
  have t: "clean_segment ?t" "clean_segment ?c" "clean_segment (?t @ '':cancel'')" "clean_segment (?t @ '':subscribe'')"
    using assms by (simp_all add: clean_escaped clean_escaped_suffix)
  have lit: "clean_segment ''tasks''" "clean_segment ''pushNotificationConfigs''" by (simp_all add: clean_segment_def)
  have un: "unescaped ''tasks'' = ''tasks''" "unescaped ''pushNotificationConfigs'' = ''pushNotificationConfigs''"
    by (simp_all add: unescaped_def)
  have id: "taskID \<noteq> []" "configID \<noteq> []" using assms by (auto simp: path_id_def)
  have paths: "path_GetTask '''' ?t = path_of [''tasks'', ?t]" "path_CancelTask '''' ?t = path_of [''tasks'', ?t @ '':cancel'']"
    "path_SubscribeTask '''' ?t = path_of [''tasks'', ?t @ '':subscribe'']"
    "path_PushConfigs '''' ?t = path_of [''tasks'', ?t, ''pushNotificationConfigs'']"
    "path_PushConfig '''' ?t ?c = path_of [''tasks'', ?t, ''pushNotificationConfigs'', ?c]"
    by (simp_all add: path_defs path_of_def)
  note to_mux = JoinPath_root mux_path_of paths t lit un
  note routes = find_route_def rest_routes_def path_defs
  show "mux_Handler ''GET'' (JoinPath '''' [path_GetTask '''' ?t]) = Route HGetOrSubscribe [taskID]"
    by (simp add: to_mux(1,3-)) (rule mux_path_of; simp add: t lit un routes id)
  show "mux_Handler ''POST'' (JoinPath '''' [path_CancelTask '''' ?t]) = Route HCancelOrSubscribe [taskID @ '':cancel'']"
    by (simp add: to_mux(1,3-)) (rule mux_path_of; simp add: t lit un routes id)
  show "mux_Handler ''POST'' (JoinPath '''' [path_SubscribeTask '''' ?t]) = Route HCancelOrSubscribe [taskID @ '':subscribe'']"
    by (simp add: to_mux(1,3-)) (rule mux_path_of; simp add: t lit un routes id)
  show "mux_Handler ''POST'' (JoinPath '''' [path_PushConfigs '''' ?t]) = Route HCreatePush [taskID]"
    by (simp add: to_mux(1,3-)) (rule mux_path_of; simp add: t lit un routes id)
  show "mux_Handler ''GET'' (JoinPath '''' [path_PushConfigs '''' ?t]) = Route HListPush [taskID]"
    by (simp add: to_mux(1,3-)) (rule mux_path_of; simp add: t lit un routes id)
  show "mux_Handler ''GET'' (JoinPath '''' [path_PushConfig '''' ?t ?c]) = Route HGetPush [taskID, configID]"
    by (simp add: to_mux(1,3-)) (rule mux_path_of; simp add: t lit un routes id)
  show "mux_Handler ''DELETE'' (JoinPath '''' [path_PushConfig '''' ?t ?c]) = Route HDeletePush [taskID, configID]"
    by (simp add: to_mux(1,3-)) (rule mux_path_of; simp add: t lit un routes id)
qed

text \<open>A dot segment is resolved: the configuration \<open>..\<close> of a task is the task.\<close>

lemma dots_leave_configs:
  assumes "path_id taskID"
  shows "mux_Handler ''GET'' (JoinPath '''' [path_PushConfig '''' (PathEscape taskID) (PathEscape ''..'')]) =
    Route HGetOrSubscribe [taskID]"
proof -
  let ?t = "PathEscape taskID"
  have t: "list_all clean_segment [''tasks'', ?t]" using clean_escaped[OF assms] by (simp add: clean_segment_def[of "''tasks''"])
  have "split_on (CHR ''/'') (path_PushConfig '''' ?t ''..'') = ['''', ''tasks'', ?t, ''pushNotificationConfigs'', ''..'']"
    using PathEscape_no_slash[of taskID] by (simp add: path_defs split_on_append)
  then have "path_Clean (path_PushConfig '''' ?t ''..'') = path_of [''tasks'', ?t]"
    using t by (auto simp: path_Clean_def path_of_def clean_segment_def)
  then have "JoinPath '''' [path_PushConfig '''' ?t ''..''] = path_of [''tasks'', ?t]"
    using path_of_no_slash[OF _ t] by (simp add: JoinPath_def ends_with_slash_def path_defs)
  then show ?thesis unfolding escaped_dots
    using client_routes(1)[OF assms, of "''c''"] JoinPath_root[OF _ t] by (simp add: path_id_def path_defs path_of_def)
qed



section \<open>Query round trips\<close>

lemma read_digits_append:
  "read_digits acc (xs @ [c]) = (case read_digits acc xs of None \<Rightarrow> None
     | Some m \<Rightarrow> map_option (\<lambda>d. 10 * m + d) (digit_value c))"
  by (induction acc xs rule: read_digits.induct) (simp_all split: option.splits)

lemma digit_value_char [simp]: "d < 10 \<Longrightarrow> digit_value (digit_char d) = Some d"
  by (simp add: digit_value_def digit_char_def Let_def)

lemma read_nat_text: "read_digits 0 (nat_text n) = Some n"
proof (induction n rule: nat_text.induct)
  case (1 n)
  show ?case
  proof (cases "n < 10")
    case True
    then show ?thesis by (simp add: nat_text.simps[of n])
  next
    case False
    with 1 show ?thesis
      by (simp add: nat_text.simps[of n] read_digits_append)
  qed
qed

lemma nat_text_first: "\<exists>d cs. nat_text n = digit_char d # cs \<and> d < 10"
proof (induction n rule: nat_text.induct)
  case (1 n)
  then show ?case by (cases "n < 10") (auto simp: nat_text.simps[of n])
qed

lemma digit_char_no_sign: "d < 10 \<Longrightarrow> digit_char d \<noteq> CHR ''-'' \<and> digit_char d \<noteq> CHR ''+''"
proof -
  assume d: "d < 10"
  have "digit_value (CHR ''-'') = None" "digit_value (CHR ''+'') = None" by (simp_all add: digit_value_def)
  with digit_value_char[OF d] show ?thesis by auto
qed

lemma Itoa_not_empty [simp]: "Itoa i \<noteq> []"
  using nat_text_first[of "nat i"] by (auto simp: Itoa_def)

lemma Atoi_Itoa: "int64_range i \<Longrightarrow> Atoi (Itoa i) = Some i"
proof (cases "i < 0")
  case True
  then show "int64_range i \<Longrightarrow> ?thesis"
    using nat_text_first[of "nat (- i)"] read_nat_text[of "nat (- i)"] by (auto simp: Atoi_def Itoa_def)
next
  case False
  obtain d cs where n: "nat_text (nat i) = digit_char d # cs" "d < 10" using nat_text_first by blast
  show "int64_range i \<Longrightarrow> ?thesis"
    using False n digit_char_no_sign[OF n(2)] read_nat_text[of "nat i"] by (simp add: Atoi_def Itoa_def)
qed

lemma query_Get_Add [simp]:
  "query_Get (query_Add q k v) k = (case fmlookup q k of Some (x # xs) \<Rightarrow> x | _ \<Rightarrow> v)"
  "k \<noteq> k' \<Longrightarrow> query_Get (query_Add q k' v) k = query_Get q k"
  by (simp_all add: query_Get_def query_Add_def split: option.splits list.splits)

lemma fmlookup_Add [simp]: "k \<noteq> k' \<Longrightarrow> fmlookup (query_Add q k' v) k = fmlookup q k"
  by (simp add: query_Add_def)

lemma query_Get_empty [simp]: "query_Get fmempty k = ''''"
  by (simp add: query_Get_def)

lemma get_task_query_back:
  "go_history (get_HistoryLength r) \<Longrightarrow> parseIntOpt (get_task_query r) ''historyLength'' = Some (get_HistoryLength r)"
  by (cases "get_HistoryLength r") (simp_all add: get_task_query_def parseIntOpt_def go_history_def Atoi_Itoa)

text \<open>
  A list request survives the query string: the server reads the filters the client wrote, the
  status mapped to a known one and the time cut to milliseconds. The tenant is not part of it.
\<close>

theorem list_query_roundtrip:
  assumes "json_lib_ok J" "go_list_request r" "\<forall>t. list_StatusTimestampAfter r = Some t \<longrightarrow> Format (jl_time J) t \<noteq> ''''"
  shows "read_list_query J (list_tasks_query J r) = Some (wire_list_request (r\<lparr>list_Tenant := ''''\<rparr>))"
proof -
  define q where "q = list_tasks_query J r"
  have opt: "query_Get (if b then query_Add m k v else m) k' = (if b \<and> k' = k then query_Get (query_Add m k v) k else query_Get m k')"
    "fmlookup (if b then query_Add m k v else m) k' = (if b \<and> k' = k then fmlookup (query_Add m k v) k else fmlookup m k')"
    for b m k v k' by auto
  have "query_Get q ''contextId'' = list_ContextID r" "query_Get q ''status'' = list_Status r"
    "query_Get q ''pageSize'' = (if list_PageSize r = 0 then '''' else Itoa (list_PageSize r))"
    "query_Get q ''pageToken'' = list_PageToken r"
    "query_Get q ''historyLength'' = (case list_HistoryLength r of None \<Rightarrow> '''' | Some n \<Rightarrow> Itoa n)"
    "query_Get q ''statusTimestampAfter'' = (case list_StatusTimestampAfter r of None \<Rightarrow> '''' | Some t \<Rightarrow> Format (jl_time J) t)"
    "query_Get q ''includeArtifacts'' = (if list_IncludeArtifacts r then ''true'' else '''')"
    by (auto simp: q_def list_tasks_query_def Let_def opt split: option.splits)
  then show ?thesis
    using assms unfolding q_def[symmetric]
    by (cases "list_HistoryLength r"; cases "list_StatusTimestampAfter r")
      (auto simp: read_list_query_def parseInt_def parseBool_def parseIntOpt_def parseTimeOpt_def ParseBool_def
        Atoi_Itoa go_list_request_def go_history_def json_lib_ok_def wire_list_request_def)
qed

lemma list_query_roundtrip_witness:
  "read_list_query unary_ms (list_tasks_query unary_ms
     \<lparr>list_Tenant = ''t'', list_ContextID = ''c'', list_Status = ''BUSY'', list_PageSize = 5, list_PageToken = '''',
      list_HistoryLength = Some 2, list_StatusTimestampAfter = None, list_IncludeArtifacts = True\<rparr>) =
   Some \<lparr>list_Tenant = '''', list_ContextID = ''c'', list_Status = '''', list_PageSize = 5, list_PageToken = '''',
      list_HistoryLength = Some 2, list_StatusTimestampAfter = None, list_IncludeArtifacts = True\<rparr>"
  using list_query_roundtrip[OF unary_ms_ok, of "\<lparr>list_Tenant = ''t'', list_ContextID = ''c'', list_Status = ''BUSY'',
      list_PageSize = 5, list_PageToken = '''', list_HistoryLength = Some 2, list_StatusTimestampAfter = None,
      list_IncludeArtifacts = True\<rparr>"]
  by (simp add: go_list_request_def go_history_def int64_range_def wire_list_request_def TaskStateFromString_def go_consts)

end
