(* ===== verification/RestTransport.thy ===== *)
theory RestTransport
  imports RestRoutes Sse GrpcTransport
begin

text \<open>
  The HTTP+JSON transport: the handlers of \<open>a2asrv/rest.go\<close> over a request handler, the client
  transport \<open>a2aclient/rest.go\<close>, and calls through both. A JSON body is the document it consists of;
  a stream is its bytes.
\<close>

section \<open>Requests and replies\<close>

text \<open>
  What \<open>utils.DecodeJSON\<close> finds in a body: nothing, one document, or something else. The flag of a
  decoder (a nil pointer in the value) is dropped: the model goes on without the nil elements, and
  the theorems are about documents without null elements.
\<close>

datatype req_body = EmptyBody | DocBody any | MalformedBody

record rest_request =
  rr_Method :: string
  rr_Path :: string
  rr_Query :: url_values
  rr_Header :: "(string \<times> string list) list"
  rr_Body :: req_body

text \<open>A reply: the status, the content type, the document of its body, or the bytes of a stream.\<close>

record reply =
  rp_Status :: int
  rp_ContentType :: string
  rp_Doc :: "any option"
  rp_Bytes :: string

text \<open>
  The libraries: text forms, the errors' texts, the current time, \<open>mime.ParseMediaType\<close>, JSON as
  text, the JSON form of agent cards, fresh ids, and the outcome of writing to a stream.
\<close>

record rest_env =
  rv_json :: json_lib
  rv_text :: "go_error \<Rightarrow> string"
  rv_now :: string
  rv_media :: "string \<Rightarrow> string option"
  rv_render :: "any \<Rightarrow> string"
  rv_parse :: "string \<Rightarrow> any option"
  rv_card :: "agent_card \<Rightarrow> any"
  rv_card_of :: "any \<Rightarrow> agent_card jdec"
  rv_uuid :: "nat \<Rightarrow> string"
  rv_flusher :: bool
  rv_write :: "string \<Rightarrow> go_error option"
  rv_quote :: "reply \<Rightarrow> string"

definition ContentJSON :: string where
  "ContentJSON = ''application/json''"
definition ContentA2AJSON :: string where
  "ContentA2AJSON = ''application/a2a+json''"

definition header_Values :: "(string \<times> string list) list \<Rightarrow> string \<Rightarrow> string list" where
  "header_Values hdr key = concat (map snd (filter (\<lambda>(k, vs). to_lower k = to_lower key) hdr))"

definition header_Get :: "(string \<times> string list) list \<Rightarrow> string \<Rightarrow> string" where
  "header_Get hdr key = (case header_Values hdr key of [] \<Rightarrow> '''' | v # vs \<Rightarrow> v)"

definition isA2AJSON :: "rest_env \<Rightarrow> string \<Rightarrow> bool" where
  "isA2AJSON E contentType \<longleftrightarrow> rv_media E contentType = Some ContentA2AJSON"

text \<open>The media ranges of the Accept headers, in order.\<close>

definition media_ranges :: "(string \<times> string list) list \<Rightarrow> string list" where
  "media_ranges hdr = concat (map (split_on (CHR '','')) (header_Values hdr ''Accept''))"

definition negotiateContentType :: "rest_env \<Rightarrow> (string \<times> string list) list \<Rightarrow> string" where
  "negotiateContentType E hdr =
     (let requestIsA2AJSON = isA2AJSON E (header_Get hdr ''Content-Type'');
          accepts = header_Values hdr ''Accept''
      in if length accepts = 0 \<and> requestIsA2AJSON then ContentA2AJSON
         else if \<exists>r \<in> set (media_ranges hdr). rv_media E r = Some ContentA2AJSON \<or>
                 rv_media E r = Some ''*/*'' \<and> requestIsA2AJSON
         then ContentA2AJSON else ContentJSON)"

definition acceptsJSONContent :: "rest_env \<Rightarrow> (string \<times> string list) list \<Rightarrow> bool" where
  "acceptsJSONContent E hdr \<longleftrightarrow>
     (\<exists>r \<in> set (media_ranges hdr). rv_media E r = Some ContentJSON \<or> rv_media E r = Some ContentA2AJSON)"

text \<open>The JSON of an error body (the struct tags of \<open>Error\<close> and \<open>ErrorBodyJSON\<close>).\<close>

definition rest_body_json :: "rest_body \<Rightarrow> any" where
  "rest_body_json b = obj
     [(''error'', Some (obj [(''code'', Some (int_lit (rb_Code b))), (''status'', Some (AString (rb_Status b))),
        (''message'', Some (AString (rb_Message b))), (''details'', list_omit (rb_Details b))]))]"

fun jraw_list :: "any \<Rightarrow> any list jdec" where
  "jraw_list (AArr vs) = jret vs"
| "jraw_list _ = None"

definition rest_body_of_json :: "any \<Rightarrow> rest_body jdec" where
  "rest_body_of_json = jstruct (\<lambda>m.
     jbind (jfield m ''code'' 0 jint) (\<lambda>code.
     jbind (jfield m ''status'' '''' jstring) (\<lambda>status.
     jbind (jfield m ''message'' '''' jstring) (\<lambda>msg.
     jbind (jfield m ''details'' [] jraw_list) (\<lambda>details.
       jret \<lparr>rb_Code = code, rb_Status = status, rb_Message = msg, rb_Details = details\<rparr>)))))"

definition rest_error_doc :: "rest_env \<Rightarrow> go_error \<Rightarrow> task_id \<Rightarrow> any option" where
  "rest_error_doc E err taskID =
     map_option rest_body_json
       (encode_rest_error (jl_f32 (rv_json E)) (ToRESTError (rv_text E) (rv_now E) err taskID))"

text \<open>If the details cannot be encoded, the body is empty.\<close>

definition writeRESTError :: "rest_env \<Rightarrow> go_error \<Rightarrow> task_id \<Rightarrow> reply \<Rightarrow> reply" where
  "writeRESTError E err taskID r =
     r\<lparr>rp_Status := re_httpStatus (ToRESTError (rv_text E) (rv_now E) err taskID),
       rp_Doc := rest_error_doc E err taskID\<rparr>"

text \<open>\<open>json.NewEncoder(rw).Encode\<close>: the status is 200; a value that cannot be encoded leaves the body empty.\<close>

definition write_result :: "any \<Rightarrow> reply \<Rightarrow> reply" where
  "write_result doc r = r\<lparr>rp_Status := 200, rp_Doc := (if json_encodable doc then Some doc else None)\<rparr>"

section \<open>The handlers (a2asrv/rest.go)\<close>

text \<open>The body of a request as a struct; \<open>null\<close> leaves the zero value. \<open>None\<close> is an error.\<close>

definition decode_body :: "'a \<Rightarrow> (any \<Rightarrow> 'a jdec) \<Rightarrow> req_body \<Rightarrow> 'a option" where
  "decode_body zero dec body =
     (case body of DocBody doc \<Rightarrow> if doc = ANil then Some zero else map_option snd (dec doc) | _ \<Rightarrow> None)"

definition zero_send_request :: send_request where
  "zero_send_request = \<lparr>req_Tenant = '''', req_Config = None, req_Message = None, req_Metadata = None\<rparr>"
definition zero_cancel_request :: cancel_request where
  "zero_cancel_request = \<lparr>cancel_Tenant = '''', cancel_ID = '''', cancel_Metadata = None\<rparr>"
definition zero_push_config :: push_config where
  "zero_push_config = \<lparr>pc_Tenant = '''', pc_TaskID = '''', pc_ID = '''', pc_Auth = None, pc_Token = '''', pc_URL = ''''\<rparr>"

text \<open>The tenant of the context, empty if there is none, replaces the one of the request.\<close>

definition fillTenant :: "string \<Rightarrow> string \<Rightarrow> string" where
  "fillTenant ctx_tenant tenant = (if ctx_tenant \<noteq> '''' then ctx_tenant else tenant)"

text \<open>The call of the request handler and its answer, shared by the unary handlers.\<close>

definition rest_unary ::
  "rest_env \<Rightarrow> ('w, 'req, 'res) rh_method \<Rightarrow> ('res \<Rightarrow> any) \<Rightarrow> task_id \<Rightarrow> go_ctx \<Rightarrow> 'req \<Rightarrow> 'w \<Rightarrow> reply \<Rightarrow> 'w \<times> reply" where
  "rest_unary E call enc taskID ctx req w r =
     (let (w', callCtx, result) = call ctx req w
      in case result of
           Inl err \<Rightarrow> (w', writeRESTError E err taskID r)
         | Inr v \<Rightarrow> (w', write_result (enc v) r))"

definition send_result_json :: "json_lib \<Rightarrow> send_result \<Rightarrow> any" where
  "send_result_json J v = (case StreamResponse_MarshalJSON (Some (result_event 0 v)) of
     Inr wr \<Rightarrow> wrapper_json J wr | Inl err \<Rightarrow> ANil)"

definition rest_handleSendMessage where
  "rest_handleSendMessage E h tenant ctx body w r =
     (case decode_body zero_send_request (send_request_of_json (rv_json E)) body of
        None \<Rightarrow> (w, writeRESTError E (Sentinel ErrParseError) '''' r)
      | Some message \<Rightarrow> rest_unary E (rh_SendMessage h) (send_result_json (rv_json E)) '''' ctx
          (message\<lparr>req_Tenant := fillTenant tenant (req_Tenant message)\<rparr>) w r)"

definition handleGetTask where
  "handleGetTask E h tenant ctx query taskID w r =
     (if taskID = '''' then (w, writeRESTError E (Sentinel ErrInvalidRequest) '''' r)
      else (case parseIntOpt query ''historyLength'' of
          None \<Rightarrow> (w, writeRESTError E (Sentinel ErrInvalidRequest) taskID r)
        | Some historyLength \<Rightarrow> rest_unary E (rh_GetTask h) (task_json (rv_json E)) taskID ctx
            \<lparr>get_Tenant = fillTenant tenant '''', get_ID = taskID, get_HistoryLength = historyLength\<rparr> w r))"

definition handleListTasks where
  "handleListTasks E h tenant ctx query w r =
     (case read_list_query (rv_json E) query of
        None \<Rightarrow> (w, writeRESTError E (Sentinel ErrInvalidRequest) '''' r)
      | Some request \<Rightarrow> rest_unary E (rh_ListTasks h) (list_response_json (rv_json E)) '''' ctx
          (request\<lparr>list_Tenant := fillTenant tenant ''''\<rparr>) w r)"

text \<open>An empty body is a request without metadata.\<close>

definition handleCancelTask where
  "handleCancelTask E h tenant ctx body taskID w r =
     (case (if body = EmptyBody then Some zero_cancel_request
            else decode_body zero_cancel_request (cancel_request_of_json (rv_json E)) body) of
        None \<Rightarrow> (w, writeRESTError E (Sentinel ErrParseError) taskID r)
      | Some params \<Rightarrow> rest_unary E (rh_CancelTask h) (task_json (rv_json E)) taskID ctx
          (params\<lparr>cancel_ID := taskID, cancel_Tenant := fillTenant tenant (cancel_Tenant params)\<rparr>) w r)"

definition handleCreateTaskPushConfig where
  "handleCreateTaskPushConfig E h tenant ctx body taskID w r =
     (if taskID = '''' then (w, writeRESTError E (Sentinel ErrInvalidRequest) taskID r)
      else (case decode_body zero_push_config push_config_of_json body of
          None \<Rightarrow> (w, writeRESTError E (Sentinel ErrParseError) taskID r)
        | Some request \<Rightarrow> rest_unary E (rh_CreateTaskPushConfig h) push_config_json taskID ctx
            (request\<lparr>pc_TaskID := taskID, pc_Tenant := fillTenant tenant (pc_Tenant request)\<rparr>) w r))"

definition handleGetTaskPushConfig where
  "handleGetTaskPushConfig E h tenant ctx taskID configID w r =
     (if taskID = '''' \<or> configID = '''' then (w, writeRESTError E (Sentinel ErrInvalidRequest) taskID r)
      else rest_unary E (rh_GetTaskPushConfig h) push_config_json taskID ctx
        \<lparr>pr_Tenant = fillTenant tenant '''', pr_TaskID = taskID, pr_ID = configID\<rparr> w r)"

definition handleListTaskPushConfigs where
  "handleListTaskPushConfigs E h tenant ctx taskID w r =
     (if taskID = '''' then (w, writeRESTError E (Sentinel ErrInvalidRequest) taskID r)
      else rest_unary E (rh_ListTaskPushConfigs h) list_push_response_json taskID ctx
        \<lparr>lpr_Tenant = fillTenant tenant '''', lpr_TaskID = taskID, lpr_PageSize = 0, lpr_PageToken = ''''\<rparr> w r)"

definition handleDeleteTaskPushConfig where
  "handleDeleteTaskPushConfig E h tenant ctx taskID configID w r =
     (if taskID = '''' \<or> configID = '''' then (w, writeRESTError E (Sentinel ErrInvalidRequest) taskID r)
      else (let (w', callCtx, result) = rh_DeleteTaskPushConfig h ctx
                  \<lparr>pr_Tenant = fillTenant tenant '''', pr_TaskID = taskID, pr_ID = configID\<rparr> w
            in case result of
                 Inl err \<Rightarrow> (w', writeRESTError E err taskID r)
               | Inr u \<Rightarrow> (w', r\<lparr>rp_Status := 200\<rparr>)))"

definition handleGetExtendedAgentCard where
  "handleGetExtendedAgentCard E h tenant ctx w r =
     rest_unary E (rh_GetExtendedAgentCard h) (rv_card E) '''' ctx \<lparr>ecr_Tenant = fillTenant tenant ''''\<rparr> w r"

section \<open>Streams\<close>

text \<open>The writer of a reply: a write may fail, depending on what was sent before.\<close>

definition reply_writer :: "rest_env \<Rightarrow> reply response_writer" where
  "reply_writer E = \<lparr>sw_Write = (\<lambda>b r. case rv_write E (rp_Bytes r) of Some err \<Rightarrow> (r, Some err)
       | None \<Rightarrow> (r\<lparr>rp_Bytes := rp_Bytes r @ b\<rparr>, None)),
     sw_Flush = (\<lambda>r. r), sw_Flusher = rv_flusher E,
     sw_Start = (\<lambda>headers status r. r\<lparr>rp_Status := int status,
       rp_ContentType := (case map_of headers ''Content-Type'' of Some ct \<Rightarrow> ct | None \<Rightarrow> rp_ContentType r)\<rparr>)\<rparr>"

text \<open>The goroutine that reads the event sequence: what it sends over the channel before it closes it.\<close>

datatype sse_item = ItemData any | ItemErr go_error

fun sse_items :: "json_lib \<Rightarrow> (go_error + event) list \<Rightarrow> sse_item list" where
  "sse_items J [] = []"
| "sse_items J (Inl err # events) = [ItemErr err]"
| "sse_items J (Inr event # events) =
     (case marshal_event J (Some event) of
        Inl jErr \<Rightarrow> [ItemErr jErr]
      | Inr doc \<Rightarrow> ItemData doc # sse_items J events)"

text \<open>
  The select loop. A schedule says which case is taken each time: the request's context is done, the
  keep-alive ticker fires, or the goroutine's next step is received, an item or the end. The end is
  the closed channel or a panic of the goroutine.
\<close>

datatype select_case = CtxDone | KeepAliveTick | Receive

datatype stream_end = Returned | Repanicked go_error | Running

record sse_config =
  sc_accepts_json :: bool
  sc_keep_alive :: bool
  sc_PanicHandler :: "(go_error \<Rightarrow> go_error) option"

definition startStream :: "rest_env \<Rightarrow> bool \<Rightarrow> reply \<Rightarrow> reply" where
  "startStream E streamStarted r = (if streamStarted then r else WriteHeaders (reply_writer E) r)"

text \<open>
  What differs between the transports of \<open>a2asrv/rest.go\<close> and \<open>a2asrv/jsonrpc.go\<close> is how an error
  is written: as a document of the stream (none, if it cannot be encoded), or as a reply of its own.
\<close>

record error_forms =
  ef_doc :: "go_error \<Rightarrow> any option"
  ef_plain :: "go_error \<Rightarrow> reply \<Rightarrow> reply"

definition rest_forms :: "rest_env \<Rightarrow> error_forms" where
  "rest_forms E = \<lparr>ef_doc = (\<lambda>err. rest_error_doc E err ''''), ef_plain = (\<lambda>err. writeRESTError E err '''')\<rparr>"

text \<open>The error event of a stream, for the \<open>n\<close>-th id.\<close>

definition write_error_event :: "rest_env \<Rightarrow> error_forms \<Rightarrow> nat \<Rightarrow> bool \<Rightarrow> go_error \<Rightarrow> reply \<Rightarrow> reply" where
  "write_error_event E F n streamStarted err r =
     (case ef_doc F err of
        None \<Rightarrow> r
      | Some doc \<Rightarrow> fst (WriteData (reply_writer E) (rv_uuid E n) (rv_render E doc) (startStream E streamStarted r)))"

definition rest_handleError :: "rest_env \<Rightarrow> error_forms \<Rightarrow> sse_config \<Rightarrow> nat \<Rightarrow> bool \<Rightarrow> go_error \<Rightarrow> reply \<Rightarrow> reply" where
  "rest_handleError E F c n streamStarted err r =
     (if \<not> streamStarted \<and> sc_accepts_json c then ef_plain F err r
      else write_error_event E F n streamStarted err r)"

fun select_loop ::
  "rest_env \<Rightarrow> error_forms \<Rightarrow> sse_config \<Rightarrow> sse_item list \<Rightarrow> go_error option \<Rightarrow> nat \<Rightarrow> bool \<Rightarrow> select_case list \<Rightarrow> reply \<Rightarrow> reply \<times> stream_end" where
  "select_loop E F c items panic n started [] r = (r, Running)"
| "select_loop E F c items panic n started (CtxDone # schedule) r = (r, Returned)"
| "select_loop E F c items panic n started (KeepAliveTick # schedule) r =
     (if \<not> sc_keep_alive c then select_loop E F c items panic n started schedule r
      else (case WriteKeepAlive (reply_writer E) (startStream E started r) of
          (r', Some err) \<Rightarrow> (r', Returned)
        | (r', None) \<Rightarrow> select_loop E F c items panic n True schedule r'))"
| "select_loop E F c [] panic n started (Receive # schedule) r =
     (case panic of
        None \<Rightarrow> (startStream E started r, Returned)
      | Some err \<Rightarrow>
          (case sc_PanicHandler c of
             None \<Rightarrow> (r, Repanicked err)
           | Some handler \<Rightarrow> (write_error_event E F n started (handler err) r, Returned)))"
| "select_loop E F c (ItemErr err # items) panic n started (Receive # schedule) r =
     (rest_handleError E F c n started err r, Returned)"
| "select_loop E F c (ItemData doc # items) panic n started (Receive # schedule) r =
     (case WriteData (reply_writer E) (rv_uuid E n) (rv_render E doc) (startStream E started r) of
        (r', Some err) \<Rightarrow> (r', Returned)
      | (r', None) \<Rightarrow> select_loop E F c items panic (Suc n) True schedule r')"

definition handleStreamingRequest ::
  "rest_env \<Rightarrow> sse_config \<Rightarrow> (go_error + event) list \<Rightarrow> go_error option \<Rightarrow> select_case list \<Rightarrow> reply \<Rightarrow> reply \<times> stream_end" where
  "handleStreamingRequest E c events panic schedule r =
     (case sse_NewWriter (reply_writer E) of
        Inl err \<Rightarrow> (writeRESTError E err '''' r, Returned)
      | Inr writer \<Rightarrow> select_loop E (rest_forms E) c (sse_items (rv_json E) events) panic 0 False schedule r)"

text \<open>
  The handlers of streams, for event sequences that do not panic. The configuration is that of the
  handler; whether the client takes JSON comes from the request.
\<close>

definition stream_reply where
  "stream_reply E c hdr call ctx req schedule w r =
     (let (w', callCtx, events) = call ctx req w
      in (w', fst (handleStreamingRequest E (c\<lparr>sc_accepts_json := acceptsJSONContent E hdr\<rparr>) events None schedule r)))"

definition handleStreamMessage where
  "handleStreamMessage E c h tenant ctx hdr body schedule w r =
     (case decode_body zero_send_request (send_request_of_json (rv_json E)) body of
        None \<Rightarrow> (w, writeRESTError E (Sentinel ErrParseError) '''' r)
      | Some message \<Rightarrow> stream_reply E c hdr (rh_SendStreamingMessage h) ctx
          (message\<lparr>req_Tenant := fillTenant tenant (req_Tenant message)\<rparr>) schedule w r)"

definition handleSubscribeToTask where
  "handleSubscribeToTask E c h tenant ctx m hdr taskID schedule w r =
     (if m = ''HEAD'' then (w, r\<lparr>rp_Status := 405\<rparr>)
      else if taskID = '''' then (w, writeRESTError E (Sentinel ErrInvalidRequest) '''' r)
      else stream_reply E c hdr (rh_SubscribeToTask h) ctx
        \<lparr>sub_Tenant = fillTenant tenant '''', sub_ID = taskID\<rparr> schedule w r)"

definition handleCancelOrSubscribeTask where
  "handleCancelOrSubscribeTask E c h tenant ctx req idAndAction schedule w r =
     (if idAndAction = '''' then (w, writeRESTError E (Sentinel ErrInvalidRequest) '''' r)
      else (case CutSuffix idAndAction '':cancel'' of
          (before, True) \<Rightarrow> handleCancelTask E h tenant ctx (rr_Body req) before w r
        | _ \<Rightarrow>
            (case CutSuffix idAndAction '':subscribe'' of
               (before, True) \<Rightarrow>
                 handleSubscribeToTask E c h tenant ctx (rr_Method req) (rr_Header req) before schedule w r
             | _ \<Rightarrow> (w, writeRESTError E (Sentinel ErrInvalidRequest) '''' r))))"

definition handleGetOrSubscribeTask where
  "handleGetOrSubscribeTask E c h tenant ctx req idAndAction schedule w r =
     (case CutSuffix idAndAction '':subscribe'' of
        (before, True) \<Rightarrow> handleSubscribeToTask E c h tenant ctx (rr_Method req) (rr_Header req) before schedule w r
      | _ \<Rightarrow> handleGetTask E h tenant ctx (rr_Query req) idAndAction w r)"

section \<open>The server\<close>

text \<open>
  \<open>NewRESTHandler\<close>: the content type is negotiated first, the call context goes into the context,
  the mux finds the handler. The schedule is that of the stream, if the answer is one.
\<close>

definition rest_context :: "go_ctx \<Rightarrow> rest_request \<Rightarrow> go_ctx" where
  "rest_context ctx req =
     (let params = newHTTPServiceParams (rr_Header req) (query_Get (rr_Query req) SvcParamVersion)
      in ctx\<lparr>ctx_call := Some ((NewCallContext params)\<lparr>cc_ProtocolVersion := Version\<rparr>)\<rparr>)"

definition rest_ServeHTTP where
  "rest_ServeHTTP E c h tenant ctx schedule req w =
     (let r = \<lparr>rp_Status = 200, rp_ContentType = negotiateContentType E (rr_Header req), rp_Doc = None, rp_Bytes = []\<rparr>;
          ctx' = rest_context ctx req;
          body = rr_Body req; text_reply = r\<lparr>rp_ContentType := ''text/plain; charset=utf-8''\<rparr>
      in case mux_Handler (rr_Method req) (rr_Path req) of
           Redirect path \<Rightarrow> (w, r\<lparr>rp_Status := 301\<rparr>)
         | MethodNotAllowed \<Rightarrow> (w, text_reply\<lparr>rp_Status := 405\<rparr>)
         | PageNotFound \<Rightarrow> (w, text_reply\<lparr>rp_Status := 404\<rparr>)
         | Route handler captured \<Rightarrow>
             (case (handler, captured) of
                (HSendMessage, _) \<Rightarrow> rest_handleSendMessage E h tenant ctx' body w r
              | (HStreamMessage, _) \<Rightarrow> handleStreamMessage E c h tenant ctx' (rr_Header req) body schedule w r
              | (HListTasks, _) \<Rightarrow> handleListTasks E h tenant ctx' (rr_Query req) w r
              | (HGetOrSubscribe, [x]) \<Rightarrow> handleGetOrSubscribeTask E c h tenant ctx' req x schedule w r
              | (HCancelOrSubscribe, [x]) \<Rightarrow> handleCancelOrSubscribeTask E c h tenant ctx' req x schedule w r
              | (HCreatePush, [x]) \<Rightarrow> handleCreateTaskPushConfig E h tenant ctx' body x w r
              | (HGetPush, [x, y]) \<Rightarrow> handleGetTaskPushConfig E h tenant ctx' x y w r
              | (HListPush, [x]) \<Rightarrow> handleListTaskPushConfigs E h tenant ctx' x w r
              | (HDeletePush, [x, y]) \<Rightarrow> handleDeleteTaskPushConfig E h tenant ctx' x y w r
              | (HExtendedCard, _) \<Rightarrow> handleGetExtendedAgentCard E h tenant ctx' w r
              | _ \<Rightarrow> (w, text_reply\<lparr>rp_Status := 404\<rparr>)))"

text \<open>
  \<open>NewTenantRESTHandler\<close> for a compiled template; a template that does not compile is a panic of the
  constructor.
\<close>

definition tenant_ServeHTTP where
  "tenant_ServeHTTP E c h template ctx schedule req w =
     (let error_reply = \<lparr>rp_Status = 404, rp_ContentType = ''text/plain; charset=utf-8'', rp_Doc = None, rp_Bytes = []\<rparr>
      in case MatchEscaped template (rr_Path req) of
           None \<Rightarrow> (w, error_reply)
         | Some matchResult \<Rightarrow>
             (case PathUnescape (Rest matchResult) of
                None \<Rightarrow> (w, error_reply\<lparr>rp_Status := 400\<rparr>)
              | Some path \<Rightarrow>
                  rest_ServeHTTP E c h (Captured matchResult) ctx schedule (req\<lparr>rr_Path := Rest matchResult\<rparr>) w))"

section \<open>The client (a2aclient/rest.go)\<close>

text \<open>
  The request of \<open>sendRequest\<close>: the escaped tenant in front of the path, the query with the
  parameters of the context (in the order of a range loop), the headers. The base is the escaped
  path of the endpoint's URL.
\<close>

record client_request =
  cr_method :: string
  cr_path :: string
  cr_query :: url_values
  cr_payload :: "any option"
  cr_streaming :: bool
  cr_tenant :: string

record client_call =
  cl_base :: string
  cl_extra :: "(string \<times> string list) list"
  cl_params :: "(string \<times> string list) list"

definition http_request :: "client_call \<Rightarrow> client_request \<Rightarrow> go_error + rest_request" where
  "http_request C req =
     (case (case cr_payload req of None \<Rightarrow> Inr EmptyBody
            | Some payload \<Rightarrow> if json_encodable payload then Inr (DocBody payload)
                else Inl (Errorf ''failed to marshal request: %w: %w''
                       [Errorf ''json: unsupported type'' [], Sentinel ErrInvalidRequest])) of
        Inl err \<Rightarrow> Inl err
      | Inr body \<Rightarrow> Inr
          \<lparr>rr_Method = cr_method req,
           rr_Path = (if cr_tenant req \<noteq> '''' then JoinPath (cl_base C) [PathEscape (cr_tenant req), cr_path req]
                      else JoinPath (cl_base C) [cr_path req]),
           rr_Query = (if length (cl_extra C) > 0 then MergeQueryParams (cr_query req) (cl_extra C) else cr_query req),
           rr_Header = (if body \<noteq> EmptyBody then [(''Content-Type'', [''application/json''])] else []) @
             [(''Accept'', [if cr_streaming req then ''text/event-stream, application/json''
                            else ''application/a2a+json, application/json''])] @ cl_params C,
           rr_Body = body\<rparr>)"

text \<open>A connection answers a request with a reply or fails.\<close>

type_synonym 'w http_conn = "rest_request \<Rightarrow> 'w \<Rightarrow> 'w \<times> (go_error + reply)"

definition isJSONErrorContentType :: "rest_env \<Rightarrow> string \<Rightarrow> bool" where
  "isJSONErrorContentType E ct \<longleftrightarrow> (\<exists>m. rv_media E ct = Some m \<and> (m = ''application/json'' \<or> m = ''application/a2a+json''))"

text \<open>The struct around an error body.\<close>

definition error_body_of_json :: "any \<Rightarrow> rest_body option jdec" where
  "error_body_of_json = jstruct (\<lambda>m. jfield m ''error'' None (jsome rest_body_of_json))"

definition decoded_error :: "any option \<Rightarrow> decoded" where
  "decoded_error doc =
     (case doc of
        None \<Rightarrow> NotDecoded
      | Some d \<Rightarrow> if d = ANil then Decoded None
          else (case error_body_of_json d of None \<Rightarrow> NotDecoded | Some (b, body) \<Rightarrow> Decoded body))"

definition response_error :: "rest_env \<Rightarrow> reply \<Rightarrow> string + go_error" where
  "response_error E r = FromRESTError (isJSONErrorContentType E (rp_ContentType r)) (decoded_error (rp_Doc r))
     (rp_Status r) (rv_quote E r)"

definition sendRequest :: "rest_env \<Rightarrow> 'w http_conn \<Rightarrow> client_call \<Rightarrow> client_request \<Rightarrow> 'w \<Rightarrow> 'w \<times> reply client_result" where
  "sendRequest E net C req w =
     (case http_request C req of
        Inl err \<Rightarrow> (w, Inr (Inl err))
      | Inr httpReq \<Rightarrow>
          (case net httpReq w of
             (w', Inl err) \<Rightarrow> (w', Inr (Inl (Errorf ''failed to send HTTP request: %w'' [err])))
           | (w', Inr httpResp) \<Rightarrow>
               (w', if rp_Status httpResp \<noteq> 200
                    then (case response_error E httpResp of Inl panic \<Rightarrow> Inl panic | Inr err \<Rightarrow> Inr (Inl err))
                    else Inr (Inr httpResp))))"

text \<open>\<open>doRequest\<close> with a result; decoding \<open>null\<close> leaves the zero value.\<close>

definition decode_reply :: "'a \<Rightarrow> (any \<Rightarrow> 'a jdec) \<Rightarrow> reply \<Rightarrow> go_error + 'a" where
  "decode_reply zero dec r =
     (case (case rp_Doc r of None \<Rightarrow> None | Some d \<Rightarrow> if d = ANil then Some zero else map_option snd (dec d)) of
        None \<Rightarrow> Inl (Errorf ''failed to decode response: %w'' [])
      | Some v \<Rightarrow> Inr v)"

definition on_reply :: "(reply \<Rightarrow> go_error + 'a) \<Rightarrow> 'w \<times> reply client_result \<Rightarrow> 'w \<times> 'a client_result" where
  "on_reply f res = (fst res, case snd res of Inl panic \<Rightarrow> Inl panic | Inr (Inl err) \<Rightarrow> Inr (Inl err) | Inr (Inr r) \<Rightarrow> Inr (f r))"

definition zero_task :: task where
  "zero_task = \<lparr>task_ID = '''', task_Artifacts = [], task_ContextID = '''', task_History = [], task_Metadata = None,
     task_Status = zero_status\<rparr>"

definition rest_GetTask where
  "rest_GetTask E net C req w =
     on_reply (decode_reply zero_task (task_of_json (rv_json E))) (sendRequest E net C
       \<lparr>cr_method = ''GET'', cr_path = path_GetTask '''' (PathEscape (get_ID req)), cr_query = get_task_query req,
        cr_payload = None, cr_streaming = False, cr_tenant = get_Tenant req\<rparr> w)"

definition rest_ListTasks where
  "rest_ListTasks E net C req w =
     on_reply (decode_reply \<lparr>resp_Tasks = [], resp_TotalSize = 0, resp_PageSize = 0, resp_NextPageToken = ''''\<rparr>
         (list_response_of_json (rv_json E))) (sendRequest E net C
       \<lparr>cr_method = ''GET'', cr_path = path_ListTasks '''', cr_query = list_tasks_query (rv_json E) req,
        cr_payload = None, cr_streaming = False, cr_tenant = list_Tenant req\<rparr> w)"

definition rest_CancelTask where
  "rest_CancelTask E net C req w =
     on_reply (decode_reply zero_task (task_of_json (rv_json E))) (sendRequest E net C
       \<lparr>cr_method = ''POST'', cr_path = path_CancelTask '''' (PathEscape (cancel_ID req)), cr_query = fmempty,
        cr_payload = (if gm_len (cancel_Metadata req) > 0
          then Some (obj [(''metadata'', Some (AMap (gm_fmap (cancel_Metadata req))))]) else None),
        cr_streaming = False, cr_tenant = cancel_Tenant req\<rparr> w)"

text \<open>The result is read as an event first, then it must be a task or a message.\<close>

definition decode_send_result :: "rest_env \<Rightarrow> reply \<Rightarrow> go_error + send_result" where
  "decode_send_result E r =
     (case rp_Doc r of
        None \<Rightarrow> Inl (Errorf ''failed to decode response: %w'' [])
      | Some d \<Rightarrow>
          (case unmarshal_event (rv_json E) 0 d of
             Inl err \<Rightarrow> Inl (Errorf ''result violates A2A spec - could not determine type: %w; data: %s'' [err])
           | Inr (b, EMessage m) \<Rightarrow> Inr (RMessage m)
           | Inr (b, ETask a t) \<Rightarrow> Inr (RTask t)
           | Inr (b, e) \<Rightarrow> Inl (Errorf ''result violates A2A spec - expected Task or Message, got %T: %s'' [])))"

definition rest_SendMessage where
  "rest_SendMessage E net C req w =
     on_reply (decode_send_result E) (sendRequest E net C
       \<lparr>cr_method = ''POST'', cr_path = path_SendMessage '''', cr_query = fmempty,
        cr_payload = Some (send_request_json req), cr_streaming = False, cr_tenant = req_Tenant req\<rparr> w)"

definition rest_GetTaskPushConfig where
  "rest_GetTaskPushConfig E net C req w =
     on_reply (decode_reply zero_push_config push_config_of_json) (sendRequest E net C
       \<lparr>cr_method = ''GET'', cr_path = path_PushConfig '''' (PathEscape (pr_TaskID req)) (PathEscape (pr_ID req)),
        cr_query = fmempty, cr_payload = None, cr_streaming = False, cr_tenant = pr_Tenant req\<rparr> w)"

definition rest_ListTaskPushConfigs where
  "rest_ListTaskPushConfigs E net C req w =
     on_reply (\<lambda>r. on_ok (decode_reply \<lparr>lps_Configs = [], lps_NextPageToken = ''''\<rparr> list_push_response_of_json r)
         (\<lambda>resp. Inr (lps_Configs resp))) (sendRequest E net C
       \<lparr>cr_method = ''GET'', cr_path = path_PushConfigs '''' (PathEscape (lpr_TaskID req)), cr_query = fmempty,
        cr_payload = None, cr_streaming = False, cr_tenant = lpr_Tenant req\<rparr> w)"

definition rest_CreateTaskPushConfig where
  "rest_CreateTaskPushConfig E net C req w =
     on_reply (decode_reply zero_push_config push_config_of_json) (sendRequest E net C
       \<lparr>cr_method = ''POST'', cr_path = path_PushConfigs '''' (PathEscape (pc_TaskID req)), cr_query = fmempty,
        cr_payload = Some (push_config_json req), cr_streaming = False, cr_tenant = pc_Tenant req\<rparr> w)"

definition rest_DeleteTaskPushConfig where
  "rest_DeleteTaskPushConfig E net C req w =
     on_reply (\<lambda>r. Inr ()) (sendRequest E net C
       \<lparr>cr_method = ''DELETE'', cr_path = path_PushConfig '''' (PathEscape (pr_TaskID req)) (PathEscape (pr_ID req)),
        cr_query = fmempty, cr_payload = None, cr_streaming = False, cr_tenant = pr_Tenant req\<rparr> w)"

definition rest_GetExtendedAgentCard where
  "rest_GetExtendedAgentCard E net C zero_card req w =
     on_reply (decode_reply zero_card (rv_card_of E)) (sendRequest E net C
       \<lparr>cr_method = ''GET'', cr_path = path_GetExtendedAgentCard '''', cr_query = fmempty,
        cr_payload = None, cr_streaming = False, cr_tenant = ecr_Tenant req\<rparr> w)"

text \<open>
  One data block of a stream: the events' fields and the field \<open>error\<close>. Decoded tasks get the
  address \<open>a\<close>.
\<close>

definition parse_block :: "rest_env \<Rightarrow> addr \<Rightarrow> string \<Rightarrow> event client_result" where
  "parse_block E a data =
     (let failed = Inr (Inl (Errorf ''failed to unmarshal stream response: %w'' []))
      in case rv_parse E data of
           None \<Rightarrow> failed
         | Some doc \<Rightarrow>
             (let fields_of = (\<lambda>m. jbind (wrapper_of_json (rv_json E) a (AMap m)) (\<lambda>wr.
                    jbind (jfield m ''error'' None (jsome rest_body_of_json)) (\<lambda>e. jret (wr, e))))
              in case (if doc = ANil then jret (empty_wrapper, None) else jstruct fields_of doc) of
                   None \<Rightarrow> failed
                 | Some (b, wr, e) \<Rightarrow> ParseStreamResponse wr e))"

text \<open>The loop over the blocks for a consumer that takes all items: it ends with the first error.\<close>

fun read_blocks :: "rest_env \<Rightarrow> addr \<Rightarrow> (go_error + string) list \<Rightarrow> event client_result list" where
  "read_blocks E a [] = []"
| "read_blocks E a (Inl err # blocks) = [Inr (Inl err)]"
| "read_blocks E a (Inr data # blocks) =
     (case parse_block E a data of
        Inr (Inr event) \<Rightarrow> Inr (Inr event) # read_blocks E a blocks
      | stop \<Rightarrow> [stop])"

text \<open>\<open>broken\<close> is the error of the connection that ended the body, if there was one.\<close>

definition doStreamingRequest ::
  "rest_env \<Rightarrow> 'w http_conn \<Rightarrow> addr \<Rightarrow> go_error option \<Rightarrow> client_call \<Rightarrow> client_request \<Rightarrow> 'w \<Rightarrow> 'w \<times> event client_result list" where
  "doStreamingRequest E net a broken C req w =
     (case sendRequest E net C (req\<lparr>cr_streaming := True\<rparr>) w of
        (w', Inl panic) \<Rightarrow> (w', [Inl panic])
      | (w', Inr (Inl err)) \<Rightarrow> (w', [Inr (Inl err)])
      | (w', Inr (Inr resp)) \<Rightarrow>
          (w', read_blocks E a (ParseDataStream \<lparr>body_bytes = rp_Bytes resp, body_error = broken\<rparr>)))"

definition rest_SubscribeToTask where
  "rest_SubscribeToTask E net a broken C req =
     doStreamingRequest E net a broken C
       \<lparr>cr_method = ''POST'', cr_path = path_SubscribeTask '''' (PathEscape (sub_ID req)), cr_query = fmempty,
        cr_payload = None, cr_streaming = False, cr_tenant = sub_Tenant req\<rparr>"

definition rest_SendStreamingMessage where
  "rest_SendStreamingMessage E net a broken C req =
     doStreamingRequest E net a broken C
       \<lparr>cr_method = ''POST'', cr_path = path_StreamMessage '''', cr_query = fmempty,
        cr_payload = Some (send_request_json req), cr_streaming = False, cr_tenant = req_Tenant req\<rparr>"

section \<open>Calls through both\<close>

text \<open>A connection to a server at the root of a host, with one schedule for its streams.\<close>

definition rest_net where
  "rest_net E c h ctx schedule = (\<lambda>req w. let (w', r) = rest_ServeHTTP E c h '''' ctx schedule req w in (w', Inr r))"

definition tenant_net where
  "tenant_net E c h template ctx schedule =
     (\<lambda>req w. let (w', r) = tenant_ServeHTTP E c h template ctx schedule req w in (w', Inr r))"

text \<open>The documented behaviour of the libraries at the media types in use.\<close>

definition rest_env_ok :: "rest_env \<Rightarrow> bool" where
  "rest_env_ok E \<longleftrightarrow> json_lib_ok (rv_json E) \<and>
     (\<forall>m \<in> {ContentJSON, ContentA2AJSON, ''text/event-stream''}. rv_media E m = Some m \<and> rv_media E (CHR '' '' # m) = Some m)"

lemma rest_envD:
  assumes "rest_env_ok E"
  shows "json_lib_ok (rv_json E)" "rv_media E ''application/json'' = Some ''application/json''"
    "rv_media E ''application/a2a+json'' = Some ''application/a2a+json''"
    "rv_media E '' application/json'' = Some ''application/json''"
    "rv_media E ''text/event-stream'' = Some ''text/event-stream''"
  using assms by (auto simp: rest_env_ok_def ContentJSON_def ContentA2AJSON_def)

lemma rest_body_back:
  "int64_range (rb_Code b) \<Longrightarrow> error_body_of_json (rest_body_json b) = jret (Some b)"
proof -
  assume "int64_range (rb_Code b)"
  moreover have "jvalue (list_omit xs) [] jraw_list = jret xs" for xs
    by (simp add: jvalue_def list_omit_def)
  ultimately show ?thesis
    by (cases b) (simp add: error_body_of_json_def rest_body_json_def field_eqs jvalue_obj[unfolded jvalue_def]
        rest_body_of_json_def jvalue_def[of "Some (obj x)" for x] jsome_def)
qed

lemma rest_status_codes:
  "re_httpStatus (ToRESTError text_of now err tid) \<in> {400, 401, 403, 404, 499, 500, 501, 504}"
proof -
  have codes: "rm_httpStatus m \<in> {400, 401, 403, 404, 499, 500, 501, 504}" if "m \<in> set rest_errorMappings" for m
    using that by (auto simp: rest_errorMappings_def)
  show ?thesis
  proof (cases "List.find (\<lambda>m. errors_Is err (rm_err m)) rest_errorMappings")
    case None
    then show ?thesis by (simp add: ToRESTError_def Let_def split: prod.splits)
  next
    case (Some m)
    then have "m \<in> set rest_errorMappings" by (auto simp: find_Some_iff)
    from codes[OF this] Some show ?thesis by (simp add: ToRESTError_def Let_def split: prod.splits)
  qed
qed

lemma rest_error_doc_kind:
  assumes kind: "carries err s" and doc: "rest_error_doc E err tid = Some doc"
  shows "\<exists>body e. doc = rest_body_json body \<and> int64_range (rb_Code body) \<and> ConvertErrorBody body = Inr e \<and>
    (\<forall>t. errors_Is e t \<longleftrightarrow> t = s)"
proof -
  let ?re = "ToRESTError (rv_text E) (rv_now E) err tid"
  obtain body where body: "encode_rest_error (jl_f32 (rv_json E)) ?re = Some body" "doc = rest_body_json body"
    using doc by (auto simp: rest_error_doc_def)
  have "rb_Code body = re_httpStatus ?re" using body(1) by (auto simp: encode_rest_error_def)
  then have "int64_range (rb_Code body)"
    using rest_status_codes[of "rv_text E" "rv_now E" err tid] by (auto simp: int64_range_def)
  moreover obtain data md where "attached_details err (if tid \<noteq> '''' then fmupd ''taskId'' tid
      (fmupd ''timestamp'' (rv_now E) fmempty) else fmupd ''timestamp'' (rv_now E) fmempty) = (data, md)"
    by fastforce
  from rest_error_roundtrip[OF kind this body(1)]
  have "\<exists>e. ConvertErrorBody body = Inr e \<and> (\<forall>t. errors_Is e t \<longleftrightarrow> t = s)"
    by (auto split: if_splits)
  ultimately show ?thesis using body(2) by blast
qed

lemma rest_error_is_kind:
  assumes env: "rest_env_ok E" and kind: "carries err s" and doc: "rest_error_doc E err tid = Some doc"
    and ct: "rp_ContentType r \<in> {ContentJSON, ContentA2AJSON}"
  shows "\<exists>e. response_error E (writeRESTError E err tid r) = Inr e \<and> (\<forall>t. errors_Is e t \<longleftrightarrow> t = s)"
proof -
  obtain body e where body: "doc = rest_body_json body" "int64_range (rb_Code body)" "ConvertErrorBody body = Inr e"
    "\<forall>t. errors_Is e t \<longleftrightarrow> t = s"
    using rest_error_doc_kind[OF kind doc] by blast
  have "decoded_error (Some doc) = Decoded (Some body)"
    using rest_body_back[OF body(2)] by (simp add: decoded_error_def body(1) jret_def) (simp add: rest_body_json_def)
  then show ?thesis
    using ct doc body(3,4) by (auto simp: response_error_def writeRESTError_def isJSONErrorContentType_def
        ContentJSON_def ContentA2AJSON_def rest_envD[OF env] FromRESTError_def)
qed

lemma writeRESTError_status: "rp_Status (writeRESTError E err tid r) \<noteq> 200"
  using rest_status_codes[of "rv_text E" "rv_now E" err tid] by (auto simp: writeRESTError_def)

text \<open>The answer of a unary call.\<close>

lemma rest_unary_call:
  assumes "http_request C req = Inr hr" "net hr w = (let (w', r) = rest_unary E call enc tid ctx' rq w r0 in (w', Inr r))"
    and "call ctx' rq w = (w', cc, res)"
  shows "on_reply f (sendRequest E net C req w) = (w', case res of
      Inl err \<Rightarrow> (case response_error E (writeRESTError E err tid r0) of Inl panic \<Rightarrow> Inl panic | Inr e \<Rightarrow> Inr (Inl e))
    | Inr v \<Rightarrow> Inr (f (write_result (enc v) r0)))"
  using assms writeRESTError_status[of E _ tid r0]
  by (cases res) (auto simp: sendRequest_def rest_unary_def on_reply_def write_result_def Let_def split: sum.splits)

text \<open>The content type of replies to the client of this library.\<close>

lemma negotiated:
  assumes "rest_env_ok E" "http_request C req = Inr hr" "cr_streaming req = False"
  shows "negotiateContentType E (rr_Header hr) = ContentA2AJSON"
proof -
  have "(''Accept'', [''application/a2a+json, application/json'']) \<in> set (rr_Header hr)"
    using assms(2,3) by (auto simp: http_request_def split: sum.splits option.splits if_splits)
  then have "''application/a2a+json, application/json'' \<in> set (header_Values (rr_Header hr) ''Accept'')"
    unfolding header_Values_def by force
  moreover have "''application/a2a+json'' \<in> set (split_on (CHR '','') ''application/a2a+json, application/json'')"
    by simp
  ultimately have "''application/a2a+json'' \<in> set (media_ranges (rr_Header hr))"
    unfolding media_ranges_def set_concat set_map by blast
  then have "\<exists>r \<in> set (media_ranges (rr_Header hr)). rv_media E r = Some ContentA2AJSON"
    using rest_envD(3)[OF assms(1)] by (auto simp: ContentA2AJSON_def)
  then show ?thesis by (auto simp: negotiateContentType_def Let_def)
qed

text \<open>The reply a handler starts with, for a call of this client.\<close>

definition first_reply :: reply where
  "first_reply = \<lparr>rp_Status = 200, rp_ContentType = ContentA2AJSON, rp_Doc = None, rp_Bytes = []\<rparr>"

text \<open>What the client must see of a handler's result: the error's kind, or the value \<open>enc\<close> and \<open>dec\<close> make of it.\<close>

lemma rest_answer:
  assumes env: "rest_env_ok E" and req: "http_request C req = Inr hr"
    and net: "net hr w = (let (w', r) = rest_unary E call enc tid ctx' rq w first_reply in (w', Inr r))"
    and call: "call ctx' rq w = (w', cc, res)"
  shows "\<exists>answer. on_reply f (sendRequest E net C req w) = (w', answer) \<and>
    (case res of
       Inl err \<Rightarrow> \<forall>s. carries err s \<and> rest_error_doc E err tid \<noteq> None \<longrightarrow> is_kind answer s
     | Inr v \<Rightarrow> answer = Inr (f (write_result (enc v) first_reply)))"
proof (cases res)
  case (Inl err)
  have "is_kind (case response_error E (writeRESTError E err tid first_reply) of
      Inl panic \<Rightarrow> Inl panic | Inr e \<Rightarrow> Inr (Inl e)) s"
    if kind: "carries err s" and doc: "rest_error_doc E err tid \<noteq> None" for s
  proof -
    obtain d where "rest_error_doc E err tid = Some d" using doc by blast
    moreover have "rp_ContentType first_reply \<in> {ContentJSON, ContentA2AJSON}" by (simp add: first_reply_def)
    ultimately obtain e where
      "response_error E (writeRESTError E err tid first_reply) = Inr e" "\<forall>t. errors_Is e t \<longleftrightarrow> t = s"
      using rest_error_is_kind[OF env kind] by blast
    then show ?thesis by (simp add: is_kind_def)
  qed
  then show ?thesis
    using rest_unary_call[where net = net and call = call and enc = enc and tid = tid and f = f, OF req net call] Inl by auto
next
  case (Inr v)
  then show ?thesis
    using rest_unary_call[where net = net and call = call and enc = enc and tid = tid and f = f, OF req net call] by simp
qed

section \<open>Getting a task\<close>

text \<open>The request of the client's \<open>GetTask\<close> and the handler's view of it.\<close>

definition get_task_http :: "client_call \<Rightarrow> get_request \<Rightarrow> rest_request" where
  "get_task_http C req = \<lparr>rr_Method = ''GET'', rr_Path = ''/tasks/'' @ PathEscape (get_ID req),
     rr_Query = get_task_query req,
     rr_Header = (''Accept'', [''application/a2a+json, application/json'']) # cl_params C, rr_Body = EmptyBody\<rparr>"

definition plain_call :: "client_call \<Rightarrow> bool" where
  "plain_call C \<longleftrightarrow> cl_base C = '''' \<and> cl_extra C = []"

lemma get_task_request:
  assumes "plain_call C" "path_id (get_ID req)" "get_Tenant req = ''''"
  shows "http_request C \<lparr>cr_method = ''GET'', cr_path = path_GetTask '''' (PathEscape (get_ID req)),
      cr_query = get_task_query req, cr_payload = None, cr_streaming = False, cr_tenant = get_Tenant req\<rparr> =
    Inr (get_task_http C req)"
proof -
  have "list_all clean_segment [''tasks'', PathEscape (get_ID req)]"
    using clean_escaped[OF assms(2)] by (simp add: clean_segment_def[of "''tasks''"])
  from JoinPath_root[OF _ this] show ?thesis
    using assms by (simp add: http_request_def get_task_http_def plain_call_def path_defs path_of_def)
qed

lemma get_task_route: "path_id tid \<Longrightarrow> mux_Handler ''GET'' (''/tasks/'' @ PathEscape tid) = Route HGetOrSubscribe [tid]"
  using client_routes(1)[of tid "''c''"] JoinPath_root[of "[''tasks'', PathEscape tid]"] clean_escaped[of tid]
  by (simp add: path_id_def[of "''c''"] path_defs path_of_def clean_segment_def[of "''tasks''"])

definition is_subscription :: "task_id \<Rightarrow> bool" where
  "is_subscription tid \<longleftrightarrow> snd (CutSuffix tid '':subscribe'')"

lemma task_reply:
  assumes "rest_env_ok E" "timed_status (task_Status t)"
  shows "decode_reply zero_task (task_of_json (rv_json E)) (write_result (task_json (rv_json E) t) first_reply) =
    (if json_encodable (task_json (rv_json E) t) \<and> readable_task t then Inr (wire_task (rv_json E) t)
     else Inl (Errorf ''failed to decode response: %w'' []))"
  using task_back[OF rest_envD(1)[OF assms(1)] assms(2)]
  by (simp add: decode_reply_def write_result_def jret_def)

text \<open>
  Getting a task over REST: the handler is asked for the task whose id the client has, and the
  client gets the task in its JSON form or an error of the kind the handler returned. An id that
  ends in \<open>:subscribe\<close> is the exception: the call goes to the subscriptions instead.
\<close>

theorem get_task_over_rest:
  assumes env: "rest_env_ok E" and C: "plain_call C"
    and req: "path_id (get_ID req)" "get_Tenant req = ''''" "go_history (get_HistoryLength req)"
    and call: "rh_GetTask h (rest_context ctx (get_task_http C req)) req w = (w', cc, res)"
    and timed: "\<forall>t. res = Inr t \<longrightarrow> timed_status (task_Status t)"
  shows "if is_subscription (get_ID req)
    then rest_ServeHTTP E c h '''' ctx schedule (get_task_http C req) w =
      handleSubscribeToTask E c h '''' (rest_context ctx (get_task_http C req)) ''GET'' (rr_Header (get_task_http C req))
        (fst (CutSuffix (get_ID req) '':subscribe'')) schedule w first_reply
    else \<exists>answer. rest_GetTask E (rest_net E c h ctx schedule) C req w = (w', answer) \<and>
      (case res of
         Inl err \<Rightarrow> \<forall>s. carries err s \<and> rest_error_doc E err (get_ID req) \<noteq> None \<longrightarrow> is_kind answer s
       | Inr t \<Rightarrow> answer = Inr (if json_encodable (task_json (rv_json E) t) \<and> readable_task t
           then Inr (wire_task (rv_json E) t) else Inl (Errorf ''failed to decode response: %w'' [])))"
proof -
  let ?hr = "get_task_http C req"
  note http = get_task_request[OF C req(1,2)]
  have fields: "rr_Method ?hr = ''GET''" "rr_Path ?hr = ''/tasks/'' @ PathEscape (get_ID req)" "rr_Query ?hr = get_task_query req"
    by (simp_all add: get_task_http_def)
  have ct: "negotiateContentType E (rr_Header ?hr) = ContentA2AJSON"
    by (rule negotiated[OF env http]) simp
  have serve: "rest_ServeHTTP E c h '''' ctx schedule ?hr w =
      handleGetOrSubscribeTask E c h '''' (rest_context ctx ?hr) ?hr (get_ID req) schedule w first_reply"
    using get_task_route[OF req(1)] by (simp add: rest_ServeHTTP_def Let_def fields ct first_reply_def)
  show ?thesis
  proof (cases "is_subscription (get_ID req)")
    case True
    then obtain before where "CutSuffix (get_ID req) '':subscribe'' = (before, True)"
      by (cases "CutSuffix (get_ID req) '':subscribe''") (auto simp: is_subscription_def)
    then show ?thesis using True serve by (simp add: handleGetOrSubscribeTask_def fields)
  next
    case False
    then have cut: "CutSuffix (get_ID req) '':subscribe'' = (get_ID req, False)"
      by (auto simp: is_subscription_def CutSuffix_def split: if_splits)
    have same: "\<lparr>get_Tenant = [], get_ID = get_ID req, get_HistoryLength = get_HistoryLength req\<rparr> = req"
      using req(2) by (cases req) simp
    have "get_ID req \<noteq> ''''" using req(1) by (simp add: path_id_def)
    then have "rest_net E c h ctx schedule ?hr w = (let (w', r) = rest_unary E (rh_GetTask h) (task_json (rv_json E)) (get_ID req)
        (rest_context ctx ?hr) req w first_reply in (w', Inr r))"
      using get_task_query_back[OF req(3)] same
      by (simp add: rest_net_def serve handleGetOrSubscribeTask_def cut fields handleGetTask_def fillTenant_def)
    from rest_answer[where f = "decode_reply zero_task (task_of_json (rv_json E))" and net = "rest_net E c h ctx schedule"
        and call = "rh_GetTask h" and enc = "task_json (rv_json E)", OF env http this call]
    show ?thesis using False timed task_reply[OF env]
      by (cases res) (auto simp: rest_GetTask_def)
  qed
qed

section \<open>Sending a message\<close>

definition send_message_http :: "client_call \<Rightarrow> string \<Rightarrow> send_request \<Rightarrow> rest_request" where
  "send_message_http C path req = \<lparr>rr_Method = ''POST'', rr_Path = path, rr_Query = fmempty,
     rr_Header = [(''Content-Type'', [''application/json'']),
       (''Accept'', [''application/a2a+json, application/json''])] @ cl_params C,
     rr_Body = DocBody (send_request_json req)\<rparr>"

lemma send_message_request:
  assumes "plain_call C" "path_id (req_Tenant req)" "json_encodable (send_request_json req)"
  shows "http_request C \<lparr>cr_method = ''POST'', cr_path = path_SendMessage '''', cr_query = fmempty,
      cr_payload = Some (send_request_json req), cr_streaming = False, cr_tenant = req_Tenant req\<rparr> =
    Inr (send_message_http C (CHR ''/'' # PathEscape (req_Tenant req) @ ''/message:send'') req)"
proof -
  have seg: "list_all clean_segment [''message:send'']" by (simp add: clean_segment_def)
  have "req_Tenant req \<noteq> ''''" using assms(2) by (simp add: path_id_def)
  then show ?thesis
    using assms JoinPath_tenant[OF _ seg clean_escaped[OF assms(2)]]
    by (simp add: http_request_def send_message_http_def plain_call_def path_SendMessage_def path_of_def)
qed

lemma send_message_route: "mux_Handler ''POST'' ''/message:send'' = Route HSendMessage []"
proof -
  have "list_all clean_segment [''message:send'']" "unescaped ''message:send'' = ''message:send''"
    by (simp_all add: clean_segment_def unescaped_def)
  then show ?thesis
    using mux_path_of[of "[''message:send'']" "''POST''" HSendMessage "[]"]
    by (simp add: find_route_def rest_routes_def path_defs path_of_def)
qed

fun wire_result :: "json_lib \<Rightarrow> send_result \<Rightarrow> send_result" where
  "wire_result J (RMessage m) = RMessage (wire_message J m)"
| "wire_result J (RTask t) = RTask (wire_task J t)"

definition readable_result :: "send_result \<Rightarrow> bool" where
  "readable_result v = readable_event (result_event 0 v)"

lemma send_result_event:
  assumes J: "json_lib_ok J" and timed: "timed_event (result_event 0 v)"
  shows "unmarshal_event J 0 (send_result_json J v) =
    (if readable_result v then Inr (False, result_event 0 (wire_result J v))
     else Inl (Errorf ''failed to unmarshal event: %w'' []))"
proof -
  let ?e = "result_event 0 v"
  obtain wr where wr: "StreamResponse_MarshalJSON (Some ?e) = Inr wr" "wrapper_json J wr \<noteq> ANil"
    "if readable_event ?e
     then \<exists>w'. wrapper_of_json J 0 (wrapper_json J wr) = jret w' \<and>
       StreamResponse_UnmarshalJSON w' = Inr (same_address 0 (wire_event J ?e))
     else wrapper_of_json J 0 (wrapper_json J wr) = None"
    using event_wrapper_back[OF J timed] by blast
  have doc: "send_result_json J v = wrapper_json J wr" by (simp add: send_result_json_def wr(1))
  have "same_address 0 (wire_event J ?e) = result_event 0 (wire_result J v)"
    by (cases v) simp_all
  then show ?thesis
    using wr(2,3) unfolding doc by (cases "readable_event ?e") (auto simp: unmarshal_event_def jret_def readable_result_def)
qed

lemma send_result_reply:
  assumes env: "rest_env_ok E" and timed: "timed_event (result_event 0 v)"
  shows "decode_send_result E (write_result (send_result_json (rv_json E) v) first_reply) =
    (if json_encodable (send_result_json (rv_json E) v)
     then if readable_result v then Inr (wire_result (rv_json E) v)
       else Inl (Errorf ''result violates A2A spec - could not determine type: %w; data: %s''
         [Errorf ''failed to unmarshal event: %w'' []])
     else Inl (Errorf ''failed to decode response: %w'' []))"
  using send_result_event[OF rest_envD(1)[OF env] timed]
  by (cases "wire_result (rv_json E) v") (simp_all add: decode_send_result_def write_result_def)

lemma send_request_body:
  assumes "go_send_request req"
  shows "decode_body zero_send_request (send_request_of_json J) (DocBody (send_request_json req)) =
    (if pred_option readable_message (req_Message req) then Some (wire_send_request J req) else None)"
  using send_request_json_back[OF assms, of J]
  by (simp add: decode_body_def jret_def) (simp add: send_request_json_def)

text \<open>The server's side of the call, with the tenant in the path.\<close>

lemma send_message_served:
  assumes env: "rest_env_ok E" and C: "plain_call C"
    and template: "tp_prefix tmpl = []" "tp_suffix tmpl = []"
      "tp_capture tmpl = [''*''] \<or> list_all2 accepts (tp_capture tmpl) (split_on (CHR ''/'') (req_Tenant req))"
    and req: "path_id (req_Tenant req)" "json_encodable (send_request_json req)"
  shows "tenant_net E c h tmpl ctx schedule (send_message_http C (CHR ''/'' # PathEscape (req_Tenant req) @ ''/message:send'') req) w =
    (let (w', r) = rest_handleSendMessage E h (req_Tenant req) (rest_context ctx (send_message_http C ''/message:send'' req))
       (DocBody (send_request_json req)) w first_reply in (w', Inr r))"
proof -
  let ?hr = "send_message_http C (CHR ''/'' # PathEscape (req_Tenant req) @ ''/message:send'') req"
  let ?hr' = "send_message_http C ''/message:send'' req"
  have ct: "negotiateContentType E (rr_Header ?hr') = ContentA2AJSON"
    using negotiated[OF env send_message_request[OF C req]] by (simp add: send_message_http_def)
  have "MatchEscaped tmpl (CHR ''/'' # PathEscape (req_Tenant req) @ ''/message:send'') =
      Some \<lparr>Captured = req_Tenant req, Rest = ''/message:send''\<rparr>"
    using MatchEscaped_tenant[of tmpl "''message:send''" "req_Tenant req"] template by simp
  then have "tenant_ServeHTTP E c h tmpl ctx schedule ?hr w = rest_ServeHTTP E c h (req_Tenant req) ctx schedule ?hr' w"
    by (simp add: tenant_ServeHTTP_def Let_def send_message_http_def)
  also have "\<dots> = rest_handleSendMessage E h (req_Tenant req) (rest_context ctx ?hr') (DocBody (send_request_json req)) w first_reply"
    using ct by (simp add: rest_ServeHTTP_def Let_def first_reply_def send_message_http_def send_message_route)
  finally show ?thesis by (simp add: tenant_net_def)
qed

text \<open>
  C11: Sending a message over REST to a server of many tenants: the tenant the client names is the one
  the handler sees, the message arrives in its JSON form, and the client gets the message or task of
  the handler's answer or an error of its kind. A message with an unreadable part is a parse error.
\<close>

theorem send_message_over_rest:
  assumes env: "rest_env_ok E" and C: "plain_call C"
    and template: "tp_prefix tmpl = []" "tp_suffix tmpl = []"
      "tp_capture tmpl = [''*''] \<or> list_all2 accepts (tp_capture tmpl) (split_on (CHR ''/'') (req_Tenant req))"
    and req: "path_id (req_Tenant req)" "json_encodable (send_request_json req)" "go_send_request req"
    and call: "rh_SendMessage h (rest_context ctx (send_message_http C ''/message:send'' req))
      (wire_send_request (rv_json E) req) w = (w', cc, res)"
    and timed: "\<forall>v. res = Inr v \<longrightarrow> timed_event (result_event 0 v)"
  shows "\<exists>w2 answer. rest_SendMessage E (tenant_net E c h tmpl ctx schedule) C req w = (w2, answer) \<and>
    (if \<not> pred_option readable_message (req_Message req)
     then w2 = w \<and> (rest_error_doc E (Sentinel ErrParseError) '''' \<noteq> None \<longrightarrow> is_kind answer ErrParseError)
     else w2 = w' \<and>
      (case res of
         Inl err \<Rightarrow> \<forall>s. carries err s \<and> rest_error_doc E err '''' \<noteq> None \<longrightarrow> is_kind answer s
       | Inr v \<Rightarrow> if json_encodable (send_result_json (rv_json E) v) \<and> readable_result v
           then answer = Inr (Inr (wire_result (rv_json E) v)) else \<exists>e. answer = Inr (Inl e)))"
proof -
  let ?hr = "send_message_http C (CHR ''/'' # PathEscape (req_Tenant req) @ ''/message:send'') req"
  let ?hr' = "send_message_http C ''/message:send'' req" and ?net = "tenant_net E c h tmpl ctx schedule"
  note http = send_message_request[OF C req(1,2)] and body = send_request_body[OF req(3), of "rv_json E"]
  note serve = send_message_served[OF env C template req(1,2), of c h ctx schedule]
  show ?thesis
  proof (cases "pred_option readable_message (req_Message req)")
    case False
    define refuse where "refuse = (\<lambda>(x::go_ctx) (y::send_request) (w::'a). (w, NewCallContext fmempty,
      Inl (Sentinel ErrParseError) :: go_error + send_result))"
    have "?net ?hr w = (let (w', r) = rest_unary E refuse (send_result_json (rv_json E)) '''' ctx req w first_reply in (w', Inr r))"
      using False by (simp add: serve rest_handleSendMessage_def body rest_unary_def refuse_def)
    moreover have "refuse ctx req w = (w, NewCallContext fmempty, Inl (Sentinel ErrParseError))"
      by (simp add: refuse_def)
    ultimately have "\<exists>answer. on_reply (decode_send_result E) (sendRequest E ?net C \<lparr>cr_method = ''POST'',
        cr_path = path_SendMessage '''', cr_query = fmempty, cr_payload = Some (send_request_json req),
        cr_streaming = False, cr_tenant = req_Tenant req\<rparr> w) = (w, answer) \<and>
      (\<forall>s. carries (Sentinel ErrParseError) s \<and> rest_error_doc E (Sentinel ErrParseError) '''' \<noteq> None \<longrightarrow> is_kind answer s)"
      using rest_answer[where f = "decode_send_result E" and call = refuse, OF env http] by force
    moreover have "carries (Sentinel ErrParseError) ErrParseError"
      by (simp add: carries_def a2a_sentinels_def)
    ultimately show ?thesis using False by (auto simp: rest_SendMessage_def)
  next
    case True
    have "wire_send_request (rv_json E) req\<lparr>req_Tenant := fillTenant (req_Tenant req)
        (req_Tenant (wire_send_request (rv_json E) req))\<rparr> = wire_send_request (rv_json E) req"
      by (cases req) (simp add: wire_send_request_def fillTenant_def)
    then have "?net ?hr w = (let (w', r) = rest_unary E (rh_SendMessage h) (send_result_json (rv_json E)) ''''
        (rest_context ctx ?hr') (wire_send_request (rv_json E) req) w first_reply in (w', Inr r))"
      using True by (simp add: serve rest_handleSendMessage_def body)
    from rest_answer[where f = "decode_send_result E" and net = ?net and call = "rh_SendMessage h"
        and enc = "send_result_json (rv_json E)", OF env http this call]
    obtain answer where "rest_SendMessage E ?net C req w = (w', answer)"
      "case res of Inl err \<Rightarrow> \<forall>s. carries err s \<and> rest_error_doc E err '''' \<noteq> None \<longrightarrow> is_kind answer s
       | Inr v \<Rightarrow> answer = Inr (decode_send_result E (write_result (send_result_json (rv_json E) v) first_reply))"
      by (auto simp: rest_SendMessage_def)
    then show ?thesis using True timed send_result_reply[OF env] by (cases res) auto
  qed
qed

section \<open>Streams through both\<close>

text \<open>A connection that accepts every write, and fresh ids of one line.\<close>

definition stream_env_ok :: "rest_env \<Rightarrow> bool" where
  "stream_env_ok E \<longleftrightarrow> rest_env_ok E \<and> rv_flusher E \<and> (\<forall>b. rv_write E b = None) \<and> (\<forall>n. one_line (rv_uuid E n))"

text \<open>A document that is written on one line and read back.\<close>

definition text_ok :: "rest_env \<Rightarrow> any \<Rightarrow> bool" where
  "text_ok E doc \<longleftrightarrow> rv_parse E (rv_render E doc) = Some doc \<and> one_line (rv_render E doc) \<and> rv_render E doc \<noteq> []"

text \<open>The effect of a part of a stream: whole blocks with the given data.\<close>

definition stream_begun :: "reply \<Rightarrow> bool" where
  "stream_begun r \<longleftrightarrow> rp_Status r = 200 \<and> rp_ContentType r = ''text/event-stream''"

definition streamed :: "reply \<Rightarrow> reply \<Rightarrow> string list \<Rightarrow> bool" where
  "streamed r r' datas \<longleftrightarrow> stream_begun r' \<and>
     (\<exists>ops. list_all sse_op_ok ops \<and> concat (map op_data ops) = datas \<and> rp_Bytes r' = rp_Bytes r @ sse_bytes ops)"

lemma streamed_trans: "streamed r r1 xs \<Longrightarrow> streamed r1 r2 ys \<Longrightarrow> streamed r r2 (xs @ ys)"
proof -
  assume "streamed r r1 xs" "streamed r1 r2 ys"
  then obtain ops ops' where "list_all sse_op_ok (ops @ ops')" "concat (map op_data (ops @ ops')) = xs @ ys"
    "rp_Bytes r2 = rp_Bytes r @ sse_bytes ops @ sse_bytes ops'" "stream_begun r2"
    by (auto simp: streamed_def)
  moreover have "sse_bytes ops @ sse_bytes ops' = sse_bytes (ops @ ops')"
    by (simp add: sse_bytes_lines)
  ultimately show ?thesis unfolding streamed_def by metis
qed

lemma streamed_op:
  assumes "stream_begun r'" "rp_Bytes r' = rp_Bytes r @ sse_bytes [op]" "sse_op_ok op"
  shows "streamed r r' (op_data op)"
  unfolding streamed_def using assms by (intro conjI exI[of _ "[op]"]) simp_all

lemma write_data_ok:
  assumes "stream_env_ok E" "one_line d" "d \<noteq> []" "started \<longrightarrow> stream_begun r"
  shows "\<exists>r'. WriteData (reply_writer E) (rv_uuid E n) d (startStream E started r) = (r', None) \<and> streamed r r' [d]"
proof -
  let ?r = "startStream E started r"
  let ?r' = "?r\<lparr>rp_Bytes := rp_Bytes ?r @ sse_bytes [SseData (rv_uuid E n) d]\<rparr>"
  have "WriteData (reply_writer E) (rv_uuid E n) d ?r = (?r', None)"
    using assms(1) by (simp add: WriteData_def reply_writer_def stream_env_ok_def sse_bytes_lines end_line_def)
  moreover have "stream_begun ?r'" "rp_Bytes ?r = rp_Bytes r"
    using assms(4) by (simp_all add: stream_begun_def startStream_def WriteHeaders_def reply_writer_def)
  ultimately show ?thesis
    using assms streamed_op[of ?r' r "SseData (rv_uuid E n) d"] by (simp add: stream_env_ok_def)
qed

lemma keep_alive_ok:
  assumes "stream_env_ok E" "started \<longrightarrow> stream_begun r"
  shows "\<exists>r'. WriteKeepAlive (reply_writer E) (startStream E started r) = (r', None) \<and> streamed r r' []"
proof -
  let ?r = "startStream E started r"
  let ?r' = "?r\<lparr>rp_Bytes := rp_Bytes ?r @ sse_bytes [SseKeepAlive]\<rparr>"
  have "WriteKeepAlive (reply_writer E) ?r = (?r', None)"
    using assms(1) by (simp add: WriteKeepAlive_def reply_writer_def stream_env_ok_def sse_bytes_lines end_line_def)
  moreover have "stream_begun ?r'" "rp_Bytes ?r = rp_Bytes r"
    using assms(2) by (simp_all add: stream_begun_def startStream_def WriteHeaders_def reply_writer_def)
  ultimately show ?thesis
    using streamed_op[of ?r' r SseKeepAlive] by simp
qed

lemma streamed_begun: "streamed r r' ds \<Longrightarrow> stream_begun r'"
  by (simp add: streamed_def)

text \<open>
  A schedule that receives everything the goroutine sends and is not cut off, with keep-alives
  anywhere.
\<close>

definition serves :: "select_case list \<Rightarrow> nat \<Rightarrow> bool" where
  "serves schedule n \<longleftrightarrow> CtxDone \<notin> set schedule \<and> n < length (filter (\<lambda>s. s = Receive) schedule)"

text \<open>The items: documents, and at the end possibly an error.\<close>

definition error_data :: "rest_env \<Rightarrow> error_forms \<Rightarrow> go_error option \<Rightarrow> string list" where
  "error_data E F failed = (case failed of None \<Rightarrow> [] | Some err \<Rightarrow> map (rv_render E) (case ef_doc F err of None \<Rightarrow> [] | Some d \<Rightarrow> [d]))"

lemma select_loop_run:
  assumes env: "stream_env_ok E"
    and docs: "list_all (\<lambda>d. one_line (rv_render E d) \<and> rv_render E d \<noteq> []) docs"
    and failed: "\<forall>err. failed = Some err \<longrightarrow> (\<exists>d. ef_doc F err = Some d \<and> one_line (rv_render E d) \<and> rv_render E d \<noteq> [])"
    and schedule: "serves schedule (length docs)" and started: "started \<longrightarrow> stream_begun r"
    and json: "sc_accepts_json c"
  shows "\<exists>r'. select_loop E F c (map ItemData docs @ (case failed of None \<Rightarrow> [] | Some err \<Rightarrow> [ItemErr err]))
      None n started schedule r = (r', Returned) \<and>
    (streamed r r' (map (rv_render E) docs @ error_data E F failed) \<or>
     \<not> started \<and> docs = [] \<and> (\<exists>err. failed = Some err \<and> r' = ef_plain F err r))"
  using docs schedule started
proof (induction schedule arbitrary: docs n started r)
  case Nil
  then show ?case by (simp add: serves_def)
next
  case (Cons s schedule)
  let ?fin = "case failed of None \<Rightarrow> [] | Some err \<Rightarrow> [ItemErr err]"
  show ?case
  proof (cases s)
    case CtxDone
    with Cons.prems(2) show ?thesis by (simp add: serves_def)
  next
    case KeepAliveTick
    then have sch: "serves schedule (length docs)" using Cons.prems(2) by (simp add: serves_def)
    show ?thesis
    proof (cases "sc_keep_alive c")
      case False
      with Cons.IH[OF Cons.prems(1) sch Cons.prems(3)] KeepAliveTick show ?thesis by simp
    next
      case True
      obtain r1 where r1: "WriteKeepAlive (reply_writer E) (startStream E started r) = (r1, None)" "streamed r r1 []"
        using keep_alive_ok[OF env Cons.prems(3)] by blast
      obtain r' where "select_loop E F c (map ItemData docs @ ?fin) None n True schedule r1 = (r', Returned)"
        "streamed r1 r' (map (rv_render E) docs @ error_data E F failed)"
        using Cons.IH[OF Cons.prems(1) sch, of True r1 n] streamed_begun[OF r1(2)] by auto
      then show ?thesis using True KeepAliveTick r1 streamed_trans[OF r1(2)] by auto
    qed
  next
    case Receive
    show ?thesis
    proof (cases docs)
      case Nil
      show ?thesis
      proof (cases failed)
        case None
        have "streamed r (startStream E started r) []"
          unfolding streamed_def using Cons.prems(3)
          by (intro conjI exI[of _ "[]"])
            (simp_all add: stream_begun_def startStream_def WriteHeaders_def reply_writer_def sse_bytes_def)
        then show ?thesis using None Nil Receive by (simp add: error_data_def)
      next
        case (Some err)
        then obtain d where d: "ef_doc F err = Some d" "one_line (rv_render E d)" "rv_render E d \<noteq> []"
          using failed by blast
        show ?thesis
        proof (cases started)
          case True
          obtain r1 where "WriteData (reply_writer E) (rv_uuid E n) (rv_render E d) (startStream E started r) = (r1, None)"
            "streamed r r1 [rv_render E d]"
            using write_data_ok[OF env d(2,3) Cons.prems(3)] by blast
          then show ?thesis using True Some Nil Receive
            by (simp add: rest_handleError_def write_error_event_def d(1) error_data_def)
        next
          case False
          then show ?thesis using Some Nil Receive json by (simp add: rest_handleError_def)
        qed
      qed
    next
      case (Cons d ds)
      with Cons.prems have d: "one_line (rv_render E d)" "rv_render E d \<noteq> []"
        and ds: "list_all (\<lambda>d. one_line (rv_render E d) \<and> rv_render E d \<noteq> []) ds" by auto
      have sch: "serves schedule (length ds)" using Cons.prems(2) Receive Cons by (simp add: serves_def)
      obtain r1 where r1: "WriteData (reply_writer E) (rv_uuid E n) (rv_render E d) (startStream E started r) = (r1, None)"
        "streamed r r1 [rv_render E d]"
        using write_data_ok[OF env d Cons.prems(3)] by blast
      obtain r' where "select_loop E F c (map ItemData ds @ ?fin) None (Suc n) True schedule r1 = (r', Returned)"
        "streamed r1 r' (map (rv_render E) ds @ error_data E F failed)"
        using Cons.IH[OF ds sch, of True r1 "Suc n"] streamed_begun[OF r1(2)] by auto
      then show ?thesis using Cons Receive r1 streamed_trans[OF r1(2)] by fastforce
    qed
  qed
qed

text \<open>The blocks the client reads.\<close>

lemma ParseStreamResponse_event:
  "StreamResponse_UnmarshalJSON wr = Inr e \<Longrightarrow> ParseStreamResponse wr None = Inr (Inr e)"
  by (auto simp: StreamResponse_UnmarshalJSON_def ParseStreamResponse_def Let_def split: if_splits)

lemma parse_event_block:
  assumes env: "rest_env_ok E" and e: "timed_event e" "readable_event e"
    and doc: "marshal_event (rv_json E) (Some e) = Inr doc" "rv_parse E (rv_render E doc) = Some doc"
  shows "parse_block E a (rv_render E doc) = Inr (Inr (same_address a (wire_event (rv_json E) e)))"
proof -
  let ?J = "rv_json E"
  obtain wr w' where w: "StreamResponse_MarshalJSON (Some e) = Inr wr"
    "wrapper_of_json ?J a (wrapper_json ?J wr) = jret w'"
    "StreamResponse_UnmarshalJSON w' = Inr (same_address a (wire_event ?J e))"
    using event_wrapper_back[OF rest_envD(1)[OF env] e(1), of a] e(2) by auto
  have d: "doc = wrapper_json ?J wr"
    using doc(1) w(1) by (simp add: marshal_event_def json_marshal_def split: if_splits)
  obtain m where m: "wrapper_json ?J wr = AMap m" "fmlookup m ''error'' = None"
  proof
    show "wrapper_json ?J wr = AMap (put_fields
      [(''message'', map_option msg_json (w_Message wr)), (''task'', map_option (\<lambda>(a, t). task_json ?J t) (w_Task wr)),
       (''statusUpdate'', map_option (status_event_json ?J) (w_StatusUpdate wr)),
       (''artifactUpdate'', map_option artifact_event_json (w_ArtifactUpdate wr))])"
      by (simp add: wrapper_json_def obj_def)
  qed (simp add: field_eqs)
  have "jfield m ''error'' None (jsome rest_body_of_json) = jret None"
    using m(2) by (simp add: jfield_def)
  then show ?thesis
    using w(2) doc(2) ParseStreamResponse_event[OF w(3)]
    by (simp add: parse_block_def d m(1) jret_def) (simp add: jbind_def)
qed

lemma parse_error_block:
  assumes "rv_parse E (rv_render E doc) = Some doc" "doc = rest_body_json body" "int64_range (rb_Code body)"
    and "ConvertErrorBody body = Inr e"
  shows "parse_block E a (rv_render E doc) = Inr (Inl e)"
proof -
  obtain m where m: "rest_body_json body = AMap m" and keys: "\<forall>k. k \<noteq> ''error'' \<longrightarrow> fmlookup m k = None"
    by (simp add: rest_body_json_def obj_def put_fields.simps)
  have "error_body_of_json (AMap m) = jret (Some body)" using rest_body_back[OF assms(3)] m by simp
  then have err: "jfield m ''error'' None (jsome rest_body_of_json) = jret (Some body)"
    by (simp add: error_body_of_json_def)
  have "wrapper_of_json (rv_json E) a (AMap m) = jret empty_wrapper"
    using keys by (simp add: wrapper_of_json_def jfield_def empty_wrapper_def)
  then show ?thesis
    using assms(1,4) err by (simp add: parse_block_def assms(2) m jret_def jbind_def ParseStreamResponse_def
        empty_wrapper_def Let_def)
qed

lemma read_event_blocks:
  assumes "\<forall>e\<in>set es. parse_block E a (f e) = Inr (Inr (g e))"
  shows "read_blocks E a (map Inr (map f es) @ blocks) = map (\<lambda>e. Inr (Inr (g e))) es @ read_blocks E a blocks"
  using assms by (induction es) simp_all

lemma sse_items_events:
  "\<forall>e\<in>set es. marshal_event J (Some e) = Inr (f e) \<Longrightarrow>
   sse_items J (map Inr es @ ends) = map ItemData (map f es) @ sse_items J ends"
  by (induction es) simp_all

definition stream_message_http :: "client_call \<Rightarrow> send_request \<Rightarrow> rest_request" where
  "stream_message_http C req = \<lparr>rr_Method = ''POST'', rr_Path = ''/message:stream'', rr_Query = fmempty,
     rr_Header = [(''Content-Type'', [''application/json'']),
       (''Accept'', [''text/event-stream, application/json''])] @ cl_params C,
     rr_Body = DocBody (send_request_json req)\<rparr>"

lemma stream_message_request:
  assumes "plain_call C" "req_Tenant req = ''''" "json_encodable (send_request_json req)"
  shows "http_request C \<lparr>cr_method = ''POST'', cr_path = path_StreamMessage '''', cr_query = fmempty,
      cr_payload = Some (send_request_json req), cr_streaming = True, cr_tenant = req_Tenant req\<rparr> =
    Inr (stream_message_http C req)"
proof -
  have "list_all clean_segment [''message:stream'']" by (simp add: clean_segment_def)
  from JoinPath_root[OF _ this] show ?thesis
    using assms by (simp add: http_request_def stream_message_http_def plain_call_def path_StreamMessage_def path_of_def)
qed

lemma stream_message_route: "mux_Handler ''POST'' ''/message:stream'' = Route HStreamMessage []"
proof -
  have "list_all clean_segment [''message:stream'']" "unescaped ''message:stream'' = ''message:stream''"
    by (simp_all add: clean_segment_def unescaped_def)
  then show ?thesis
    using mux_path_of[of "[''message:stream'']" "''POST''" HStreamMessage "[]"]
    by (simp add: find_route_def rest_routes_def path_defs path_of_def)
qed

lemma stream_accepts_json:
  assumes "rest_env_ok E"
  shows "acceptsJSONContent E (rr_Header (stream_message_http C req))"
proof -
  have "''text/event-stream, application/json'' \<in> set (header_Values (rr_Header (stream_message_http C req)) ''Accept'')"
    unfolding header_Values_def stream_message_http_def by force
  moreover have "'' application/json'' \<in> set (split_on (CHR '','') ''text/event-stream, application/json'')"
    by simp
  ultimately have "'' application/json'' \<in> set (media_ranges (rr_Header (stream_message_http C req)))"
    unfolding media_ranges_def set_concat set_map by blast
  moreover have "rv_media E '' application/json'' = Some ContentJSON"
    using rest_envD(4)[OF assms] by (simp add: ContentJSON_def)
  ultimately show ?thesis unfolding acceptsJSONContent_def by blast
qed

text \<open>The reply of the loop to a client that takes JSON: a stream, or the plain error.\<close>

lemma loop_reply:
  assumes env: "stream_env_ok E"
    and docs: "list_all (\<lambda>d. one_line (rv_render E d) \<and> rv_render E d \<noteq> []) docs"
    and failed: "\<forall>err. failed = Some err \<longrightarrow> (\<exists>d. ef_doc F err = Some d \<and> one_line (rv_render E d) \<and> rv_render E d \<noteq> [])"
    and schedule: "serves schedule (length docs)" and json: "sc_accepts_json c" and empty: "rp_Bytes r = []"
  obtains (stream) ops r' where "fst (select_loop E F c (map ItemData docs @
      (case failed of None \<Rightarrow> [] | Some err \<Rightarrow> [ItemErr err])) None 0 False schedule r) = r'"
    "stream_begun r'" "rp_Bytes r' = sse_bytes ops" "list_all sse_op_ok ops"
    "concat (map op_data ops) = map (rv_render E) docs @ error_data E F failed"
  | (plain) err where "docs = []" "failed = Some err" "fst (select_loop E F c (map ItemData docs @
      (case failed of None \<Rightarrow> [] | Some err \<Rightarrow> [ItemErr err])) None 0 False schedule r) = ef_plain F err r"
proof -
  obtain r' where r': "select_loop E F c (map ItemData docs @ (case failed of None \<Rightarrow> [] | Some err \<Rightarrow> [ItemErr err]))
      None 0 False schedule r = (r', Returned)"
    "streamed r r' (map (rv_render E) docs @ error_data E F failed) \<or>
     docs = [] \<and> (\<exists>err. failed = Some err \<and> r' = ef_plain F err r)"
    using select_loop_run[OF env docs failed schedule _ json, of False r 0] by auto
  from r'(2) show thesis
  proof
    assume "streamed r r' (map (rv_render E) docs @ error_data E F failed)"
    then obtain ops where "stream_begun r'" "rp_Bytes r' = sse_bytes ops" "list_all sse_op_ok ops"
      "concat (map op_data ops) = map (rv_render E) docs @ error_data E F failed"
      using empty by (auto simp: streamed_def)
    with r'(1) show thesis using stream by auto
  next
    assume "docs = [] \<and> (\<exists>err. failed = Some err \<and> r' = ef_plain F err r)"
    with r'(1) show thesis using plain by auto
  qed
qed

text \<open>The error of a stream as its last event, and as a reply of its own.\<close>

lemma rest_error_event:
  assumes err: "carries err s" and doc: "rest_error_doc E err '''' = Some d" "text_ok E d"
  shows "\<exists>x. read_blocks E a (map Inr (error_data E (rest_forms E) (Some err))) = [x] \<and> is_kind x s"
proof -
  obtain b e where b: "d = rest_body_json b" "int64_range (rb_Code b)" "ConvertErrorBody b = Inr e" "\<forall>t. errors_Is e t \<longleftrightarrow> t = s"
    using rest_error_doc_kind[OF err doc(1)] by blast
  have "parse_block E a (rv_render E d) = Inr (Inl e)"
    using parse_error_block[OF _ b(1-3)] doc(2) by (simp add: text_ok_def)
  then show ?thesis using doc(1) b(4) by (simp add: error_data_def rest_forms_def is_kind_def)
qed

text \<open>The server's side of a streaming call.\<close>

lemma rest_stream_served:
  assumes env: "stream_env_ok E"
    and req: "go_send_request r" "pred_option readable_message (req_Message r)" "req_Tenant r = ''''"
    and call: "rh_SendStreamingMessage h (rest_context ctx (stream_message_http C r))
      (wire_send_request (rv_json E) r) w = (w', cc, map Inr es @ ends)"
    and ends: "ends = [] \<or> (\<exists>err rest. ends = Inl err # rest)"
    and events: "\<forall>e\<in>set es. marshal_event (rv_json E) (Some e) = Inr (f e)"
  shows "rest_net E c h ctx schedule (stream_message_http C r) w =
    (w', Inr (fst (select_loop E (rest_forms E) (c\<lparr>sc_accepts_json := True\<rparr>) (map ItemData (map f es) @
        (case (case ends of Inl err # rest \<Rightarrow> Some err | _ \<Rightarrow> None) of None \<Rightarrow> [] | Some err \<Rightarrow> [ItemErr err]))
      None 0 False schedule \<lparr>rp_Status = 200, rp_ContentType = negotiateContentType E (rr_Header (stream_message_http C r)),
        rp_Doc = None, rp_Bytes = []\<rparr>)))"
proof -
  let ?J = "rv_json E"
  have body: "decode_body zero_send_request (send_request_of_json ?J) (DocBody (send_request_json r)) =
      Some (wire_send_request ?J r)"
    using send_request_body[OF req(1), of ?J] req(2) by simp
  have tenant: "wire_send_request ?J r\<lparr>req_Tenant := fillTenant '''' (req_Tenant (wire_send_request ?J r))\<rparr> = wire_send_request ?J r"
    by (cases r) (simp add: wire_send_request_def fillTenant_def)
  have rest: "rest_env_ok E" and writer: "sse_NewWriter (reply_writer E) = Inr (reply_writer E)"
    using env by (simp_all add: sse_NewWriter_def reply_writer_def stream_env_ok_def)
  have items: "sse_items ?J (map Inr es @ ends) = map ItemData (map f es) @
      (case (case ends of Inl err # rest \<Rightarrow> Some err | _ \<Rightarrow> None) of None \<Rightarrow> [] | Some err \<Rightarrow> [ItemErr err])"
    using sse_items_events[OF events] ends by auto
  show ?thesis
    using call stream_accepts_json[OF rest, of C r] body tenant writer
    by (simp add: rest_net_def rest_ServeHTTP_def Let_def handleStreamMessage_def stream_reply_def
        stream_message_route stream_message_http_def handleStreamingRequest_def items)
qed

text \<open>What the client makes of the reply to a streaming call.\<close>

lemma rest_stream_call:
  assumes C: "plain_call C" and req: "req_Tenant r = ''''" "json_encodable (send_request_json r)"
    and net: "net (stream_message_http C r) w = (w', Inr resp)"
  shows "rest_SendStreamingMessage E net a None C r w = (w',
    if rp_Status resp = 200 then read_blocks E a (ParseDataStream \<lparr>body_bytes = rp_Bytes resp, body_error = None\<rparr>)
    else (case response_error E resp of Inl panic \<Rightarrow> [Inl panic] | Inr err \<Rightarrow> [Inr (Inl err)]))"
proof -
  have "sendRequest E net C \<lparr>cr_method = ''POST'', cr_path = path_StreamMessage '''', cr_query = fmempty,
      cr_payload = Some (send_request_json r), cr_streaming = True, cr_tenant = req_Tenant r\<rparr> w =
    (w', if rp_Status resp \<noteq> 200 then (case response_error E resp of Inl panic \<Rightarrow> Inl panic | Inr err \<Rightarrow> Inr (Inl err))
         else Inr (Inr resp))"
    unfolding sendRequest_def stream_message_request[OF C req] sum.case net by simp
  then show ?thesis
    by (simp add: rest_SendStreamingMessage_def doStreamingRequest_def split: sum.splits)
qed


section \<open>A concrete connection\<close>

lemma sentinel_error_doc: "rest_error_doc E (Sentinel x) tid \<noteq> None"
proof -
  have "list_all typed_encodable (re_Details (ToRESTError (rv_text E) (rv_now E) (Sentinel x) tid))"
    by (simp add: ToRESTError_def Let_def attached_details_def typed_encodable_def NewErrorInfo_def
        NewTyped_def encodable_map_def fmpred_iff split: option.splits)
  then show ?thesis by (simp add: rest_error_doc_def encode_rest_error_None)
qed

definition echo_event :: event where
  "echo_event = EMessage (NewMessage ''r'' MessageRoleAgent [NewDataPart (AInt KInt 5)])"

definition echo_doc :: any where
  "echo_doc = obj [(''message'', Some (msg_json (NewMessage ''r'' MessageRoleAgent [NewDataPart (AInt KInt 5)])))]"

definition missing_doc :: any where
  "missing_doc = the (map_option rest_body_json
     (encode_rest_error float_exact (ToRESTError (\<lambda>e. ''failed'') ''now'' (Sentinel ErrTaskNotFound) '''')))"

definition plain_rest :: rest_env where
  "plain_rest = \<lparr>rv_json = unary_ms, rv_text = (\<lambda>e. ''failed''), rv_now = ''now'',
     rv_media = (\<lambda>m. case m of c # m' \<Rightarrow> if c = CHR '' '' then Some m' else Some m | [] \<Rightarrow> None),
     rv_render = (\<lambda>d. if d = echo_doc then ''1'' else ''2''),
     rv_parse = (\<lambda>s. if s = ''1'' then Some echo_doc else Some missing_doc),
     rv_card = (\<lambda>ac. ANil), rv_card_of = (\<lambda>d. None), rv_uuid = (\<lambda>n. ''id''), rv_flusher = True,
     rv_write = (\<lambda>b. None), rv_quote = (\<lambda>r. ''quoted'')\<rparr>"

definition plain_client :: client_call where
  "plain_client = \<lparr>cl_base = '''', cl_extra = [], cl_params = []\<rparr>"

definition sse_defaults :: sse_config where
  "sse_defaults = \<lparr>sc_accepts_json = False, sc_keep_alive = True, sc_PanicHandler = None\<rparr>"

lemma plain_rest_ok: "rest_env_ok plain_rest" "stream_env_ok plain_rest" "plain_call plain_client"
proof -
  show "rest_env_ok plain_rest"
    by (simp add: rest_env_ok_def plain_rest_def unary_ms_ok ContentJSON_def ContentA2AJSON_def)
  then show "stream_env_ok plain_rest"
    by (simp add: stream_env_ok_def) (simp add: plain_rest_def one_line_def newline_def MaxSSETokenSize_def)
qed (simp add: plain_call_def plain_client_def)

lemma get_task_over_rest_witness:
  "\<exists>answer. rest_GetTask plain_rest (rest_net plain_rest sse_defaults echo_handler background []) plain_client
      \<lparr>get_Tenant = '''', get_ID = ''a/b'', get_HistoryLength = None\<rparr> 5 = (5, answer) \<and>
    is_kind answer ErrUnsupportedOperation"
proof -
  let ?req = "\<lparr>get_Tenant = '''', get_ID = ''a/b'', get_HistoryLength = None\<rparr>"
  have call: "rh_GetTask echo_handler (rest_context background (get_task_http plain_client ?req)) ?req 5 =
      (5, NewCallContext fmempty, Inl (Sentinel ErrUnsupportedOperation))"
    by (simp add: echo_handler_def refuse_def)
  have "carries (Sentinel ErrUnsupportedOperation) ErrUnsupportedOperation"
    by (simp add: carries_def a2a_sentinels_def)
  then show ?thesis
    using get_task_over_rest[OF plain_rest_ok(1,3) _ _ _ call, of sse_defaults "[]"]
      sentinel_error_doc[of plain_rest ErrUnsupportedOperation "''a/b''"]
    by (auto simp: path_id_def go_history_def is_subscription_def CutSuffix_def)
qed

lemma hello_request_rest:
  "json_encodable (send_request_json (hello_request\<lparr>req_Tenant := t\<rparr>))"
  "go_send_request (hello_request\<lparr>req_Tenant := t\<rparr>)"
  "pred_option readable_message (req_Message (hello_request\<lparr>req_Tenant := t\<rparr>))"
  by (simp_all add: send_request_json_def hello_request_def msg_json_def NewMessage_def NewTextPart_def
      str_omit_def list_omit_def meta_omit_def ContentParts_MarshalJSON_def Part_MarshalJSON_def gm_len_def
      gm_keys_def go_send_request_def readable_message_def readable_part_def)

lemma echo_event_json:
  "marshal_event unary_ms (Some echo_event) = Inr echo_doc"
  "timed_event echo_event" "readable_event echo_event"
proof -
  let ?m = "NewMessage ''r'' MessageRoleAgent [NewDataPart (AInt KInt 5)]"
  have "wrapper_json unary_ms (empty_wrapper\<lparr>w_Message := Some ?m\<rparr>) = echo_doc"
    by (simp add: wrapper_json_def empty_wrapper_def obj_def put_fields.simps echo_doc_def)
  moreover have "json_encodable echo_doc"
    by (simp add: echo_doc_def msg_json_def NewMessage_def NewDataPart_def str_omit_def list_omit_def meta_omit_def
        ContentParts_MarshalJSON_def Part_MarshalJSON_def gm_len_def gm_keys_def)
  ultimately show "marshal_event unary_ms (Some echo_event) = Inr echo_doc"
    by (simp add: marshal_event_def echo_event_def json_marshal_def)
qed (simp_all add: echo_event_def readable_message_def readable_part_def NewMessage_def NewDataPart_def)

lemma send_message_over_rest_witness:
  "rest_SendMessage plain_rest (tenant_net plain_rest sse_defaults echo_handler
      \<lparr>tp_prefix = [], tp_capture = [''*''], tp_suffix = []\<rparr> background []) plain_client
      (hello_request\<lparr>req_Tenant := ''acme/eu''\<rparr>) 5 =
    (6, Inr (Inr (RMessage (NewMessage ''r'' MessageRoleAgent [NewDataPart (AFloat KFloat64 5)]))))"
proof -
  let ?r = "hello_request\<lparr>req_Tenant := ''acme/eu''\<rparr>" and ?t = "\<lparr>tp_prefix = [], tp_capture = [''*''], tp_suffix = []\<rparr>"
  let ?v = "RMessage (NewMessage ''r'' MessageRoleAgent [NewDataPart (AInt KInt 5)])"
  have J: "rv_json plain_rest = unary_ms" by (simp add: plain_rest_def)
  have call: "rh_SendMessage echo_handler (rest_context background (send_message_http plain_client ''/message:send'' ?r))
      (wire_send_request (rv_json plain_rest) ?r) 5 = (6, NewCallContext fmempty, Inr ?v)"
    by (simp add: echo_handler_def)
  have id: "path_id (req_Tenant ?r)" by (simp add: path_id_def)
  have timed: "\<forall>v. (Inr ?v :: go_error + send_result) = Inr v \<longrightarrow> timed_event (result_event 0 v)" by simp
  have star: "tp_prefix ?t = []" "tp_suffix ?t = []"
    "tp_capture ?t = [''*''] \<or> list_all2 accepts (tp_capture ?t) (split_on (CHR ''/'') (req_Tenant ?r))" by simp_all
  have enc: "json_encodable (send_result_json (rv_json plain_rest) ?v)" "readable_result ?v"
    using echo_event_json unfolding J
    by (simp_all add: send_result_json_def marshal_event_def echo_event_def json_marshal_def readable_result_def split: if_splits)
  obtain answer where "rest_SendMessage plain_rest (tenant_net plain_rest sse_defaults echo_handler ?t background [])
      plain_client ?r 5 = (6, answer)" "answer = Inr (Inr (wire_result (rv_json plain_rest) ?v))"
    using send_message_over_rest[OF plain_rest_ok(1,3) star id hello_request_rest(1,2) call timed,
        of sse_defaults "[]"] enc hello_request_rest(3)[of "''acme/eu''"]
    by auto
  then show ?thesis
    by (simp add: wire_message_def NewMessage_def wire_meta_def wire_part_def NewDataPart_def float64_of_int_exact
        MessageRole_UnmarshalJSON_def MessageRole_String_def go_consts gm_len_def gm_keys_def)
qed

lemma missing_doc_text: "rest_error_doc plain_rest (Sentinel ErrTaskNotFound) '''' = Some missing_doc"
  using sentinel_error_doc[of plain_rest ErrTaskNotFound "''''"]
  by (auto simp: rest_error_doc_def missing_doc_def plain_rest_def unary_ms_def)


end
