(* ===== verification/JsonRpcTransport.thy ===== *)
theory JsonRpcTransport
  imports RestTransport
begin

text \<open>
  The JSON-RPC transport: \<open>a2asrv/jsonrpc.go\<close> over a request handler, the messages of
  \<open>internal/jsonrpc/jsonrpc.go\<close>, the client transport \<open>a2aclient/jsonrpc.go\<close>, and calls through both.
  Bodies, replies and streams are those of the theory \<open>RestTransport\<close>.
\<close>

section \<open>Messages (internal/jsonrpc/jsonrpc.go)\<close>

text \<open>
  Beside the libraries of the HTTP transport there are two things Go leaves open or the syntax tree
  does not keep: the order in which the code table is visited, and which error of a document with
  several the decoder reports, a type error or one of a custom decoder.
\<close>

record jsonrpc_env =
  jv_http :: rest_env
  jv_order :: "(int \<times> sentinel) list"
  jv_type_error :: "any \<Rightarrow> bool"

definition jsonrpc_Version :: string where
  "jsonrpc_Version = ''2.0''"

datatype rpc_method = MethodMessageSend | MethodMessageStream | MethodTasksGet | MethodTasksList | MethodTasksCancel
  | MethodTasksResubscribe | MethodPushConfigGet | MethodPushConfigSet | MethodPushConfigList | MethodPushConfigDelete
  | MethodGetExtendedAgentCard

fun method_name :: "rpc_method \<Rightarrow> string" where
  "method_name MethodMessageSend = ''SendMessage''"
| "method_name MethodMessageStream = ''SendStreamingMessage''"
| "method_name MethodTasksGet = ''GetTask''"
| "method_name MethodTasksList = ''ListTasks''"
| "method_name MethodTasksCancel = ''CancelTask''"
| "method_name MethodTasksResubscribe = ''SubscribeToTask''"
| "method_name MethodPushConfigGet = ''GetTaskPushNotificationConfig''"
| "method_name MethodPushConfigSet = ''CreateTaskPushNotificationConfig''"
| "method_name MethodPushConfigList = ''ListTaskPushNotificationConfigs''"
| "method_name MethodPushConfigDelete = ''DeleteTaskPushNotificationConfig''"
| "method_name MethodGetExtendedAgentCard = ''GetExtendedAgentCard''"

definition rpc_methods :: "(string \<times> rpc_method) list" where
  "rpc_methods = map (\<lambda>m. (method_name m, m))
     [MethodMessageSend, MethodMessageStream, MethodTasksGet, MethodTasksList, MethodTasksCancel, MethodTasksResubscribe,
      MethodPushConfigGet, MethodPushConfigSet, MethodPushConfigList, MethodPushConfigDelete, MethodGetExtendedAgentCard]"

definition jsonrpc_error_json :: "jsonrpc_error \<Rightarrow> any" where
  "jsonrpc_error_json e = obj
     [(''code'', Some (int_lit (je_Code e))), (''message'', Some (AString (je_Message e))), (''data'', je_Data e)]"

definition jsonrpc_error_of_json :: "any \<Rightarrow> jsonrpc_error jdec" where
  "jsonrpc_error_of_json = jstruct (\<lambda>m.
     jbind (jfield m ''code'' 0 jint) (\<lambda>code.
     jbind (jfield m ''message'' '''' jstring) (\<lambda>msg.
       jret \<lparr>je_Code = code, je_Message = msg, je_Data = fmlookup m ''data''\<rparr>)))"

text \<open>A raw member keeps a null; the id is decoded into an \<open>any\<close>.\<close>

record server_request =
  sr_JSONRPC :: string
  sr_Method :: string
  sr_Params :: "any option"
  sr_ID :: any

definition zero_server_request :: server_request where
  "zero_server_request = \<lparr>sr_JSONRPC = '''', sr_Method = '''', sr_Params = None, sr_ID = ANil\<rparr>"

definition server_request_of_json :: "json_lib \<Rightarrow> any \<Rightarrow> server_request jdec" where
  "server_request_of_json J = jstruct (\<lambda>m.
     jbind (jfield m ''jsonrpc'' '''' jstring) (\<lambda>version.
     jbind (jfield m ''method'' '''' jstring) (\<lambda>method.
       jret \<lparr>sr_JSONRPC = version, sr_Method = method, sr_Params = fmlookup m ''params'',
         sr_ID = (case fmlookup m ''id'' of None \<Rightarrow> ANil | Some v \<Rightarrow> json_norm (jl_f32 J) v)\<rparr>)))"

definition server_response_json :: "any \<Rightarrow> any option \<Rightarrow> jsonrpc_error option \<Rightarrow> any" where
  "server_response_json reqID result err = obj
     [(''jsonrpc'', Some (AString jsonrpc_Version)), (''id'', Some reqID), (''result'', result),
      (''error'', map_option jsonrpc_error_json err)]"

definition client_request_json :: "string \<Rightarrow> any \<Rightarrow> string \<Rightarrow> any" where
  "client_request_json method payload reqID = obj
     [(''jsonrpc'', Some (AString jsonrpc_Version)), (''method'', Some (AString method)), (''params'', Some payload),
      (''id'', Some (AString reqID))]"

record client_response =
  cs_JSONRPC :: string
  cs_ID :: string
  cs_Result :: "any option"
  cs_Error :: "jsonrpc_error option"

definition client_response_of_json :: "any \<Rightarrow> client_response jdec" where
  "client_response_of_json = jstruct (\<lambda>m.
     jbind (jfield m ''jsonrpc'' '''' jstring) (\<lambda>version.
     jbind (jfield m ''id'' '''' jstring) (\<lambda>i.
     jbind (jfield m ''error'' None (jsome jsonrpc_error_of_json)) (\<lambda>err.
       jret \<lparr>cs_JSONRPC = version, cs_ID = i, cs_Result = fmlookup m ''result'', cs_Error = err\<rparr>))))"

fun IsValidID :: "any \<Rightarrow> bool" where
  "IsValidID ANil = True"
| "IsValidID (AString s) = True"
| "IsValidID (AFloat k r) = (k = KFloat64)"
| "IsValidID _ = False"

section \<open>The server (a2asrv/jsonrpc.go)\<close>

definition acceptsJSON :: "rest_env \<Rightarrow> (string \<times> string list) list \<Rightarrow> bool" where
  "acceptsJSON E hdr \<longleftrightarrow> (\<exists>r \<in> set (media_ranges hdr). rv_media E r = Some ContentJSON)"

text \<open>The error of a document that cannot be decoded, by the kind of the decoder's error.\<close>

definition handleUnmarshalError :: "bool \<Rightarrow> go_error" where
  "handleUnmarshalError type_error =
     Errorf ''%w: %w'' [Sentinel (if type_error then ErrInvalidParams else ErrParseError), Errorf ''json'' []]"

definition error_reply_json :: "jsonrpc_env \<Rightarrow> any \<Rightarrow> go_error \<Rightarrow> any" where
  "error_reply_json X reqID err =
     (let E = jv_http X
      in server_response_json reqID None
           (Some (ToJSONRPCError (jl_f32 (rv_json E)) (rv_text E) (jv_order X) (rv_now E) None err)))"

text \<open>
  An error reply has the status 200. It can always be encoded: its data is encoded already, and its
  id was decoded from a document.
\<close>

definition writeJSONRPCError :: "jsonrpc_env \<Rightarrow> go_error \<Rightarrow> any \<Rightarrow> reply \<Rightarrow> reply" where
  "writeJSONRPCError X err reqID r =
     r\<lparr>rp_ContentType := ContentJSON, rp_Doc := Some (error_reply_json X reqID err)\<rparr>"

text \<open>The parameters of a method: none is an error, null leaves the zero value.\<close>

definition decode_params :: "jsonrpc_env \<Rightarrow> 'a \<Rightarrow> (any \<Rightarrow> 'a jdec) \<Rightarrow> any option \<Rightarrow> go_error + 'a" where
  "decode_params X zero dec raw =
     (case raw of
        None \<Rightarrow> Inl (handleUnmarshalError False)
      | Some d \<Rightarrow>
          if d = ANil then Inr zero
          else (case dec d of None \<Rightarrow> Inl (handleUnmarshalError (jv_type_error X d)) | Some (b, v) \<Rightarrow> Inr v))"

text \<open>A unary method on its parameters; the result is the document it is encoded to.\<close>

definition rpc_unary ::
  "jsonrpc_env \<Rightarrow> ('w, 'req, 'res) rh_method \<Rightarrow> 'req \<Rightarrow> (any \<Rightarrow> 'req jdec) \<Rightarrow> ('res \<Rightarrow> any) \<Rightarrow> go_ctx \<Rightarrow> any option \<Rightarrow> 'w \<Rightarrow> 'w \<times> (go_error + any)" where
  "rpc_unary X call zero dec enc ctx raw w =
     (case decode_params X zero dec raw of
        Inl err \<Rightarrow> (w, Inl err)
      | Inr query \<Rightarrow>
          (let (w', callCtx, res) = call ctx query w
           in (w', case res of Inl err \<Rightarrow> Inl err | Inr v \<Rightarrow> Inr (enc v))))"

abbreviation rpc_json :: "jsonrpc_env \<Rightarrow> json_lib" where
  "rpc_json X \<equiv> rv_json (jv_http X)"

definition onGetTask where
  "onGetTask X h = rpc_unary X (rh_GetTask h) \<lparr>get_Tenant = '''', get_ID = '''', get_HistoryLength = None\<rparr>
     get_request_of_json (task_json (rpc_json X))"

definition zero_list_request :: list_request where
  "zero_list_request = \<lparr>list_Tenant = '''', list_ContextID = '''', list_Status = '''', list_PageSize = 0,
     list_PageToken = '''', list_HistoryLength = None, list_StatusTimestampAfter = None, list_IncludeArtifacts = False\<rparr>"

definition onListTasks where
  "onListTasks X h = rpc_unary X (rh_ListTasks h) zero_list_request (list_request_of_json (rpc_json X))
     (list_response_json (rpc_json X))"

definition onCancelTask where
  "onCancelTask X h = rpc_unary X (rh_CancelTask h) zero_cancel_request (cancel_request_of_json (rpc_json X))
     (task_json (rpc_json X))"

definition onSendMessage where
  "onSendMessage X h = rpc_unary X (rh_SendMessage h) zero_send_request (send_request_of_json (rpc_json X))
     (send_result_json (rpc_json X))"

definition onGetTaskPushConfig where
  "onGetTaskPushConfig X h = rpc_unary X (rh_GetTaskPushConfig h) \<lparr>pr_Tenant = '''', pr_TaskID = '''', pr_ID = ''''\<rparr>
     push_request_of_json push_config_json"

definition onListTaskPushConfigs where
  "onListTaskPushConfigs X h = rpc_unary X (rh_ListTaskPushConfigs h)
     \<lparr>lpr_Tenant = '''', lpr_TaskID = '''', lpr_PageSize = 0, lpr_PageToken = ''''\<rparr>
     list_push_request_of_json list_push_response_json"

definition onSetTaskPushConfig where
  "onSetTaskPushConfig X h = rpc_unary X (rh_CreateTaskPushConfig h) zero_push_config push_config_of_json push_config_json"

text \<open>The result is the empty struct.\<close>

definition onDeleteTaskPushConfig where
  "onDeleteTaskPushConfig X h = rpc_unary X (rh_DeleteTaskPushConfig h) \<lparr>pr_Tenant = '''', pr_TaskID = '''', pr_ID = ''''\<rparr>
     push_request_of_json (\<lambda>u. obj [])"

definition onGetExtendedAgentCard where
  "onGetExtendedAgentCard X h = rpc_unary X (rh_GetExtendedAgentCard h) \<lparr>ecr_Tenant = ''''\<rparr>
     extended_card_request_of_json (rv_card (jv_http X))"

text \<open>
  A method name that is not in the table, or that of a stream, has no case here. A result that cannot
  be encoded leaves the body empty. The methods of the model's handler do not panic.
\<close>

definition rpc_dispatch where
  "rpc_dispatch X h ctx method params w =
     (case map_of rpc_methods method of
        Some MethodTasksGet \<Rightarrow> onGetTask X h ctx params w
      | Some MethodTasksList \<Rightarrow> onListTasks X h ctx params w
      | Some MethodMessageSend \<Rightarrow> onSendMessage X h ctx params w
      | Some MethodTasksCancel \<Rightarrow> onCancelTask X h ctx params w
      | Some MethodPushConfigGet \<Rightarrow> onGetTaskPushConfig X h ctx params w
      | Some MethodPushConfigList \<Rightarrow> onListTaskPushConfigs X h ctx params w
      | Some MethodPushConfigSet \<Rightarrow> onSetTaskPushConfig X h ctx params w
      | Some MethodPushConfigDelete \<Rightarrow> onDeleteTaskPushConfig X h ctx params w
      | Some MethodGetExtendedAgentCard \<Rightarrow> onGetExtendedAgentCard X h ctx params w
      | _ \<Rightarrow> (w, Inl (Sentinel (if method = '''' then ErrInvalidRequest else ErrMethodNotFound))))"

definition rpc_handleRequest where
  "rpc_handleRequest X h ctx req w r =
     (case rpc_dispatch X h ctx (sr_Method req) (sr_Params req) w of
        (w', Inl err) \<Rightarrow> (w', writeJSONRPCError X err (sr_ID req) r)
      | (w', Inr result) \<Rightarrow>
          (let doc = server_response_json (sr_ID req) (Some result) None
           in (w', r\<lparr>rp_ContentType := ContentJSON, rp_Doc := (if json_encodable doc then Some doc else None)\<rparr>)))"

text \<open>
  Streams: the events go out as the results of responses, an error as an error response, as a reply
  of its own if nothing has been sent and the client takes JSON.
\<close>

definition rpc_forms :: "jsonrpc_env \<Rightarrow> any \<Rightarrow> error_forms" where
  "rpc_forms X reqID = \<lparr>ef_doc = (\<lambda>err. Some (error_reply_json X reqID err)),
     ef_plain = (\<lambda>err. writeJSONRPCError X err reqID)\<rparr>"

fun rpc_item :: "any \<Rightarrow> sse_item \<Rightarrow> sse_item" where
  "rpc_item reqID (ItemData doc) = ItemData (server_response_json reqID (Some doc) None)"
| "rpc_item reqID (ItemErr err) = ItemErr err"

definition eventSeqToSSEDataStream :: "json_lib \<Rightarrow> any \<Rightarrow> (go_error + event) list \<Rightarrow> sse_item list" where
  "eventSeqToSSEDataStream J reqID events = map (rpc_item reqID) (sse_items J events)"

definition rpc_stream_method ::
  "jsonrpc_env \<Rightarrow> ('w, 'req) rh_stream \<Rightarrow> 'req \<Rightarrow> (any \<Rightarrow> 'req jdec) \<Rightarrow> go_ctx \<Rightarrow> any option \<Rightarrow> 'w \<Rightarrow> 'w \<times> (go_error + event) list" where
  "rpc_stream_method X call zero dec ctx raw w =
     (case decode_params X zero dec raw of
        Inl err \<Rightarrow> (w, [Inl err])
      | Inr query \<Rightarrow> (let (w', callCtx, events) = call ctx query w in (w', events)))"

definition onResubscribeToTask where
  "onResubscribeToTask X h = rpc_stream_method X (rh_SubscribeToTask h) \<lparr>sub_Tenant = '''', sub_ID = ''''\<rparr> subscribe_request_of_json"

definition onSendMessageStream where
  "onSendMessageStream X h = rpc_stream_method X (rh_SendStreamingMessage h) zero_send_request
     (send_request_of_json (rpc_json X))"

definition rpc_events where
  "rpc_events X h ctx method params w =
     (case map_of rpc_methods method of
        Some MethodTasksResubscribe \<Rightarrow> onResubscribeToTask X h ctx params w
      | Some MethodMessageStream \<Rightarrow> onSendMessageStream X h ctx params w
      | _ \<Rightarrow> (w, [Inl (Sentinel ErrMethodNotFound)]))"

definition rpc_handleStreamingRequest where
  "rpc_handleStreamingRequest X c h ctx req schedule w r =
     (let E = jv_http X
      in case sse_NewWriter (reply_writer E) of
           Inl err \<Rightarrow> (w, writeJSONRPCError X err (sr_ID req) r)
         | Inr writer \<Rightarrow>
             (let (w', events) = rpc_events X h ctx (sr_Method req) (sr_Params req) w
              in (w', fst (select_loop E (rpc_forms X (sr_ID req)) c
                   (eventSeqToSSEDataStream (rv_json E) (sr_ID req) events) None 0 False schedule r))))"

text \<open>
  The body: a document that is not of the form of a request is a type error, anything that is not one
  document is not. The reply starts without a content type.
\<close>

definition decode_server_request :: "json_lib \<Rightarrow> req_body \<Rightarrow> go_error + server_request" where
  "decode_server_request J body =
     (case body of
        DocBody d \<Rightarrow>
          if d = ANil then Inr zero_server_request
          else (case server_request_of_json J d of None \<Rightarrow> Inl (handleUnmarshalError True) | Some (b, q) \<Rightarrow> Inr q)
      | _ \<Rightarrow> Inl (handleUnmarshalError False))"

definition jsonrpc_ServeHTTP where
  "jsonrpc_ServeHTTP X c h ctx schedule req w =
     (let r = \<lparr>rp_Status = 200, rp_ContentType = '''', rp_Doc = None, rp_Bytes = []\<rparr>;
          ctx' = rest_context ctx req
      in if rr_Method req \<noteq> ''POST'' then (w, writeJSONRPCError X (Sentinel ErrInvalidRequest) ANil r)
         else (case decode_server_request (rpc_json X) (rr_Body req) of
             Inl err \<Rightarrow> (w, writeJSONRPCError X err ANil r)
           | Inr payload \<Rightarrow>
               if \<not> IsValidID (sr_ID payload) then (w, writeJSONRPCError X (Sentinel ErrInvalidRequest) ANil r)
               else if sr_JSONRPC payload \<noteq> jsonrpc_Version
               then (w, writeJSONRPCError X (Sentinel ErrInvalidRequest) (sr_ID payload) r)
               else if sr_Method payload = method_name MethodTasksResubscribe \<or>
                 sr_Method payload = method_name MethodMessageStream
               then rpc_handleStreamingRequest X (c\<lparr>sc_accepts_json := acceptsJSON (jv_http X) (rr_Header req)\<rparr>) h
                 ctx' payload schedule w r
               else rpc_handleRequest X h ctx' payload w r))"

section \<open>The client (a2aclient/jsonrpc.go)\<close>

text \<open>
  A call: the path and the query of the endpoint's URL, the query parameters of the context and the
  service parameters (each in the order of a range loop), and the fresh id of the request.
\<close>

record rpc_call =
  jc_Path :: string
  jc_Query :: url_values
  jc_Extra :: "(string \<times> string list) list"
  jc_Params :: "(string \<times> string list) list"
  jc_ID :: string

definition newHTTPRequest :: "rpc_call \<Rightarrow> rpc_method \<Rightarrow> any \<Rightarrow> go_error + rest_request" where
  "newHTTPRequest C method payload =
     (if \<not> json_encodable payload then Inl (Errorf ''failed to marshal request: %w'' [Errorf ''json: unsupported type'' []])
      else Inr \<lparr>rr_Method = ''POST'', rr_Path = jc_Path C,
        rr_Query = (if length (jc_Extra C) > 0 then MergeQueryParams (jc_Query C) (jc_Extra C) else jc_Query C),
        rr_Header = (''Content-Type'', [ContentJSON]) # jc_Params C,
        rr_Body = DocBody (client_request_json (method_name method) payload (jc_ID C))\<rparr>)"

text \<open>\<open>Header.Set\<close> replaces what is there for the key.\<close>

definition header_Set :: "string \<Rightarrow> string \<Rightarrow> rest_request \<Rightarrow> rest_request" where
  "header_Set k v req =
     req\<lparr>rr_Header := (k, [v]) # filter (\<lambda>(k', vs). to_lower k' \<noteq> to_lower k) (rr_Header req)\<rparr>"

definition zero_client_response :: client_response where
  "zero_client_response = \<lparr>cs_JSONRPC = '''', cs_ID = '''', cs_Result = None, cs_Error = None\<rparr>"

definition decode_response :: "any option \<Rightarrow> client_response option" where
  "decode_response doc =
     (case doc of
        None \<Rightarrow> None
      | Some d \<Rightarrow> if d = ANil then Some zero_client_response else map_option snd (client_response_of_json d))"

definition maxErrorBodyBytes :: nat where
  "maxErrorBodyBytes = 2 ^ 20"

text \<open>Of the body of a failed request at most \<open>maxErrorBodyBytes\<close> are read; a document cut short is no document.\<close>

definition FromHTTPError :: "rest_env \<Rightarrow> reply \<Rightarrow> string + go_error" where
  "FromHTTPError E r =
     (let statusErr = Errorf ''unexpected HTTP status: %s'' []
      in if rv_media E (rp_ContentType r) \<noteq> Some ContentJSON then Inr statusErr
         else (case decode_response (if length (rv_render E (the (rp_Doc r))) \<le> maxErrorBodyBytes then rp_Doc r else None) of
             None \<Rightarrow> Inr statusErr
           | Some parsed \<Rightarrow>
               (case cs_Error parsed of None \<Rightarrow> Inr statusErr | Some e \<Rightarrow> FromJSONRPCError (rv_text E) e)))"

text \<open>A Go error, or the panic of its conversion, as the result of a call.\<close>

definition failed_with :: "string + go_error \<Rightarrow> 'a client_result" where
  "failed_with e = (case e of Inl panic \<Rightarrow> Inl panic | Inr err \<Rightarrow> Inr (Inl err))"

definition rpc_exchange :: "rest_env \<Rightarrow> 'w http_conn \<Rightarrow> go_error + rest_request \<Rightarrow> 'w \<Rightarrow> 'w \<times> reply client_result" where
  "rpc_exchange E net httpReq w =
     (case httpReq of
        Inl err \<Rightarrow> (w, Inr (Inl (Errorf ''failed to create HTTP request: %w'' [err])))
      | Inr req \<Rightarrow>
          (case net req w of
             (w', Inl err) \<Rightarrow> (w', Inr (Inl (Errorf ''failed to send HTTP request: %w'' [err])))
           | (w', Inr httpResp) \<Rightarrow>
               (w', if rp_Status httpResp \<noteq> 200 then failed_with (FromHTTPError E httpResp) else Inr (Inr httpResp))))"

definition response_result :: "rest_env \<Rightarrow> reply \<Rightarrow> any option client_result" where
  "response_result E httpResp =
     (case decode_response (rp_Doc httpResp) of
        None \<Rightarrow> Inr (Inl (Errorf ''failed to decode response: %w'' []))
      | Some resp \<Rightarrow>
          (case cs_Error resp of Some e \<Rightarrow> failed_with (FromJSONRPCError (rv_text E) e) | None \<Rightarrow> Inr (Inr (cs_Result resp))))"

definition rpc_sendRequest :: "rest_env \<Rightarrow> 'w http_conn \<Rightarrow> rpc_call \<Rightarrow> rpc_method \<Rightarrow> any \<Rightarrow> 'w \<Rightarrow> 'w \<times> any option client_result" where
  "rpc_sendRequest E net C method payload w =
     (case rpc_exchange E net (newHTTPRequest C method payload) w of
        (w', Inr (Inr httpResp)) \<Rightarrow> (w', response_result E httpResp)
      | (w', Inr (Inl err)) \<Rightarrow> (w', Inr (Inl err))
      | (w', Inl panic) \<Rightarrow> (w', Inl panic))"

text \<open>The result of a method: it fails if there is none; null leaves the zero value.\<close>

definition decode_result :: "'a \<Rightarrow> (any \<Rightarrow> 'a jdec) \<Rightarrow> any option \<Rightarrow> go_error + 'a" where
  "decode_result zero dec raw =
     (case (case raw of None \<Rightarrow> None | Some d \<Rightarrow> if d = ANil then Some zero else map_option snd (dec d)) of
        None \<Rightarrow> Inl (Errorf ''failed to unmarshal: %w'' [])
      | Some v \<Rightarrow> Inr v)"

definition on_result :: "(any option \<Rightarrow> go_error + 'a) \<Rightarrow> 'w \<times> any option client_result \<Rightarrow> 'w \<times> 'a client_result" where
  "on_result f res = (fst res, case snd res of Inl panic \<Rightarrow> Inl panic | Inr (Inl err) \<Rightarrow> Inr (Inl err) | Inr (Inr r) \<Rightarrow> Inr (f r))"

definition rpc_GetTask where
  "rpc_GetTask E net C req w =
     on_result (decode_result zero_task (task_of_json (rv_json E)))
       (rpc_sendRequest E net C MethodTasksGet (get_request_json req) w)"

definition rpc_ListTasks where
  "rpc_ListTasks E net C req w =
     on_result (decode_result \<lparr>resp_Tasks = [], resp_TotalSize = 0, resp_PageSize = 0, resp_NextPageToken = ''''\<rparr>
         (list_response_of_json (rv_json E)))
       (rpc_sendRequest E net C MethodTasksList (ListTasksRequest_MarshalJSON (rv_json E) req) w)"

definition rpc_CancelTask where
  "rpc_CancelTask E net C req w =
     on_result (decode_result zero_task (task_of_json (rv_json E)))
       (rpc_sendRequest E net C MethodTasksCancel (cancel_request_json req) w)"

definition result_event_of :: "json_lib \<Rightarrow> addr \<Rightarrow> any option \<Rightarrow> go_error + event" where
  "result_event_of J a raw =
     (case raw of
        None \<Rightarrow> Inl (Errorf ''unexpected end of JSON input'' [])
      | Some d \<Rightarrow> (case unmarshal_event J a d of Inl err \<Rightarrow> Inl err | Inr (b, e) \<Rightarrow> Inr e))"

definition message_or_task :: "json_lib \<Rightarrow> any option \<Rightarrow> go_error + send_result" where
  "message_or_task J raw =
     (case result_event_of J 0 raw of
        Inl err \<Rightarrow> Inl (Errorf ''result violates A2A spec - could not determine type: %w; data: %s'' [err])
      | Inr (ETask a t) \<Rightarrow> Inr (RTask t)
      | Inr (EMessage m) \<Rightarrow> Inr (RMessage m)
      | Inr e \<Rightarrow> Inl (Errorf ''result violates A2A spec - expected Task or Message, got %T: %s'' []))"

definition rpc_SendMessage where
  "rpc_SendMessage E net C req w =
     on_result (message_or_task (rv_json E)) (rpc_sendRequest E net C MethodMessageSend (send_request_json req) w)"

definition rpc_GetTaskPushConfig where
  "rpc_GetTaskPushConfig E net C req w =
     on_result (decode_result zero_push_config push_config_of_json)
       (rpc_sendRequest E net C MethodPushConfigGet (push_request_json req) w)"

definition rpc_ListTaskPushConfigs where
  "rpc_ListTaskPushConfigs E net C req w =
     on_result (\<lambda>raw. map_sum id lps_Configs
         (decode_result \<lparr>lps_Configs = [], lps_NextPageToken = ''''\<rparr> list_push_response_of_json raw))
       (rpc_sendRequest E net C MethodPushConfigList (list_push_request_json req) w)"

definition rpc_CreateTaskPushConfig where
  "rpc_CreateTaskPushConfig E net C req w =
     on_result (decode_result zero_push_config push_config_of_json)
       (rpc_sendRequest E net C MethodPushConfigSet (push_config_json req) w)"

definition rpc_DeleteTaskPushConfig where
  "rpc_DeleteTaskPushConfig E net C req w =
     on_result (\<lambda>raw. Inr ()) (rpc_sendRequest E net C MethodPushConfigDelete (push_request_json req) w)"

definition rpc_GetExtendedAgentCard where
  "rpc_GetExtendedAgentCard E net C zero_card req w =
     on_result (decode_result zero_card (rv_card_of E))
       (rpc_sendRequest E net C MethodGetExtendedAgentCard (extended_card_request_json req) w)"

text \<open>
  Streams: the reply must be a stream of events, or have no readable content type; a JSON reply is
  the error the server refused the call with.
\<close>

definition stream_body :: "rest_env \<Rightarrow> reply \<Rightarrow> string client_result" where
  "stream_body E httpResp =
     (case rv_media E (rp_ContentType httpResp) of
        None \<Rightarrow> Inr (Inr (rp_Bytes httpResp))
      | Some mediaType \<Rightarrow>
          if mediaType = ''text/event-stream'' then Inr (Inr (rp_Bytes httpResp))
          else if mediaType = ContentJSON
          then (case decode_response (rp_Doc httpResp) of
                  None \<Rightarrow> Inr (Inl (Errorf ''failed to decode non-streaming response: %w'' []))
                | Some resp \<Rightarrow>
                    (case cs_Error resp of
                       Some e \<Rightarrow> failed_with (FromJSONRPCError (rv_text E) e)
                     | None \<Rightarrow> Inr (Inl (Errorf ''expected %s, got a non-error %s response'' []))))
          else Inr (Inl (Errorf ''unexpected Content-Type %q'' [])))"

definition sendStreamingRequest :: "rest_env \<Rightarrow> 'w http_conn \<Rightarrow> rpc_call \<Rightarrow> rpc_method \<Rightarrow> any \<Rightarrow> 'w \<Rightarrow> 'w \<times> string client_result" where
  "sendStreamingRequest E net C method payload w =
     (case rpc_exchange E net
             (map_sum id (header_Set ''Accept'' ''text/event-stream, application/json'') (newHTTPRequest C method payload)) w of
        (w', Inr (Inr httpResp)) \<Rightarrow> (w', stream_body E httpResp)
      | (w', Inr (Inl err)) \<Rightarrow> (w', Inr (Inl err))
      | (w', Inl panic) \<Rightarrow> (w', Inl panic))"

text \<open>The loop over the blocks of a stream, for a consumer that takes all items.\<close>

fun parseSSEStream :: "rest_env \<Rightarrow> (go_error + string) list \<Rightarrow> any option client_result list" where
  "parseSSEStream E [] = []"
| "parseSSEStream E (Inl err # blocks) = [Inr (Inl err)]"
| "parseSSEStream E (Inr data # blocks) =
     (case decode_response (rv_parse E data) of
        None \<Rightarrow> [Inr (Inl (Errorf ''failed to parse SSE data: %w'' []))]
      | Some resp \<Rightarrow>
          (case cs_Error resp of
             Some e \<Rightarrow> [failed_with (FromJSONRPCError (rv_text E) e)]
           | None \<Rightarrow> Inr (Inr (cs_Result resp)) # parseSSEStream E blocks))"

fun result_events :: "json_lib \<Rightarrow> addr \<Rightarrow> any option client_result list \<Rightarrow> event client_result list" where
  "result_events J a [] = []"
| "result_events J a (Inl panic # results) = [Inl panic]"
| "result_events J a (Inr (Inl err) # results) = [Inr (Inl err)]"
| "result_events J a (Inr (Inr raw) # results) =
     (case result_event_of J a raw of
        Inl err \<Rightarrow> [Inr (Inl err)]
      | Inr event \<Rightarrow> Inr (Inr event) # result_events J a results)"

definition streamRequestToEvents ::
  "rest_env \<Rightarrow> 'w http_conn \<Rightarrow> addr \<Rightarrow> go_error option \<Rightarrow> rpc_call \<Rightarrow> rpc_method \<Rightarrow> any \<Rightarrow> 'w \<Rightarrow> 'w \<times> event client_result list" where
  "streamRequestToEvents E net a broken C method payload w =
     (case sendStreamingRequest E net C method payload w of
        (w', Inl panic) \<Rightarrow> (w', [Inl panic])
      | (w', Inr (Inl err)) \<Rightarrow> (w', [Inr (Inl err)])
      | (w', Inr (Inr body)) \<Rightarrow>
          (w', result_events (rv_json E) a (parseSSEStream E (ParseDataStream \<lparr>body_bytes = body, body_error = broken\<rparr>))))"

definition rpc_SendStreamingMessage where
  "rpc_SendStreamingMessage E net a broken C req =
     streamRequestToEvents E net a broken C MethodMessageStream (send_request_json req)"

definition rpc_SubscribeToTask where
  "rpc_SubscribeToTask E net a broken C req =
     streamRequestToEvents E net a broken C MethodTasksResubscribe (subscribe_request_json req)"

section \<open>Calls through both\<close>

definition rpc_net where
  "rpc_net X c h ctx schedule = (\<lambda>req w. let (w', r) = jsonrpc_ServeHTTP X c h ctx schedule req w in (w', Inr r))"

text \<open>The request of a call and what the server decodes from it.\<close>

definition rpc_http :: "rpc_call \<Rightarrow> rpc_method \<Rightarrow> any \<Rightarrow> rest_request" where
  "rpc_http C method payload = \<lparr>rr_Method = ''POST'', rr_Path = jc_Path C,
     rr_Query = (if length (jc_Extra C) > 0 then MergeQueryParams (jc_Query C) (jc_Extra C) else jc_Query C),
     rr_Header = (''Content-Type'', [ContentJSON]) # jc_Params C,
     rr_Body = DocBody (client_request_json (method_name method) payload (jc_ID C))\<rparr>"

lemma newHTTPRequest_ok: "json_encodable payload \<Longrightarrow> newHTTPRequest C method payload = Inr (rpc_http C method payload)"
  by (simp add: newHTTPRequest_def rpc_http_def)

definition rpc_seen :: "rpc_call \<Rightarrow> rpc_method \<Rightarrow> any \<Rightarrow> server_request" where
  "rpc_seen C method payload = \<lparr>sr_JSONRPC = jsonrpc_Version, sr_Method = method_name method, sr_Params = Some payload,
     sr_ID = AString (jc_ID C)\<rparr>"

lemma request_decoded: "decode_server_request J (DocBody (client_request_json (method_name m) p (jc_ID C))) = Inr (rpc_seen C m p)"
proof -
  have "server_request_of_json J (client_request_json (method_name m) p (jc_ID C)) = jret (rpc_seen C m p)"
    by (simp add: server_request_of_json_def client_request_json_def field_eqs rpc_seen_def)
  then show ?thesis
    by (simp add: decode_server_request_def jret_def) (simp add: client_request_json_def)
qed

lemma method_found [simp]: "map_of rpc_methods (method_name m) = Some m"
  by (cases m) (simp_all add: rpc_methods_def)

definition streaming_method :: "rpc_method \<Rightarrow> bool" where
  "streaming_method m \<longleftrightarrow> m = MethodTasksResubscribe \<or> m = MethodMessageStream"

lemma streaming_names:
  "method_name m = ''SubscribeToTask'' \<or> method_name m = ''SendStreamingMessage'' \<longleftrightarrow> streaming_method m"
  by (cases m) (simp_all add: streaming_method_def)

definition rpc_first :: reply where
  "rpc_first = \<lparr>rp_Status = 200, rp_ContentType = '''', rp_Doc = None, rp_Bytes = []\<rparr>"

lemma serve_unary:
  assumes "\<not> streaming_method m"
  shows "jsonrpc_ServeHTTP X c h ctx schedule (rpc_http C m p) w =
    rpc_handleRequest X h (rest_context ctx (rpc_http C m p)) (rpc_seen C m p) w rpc_first"
proof -
  have seen: "sr_Method (rpc_seen C m p) = method_name m" "sr_JSONRPC (rpc_seen C m p) = jsonrpc_Version"
    "IsValidID (sr_ID (rpc_seen C m p))"
    by (simp_all add: rpc_seen_def)
  have http: "rr_Method (rpc_http C m p) = ''POST''"
    "rr_Body (rpc_http C m p) = DocBody (client_request_json (method_name m) p (jc_ID C))"
    by (simp_all add: rpc_http_def)
  show ?thesis
    using assms streaming_names[of m]
    by (simp add: jsonrpc_ServeHTTP_def Let_def http request_decoded seen rpc_first_def)
qed

text \<open>What the client reads of a reply.\<close>

lemma response_back:
  assumes "pred_option (\<lambda>e. int64_range (je_Code e)) err"
  shows "decode_response (Some (server_response_json (AString i) result err)) =
    Some \<lparr>cs_JSONRPC = jsonrpc_Version, cs_ID = i, cs_Result = result, cs_Error = err\<rparr>"
proof -
  have read_back: "jsonrpc_error_of_json (jsonrpc_error_json e) = (if int64_range (je_Code e) then jret e else None)" for e
    by (cases e) (simp add: jsonrpc_error_of_json_def jsonrpc_error_json_def field_eqs, simp add: jvalue_def int_lit_def)
  have "jvalue (map_option jsonrpc_error_json err) None (jsome jsonrpc_error_of_json) =
      (if pred_option (\<lambda>e. int64_range (je_Code e)) err then jret (map_option (\<lambda>x. x) err) else None)"
    by (rule jvalue_jsome) (simp_all add: read_back, simp add: jsonrpc_error_json_def)
  then have "client_response_of_json (server_response_json (AString i) result err) =
      jret \<lparr>cs_JSONRPC = jsonrpc_Version, cs_ID = i, cs_Result = result, cs_Error = err\<rparr>"
    using assms by (simp add: client_response_of_json_def server_response_json_def field_eqs option.map_ident)
  then show ?thesis
    by (simp add: decode_response_def jret_def) (simp add: server_response_json_def)
qed

definition rpc_env_ok :: "jsonrpc_env \<Rightarrow> bool" where
  "rpc_env_ok X \<longleftrightarrow> rest_env_ok (jv_http X) \<and> set (jv_order X) = set codeToError"

lemma jsonrpc_codes:
  assumes "set order = set codeToError"
  shows "int64_range (je_Code (ToJSONRPCError f32 text_of order now None err))"
proof -
  have "int64_range c" if "(c, s) \<in> set codeToError" for c s
    using that by (auto simp: codeToError_def int64_range_def)
  then have "int64_range c" if "List.find P order = Some (c, s)" for c s P
    using that assms by (metis find_Some_iff nth_mem)
  then show ?thesis
    by (auto simp: ToJSONRPCError_def Let_def int64_range_def split: option.splits prod.splits)
qed

lemma error_reply_back:
  assumes env: "rpc_env_ok X" and kind: "carries err s" and nonempty: "rv_text (jv_http X) err \<noteq> ''''"
  shows "\<exists>je e. decode_response (Some (error_reply_json X (AString i) err)) =
      Some \<lparr>cs_JSONRPC = jsonrpc_Version, cs_ID = i, cs_Result = None, cs_Error = Some je\<rparr> \<and>
    FromJSONRPCError (rv_text (jv_http X)) je = Inr e \<and> (\<forall>t. errors_Is e t \<longleftrightarrow> t = s)"
proof -
  let ?E = "jv_http X"
  let ?je = "ToJSONRPCError (jl_f32 (rv_json ?E)) (rv_text ?E) (jv_order X) (rv_now ?E) None err"
  have order: "set (jv_order X) = set codeToError" using env by (simp add: rpc_env_ok_def)
  have "decode_response (Some (error_reply_json X (AString i) err)) =
      Some \<lparr>cs_JSONRPC = jsonrpc_Version, cs_ID = i, cs_Result = None, cs_Error = Some ?je\<rparr>"
    unfolding error_reply_json_def Let_def by (rule response_back) (simp add: jsonrpc_codes[OF order])
  moreover obtain data md where "attached_details err (fmupd ''timestamp'' (rv_now ?E) fmempty) = (data, md)" by fastforce
  from jsonrpc_error_roundtrip[of err s "jv_order X" "rv_text ?E" "rv_now ?E" data md "jl_f32 (rv_json ?E)",
      OF kind order nonempty this]
  have "\<exists>e. FromJSONRPCError (rv_text ?E) ?je = Inr e \<and> (\<forall>t. errors_Is e t \<longleftrightarrow> t = s)"
    by (auto split: if_splits)
  ultimately show ?thesis by blast
qed

text \<open>The answer of a unary call, for every method.\<close>

lemma rpc_answer:
  assumes env: "rpc_env_ok X" and unary: "\<not> streaming_method m" and payload: "json_encodable payload"
    and run: "rpc_dispatch X h (rest_context ctx (rpc_http C m payload)) (method_name m) (Some payload) w = (w', res)"
  shows "\<exists>answer. rpc_sendRequest (jv_http X) (rpc_net X c h ctx schedule) C m payload w = (w', answer) \<and>
    (case res of
       Inl err \<Rightarrow> \<forall>s. carries err s \<and> rv_text (jv_http X) err \<noteq> '''' \<longrightarrow> is_kind answer s
     | Inr doc \<Rightarrow> if json_encodable doc then answer = Inr (Inr (Some doc)) else \<exists>e. answer = Inr (Inl e))"
proof -
  let ?E = "jv_http X" and ?http = "rpc_http C m payload"
  have seen: "sr_Method (rpc_seen C m payload) = method_name m" "sr_Params (rpc_seen C m payload) = Some payload"
    "sr_ID (rpc_seen C m payload) = AString (jc_ID C)"
    by (simp_all add: rpc_seen_def)
  have send: "rpc_sendRequest ?E (rpc_net X c h ctx schedule) C m payload w = (w', response_result ?E r)"
    if "rpc_handleRequest X h (rest_context ctx ?http) (rpc_seen C m payload) w rpc_first = (w', r)" "rp_Status r = 200" for r
  proof -
    have net: "rpc_net X c h ctx schedule ?http w = (w', Inr r)"
      by (simp add: rpc_net_def serve_unary[OF unary] that(1))
    show ?thesis
      unfolding rpc_sendRequest_def rpc_exchange_def newHTTPRequest_ok[OF payload] sum.case net by (simp add: that(2))
  qed
  show ?thesis
  proof (cases res)
    case (Inl err)
    let ?r = "writeJSONRPCError X err (AString (jc_ID C)) rpc_first"
    have "rpc_handleRequest X h (rest_context ctx ?http) (rpc_seen C m payload) w rpc_first = (w', ?r)"
      using run Inl by (simp add: rpc_handleRequest_def seen)
    from send[OF this] have "rpc_sendRequest ?E (rpc_net X c h ctx schedule) C m payload w = (w', response_result ?E ?r)"
      by (simp add: writeJSONRPCError_def rpc_first_def)
    moreover have "is_kind (response_result ?E ?r :: any option client_result) s"
      if "carries err s" "rv_text ?E err \<noteq> ''''" for s
      using error_reply_back[OF env that, of "jc_ID C"]
      by (auto simp: response_result_def writeJSONRPCError_def failed_with_def is_kind_def)
    ultimately show ?thesis using Inl by auto
  next
    case (Inr doc)
    let ?doc = "server_response_json (AString (jc_ID C)) (Some doc) None"
    let ?r = "rpc_first\<lparr>rp_ContentType := ContentJSON, rp_Doc := (if json_encodable ?doc then Some ?doc else None)\<rparr>"
    have "rpc_handleRequest X h (rest_context ctx ?http) (rpc_seen C m payload) w rpc_first = (w', ?r)"
      using run Inr by (simp add: rpc_handleRequest_def seen)
    from send[OF this] have "rpc_sendRequest ?E (rpc_net X c h ctx schedule) C m payload w = (w', response_result ?E ?r)"
      by (simp add: rpc_first_def)
    moreover have "json_encodable ?doc = json_encodable doc"
      by (simp add: server_response_json_def)
    ultimately show ?thesis
      using Inr response_back[of None "jc_ID C" "Some doc"] by (auto simp: response_result_def decode_response_def)
  qed
qed

section \<open>Sending a message\<close>

lemma send_request_params:
  assumes "go_send_request req"
  shows "decode_params X zero_send_request (send_request_of_json (rpc_json X)) (Some (send_request_json req)) =
    (if pred_option readable_message (req_Message req) then Inr (wire_send_request (rpc_json X) req)
     else Inl (handleUnmarshalError (jv_type_error X (send_request_json req))))"
  using send_request_json_back[OF assms, of "rpc_json X"]
  by (simp add: decode_params_def jret_def) (simp add: send_request_json_def)

lemma sent_result:
  assumes "json_lib_ok J" "timed_event (result_event 0 v)"
  shows "message_or_task J (Some (send_result_json J v)) =
    (if readable_result v then Inr (wire_result J v) else Inl (Errorf
       ''result violates A2A spec - could not determine type: %w; data: %s'' [Errorf ''failed to unmarshal event: %w'' []]))"
  using send_result_event[OF assms] by (cases "wire_result J v") (simp_all add: message_or_task_def result_event_of_def)

lemma message_sent_rpc:
  assumes env: "rpc_env_ok X" and req: "json_encodable (send_request_json req)" "go_send_request req"
    and call: "rh_SendMessage h (rest_context ctx (rpc_http C MethodMessageSend (send_request_json req)))
      (wire_send_request (rpc_json X) req) w = (w', cc, res)"
    and timed: "\<forall>v. res = Inr v \<longrightarrow> timed_event (result_event 0 v)"
    and texts: "\<forall>b. rv_text (jv_http X) (handleUnmarshalError b) \<noteq> ''''"
  shows "\<exists>w2 answer. rpc_SendMessage (jv_http X) (rpc_net X c h ctx schedule) C req w = (w2, answer) \<and>
    (if \<not> pred_option readable_message (req_Message req)
     then w2 = w \<and> is_kind answer (if jv_type_error X (send_request_json req) then ErrInvalidParams else ErrParseError)
     else w2 = w' \<and>
      (case res of
         Inl err \<Rightarrow> \<forall>s. carries err s \<and> rv_text (jv_http X) err \<noteq> '''' \<longrightarrow> is_kind answer s
       | Inr v \<Rightarrow> if json_encodable (send_result_json (rpc_json X) v) \<and> readable_result v
           then answer = Inr (Inr (wire_result (rpc_json X) v)) else \<exists>e. answer = Inr (Inl e)))"
proof -
  let ?J = "rpc_json X" and ?p = "send_request_json req"
  let ?ctx = "rest_context ctx (rpc_http C MethodMessageSend ?p)"
  have J: "json_lib_ok ?J" using env by (simp add: rpc_env_ok_def rest_env_ok_def)
  note params = send_request_params[OF req(2), of X]
  have dispatch: "rpc_dispatch X h ?ctx (method_name MethodMessageSend) (Some ?p) w = onSendMessage X h ?ctx (Some ?p) w"
    unfolding rpc_dispatch_def method_found by simp
  have stream: "\<not> streaming_method MethodMessageSend" by (simp add: streaming_method_def)
  show ?thesis
  proof (cases "pred_option readable_message (req_Message req)")
    case False
    let ?s = "if jv_type_error X ?p then ErrInvalidParams else ErrParseError"
    have "rpc_dispatch X h ?ctx (method_name MethodMessageSend) (Some ?p) w =
        (w, Inl (handleUnmarshalError (jv_type_error X ?p)))"
      unfolding dispatch using False by (simp add: onSendMessage_def rpc_unary_def params)
    moreover have "carries (handleUnmarshalError (jv_type_error X ?p)) ?s"
      by (simp add: carries_def handleUnmarshalError_def a2a_sentinels_def)
    ultimately obtain answer where "rpc_sendRequest (jv_http X) (rpc_net X c h ctx schedule) C MethodMessageSend ?p w = (w, answer)"
      "is_kind answer ?s"
      using rpc_answer[OF env stream req(1), of h ctx C w w "Inl (handleUnmarshalError (jv_type_error X ?p))" c schedule]
        texts by auto
    then show ?thesis using False unfolding rpc_SendMessage_def by (auto simp: on_result_def is_kind_def)
  next
    case True
    then have "rpc_dispatch X h ?ctx (method_name MethodMessageSend) (Some ?p) w =
        (w', case res of Inl err \<Rightarrow> Inl err | Inr v \<Rightarrow> Inr (send_result_json ?J v))"
      unfolding dispatch by (simp add: onSendMessage_def rpc_unary_def params call)
    from rpc_answer[OF env stream req(1) this, of c schedule]
    obtain answer where sent: "rpc_sendRequest (jv_http X) (rpc_net X c h ctx schedule) C MethodMessageSend ?p w = (w', answer)"
      "case res of Inl err \<Rightarrow> \<forall>s. carries err s \<and> rv_text (jv_http X) err \<noteq> '''' \<longrightarrow> is_kind answer s
       | Inr v \<Rightarrow> if json_encodable (send_result_json ?J v) then answer = Inr (Inr (Some (send_result_json ?J v)))
           else \<exists>e. answer = Inr (Inl e)"
      by (cases res) auto
    have answer: "rpc_SendMessage (jv_http X) (rpc_net X c h ctx schedule) C req w =
        on_result (message_or_task ?J) (w', answer)"
      unfolding rpc_SendMessage_def sent(1) ..
    show ?thesis
    proof (cases res)
      case (Inl err)
      then have "is_kind (snd (on_result (message_or_task ?J) (w', answer))) s"
        if "carries err s" "rv_text (jv_http X) err \<noteq> ''''" for s
        using sent(2) that by (fastforce simp: on_result_def is_kind_def)
      then show ?thesis unfolding answer using True Inl by (auto simp: on_result_def)
    next
      case (Inr v)
      then show ?thesis
        unfolding answer using sent(2) True sent_result[OF J, of v] timed by (auto simp: on_result_def split: if_splits)
    qed
  qed
qed


section \<open>Streams\<close>

text \<open>The request of a streaming call.\<close>

definition rpc_stream_http :: "rpc_call \<Rightarrow> rpc_method \<Rightarrow> any \<Rightarrow> rest_request" where
  "rpc_stream_http C method payload =
     header_Set ''Accept'' ''text/event-stream, application/json'' (rpc_http C method payload)"

lemma stream_http_fields [simp]:
  "rr_Method (rpc_stream_http C m p) = ''POST''"
  "rr_Body (rpc_stream_http C m p) = DocBody (client_request_json (method_name m) p (jc_ID C))"
  by (simp_all add: rpc_stream_http_def header_Set_def rpc_http_def)

lemma rpc_stream_accepts:
  assumes "rest_env_ok E"
  shows "acceptsJSON E (rr_Header (rpc_stream_http C m p))"
proof -
  have "''text/event-stream, application/json'' \<in> set (header_Values (rr_Header (rpc_stream_http C m p)) ''Accept'')"
    unfolding header_Values_def rpc_stream_http_def header_Set_def by force
  moreover have "'' application/json'' \<in> set (split_on (CHR '','') ''text/event-stream, application/json'')"
    by simp
  ultimately have "'' application/json'' \<in> set (media_ranges (rr_Header (rpc_stream_http C m p)))"
    unfolding media_ranges_def set_concat set_map by blast
  moreover have "rv_media E '' application/json'' = Some ContentJSON"
    using rest_envD(4)[OF assms] by (simp add: ContentJSON_def)
  ultimately show ?thesis unfolding acceptsJSON_def by blast
qed

lemma serve_stream:
  assumes "streaming_method m" "rest_env_ok (jv_http X)"
  shows "jsonrpc_ServeHTTP X c h ctx schedule (rpc_stream_http C m p) w =
    rpc_handleStreamingRequest X (c\<lparr>sc_accepts_json := True\<rparr>) h (rest_context ctx (rpc_stream_http C m p))
      (rpc_seen C m p) schedule w rpc_first"
proof -
  have seen: "sr_Method (rpc_seen C m p) = method_name m" "sr_JSONRPC (rpc_seen C m p) = jsonrpc_Version"
    "IsValidID (sr_ID (rpc_seen C m p))"
    by (simp_all add: rpc_seen_def)
  show ?thesis
    using assms(1) streaming_names[of m] rpc_stream_accepts[OF assms(2), of C m p]
    by (simp add: jsonrpc_ServeHTTP_def Let_def request_decoded seen rpc_first_def)
qed

text \<open>The blocks of the stream as the client reads them.\<close>

lemma read_result:
  assumes "rv_parse E (rv_render E doc) = Some doc" "doc = server_response_json (AString i) (Some d) None"
  shows "parseSSEStream E (Inr (rv_render E doc) # blocks) = Inr (Inr (Some d)) # parseSSEStream E blocks"
proof -
  have "decode_response (Some doc) =
      Some \<lparr>cs_JSONRPC = jsonrpc_Version, cs_ID = i, cs_Result = Some d, cs_Error = None\<rparr>"
    unfolding assms(2) by (rule response_back) simp
  then show ?thesis by (simp add: assms(1))
qed

lemma read_results:
  assumes "\<forall>e\<in>set es. rv_parse E (rv_render E (server_response_json (AString i) (Some (f e)) None)) =
      Some (server_response_json (AString i) (Some (f e)) None)"
    and "\<forall>e\<in>set es. unmarshal_event J a (f e) = Inr (False, g e)"
  shows "result_events J a (parseSSEStream E
      (map Inr (map (\<lambda>e. rv_render E (server_response_json (AString i) (Some (f e)) None)) es) @ blocks)) =
    map (\<lambda>e. Inr (Inr (g e))) es @ result_events J a (parseSSEStream E blocks)"
  using assms
proof (induction es)
  case (Cons e es)
  then show ?case
    using read_result[OF _ refl, of E i "f e"] by (simp del: parseSSEStream.simps add: result_event_of_def)
qed simp

lemma rpc_items:
  assumes "\<forall>e\<in>set es. marshal_event J (Some e) = Inr (f e)" "ends = [] \<or> (\<exists>err rest. ends = Inl err # rest)"
  shows "eventSeqToSSEDataStream J i (map Inr es @ ends) =
    map ItemData (map (\<lambda>e. server_response_json i (Some (f e)) None) es) @
    (case (case ends of Inl err # rest \<Rightarrow> Some err | _ \<Rightarrow> None) of None \<Rightarrow> [] | Some err \<Rightarrow> [ItemErr err])"
  using assms(2) by (auto simp: eventSeqToSSEDataStream_def sse_items_events[OF assms(1)] comp_def)

text \<open>What a streaming call gives, from the reply of the server.\<close>

lemma stream_call:
  assumes env: "rest_env_ok (jv_http X)" and payload: "json_encodable p" and m: "streaming_method m"
    and reply: "rpc_handleStreamingRequest X (c\<lparr>sc_accepts_json := True\<rparr>) h (rest_context ctx (rpc_stream_http C m p))
      (rpc_seen C m p) schedule w rpc_first = (w', r)"
    and status: "rp_Status r = 200"
  shows "streamRequestToEvents (jv_http X) (rpc_net X c h ctx schedule) a broken C m p w = (w',
    case stream_body (jv_http X) r of
      Inl panic \<Rightarrow> [Inl panic]
    | Inr (Inl err) \<Rightarrow> [Inr (Inl err)]
    | Inr (Inr body) \<Rightarrow> result_events (rpc_json X) a (parseSSEStream (jv_http X)
        (ParseDataStream \<lparr>body_bytes = body, body_error = broken\<rparr>)))"
proof -
  let ?net = "rpc_net X c h ctx schedule"
  have net: "?net (rpc_stream_http C m p) w = (w', Inr r)"
    by (simp add: rpc_net_def serve_stream[OF m env] reply)
  have req: "map_sum id (header_Set ''Accept'' ''text/event-stream, application/json'') (newHTTPRequest C m p) =
      Inr (rpc_stream_http C m p)"
    by (simp add: newHTTPRequest_ok[OF payload] rpc_stream_http_def)
  have "sendStreamingRequest (jv_http X) ?net C m p w = (w', stream_body (jv_http X) r)"
    unfolding sendStreamingRequest_def rpc_exchange_def req sum.case net by (simp add: status)
  then show ?thesis
    by (simp add: streamRequestToEvents_def split: sum.splits)
qed

text \<open>The error of a stream as its last event, and as a reply of its own.\<close>

lemma rpc_error_event:
  assumes env: "rpc_env_ok X" and err: "carries err s" "rv_text (jv_http X) err \<noteq> ''''"
    and doc: "text_ok (jv_http X) (error_reply_json X (AString i) err)"
  shows "\<exists>x. result_events (rpc_json X) a (parseSSEStream (jv_http X)
      (map Inr (error_data (jv_http X) (rpc_forms X (AString i)) (Some err)))) = [x] \<and> is_kind x s"
proof -
  obtain je e where je: "decode_response (Some (error_reply_json X (AString i) err)) =
      Some \<lparr>cs_JSONRPC = jsonrpc_Version, cs_ID = i, cs_Result = None, cs_Error = Some je\<rparr>"
    "FromJSONRPCError (rv_text (jv_http X)) je = Inr e" "\<forall>t. errors_Is e t \<longleftrightarrow> t = s"
    using error_reply_back[OF env err] by blast
  then show ?thesis
    using doc by (simp add: error_data_def rpc_forms_def text_ok_def failed_with_def is_kind_def)
qed

lemma rpc_error_reply:
  assumes env: "rpc_env_ok X" and err: "carries err s" "rv_text (jv_http X) err \<noteq> ''''"
  shows "\<exists>e. stream_body (jv_http X) (writeJSONRPCError X err (AString i) r) = Inr (Inl e) \<and> (\<forall>t. errors_Is e t \<longleftrightarrow> t = s)"
proof -
  have "rest_env_ok (jv_http X)" using env by (simp add: rpc_env_ok_def)
  then show ?thesis
    using error_reply_back[OF env err, of i] rest_envD(2)
    by (auto simp: stream_body_def writeJSONRPCError_def ContentJSON_def failed_with_def)
qed

text \<open>The server's side of a streaming call.\<close>

lemma rpc_stream_served:
  assumes env: "rpc_env_ok X" "stream_env_ok (jv_http X)"
    and req: "go_send_request r" "pred_option readable_message (req_Message r)"
    and call: "rh_SendStreamingMessage h ctx (wire_send_request (rpc_json X) r) w = (w', cc, map Inr es @ ends)"
    and ends: "ends = [] \<or> (\<exists>err rest. ends = Inl err # rest)"
    and events: "\<forall>e\<in>set es. marshal_event (rpc_json X) (Some e) = Inr (f e)"
  shows "rpc_handleStreamingRequest X c h ctx (rpc_seen C MethodMessageStream (send_request_json r)) schedule w r0 =
    (w', fst (select_loop (jv_http X) (rpc_forms X (AString (jc_ID C))) c
      (map ItemData (map (\<lambda>e. server_response_json (AString (jc_ID C)) (Some (f e)) None) es) @
        (case (case ends of Inl err # rest \<Rightarrow> Some err | _ \<Rightarrow> None) of None \<Rightarrow> [] | Some err \<Rightarrow> [ItemErr err]))
      None 0 False schedule r0))"
proof -
  let ?E = "jv_http X" and ?J = "rpc_json X" and ?p = "send_request_json r" and ?m = MethodMessageStream
  have "decode_params X zero_send_request (send_request_of_json ?J) (Some ?p) = Inr (wire_send_request ?J r)"
    using send_request_params[OF req(1), of X] req(2) by simp
  then have "rpc_events X h ctx (method_name ?m) (Some ?p) w = (w', map Inr es @ ends)"
    unfolding rpc_events_def method_found by (simp add: onSendMessageStream_def rpc_stream_method_def call)
  moreover have "sse_NewWriter (reply_writer ?E) = Inr (reply_writer ?E)"
    using env by (simp add: sse_NewWriter_def reply_writer_def stream_env_ok_def)
  moreover have "sr_Method (rpc_seen C ?m ?p) = method_name ?m" "sr_Params (rpc_seen C ?m ?p) = Some ?p"
    "sr_ID (rpc_seen C ?m ?p) = AString (jc_ID C)" by (simp_all add: rpc_seen_def)
  ultimately show ?thesis
    by (simp add: rpc_handleStreamingRequest_def Let_def rpc_items[OF events ends])
qed


section \<open>A concrete connection\<close>

definition plain_rpc_call :: rpc_call where
  "plain_rpc_call = \<lparr>jc_Path = ''/rpc'', jc_Query = fmempty, jc_Extra = [], jc_Params = [], jc_ID = ''1''\<rparr>"

definition echo_response :: any where
  "echo_response = server_response_json (AString ''1'') (Some echo_doc) None"

text \<open>A library in which a document is written as the digit 1 or 2.\<close>

definition rpc_texts :: "any \<Rightarrow> jsonrpc_env" where
  "rpc_texts other = \<lparr>jv_http = plain_rest\<lparr>rv_render := (\<lambda>d. if d = echo_response then ''1'' else ''2''),
     rv_parse := (\<lambda>s. if s = ''1'' then Some echo_response else Some other)\<rparr>,
     jv_order = codeToError, jv_type_error = (\<lambda>d. False)\<rparr>"

definition missing_reply :: any where
  "missing_reply = error_reply_json (rpc_texts ANil) (AString ''1'') (Sentinel ErrTaskNotFound)"

definition plain_rpc :: jsonrpc_env where
  "plain_rpc = rpc_texts missing_reply"

lemma plain_rpc_fields:
  "rpc_json plain_rpc = unary_ms" "rv_text (jv_http plain_rpc) = (\<lambda>e. ''failed'')"
  "rv_render (jv_http plain_rpc) d = (if d = echo_response then ''1'' else ''2'')"
  "rv_parse (jv_http plain_rpc) s = (if s = ''1'' then Some echo_response else Some missing_reply)"
  by (simp_all add: plain_rpc_def rpc_texts_def plain_rest_def)

lemma plain_rpc_ok: "rpc_env_ok plain_rpc" "stream_env_ok (jv_http plain_rpc)"
  using plain_rest_ok(1,2)
  by (simp_all add: rpc_env_ok_def rest_env_ok_def stream_env_ok_def plain_rpc_def rpc_texts_def)



end
