(* ===== verification/ClientCalls.thy ===== *)
theory ClientCalls
  imports JsonRpcTransport
begin

text \<open>
  The client library above its transports (\<open>a2aclient\<close>): service parameters and query parameters of a
  context, the interceptors of a call (\<open>middleware.go\<close>, \<open>client.go\<close>), the one that attaches
  credentials (\<open>auth.go\<close>), and those that pass on extensions (\<open>a2aext\<close>).
\<close>

section \<open>Contexts and parameters (middleware.go, queryparams.go)\<close>

text \<open>
  What the client reads of a context: the server's context it may be called in, the service and query
  parameters, the tenant, the session, and what the server's propagator has stored.
\<close>

record propagated =
  pg_requestHeaders :: "(string, string list) fmap"
  pg_metadata :: "(string, any) fmap"

record client_ctx =
  cx_server :: go_ctx
  cx_params :: "service_params option"
  cx_query :: url_values
  cx_tenant :: "string option"
  cx_session :: "string option"
  cx_propagated :: "propagated option"

definition params_Get :: "service_params \<Rightarrow> string \<Rightarrow> string list" where
  "params_Get m key = (case fmlookup m (to_lower key) of None \<Rightarrow> [] | Some vals \<Rightarrow> vals)"

definition params_Append :: "service_params \<Rightarrow> string \<Rightarrow> string list \<Rightarrow> service_params" where
  "params_Append m key vals =
     fmupd (to_lower key) (foldl (\<lambda>result v. if v \<in> set result then result else result @ [v]) (params_Get m key) vals) m"

definition params_set :: "service_params \<Rightarrow> string \<Rightarrow> string list \<Rightarrow> service_params" where
  "params_set m key vals = fmupd (to_lower key) vals m"

definition serviceParamsCloneFrom :: "client_ctx \<Rightarrow> service_params" where
  "serviceParamsCloneFrom ctx = (case cx_params ctx of None \<Rightarrow> fmempty | Some params \<Rightarrow> params)"

text \<open>The parameters in the order of a range loop.\<close>

definition AttachServiceParams :: "client_ctx \<Rightarrow> (string \<times> string list) list \<Rightarrow> client_ctx" where
  "AttachServiceParams ctx params =
     ctx\<lparr>cx_params := Some (foldl (\<lambda>existing (k, values). params_Append existing k values) (serviceParamsCloneFrom ctx) params)\<rparr>"

text \<open>\<open>order\<close> lists the entries of a map in the order of a range loop.\<close>

definition AttachHTTPQueryParams ::
  "(url_values \<Rightarrow> (string \<times> string list) list) \<Rightarrow> client_ctx \<Rightarrow> url_values \<Rightarrow> client_ctx" where
  "AttachHTTPQueryParams order ctx params =
     (if params = fmempty then ctx
      else ctx\<lparr>cx_query := MergeQueryParams (MergeQueryParams fmempty (order (cx_query ctx))) (order params)\<rparr>)"

section \<open>Requests, responses, interceptors (middleware.go)\<close>

record 'p client_req =
  cq_Method :: string
  cq_BaseURL :: string
  cq_ProtocolBinding :: string
  cq_ServiceParams :: service_params
  cq_Card :: "agent_card option"
  cq_Payload :: "'p option"

record 'p client_resp =
  cz_Method :: string
  cz_BaseURL :: string
  cz_Err :: "go_error option"
  cz_ServiceParams :: service_params
  cz_Card :: "agent_card option"
  cz_Payload :: "'p option"

text \<open>
  \<open>Before\<close> may change the request behind its pointer and returns a context, a result and an error;
  \<open>After\<close> may change the response. The state \<open>'i\<close> is that of the interceptors.
\<close>

record ('p, 'i) client_interceptor =
  ci_Before :: "client_ctx \<Rightarrow> 'p client_req \<Rightarrow> 'i \<Rightarrow> 'i \<times> 'p client_req \<times> client_ctx \<times> 'p option \<times> go_error option"
  ci_After :: "client_ctx \<Rightarrow> 'p client_resp \<Rightarrow> 'i \<Rightarrow> 'i \<times> 'p client_resp \<times> go_error option"

definition PassthroughInterceptor :: "('p, 'i) client_interceptor" where
  "PassthroughInterceptor = \<lparr>ci_Before = (\<lambda>ctx req i. (i, req, ctx, None, None)), ci_After = (\<lambda>ctx resp i. (i, resp, None))\<rparr>"

section \<open>Clients (client.go)\<close>

record client_config =
  cg_PushConfig :: "push_config option"
  cg_AcceptedOutputModes :: "string list option"
  cg_PreferredTransports :: "string list"
  cg_DisableTenantPropagation :: bool

text \<open>
  The methods of a transport. A panic of the conversion of an error is possible (see
  \<open>ErrorCodecs\<close>). A stream is the list of its items, consumed to the end.
\<close>

type_synonym ('w, 'q, 'a) tr_method = "client_ctx \<Rightarrow> service_params \<Rightarrow> 'q \<Rightarrow> 'w \<Rightarrow> 'w \<times> 'a client_result"
type_synonym ('w, 'q) tr_stream = "client_ctx \<Rightarrow> service_params \<Rightarrow> 'q \<Rightarrow> 'w \<Rightarrow> 'w \<times> event client_result list"

record 'w transport =
  tr_GetTask :: "('w, get_request, task) tr_method"
  tr_ListTasks :: "('w, list_request, list_response) tr_method"
  tr_CancelTask :: "('w, cancel_request, task) tr_method"
  tr_SendMessage :: "('w, send_request, send_result) tr_method"
  tr_SubscribeToTask :: "('w, subscribe_request) tr_stream"
  tr_SendStreamingMessage :: "('w, send_request) tr_stream"
  tr_GetTaskPushConfig :: "('w, push_request, push_config) tr_method"
  tr_ListTaskPushConfigs :: "('w, list_push_request, push_config list) tr_method"
  tr_CreateTaskPushConfig :: "('w, push_config, push_config) tr_method"
  tr_DeleteTaskPushConfig :: "('w, push_request, unit) tr_method"
  tr_GetExtendedAgentCard :: "('w, extended_card_request, agent_card) tr_method"

record ('p, 'i, 'w) a2a_client =
  cli_config :: client_config
  cli_transport :: "'w transport"
  cli_protocolVersion :: string
  cli_endpoint :: agent_interface
  cli_interceptors :: "('p, 'i) client_interceptor list"
  cli_card :: "agent_card option"

definition newRequest :: "('p, 'i, 'w) a2a_client \<Rightarrow> client_ctx \<Rightarrow> string \<Rightarrow> 'p \<Rightarrow> 'p client_req" where
  "newRequest c ctx meth payload =
     \<lparr>cq_Method = meth, cq_BaseURL = if_URL (cli_endpoint c),
      cq_ProtocolBinding = if_ProtocolBinding (cli_endpoint c),
      cq_ServiceParams = params_set (serviceParamsCloneFrom ctx) SvcParamVersion [cli_protocolVersion c],
      cq_Card = cli_card c, cq_Payload = Some payload\<rparr>"

text \<open>
  The interceptors around a call. An item is a payload with an error, or a panic, which nothing
  catches. The loop of \<open>interceptAfter\<close> runs over the interceptors last first.
\<close>

fun after_calls ::
  "client_ctx \<Rightarrow> ('p, 'i) client_interceptor list \<Rightarrow> 'p client_resp \<Rightarrow> 'i \<Rightarrow> 'i \<times> 'p item" where
  "after_calls ctx [] resp i = (i, cz_Payload resp, cz_Err resp)"
| "after_calls ctx (x # xs) resp i =
     (case ci_After x ctx resp i of
        (i', resp', Some err) \<Rightarrow> (i', None, Some err)
      | (i', resp', None) \<Rightarrow> after_calls ctx xs resp' i')"

definition cli_interceptAfter ::
  "('p, 'i, 'w) a2a_client \<Rightarrow> client_ctx \<Rightarrow> ('p, 'i) client_interceptor list \<Rightarrow> 'p client_req \<Rightarrow> 'p item \<Rightarrow> 'i \<Rightarrow> 'i \<times> 'p item" where
  "cli_interceptAfter c ctx interceptors req it i =
     after_calls ctx (rev interceptors)
       \<lparr>cz_Method = cq_Method req, cz_BaseURL = if_URL (cli_endpoint c), cz_Err = snd it,
        cz_ServiceParams = cq_ServiceParams req, cz_Card = cli_card c, cz_Payload = fst it\<rparr> i"

text \<open>The loop over \<open>Before\<close>: ended by an interceptor, or the context and request for the call.\<close>

fun before_calls ::
  "('p, 'i) client_interceptor list \<Rightarrow> ('p, 'i) client_interceptor list \<Rightarrow> client_ctx \<Rightarrow> 'p client_req \<Rightarrow> 'i \<Rightarrow>
     ('i \<times> client_ctx \<times> ('p, 'i) client_interceptor list \<times> 'p client_req \<times> 'p item) + ('i \<times> client_ctx \<times> 'p client_req)" where
  "before_calls visited [] ctx req i = Inr (i, ctx, req)"
| "before_calls visited (x # xs) ctx req i =
     (case ci_Before x ctx req i of
        (i', req', localCtx, result, err) \<Rightarrow>
          if err \<noteq> None \<or> result \<noteq> None then Inl (i', localCtx, visited @ [x], req', result, err)
          else before_calls (visited @ [x]) xs localCtx req' i')"

fun deliver_items ::
  "('p, 'i, 'w) a2a_client \<Rightarrow> client_ctx \<Rightarrow> 'p client_req \<Rightarrow> ('p item \<Rightarrow> bool) \<Rightarrow> (string + 'p item) list \<Rightarrow> 'i \<Rightarrow>
     'i \<times> (string + 'p item) list" where
  "deliver_items c ctx req goes_on [] i = (i, [])"
| "deliver_items c ctx req goes_on (Inl panic # items) i = (i, [Inl panic])"
| "deliver_items c ctx req goes_on (Inr it # items) i =
     (case cli_interceptAfter c ctx (cli_interceptors c) req it i of
        (i1, it') \<Rightarrow>
          if goes_on it'
          then (case deliver_items c ctx req goes_on items i1 of (i2, rest) \<Rightarrow> (i2, Inr it' # rest))
          else (i1, [Inr it']))"

type_synonym ('p, 'w) call_handler = "client_ctx \<Rightarrow> 'p client_req \<Rightarrow> 'w \<Rightarrow> 'w \<times> (string + 'p item) list"

definition cli_interceptCalls ::
  "('p, 'i, 'w) a2a_client \<Rightarrow> ('p, 'w) call_handler \<Rightarrow> ('p item \<Rightarrow> bool) \<Rightarrow> client_ctx \<Rightarrow> 'p client_req \<Rightarrow>
     'i \<Rightarrow> 'w \<Rightarrow> 'i \<times> 'w \<times> (string + 'p item) list" where
  "cli_interceptCalls c next_call goes_on ctx req i w =
     (case before_calls [] (cli_interceptors c) ctx req i of
        Inl (i', ctx', visited, req', it) \<Rightarrow>
          (case cli_interceptAfter c ctx' visited req' it i' of (i'', it') \<Rightarrow> (i'', w, [Inr it']))
      | Inr (i', ctx', req') \<Rightarrow>
          (case next_call ctx' req' w of
             (w', items) \<Rightarrow>
               (case deliver_items c ctx' req' goes_on items i' of (i'', items') \<Rightarrow> (i'', w', items'))))"

text \<open>
  A transport's result as an item: the value or, beside an error, the nil value of the method's type
  (\<open>nil_p\<close>: \<open>None\<close> for an interface, a typed nil pointer otherwise). A request may be a nil pointer
  only if an interceptor made it one: the decorator around every transport copies what it points to.
\<close>

definition result_item :: "('a \<Rightarrow> 'p) \<Rightarrow> 'p option \<Rightarrow> 'a client_result \<Rightarrow> string + 'p item" where
  "result_item into nil_p res =
     (case res of Inl panic \<Rightarrow> Inl panic | Inr (Inl err) \<Rightarrow> Inr (nil_p, Some err) | Inr (Inr v) \<Rightarrow> Inr (Some (into v), None))"

definition cli_unaryHandler ::
  "('p \<Rightarrow> 'q option option) \<Rightarrow> ('a \<Rightarrow> 'p) \<Rightarrow> 'p option \<Rightarrow> ('w, 'q, 'a) tr_method \<Rightarrow> ('p, 'w) call_handler" where
  "cli_unaryHandler cast into nil_p transportCall ctx req w =
     (case CastPayload cast None (cq_Payload req) of
        Inl err \<Rightarrow> (w, [Inr (None, Some err)])
      | Inr None \<Rightarrow> (w, [Inl ''invalid memory address or nil pointer dereference''])
      | Inr (Some typed) \<Rightarrow>
          (case transportCall ctx (cq_ServiceParams req) typed w of (w', res) \<Rightarrow> (w', [result_item into nil_p res])))"

definition cli_streamHandler ::
  "('p \<Rightarrow> 'q option option) \<Rightarrow> (event \<Rightarrow> 'p) \<Rightarrow> ('w, 'q) tr_stream \<Rightarrow> ('p, 'w) call_handler" where
  "cli_streamHandler cast into transportCall ctx req w =
     (case CastPayload cast None (cq_Payload req) of
        Inl err \<Rightarrow> (w, [Inr (None, Some err)])
      | Inr None \<Rightarrow> (w, [Inl ''invalid memory address or nil pointer dereference''])
      | Inr (Some typed) \<Rightarrow>
          (case transportCall ctx (cq_ServiceParams req) typed w of (w', items) \<Rightarrow> (w', map (result_item into None) items)))"

text \<open>The result of a call: a value, nil if there is none, and an error.\<close>

definition cli_doCall ::
  "('p, 'i, 'w) a2a_client \<Rightarrow> ('p \<Rightarrow> 'a option option) \<Rightarrow> ('p, 'w) call_handler \<Rightarrow> client_ctx \<Rightarrow> string \<Rightarrow> 'p \<Rightarrow>
     'i \<Rightarrow> 'w \<Rightarrow> 'i \<times> 'w \<times> (string + 'a option \<times> go_error option)" where
  "cli_doCall c cast handler ctx name payload i w =
     (case cli_interceptCalls c handler (\<lambda>it. False) ctx (newRequest c ctx name payload) i w of
        (i', w', Inl panic # items) \<Rightarrow> (i', w', Inl panic)
      | (i', w', Inr it # items) \<Rightarrow> (i', w', Inr (CastResult cast None it))
      | (i', w', []) \<Rightarrow> (i', w', Inr (None, Some (Errorf ''%s produced no result'' []))))"

fun client_items :: "('p \<Rightarrow> event option option) \<Rightarrow> (string + 'p item) list \<Rightarrow> (string + event option \<times> go_error option) list" where
  "client_items cast [] = []"
| "client_items cast (Inl panic # items) = [Inl panic]"
| "client_items cast (Inr it # items) =
     (case CastResult cast None it of
        (event, Some err) \<Rightarrow> [Inr (None, Some err)]
      | (event, None) \<Rightarrow> Inr (event, None) # client_items cast items)"

definition cli_streamCall ::
  "('p, 'i, 'w) a2a_client \<Rightarrow> ('p \<Rightarrow> event option option) \<Rightarrow> ('p, 'w) call_handler \<Rightarrow> client_ctx \<Rightarrow> string \<Rightarrow> 'p \<Rightarrow>
     'i \<Rightarrow> 'w \<Rightarrow> 'i \<times> 'w \<times> (string + event option \<times> go_error option) list" where
  "cli_streamCall c cast handler ctx name payload i w =
     (case cli_interceptCalls c handler (\<lambda>it. snd (CastResult cast None it) = None) ctx (newRequest c ctx name payload) i w of
        (i', w', items) \<Rightarrow> (i', w', client_items cast items))"

section \<open>The methods of a client (client.go)\<close>

text \<open>
  What a payload can hold: pointers to the request types, to events (the results of most calls), the
  other results, a nil pointer of some type, and values of other types, which only an interceptor
  can bring in.
\<close>

datatype client_payload =
    GetTaskP get_request
  | ListTasksP list_request
  | CancelTaskP cancel_request
  | SendP send_request
  | SubscribeP subscribe_request
  | PushGetP push_request
  | PushDeleteP push_request
  | PushListP list_push_request
  | PushConfigP push_config
  | CardReqP extended_card_request
  | EventP event
  | TasksP list_response
  | ConfigsP "push_config list"
  | CardP agent_card
  | EmptyP
  | NilP string
  | OtherP string

text \<open>A type assertion to a pointer type: a nil pointer of that type is \<open>Some None\<close>.\<close>

definition ptr_cast :: "string list \<Rightarrow> (client_payload \<Rightarrow> 'a option) \<Rightarrow> client_payload \<Rightarrow> 'a option option" where
  "ptr_cast types sel p =
     (case p of NilP t \<Rightarrow> if t \<in> set types then Some None else None | _ \<Rightarrow> map_option Some (sel p))"

text \<open>The pointer types, each with the values it points to.\<close>

definition as_get :: "client_payload \<Rightarrow> get_request option option" where
  "as_get = ptr_cast [''*a2a.GetTaskRequest''] (\<lambda>p. case p of GetTaskP r \<Rightarrow> Some r | _ \<Rightarrow> None)"
definition as_list :: "client_payload \<Rightarrow> list_request option option" where
  "as_list = ptr_cast [''*a2a.ListTasksRequest''] (\<lambda>p. case p of ListTasksP r \<Rightarrow> Some r | _ \<Rightarrow> None)"
definition as_cancel :: "client_payload \<Rightarrow> cancel_request option option" where
  "as_cancel = ptr_cast [''*a2a.CancelTaskRequest''] (\<lambda>p. case p of CancelTaskP r \<Rightarrow> Some r | _ \<Rightarrow> None)"
definition as_send :: "client_payload \<Rightarrow> send_request option option" where
  "as_send = ptr_cast [''*a2a.SendMessageRequest''] (\<lambda>p. case p of SendP r \<Rightarrow> Some r | _ \<Rightarrow> None)"
definition as_subscribe :: "client_payload \<Rightarrow> subscribe_request option option" where
  "as_subscribe = ptr_cast [''*a2a.SubscribeToTaskRequest''] (\<lambda>p. case p of SubscribeP r \<Rightarrow> Some r | _ \<Rightarrow> None)"
definition as_push_get :: "client_payload \<Rightarrow> push_request option option" where
  "as_push_get = ptr_cast [''*a2a.GetTaskPushConfigRequest''] (\<lambda>p. case p of PushGetP r \<Rightarrow> Some r | _ \<Rightarrow> None)"
definition as_push_delete :: "client_payload \<Rightarrow> push_request option option" where
  "as_push_delete = ptr_cast [''*a2a.DeleteTaskPushConfigRequest''] (\<lambda>p. case p of PushDeleteP r \<Rightarrow> Some r | _ \<Rightarrow> None)"
definition as_push_list :: "client_payload \<Rightarrow> list_push_request option option" where
  "as_push_list = ptr_cast [''*a2a.ListTaskPushConfigRequest''] (\<lambda>p. case p of PushListP r \<Rightarrow> Some r | _ \<Rightarrow> None)"
definition as_push_config :: "client_payload \<Rightarrow> push_config option option" where
  "as_push_config = ptr_cast [''*a2a.PushConfig''] (\<lambda>p. case p of PushConfigP r \<Rightarrow> Some r | _ \<Rightarrow> None)"
definition as_card_request :: "client_payload \<Rightarrow> extended_card_request option option" where
  "as_card_request = ptr_cast [''*a2a.GetExtendedAgentCardRequest''] (\<lambda>p. case p of CardReqP r \<Rightarrow> Some r | _ \<Rightarrow> None)"
definition as_task :: "client_payload \<Rightarrow> task option option" where
  "as_task = ptr_cast [''*a2a.Task''] (\<lambda>p. case p of EventP (ETask a t) \<Rightarrow> Some t | _ \<Rightarrow> None)"
definition as_tasks :: "client_payload \<Rightarrow> list_response option option" where
  "as_tasks = ptr_cast [''*a2a.ListTasksResponse''] (\<lambda>p. case p of TasksP r \<Rightarrow> Some r | _ \<Rightarrow> None)"
definition as_card :: "client_payload \<Rightarrow> agent_card option option" where
  "as_card = ptr_cast [''*a2a.AgentCard''] (\<lambda>p. case p of CardP c \<Rightarrow> Some c | _ \<Rightarrow> None)"

text \<open>
  The interfaces \<open>Event\<close> and \<open>SendMessageResult\<close>; one that holds a nil pointer is read as nil.
\<close>

definition as_event :: "client_payload \<Rightarrow> event option option" where
  "as_event = ptr_cast [''*a2a.Message'', ''*a2a.Task'', ''*a2a.TaskStatusUpdateEvent'', ''*a2a.TaskArtifactUpdateEvent'']
     (\<lambda>p. case p of EventP e \<Rightarrow> Some e | _ \<Rightarrow> None)"
definition as_send_result :: "client_payload \<Rightarrow> send_result option option" where
  "as_send_result = ptr_cast [''*a2a.Message'', ''*a2a.Task'']
     (\<lambda>p. case p of EventP (EMessage m) \<Rightarrow> Some (RMessage m) | EventP (ETask a t) \<Rightarrow> Some (RTask t) | _ \<Rightarrow> None)"

text \<open>A slice and the empty struct are no pointers.\<close>

definition as_configs :: "client_payload \<Rightarrow> push_config list option option" where
  "as_configs p = (case p of ConfigsP cs \<Rightarrow> Some (Some cs) | _ \<Rightarrow> None)"
definition as_empty :: "client_payload \<Rightarrow> unit option option" where
  "as_empty p = (case p of EmptyP \<Rightarrow> Some (Some ()) | _ \<Rightarrow> None)"

type_synonym ('i, 'w) client = "(client_payload, 'i, 'w) a2a_client"
type_synonym ('i, 'w, 'a) answer = "'i \<times> 'w \<times> (string + 'a option \<times> go_error option)"

definition task_payload :: "task \<Rightarrow> client_payload" where
  "task_payload t = EventP (ETask 0 t)"

definition cli_GetTask :: "('i, 'w) client \<Rightarrow> client_ctx \<Rightarrow> get_request \<Rightarrow> 'i \<Rightarrow> 'w \<Rightarrow> ('i, 'w, task) answer" where
  "cli_GetTask c ctx req =
     cli_doCall c as_task (cli_unaryHandler as_get task_payload (Some (NilP ''*a2a.Task'')) (tr_GetTask (cli_transport c)))
       ctx ''GetTask'' (GetTaskP req)"

definition cli_ListTasks :: "('i, 'w) client \<Rightarrow> client_ctx \<Rightarrow> list_request \<Rightarrow> 'i \<Rightarrow> 'w \<Rightarrow> ('i, 'w, list_response) answer" where
  "cli_ListTasks c ctx req =
     cli_doCall c as_tasks (cli_unaryHandler as_list TasksP (Some (NilP ''*a2a.ListTasksResponse'')) (tr_ListTasks (cli_transport c)))
       ctx ''ListTasks'' (ListTasksP req)"

definition cli_CancelTask :: "('i, 'w) client \<Rightarrow> client_ctx \<Rightarrow> cancel_request \<Rightarrow> 'i \<Rightarrow> 'w \<Rightarrow> ('i, 'w, task) answer" where
  "cli_CancelTask c ctx req =
     cli_doCall c as_task (cli_unaryHandler as_cancel task_payload (Some (NilP ''*a2a.Task'')) (tr_CancelTask (cli_transport c)))
       ctx ''CancelTask'' (CancelTaskP req)"

text \<open>\<open>withDefaultSendConfig\<close>. In a request nil output modes are empty ones (see \<open>Core\<close>).\<close>

definition withDefaultSendConfig :: "('i, 'w) client \<Rightarrow> send_request \<Rightarrow> send_request" where
  "withDefaultSendConfig c msg =
     (let cg = cli_config c
      in if cg_PushConfig cg = None \<and> cg_AcceptedOutputModes cg = None \<and>
          (req_Config msg \<noteq> None \<or> take 1 (if_ProtocolVersion (cli_endpoint c)) \<noteq> ''0'')
         then msg
         else
          (let cfg = (case req_Config msg of
                        None \<Rightarrow> \<lparr>cfg_AcceptedOutputModes = [], cfg_ReturnImmediately = False, cfg_HistoryLength = None,
                          cfg_PushConfig = None\<rparr>
                      | Some cfg \<Rightarrow> cfg);
               cfg1 = (if cfg_PushConfig cfg = None then cfg\<lparr>cfg_PushConfig := cg_PushConfig cg\<rparr> else cfg);
               cfg2 = (if cfg_AcceptedOutputModes cfg1 = []
                       then cfg1\<lparr>cfg_AcceptedOutputModes := (case cg_AcceptedOutputModes cg of None \<Rightarrow> [] | Some ms \<Rightarrow> ms)\<rparr>
                       else cfg1)
           in msg\<lparr>req_Config := Some cfg2\<rparr>))"

definition result_payload :: "send_result \<Rightarrow> client_payload" where
  "result_payload v = EventP (result_event 0 v)"

definition cli_SendMessage :: "('i, 'w) client \<Rightarrow> client_ctx \<Rightarrow> send_request \<Rightarrow> 'i \<Rightarrow> 'w \<Rightarrow> ('i, 'w, send_result) answer" where
  "cli_SendMessage c ctx req =
     cli_doCall c as_send_result (cli_unaryHandler as_send result_payload None (tr_SendMessage (cli_transport c)))
       ctx ''SendMessage'' (SendP (withDefaultSendConfig c req))"

text \<open>An agent whose card says that it cannot stream gets a plain call.\<close>

definition cli_sendStreamingMessage :: "('i, 'w) client \<Rightarrow> (client_payload, 'w) call_handler" where
  "cli_sendStreamingMessage c =
     (if (case cli_card c of None \<Rightarrow> False | Some card_value \<Rightarrow> \<not> cap_Streaming (card_Capabilities card_value))
      then cli_unaryHandler as_send result_payload None (tr_SendMessage (cli_transport c))
      else cli_streamHandler as_send EventP (tr_SendStreamingMessage (cli_transport c)))"

type_synonym ('i, 'w) answers = "'i \<times> 'w \<times> (string + event option \<times> go_error option) list"

definition cli_SendStreamingMessage :: "('i, 'w) client \<Rightarrow> client_ctx \<Rightarrow> send_request \<Rightarrow> 'i \<Rightarrow> 'w \<Rightarrow> ('i, 'w) answers" where
  "cli_SendStreamingMessage c ctx req =
     cli_streamCall c as_event (cli_sendStreamingMessage c) ctx ''SendStreamingMessage'' (SendP (withDefaultSendConfig c req))"

definition cli_SubscribeToTask :: "('i, 'w) client \<Rightarrow> client_ctx \<Rightarrow> subscribe_request \<Rightarrow> 'i \<Rightarrow> 'w \<Rightarrow> ('i, 'w) answers" where
  "cli_SubscribeToTask c ctx req =
     cli_streamCall c as_event (cli_streamHandler as_subscribe EventP (tr_SubscribeToTask (cli_transport c)))
       ctx ''SubscribeToTask'' (SubscribeP req)"

definition cli_GetTaskPushConfig :: "('i, 'w) client \<Rightarrow> client_ctx \<Rightarrow> push_request \<Rightarrow> 'i \<Rightarrow> 'w \<Rightarrow> ('i, 'w, push_config) answer" where
  "cli_GetTaskPushConfig c ctx req =
     cli_doCall c as_push_config
       (cli_unaryHandler as_push_get PushConfigP (Some (NilP ''*a2a.PushConfig'')) (tr_GetTaskPushConfig (cli_transport c)))
       ctx ''GetTaskPushConfig'' (PushGetP req)"

definition cli_ListTaskPushConfigs ::
  "('i, 'w) client \<Rightarrow> client_ctx \<Rightarrow> list_push_request \<Rightarrow> 'i \<Rightarrow> 'w \<Rightarrow> ('i, 'w, push_config list) answer" where
  "cli_ListTaskPushConfigs c ctx req =
     cli_doCall c as_configs
       (cli_unaryHandler as_push_list ConfigsP (Some (ConfigsP [])) (tr_ListTaskPushConfigs (cli_transport c)))
       ctx ''ListTaskPushConfigs'' (PushListP req)"

definition cli_CreateTaskPushConfig :: "('i, 'w) client \<Rightarrow> client_ctx \<Rightarrow> push_config \<Rightarrow> 'i \<Rightarrow> 'w \<Rightarrow> ('i, 'w, push_config) answer" where
  "cli_CreateTaskPushConfig c ctx req =
     cli_doCall c as_push_config
       (cli_unaryHandler as_push_config PushConfigP (Some (NilP ''*a2a.PushConfig'')) (tr_CreateTaskPushConfig (cli_transport c)))
       ctx ''CreateTaskPushConfig'' (PushConfigP req)"

definition cli_DeleteTaskPushConfig :: "('i, 'w) client \<Rightarrow> client_ctx \<Rightarrow> push_request \<Rightarrow> 'i \<Rightarrow> 'w \<Rightarrow> ('i, 'w, unit) answer" where
  "cli_DeleteTaskPushConfig c ctx req =
     cli_doCall c as_empty
       (cli_unaryHandler as_push_delete (\<lambda>u. EmptyP) (Some EmptyP) (tr_DeleteTaskPushConfig (cli_transport c)))
       ctx ''DeleteTaskPushConfig'' (PushDeleteP req)"

definition cli_GetExtendedAgentCard ::
  "('i, 'w) client \<Rightarrow> client_ctx \<Rightarrow> extended_card_request \<Rightarrow> 'i \<Rightarrow> 'w \<Rightarrow> ('i, 'w, agent_card) answer" where
  "cli_GetExtendedAgentCard c ctx req i w =
     (if (case cli_card c of None \<Rightarrow> False | Some card_value \<Rightarrow> \<not> cap_ExtendedAgentCard (card_Capabilities card_value))
      then (i, w, Inr (None, Some (Sentinel ErrExtendedCardNotConfigured)))
      else cli_doCall c as_card
        (cli_unaryHandler as_card_request CardP (Some (NilP ''*a2a.AgentCard'')) (tr_GetExtendedAgentCard (cli_transport c)))
        ctx ''GetExtendedAgentCard'' (CardReqP req) i w)"

definition cli_UpdateCard :: "('i, 'w) client \<Rightarrow> agent_card \<Rightarrow> go_error + ('i, 'w) client" where
  "cli_UpdateCard c card_value =
     (if cli_endpoint c \<in> set (case card_SupportedInterfaces card_value of None \<Rightarrow> [] | Some is \<Rightarrow> is)
      then Inr (c\<lparr>cli_card := Some card_value\<rparr>)
      else Inl (Errorf ''client needs to be recreated, %+v not longer listed as supported'' []))"

section \<open>Calls with interceptors that only look at requests\<close>

text \<open>An interceptor with the \<open>After\<close> of \<open>PassthroughInterceptor\<close>, as all of the library's have.\<close>

definition silent_After :: "('p, 'i) client_interceptor \<Rightarrow> bool" where
  "silent_After x \<longleftrightarrow> ci_After x = ci_After PassthroughInterceptor"

lemma after_calls_silent:
  "list_all silent_After xs \<Longrightarrow> after_calls ctx xs resp i = (i, cz_Payload resp, cz_Err resp)"
  by (induction xs) (simp_all add: silent_After_def PassthroughInterceptor_def)

lemma interceptAfter_silent:
  "list_all silent_After xs \<Longrightarrow> cli_interceptAfter c ctx xs req it i = (i, it)"
  by (simp add: cli_interceptAfter_def after_calls_silent list_all_iff)

text \<open>A result of a transport as the answer of a method.\<close>

definition client_answer :: "'a client_result \<Rightarrow> string + 'a option \<times> go_error option" where
  "client_answer res =
     (case res of Inl panic \<Rightarrow> Inl panic | Inr (Inl err) \<Rightarrow> Inr (None, Some err) | Inr (Inr v) \<Rightarrow> Inr (Some v, None))"

text \<open>How a result type travels as a payload: its values and its nil value are read back.\<close>

definition carried :: "('p \<Rightarrow> 'a option option) \<Rightarrow> ('a \<Rightarrow> 'p) \<Rightarrow> 'p option \<Rightarrow> 'a \<Rightarrow> bool" where
  "carried cast into nil_p v \<longleftrightarrow>
     cast (into v) = Some (Some v) \<and> (\<forall>err. fst (CastResult cast None (nil_p, Some err)) = None \<and> snd (CastResult cast None (nil_p, Some err)) = Some err)"

lemma doCall_silent:
  assumes "list_all silent_After (cli_interceptors c)"
    and before: "before_calls [] (cli_interceptors c) ctx (newRequest c ctx name p) i = Inr (i', ctx', req')"
    and typed: "CastPayload as_req None (cq_Payload req') = Inr (Some typed)"
    and sent: "call ctx' (cq_ServiceParams req') typed w = (w', res)"
    and carried: "\<forall>v. carried cast into nil_p v"
  shows "cli_doCall c cast (cli_unaryHandler as_req into nil_p call) ctx name p i w = (i', w', client_answer res)"
proof -
  have called: "cli_unaryHandler as_req into nil_p call ctx' req' w = (w', [result_item into nil_p res])"
    by (simp add: cli_unaryHandler_def typed sent)
  show ?thesis
  proof (cases res)
    case (Inl panic)
    then show ?thesis
      by (simp add: cli_doCall_def cli_interceptCalls_def before called result_item_def client_answer_def)
  next
    case (Inr r)
    then show ?thesis using carried assms(1)
      by (cases r) (simp_all add: cli_doCall_def cli_interceptCalls_def before called result_item_def client_answer_def
          interceptAfter_silent carried_def CastResult_def CastPayload_def prod_eq_iff)
  qed
qed

lemmas payload_casts = as_get_def as_list_def as_cancel_def as_send_def as_subscribe_def as_push_get_def
  as_push_delete_def as_push_list_def as_push_config_def as_card_request_def as_task_def as_tasks_def as_card_def
  as_event_def as_send_result_def as_configs_def as_empty_def ptr_cast_def

lemma results_carried:
  "carried as_task task_payload (Some (NilP ''*a2a.Task'')) t"
  "carried as_send_result result_payload None r"
  by (simp_all add: carried_def payload_casts CastResult_def CastPayload_def task_payload_def result_payload_def split: send_result.split)
    (cases r; simp)

text \<open>The request of a call after its interceptors, if they let it through.\<close>

definition let_through :: "('p, 'i, 'w) a2a_client \<Rightarrow> client_ctx \<Rightarrow> string \<Rightarrow> 'p \<Rightarrow> 'i \<Rightarrow> 'i \<Rightarrow> client_ctx \<Rightarrow> service_params \<Rightarrow> bool" where
  "let_through c ctx name p i i' ctx' params \<longleftrightarrow>
     list_all silent_After (cli_interceptors c) \<and>
     (\<exists>req'. before_calls [] (cli_interceptors c) ctx (newRequest c ctx name p) i = Inr (i', ctx', req') \<and>
       cq_ServiceParams req' = params \<and> cq_Payload req' = Some p)"

lemma SendMessage_let_through:
  assumes "let_through c ctx ''SendMessage'' (SendP (withDefaultSendConfig c req)) i i' ctx' params"
    and sent: "tr_SendMessage (cli_transport c) ctx' params (withDefaultSendConfig c req) w = (w', res)"
  shows "cli_SendMessage c ctx req i w = (i', w', client_answer res)"
proof -
  let ?r = "withDefaultSendConfig c req"
  obtain req' where silent: "list_all silent_After (cli_interceptors c)"
    and before: "before_calls [] (cli_interceptors c) ctx (newRequest c ctx ''SendMessage'' (SendP ?r)) i = Inr (i', ctx', req')"
    and params: "cq_ServiceParams req' = params" and payload: "cq_Payload req' = Some (SendP ?r)"
    using assms(1) by (auto simp: let_through_def)
  have typed: "CastPayload as_send None (cq_Payload req') = Inr (Some ?r)"
    unfolding payload by (simp add: CastPayload_def payload_casts)
  show ?thesis
    unfolding cli_SendMessage_def
    by (rule doCall_silent[OF silent before typed]) (simp_all add: params sent results_carried)
qed

text \<open>An interceptor that answers or fails ends the call: the transport is not asked.\<close>

lemma doCall_refused:
  assumes "before_calls [] (cli_interceptors c) ctx (newRequest c ctx name p) i = Inl ended"
  shows "\<exists>i' answer. cli_doCall c cast handler ctx name p i w = (i', w, answer)"
proof -
  obtain i0 ctx0 visited req0 it where "ended = (i0, ctx0, visited, req0, it)" by (cases ended)
  then show ?thesis
    using assms by (cases "cli_interceptAfter c ctx0 visited req0 it i0") (simp add: cli_doCall_def cli_interceptCalls_def)
qed

end
