(* ===== verification/ClientAuth.thy ===== *)
theory ClientAuth
  imports ClientCalls
begin

text \<open>
  Credentials of a client (\<open>a2aclient/auth.go\<close>): the interceptor that looks up the credential of a
  session and attaches it as the card's security scheme says, and the store it looks in.
\<close>

section \<open>Texts\<close>

text \<open>
  \<open>strings.EqualFold\<close> with an ASCII text: apart from letter case, two other runes fold to ASCII
  letters, the long s and the Kelvin sign.
\<close>

fun fold_ascii :: "string \<Rightarrow> string" where
  "fold_ascii [] = []"
| "fold_ascii (c # cs) =
     (if c = CHR 0xC5 \<and> take 1 cs = [CHR 0xBF] then CHR ''s'' # fold_ascii (drop 1 cs)
      else if c = CHR 0xE2 \<and> take 2 cs = [CHR 0x84, CHR 0xAA] then CHR ''k'' # fold_ascii (drop 2 cs)
      else lower_char c # fold_ascii cs)"

definition EqualFold :: "string \<Rightarrow> string \<Rightarrow> bool" where
  "EqualFold s ascii \<longleftrightarrow> fold_ascii s = to_lower ascii"

text \<open>\<open>strings.TrimSpace\<close>, by the UTF-8 texts of the white space runes.\<close>

definition space_texts :: "string list" where
  "space_texts =
     [[CHR 0x09], [CHR 0x0A], [CHR 0x0B], [CHR 0x0C], [CHR 0x0D], [CHR 0x20], [CHR 0xC2, CHR 0x85], [CHR 0xC2, CHR 0xA0],
      [CHR 0xE1, CHR 0x9A, CHR 0x80], [CHR 0xE2, CHR 0x80, CHR 0xA8], [CHR 0xE2, CHR 0x80, CHR 0xA9],
      [CHR 0xE2, CHR 0x80, CHR 0xAF], [CHR 0xE2, CHR 0x81, CHR 0x9F], [CHR 0xE3, CHR 0x80, CHR 0x80]] @
     map (\<lambda>n. [CHR 0xE2, CHR 0x80, char_of (n :: nat)]) [128..<139]"

function trim_front :: "string list \<Rightarrow> string \<Rightarrow> string" where
  "trim_front texts s =
     (case find (\<lambda>p. p \<noteq> [] \<and> take (length p) s = p) texts of
        None \<Rightarrow> s
      | Some p \<Rightarrow> trim_front texts (drop (length p) s))"
  by pat_completeness auto
termination
proof (relation "measure (\<lambda>(texts, s). length s)")
  fix texts :: "string list" and s p :: string
  assume "find (\<lambda>p. p \<noteq> [] \<and> take (length p) s = p) texts = Some p"
  then have "p \<noteq> []" "take (length p) s = p" by (auto simp: find_Some_iff)
  then have "0 < length p" "s \<noteq> []" by auto
  then show "((texts, drop (length p) s), texts, s) \<in> measure (\<lambda>(texts, s). length s)" by simp
qed simp

declare trim_front.simps [simp del]

definition TrimSpace :: "string \<Rightarrow> string" where
  "TrimSpace s = rev (trim_front (map rev space_texts) (rev (trim_front space_texts s)))"

lemma trim_front_plain: "take 1 s \<notin> (take 1) ` set texts \<Longrightarrow> trim_front texts s = s"
proof -
  assume a: "take 1 s \<notin> (take 1) ` set texts"
  have "\<not> (p \<noteq> [] \<and> take (length p) s = p)" if "p \<in> set texts" for p
  proof
    assume b: "p \<noteq> [] \<and> take (length p) s = p"
    then have "take 1 p = take 1 s" by (cases p; cases s) auto
    then show False using a that by (metis image_eqI)
  qed
  then have "find (\<lambda>p. p \<noteq> [] \<and> take (length p) s = p) texts = None"
    by (simp add: find_None_iff)
  then show ?thesis by (subst trim_front.simps) simp
qed

section \<open>The interceptor\<close>

definition containsControlChars :: "string \<Rightarrow> bool" where
  "containsControlChars s \<longleftrightarrow> list_ex (\<lambda>c. let n = of_char c :: nat in n < 32 \<or> n = 127) s"

text \<open>\<open>ContainsAny\<close> with quotation marks, backslash, blank, tab and line ends.\<close>

definition ContainsAny :: "string \<Rightarrow> string \<Rightarrow> bool" where
  "ContainsAny s chars \<longleftrightarrow> list_ex (\<lambda>c. c \<in> set chars) s"

definition cookie_specials :: string where
  "cookie_specials = [CHR '';'', CHR '','', CHR 0x22, CHR 0x5C, CHR 0x20, CHR 0x09, CHR 0x0D, CHR 0x0A]"

definition validateCookiePair :: "string \<Rightarrow> string \<Rightarrow> go_error option" where
  "validateCookiePair name cred =
     (if name = '''' then Some (Errorf ''API key cookie name is empty'' [])
      else if ContainsAny name (CHR ''='' # cookie_specials) \<or> containsControlChars name
      then Some (Errorf ''API key cookie name %q contains invalid characters'' [])
      else if ContainsAny cred cookie_specials \<or> containsControlChars cred
      then Some (Errorf ''API key credential contains characters that are invalid for a cookie value'' [])
      else None)"

definition isHTTPProtocolBinding :: "'p client_req \<Rightarrow> bool" where
  "isHTTPProtocolBinding req \<longleftrightarrow>
     cq_ProtocolBinding req = TransportProtocolJSONRPC \<or> cq_ProtocolBinding req = TransportProtocolHTTPJSON"

definition set_param :: "string \<Rightarrow> string \<Rightarrow> 'p client_req \<Rightarrow> 'p client_req" where
  "set_param key v req = req\<lparr>cq_ServiceParams := params_set (cq_ServiceParams req) key [v]\<rparr>"

text \<open>The scheme of an \<open>Authorization\<close> parameter.\<close>

definition auth_scheme_name :: "string \<Rightarrow> string" where
  "auth_scheme_name scheme =
     (let authScheme = TrimSpace scheme
      in if authScheme = '''' \<or> EqualFold authScheme ''bearer'' then ''Bearer''
         else if EqualFold authScheme ''basic'' then ''Basic'' else authScheme)"

definition strings_Join :: "string list \<Rightarrow> string \<Rightarrow> string" where
  "strings_Join xs sep = (case xs of [] \<Rightarrow> [] | x # xs \<Rightarrow> x @ concat (map (\<lambda>y. sep @ y) xs))"

text \<open>
  What the type switch does with a credential: \<open>None\<close> goes on with the next scheme, otherwise the
  interceptor returns with this request, context and error.
\<close>

definition attach_credential ::
  "(url_values \<Rightarrow> (string \<times> string list) list) \<Rightarrow> security_scheme \<Rightarrow> string \<Rightarrow> client_ctx \<Rightarrow> 'p client_req \<Rightarrow>
     ('p client_req \<times> client_ctx \<times> go_error option) option" where
  "attach_credential order scheme cred ctx req =
     (case scheme of
        HTTPAuth v \<Rightarrow> Some (set_param ''Authorization'' (auth_scheme_name (has_Scheme v) @ '' '' @ cred) req, ctx, None)
      | OAuth2 v \<Rightarrow> Some (set_param ''Authorization'' (''Bearer '' @ cred) req, ctx, None)
      | APIKey v \<Rightarrow>
          if \<not> isHTTPProtocolBinding req then Some (set_param (aks_Name v) cred req, ctx, None)
          else if aks_Location v = ''query''
          then Some (req, AttachHTTPQueryParams order ctx (fmupd (aks_Name v) [cred] fmempty), None)
          else if aks_Location v = ''cookie''
          then (case validateCookiePair (aks_Name v) cred of
              Some err \<Rightarrow> Some (req, ctx, Some err)
            | None \<Rightarrow>
                (let pair = aks_Name v @ ''='' @ cred;
                     existing = params_Get (cq_ServiceParams req) ''Cookie'';
                     cookie = (if existing \<noteq> [] then strings_Join existing ''; '' @ ''; '' @ pair else pair)
                 in Some (set_param ''Cookie'' cookie req, ctx, None)))
          else if aks_Location v = ''header'' \<or> aks_Location v = ''''
          then Some (set_param (aks_Name v) cred req, ctx, None)
          else None
      | _ \<Rightarrow> None)"

text \<open>
  The two loops over the requirements of the card and the scheme names of each, as one over all the
  names: each of their steps ends the call or goes on with the next name. A failing service is only
  logged.
\<close>

type_synonym 'i credentials_service = "client_ctx \<Rightarrow> string \<Rightarrow> string \<Rightarrow> 'i \<Rightarrow> 'i \<times> (go_error + string)"

fun auth_loop ::
  "(url_values \<Rightarrow> (string \<times> string list) list) \<Rightarrow> 'i credentials_service \<Rightarrow> (string, security_scheme) fmap \<Rightarrow> string \<Rightarrow>
     string list \<Rightarrow> client_ctx \<Rightarrow> 'p client_req \<Rightarrow> 'i \<Rightarrow> 'i \<times> 'p client_req \<times> client_ctx \<times> go_error option" where
  "auth_loop order service schemes sid [] ctx req i = (i, req, ctx, None)"
| "auth_loop order service schemes sid (name # names) ctx req i =
     (case service ctx sid name i of
        (i', Inl err) \<Rightarrow> auth_loop order service schemes sid names ctx req i'
      | (i', Inr cred) \<Rightarrow>
          (case (case fmlookup schemes name of None \<Rightarrow> None | Some scheme \<Rightarrow> attach_credential order scheme cred ctx req) of
             None \<Rightarrow> auth_loop order service schemes sid names ctx req i'
           | Some (req', ctx', err) \<Rightarrow> (i', req', ctx', err)))"

definition auth_Before ::
  "(url_values \<Rightarrow> (string \<times> string list) list) \<Rightarrow> (security_requirements \<Rightarrow> string list) \<Rightarrow> 'i credentials_service \<Rightarrow>
     client_ctx \<Rightarrow> 'p client_req \<Rightarrow> 'i \<Rightarrow> 'i \<times> 'p client_req \<times> client_ctx \<times> 'p option \<times> go_error option" where
  "auth_Before order names service ctx req i =
     (case (cq_Card req, cx_session ctx) of
        (Some card_value, Some sid) \<Rightarrow>
          (case card_SecuritySchemes card_value of
             None \<Rightarrow> (i, req, ctx, None, None)
           | Some schemes \<Rightarrow>
               (case auth_loop order service schemes sid (concat (map names (card_SecurityRequirements card_value))) ctx req i of
                  (i', req', ctx', err) \<Rightarrow> (i', req', ctx', None, err)))
      | _ \<Rightarrow> (i, req, ctx, None, None))"

definition AuthInterceptor where
  "AuthInterceptor order names service = PassthroughInterceptor\<lparr>ci_Before := auth_Before order names service\<rparr>"

section \<open>The store\<close>

type_synonym credentials_store = "(string, (string, string) fmap) fmap"

definition ErrCredentialNotFound :: go_error where
  "ErrCredentialNotFound = Errorf ''credential not found'' []"

definition creds_Get :: "credentials_store credentials_service" where
  "creds_Get ctx sid scheme s =
     (s, case fmlookup s sid of
           None \<Rightarrow> Inl ErrCredentialNotFound
         | Some forSession \<Rightarrow>
             (case fmlookup forSession scheme of None \<Rightarrow> Inl ErrCredentialNotFound | Some cred \<Rightarrow> Inr cred))"

definition creds_Set :: "string \<Rightarrow> string \<Rightarrow> string \<Rightarrow> credentials_store \<Rightarrow> credentials_store" where
  "creds_Set sid scheme cred s =
     fmupd sid (fmupd scheme cred (case fmlookup s sid of None \<Rightarrow> fmempty | Some forSession \<Rightarrow> forSession)) s"

section \<open>What the interceptor attaches\<close>

text \<open>A credential is a bearer token for OAuth 2 schemes and for HTTP schemes with that name or none.\<close>

definition bearer_scheme :: "security_scheme \<Rightarrow> bool" where
  "bearer_scheme scheme \<longleftrightarrow>
     (case scheme of OAuth2 v \<Rightarrow> True | HTTPAuth v \<Rightarrow> to_lower (has_Scheme v) \<in> {'''', ''bearer''} | _ \<Rightarrow> False)"

lemma fold_ascii_plain: "CHR 0xC5 \<notin> set s \<Longrightarrow> CHR 0xE2 \<notin> set s \<Longrightarrow> fold_ascii s = to_lower s"
  by (induction s rule: fold_ascii.induct) (auto simp: to_lower_def)

lemma lower_letter: "lower_char c = d \<Longrightarrow> 97 \<le> (of_char d :: nat) \<Longrightarrow> (of_char d :: nat) \<le> 122 \<Longrightarrow>
    (65 \<le> (of_char c :: nat) \<and> (of_char c :: nat) \<le> 90) \<or> c = d"
  by (auto simp: lower_char_def Let_def split: if_splits)

text \<open>A text in which every character is a letter is left alone.\<close>

lemma TrimSpace_letters:
  assumes "\<forall>c\<in>set s. 65 \<le> (of_char c :: nat) \<and> (of_char c :: nat) \<le> 122"
  shows "TrimSpace s = s"
proof -
  have first: "\<forall>p\<in>set space_texts. \<exists>c cs. p = c # cs \<and> ((of_char c :: nat) < 65 \<or> 122 < (of_char c :: nat))"
    by (simp add: space_texts_def)
  have last: "\<forall>p\<in>set (map rev space_texts). \<exists>c cs. p = c # cs \<and> ((of_char c :: nat) < 65 \<or> 122 < (of_char c :: nat))"
    by (simp add: space_texts_def upt_rec)
  have front: "trim_front texts t = t"
    if apart: "\<forall>p\<in>set texts. \<exists>c cs. p = c # cs \<and> ((of_char c :: nat) < 65 \<or> 122 < (of_char c :: nat))" and within: "set t \<subseteq> set s" for texts t
  proof (rule trim_front_plain, rule notI)
    assume "take 1 t \<in> take 1 ` set texts"
    then obtain p where p: "p \<in> set texts" "take 1 t = take 1 p" by auto
    then obtain c cs where c: "p = c # cs" "(of_char c :: nat) < 65 \<or> 122 < (of_char c :: nat)" using apart by blast
    then have "c \<in> set t" using p by (cases t) auto
    then have "c \<in> set s" using within by blast
    then show False using c(2) assms by (metis linorder_not_less)
  qed
  show ?thesis
    unfolding TrimSpace_def using front[OF first, of s] front[OF last, of "rev s"] by simp
qed

lemma bearer_name:
  assumes "to_lower s = ''bearer'' \<or> s = ''''"
  shows "auth_scheme_name s = ''Bearer''"
proof (cases "s = ''''")
  case True
  have "TrimSpace '''' = ''''" by (rule TrimSpace_letters) simp
  then show ?thesis using True by (simp add: auth_scheme_name_def)
next
  case False
  then have low: "to_lower s = ''bearer''" using assms by simp
  have letters: "65 \<le> (of_char c :: nat) \<and> (of_char c :: nat) \<le> 122" if "c \<in> set s" for c
  proof -
    have "lower_char c \<in> set ''bearer''" using that low by (metis image_eqI list.set_map to_lower_def)
    then have "97 \<le> (of_char (lower_char c) :: nat)" "(of_char (lower_char c) :: nat) \<le> 122" by auto
    then show ?thesis using lower_letter[of c "lower_char c"] by auto
  qed
  then have "TrimSpace s = s" by (intro TrimSpace_letters) blast
  moreover have "fold_ascii s = to_lower s" using letters by (intro fold_ascii_plain) fastforce+
  ultimately show ?thesis using low by (simp add: auth_scheme_name_def EqualFold_def) (simp add: to_lower_def lower_char_def)
qed

lemma bearer_attached:
  assumes "bearer_scheme scheme"
  shows "attach_credential order scheme cred ctx req = Some (set_param ''Authorization'' (''Bearer '' @ cred) req, ctx, None)"
proof (cases scheme)
  case (HTTPAuth v)
  then have "to_lower (has_Scheme v) = ''bearer'' \<or> has_Scheme v = ''''"
    using assms by (auto simp: bearer_scheme_def to_lower_def)
  then show ?thesis by (simp add: HTTPAuth attach_credential_def bearer_name)
qed (use assms in \<open>simp_all add: bearer_scheme_def attach_credential_def\<close>)

text \<open>The credential of the store for a session and a scheme.\<close>

definition credential_of :: "credentials_store \<Rightarrow> string \<Rightarrow> string \<Rightarrow> string option" where
  "credential_of s sid scheme = (case fmlookup s sid of None \<Rightarrow> None | Some forSession \<Rightarrow> fmlookup forSession scheme)"

lemma creds_Get_eq:
  "creds_Get ctx sid scheme s = (s, case credential_of s sid scheme of None \<Rightarrow> Inl ErrCredentialNotFound | Some cred \<Rightarrow> Inr cred)"
  by (simp add: creds_Get_def credential_of_def split: option.split)

lemma credential_of_Set:
  "credential_of (creds_Set sid scheme cred s) sid' scheme' =
     (if sid' = sid \<and> scheme' = scheme then Some cred else credential_of s sid' scheme')"
  by (auto simp: credential_of_def creds_Set_def split: option.splits)

text \<open>The first name with a credential and a scheme that takes it decides.\<close>

lemma auth_loop_first:
  assumes "\<forall>p\<in>set pre. credential_of s sid p = None"
    and "credential_of s sid n = Some cred" "fmlookup schemes n = Some scheme"
    and "attach_credential order scheme cred ctx req = Some (req', ctx', err)"
  shows "auth_loop order creds_Get schemes sid (pre @ n # post) ctx req s = (s, req', ctx', err)"
  using assms by (induction pre) (simp_all add: creds_Get_eq)

lemma auth_let_through:
  assumes client: "cli_interceptors c = [AuthInterceptor order names creds_Get]" "cli_card c = Some agent"
    and session: "cx_session ctx = Some sid"
    and schemes: "card_SecuritySchemes agent = Some schemes" "concat (map names (card_SecurityRequirements agent)) = pre @ n # post"
      "\<forall>p\<in>set pre. credential_of s sid p = None" "credential_of s sid n = Some cred"
      "fmlookup schemes n = Some scheme" "bearer_scheme scheme"
  shows "let_through c ctx name p s s ctx
    (params_set (cq_ServiceParams (newRequest c ctx name p)) ''Authorization'' [''Bearer '' @ cred])"
proof -
  let ?req = "newRequest c ctx name p"
  have card: "cq_Card ?req = Some agent" "cq_Payload ?req = Some p" by (simp_all add: newRequest_def client(2))
  note loop = auth_loop_first[OF schemes(3-5) bearer_attached[OF schemes(6)], where ctx = ctx and req = ?req and post = post]
  have before: "auth_Before order names creds_Get ctx ?req s =
      (s, set_param ''Authorization'' (''Bearer '' @ cred) ?req, ctx, None, None)"
    by (simp add: auth_Before_def card session schemes(1,2) loop)
  show ?thesis
    by (simp add: let_through_def client(1) AuthInterceptor_def silent_After_def before set_param_def card)
qed

end
