(* ===== verification/ClientFactory.thy ===== *)
theory ClientFactory
  imports ClientAuth
begin

text \<open>
  How a client is made (\<open>a2aclient/factory.go\<close>, \<open>transport.go\<close>): the options of a factory, the choice of an
  endpoint and a transport, the decorator that fills in the tenant, and the JSON-RPC and REST
  transports of the library as transports of a client.
\<close>

section \<open>Tenants (transport.go)\<close>

definition updateTenant :: "string \<Rightarrow> client_config \<Rightarrow> client_ctx \<Rightarrow> string \<Rightarrow> string" where
  "updateTenant tenant config ctx current =
     (if current \<noteq> '''' then current
      else if tenant \<noteq> '''' then tenant
      else if cg_DisableTenantPropagation config then ''''
      else (case cx_tenant ctx of Some t \<Rightarrow> t | None \<Rightarrow> ''''))"

text \<open>Every method works on a copy of the request with the tenant filled in.\<close>

definition tenantTransportDecorator :: "'w transport \<Rightarrow> string \<Rightarrow> client_config \<Rightarrow> 'w transport" where
  "tenantTransportDecorator base tenant config =
     \<lparr>tr_GetTask = (\<lambda>ctx params req.
        tr_GetTask base ctx params (req\<lparr>get_Tenant := updateTenant tenant config ctx (get_Tenant req)\<rparr>)),
      tr_ListTasks = (\<lambda>ctx params req.
        tr_ListTasks base ctx params (req\<lparr>list_Tenant := updateTenant tenant config ctx (list_Tenant req)\<rparr>)),
      tr_CancelTask = (\<lambda>ctx params req.
        tr_CancelTask base ctx params (req\<lparr>cancel_Tenant := updateTenant tenant config ctx (cancel_Tenant req)\<rparr>)),
      tr_SendMessage = (\<lambda>ctx params req.
        tr_SendMessage base ctx params (req\<lparr>req_Tenant := updateTenant tenant config ctx (req_Tenant req)\<rparr>)),
      tr_SubscribeToTask = (\<lambda>ctx params req.
        tr_SubscribeToTask base ctx params (req\<lparr>sub_Tenant := updateTenant tenant config ctx (sub_Tenant req)\<rparr>)),
      tr_SendStreamingMessage = (\<lambda>ctx params req.
        tr_SendStreamingMessage base ctx params (req\<lparr>req_Tenant := updateTenant tenant config ctx (req_Tenant req)\<rparr>)),
      tr_GetTaskPushConfig = (\<lambda>ctx params req.
        tr_GetTaskPushConfig base ctx params (req\<lparr>pr_Tenant := updateTenant tenant config ctx (pr_Tenant req)\<rparr>)),
      tr_ListTaskPushConfigs = (\<lambda>ctx params req.
        tr_ListTaskPushConfigs base ctx params (req\<lparr>lpr_Tenant := updateTenant tenant config ctx (lpr_Tenant req)\<rparr>)),
      tr_CreateTaskPushConfig = (\<lambda>ctx params req.
        tr_CreateTaskPushConfig base ctx params (req\<lparr>pc_Tenant := updateTenant tenant config ctx (pc_Tenant req)\<rparr>)),
      tr_DeleteTaskPushConfig = (\<lambda>ctx params req.
        tr_DeleteTaskPushConfig base ctx params (req\<lparr>pr_Tenant := updateTenant tenant config ctx (pr_Tenant req)\<rparr>)),
      tr_GetExtendedAgentCard = (\<lambda>ctx params req.
        tr_GetExtendedAgentCard base ctx params (req\<lparr>ecr_Tenant := updateTenant tenant config ctx (ecr_Tenant req)\<rparr>))\<rparr>"

definition errNotImplemented :: go_error where
  "errNotImplemented = Errorf ''not implemented'' []"

definition unimplementedTransport :: "'w transport" where
  "unimplementedTransport =
     \<lparr>tr_GetTask = (\<lambda>ctx params req w. (w, Inr (Inl errNotImplemented))),
       tr_ListTasks = (\<lambda>ctx params req w. (w, Inr (Inl errNotImplemented))),
       tr_CancelTask = (\<lambda>ctx params req w. (w, Inr (Inl errNotImplemented))),
       tr_SendMessage = (\<lambda>ctx params req w. (w, Inr (Inl errNotImplemented))),
       tr_SubscribeToTask = (\<lambda>ctx params req w. (w, [Inr (Inl errNotImplemented)])),
       tr_SendStreamingMessage = (\<lambda>ctx params req w. (w, [Inr (Inl errNotImplemented)])),
       tr_GetTaskPushConfig = (\<lambda>ctx params req w. (w, Inr (Inl errNotImplemented))),
       tr_ListTaskPushConfigs = (\<lambda>ctx params req w. (w, Inr (Inl errNotImplemented))),
       tr_CreateTaskPushConfig = (\<lambda>ctx params req w. (w, Inr (Inl errNotImplemented))),
       tr_DeleteTaskPushConfig = (\<lambda>ctx params req w. (w, Inr (Inl errNotImplemented))),
       tr_GetExtendedAgentCard = (\<lambda>ctx params req w. (w, Inr (Inl errNotImplemented)))\<rparr>"

section \<open>The transports of the library\<close>

text \<open>
  The parameters and query parameters of a call become its headers and query. A transport has the
  range order of such maps, the path and query its endpoint's URL parses to, a source of fresh ids,
  and what becomes of a stream's body (the address its tasks are read to, and whether it breaks).
\<close>

record 'w endpoint_env =
  ee_order :: "(string, string list) fmap \<Rightarrow> (string \<times> string list) list"
  ee_path :: string
  ee_query :: url_values
  ee_id :: "'w \<Rightarrow> string"
  ee_addr :: "'w \<Rightarrow> addr"
  ee_broken :: "'w \<Rightarrow> go_error option"

definition rpc_call_of :: "'w endpoint_env \<Rightarrow> client_ctx \<Rightarrow> service_params \<Rightarrow> 'w \<Rightarrow> rpc_call" where
  "rpc_call_of V ctx params w =
     \<lparr>jc_Path = ee_path V, jc_Query = ee_query V, jc_Extra = ee_order V (cx_query ctx),
      jc_Params = filter (\<lambda>(k, vals). vals \<noteq> []) (ee_order V params), jc_ID = ee_id V w\<rparr>"

definition jsonrpcTransport :: "rest_env \<Rightarrow> 'w http_conn \<Rightarrow> 'w endpoint_env \<Rightarrow> agent_card \<Rightarrow> 'w transport" where
  "jsonrpcTransport E net V zero_card =
     \<lparr>tr_GetTask = (\<lambda>ctx params req w. rpc_GetTask E net (rpc_call_of V ctx params w) req w),
      tr_ListTasks = (\<lambda>ctx params req w. rpc_ListTasks E net (rpc_call_of V ctx params w) req w),
      tr_CancelTask = (\<lambda>ctx params req w. rpc_CancelTask E net (rpc_call_of V ctx params w) req w),
      tr_SendMessage = (\<lambda>ctx params req w. rpc_SendMessage E net (rpc_call_of V ctx params w) req w),
      tr_SubscribeToTask = (\<lambda>ctx params req w.
        rpc_SubscribeToTask E net (ee_addr V w) (ee_broken V w) (rpc_call_of V ctx params w) req w),
      tr_SendStreamingMessage = (\<lambda>ctx params req w.
        rpc_SendStreamingMessage E net (ee_addr V w) (ee_broken V w) (rpc_call_of V ctx params w) req w),
      tr_GetTaskPushConfig = (\<lambda>ctx params req w. rpc_GetTaskPushConfig E net (rpc_call_of V ctx params w) req w),
      tr_ListTaskPushConfigs = (\<lambda>ctx params req w. rpc_ListTaskPushConfigs E net (rpc_call_of V ctx params w) req w),
      tr_CreateTaskPushConfig = (\<lambda>ctx params req w. rpc_CreateTaskPushConfig E net (rpc_call_of V ctx params w) req w),
      tr_DeleteTaskPushConfig = (\<lambda>ctx params req w. rpc_DeleteTaskPushConfig E net (rpc_call_of V ctx params w) req w),
      tr_GetExtendedAgentCard = (\<lambda>ctx params req w.
        rpc_GetExtendedAgentCard E net (rpc_call_of V ctx params w) zero_card req w)\<rparr>"

definition rest_call_of :: "'w endpoint_env \<Rightarrow> client_ctx \<Rightarrow> service_params \<Rightarrow> client_call" where
  "rest_call_of V ctx params =
     \<lparr>cl_base = ee_path V, cl_extra = ee_order V (cx_query ctx),
      cl_params = filter (\<lambda>(k, vals). vals \<noteq> []) (ee_order V params)\<rparr>"

definition restTransport :: "rest_env \<Rightarrow> 'w http_conn \<Rightarrow> 'w endpoint_env \<Rightarrow> agent_card \<Rightarrow> 'w transport" where
  "restTransport E net V zero_card =
     \<lparr>tr_GetTask = (\<lambda>ctx params. rest_GetTask E net (rest_call_of V ctx params)),
      tr_ListTasks = (\<lambda>ctx params. rest_ListTasks E net (rest_call_of V ctx params)),
      tr_CancelTask = (\<lambda>ctx params. rest_CancelTask E net (rest_call_of V ctx params)),
      tr_SendMessage = (\<lambda>ctx params. rest_SendMessage E net (rest_call_of V ctx params)),
      tr_SubscribeToTask = (\<lambda>ctx params req w.
        rest_SubscribeToTask E net (ee_addr V w) (ee_broken V w) (rest_call_of V ctx params) req w),
      tr_SendStreamingMessage = (\<lambda>ctx params req w.
        rest_SendStreamingMessage E net (ee_addr V w) (ee_broken V w) (rest_call_of V ctx params) req w),
      tr_GetTaskPushConfig = (\<lambda>ctx params. rest_GetTaskPushConfig E net (rest_call_of V ctx params)),
      tr_ListTaskPushConfigs = (\<lambda>ctx params. rest_ListTaskPushConfigs E net (rest_call_of V ctx params)),
      tr_CreateTaskPushConfig = (\<lambda>ctx params. rest_CreateTaskPushConfig E net (rest_call_of V ctx params)),
      tr_DeleteTaskPushConfig = (\<lambda>ctx params. rest_DeleteTaskPushConfig E net (rest_call_of V ctx params)),
      tr_GetExtendedAgentCard = (\<lambda>ctx params.
        rest_GetExtendedAgentCard E net (rest_call_of V ctx params) zero_card)\<rparr>"

section \<open>Factories (factory.go)\<close>

text \<open>\<open>golang.org/x/mod/semver\<close> is an argument.\<close>

record semver_lib =
  sl_Major :: "string \<Rightarrow> string"
  sl_MajorMinor :: "string \<Rightarrow> string"
  sl_Compare :: "string \<Rightarrow> string \<Rightarrow> int"

text \<open>The protocol and its version, which starts with a v.\<close>

type_synonym transport_key = "string \<times> string"

definition makeTransportKey :: "string \<Rightarrow> string \<Rightarrow> transport_key" where
  "makeTransportKey version protocol = (protocol, if take 1 version = ''v'' then version else ''v'' @ version)"

type_synonym 'w transport_factory = "client_ctx \<Rightarrow> agent_card option \<Rightarrow> agent_interface \<Rightarrow> go_error + 'w transport"
type_synonym 'w transport_map = "(transport_key, 'w transport_factory) fmap"

record ('i, 'w) client_factory =
  fac_config :: client_config
  fac_interceptors :: "(client_payload, 'i) client_interceptor list"
  fac_transports :: "'w transport_map"

record 'w transport_candidate =
  tc_factory :: "'w transport_factory"
  tc_endpoint :: agent_interface
  tc_priority :: nat
  tc_semver :: string

definition headerVersion :: "semver_lib \<Rightarrow> 'w transport_candidate \<Rightarrow> string" where
  "headerVersion S tc =
     (let mm = sl_MajorMinor S (tc_semver tc)
      in if mm \<noteq> '''' then drop 1 mm else if take 1 (tc_semver tc) = ''v'' then drop 1 (tc_semver tc) else tc_semver tc)"

text \<open>
  The transport for an endpoint: of its version or, in the order of a range loop over the transports,
  the first of the same major version.
\<close>

definition find_transport ::
  "semver_lib \<Rightarrow> ('w transport_map \<Rightarrow> (transport_key \<times> 'w transport_factory) list) \<Rightarrow> 'w transport_map \<Rightarrow> agent_interface \<Rightarrow>
     ('w transport_factory \<times> string) option" where
  "find_transport S order transports opt =
     (let key = makeTransportKey (if_ProtocolVersion opt) (if_ProtocolBinding opt)
      in case fmlookup transports key of
           Some factory \<Rightarrow> Some (factory, snd key)
         | None \<Rightarrow>
             (case find (\<lambda>(otherKey, tr). fst otherKey = fst key \<and> sl_Major S (snd key) = sl_Major S (snd otherKey))
                     (order transports) of
                Some (otherKey, tr) \<Rightarrow> Some (tr, snd otherKey)
              | None \<Rightarrow> None))"

text \<open>The index of a transport among the preferred ones, or their number.\<close>

fun preference :: "string list \<Rightarrow> string \<Rightarrow> nat" where
  "preference [] binding = 0"
| "preference (p # ps) binding = (if p = binding then 0 else Suc (preference ps binding))"

definition candidate_of ::
  "semver_lib \<Rightarrow> ('w transport_map \<Rightarrow> (transport_key \<times> 'w transport_factory) list) \<Rightarrow> ('i, 'w) client_factory \<Rightarrow> agent_interface \<Rightarrow>
     'w transport_candidate option" where
  "candidate_of S order f opt =
     (case find_transport S order (fac_transports f) opt of
        None \<Rightarrow> None
      | Some (factory, version) \<Rightarrow>
          Some \<lparr>tc_factory = factory, tc_endpoint = opt,
            tc_priority = preference (cg_PreferredTransports (fac_config f)) (if_ProtocolBinding opt), tc_semver = version\<rparr>)"

text \<open>
  \<open>slices.SortStableFunc\<close>: for a comparison that orders its arguments, the one stable sort. Newest
  version first, then the client's preference.
\<close>

fun insert_stable :: "('a \<Rightarrow> 'a \<Rightarrow> int) \<Rightarrow> 'a \<Rightarrow> 'a list \<Rightarrow> 'a list" where
  "insert_stable cmp x [] = [x]"
| "insert_stable cmp x (y # ys) = (if cmp x y \<le> 0 then x # y # ys else y # insert_stable cmp x ys)"

definition SortStableFunc :: "('a \<Rightarrow> 'a \<Rightarrow> int) \<Rightarrow> 'a list \<Rightarrow> 'a list" where
  "SortStableFunc cmp xs = foldr (insert_stable cmp) xs []"

definition candidate_cmp :: "semver_lib \<Rightarrow> 'w transport_candidate \<Rightarrow> 'w transport_candidate \<Rightarrow> int" where
  "candidate_cmp S c1 c2 =
     (let cmp = sl_Compare S (tc_semver c2) (tc_semver c1)
      in if cmp \<noteq> 0 then cmp else int (tc_priority c1) - int (tc_priority c2))"

definition selectTransport ::
  "semver_lib \<Rightarrow> ('w transport_map \<Rightarrow> (transport_key \<times> 'w transport_factory) list) \<Rightarrow> ('i, 'w) client_factory \<Rightarrow>
     agent_interface list \<Rightarrow> go_error + 'w transport_candidate list" where
  "selectTransport S order f available =
     (let candidates = List.map_filter (candidate_of S order f) available
      in if candidates = [] then Inl (Errorf ''no compatible transports found: available transports - [%s]'' [])
         else Inr (SortStableFunc (candidate_cmp S) candidates))"

fun connect_first ::
  "client_ctx \<Rightarrow> agent_card option \<Rightarrow> 'w transport_candidate list \<Rightarrow> go_error list + 'w transport \<times> 'w transport_candidate" where
  "connect_first ctx agent [] = Inl []"
| "connect_first ctx agent (tc # tcs) =
     (case tc_factory tc ctx agent (tc_endpoint tc) of
        Inr conn \<Rightarrow> Inr (conn, tc)
      | Inl err \<Rightarrow>
          (case connect_first ctx agent tcs of
             Inl failures \<Rightarrow> Inl (Errorf ''failed to connect to %s: %w'' [err] # failures)
           | Inr found \<Rightarrow> Inr found))"

definition createTransport ::
  "client_ctx \<Rightarrow> 'w transport_candidate list \<Rightarrow> agent_card option \<Rightarrow> client_config \<Rightarrow> go_error + 'w transport \<times> 'w transport_candidate" where
  "createTransport ctx candidates agent config =
     (if candidates = [] then Inl (Errorf ''empty list of transport candidates was provided'' [])
      else (case connect_first ctx agent candidates of
          Inl failures \<Rightarrow> Inl (Errorf ''errors.Join'' failures)
        | Inr (conn, selected) \<Rightarrow> Inr (tenantTransportDecorator conn (if_Tenant (tc_endpoint selected)) config, selected)))"

definition create_client ::
  "semver_lib \<Rightarrow> ('w transport_map \<Rightarrow> (transport_key \<times> 'w transport_factory) list) \<Rightarrow> ('i, 'w) client_factory \<Rightarrow> client_ctx \<Rightarrow>
     agent_card option \<Rightarrow> agent_interface list \<Rightarrow> go_error + ('i, 'w) client" where
  "create_client S order f ctx agent endpoints =
     on_ok (selectTransport S order f endpoints) (\<lambda>candidates.
       on_ok (wrapf ''failed to open a connection: %w'' (createTransport ctx candidates agent (fac_config f))) (\<lambda>(conn, selected).
         Inr \<lparr>cli_config = fac_config f, cli_transport = conn, cli_protocolVersion = headerVersion S selected,
           cli_endpoint = tc_endpoint selected, cli_interceptors = fac_interceptors f, cli_card = agent\<rparr>))"

definition CreateFromCard where
  "CreateFromCard S order f ctx agent =
     (case card_SupportedInterfaces agent of
        Some (x # xs) \<Rightarrow> create_client S order f ctx (Some agent) (x # xs)
      | _ \<Rightarrow> Inl (Errorf ''agent card has no supported interfaces'' []))"

definition CreateFromEndpoints where
  "CreateFromEndpoints S order f ctx endpoints = create_client S order f ctx None endpoints"

section \<open>Options\<close>

datatype ('i, 'w) factory_option =
    WithConfig client_config
  | WithCompatTransport string string "'w transport_factory"
  | WithCallInterceptors "(client_payload, 'i) client_interceptor list"
  | WithDefaultsDisabled

definition WithTransport :: "string \<Rightarrow> 'w transport_factory \<Rightarrow> ('i, 'w) factory_option" where
  "WithTransport protocol factory = WithCompatTransport Version protocol factory"

fun apply_option :: "('i, 'w) client_factory \<Rightarrow> ('i, 'w) factory_option \<Rightarrow> ('i, 'w) client_factory" where
  "apply_option f (WithConfig c) = f\<lparr>fac_config := c\<rparr>"
| "apply_option f (WithCompatTransport version protocol factory) =
     f\<lparr>fac_transports := fmupd (makeTransportKey version protocol) factory (fac_transports f)\<rparr>"
| "apply_option f (WithCallInterceptors is) = f\<lparr>fac_interceptors := fac_interceptors f @ is\<rparr>"
| "apply_option f WithDefaultsDisabled = f"

fun disables_defaults :: "('i, 'w) factory_option \<Rightarrow> bool" where
  "disables_defaults WithDefaultsDisabled = True"
| "disables_defaults _ = False"

definition zero_config :: client_config where
  "zero_config = \<lparr>cg_PushConfig = None, cg_AcceptedOutputModes = None, cg_PreferredTransports = [],
     cg_DisableTenantPropagation = False\<rparr>"

text \<open>\<open>defaultOptions\<close>, with the default transports for the URL of an endpoint, which for REST must parse.\<close>

definition defaultOptions :: "(agent_interface \<Rightarrow> 'w transport) \<Rightarrow> (agent_interface \<Rightarrow> go_error + 'w transport) \<Rightarrow> ('i, 'w) factory_option list" where
  "defaultOptions rpc rest =
     [WithTransport TransportProtocolJSONRPC (\<lambda>ctx agent iface. Inr (rpc iface)),
      WithTransport TransportProtocolHTTPJSON (\<lambda>ctx agent iface. wrapf ''failed to parse endpoint URL: %w'' (rest iface))]"

definition NewFactory :: "('i, 'w) factory_option list \<Rightarrow> ('i, 'w) factory_option list \<Rightarrow> ('i, 'w) client_factory" where
  "NewFactory defaults options =
     (let f = \<lparr>fac_config = zero_config, fac_interceptors = [], fac_transports = fmempty\<rparr>;
          f1 = (if list_ex disables_defaults options then f else foldl apply_option f defaults)
      in foldl apply_option f1 options)"

definition WithAdditionalOptions where
  "WithAdditionalOptions order defaults f opts =
     NewFactory defaults
       ([WithDefaultsDisabled, WithConfig (fac_config f), WithCallInterceptors (fac_interceptors f)] @
        map (\<lambda>((protocol, version), tr). WithCompatTransport version protocol tr) (order (fac_transports f)) @ opts)"

section \<open>A factory and its options\<close>

text \<open>The keys of the transports of a factory are those that \<open>makeTransportKey\<close> makes.\<close>

definition factory_ok :: "('i, 'w) client_factory \<Rightarrow> bool" where
  "factory_ok f \<longleftrightarrow> (\<forall>k. k |\<in>| fmdom (fac_transports f) \<longrightarrow> take 1 (snd k) = ''v'')"

lemma makeTransportKey_v: "take 1 (snd (makeTransportKey version protocol)) = ''v''"
  by (simp add: makeTransportKey_def)

lemma makeTransportKey_again: "take 1 (snd k) = ''v'' \<Longrightarrow> makeTransportKey (snd k) (fst k) = k"
  by (simp add: makeTransportKey_def)

lemma factory_ok_apply: "factory_ok f \<Longrightarrow> factory_ok (apply_option f opt)"
  by (cases opt) (auto simp: factory_ok_def makeTransportKey_def)

lemma factory_ok_options: "factory_ok f \<Longrightarrow> factory_ok (foldl apply_option f opts)"
  by (induction opts arbitrary: f) (simp_all add: factory_ok_apply)

lemma factory_ok_empty: "factory_ok \<lparr>fac_config = config, fac_interceptors = is, fac_transports = fmempty\<rparr>"
  by (simp add: factory_ok_def)

lemma factory_ok_New: "factory_ok (NewFactory defaults options)"
  by (simp add: NewFactory_def Let_def factory_ok_options factory_ok_empty)

definition lists_map :: "('k \<Rightarrow> 'v option) \<Rightarrow> ('k \<times> 'v) list \<Rightarrow> bool" where
  "lists_map m xs \<longleftrightarrow> map_of xs = m \<and> distinct (map fst xs)"

lemma transports_registered:
  assumes "distinct (map fst xs)" "\<forall>x\<in>set xs. take 1 (snd (fst x)) = ''v''"
  shows "foldl apply_option f (map (\<lambda>((protocol, version), tr). WithCompatTransport version protocol tr) xs) =
    f\<lparr>fac_transports := foldl (\<lambda>m (k, tr). fmupd k tr m) (fac_transports f) xs\<rparr>"
  using assms(2)
proof (induction xs arbitrary: f)
  case (Cons x xs)
  obtain protocol version tr where x: "x = ((protocol, version), tr)" by (metis surj_pair)
  then have "makeTransportKey version protocol = (protocol, version)"
    using Cons.prems makeTransportKey_again[of "(protocol, version)"] by simp
  then show ?case
    using Cons.IH[of "f\<lparr>fac_transports := fmupd (protocol, version) tr (fac_transports f)\<rparr>"] Cons.prems by (simp add: x)
qed simp

lemma fold_entries:
  assumes "distinct (map fst xs)"
  shows "fmlookup (foldl (\<lambda>m (k, tr). fmupd k tr m) m xs) k = (case map_of xs k of Some tr \<Rightarrow> Some tr | None \<Rightarrow> fmlookup m k)"
  using assms
proof (induction xs arbitrary: m)
  case (Cons x xs)
  obtain k' tr where x: "x = (k', tr)" by (cases x)
  have "k' \<notin> fst ` set xs" using Cons.prems by (simp add: x)
  then have "map_of xs k' = None" by (simp add: map_of_eq_None_iff)
  then show ?case using Cons by (auto simp: x split: option.splits)
qed simp

lemma additional_options:
  assumes ok: "factory_ok f" and order: "lists_map (fmlookup (fac_transports f)) (order (fac_transports f))"
  shows "WithAdditionalOptions order defaults f opts = foldl apply_option f opts"
proof -
  let ?xs = "order (fac_transports f)"
  let ?regs = "map (\<lambda>((protocol, version), tr). WithCompatTransport version protocol tr) ?xs"
  let ?f1 = "\<lparr>fac_config = fac_config f, fac_interceptors = fac_interceptors f, fac_transports = fmempty\<rparr>"
  have keys: "\<forall>x\<in>set ?xs. take 1 (snd (fst x)) = ''v''"
  proof
    fix x assume "x \<in> set ?xs"
    then have "map_of ?xs (fst x) \<noteq> None" by (auto simp: map_of_eq_None_iff)
    then have "fst x |\<in>| fmdom (fac_transports f)" using order by (auto simp: lists_map_def fmdom_notI fmlookup_dom_iff)
    then show "take 1 (snd (fst x)) = ''v''" using ok unfolding factory_ok_def by blast
  qed
  have "fmlookup (foldl (\<lambda>m (k, tr). fmupd k tr m) fmempty ?xs) k = fmlookup (fac_transports f) k" for k
    using order by (simp add: fold_entries lists_map_def split: option.split)
  then have "foldl (\<lambda>m (k, tr). fmupd k tr m) fmempty ?xs = fac_transports f" by (intro fmap_ext)
  then have "foldl apply_option ?f1 ?regs = f"
    using transports_registered[of ?xs ?f1] order keys by (simp add: lists_map_def)
  then show ?thesis by (simp add: WithAdditionalOptions_def NewFactory_def Let_def)
qed

section \<open>The choice of an endpoint\<close>

text \<open>Comparing versions orders them, and some may be equal.\<close>

definition semver_ok :: "semver_lib \<Rightarrow> bool" where
  "semver_ok S \<longleftrightarrow>
     (\<forall>a b. 0 < sl_Compare S a b \<longleftrightarrow> sl_Compare S b a < 0) \<and>
     (\<forall>a b c. sl_Compare S a b \<le> 0 \<longrightarrow> sl_Compare S b c \<le> 0 \<longrightarrow> sl_Compare S a c \<le> 0)"

text \<open>A comparison for sorting: two arguments are in order one way or the other, and order is transitive.\<close>

definition comparison :: "('a \<Rightarrow> 'a \<Rightarrow> int) \<Rightarrow> bool" where
  "comparison cmp \<longleftrightarrow>
     (\<forall>a b. 0 < cmp a b \<longleftrightarrow> cmp b a < 0) \<and> (\<forall>a b c. cmp a b \<le> 0 \<longrightarrow> cmp b c \<le> 0 \<longrightarrow> cmp a c \<le> 0)"

lemma comparison_flip: "comparison cmp \<Longrightarrow> 0 < cmp a b \<longleftrightarrow> cmp b a < 0"
  and comparison_chain: "comparison cmp \<Longrightarrow> cmp a b \<le> 0 \<Longrightarrow> cmp b c \<le> 0 \<Longrightarrow> cmp a c \<le> 0"
  by (auto simp: comparison_def)

abbreviation in_order :: "('a \<Rightarrow> 'a \<Rightarrow> int) \<Rightarrow> 'a list \<Rightarrow> bool" where
  "in_order cmp \<equiv> sorted_wrt (\<lambda>a b. cmp a b \<le> 0)"

lemma set_insert_stable: "set (insert_stable cmp x ys) = insert x (set ys)"
  by (induction ys) auto

lemma ordered_insert:
  assumes "comparison cmp"
  shows "in_order cmp ys \<Longrightarrow> in_order cmp (insert_stable cmp x ys)"
proof (induction ys)
  case (Cons y ys)
  have "cmp y x \<le> 0" if "\<not> cmp x y \<le> 0" using that comparison_flip[OF assms, of x y] by linarith
  then show ?case using Cons comparison_chain[OF assms, of x y] by (auto simp: set_insert_stable)
qed simp

lemma ordered_sort: "comparison cmp \<Longrightarrow> in_order cmp (SortStableFunc cmp xs)"
  by (induction xs) (simp_all add: SortStableFunc_def ordered_insert)

lemma set_sort: "set (SortStableFunc cmp xs) = set xs"
  by (induction xs) (simp_all add: SortStableFunc_def set_insert_stable)

lemma find_insert_other: "\<not> P x \<Longrightarrow> find P (insert_stable cmp x ys) = find P ys"
  by (induction ys) auto

lemma find_insert:
  assumes cmp: "comparison cmp" and "P x"
  shows "in_order cmp ys \<Longrightarrow> find P (insert_stable cmp x ys) =
    (case find P ys of None \<Rightarrow> Some x | Some y \<Rightarrow> if cmp x y \<le> 0 then Some x else Some y)"
proof (induction ys)
  case Nil
  then show ?case using assms by simp
next
  case (Cons y ys)
  have later: "cmp y z \<le> 0" if "find P ys = Some z" for z
    using that Cons.prems by (auto simp: find_Some_iff)
  show ?case
  proof (cases "cmp x y \<le> 0")
    case True
    then have "cmp x z \<le> 0" if "find P ys = Some z" for z using later[OF that] comparison_chain[OF cmp] by blast
    then show ?thesis using assms True by (auto split: option.split)
  next
    case False
    then show ?thesis using Cons by auto
  qed
qed

text \<open>
  The first element of the sorted list with a property: it comes strictly before all such elements
  that stood before it, and no later one comes strictly before it.
\<close>

lemma find_sort:
  assumes cmp: "comparison cmp"
  shows "find P (SortStableFunc cmp xs) = Some x \<Longrightarrow>
     \<exists>ys zs. xs = ys @ x # zs \<and> P x \<and> (\<forall>y\<in>set ys. P y \<longrightarrow> cmp x y < 0) \<and> (\<forall>z\<in>set zs. P z \<longrightarrow> cmp x z \<le> 0)"
proof (induction xs arbitrary: x)
  case Nil
  then show ?case by (simp add: SortStableFunc_def)
next
  case (Cons a rest)
  have sorted: "SortStableFunc cmp (a # rest) = insert_stable cmp a (SortStableFunc cmp rest)"
    by (simp add: SortStableFunc_def)
  show ?case
  proof (cases "P a \<and> (\<forall>y. find P (SortStableFunc cmp rest) = Some y \<longrightarrow> cmp a y \<le> 0)")
    case True
    then have x: "x = a"
      using Cons.prems find_insert[of cmp P a, OF cmp _ ordered_sort[OF cmp, of rest]] True unfolding sorted by (auto split: option.splits)
    have "cmp a z \<le> 0" if z: "z \<in> set rest" "P z" for z
    proof -
      have "find P (SortStableFunc cmp rest) \<noteq> None" using z set_sort[of cmp rest] by (auto simp: find_None_iff)
      then obtain y where y: "find P (SortStableFunc cmp rest) = Some y" by blast
      obtain us vs where "rest = us @ y # vs" "\<forall>u\<in>set us. P u \<longrightarrow> cmp y u < 0" "\<forall>v\<in>set vs. P v \<longrightarrow> cmp y v \<le> 0"
        using Cons.IH[OF y] by blast
      moreover have "cmp y y \<le> 0" using comparison_flip[OF cmp, of y y] by linarith
      ultimately have "cmp y z \<le> 0" using z by fastforce
      then show ?thesis using True y comparison_chain[OF cmp] by blast
    qed
    then show ?thesis using x True by (intro exI[of _ "[]"] exI[of _ rest]) simp
  next
    case False
    have "find P (SortStableFunc cmp rest) = Some x \<and> (P a \<longrightarrow> cmp x a < 0)"
    proof (cases "P a")
      case True
      then obtain y where y: "find P (SortStableFunc cmp rest) = Some y" "\<not> cmp a y \<le> 0" using False by blast
      then have "x = y" using Cons.prems find_insert[of cmp P a, OF cmp _ ordered_sort[OF cmp, of rest]] True y unfolding sorted by simp
      then show ?thesis using y comparison_flip[OF cmp, of a y] by simp
    next
      case False
      then show ?thesis using Cons.prems find_insert_other[of P a cmp, OF False] unfolding sorted by simp
    qed
    then have found: "find P (SortStableFunc cmp rest) = Some x" and after: "P a \<Longrightarrow> cmp x a < 0" by blast+
    obtain ys zs where "rest = ys @ x # zs" "P x" "\<forall>y\<in>set ys. P y \<longrightarrow> cmp x y < 0" "\<forall>z\<in>set zs. P z \<longrightarrow> cmp x z \<le> 0"
      using Cons.IH[OF found] by blast
    then show ?thesis using after by (intro exI[of _ "a # ys"] exI[of _ zs]) simp
  qed
qed

lemma candidate_cmp_comparison:
  assumes "semver_ok S"
  shows "comparison (candidate_cmp S)"
  unfolding comparison_def
proof (intro conjI allI impI)
  note flip = assms[unfolded semver_ok_def, THEN conjunct1, rule_format]
  note chain = assms[unfolded semver_ok_def, THEN conjunct2, rule_format]
  show "0 < candidate_cmp S a b \<longleftrightarrow> candidate_cmp S b a < 0" for a b :: "'w transport_candidate"
    using flip[of "tc_semver a" "tc_semver b"] flip[of "tc_semver b" "tc_semver a"]
    by (auto simp: candidate_cmp_def Let_def)
  show "candidate_cmp S a c \<le> 0" if "candidate_cmp S a b \<le> 0" "candidate_cmp S b c \<le> 0" for a b c :: "'w transport_candidate"
    using that chain[of "tc_semver c" "tc_semver b" "tc_semver a"] chain[of "tc_semver a" "tc_semver b" "tc_semver c"]
      chain[of "tc_semver a" "tc_semver c" "tc_semver b"] chain[of "tc_semver b" "tc_semver a" "tc_semver c"]
      flip[of "tc_semver b" "tc_semver a"] flip[of "tc_semver c" "tc_semver b"] flip[of "tc_semver c" "tc_semver a"]
      flip[of "tc_semver a" "tc_semver b"] flip[of "tc_semver b" "tc_semver c"] flip[of "tc_semver a" "tc_semver c"]
    by (auto simp: candidate_cmp_def Let_def split: if_splits)
qed

text \<open>The newer version wins, then the more preferred transport.\<close>

definition better :: "semver_lib \<Rightarrow> 'w transport_candidate \<Rightarrow> 'w transport_candidate \<Rightarrow> bool" where
  "better S tc tc' \<longleftrightarrow>
     sl_Compare S (tc_semver tc') (tc_semver tc) < 0 \<or>
     (sl_Compare S (tc_semver tc') (tc_semver tc) = 0 \<and> tc_priority tc < tc_priority tc')"

lemma better_cmp: "better S tc tc' \<longleftrightarrow> candidate_cmp S tc tc' < 0"
  by (auto simp: better_def candidate_cmp_def Let_def)

definition connects :: "client_ctx \<Rightarrow> agent_card option \<Rightarrow> 'w transport_candidate \<Rightarrow> bool" where
  "connects ctx agent tc \<longleftrightarrow> \<not> isl (tc_factory tc ctx agent (tc_endpoint tc))"

lemma connect_first_find:
  "case connect_first ctx agent tcs of
     Inl failures \<Rightarrow> find (connects ctx agent) tcs = None
   | Inr (conn, tc) \<Rightarrow> find (connects ctx agent) tcs = Some tc \<and> tc_factory tc ctx agent (tc_endpoint tc) = Inr conn"
  by (induction tcs) (auto simp: connects_def split: sum.splits)

lemma in_map_filter: "x \<in> set (List.map_filter g es) \<longleftrightarrow> (\<exists>e\<in>set es. g e = Some x)"
  by (induction es) (auto simp: List.map_filter_simps split: option.splits)

lemma map_filter_split:
  "List.map_filter g es = ys @ x # zs \<Longrightarrow>
     \<exists>es1 e es2. es = es1 @ e # es2 \<and> g e = Some x \<and> List.map_filter g es1 = ys \<and> List.map_filter g es2 = zs"
proof (induction es arbitrary: ys)
  case (Cons a es)
  show ?case
  proof (cases "g a")
    case None
    then obtain es1 e es2 where "es = es1 @ e # es2 \<and> g e = Some x \<and> List.map_filter g es1 = ys \<and> List.map_filter g es2 = zs"
      using Cons by (auto simp: List.map_filter_simps)
    then show ?thesis using None by (intro exI[of _ "a # es1"] exI[of _ e] exI[of _ es2]) (simp add: List.map_filter_simps)
  next
    case (Some y)
    show ?thesis
    proof (cases ys)
      case Nil
      then show ?thesis using Cons.prems Some
        by (intro exI[of _ "[]"] exI[of _ a] exI[of _ es]) (simp add: List.map_filter_simps)
    next
      case (Cons y' ys')
      then obtain es1 e es2 where "es = es1 @ e # es2 \<and> g e = Some x \<and> List.map_filter g es1 = ys' \<and> List.map_filter g es2 = zs"
        using Cons.prems Cons.IH[of ys'] Some by (auto simp: List.map_filter_simps)
      then show ?thesis using Some Cons Cons.prems
        by (intro exI[of _ "a # es1"] exI[of _ e] exI[of _ es2]) (simp add: List.map_filter_simps)
    qed
  qed
qed (simp add: List.map_filter_simps)

text \<open>An endpoint can be used if there is a transport for it that connects.\<close>

definition usable ::
  "semver_lib \<Rightarrow> ('w transport_map \<Rightarrow> (transport_key \<times> 'w transport_factory) list) \<Rightarrow> ('i, 'w) client_factory \<Rightarrow> client_ctx \<Rightarrow>
     agent_card option \<Rightarrow> agent_interface \<Rightarrow> 'w transport_candidate \<Rightarrow> bool" where
  "usable S order f ctx agent e tc \<longleftrightarrow> candidate_of S order f e = Some tc \<and> connects ctx agent tc"

lemma candidate_endpoint: "candidate_of S order f e = Some tc \<Longrightarrow> tc_endpoint tc = e"
  by (auto simp: candidate_of_def split: option.splits)

lemma best_candidate:
  assumes S: "semver_ok S" and select: "selectTransport S order f endpoints = Inr candidates"
    and found: "find (connects ctx agent) candidates = Some tc"
  shows "\<exists>before after. endpoints = before @ tc_endpoint tc # after \<and> usable S order f ctx agent (tc_endpoint tc) tc \<and>
    (\<forall>e\<in>set before. \<forall>tc'. usable S order f ctx agent e tc' \<longrightarrow> better S tc tc') \<and>
    (\<forall>e\<in>set after. \<forall>tc'. usable S order f ctx agent e tc' \<longrightarrow> \<not> better S tc' tc)"
proof -
  let ?cs = "List.map_filter (candidate_of S order f) endpoints"
  note cmp = candidate_cmp_comparison[OF S]
  have "candidates = SortStableFunc (candidate_cmp S) ?cs"
    using select by (auto simp: selectTransport_def Let_def split: if_splits)
  then obtain ys zs where cs: "?cs = ys @ tc # zs" and tc: "connects ctx agent tc"
    and ys: "\<forall>y\<in>set ys. connects ctx agent y \<longrightarrow> candidate_cmp S tc y < 0"
    and zs: "\<forall>z\<in>set zs. connects ctx agent z \<longrightarrow> candidate_cmp S tc z \<le> 0"
    using find_sort[OF cmp] found by blast
  obtain es1 e es2 where split: "endpoints = es1 @ e # es2" "candidate_of S order f e = Some tc"
    "List.map_filter (candidate_of S order f) es1 = ys" "List.map_filter (candidate_of S order f) es2 = zs"
    using map_filter_split[OF cs] by blast
  have mem: "tc' \<in> set (List.map_filter (candidate_of S order f) es)" if "e' \<in> set es" "usable S order f ctx agent e' tc'" for e' es tc'
    using that by (force simp: in_map_filter usable_def)
  have "better S tc tc'" if "e' \<in> set es1" "usable S order f ctx agent e' tc'" for e' tc'
    using ys mem[OF that] that(2) split(3) by (auto simp: better_cmp usable_def)
  moreover have "\<not> better S tc' tc" if "e' \<in> set es2" "usable S order f ctx agent e' tc'" for e' tc'
    using zs mem[OF that] that(2) split(4) comparison_flip[OF cmp, of tc tc'] by (auto simp: better_cmp usable_def)
  ultimately show ?thesis
    using split(1,2) tc candidate_endpoint[OF split(2)] by (intro exI[of _ es1] exI[of _ es2]) (simp add: usable_def)
qed

lemma create_client_cases:
  "case create_client S order f ctx agent endpoints of
     Inl err \<Rightarrow> \<forall>e\<in>set endpoints. \<forall>tc. \<not> usable S order f ctx agent e tc
   | Inr c \<Rightarrow> \<exists>candidates tc conn. selectTransport S order f endpoints = Inr candidates \<and>
       find (connects ctx agent) candidates = Some tc \<and> tc_factory tc ctx agent (tc_endpoint tc) = Inr conn \<and>
       cli_endpoint c = tc_endpoint tc \<and> cli_protocolVersion c = headerVersion S tc \<and> cli_config c = fac_config f \<and>
       cli_interceptors c = fac_interceptors f \<and> cli_card c = agent \<and>
       cli_transport c = tenantTransportDecorator conn (if_Tenant (tc_endpoint tc)) (fac_config f)"
proof (cases "selectTransport S order f endpoints")
  case (Inl err)
  then have "List.map_filter (candidate_of S order f) endpoints = []"
    by (auto simp: selectTransport_def Let_def split: if_splits)
  then have "\<forall>e\<in>set endpoints. candidate_of S order f e = None"
    by (induction endpoints) (auto simp: List.map_filter_simps split: option.splits)
  then show ?thesis by (simp add: create_client_def Inl usable_def)
next
  case (Inr candidates)
  then have candidates: "candidates \<noteq> []" "set candidates = set (List.map_filter (candidate_of S order f) endpoints)"
    using set_sort[of "candidate_cmp S" "List.map_filter (candidate_of S order f) endpoints"]
    by (auto simp: selectTransport_def Let_def split: if_splits)
  note first = connect_first_find[of ctx agent candidates]
  show ?thesis
  proof (cases "connect_first ctx agent candidates")
    case (Inl failures)
    then have "\<forall>tc\<in>set candidates. \<not> connects ctx agent tc" using first by (simp add: find_None_iff)
    then have "\<forall>e\<in>set endpoints. \<forall>tc. \<not> usable S order f ctx agent e tc"
      unfolding candidates(2) by (force simp: in_map_filter usable_def)
    then show ?thesis using Inl by (simp add: create_client_def Inr createTransport_def candidates(1))
  next
    case (Inr found)
    then show ?thesis using first \<open>selectTransport S order f endpoints = Inr candidates\<close>
      by (cases found) (simp add: create_client_def createTransport_def candidates(1))
  qed
qed

end
