(* ===== verification/ClientServer.thy ===== *)
theory ClientServer
  imports ClientFactory
begin

text \<open>
  A client of the library against a server of the library: how the parameters of a call, among them
  the protocol version and a credential, get through the JSON-RPC transport to the call context of
  the handler, and which endpoint a client is made for.
\<close>

section \<open>Parameters over HTTP\<close>

lemma header_lookup:
  assumes order: "lists_map (fmlookup m) (order m)" and m: "params_ok m" "fmlookup m k = Some vs" "vs \<noteq> []"
  shows "ServiceParams_Get (NewServiceParams (x # filter (\<lambda>(k, vals). vals \<noteq> []) (order m))) k = Some vs"
proof -
  let ?xs = "filter (\<lambda>(k, vals). vals \<noteq> []) (order m)"
  have "(k', v) \<in> set (order m) \<Longrightarrow> to_lower k' = k'" for k' v
    using order m(1) by (metis fmdomI lists_map_def map_of_is_SomeI params_ok_def)
  then have low: "map (\<lambda>(k, v). (to_lower k, v)) ?xs = ?xs" by (intro map_idI) auto
  have distinct: "distinct (map fst ?xs)" using order by (simp add: lists_map_def distinct_map_filter)
  have "(k, vs) \<in> set ?xs" using order m by (auto simp: lists_map_def intro: map_of_SomeD)
  then have found: "map_of (rev ?xs) k = Some vs" using distinct by (simp add: map_of_eq_Some_iff rev_map [symmetric])
  have "to_lower k = k" using m by (metis fmdomI params_ok_def)
  then show ?thesis
    by (simp add: ServiceParams_Get_def NewServiceParams_lookup low found del: map_of.simps)
qed

lemma header_absent:
  assumes order: "lists_map (fmlookup m) (order m)" and m: "params_ok m" "\<forall>vs. fmlookup m k = Some vs \<longrightarrow> vs = []"
    and k: "to_lower k = k" "k \<noteq> to_lower (fst x)"
  shows "ServiceParams_Get (NewServiceParams (x # filter (\<lambda>(k, vals). vals \<noteq> []) (order m))) k = None"
proof -
  have "fmlookup m k' = Some v" if "(k', v) \<in> set (order m)" for k' v
    using that order by (metis lists_map_def map_of_is_SomeI)
  then have "to_lower k' = k' \<and> (k' = k \<longrightarrow> v = [])" if "(k', v) \<in> set (order m)" for k' v
    using that m by (metis fmdomI params_ok_def)
  then have "k \<notin> fst ` (\<lambda>(k, v). (to_lower k, v)) ` set (x # filter (\<lambda>(k, vals). vals \<noteq> []) (order m))"
    using k(2) by (cases x) force
  then have "map_of (rev (map (\<lambda>(k, v). (to_lower k, v)) (x # filter (\<lambda>(k, vals). vals \<noteq> []) (order m)))) k = None"
    by (simp add: map_of_eq_None_iff image_image del: list.map)
  then show ?thesis by (simp add: ServiceParams_Get_def NewServiceParams_lookup k(1) del: map_of.simps list.map rev.simps)
qed

lemma params_set_ok: "params_ok m \<Longrightarrow> params_ok (params_set m key vals)"
  by (simp add: params_ok_def params_set_def)

lemma AttachServiceParams_ok:
  assumes "pred_option params_ok (cx_params ctx)"
  shows "pred_option params_ok (cx_params (AttachServiceParams ctx params))"
proof -
  have "params_ok (foldl (\<lambda>existing (k, values). params_Append existing k values) m params)" if "params_ok m" for m
    using that
  proof (induction params arbitrary: m)
    case (Cons x params)
    have "params_ok (params_Append m (fst x) (snd x))"
      using Cons.prems unfolding params_ok_def params_Append_def by simp
    then show ?case using Cons.IH by (simp add: case_prod_unfold)
  qed simp
  moreover have "params_ok (serviceParamsCloneFrom ctx)"
    using assms by (cases "cx_params ctx") (simp_all add: serviceParamsCloneFrom_def params_ok_def)
  ultimately show ?thesis by (simp add: AttachServiceParams_def)
qed

text \<open>The parameters of a call before its interceptors run.\<close>

definition base_params :: "('p, 'i, 'w) a2a_client \<Rightarrow> client_ctx \<Rightarrow> service_params" where
  "base_params c ctx = params_set (serviceParamsCloneFrom ctx) SvcParamVersion [cli_protocolVersion c]"

lemma newRequest_params: "cq_ServiceParams (newRequest c ctx name p) = base_params c ctx"
  by (simp add: newRequest_def base_params_def)

lemma base_params_ok: "pred_option params_ok (cx_params ctx) \<Longrightarrow> params_ok (base_params c ctx)"
  by (cases "cx_params ctx") (simp_all add: base_params_def params_set_ok serviceParamsCloneFrom_def, simp_all add: params_ok_def params_set_def)

text \<open>The call context of the server for a call of the client.\<close>

lemma served_context:
  assumes order: "\<forall>m. lists_map (fmlookup m) (ee_order V m)" and m: "params_ok m"
    and version: "fmlookup m (to_lower SvcParamVersion) = Some [version]"
  shows "\<exists>cc. ctx_call (rest_context gctx (rpc_http (rpc_call_of V ctx m w) meth p)) = Some cc \<and>
    cc_ProtocolVersion cc = Version \<and> ServiceParams_Get (cc_svcParams cc) SvcParamVersion = Some [version] \<and>
    (\<forall>k vs. fmlookup m k = Some vs \<and> vs \<noteq> [] \<longrightarrow> ServiceParams_Get (cc_svcParams cc) k = Some vs) \<and>
    (\<forall>k. (\<forall>vs. fmlookup m k = Some vs \<longrightarrow> vs = []) \<and> to_lower k = k \<and> k \<noteq> to_lower ''Content-Type'' \<longrightarrow>
       ServiceParams_Get (cc_svcParams cc) k = None)"
proof -
  let ?h = "rr_Header (rpc_http (rpc_call_of V ctx m w) meth p)"
  have h: "?h = (''Content-Type'', [ContentJSON]) # filter (\<lambda>(k, vals). vals \<noteq> []) (ee_order V m)"
    by (simp add: rpc_http_def rpc_call_of_def)
  have get: "ServiceParams_Get (NewServiceParams ?h) k = Some vs" if "fmlookup m k = Some vs" "vs \<noteq> []" for k vs
    unfolding h using header_lookup[of m "ee_order V"] order m that by blast
  have absent: "ServiceParams_Get (NewServiceParams ?h) k = None"
    if "\<forall>vs. fmlookup m k = Some vs \<longrightarrow> vs = []" "to_lower k = k" "k \<noteq> to_lower ''Content-Type''" for k
    unfolding h using that order m by (intro header_absent) simp_all
  have v: "ServiceParams_Get (NewServiceParams ?h) SvcParamVersion = Some [version]"
    using get[OF version] by (simp add: ServiceParams_Get_def)
  then have "newHTTPServiceParams ?h q = NewServiceParams ?h" for q by (simp add: newHTTPServiceParams_def)
  then show ?thesis using get v absent by (simp add: rest_context_def NewCallContext_def)
qed

lemma version_accepted:
  assumes "cc_ProtocolVersion cc = Version" "ServiceParams_Get (cc_svcParams cc) SvcParamVersion = Some [version]"
    and "version \<noteq> ''''" "majorMinor mm version = majorMinor mm Version" "majorMinor mm Version \<noteq> ''''"
  shows "checkProtocolVersion mm cc = None"
  using assms by (simp add: checkProtocolVersion_def)

section \<open>A message with a credential\<close>

text \<open>A JSON-RPC client for an endpoint of a server of the library, and what a request becomes on its way.\<close>

definition jsonrpc_client :: "(('i, 'w) client) \<Rightarrow> jsonrpc_env \<Rightarrow> 'w http_conn \<Rightarrow> 'w endpoint_env \<Rightarrow> agent_card \<Rightarrow> bool" where
  "jsonrpc_client c X net V zero_card \<longleftrightarrow>
     cli_transport c = tenantTransportDecorator (jsonrpcTransport (jv_http X) net V zero_card) (if_Tenant (cli_endpoint c)) (cli_config c)"

definition sent_request :: "('i, 'w) client \<Rightarrow> client_ctx \<Rightarrow> send_request \<Rightarrow> send_request" where
  "sent_request c ctx req =
     (let r = withDefaultSendConfig c req
      in r\<lparr>req_Tenant := updateTenant (if_Tenant (cli_endpoint c)) (cli_config c) ctx (req_Tenant r)\<rparr>)"

lemma jsonrpc_SendMessage:
  assumes "jsonrpc_client c X net V zero_card"
  shows "tr_SendMessage (cli_transport c) ctx m (withDefaultSendConfig c req) w =
    rpc_SendMessage (jv_http X) net (rpc_call_of V ctx m w) (sent_request c ctx req) w"
  using assms by (simp add: jsonrpc_client_def tenantTransportDecorator_def jsonrpcTransport_def sent_request_def Let_def)

lemma sent_request_fields:
  "req_Message (sent_request c ctx req) = req_Message req"
  "req_Metadata (sent_request c ctx req) = req_Metadata req"
  "req_Tenant (sent_request c ctx req) = updateTenant (if_Tenant (cli_endpoint c)) (cli_config c) ctx (req_Tenant req)"
  by (simp_all add: sent_request_def withDefaultSendConfig_def Let_def)

definition auth_params :: "('p, 'i, 'w) a2a_client \<Rightarrow> client_ctx \<Rightarrow> string \<Rightarrow> service_params" where
  "auth_params c ctx cred = params_set (base_params c ctx) ''Authorization'' [''Bearer '' @ cred]"

lemma authorization_key: "to_lower ''Authorization'' = ''authorization''"
  by code_simp

lemma auth_params_lookup:
  "fmlookup (auth_params c ctx cred) (to_lower ''Authorization'') = Some [''Bearer '' @ cred]"
  "fmlookup (auth_params c ctx cred) (to_lower SvcParamVersion) = Some [cli_protocolVersion c]"
  by (simp_all add: auth_params_def base_params_def params_set_def to_lower_def lower_char_def SvcParamVersion_def)

text \<open>The error of an answer.\<close>

definition answered_kind :: "string + 'a option \<times> go_error option \<Rightarrow> sentinel \<Rightarrow> bool" where
  "answered_kind answer s \<longleftrightarrow> (\<exists>err. answer = Inr (None, Some err) \<and> (\<forall>t. errors_Is err t \<longleftrightarrow> t = s))"

lemma answered: "is_kind answer s \<Longrightarrow> answered_kind (client_answer answer) s"
  by (auto simp: is_kind_def answered_kind_def client_answer_def)


section \<open>The endpoint of a client\<close>


section \<open>Examples\<close>

definition bearer_card :: agent_card where
  "bearer_card = \<lparr>card_SupportedInterfaces = Some [NewAgentInterface ''/rpc'' TransportProtocolJSONRPC],
     card_Capabilities = \<lparr>cap_Extensions = [], cap_PushNotifications = False, cap_Streaming = True, cap_ExtendedAgentCard = False\<rparr>,
     card_DefaultInputModes = None, card_DefaultOutputModes = None, card_Description = '''', card_DocumentationURL = '''',
     card_IconURL = '''', card_Name = ''echo'', card_Provider = None,
     card_SecurityRequirements = [fmupd ''oauth'' [] fmempty, fmupd ''http'' [] fmempty],
     card_SecuritySchemes = Some (fmupd ''http'' (HTTPAuth \<lparr>has_BearerFormat = '''', has_Description = '''', has_Scheme = ''bearer''\<rparr>) fmempty),
     card_Signatures = None, card_Skills = None, card_Version = ''1''\<rparr>"

definition ann_ctx :: client_ctx where
  "ann_ctx = \<lparr>cx_server = background, cx_params = None, cx_query = fmempty, cx_tenant = Some ''t'', cx_session = Some ''ann'',
     cx_propagated = None\<rparr>"

definition ann_creds :: credentials_store where
  "ann_creds = creds_Set ''ann'' ''http'' ''tok'' fmempty"

definition echo_endpoint :: "nat endpoint_env" where
  "echo_endpoint = \<lparr>ee_order = sorted_range, ee_path = ''/rpc'', ee_query = fmempty, ee_id = (\<lambda>w. ''1''), ee_addr = (\<lambda>w. 0),
     ee_broken = (\<lambda>w. None)\<rparr>"

definition echo_client :: "(credentials_store, nat) client" where
  "echo_client = \<lparr>cli_config = zero_config,
     cli_transport = tenantTransportDecorator (jsonrpcTransport (jv_http plain_rpc)
       (rpc_net plain_rpc sse_defaults echo_handler background []) echo_endpoint bearer_card) '''' zero_config,
     cli_protocolVersion = ''1.0'', cli_endpoint = NewAgentInterface ''/rpc'' TransportProtocolJSONRPC,
     cli_interceptors = [AuthInterceptor sorted_range (\<lambda>r. sorted_list_of_fset (fmdom r)) creds_Get], cli_card = Some bearer_card\<rparr>"


text \<open>Versions ordered as texts, with the major version up to the first dot.\<close>

definition text_semver :: semver_lib where
  "text_semver = \<lparr>sl_Major = takeWhile (\<lambda>c. c \<noteq> CHR ''.''), sl_MajorMinor = id,
     sl_Compare = (\<lambda>a b. if a < b then - 1 else if a = b then 0 else 1)\<rparr>"

definition no_transport :: "unit transport_factory" where
  "no_transport = (\<lambda>ctx agent iface. Inr unimplementedTransport)"

definition two_versions :: "(unit, unit) client_factory" where
  "two_versions = NewFactory [] [WithTransport ''JSONRPC'' no_transport, WithCompatTransport ''0.3'' ''JSONRPC'' no_transport]"

definition old_endpoint :: agent_interface where
  "old_endpoint = \<lparr>if_URL = ''/old'', if_ProtocolBinding = ''JSONRPC'', if_Tenant = '''', if_ProtocolVersion = ''0.3''\<rparr>"

definition new_endpoint :: agent_interface where
  "new_endpoint = old_endpoint\<lparr>if_URL := ''/new'', if_ProtocolVersion := ''1.2''\<rparr>"

definition sorted_transports :: "unit transport_map \<Rightarrow> (transport_key \<times> unit transport_factory) list" where
  "sorted_transports m = map (\<lambda>k. (k, the (fmlookup m k))) [(''JSONRPC'', ''v0.3''), (''JSONRPC'', ''v1.0'')]"


end
