(* ===== verification/ClientExtensions.thy ===== *)
theory ClientExtensions
  imports ClientServer
begin

text \<open>
  The interceptors of \<open>a2aext\<close>: one that requests extensions the server supports, and a pair that
  passes on what an agent was called with (requested extensions and their metadata) when it calls
  another agent.
\<close>

section \<open>Activation (activator.go, utils.go)\<close>

definition isExtensionSupported :: "agent_card option \<Rightarrow> string \<Rightarrow> bool" where
  "isExtensionSupported agent extURI =
     (case agent of None \<Rightarrow> True | Some c \<Rightarrow> list_ex (\<lambda>e. ext_URI e = extURI) (cap_Extensions (card_Capabilities c)))"

definition activator_Before ::
  "string list \<Rightarrow> client_ctx \<Rightarrow> 'p client_req \<Rightarrow> 'i \<Rightarrow> 'i \<times> 'p client_req \<times> client_ctx \<times> 'p option \<times> go_error option" where
  "activator_Before extensionURI ctx req i =
     (let req' = (case cq_Card req of
          None \<Rightarrow> req
        | Some c \<Rightarrow>
            if cap_Extensions (card_Capabilities c) = [] then req
            else (let toAppend = filter (isExtensionSupported (cq_Card req)) extensionURI
                  in if toAppend = [] then req
                     else req\<lparr>cq_ServiceParams := params_Append (cq_ServiceParams req) SvcParamExtensions toAppend\<rparr>))
      in (i, req', ctx, None, None))"

definition NewActivator :: "string list \<Rightarrow> ('p, 'i) client_interceptor" where
  "NewActivator extensionURIs = PassthroughInterceptor\<lparr>ci_Before := activator_Before extensionURIs\<rparr>"

section \<open>Propagation (propagator.go)\<close>

text \<open>The metadata of a payload, if its type carries some.\<close>

definition payload_Meta :: "client_payload \<Rightarrow> metadata option" where
  "payload_Meta p =
     (case p of
        SendP r \<Rightarrow> Some (req_Metadata r)
      | CancelTaskP r \<Rightarrow> Some (cancel_Metadata r)
      | EventP e \<Rightarrow> Some (event_Meta e)
      | _ \<Rightarrow> None)"

definition payload_SetMeta :: "client_payload \<Rightarrow> string \<Rightarrow> any \<Rightarrow> client_payload" where
  "payload_SetMeta p k v =
     (case p of
        SendP r \<Rightarrow> SendP (r\<lparr>req_Metadata := setMeta (req_Metadata r) k v\<rparr>)
      | CancelTaskP r \<Rightarrow> CancelTaskP (r\<lparr>cancel_Metadata := setMeta (cancel_Metadata r) k v\<rparr>)
      | EventP e \<Rightarrow> EventP (event_SetMeta e k v)
      | _ \<Rightarrow> p)"

text \<open>The configurations, a predicate that is not given being nil.\<close>

record server_propagator =
  sp_MetadataPredicate :: "(client_ctx \<Rightarrow> string \<Rightarrow> bool) option"
  sp_HeaderPredicate :: "(client_ctx \<Rightarrow> string \<Rightarrow> bool) option"

record client_propagator =
  cp_MetadataPredicate :: "(client_ctx \<Rightarrow> agent_card option \<Rightarrow> string \<Rightarrow> bool) option"
  cp_HeaderPredicate :: "(client_ctx \<Rightarrow> agent_card option \<Rightarrow> string \<Rightarrow> string \<Rightarrow> bool) option"

text \<open>\<open>ExtensionsFrom\<close> and \<open>RequestedURIs\<close>: whether a call in this context has requested an extension.\<close>

definition requested_in :: "client_ctx \<Rightarrow> string \<Rightarrow> bool" where
  "requested_in ctx key =
     (case CallContextFrom (cx_server ctx) of None \<Rightarrow> False | Some cc \<Rightarrow> key \<in> set (RequestedURIs cc))"

definition NewServerPropagator :: "server_propagator option \<Rightarrow> (client_ctx \<Rightarrow> string \<Rightarrow> bool) \<times> (client_ctx \<Rightarrow> string \<Rightarrow> bool)" where
  "NewServerPropagator config =
     ((case Option.bind config sp_MetadataPredicate of Some p \<Rightarrow> p | None \<Rightarrow> requested_in),
      (case Option.bind config sp_HeaderPredicate of
         Some p \<Rightarrow> p | None \<Rightarrow> (\<lambda>ctx key. EqualFold key SvcParamExtensions)))"

text \<open>
  The server's interceptor leaves what it found in the context. The loops fill maps, one entry for
  each key.
\<close>

definition serverPropagator_Before ::
  "(client_ctx \<Rightarrow> string \<Rightarrow> bool) \<times> (client_ctx \<Rightarrow> string \<Rightarrow> bool) \<Rightarrow> client_ctx \<Rightarrow> call_context \<Rightarrow> client_payload option \<Rightarrow> client_ctx" where
  "serverPropagator_Before preds ctx callCtx p =
     (let meta = (case Option.bind p payload_Meta of Some (Some m) \<Rightarrow> m | _ \<Rightarrow> fmempty)
      in ctx\<lparr>cx_propagated := Some
          \<lparr>pg_requestHeaders = fmmap_keys
             (\<lambda>headerName headerValues. if EqualFold headerName SvcParamExtensions then RequestedURIs callCtx else headerValues)
             (fmfilter (snd preds ctx) (cc_svcParams callCtx)),
           pg_metadata = fmfilter (fst preds ctx) meta\<rparr>\<rparr>)"

definition client_predicates where
  "client_predicates config =
     ((case Option.bind config cp_MetadataPredicate of
         Some p \<Rightarrow> p | None \<Rightarrow> (\<lambda>ctx agent key. requested_in ctx key \<and> isExtensionSupported agent key)),
      (case Option.bind config cp_HeaderPredicate of
         Some p \<Rightarrow> p
       | None \<Rightarrow> (\<lambda>ctx agent key val. EqualFold key SvcParamExtensions \<and> isExtensionSupported agent val)))"

text \<open>The loops of the client's interceptor, over the entries of the maps in range order.\<close>

definition propagate_metadata :: "(string \<Rightarrow> bool) \<Rightarrow> (string \<times> any) list \<Rightarrow> client_payload \<Rightarrow> client_payload" where
  "propagate_metadata pred entries p = foldl (\<lambda>p (k, v). if pred k then payload_SetMeta p k v else p) p entries"

definition propagate_headers :: "(string \<Rightarrow> string \<Rightarrow> bool) \<Rightarrow> (string \<times> string list) list \<Rightarrow> service_params \<Rightarrow> service_params" where
  "propagate_headers pred entries params =
     foldl (\<lambda>m (k, vals). foldl (\<lambda>m v. if pred k v then params_Append m k [v] else m) m vals) params entries"

definition clientPropagator_Before where
  "clientPropagator_Before preds meta_order order ctx req i =
     (case cx_propagated ctx of
        None \<Rightarrow> (i, req, ctx, None, None)
      | Some toPropagate \<Rightarrow>
          (let req1 = (if pg_metadata toPropagate = fmempty then req
                       else req\<lparr>cq_Payload := map_option
                         (propagate_metadata (fst preds ctx (cq_Card req)) (meta_order (pg_metadata toPropagate))) (cq_Payload req)\<rparr>);
               req2 = req1\<lparr>cq_ServiceParams := propagate_headers (snd preds ctx (cq_Card req))
                 (order (pg_requestHeaders toPropagate)) (cq_ServiceParams req1)\<rparr>
           in (i, req2, ctx, None, None)))"

definition NewClientPropagator ::
  "client_propagator option \<Rightarrow> ((string, any) fmap \<Rightarrow> (string \<times> any) list) \<Rightarrow>
     ((string, string list) fmap \<Rightarrow> (string \<times> string list) list) \<Rightarrow> (client_payload, 'i) client_interceptor" where
  "NewClientPropagator config meta_order order =
     PassthroughInterceptor\<lparr>ci_Before := clientPropagator_Before (client_predicates config) meta_order order\<rparr>"

section \<open>Requested extensions as values of the parameter\<close>

text \<open>An extension as the server lists it: not empty, trimmed, no comma in it.\<close>

definition clean_uri :: "string \<Rightarrow> bool" where
  "clean_uri u \<longleftrightarrow> u \<noteq> '''' \<and> CHR '','' \<notin> set u \<and> trim_blanks u = u"

lemma split_on_parts: "p \<in> set (split_on c s) \<Longrightarrow> c \<notin> set p"
  by (induction s arbitrary: p) (auto split: list.splits if_splits)

lemma dropWhile_twice: "dropWhile P (rev (dropWhile P (rev (dropWhile P s)))) = rev (dropWhile P (rev (dropWhile P s)))"
proof -
  have fixed: "dropWhile P u = u" if "u = [] \<or> \<not> P (hd u)" for u using that by (cases u) auto
  let ?t = "dropWhile P s"
  let ?u = "rev (dropWhile P (rev ?t))"
  have "?u = [] \<or> \<not> P (hd ?u)"
  proof (cases "?u = []")
    case False
    obtain v where "rev ?t = v @ dropWhile P (rev ?t)" by (metis takeWhile_dropWhile_id)
    then have t: "?t = ?u @ rev v" by (metis rev_append rev_rev_ident)
    then have "hd ?u = hd ?t" "?t \<noteq> []" using False by (metis hd_append2, metis append_is_Nil_conv)
    then show ?thesis using hd_dropWhile[of P s] by simp
  qed simp
  then show ?thesis by (rule fixed)
qed

lemma trim_blanks_again: "trim_blanks (trim_blanks s) = trim_blanks s"
  by (simp add: trim_blanks_def Let_def dropWhile_twice dropWhile_idem)

lemma set_trim_blanks: "set (trim_blanks s) \<subseteq> set s"
  unfolding trim_blanks_def Let_def by (auto dest!: set_dropWhileD)

lemma requested_clean: "u \<in> set (RequestedURIs cc) \<Longrightarrow> clean_uri u"
  using set_trim_blanks split_on_parts
  by (fastforce simp: RequestedURIs_def clean_uri_def trim_blanks_again split: option.splits)

lemma split_on_none: "c \<notin> set s \<Longrightarrow> split_on c s = [s]"
  by (induction s) auto

lemma requested_back:
  assumes "ServiceParams_Get (cc_svcParams cc) SvcParamExtensions = Some vals" "\<forall>u\<in>set vals. clean_uri u"
  shows "RequestedURIs cc = vals"
proof -
  have "concat (map (\<lambda>v. map trim_blanks (split_on (CHR '','') v)) vals) = vals"
    using assms(2) by (induction vals) (simp_all add: clean_uri_def split_on_none)
  moreover have "filter (\<lambda>u. u \<noteq> '''') vals = vals" using assms(2) by (simp add: clean_uri_def filter_id_conv)
  ultimately show ?thesis by (simp add: RequestedURIs_def assms(1))
qed

section \<open>What is passed on\<close>

lemma event_Meta_SetMeta: "event_Meta (event_SetMeta e k v) = setMeta (event_Meta e) k v"
  by (cases e) simp_all

lemma payload_Meta_SetMeta: "payload_Meta (payload_SetMeta p k v) = map_option (\<lambda>m. setMeta m k v) (payload_Meta p)"
  by (simp add: payload_Meta_def payload_SetMeta_def event_Meta_SetMeta split: client_payload.split)

lemma payload_SetMeta_none: "payload_Meta p = None \<Longrightarrow> payload_SetMeta p k v = p"
  by (auto simp: payload_Meta_def payload_SetMeta_def split: client_payload.splits)

lemma propagate_metadata_none: "payload_Meta p = None \<Longrightarrow> propagate_metadata pred entries p = p"
  by (induction entries) (auto simp: propagate_metadata_def payload_SetMeta_none)

lemma propagate_metadata_lookup:
  assumes "distinct (map fst entries)" "payload_Meta p = Some m"
  shows "\<exists>m'. payload_Meta (propagate_metadata pred entries p) = Some m' \<and>
    (\<forall>k. gm_lookup m' k = (if pred k \<and> map_of entries k \<noteq> None then map_of entries k else gm_lookup m k))"
  using assms
proof (induction entries arbitrary: p m)
  case (Cons x entries)
  obtain k v where x: "x = (k, v)" by (cases x)
  let ?p = "if pred k then payload_SetMeta p k v else p" and ?m = "if pred k then setMeta m k v else m"
  have "payload_Meta ?p = Some ?m" using Cons.prems(2) by (simp add: payload_Meta_SetMeta)
  then obtain m' where m': "payload_Meta (propagate_metadata pred entries ?p) = Some m'"
    "\<forall>k. gm_lookup m' k = (if pred k \<and> map_of entries k \<noteq> None then map_of entries k else gm_lookup ?m k)"
    using Cons.IH[of ?p ?m] Cons.prems(1) by (auto simp: x)
  have "map_of entries k = None" using Cons.prems(1) by (auto simp: x map_of_eq_None_iff)
  then show ?case using m' by (intro exI[of _ m']) (auto simp: x propagate_metadata_def)
qed (simp add: propagate_metadata_def)

text \<open>A value appended to a parameter.\<close>

lemma params_Get_Append:
  "params_Get (params_Append m k [v]) key =
     (if to_lower key = to_lower k
      then (if v \<in> set (params_Get m key) then params_Get m key else params_Get m key @ [v])
      else params_Get m key)"
proof (cases "to_lower key = to_lower k")
  case True
  then have "params_Get m k = params_Get m key" by (simp add: params_Get_def)
  then show ?thesis using True by (simp add: params_Append_def) (simp add: params_Get_def)
qed (simp add: params_Get_def params_Append_def)

lemma Append_ok: "params_ok m \<Longrightarrow> params_ok (params_Append m k vals)"
  by (simp add: params_ok_def params_Append_def)

lemma propagate_values_get:
  "set (params_Get (foldl (\<lambda>m v. if pred k v then params_Append m k [v] else m) m vals) key) =
     set (params_Get m key) \<union> {v \<in> set vals. pred k v \<and> to_lower key = to_lower k}"
proof (induction vals arbitrary: m)
  case (Cons v vals)
  have get: "set (params_Get (if pred k v then params_Append m k [v] else m) key) =
      set (params_Get m key) \<union> (if pred k v \<and> to_lower key = to_lower k then {v} else {})"
    by (auto simp: params_Get_Append)
  show ?case by (simp only: foldl.simps Cons.IH get) auto
qed simp

lemma propagate_values_ok:
  "params_ok m \<Longrightarrow> params_ok (foldl (\<lambda>m v. if pred k v then params_Append m k [v] else m) m vals)"
  by (induction vals arbitrary: m) (simp_all add: Append_ok)

lemma propagate_values_other:
  "(\<forall>v\<in>set vals. \<not> pred k v) \<or> to_lower key \<noteq> to_lower k \<Longrightarrow>
     fmlookup (foldl (\<lambda>m v. if pred k v then params_Append m k [v] else m) m vals) (to_lower key) = fmlookup m (to_lower key)"
proof (induction vals arbitrary: m)
  case (Cons v vals)
  have "fmlookup (if pred k v then params_Append m k [v] else m) (to_lower key) = fmlookup m (to_lower key)"
    using Cons.prems by (auto simp: params_Append_def)
  moreover have "(\<forall>v\<in>set vals. \<not> pred k v) \<or> to_lower key \<noteq> to_lower k" using Cons.prems by auto
  ultimately show ?case by (simp only: foldl.simps Cons.IH)
qed simp

lemma propagate_headers_get:
  "set (params_Get (propagate_headers pred entries m) key) =
     set (params_Get m key) \<union> {v. \<exists>(k, vals) \<in> set entries. to_lower key = to_lower k \<and> v \<in> set vals \<and> pred k v}"
proof (induction entries arbitrary: m)
  case (Cons x entries)
  then show ?case by (cases x) (auto simp: propagate_headers_def propagate_values_get)
qed (simp add: propagate_headers_def)

lemma propagate_headers_ok: "params_ok m \<Longrightarrow> params_ok (propagate_headers pred entries m)"
  by (induction entries arbitrary: m) (auto simp: propagate_headers_def propagate_values_ok)

lemma propagate_headers_other:
  "\<forall>(k, vals) \<in> set entries. to_lower key = to_lower k \<longrightarrow> (\<forall>v\<in>set vals. \<not> pred k v) \<Longrightarrow>
     fmlookup (propagate_headers pred entries m) (to_lower key) = fmlookup m (to_lower key)"
proof (induction entries arbitrary: m)
  case (Cons x entries)
  obtain k vals where x: "x = (k, vals)" by (cases x)
  let ?m = "foldl (\<lambda>m v. if pred k v then params_Append m k [v] else m) m vals"
  have "fmlookup ?m (to_lower key) = fmlookup m (to_lower key)"
    using Cons.prems by (intro propagate_values_other) (auto simp: x)
  moreover have "fmlookup (propagate_headers pred entries ?m) (to_lower key) = fmlookup ?m (to_lower key)"
    using Cons.prems by (intro Cons.IH) auto
  ultimately show ?case by (simp add: x propagate_headers_def)
qed (simp add: propagate_headers_def)

text \<open>The names of the two parameters of the protocol.\<close>

lemma extension_keys:
  "to_lower SvcParamExtensions = ''a2a-extensions''" "to_lower SvcParamVersion = ''a2a-version''"
  "EqualFold ''a2a-extensions'' SvcParamExtensions" "\<not> EqualFold ''a2a-version'' SvcParamExtensions"
  "''a2a-extensions'' \<noteq> to_lower ''Content-Type''"
  by code_simp+

definition payload_value :: "client_payload option \<Rightarrow> string \<Rightarrow> any option" where
  "payload_value p k = (case Option.bind p payload_Meta of None \<Rightarrow> None | Some m \<Rightarrow> gm_lookup m k)"

text \<open>
  The entries that the server's propagator, with its default predicates, leaves in a context.
\<close>

lemma propagated_headers:
  assumes ok: "params_ok (cc_svcParams cc)"
    and entries: "lists_map (fmlookup hs) entries"
    and hs: "hs = fmmap_keys (\<lambda>k vs. if EqualFold k SvcParamExtensions then RequestedURIs cc else vs)
      (fmfilter (\<lambda>k. EqualFold k SvcParamExtensions) (cc_svcParams cc))"
  shows "(k, vals) \<in> set entries \<Longrightarrow> to_lower k = k \<and> EqualFold k SvcParamExtensions \<and> vals = RequestedURIs cc"
    and "RequestedURIs cc \<noteq> [] \<Longrightarrow> (''a2a-extensions'', RequestedURIs cc) \<in> set entries"
proof -
  have entry: "(k, vals) \<in> set entries \<longleftrightarrow> fmlookup hs k = Some vals" for k vals
    using entries by (auto simp: lists_map_def simp flip: map_of_eq_Some_iff)
  show "to_lower k = k \<and> EqualFold k SvcParamExtensions \<and> vals = RequestedURIs cc" if "(k, vals) \<in> set entries"
  proof -
    have "fmlookup hs k = Some vals" using that by (simp add: entry)
    moreover from this have "k |\<in>| fmdom (cc_svcParams cc)" unfolding hs by (auto split: if_splits intro: fmdomI)
    ultimately show ?thesis using ok unfolding hs params_ok_def by (auto split: if_splits)
  qed
  show "(''a2a-extensions'', RequestedURIs cc) \<in> set entries" if "RequestedURIs cc \<noteq> []"
  proof -
    have "fmlookup (cc_svcParams cc) ''a2a-extensions'' \<noteq> None"
      using that by (auto simp: RequestedURIs_def ServiceParams_Get_def extension_keys split: option.splits)
    then show ?thesis unfolding entry hs using extension_keys(3) by auto
  qed
qed

text \<open>The request that the client's propagator, with its default predicates, lets through.\<close>

definition forwards :: "call_context \<Rightarrow> agent_card option \<Rightarrow> string \<Rightarrow> bool" where
  "forwards cc agent u \<longleftrightarrow> u \<in> set (RequestedURIs cc) \<and> isExtensionSupported agent u"

lemma propagator_context:
  "cx_propagated (serverPropagator_Before (NewServerPropagator None) ctx0 cc p0) = Some
     \<lparr>pg_requestHeaders = fmmap_keys (\<lambda>k vs. if EqualFold k SvcParamExtensions then RequestedURIs cc else vs)
        (fmfilter (\<lambda>k. EqualFold k SvcParamExtensions) (cc_svcParams cc)),
      pg_metadata = fmfilter (requested_in ctx0) (case Option.bind p0 payload_Meta of Some (Some m) \<Rightarrow> m | _ \<Rightarrow> fmempty)\<rparr>"
  "cx_server (serverPropagator_Before preds ctx0 cc p0) = cx_server ctx0"
  "cx_params (serverPropagator_Before preds ctx0 cc p0) = cx_params ctx0"
  by (simp_all add: serverPropagator_Before_def NewServerPropagator_def Let_def)

lemma forwarded_params:
  assumes ok: "params_ok (cc_svcParams cc)" and entries: "lists_map (fmlookup hs) entries"
    and hs: "hs = fmmap_keys (\<lambda>k vs. if EqualFold k SvcParamExtensions then RequestedURIs cc else vs)
      (fmfilter (\<lambda>k. EqualFold k SvcParamExtensions) (cc_svcParams cc))"
    and m: "params_ok m" "fmlookup m (to_lower SvcParamExtensions) = None"
    and m'_def: "m' = propagate_headers (\<lambda>k v. EqualFold k SvcParamExtensions \<and> isExtensionSupported agent v) entries m"
  shows "params_ok m'" "fmlookup m' (to_lower SvcParamVersion) = fmlookup m (to_lower SvcParamVersion)"
    and "set (params_Get m' SvcParamExtensions) = {u. forwards cc agent u}"
proof -
  note headers = propagated_headers[OF ok entries hs]
  show "params_ok m'" unfolding m'_def by (rule propagate_headers_ok[OF m(1)])
  have other: "\<not> EqualFold k SvcParamExtensions" if "(k, vals) \<in> set entries" "to_lower SvcParamVersion = to_lower k" for k vals
    using headers(1)[OF that(1)] that(2) extension_keys(2,4) by metis
  show "fmlookup m' (to_lower SvcParamVersion) = fmlookup m (to_lower SvcParamVersion)"
    unfolding m'_def by (rule propagate_headers_other) (use other in blast)
  have none: "params_Get m SvcParamExtensions = []" using m(2) by (simp add: params_Get_def)
  have "(\<exists>(k, vals) \<in> set entries. to_lower SvcParamExtensions = to_lower k \<and> u \<in> set vals \<and>
      EqualFold k SvcParamExtensions \<and> isExtensionSupported agent u) \<longleftrightarrow> forwards cc agent u" for u
  proof
    assume "forwards cc agent u"
    then have u: "u \<in> set (RequestedURIs cc)" "isExtensionSupported agent u" by (simp_all add: forwards_def)
    then have "(''a2a-extensions'', RequestedURIs cc) \<in> set entries" by (intro headers(2)) auto
    moreover have "to_lower SvcParamExtensions = to_lower ''a2a-extensions''" using extension_keys(1) to_lower_idem by metis
    ultimately show "\<exists>(k, vals) \<in> set entries. to_lower SvcParamExtensions = to_lower k \<and> u \<in> set vals \<and>
      EqualFold k SvcParamExtensions \<and> isExtensionSupported agent u"
      using u extension_keys(3) by (intro bexI[of _ "(''a2a-extensions'', RequestedURIs cc)"]) auto
  qed (use headers(1) in \<open>auto simp: forwards_def\<close>)
  then show "set (params_Get m' SvcParamExtensions) = {u. forwards cc agent u}"
    unfolding m'_def propagate_headers_get none by simp
qed

lemma forwarded_metadata:
  assumes md: "lists_map (fmlookup md) entries"
  shows "case payload_Meta p of
      None \<Rightarrow> propagate_metadata pred entries p = p
    | Some m \<Rightarrow> \<exists>m'. payload_Meta (propagate_metadata pred entries p) = Some m' \<and>
        (\<forall>k. gm_lookup m' k = (if pred k \<and> fmlookup md k \<noteq> None then fmlookup md k else gm_lookup m k))"
proof (cases "payload_Meta p")
  case (Some m)
  have entries: "distinct (map fst entries)" "map_of entries = fmlookup md" using md by (simp_all add: lists_map_def)
  show ?thesis using propagate_metadata_lookup[OF entries(1) Some, of pred] unfolding entries(2) Some option.case .
qed (simp add: propagate_metadata_none)

text \<open>What a server reads of a parameter the client sent.\<close>

lemma served_extensions:
  assumes order: "\<forall>m. lists_map (fmlookup m) (ee_order V m)" and m: "params_ok m"
    and version: "fmlookup m (to_lower SvcParamVersion) = Some [version]"
    and clean: "\<forall>u\<in>set (params_Get m SvcParamExtensions). clean_uri u"
  shows "\<exists>cc2. ctx_call (rest_context gctx (rpc_http (rpc_call_of V ctx m w) meth body)) = Some cc2 \<and>
    RequestedURIs cc2 = params_Get m SvcParamExtensions"
proof -
  obtain cc2 where cc2: "ctx_call (rest_context gctx (rpc_http (rpc_call_of V ctx m w) meth body)) = Some cc2"
    "\<forall>k vs. fmlookup m k = Some vs \<and> vs \<noteq> [] \<longrightarrow> ServiceParams_Get (cc_svcParams cc2) k = Some vs"
    "\<forall>k. (\<forall>vs. fmlookup m k = Some vs \<longrightarrow> vs = []) \<and> to_lower k = k \<and> k \<noteq> to_lower ''Content-Type'' \<longrightarrow>
       ServiceParams_Get (cc_svcParams cc2) k = None"
    using served_context[OF order m version] by blast
  have key: "ServiceParams_Get sp SvcParamExtensions = ServiceParams_Get sp ''a2a-extensions''" for sp
    unfolding ServiceParams_Get_def extension_keys(1) using extension_keys(1) to_lower_idem by metis
  have get: "params_Get m SvcParamExtensions = (case fmlookup m ''a2a-extensions'' of None \<Rightarrow> [] | Some vs \<Rightarrow> vs)"
    by (simp add: params_Get_def extension_keys(1))
  have low: "to_lower ''a2a-extensions'' = ''a2a-extensions''" using extension_keys(1) to_lower_idem by metis
  have "RequestedURIs cc2 = params_Get m SvcParamExtensions"
  proof (cases "params_Get m SvcParamExtensions = []")
    case True
    then have "\<forall>vs. fmlookup m ''a2a-extensions'' = Some vs \<longrightarrow> vs = []" by (auto simp: get)
    then have "ServiceParams_Get (cc_svcParams cc2) SvcParamExtensions = None"
      unfolding key using cc2(3) low extension_keys(5) by blast
    then show ?thesis using True by (simp add: RequestedURIs_def)
  next
    case False
    then obtain vs where vs: "fmlookup m ''a2a-extensions'' = Some vs" "vs \<noteq> []" by (auto simp: get split: option.splits)
    then have "ServiceParams_Get (cc_svcParams cc2) SvcParamExtensions = Some vs" unfolding key using cc2(2) by blast
    then show ?thesis using requested_back clean vs(1) by (simp add: get)
  qed
  then show ?thesis using cc2(1) by blast
qed

text \<open>
  C14: An agent that was called with the server's propagator in place and calls another agent with the
  client's propagator, both in their default form, over JSON-RPC: the other agent sees exactly those
  of the requested extensions as requested that its card lists, and the payload gets the metadata of
  exactly those, all other metadata being left as it was.
\<close>

theorem extensions_forwarded:
  assumes upstream: "CallContextFrom (cx_server ctx0) = Some cc" "params_ok (cc_svcParams cc)"
    and ctx: "ctx = serverPropagator_Before (NewServerPropagator None) ctx0 cc p0"
    and client: "cli_interceptors c = [NewClientPropagator None meta_order order]"
    and maps: "\<forall>m. lists_map (fmlookup m) (meta_order m)" "\<forall>m. lists_map (fmlookup m) (order m)"
      "\<forall>m. lists_map (fmlookup m) (ee_order V m)"
    and params: "pred_option params_ok (cx_params ctx0)" "fmlookup (serviceParamsCloneFrom ctx0) (to_lower SvcParamExtensions) = None"
  shows "\<exists>req' p' cc2.
    before_calls [] (cli_interceptors c) ctx (newRequest c ctx name p) i = Inr (i, ctx, req') \<and> cq_Payload req' = Some p' \<and>
    ctx_call (rest_context gctx (rpc_http (rpc_call_of V ctx (cq_ServiceParams req') w) meth body)) = Some cc2 \<and>
    set (RequestedURIs cc2) = {u. forwards cc (cli_card c) u} \<and>
    (case payload_Meta p of
       None \<Rightarrow> p' = p
     | Some m \<Rightarrow> \<exists>m'. payload_Meta p' = Some m' \<and>
         (\<forall>k. gm_lookup m' k =
            (if forwards cc (cli_card c) k \<and> payload_value p0 k \<noteq> None then payload_value p0 k else gm_lookup m k)))"
proof -
  let ?md = "fmfilter (requested_in ctx0) (case Option.bind p0 payload_Meta of Some (Some m) \<Rightarrow> m | _ \<Rightarrow> fmempty)"
  let ?hs = "fmmap_keys (\<lambda>k vs. if EqualFold k SvcParamExtensions then RequestedURIs cc else vs)
    (fmfilter (\<lambda>k. EqualFold k SvcParamExtensions) (cc_svcParams cc))"
  let ?pred = "\<lambda>key. requested_in ctx key \<and> isExtensionSupported (cli_card c) key"
  let ?m = "propagate_headers (\<lambda>k v. EqualFold k SvcParamExtensions \<and> isExtensionSupported (cli_card c) v) (order ?hs) (base_params c ctx)"
  let ?p = "if ?md = fmempty then p else propagate_metadata ?pred (meta_order ?md) p"
  let ?req = "(newRequest c ctx name p)\<lparr>cq_Payload := Some ?p, cq_ServiceParams := ?m\<rparr>"
  have requested: "requested_in ctx k \<longleftrightarrow> k \<in> set (RequestedURIs cc)" "requested_in ctx0 k \<longleftrightarrow> k \<in> set (RequestedURIs cc)" for k
    using upstream(1) by (simp_all add: ctx requested_in_def propagator_context)
  have before: "before_calls [] (cli_interceptors c) ctx (newRequest c ctx name p) i = Inr (i, ctx, ?req)"
    by (simp add: client NewClientPropagator_def clientPropagator_Before_def client_predicates_def ctx propagator_context(1)
        Let_def newRequest_def base_params_def)
  have own: "cx_params ctx = cx_params ctx0" by (simp add: ctx propagator_context)
  have base: "params_ok (base_params c ctx)" "fmlookup (base_params c ctx) (to_lower SvcParamExtensions) = None"
    "fmlookup (base_params c ctx) (to_lower SvcParamVersion) = Some [cli_protocolVersion c]"
    using params base_params_ok[of ctx c] unfolding own
    by (simp_all add: base_params_def params_set_def serviceParamsCloneFrom_def own extension_keys)
  note sent = forwarded_params[OF upstream(2) maps(2)[rule_format, of ?hs] refl base(1,2) refl]
  have clean: "\<forall>u\<in>set (params_Get ?m SvcParamExtensions). clean_uri u"
    using requested_clean unfolding sent(3) by (auto simp: forwards_def)
  obtain cc2 where cc2: "ctx_call (rest_context gctx (rpc_http (rpc_call_of V ctx ?m w) meth body)) = Some cc2"
    "RequestedURIs cc2 = params_Get ?m SvcParamExtensions"
    using served_extensions[OF maps(3) sent(1) sent(2)[unfolded base(3)] clean] by blast
  have entry: "?pred k \<and> fmlookup ?md k \<noteq> None \<longleftrightarrow> forwards cc (cli_card c) k \<and> payload_value p0 k \<noteq> None"
    "k \<in> set (RequestedURIs cc) \<Longrightarrow> fmlookup ?md k = payload_value p0 k" for k
    by (auto simp: requested forwards_def payload_value_def gm_lookup_def split: option.splits)
  have "case payload_Meta p of
       None \<Rightarrow> ?p = p
     | Some m \<Rightarrow> \<exists>m'. payload_Meta ?p = Some m' \<and>
         (\<forall>k. gm_lookup m' k =
            (if forwards cc (cli_card c) k \<and> payload_value p0 k \<noteq> None then payload_value p0 k else gm_lookup m k))"
  proof (cases "?md = fmempty")
    case True
    then have "payload_value p0 k = None" if "forwards cc (cli_card c) k" for k
      using entry(2)[of k] that by (simp add: forwards_def)
    then show ?thesis using True by (auto split: option.split)
  next
    case False
    show ?thesis
      using forwarded_metadata[OF maps(1)[rule_format, of ?md], where p = p and pred = ?pred] entry False
      by (auto simp: forwards_def requested split: option.splits)
  qed
  then show ?thesis using before cc2 sent(3) by (intro exI[of _ ?req] exI[of _ ?p] exI[of _ cc2]) simp
qed

definition sorted_entries :: "(string, any) fmap \<Rightarrow> (string \<times> any) list" where
  "sorted_entries m = map (\<lambda>k. (k, the (fmlookup m k))) (sorted_list_of_fset (fmdom m))"

lemma sorted_entries_ok: "lists_map (fmlookup m) (sorted_entries m)"
  unfolding lists_map_def
proof
  show "map_of (sorted_entries m) = fmlookup m"
    by (rule ext) (auto simp: sorted_entries_def map_of_map_restrict restrict_map_def fmlookup_dom_iff)
  show "distinct (map fst (sorted_entries m))"
    by (simp add: sorted_entries_def o_def sorted_list_of_fset.rep_eq)
qed

definition agent_client :: "(credentials_store, nat) client" where
  "agent_client = echo_client\<lparr>cli_interceptors := [NewClientPropagator None sorted_entries sorted_range], cli_card := Some ex_card\<rparr>"

definition agent_ctx :: client_ctx where
  "agent_ctx = ann_ctx\<lparr>cx_server := background\<lparr>ctx_call := Some ex_call\<rparr>\<rparr>"

definition extended_request :: client_payload where
  "extended_request = SendP (hello_request\<lparr>req_Metadata := Some (fmupd ''urn:x'' (AInt KInt 1) (fmupd ''urn:y'' (AInt KInt 2) fmempty))\<rparr>)"

lemma extensions_forwarded_witness:
  "\<exists>req' p' m'. before_calls [] (cli_interceptors agent_client)
      (serverPropagator_Before (NewServerPropagator None) agent_ctx ex_call (Some extended_request))
      (newRequest agent_client (serverPropagator_Before (NewServerPropagator None) agent_ctx ex_call (Some extended_request))
        ''SendMessage'' (SendP hello_request)) fmempty =
      Inr (fmempty, serverPropagator_Before (NewServerPropagator None) agent_ctx ex_call (Some extended_request), req') \<and>
    cq_Payload req' = Some p' \<and> payload_Meta p' = Some m' \<and> gm_lookup m' ''urn:x'' = Some (AInt KInt 1) \<and> gm_lookup m' ''urn:y'' = None"
proof -
  let ?ctx = "serverPropagator_Before (NewServerPropagator None) agent_ctx ex_call (Some extended_request)"
  have uris: "RequestedURIs ex_call = [''urn:y'', ''urn:x'']" by code_simp
  have upstream: "CallContextFrom (cx_server agent_ctx) = Some ex_call" "params_ok (cc_svcParams ex_call)"
    using params_ok_New by (simp_all add: agent_ctx_def CallContextFrom_def ex_call_def NewCallContext_def)
  have client: "cli_interceptors agent_client = [NewClientPropagator None sorted_entries sorted_range]"
    by (simp add: agent_client_def)
  have maps: "\<forall>m. lists_map (fmlookup m) (sorted_entries m)" "\<forall>m. lists_map (fmlookup m) (sorted_range m)"
    "\<forall>m. lists_map (fmlookup m) (ee_order echo_endpoint m)"
    using sorted_entries_ok sorted_range_ok by (simp_all add: lists_map_def echo_endpoint_def)
  have params: "pred_option params_ok (cx_params agent_ctx)" "fmlookup (serviceParamsCloneFrom agent_ctx) (to_lower SvcParamExtensions) = None"
    by (simp_all add: agent_ctx_def ann_ctx_def serviceParamsCloneFrom_def)
  have meta: "payload_Meta (SendP hello_request) = Some None" by (simp add: payload_Meta_def hello_request_def)
  have carried_value: "payload_value (Some extended_request) ''urn:x'' = Some (AInt KInt 1)"
    by (simp add: payload_value_def extended_request_def payload_Meta_def)
  have forwards: "forwards ex_call (cli_card agent_client) ''urn:x''" "\<not> forwards ex_call (cli_card agent_client) ''urn:y''"
    by (simp_all add: forwards_def uris agent_client_def isExtensionSupported_def ex_card_def)
  show ?thesis
    using extensions_forwarded[OF upstream refl client maps params, where ?p0.0 = "Some extended_request" and
        name = "''SendMessage''" and p = "SendP hello_request" and i = fmempty and gctx = background and w = 0 and
        meth = MethodMessageSend and body = ANil] meta carried_value forwards
    by fastforce
qed

text \<open>The activator requests those of its extensions that the card lists.\<close>

lemma Append_values:
  "set (params_Get (params_Append m k vals) k) = set (params_Get m k) \<union> set vals"
proof -
  have "set (foldl (\<lambda>result v. if v \<in> set result then result else result @ [v]) xs vals) = set xs \<union> set vals" for xs :: "string list"
    by (induction vals arbitrary: xs) auto
  then show ?thesis by (simp add: params_Append_def) (simp add: params_Get_def)
qed

lemma activator_requests:
  assumes "cq_Card req = Some agent" "activator_Before exts ctx req i = (i', req', ctx', result, err)"
  shows "set (params_Get (cq_ServiceParams req') SvcParamExtensions) =
    set (params_Get (cq_ServiceParams req) SvcParamExtensions) \<union> {u \<in> set exts. isExtensionSupported (Some agent) u}"
proof (cases "cap_Extensions (card_Capabilities agent) = []")
  case True
  then show ?thesis using assms by (auto simp: activator_Before_def isExtensionSupported_def)
next
  case False
  let ?add = "filter (isExtensionSupported (Some agent)) exts"
  have "req' = (if ?add = [] then req
      else req\<lparr>cq_ServiceParams := params_Append (cq_ServiceParams req) SvcParamExtensions ?add\<rparr>)"
    using assms False by (simp add: activator_Before_def Let_def split: if_splits)
  then show ?thesis by (cases "?add = []") (auto simp: Append_values filter_empty_conv)
qed

end
