(* ===== verification/CardJson.thy ===== *)
theory CardJson
  imports RequestJson AgentCards
begin

text \<open>
  The JSON form of the agent card: the struct tags of \<open>a2a/agent.go\<close> and \<open>a2a/auth.go\<close>, over the
  custom marshalers of \<open>AgentCards\<close>. A value whose marshaler fails is written as an opaque value,
  which \<open>json.Marshal\<close> refuses.
\<close>

section \<open>Slices and maps\<close>

text \<open>A nil slice or map is written as null, and null leaves it nil. A null element is the zero value.\<close>

definition list_or_null :: "any list option \<Rightarrow> any" where
  "list_or_null xs = (case xs of None \<Rightarrow> ANil | Some ys \<Rightarrow> AArr ys)"

fun jvalues :: "'a \<Rightarrow> (any \<Rightarrow> 'a jdec) \<Rightarrow> any \<Rightarrow> 'a list jdec" where
  "jvalues zero dec (AArr vs) = jlist_loop (\<lambda>v. if v = ANil then jret zero else dec v) vs"
| "jvalues zero dec _ = None"

definition jelement :: "'a \<Rightarrow> (any \<Rightarrow> 'a jdec) \<Rightarrow> any \<Rightarrow> 'a jdec" where
  "jelement zero dec v = (if v = ANil then jret zero else dec v)"

text \<open>The entries of a map, each with its own decoder.\<close>

fun jentries :: "(any \<Rightarrow> 'a jdec) \<Rightarrow> any \<Rightarrow> (string, 'a) fmap jdec" where
  "jentries dec (AMap m) =
     (if fmpred (\<lambda>k v. dec v \<noteq> None) m
      then Some (\<not> fmpred (\<lambda>k v. \<not> fst (the (dec v))) m, fmmap (\<lambda>v. snd (the (dec v))) m)
      else None)"
| "jentries dec _ = None"

text \<open>A type with its own unmarshaler gets null too.\<close>

definition jcustom :: "(string, any) fmap \<Rightarrow> string \<Rightarrow> 'a \<Rightarrow> (any \<Rightarrow> 'a jdec) \<Rightarrow> 'a jdec" where
  "jcustom m k zero dec = (case fmlookup m k of None \<Rightarrow> jret zero | Some v \<Rightarrow> dec v)"

definition jopt :: "'a option \<Rightarrow> 'a jdec" where
  "jopt x = map_option (Pair False) x"

definition scopes_json :: "scopes_map \<Rightarrow> any" where
  "scopes_json s = (case s of None \<Rightarrow> ANil | Some m \<Rightarrow> AMap (fmmap AString m))"

definition scopes_of_json :: "any \<Rightarrow> scopes_map jdec" where
  "scopes_of_json = jsome (jentries (jelement '''' jstring))"

section \<open>OAuth flows\<close>

definition auth_code_json :: "auth_code_flow \<Rightarrow> any" where
  "auth_code_json f = obj
     [(''authorizationUrl'', Some (AString (acf_AuthorizationURL f))), (''refreshUrl'', str_omit (acf_RefreshURL f)),
      (''scopes'', Some (scopes_json (acf_Scopes f))), (''tokenUrl'', Some (AString (acf_TokenURL f))),
      (''pkceRequired'', bool_omit (acf_PKCERequired f))]"

definition auth_code_of_json :: "any \<Rightarrow> auth_code_flow jdec" where
  "auth_code_of_json = jstruct (\<lambda>m.
     jbind (jfield m ''authorizationUrl'' '''' jstring) (\<lambda>auth.
     jbind (jfield m ''refreshUrl'' '''' jstring) (\<lambda>refresh.
     jbind (jfield m ''scopes'' None scopes_of_json) (\<lambda>scopes.
     jbind (jfield m ''tokenUrl'' '''' jstring) (\<lambda>token.
     jbind (jfield m ''pkceRequired'' False jbool) (\<lambda>pkce.
       jret \<lparr>acf_AuthorizationURL = auth, acf_RefreshURL = refresh, acf_Scopes = scopes, acf_TokenURL = token,
         acf_PKCERequired = pkce\<rparr>))))))"

definition client_credentials_json :: "client_credentials_flow \<Rightarrow> any" where
  "client_credentials_json f = obj
     [(''refreshUrl'', str_omit (ccf_RefreshURL f)), (''scopes'', Some (scopes_json (ccf_Scopes f))),
      (''tokenUrl'', Some (AString (ccf_TokenURL f)))]"

definition client_credentials_of_json :: "any \<Rightarrow> client_credentials_flow jdec" where
  "client_credentials_of_json = jstruct (\<lambda>m.
     jbind (jfield m ''refreshUrl'' '''' jstring) (\<lambda>refresh.
     jbind (jfield m ''scopes'' None scopes_of_json) (\<lambda>scopes.
     jbind (jfield m ''tokenUrl'' '''' jstring) (\<lambda>token.
       jret \<lparr>ccf_RefreshURL = refresh, ccf_Scopes = scopes, ccf_TokenURL = token\<rparr>))))"

definition implicit_json :: "implicit_flow \<Rightarrow> any" where
  "implicit_json f = obj
     [(''authorizationUrl'', Some (AString (imf_AuthorizationURL f))), (''refreshUrl'', str_omit (imf_RefreshURL f)),
      (''scopes'', Some (scopes_json (imf_Scopes f)))]"

definition implicit_of_json :: "any \<Rightarrow> implicit_flow jdec" where
  "implicit_of_json = jstruct (\<lambda>m.
     jbind (jfield m ''authorizationUrl'' '''' jstring) (\<lambda>auth.
     jbind (jfield m ''refreshUrl'' '''' jstring) (\<lambda>refresh.
     jbind (jfield m ''scopes'' None scopes_of_json) (\<lambda>scopes.
       jret \<lparr>imf_AuthorizationURL = auth, imf_RefreshURL = refresh, imf_Scopes = scopes\<rparr>))))"

definition password_json :: "password_flow \<Rightarrow> any" where
  "password_json f = obj
     [(''refreshUrl'', str_omit (pwf_RefreshURL f)), (''scopes'', Some (scopes_json (pwf_Scopes f))),
      (''tokenUrl'', Some (AString (pwf_TokenURL f)))]"

definition password_of_json :: "any \<Rightarrow> password_flow jdec" where
  "password_of_json = jstruct (\<lambda>m.
     jbind (jfield m ''refreshUrl'' '''' jstring) (\<lambda>refresh.
     jbind (jfield m ''scopes'' None scopes_of_json) (\<lambda>scopes.
     jbind (jfield m ''tokenUrl'' '''' jstring) (\<lambda>token.
       jret \<lparr>pwf_RefreshURL = refresh, pwf_Scopes = scopes, pwf_TokenURL = token\<rparr>))))"

definition device_code_json :: "device_code_flow \<Rightarrow> any" where
  "device_code_json f = obj
     [(''deviceAuthorizationUrl'', Some (AString (dcf_DeviceAuthorizationURL f))), (''refreshUrl'', str_omit (dcf_RefreshURL f)),
      (''scopes'', Some (scopes_json (dcf_Scopes f))), (''tokenUrl'', Some (AString (dcf_TokenURL f)))]"

definition device_code_of_json :: "any \<Rightarrow> device_code_flow jdec" where
  "device_code_of_json = jstruct (\<lambda>m.
     jbind (jfield m ''deviceAuthorizationUrl'' '''' jstring) (\<lambda>auth.
     jbind (jfield m ''refreshUrl'' '''' jstring) (\<lambda>refresh.
     jbind (jfield m ''scopes'' None scopes_of_json) (\<lambda>scopes.
     jbind (jfield m ''tokenUrl'' '''' jstring) (\<lambda>token.
       jret \<lparr>dcf_DeviceAuthorizationURL = auth, dcf_RefreshURL = refresh, dcf_Scopes = scopes, dcf_TokenURL = token\<rparr>)))))"

definition flows_json :: "flows_wrapper \<Rightarrow> any" where
  "flows_json w = obj
     [(''authorizationCode'', map_option auth_code_json (fw_AuthorizationCode w)),
      (''clientCredentials'', map_option client_credentials_json (fw_ClientCredentials w)),
      (''implicit'', map_option implicit_json (fw_Implicit w)), (''password'', map_option password_json (fw_Password w)),
      (''deviceCode'', map_option device_code_json (fw_DeviceCode w))]"

definition flows_of_json :: "any \<Rightarrow> flows_wrapper jdec" where
  "flows_of_json = jstruct (\<lambda>m.
     jbind (jfield m ''authorizationCode'' None (jsome auth_code_of_json)) (\<lambda>a.
     jbind (jfield m ''clientCredentials'' None (jsome client_credentials_of_json)) (\<lambda>c.
     jbind (jfield m ''implicit'' None (jsome implicit_of_json)) (\<lambda>i.
     jbind (jfield m ''password'' None (jsome password_of_json)) (\<lambda>p.
     jbind (jfield m ''deviceCode'' None (jsome device_code_of_json)) (\<lambda>d.
       jret \<lparr>fw_AuthorizationCode = a, fw_ClientCredentials = c, fw_Implicit = i, fw_Password = p, fw_DeviceCode = d\<rparr>))))))"

section \<open>Security schemes\<close>

definition api_key_json :: "api_key_scheme \<Rightarrow> any" where
  "api_key_json s = obj
     [(''description'', str_omit (aks_Description s)), (''location'', Some (AString (aks_Location s))),
      (''name'', Some (AString (aks_Name s)))]"

definition api_key_of_json :: "any \<Rightarrow> api_key_scheme jdec" where
  "api_key_of_json = jstruct (\<lambda>m.
     jbind (jfield m ''description'' '''' jstring) (\<lambda>d.
     jbind (jfield m ''location'' '''' jstring) (\<lambda>loc.
     jbind (jfield m ''name'' '''' jstring) (\<lambda>name.
       jret \<lparr>aks_Description = d, aks_Location = loc, aks_Name = name\<rparr>))))"

definition http_auth_json :: "http_auth_scheme \<Rightarrow> any" where
  "http_auth_json s = obj
     [(''bearerFormat'', str_omit (has_BearerFormat s)), (''description'', str_omit (has_Description s)),
      (''scheme'', Some (AString (has_Scheme s)))]"

definition http_auth_of_json :: "any \<Rightarrow> http_auth_scheme jdec" where
  "http_auth_of_json = jstruct (\<lambda>m.
     jbind (jfield m ''bearerFormat'' '''' jstring) (\<lambda>b.
     jbind (jfield m ''description'' '''' jstring) (\<lambda>d.
     jbind (jfield m ''scheme'' '''' jstring) (\<lambda>s.
       jret \<lparr>has_BearerFormat = b, has_Description = d, has_Scheme = s\<rparr>))))"

definition openid_json :: "openid_scheme \<Rightarrow> any" where
  "openid_json s = obj
     [(''description'', str_omit (ois_Description s)), (''openIdConnectUrl'', Some (AString (ois_OpenIDConnectURL s)))]"

definition openid_of_json :: "any \<Rightarrow> openid_scheme jdec" where
  "openid_of_json = jstruct (\<lambda>m.
     jbind (jfield m ''description'' '''' jstring) (\<lambda>d.
     jbind (jfield m ''openIdConnectUrl'' '''' jstring) (\<lambda>u.
       jret \<lparr>ois_Description = d, ois_OpenIDConnectURL = u\<rparr>)))"

definition mutual_tls_json :: "mutual_tls_scheme \<Rightarrow> any" where
  "mutual_tls_json s = obj [(''description'', str_omit (mts_Description s))]"

definition mutual_tls_of_json :: "any \<Rightarrow> mutual_tls_scheme jdec" where
  "mutual_tls_of_json = jstruct (\<lambda>m. jbind (jfield m ''description'' '''' jstring) (\<lambda>d. jret \<lparr>mts_Description = d\<rparr>))"

definition oauth2_wrapper_json :: "oauth2_wrapper \<Rightarrow> any" where
  "oauth2_wrapper_json w = obj
     [(''description'', str_omit (ow_Description w)), (''oauth2MetadataUrl'', str_omit (ow_Oauth2MetadataURL w)),
      (''flows'', Some (flows_json (ow_Flows w)))]"

definition oauth2_wrapper_of_json :: "any \<Rightarrow> oauth2_wrapper jdec" where
  "oauth2_wrapper_of_json = jstruct (\<lambda>m.
     jbind (jfield m ''description'' '''' jstring) (\<lambda>d.
     jbind (jfield m ''oauth2MetadataUrl'' '''' jstring) (\<lambda>u.
     jbind (jfield m ''flows'' empty_flows flows_of_json) (\<lambda>f.
       jret \<lparr>ow_Description = d, ow_Oauth2MetadataURL = u, ow_Flows = f\<rparr>))))"

definition scheme_wrapper_json :: "scheme_wrapper \<Rightarrow> any" where
  "scheme_wrapper_json w = obj
     [(''apiKeySecurityScheme'', map_option api_key_json (sw_APIKey w)),
      (''httpAuthSecurityScheme'', map_option http_auth_json (sw_HTTPAuth w)),
      (''mtlsSecurityScheme'', map_option mutual_tls_json (sw_MutualTLS w)),
      (''oauth2SecurityScheme'', map_option oauth2_wrapper_json (sw_OAuth2 w)),
      (''openIdConnectSecurityScheme'', map_option openid_json (sw_OpenIDConnect w))]"

definition scheme_wrapper_of_json :: "any \<Rightarrow> scheme_wrapper jdec" where
  "scheme_wrapper_of_json = jstruct (\<lambda>m.
     jbind (jfield m ''apiKeySecurityScheme'' None (jsome api_key_of_json)) (\<lambda>a.
     jbind (jfield m ''httpAuthSecurityScheme'' None (jsome http_auth_of_json)) (\<lambda>h.
     jbind (jfield m ''mtlsSecurityScheme'' None (jsome mutual_tls_of_json)) (\<lambda>t.
     jbind (jfield m ''oauth2SecurityScheme'' None (jsome oauth2_wrapper_of_json)) (\<lambda>oa.
     jbind (jfield m ''openIdConnectSecurityScheme'' None (jsome openid_of_json)) (\<lambda>oi.
       jret \<lparr>sw_APIKey = a, sw_HTTPAuth = h, sw_MutualTLS = t, sw_OAuth2 = oa, sw_OpenIDConnect = oi\<rparr>))))))"

definition named_schemes_json :: "named_schemes \<Rightarrow> any" where
  "named_schemes_json s =
     (case NamedSecuritySchemes_MarshalJSON s of
        Inl err \<Rightarrow> AOther ''security scheme''
      | Inr m \<Rightarrow> AMap (fmmap scheme_wrapper_json m))"

definition named_schemes_of_json :: "any \<Rightarrow> named_schemes jdec" where
  "named_schemes_of_json v =
     jbind (if v = ANil then jret fmempty else jentries (jelement empty_scheme scheme_wrapper_of_json) v) (\<lambda>m.
       case NamedSecuritySchemes_UnmarshalJSON m of Inl err \<Rightarrow> None | Inr s \<Rightarrow> jret s)"

definition schemes_omit :: "named_schemes \<Rightarrow> any option" where
  "schemes_omit s = (if gm_len s = 0 then None else Some (named_schemes_json s))"

definition requirements_of_json :: "any \<Rightarrow> security_requirements list jdec" where
  "requirements_of_json v = jopt (SecurityRequirementsOptions_UnmarshalJSON v)"

definition requirements_omit :: "security_requirements list \<Rightarrow> any option" where
  "requirements_omit rs = (if rs = [] then None else Some (SecurityRequirementsOptions_MarshalJSON rs))"

section \<open>The card\<close>

definition extension_json :: "agent_extension \<Rightarrow> any" where
  "extension_json e = obj
     [(''description'', str_omit (ext_Description e)), (''params'', meta_omit (ext_Params e)),
      (''required'', bool_omit (ext_Required e)), (''uri'', str_omit (ext_URI e))]"

definition extension_of_json :: "json_lib \<Rightarrow> any \<Rightarrow> agent_extension jdec" where
  "extension_of_json J = jstruct (\<lambda>m.
     jbind (jfield m ''description'' '''' jstring) (\<lambda>d.
     jbind (jfield m ''params'' None (jmap J)) (\<lambda>p.
     jbind (jfield m ''required'' False jbool) (\<lambda>r.
     jbind (jfield m ''uri'' '''' jstring) (\<lambda>u.
       jret \<lparr>ext_Description = d, ext_Params = p, ext_Required = r, ext_URI = u\<rparr>)))))"

definition zero_extension :: agent_extension where
  "zero_extension = \<lparr>ext_Description = '''', ext_Params = None, ext_Required = False, ext_URI = ''''\<rparr>"

definition capabilities_json :: "agent_capabilities \<Rightarrow> any" where
  "capabilities_json c = obj
     [(''extensions'', list_omit (map extension_json (cap_Extensions c))),
      (''pushNotifications'', Some (ABool (cap_PushNotifications c))), (''streaming'', Some (ABool (cap_Streaming c))),
      (''extendedAgentCard'', bool_omit (cap_ExtendedAgentCard c))]"

definition zero_capabilities :: agent_capabilities where
  "zero_capabilities = \<lparr>cap_Extensions = [], cap_PushNotifications = False, cap_Streaming = False, cap_ExtendedAgentCard = False\<rparr>"

definition capabilities_of_json :: "json_lib \<Rightarrow> any \<Rightarrow> agent_capabilities jdec" where
  "capabilities_of_json J = jstruct (\<lambda>m.
     jbind (jfield m ''extensions'' [] (jvalues zero_extension (extension_of_json J))) (\<lambda>e.
     jbind (jfield m ''pushNotifications'' False jbool) (\<lambda>p.
     jbind (jfield m ''streaming'' False jbool) (\<lambda>s.
     jbind (jfield m ''extendedAgentCard'' False jbool) (\<lambda>x.
       jret \<lparr>cap_Extensions = e, cap_PushNotifications = p, cap_Streaming = s, cap_ExtendedAgentCard = x\<rparr>)))))"

definition interface_json :: "agent_interface \<Rightarrow> any" where
  "interface_json i = obj
     [(''url'', Some (AString (if_URL i))), (''protocolBinding'', Some (AString (if_ProtocolBinding i))),
      (''tenant'', str_omit (if_Tenant i)), (''protocolVersion'', Some (AString (if_ProtocolVersion i)))]"

definition interface_of_json :: "any \<Rightarrow> agent_interface jdec" where
  "interface_of_json = jstruct (\<lambda>m.
     jbind (jfield m ''url'' '''' jstring) (\<lambda>u.
     jbind (jfield m ''protocolBinding'' '''' jstring) (\<lambda>b.
     jbind (jfield m ''tenant'' '''' jstring) (\<lambda>t.
     jbind (jfield m ''protocolVersion'' '''' jstring) (\<lambda>v.
       jret \<lparr>if_URL = u, if_ProtocolBinding = b, if_Tenant = t, if_ProtocolVersion = v\<rparr>)))))"

definition provider_json :: "agent_provider \<Rightarrow> any" where
  "provider_json p = obj [(''organization'', Some (AString (prov_Org p))), (''url'', Some (AString (prov_URL p)))]"

definition provider_of_json :: "any \<Rightarrow> agent_provider jdec" where
  "provider_of_json = jstruct (\<lambda>m.
     jbind (jfield m ''organization'' '''' jstring) (\<lambda>org.
     jbind (jfield m ''url'' '''' jstring) (\<lambda>u. jret \<lparr>prov_Org = org, prov_URL = u\<rparr>)))"

definition signature_json :: "card_signature \<Rightarrow> any" where
  "signature_json s = obj
     [(''header'', meta_omit (sig_Header s)), (''protected'', Some (AString (sig_Protected s))),
      (''signature'', Some (AString (sig_Signature s)))]"

definition signature_of_json :: "json_lib \<Rightarrow> any \<Rightarrow> card_signature jdec" where
  "signature_of_json J = jstruct (\<lambda>m.
     jbind (jfield m ''header'' None (jmap J)) (\<lambda>h.
     jbind (jfield m ''protected'' '''' jstring) (\<lambda>p.
     jbind (jfield m ''signature'' '''' jstring) (\<lambda>s.
       jret \<lparr>sig_Header = h, sig_Protected = p, sig_Signature = s\<rparr>))))"

definition zero_signature :: card_signature where
  "zero_signature = \<lparr>sig_Header = None, sig_Protected = '''', sig_Signature = ''''\<rparr>"

text \<open>The fields of a skill, which another struct may embed.\<close>

definition skill_fields :: "agent_skill \<Rightarrow> (string \<times> any option) list" where
  "skill_fields s =
     [(''description'', Some (AString (skill_Description s))), (''examples'', list_omit (map AString (skill_Examples s))),
      (''id'', Some (AString (skill_ID s))), (''inputModes'', list_omit (map AString (skill_InputModes s))),
      (''name'', Some (AString (skill_Name s))), (''outputModes'', list_omit (map AString (skill_OutputModes s))),
      (''securityRequirements'', requirements_omit (skill_SecurityRequirements s)),
      (''tags'', Some (list_or_null (map_option (map AString) (skill_Tags s))))]"

definition skill_json :: "agent_skill \<Rightarrow> any" where
  "skill_json s = obj (skill_fields s)"

definition read_skill :: "(string, any) fmap \<Rightarrow> agent_skill jdec" where
  "read_skill m =
     jbind (jfield m ''description'' '''' jstring) (\<lambda>d.
     jbind (jfield m ''examples'' [] jstrings) (\<lambda>e.
     jbind (jfield m ''id'' '''' jstring) (\<lambda>i.
     jbind (jfield m ''inputModes'' [] jstrings) (\<lambda>im.
     jbind (jfield m ''name'' '''' jstring) (\<lambda>name.
     jbind (jfield m ''outputModes'' [] jstrings) (\<lambda>om.
     jbind (jcustom m ''securityRequirements'' [] requirements_of_json) (\<lambda>req.
     jbind (jfield m ''tags'' None (jsome jstrings)) (\<lambda>tags.
       jret \<lparr>skill_Description = d, skill_Examples = e, skill_ID = i, skill_InputModes = im, skill_Name = name,
         skill_OutputModes = om, skill_SecurityRequirements = req, skill_Tags = tags\<rparr>))))))))"

definition skill_of_json :: "any \<Rightarrow> agent_skill jdec" where
  "skill_of_json = jstruct read_skill"

definition zero_skill :: agent_skill where
  "zero_skill = \<lparr>skill_Description = '''', skill_Examples = [], skill_ID = '''', skill_InputModes = [], skill_Name = '''',
     skill_OutputModes = [], skill_SecurityRequirements = [], skill_Tags = None\<rparr>"

definition agent_card_json :: "agent_card \<Rightarrow> any" where
  "agent_card_json c = obj
     [(''supportedInterfaces'', Some (list_or_null (map_option (map interface_json) (card_SupportedInterfaces c)))),
      (''capabilities'', Some (capabilities_json (card_Capabilities c))),
      (''defaultInputModes'', Some (list_or_null (map_option (map AString) (card_DefaultInputModes c)))),
      (''defaultOutputModes'', Some (list_or_null (map_option (map AString) (card_DefaultOutputModes c)))),
      (''description'', Some (AString (card_Description c))), (''documentationUrl'', str_omit (card_DocumentationURL c)),
      (''iconUrl'', str_omit (card_IconURL c)), (''name'', Some (AString (card_Name c))),
      (''provider'', map_option provider_json (card_Provider c)),
      (''securityRequirements'', requirements_omit (card_SecurityRequirements c)),
      (''securitySchemes'', schemes_omit (card_SecuritySchemes c)),
      (''signatures'', list_omit (map signature_json (slice (card_Signatures c)))),
      (''skills'', Some (list_or_null (map_option (map skill_json) (card_Skills c)))),
      (''version'', Some (AString (card_Version c)))]"

definition agent_card_of_json :: "json_lib \<Rightarrow> any \<Rightarrow> agent_card jdec" where
  "agent_card_of_json J = jstruct (\<lambda>m.
     jbind (jfield m ''supportedInterfaces'' None (jsome (jpointers interface_of_json))) (\<lambda>ifaces.
     jbind (jfield m ''capabilities'' zero_capabilities (capabilities_of_json J)) (\<lambda>caps.
     jbind (jfield m ''defaultInputModes'' None (jsome jstrings)) (\<lambda>im.
     jbind (jfield m ''defaultOutputModes'' None (jsome jstrings)) (\<lambda>om.
     jbind (jfield m ''description'' '''' jstring) (\<lambda>d.
     jbind (jfield m ''documentationUrl'' '''' jstring) (\<lambda>doc.
     jbind (jfield m ''iconUrl'' '''' jstring) (\<lambda>icon.
     jbind (jfield m ''name'' '''' jstring) (\<lambda>name.
     jbind (jfield m ''provider'' None (jsome provider_of_json)) (\<lambda>prov.
     jbind (jcustom m ''securityRequirements'' [] requirements_of_json) (\<lambda>req.
     jbind (jcustom m ''securitySchemes'' None named_schemes_of_json) (\<lambda>schemes.
     jbind (jfield m ''signatures'' None (jsome (jvalues zero_signature (signature_of_json J)))) (\<lambda>sigs.
     jbind (jfield m ''skills'' None (jsome (jvalues zero_skill skill_of_json))) (\<lambda>skills.
     jbind (jfield m ''version'' '''' jstring) (\<lambda>v.
       jret \<lparr>card_SupportedInterfaces = ifaces, card_Capabilities = caps, card_DefaultInputModes = im,
         card_DefaultOutputModes = om, card_Description = d, card_DocumentationURL = doc, card_IconURL = icon,
         card_Name = name, card_Provider = prov, card_SecurityRequirements = req, card_SecuritySchemes = schemes,
         card_Signatures = sigs, card_Skills = skills, card_Version = v\<rparr>)))))))))))))))"

definition zero_card :: agent_card where
  "zero_card = \<lparr>card_SupportedInterfaces = None, card_Capabilities = zero_capabilities, card_DefaultInputModes = None,
     card_DefaultOutputModes = None, card_Description = '''', card_DocumentationURL = '''', card_IconURL = '''',
     card_Name = '''', card_Provider = None, card_SecurityRequirements = [], card_SecuritySchemes = None,
     card_Signatures = None, card_Skills = None, card_Version = ''''\<rparr>"

text \<open>The parser of the card resolver (\<open>a2aclient/agentcard/resolver.go\<close>).\<close>

definition DefaultCardParser :: "json_lib \<Rightarrow> any \<Rightarrow> agent_card jdec" where
  "DefaultCardParser J body = jelement zero_card (agent_card_of_json J) body"

section \<open>Reading what was written\<close>

lemma jcustom_here: "k \<notin> fst ` set kvs \<Longrightarrow> jcustom (put_fields ((k, v) # kvs)) k zero dec =
    (case v of None \<Rightarrow> jret zero | Some x \<Rightarrow> dec x)"
  by (simp add: jcustom_def fmlookup_put_here del: put_fields.simps)

lemma jcustom_other: "k \<noteq> k' \<Longrightarrow> jcustom (put_fields ((k', v) # kvs)) k zero dec = jcustom (put_fields kvs) k zero dec"
  by (simp add: jcustom_def fmlookup_put_other del: put_fields.simps)

lemma jcustom_none [simp]: "jcustom fmempty k zero dec = jret zero"
  by (simp add: jcustom_def)

lemmas card_eqs = field_eqs jcustom_here jcustom_other

lemma jvalues_back:
  assumes "\<forall>x\<in>set xs. enc x \<noteq> ANil \<and> dec (enc x) = (if ok x then jret (h x) else None)"
  shows "jvalues zero dec (AArr (map enc xs)) = (if list_all ok xs then jret (map h xs) else None)"
proof -
  have "jlist_loop (\<lambda>v. if v = ANil then jret zero else dec v) (map enc xs) = (if list_all ok xs then jret (map h xs) else None)"
    using assms by (intro jlist_loop_map) auto
  then show ?thesis by simp
qed

lemma jentries_back:
  assumes "\<And>x. x |\<in>| fmran m \<Longrightarrow> dec (enc x) = jret (h x)"
  shows "jentries dec (AMap (fmmap enc m)) = jret (fmmap h m)"
proof -
  have el: "dec (enc x) = jret (h x)" if "fmlookup m k = Some x" for k x
    using assms[of x] that fmranI[of m k x] by simp
  have "fmpred (\<lambda>k v. dec v \<noteq> None) (fmmap enc m)" "fmpred (\<lambda>k v. \<not> fst (the (dec v))) (fmmap enc m)"
    using el by (auto simp: fmpred_iff jret_def)
  moreover have "fmmap (\<lambda>v. snd (the (dec v))) (fmmap enc m) = fmmap h m"
  proof (rule fmap_ext)
    fix k
    show "fmlookup (fmmap (\<lambda>v. snd (the (dec v))) (fmmap enc m)) k = fmlookup (fmmap h m) k"
      using el[of k] by (cases "fmlookup m k") (simp_all add: jret_def)
  qed
  ultimately show ?thesis by (simp add: jret_def)
qed

lemma scopes_back [simp]: "jvalue (Some (scopes_json s)) None scopes_of_json = jret s"
  using jentries_back[of _ "jelement '''' jstring" AString "\<lambda>x. x"]
  by (cases s) (simp_all add: jvalue_def scopes_json_def scopes_of_json_def jsome_def jelement_def fmap.map_ident)

lemma strings_or_null [simp]: "jvalue (Some (list_or_null (map_option (map AString) v))) None (jsome jstrings) = jret v"
  by (cases v) (simp_all add: jvalue_def list_or_null_def jsome_def del: jstrings.simps)

lemma jvalue_bool [simp]: "jvalue (Some (ABool b)) z jbool = jret b"
  by (simp add: jvalue_def)

lemma jvalue_optional:
  assumes "\<And>x. enc x \<noteq> ANil" "\<And>x. dec (enc x) = jret (h x)"
  shows "jvalue (map_option enc v) None (jsome dec) = jret (map_option h v)"
  using assms by (cases v) (simp_all add: jvalue_def jsome_def)

lemma flow_backs:
  "auth_code_of_json (auth_code_json a) = jret a"
  "client_credentials_of_json (client_credentials_json c) = jret c"
  "implicit_of_json (implicit_json i) = jret i"
  "password_of_json (password_json p) = jret p"
  "device_code_of_json (device_code_json d) = jret d"
proof -
  show "auth_code_of_json (auth_code_json a) = jret a"
    by (cases a) (simp add: auth_code_of_json_def auth_code_json_def card_eqs)
  show "client_credentials_of_json (client_credentials_json c) = jret c"
    by (cases c) (simp add: client_credentials_of_json_def client_credentials_json_def card_eqs)
  show "implicit_of_json (implicit_json i) = jret i"
    by (cases i) (simp add: implicit_of_json_def implicit_json_def card_eqs)
  show "password_of_json (password_json p) = jret p"
    by (cases p) (simp add: password_of_json_def password_json_def card_eqs)
  show "device_code_of_json (device_code_json d) = jret d"
    by (cases d) (simp add: device_code_of_json_def device_code_json_def card_eqs)
qed

lemma flow_not_nil [simp]: "auth_code_json a \<noteq> ANil" "client_credentials_json c \<noteq> ANil" "implicit_json i \<noteq> ANil"
  "password_json p \<noteq> ANil" "device_code_json d \<noteq> ANil"
  by (simp_all add: auth_code_json_def client_credentials_json_def implicit_json_def password_json_def device_code_json_def)

lemma flows_back: "flows_of_json (flows_json w) = jret w"
  using jvalue_optional[of auth_code_json auth_code_of_json "\<lambda>x. x"]
    jvalue_optional[of client_credentials_json client_credentials_of_json "\<lambda>x. x"]
    jvalue_optional[of implicit_json implicit_of_json "\<lambda>x. x"] jvalue_optional[of password_json password_of_json "\<lambda>x. x"]
    jvalue_optional[of device_code_json device_code_of_json "\<lambda>x. x"]
  by (cases w) (simp add: flows_of_json_def flows_json_def card_eqs flow_backs option.map_ident)

lemma scheme_backs:
  "api_key_of_json (api_key_json a) = jret a"
  "http_auth_of_json (http_auth_json h) = jret h"
  "openid_of_json (openid_json oi) = jret oi"
  "mutual_tls_of_json (mutual_tls_json t) = jret t"
proof -
  show "api_key_of_json (api_key_json a) = jret a"
    by (cases a) (simp add: api_key_of_json_def api_key_json_def card_eqs)
  show "http_auth_of_json (http_auth_json h) = jret h"
    by (cases h) (simp add: http_auth_of_json_def http_auth_json_def card_eqs)
  show "openid_of_json (openid_json oi) = jret oi"
    by (cases oi) (simp add: openid_of_json_def openid_json_def card_eqs)
  show "mutual_tls_of_json (mutual_tls_json t) = jret t"
    by (cases t) (simp add: mutual_tls_of_json_def mutual_tls_json_def card_eqs)
qed

lemma scheme_not_nil [simp]: "api_key_json a \<noteq> ANil" "http_auth_json h \<noteq> ANil" "openid_json oi \<noteq> ANil"
  "mutual_tls_json t \<noteq> ANil" "oauth2_wrapper_json w \<noteq> ANil" "scheme_wrapper_json s \<noteq> ANil" "flows_json f \<noteq> ANil"
  by (simp_all add: api_key_json_def http_auth_json_def openid_json_def mutual_tls_json_def oauth2_wrapper_json_def
      scheme_wrapper_json_def flows_json_def)

lemma jvalue_flows: "jvalue (Some (flows_json f)) z flows_of_json = jret f"
  by (simp add: jvalue_def flows_back)

lemma oauth2_wrapper_back: "oauth2_wrapper_of_json (oauth2_wrapper_json w) = jret w"
  by (cases w) (simp add: oauth2_wrapper_of_json_def oauth2_wrapper_json_def card_eqs jvalue_flows)

lemma scheme_wrapper_back: "scheme_wrapper_of_json (scheme_wrapper_json w) = jret w"
  using jvalue_optional[of api_key_json api_key_of_json "\<lambda>x. x"] jvalue_optional[of http_auth_json http_auth_of_json "\<lambda>x. x"]
    jvalue_optional[of openid_json openid_of_json "\<lambda>x. x"] jvalue_optional[of mutual_tls_json mutual_tls_of_json "\<lambda>x. x"]
    jvalue_optional[of oauth2_wrapper_json oauth2_wrapper_of_json "\<lambda>x. x"]
  by (cases w) (simp add: scheme_wrapper_of_json_def scheme_wrapper_json_def card_eqs scheme_backs oauth2_wrapper_back option.map_ident)

lemma named_schemes_back:
  assumes "json_encodable (named_schemes_json s)"
  shows "named_schemes_of_json (named_schemes_json s) = jret (Some (gm_fmap s))"
proof -
  obtain w where w: "NamedSecuritySchemes_MarshalJSON s = Inr w"
    using assms by (cases "NamedSecuritySchemes_MarshalJSON s") (auto simp: named_schemes_json_def)
  have "jentries (jelement empty_scheme scheme_wrapper_of_json) (AMap (fmmap scheme_wrapper_json w)) = jret (fmmap (\<lambda>x. x) w)"
    by (rule jentries_back) (simp add: scheme_wrapper_back jelement_def)
  then show ?thesis
    by (simp add: named_schemes_of_json_def named_schemes_json_def w fmap.map_ident schemes_json_roundtrip[OF w])
qed

lemma requirements_back [simp]:
  "(case requirements_omit rs of None \<Rightarrow> jret [] | Some x \<Rightarrow> requirements_of_json x) = jret rs"
  by (simp add: requirements_omit_def requirements_of_json_def jopt_def requirements_json_roundtrip jret_def)

definition wire_extension :: "json_lib \<Rightarrow> agent_extension \<Rightarrow> agent_extension" where
  "wire_extension J e = e\<lparr>ext_Params := wire_meta J (ext_Params e)\<rparr>"

definition wire_capabilities :: "json_lib \<Rightarrow> agent_capabilities \<Rightarrow> agent_capabilities" where
  "wire_capabilities J c = c\<lparr>cap_Extensions := map (wire_extension J) (cap_Extensions c)\<rparr>"

definition wire_signature :: "json_lib \<Rightarrow> card_signature \<Rightarrow> card_signature" where
  "wire_signature J s = s\<lparr>sig_Header := wire_meta J (sig_Header s)\<rparr>"

text \<open>What a card is after a trip through JSON: empty signatures and schemes are nil.\<close>

definition wire_card :: "json_lib \<Rightarrow> agent_card \<Rightarrow> agent_card" where
  "wire_card J c = c\<lparr>card_Capabilities := wire_capabilities J (card_Capabilities c),
     card_SecuritySchemes := (if gm_len (card_SecuritySchemes c) = 0 then None else card_SecuritySchemes c),
     card_Signatures := (if slice (card_Signatures c) = [] then None else Some (map (wire_signature J) (slice (card_Signatures c))))\<rparr>"

lemma extension_back: "extension_of_json J (extension_json e) = jret (wire_extension J e)"
  by (cases e) (simp add: extension_of_json_def extension_json_def card_eqs wire_extension_def)

lemma values_omit:
  assumes "\<And>x. enc x \<noteq> ANil \<and> dec (enc x) = jret (h x)"
  shows "jvalue (list_omit (map enc xs)) [] (jvalues zero dec) = jret (map h xs)"
  using jvalues_back[of xs enc dec "\<lambda>x. True" h zero] assms by (simp add: list_omit_def jvalue_def list_all_iff)

lemma values_omit_some:
  assumes "\<And>x. enc x \<noteq> ANil \<and> dec (enc x) = jret (h x)"
  shows "jvalue (list_omit (map enc xs)) None (jsome (jvalues zero dec)) = jret (if xs = [] then None else Some (map h xs))"
  using jvalues_back[of xs enc dec "\<lambda>x. True" h zero] assms by (simp add: list_omit_def jvalue_def list_all_iff jsome_def)

lemma values_or_null:
  assumes "\<And>x. enc x \<noteq> ANil \<and> dec (enc x) = jret (h x)"
  shows "jvalue (Some (list_or_null (map_option (map enc) v))) None (jsome (jvalues zero dec)) = jret (map_option (map h) v)"
  using jvalues_back[of "the v" enc dec "\<lambda>x. True" h zero] assms
  by (cases v) (simp_all add: list_or_null_def jvalue_def list_all_iff jsome_def)

lemma pointers_or_null:
  assumes "\<And>x. enc x \<noteq> ANil \<and> dec (enc x) = jret (h x)"
  shows "jvalue (Some (list_or_null (map_option (map enc) v))) None (jsome (jpointers dec)) = jret (map_option (map h) v)"
  using jpointers_back[of "the v" enc dec "\<lambda>x. True" h] assms
  by (cases v) (simp_all add: list_or_null_def jvalue_def list_all_iff jsome_def del: jpointers.simps)

lemma card_part_not_nil [simp]: "extension_json e \<noteq> ANil" "capabilities_json c \<noteq> ANil" "interface_json i \<noteq> ANil"
  "provider_json p \<noteq> ANil" "signature_json s \<noteq> ANil" "skill_json k \<noteq> ANil"
  by (simp_all add: extension_json_def capabilities_json_def interface_json_def provider_json_def signature_json_def skill_json_def)

lemma capabilities_back: "capabilities_of_json J (capabilities_json c) = jret (wire_capabilities J c)"
  using values_omit[of extension_json "extension_of_json J" "wire_extension J" _ zero_extension]
  by (cases c) (simp add: capabilities_of_json_def capabilities_json_def card_eqs wire_capabilities_def extension_back)

lemma jvalue_capabilities: "jvalue (Some (capabilities_json c)) z (capabilities_of_json J) = jret (wire_capabilities J c)"
  by (simp add: jvalue_def capabilities_back)

lemma interface_back: "interface_of_json (interface_json i) = jret i"
  by (cases i) (simp add: interface_of_json_def interface_json_def card_eqs)

lemma provider_json_back: "provider_of_json (provider_json p) = jret p"
  by (cases p) (simp add: provider_of_json_def provider_json_def card_eqs)

lemma signature_back: "signature_of_json J (signature_json s) = jret (wire_signature J s)"
  by (cases s) (simp add: signature_of_json_def signature_json_def card_eqs wire_signature_def)

lemma skill_back: "skill_of_json (skill_json s) = jret s"
  by (cases s) (simp add: skill_of_json_def skill_json_def read_skill_def skill_fields_def card_eqs)

lemma schemes_omit_back:
  assumes "pred_option json_encodable (schemes_omit s)"
  shows "(case schemes_omit s of None \<Rightarrow> jret None | Some x \<Rightarrow> named_schemes_of_json x) =
    jret (if gm_len s = 0 then None else s)"
  using named_schemes_back[of s] assms gm_len_keys[of s] by (cases s) (auto simp: gm_keys_def schemes_omit_def)

lemma card_back:
  assumes "json_encodable (agent_card_json c)"
  shows "agent_card_of_json J (agent_card_json c) = jret (wire_card J c)"
proof -
  have schemes: "pred_option json_encodable (schemes_omit (card_SecuritySchemes c))"
    using assms unfolding agent_card_json_def by simp
  then show ?thesis
    using pointers_or_null[of interface_json interface_of_json "\<lambda>x. x"] jvalue_optional[of provider_json provider_of_json "\<lambda>x. x"]
      values_omit_some[of signature_json "signature_of_json J" "wire_signature J" _ zero_signature]
      values_or_null[of skill_json skill_of_json "\<lambda>x. x" _ zero_skill]
    by (cases c) (simp add: agent_card_of_json_def agent_card_json_def card_eqs interface_back provider_json_back signature_back
        skill_back capabilities_back jvalue_capabilities schemes_omit_back
        wire_card_def option.map_ident)
qed

lemma card_not_nil [simp]: "agent_card_json c \<noteq> ANil"
  by (simp add: agent_card_json_def)

text \<open>
  A card that is served as JSON is the card that the resolver's parser reads: only empty
  signatures and schemes become nil, and the parameters of extensions and the headers of signatures
  get their decoded form.
\<close>

theorem card_json_survives:
  assumes "json_marshal (agent_card_json c) = Inr doc"
  shows "DefaultCardParser J doc = jret (wire_card J c)"
  using assms card_back[of c J] by (auto simp: DefaultCardParser_def jelement_def json_marshal_def split: if_splits)

lemma requirements_encodable [simp]: "pred_option json_encodable (requirements_omit rs)"
proof -
  have "json_encodable (securityScopeList_MarshalJSON ss)" for ss
    by (auto simp: securityScopeList_MarshalJSON_def encodable_map_upd_iff list_all_iff)
  then have "encodable_map (fmmap securityScopeList_MarshalJSON r)" for r
    by (auto simp: encodable_map_def fmpred_iff)
  then show ?thesis
    by (simp add: requirements_omit_def SecurityRequirementsOptions_MarshalJSON_def encodable_map_upd_iff list_all_iff)
qed

section \<open>A concrete card\<close>

definition keyed_card :: agent_card where
  "keyed_card = zero_card\<lparr>card_Name := ''agent'',
     card_SupportedInterfaces := Some [NewAgentInterface ''https://x'' TransportProtocolJSONRPC],
     card_SecuritySchemes := Some (fmupd ''key'' (APIKey \<lparr>aks_Description = '''', aks_Location = ''header'', aks_Name = ''k''\<rparr>) fmempty),
     card_SecurityRequirements := [fmupd ''key'' [] fmempty], card_Signatures := Some []\<rparr>"

lemma keyed_wire: "wire_card J keyed_card = keyed_card\<lparr>card_Signatures := None\<rparr>"
proof -
  have "gm_len (card_SecuritySchemes keyed_card) \<noteq> 0" by (simp add: keyed_card_def)
  then show ?thesis
    by (simp add: wire_card_def) (simp add: keyed_card_def zero_card_def wire_capabilities_def zero_capabilities_def)
qed

lemma card_json_survives_witness:
  "\<exists>doc. json_marshal (agent_card_json keyed_card) = Inr doc \<and>
    DefaultCardParser unary_ms doc = jret (keyed_card\<lparr>card_Signatures := None\<rparr>)"
proof -
  let ?s = "card_SecuritySchemes keyed_card"
  have "fmap_all wrap_scheme (gm_fmap ?s) = Inr (fmupd ''key'' (empty_scheme\<lparr>sw_APIKey :=
      Some \<lparr>aks_Description = '''', aks_Location = ''header'', aks_Name = ''k''\<rparr>\<rparr>) fmempty)"
    by (auto simp: fmap_all_def keyed_card_def fmpred_iff intro!: fmap_ext split: if_splits)
  then have "json_encodable (named_schemes_json ?s)"
    by (auto simp: named_schemes_json_def NamedSecuritySchemes_MarshalJSON_def encodable_map_def fmpred_iff
        scheme_wrapper_json_def empty_scheme_def api_key_json_def str_omit_def split: if_splits)
  then have "json_encodable (agent_card_json keyed_card)"
    by (simp add: agent_card_json_def keyed_card_def zero_card_def zero_capabilities_def list_or_null_def interface_json_def
        str_omit_def schemes_omit_def capabilities_json_def list_omit_def bool_omit_def NewAgentInterface_def)
  then have "json_marshal (agent_card_json keyed_card) = Inr (agent_card_json keyed_card)"
    by (simp add: json_marshal_def)
  then show ?thesis
    using card_json_survives[of keyed_card "agent_card_json keyed_card"] keyed_wire by auto
qed

end
