(* ===== verification/LegacyConversions.thy ===== *)
theory LegacyConversions
  imports JsonRpcTransport
begin

text \<open>
  Protocol version 0.3 (\<open>a2acompat/a2av0/conversions.go\<close>): the conversions between the data model and
  that of the older module, in both directions. The structs of the older module are records with the
  fields that the conversions read and write; the texts of its constants are an argument. Conversions
  whose error is always nil return no error. A nil pointer is converted to a nil pointer; slices of
  pointers have no nil elements (see \<open>Core\<close>).
\<close>

section \<open>The older data model\<close>

record legacy_consts =
  ls_AuthRequired :: string
  ls_Canceled :: string
  ls_Completed :: string
  ls_Failed :: string
  ls_InputRequired :: string
  ls_Rejected :: string
  ls_Submitted :: string
  ls_Working :: string
  ls_Unspecified :: string
  lr_Agent :: string
  lr_User :: string
  lr_Unspecified :: string

record file_meta =
  fm_MimeType :: string
  fm_Name :: string

text \<open>\<open>OtherFile\<close> and \<open>OtherPart\<close> stand for values of types that the type switches do not name.\<close>

datatype legacy_file = FileBytes file_meta string | FileURI file_meta string | OtherFile string

datatype legacy_part =
    TextPart string metadata
  | DataPart "any gomap" metadata
  | FilePart legacy_file metadata
  | OtherPart string metadata

record legacy_message =
  lmsg_ID :: string
  lmsg_ContextID :: string
  lmsg_Extensions :: "string list"
  lmsg_Metadata :: metadata
  lmsg_Parts :: "legacy_part list"
  lmsg_ReferenceTasks :: "string list"
  lmsg_Role :: string
  lmsg_TaskID :: string

record legacy_status =
  lts_Message :: "legacy_message option"
  lts_State :: string
  lts_Timestamp :: "gotime option"

record legacy_artifact =
  lart_ID :: string
  lart_Description :: string
  lart_Extensions :: "string list"
  lart_Metadata :: metadata
  lart_Name :: string
  lart_Parts :: "legacy_part list"

record legacy_task =
  ltask_ID :: string
  ltask_Artifacts :: "legacy_artifact list"
  ltask_ContextID :: string
  ltask_History :: "legacy_message list"
  ltask_Metadata :: metadata
  ltask_Status :: legacy_status

record legacy_status_event =
  lse_ContextID :: string
  lse_Final :: bool
  lse_Status :: legacy_status
  lse_TaskID :: string
  lse_Metadata :: metadata

record legacy_artifact_event =
  lae_Append :: bool
  lae_Artifact :: "legacy_artifact option"
  lae_ContextID :: string
  lae_LastChunk :: bool
  lae_TaskID :: string
  lae_Metadata :: metadata

datatype legacy_event =
    LegacyMessage legacy_message
  | LegacyTask legacy_task
  | LegacyStatus legacy_status_event
  | LegacyArtifact legacy_artifact_event
  | LegacyOther string

section \<open>Headers\<close>

text \<open>The headers in the order of a range loop; the last of two entries with one key wins.\<close>

definition legacyExtensionsKey :: string where
  "legacyExtensionsKey = ''x-'' @ to_lower SvcParamExtensions"

definition ToServiceParams :: "(string \<times> string list) list \<Rightarrow> service_params" where
  "ToServiceParams headers =
     foldl (\<lambda>m (k, v). fmupd (if to_lower k = legacyExtensionsKey then to_lower SvcParamExtensions else to_lower k) v m)
       fmempty headers"

definition FromServiceParams :: "(string \<times> string list) list \<Rightarrow> (string, string list) fmap" where
  "FromServiceParams params =
     foldl (\<lambda>m (k, vals). fmupd (if to_lower k = to_lower SvcParamExtensions then ''x-'' @ to_lower k else to_lower k) vals m)
       fmempty params"

section \<open>States and roles\<close>

definition v1ToLegacyTaskState :: "legacy_consts \<Rightarrow> (task_state \<times> string) list" where
  "v1ToLegacyTaskState L =
     [(TaskStateAuthRequired, ls_AuthRequired L), (TaskStateCanceled, ls_Canceled L), (TaskStateCompleted, ls_Completed L),
      (TaskStateFailed, ls_Failed L), (TaskStateInputRequired, ls_InputRequired L), (TaskStateRejected, ls_Rejected L),
      (TaskStateSubmitted, ls_Submitted L), (TaskStateWorking, ls_Working L)]"

definition coreToCompatRole :: "legacy_consts \<Rightarrow> (message_role \<times> string) list" where
  "coreToCompatRole L =
     [(MessageRoleAgent, lr_Agent L), (MessageRoleUser, lr_User L), (MessageRoleUnspecified, lr_Unspecified L)]"

text \<open>The inverse tables that \<open>init\<close> fills.\<close>

definition inverse_table :: "('a \<times> 'b) list \<Rightarrow> ('b \<times> 'a) list" where
  "inverse_table t = map (\<lambda>(k, v). (v, k)) t"

definition table_lookup :: "('a \<times> 'b) list \<Rightarrow> 'b \<Rightarrow> 'a \<Rightarrow> 'b" where
  "table_lookup t otherwise k = (case map_of t k of Some mapped \<Rightarrow> mapped | None \<Rightarrow> otherwise)"

definition toCompatRole :: "legacy_consts \<Rightarrow> message_role \<Rightarrow> string" where
  "toCompatRole L r = table_lookup (coreToCompatRole L) (lr_Unspecified L) r"

definition fromCompatRole :: "legacy_consts \<Rightarrow> string \<Rightarrow> message_role" where
  "fromCompatRole L r = table_lookup (inverse_table (coreToCompatRole L)) MessageRoleUnspecified r"

definition ToV1TaskState :: "legacy_consts \<Rightarrow> string \<Rightarrow> task_state" where
  "ToV1TaskState L s = table_lookup (inverse_table (v1ToLegacyTaskState L)) TaskStateUnspecified s"

definition FromV1TaskState :: "legacy_consts \<Rightarrow> task_state \<Rightarrow> string" where
  "FromV1TaskState L s = table_lookup (v1ToLegacyTaskState L) (ls_Unspecified L) s"

section \<open>Parts\<close>

definition compat_key :: string where
  [go_consts]: "compat_key = ''data_part_compat''"

definition plain_part :: "part_content \<Rightarrow> metadata \<Rightarrow> part" where
  "plain_part c md = \<lparr>part_Content = Some c, part_Filename = '''', part_MediaType = '''', part_Metadata = md\<rparr>"

text \<open>\<open>base64.StdEncoding\<close> is that of \<open>CoreJson\<close>. A nil map in an \<open>any\<close> is the empty map.\<close>

fun ToV1Part :: "legacy_part \<Rightarrow> part" where
  "ToV1Part (TextPart s md) = plain_part (Text s) md"
| "ToV1Part (DataPart d md) =
     (if gm_lookup md compat_key = Some (ABool True)
      then plain_part (Data (case gm_lookup d ''value'' of None \<Rightarrow> ANil | Some v \<Rightarrow> v)) (map_option (fmdrop compat_key) md)
      else plain_part (Data (AMap (case d of None \<Rightarrow> fmempty | Some m \<Rightarrow> m))) md)"
| "ToV1Part (FilePart (FileBytes f bytes) md) =
     \<lparr>part_Content = Some (Raw (case jbytes (AString bytes) of Some (b, raw) \<Rightarrow> raw | None \<Rightarrow> bytes)),
      part_Filename = fm_Name f, part_MediaType = fm_MimeType f, part_Metadata = md\<rparr>"
| "ToV1Part (FilePart (FileURI f uri) md) =
     \<lparr>part_Content = Some (URL uri), part_Filename = fm_Name f, part_MediaType = fm_MimeType f, part_Metadata = md\<rparr>"
| "ToV1Part (FilePart (OtherFile t) md) = plain_part (Data (AOther t)) md"
| "ToV1Part (OtherPart t md) = plain_part (Data (AOther t)) md"

text \<open>A value that is no map of dynamic values is wrapped into one. A part without content is data too.\<close>

definition FromV1Part :: "part \<Rightarrow> legacy_part" where
  "FromV1Part p =
     (let meta = \<lparr>fm_MimeType = part_MediaType p, fm_Name = part_Filename p\<rparr>; md = part_Metadata p
      in case part_Content p of
           Some (Text s) \<Rightarrow> TextPart s md
         | Some (Data (AMap m)) \<Rightarrow> DataPart (Some m) md
         | Some (Data v) \<Rightarrow> DataPart (Some (fmupd ''value'' v fmempty)) (setMeta md compat_key (ABool True))
         | Some (Raw c) \<Rightarrow> FilePart (FileBytes meta (bytes_text c)) md
         | Some (URL u) \<Rightarrow> FilePart (FileURI meta u) md
         | None \<Rightarrow> DataPart (Some (fmupd ''value'' (AOther ''*a2a.Part'') fmempty)) md)"

definition ToV1Parts :: "legacy_part list \<Rightarrow> part list" where
  "ToV1Parts parts = map ToV1Part parts"

definition FromV1Parts :: "part list \<Rightarrow> legacy_part list" where
  "FromV1Parts parts = map FromV1Part parts"

section \<open>Messages, artifacts, tasks, events\<close>

definition ToV1Message :: "legacy_consts \<Rightarrow> legacy_message \<Rightarrow> message" where
  "ToV1Message L m =
     \<lparr>msg_ID = lmsg_ID m, msg_ContextID = lmsg_ContextID m, msg_Extensions = lmsg_Extensions m, msg_Metadata = lmsg_Metadata m,
      msg_Parts = ToV1Parts (lmsg_Parts m), msg_ReferenceTasks = lmsg_ReferenceTasks m,
      msg_Role = fromCompatRole L (lmsg_Role m), msg_TaskID = lmsg_TaskID m\<rparr>"

definition FromV1Message :: "legacy_consts \<Rightarrow> message \<Rightarrow> legacy_message" where
  "FromV1Message L m =
     \<lparr>lmsg_ID = msg_ID m, lmsg_ContextID = msg_ContextID m, lmsg_Extensions = msg_Extensions m, lmsg_Metadata = msg_Metadata m,
      lmsg_Parts = FromV1Parts (msg_Parts m), lmsg_ReferenceTasks = msg_ReferenceTasks m,
      lmsg_Role = toCompatRole L (msg_Role m), lmsg_TaskID = msg_TaskID m\<rparr>"

definition to_v1_status :: "legacy_consts \<Rightarrow> legacy_status \<Rightarrow> task_status" where
  "to_v1_status L s =
     \<lparr>ts_Message = map_option (ToV1Message L) (lts_Message s), ts_State = ToV1TaskState L (lts_State s), ts_Timestamp = lts_Timestamp s\<rparr>"

definition from_v1_status :: "legacy_consts \<Rightarrow> task_status \<Rightarrow> legacy_status" where
  "from_v1_status L s =
     \<lparr>lts_Message = map_option (FromV1Message L) (ts_Message s), lts_State = FromV1TaskState L (ts_State s), lts_Timestamp = ts_Timestamp s\<rparr>"

definition ToV1Artifact :: "legacy_artifact \<Rightarrow> artifact" where
  "ToV1Artifact a =
     \<lparr>art_ID = lart_ID a, art_Description = lart_Description a, art_Extensions = lart_Extensions a, art_Metadata = lart_Metadata a,
      art_Name = lart_Name a, art_Parts = ToV1Parts (lart_Parts a)\<rparr>"

definition FromV1Artifact :: "artifact \<Rightarrow> legacy_artifact" where
  "FromV1Artifact a =
     \<lparr>lart_ID = art_ID a, lart_Description = art_Description a, lart_Extensions = art_Extensions a, lart_Metadata = art_Metadata a,
      lart_Name = art_Name a, lart_Parts = FromV1Parts (art_Parts a)\<rparr>"

definition ToV1Task :: "legacy_consts \<Rightarrow> legacy_task \<Rightarrow> task" where
  "ToV1Task L t =
     \<lparr>task_ID = ltask_ID t, task_Artifacts = map ToV1Artifact (ltask_Artifacts t), task_ContextID = ltask_ContextID t,
      task_History = map (ToV1Message L) (ltask_History t), task_Metadata = ltask_Metadata t,
      task_Status = to_v1_status L (ltask_Status t)\<rparr>"

definition FromV1Task :: "legacy_consts \<Rightarrow> task \<Rightarrow> legacy_task" where
  "FromV1Task L t =
     \<lparr>ltask_ID = task_ID t, ltask_Artifacts = map FromV1Artifact (task_Artifacts t), ltask_ContextID = task_ContextID t,
      ltask_History = map (FromV1Message L) (task_History t), ltask_Metadata = task_Metadata t,
      ltask_Status = from_v1_status L (task_Status t)\<rparr>"

definition ToV1TaskStatusUpdateEvent :: "legacy_consts \<Rightarrow> legacy_status_event \<Rightarrow> status_event" where
  "ToV1TaskStatusUpdateEvent L e =
     \<lparr>se_ContextID = lse_ContextID e, se_Status = to_v1_status L (lse_Status e), se_TaskID = lse_TaskID e, se_Metadata = lse_Metadata e\<rparr>"

definition FromV1TaskStatusUpdateEvent :: "legacy_consts \<Rightarrow> status_event \<Rightarrow> legacy_status_event" where
  "FromV1TaskStatusUpdateEvent L e =
     (let state = ts_State (se_Status e)
      in \<lparr>lse_ContextID = se_ContextID e, lse_Final = (Terminal state \<or> state = TaskStateInputRequired),
       lse_Status = from_v1_status L (se_Status e), lse_TaskID = se_TaskID e, lse_Metadata = se_Metadata e\<rparr>)"

text \<open>An event without its artifact becomes an event with a nil one (see \<open>ProtoTasks\<close>).\<close>

definition ToV1TaskArtifactUpdateEvent :: "legacy_artifact_event \<Rightarrow> decoded_event" where
  "ToV1TaskArtifactUpdateEvent e =
     (case lae_Artifact e of
        None \<Rightarrow> NilArtifact (lae_TaskID e) (lae_ContextID e) (lae_Append e) (lae_LastChunk e) (lae_Metadata e)
      | Some a \<Rightarrow> Whole (EArtifact \<lparr>ae_Append = lae_Append e, ae_Artifact = ToV1Artifact a, ae_ContextID = lae_ContextID e,
          ae_LastChunk = lae_LastChunk e, ae_TaskID = lae_TaskID e, ae_Metadata = lae_Metadata e\<rparr>))"

definition FromV1TaskArtifactUpdateEvent :: "artifact_event \<Rightarrow> legacy_artifact_event" where
  "FromV1TaskArtifactUpdateEvent e =
     \<lparr>lae_Append = ae_Append e, lae_Artifact = Some (FromV1Artifact (ae_Artifact e)), lae_ContextID = ae_ContextID e,
      lae_LastChunk = ae_LastChunk e, lae_TaskID = ae_TaskID e, lae_Metadata = ae_Metadata e\<rparr>"

text \<open>The task of an event is read to the address \<open>a\<close>. \<open>None\<close> is the nil event.\<close>

definition ToV1Event :: "legacy_consts \<Rightarrow> addr \<Rightarrow> legacy_event option \<Rightarrow> go_error + decoded_event option" where
  "ToV1Event L a e =
     (case e of
        None \<Rightarrow> Inr None
      | Some (LegacyMessage m) \<Rightarrow> Inr (Some (Whole (EMessage (ToV1Message L m))))
      | Some (LegacyTask t) \<Rightarrow> Inr (Some (Whole (ETask a (ToV1Task L t))))
      | Some (LegacyStatus u) \<Rightarrow> Inr (Some (Whole (EStatus (ToV1TaskStatusUpdateEvent L u))))
      | Some (LegacyArtifact u) \<Rightarrow> Inr (Some (ToV1TaskArtifactUpdateEvent u))
      | Some (LegacyOther t) \<Rightarrow> Inl (Errorf ''unknown legacy event kind %T'' []))"

definition FromV1Event :: "legacy_consts \<Rightarrow> event option \<Rightarrow> legacy_event option" where
  "FromV1Event L e =
     (case e of
        None \<Rightarrow> None
      | Some (EMessage m) \<Rightarrow> Some (LegacyMessage (FromV1Message L m))
      | Some (ETask a t) \<Rightarrow> Some (LegacyTask (FromV1Task L t))
      | Some (EStatus u) \<Rightarrow> Some (LegacyStatus (FromV1TaskStatusUpdateEvent L u))
      | Some (EArtifact u) \<Rightarrow> Some (LegacyArtifact (FromV1TaskArtifactUpdateEvent u)))"

section \<open>Push configurations\<close>

record legacy_auth =
  lpa_Credentials :: string
  lpa_Schemes :: "string list"

record legacy_push =
  lpc_ID :: string
  lpc_Token :: string
  lpc_URL :: string
  lpc_Auth :: "legacy_auth option"

record legacy_task_push =
  ltp_Config :: legacy_push
  ltp_TaskID :: string

definition ToV1PushConfig :: "legacy_task_push \<Rightarrow> push_config" where
  "ToV1PushConfig c =
     (let config = ltp_Config c
      in \<lparr>pc_Tenant = '''', pc_TaskID = ltp_TaskID c, pc_ID = lpc_ID config,
          pc_Auth = map_option (\<lambda>auth. \<lparr>pa_Credentials = lpa_Credentials auth,
            pa_Scheme = (case lpa_Schemes auth of [] \<Rightarrow> '''' | s # ss \<Rightarrow> s)\<rparr>) (lpc_Auth config),
          pc_Token = lpc_Token config, pc_URL = lpc_URL config\<rparr>)"

definition FromV1PushConfig :: "push_config \<Rightarrow> legacy_task_push" where
  "FromV1PushConfig c =
     \<lparr>ltp_Config = \<lparr>lpc_ID = pc_ID c, lpc_Token = pc_Token c, lpc_URL = pc_URL c,
        lpc_Auth = map_option (\<lambda>auth. \<lparr>lpa_Credentials = pa_Credentials auth, lpa_Schemes = [pa_Scheme auth]\<rparr>) (pc_Auth c)\<rparr>,
      ltp_TaskID = pc_TaskID c\<rparr>"

definition ToV1PushConfigs :: "legacy_task_push list \<Rightarrow> push_config list" where
  "ToV1PushConfigs cs = map ToV1PushConfig cs"

definition FromV1PushConfigs :: "push_config list \<Rightarrow> legacy_task_push list" where
  "FromV1PushConfigs cs = map FromV1PushConfig cs"

section \<open>Requests\<close>

record legacy_query =
  lq_ID :: string
  lq_HistoryLength :: "int option"

record legacy_id =
  lid_ID :: string
  lid_Metadata :: metadata

record legacy_send_config =
  lsc_AcceptedOutputModes :: "string list"
  lsc_Blocking :: "bool option"
  lsc_HistoryLength :: "int option"
  lsc_PushConfig :: "legacy_push option"

record legacy_send =
  lsp_Message :: "legacy_message option"
  lsp_Config :: "legacy_send_config option"
  lsp_Metadata :: metadata

record legacy_push_params =
  lpp_TaskID :: string
  lpp_ConfigID :: string

record legacy_list =
  llr_ContextID :: string
  llr_Status :: string
  llr_PageSize :: int
  llr_PageToken :: string
  llr_HistoryLength :: int
  llr_LastUpdatedAfter :: "gotime option"
  llr_IncludeArtifacts :: bool

record legacy_list_response =
  llp_Tasks :: "legacy_task list"
  llp_TotalSize :: int
  llp_PageSize :: int
  llp_NextPageToken :: string

definition ToV1GetTaskRequest :: "legacy_query \<Rightarrow> get_request" where
  "ToV1GetTaskRequest q = \<lparr>get_Tenant = '''', get_ID = lq_ID q, get_HistoryLength = lq_HistoryLength q\<rparr>"

definition FromV1GetTaskRequest :: "get_request \<Rightarrow> legacy_query" where
  "FromV1GetTaskRequest req = \<lparr>lq_ID = get_ID req, lq_HistoryLength = get_HistoryLength req\<rparr>"

definition ToV1CancelTaskRequest :: "legacy_id \<Rightarrow> cancel_request" where
  "ToV1CancelTaskRequest q = \<lparr>cancel_Tenant = '''', cancel_ID = lid_ID q, cancel_Metadata = lid_Metadata q\<rparr>"

definition FromV1CancelTaskRequest :: "cancel_request \<Rightarrow> legacy_id" where
  "FromV1CancelTaskRequest req = \<lparr>lid_ID = cancel_ID req, lid_Metadata = cancel_Metadata req\<rparr>"

text \<open>
  \<open>None\<close> is the panic of \<open>req.Message.TaskID\<close> for a push configuration beside a message that is nil.
\<close>

definition ToV1SendMessageRequest :: "legacy_consts \<Rightarrow> legacy_send \<Rightarrow> send_request option" where
  "ToV1SendMessageRequest L p =
     (let msg = map_option (ToV1Message L) (lsp_Message p);
          req = \<lparr>req_Tenant = '''', req_Config = None, req_Message = msg, req_Metadata = lsp_Metadata p\<rparr>
      in case lsp_Config p of
           None \<Rightarrow> Some req
         | Some c \<Rightarrow>
             (let config = \<lparr>cfg_AcceptedOutputModes = lsc_AcceptedOutputModes c,
                    cfg_ReturnImmediately = (case lsc_Blocking c of None \<Rightarrow> False | Some b \<Rightarrow> \<not> b),
                    cfg_HistoryLength = lsc_HistoryLength c, cfg_PushConfig = None\<rparr>
              in case lsc_PushConfig c of
                   None \<Rightarrow> Some (req\<lparr>req_Config := Some config\<rparr>)
                 | Some push \<Rightarrow>
                     (case msg of
                        None \<Rightarrow> None
                      | Some m \<Rightarrow> Some (req\<lparr>req_Config := Some (config\<lparr>cfg_PushConfig :=
                          Some (ToV1PushConfig \<lparr>ltp_Config = push, ltp_TaskID = msg_TaskID m\<rparr>)\<rparr>)\<rparr>))))"

definition FromV1SendMessageRequest :: "legacy_consts \<Rightarrow> send_request \<Rightarrow> legacy_send" where
  "FromV1SendMessageRequest L req =
     \<lparr>lsp_Message = map_option (FromV1Message L) (req_Message req),
      lsp_Config = map_option (\<lambda>c. \<lparr>lsc_AcceptedOutputModes = cfg_AcceptedOutputModes c,
        lsc_Blocking = Some (\<not> cfg_ReturnImmediately c), lsc_HistoryLength = cfg_HistoryLength c,
        lsc_PushConfig = map_option (\<lambda>pc. ltp_Config (FromV1PushConfig pc)) (cfg_PushConfig c)\<rparr>) (req_Config req),
      lsp_Metadata = req_Metadata req\<rparr>"

definition ToV1SubscribeToTaskRequest :: "legacy_id \<Rightarrow> subscribe_request" where
  "ToV1SubscribeToTaskRequest q = \<lparr>sub_Tenant = '''', sub_ID = lid_ID q\<rparr>"

definition FromV1SubscribeToTaskRequest :: "subscribe_request \<Rightarrow> legacy_id" where
  "FromV1SubscribeToTaskRequest req = \<lparr>lid_ID = sub_ID req, lid_Metadata = None\<rparr>"

definition ToV1GetTaskPushConfigRequest :: "legacy_push_params \<Rightarrow> push_request" where
  "ToV1GetTaskPushConfigRequest p = \<lparr>pr_Tenant = '''', pr_TaskID = lpp_TaskID p, pr_ID = lpp_ConfigID p\<rparr>"

definition FromV1GetTaskPushConfigRequest :: "push_request \<Rightarrow> legacy_push_params" where
  "FromV1GetTaskPushConfigRequest req = \<lparr>lpp_TaskID = pr_TaskID req, lpp_ConfigID = pr_ID req\<rparr>"

text \<open>The parameters of a listing are the id of the task.\<close>

definition ToV1ListTaskPushConfigRequest :: "string \<Rightarrow> list_push_request" where
  "ToV1ListTaskPushConfigRequest taskID = \<lparr>lpr_Tenant = '''', lpr_TaskID = taskID, lpr_PageSize = 0, lpr_PageToken = ''''\<rparr>"

definition FromV1ListTaskPushConfigRequest :: "list_push_request \<Rightarrow> string" where
  "FromV1ListTaskPushConfigRequest req = lpr_TaskID req"

definition ToV1DeleteTaskPushConfigRequest :: "legacy_push_params \<Rightarrow> push_request" where
  "ToV1DeleteTaskPushConfigRequest p = \<lparr>pr_Tenant = '''', pr_TaskID = lpp_TaskID p, pr_ID = lpp_ConfigID p\<rparr>"

definition FromV1DeleteTaskPushConfigRequest :: "push_request \<Rightarrow> legacy_push_params" where
  "FromV1DeleteTaskPushConfigRequest req = \<lparr>lpp_TaskID = pr_TaskID req, lpp_ConfigID = pr_ID req\<rparr>"

definition FromV1ListTasksRequest :: "legacy_consts \<Rightarrow> list_request \<Rightarrow> legacy_list" where
  "FromV1ListTasksRequest L req =
     \<lparr>llr_ContextID = list_ContextID req, llr_Status = FromV1TaskState L (list_Status req), llr_PageSize = list_PageSize req,
      llr_PageToken = list_PageToken req, llr_HistoryLength = (case list_HistoryLength req of None \<Rightarrow> 0 | Some n \<Rightarrow> n),
      llr_LastUpdatedAfter = list_StatusTimestampAfter req, llr_IncludeArtifacts = list_IncludeArtifacts req\<rparr>"

definition ToV1ListTasksRequest :: "legacy_consts \<Rightarrow> legacy_list \<Rightarrow> list_request" where
  "ToV1ListTasksRequest L req =
     \<lparr>list_Tenant = '''', list_ContextID = llr_ContextID req, list_Status = ToV1TaskState L (llr_Status req),
      list_PageSize = llr_PageSize req, list_PageToken = llr_PageToken req, list_HistoryLength = Some (llr_HistoryLength req),
      list_StatusTimestampAfter = llr_LastUpdatedAfter req, list_IncludeArtifacts = llr_IncludeArtifacts req\<rparr>"

definition ToV1ListTasksResponse :: "legacy_consts \<Rightarrow> legacy_list_response \<Rightarrow> list_response" where
  "ToV1ListTasksResponse L resp =
     \<lparr>resp_Tasks = map (ToV1Task L) (llp_Tasks resp), resp_TotalSize = llp_TotalSize resp, resp_PageSize = llp_PageSize resp,
      resp_NextPageToken = llp_NextPageToken resp\<rparr>"

definition FromV1ListTasksResponse :: "legacy_consts \<Rightarrow> list_response \<Rightarrow> legacy_list_response" where
  "FromV1ListTasksResponse L resp =
     \<lparr>llp_Tasks = map (FromV1Task L) (resp_Tasks resp), llp_TotalSize = resp_TotalSize resp, llp_PageSize = resp_PageSize resp,
      llp_NextPageToken = resp_NextPageToken resp\<rparr>"

section \<open>Cards\<close>

record legacy_scheme_api_key =
  lak_Description :: string
  lak_In :: string
  lak_Name :: string

record legacy_code_flow =
  lcf_AuthorizationURL :: string
  lcf_RefreshURL :: string
  lcf_Scopes :: scopes_map
  lcf_TokenURL :: string

text \<open>The other three flows, and three of the schemes, have the same fields in both models.\<close>

record legacy_flows =
  lof_AuthorizationCode :: "legacy_code_flow option"
  lof_ClientCredentials :: "client_credentials_flow option"
  lof_Implicit :: "implicit_flow option"
  lof_Password :: "password_flow option"

record legacy_oauth2 =
  loa_Description :: string
  loa_Flows :: legacy_flows
  loa_Oauth2MetadataURL :: string

datatype legacy_scheme =
    LegacyAPIKey legacy_scheme_api_key
  | LegacyHTTPAuth http_auth_scheme
  | LegacyOpenID openid_scheme
  | LegacyMutualTLS mutual_tls_scheme
  | LegacyOAuth2 legacy_oauth2
  | LegacyOtherScheme

record legacy_skill =
  lsk_Description :: string
  lsk_Examples :: "string list"
  lsk_ID :: string
  lsk_InputModes :: "string list"
  lsk_Name :: string
  lsk_OutputModes :: "string list"
  lsk_Security :: "security_requirements list"
  lsk_Tags :: "string list option"

record legacy_interface =
  lif_URL :: string
  lif_Transport :: string

record legacy_card =
  lc_DefaultInputModes :: "string list option"
  lc_DefaultOutputModes :: "string list option"
  lc_Description :: string
  lc_DocumentationURL :: string
  lc_IconURL :: string
  lc_Name :: string
  lc_Provider :: "agent_provider option"
  lc_Signatures :: "card_signature list"
  lc_Version :: string
  lc_ExtendedCard :: bool
  lc_Extensions :: "agent_extension list"
  lc_PushNotifications :: bool
  lc_Streaming :: bool
  lc_Security :: "security_requirements list"
  lc_SecuritySchemes :: "legacy_scheme gomap"
  lc_Skills :: "legacy_skill list"
  lc_URL :: string
  lc_PreferredTransport :: string
  lc_ProtocolVersion :: string
  lc_AdditionalInterfaces :: "legacy_interface list"

definition v0_Version :: string where
  "v0_Version = ''0.3''"

definition no_legacy_flows :: legacy_flows where
  "no_legacy_flows = \<lparr>lof_AuthorizationCode = None, lof_ClientCredentials = None, lof_Implicit = None, lof_Password = None\<rparr>"

text \<open>Only values of the flow types have a case; the device code flow and pointers have none.\<close>

definition fromV1OAuthFlows :: "oauth_flows \<Rightarrow> legacy_flows" where
  "fromV1OAuthFlows flows =
     (case flows of
        FlowValue (AuthorizationCode v) \<Rightarrow> no_legacy_flows\<lparr>lof_AuthorizationCode := Some
          \<lparr>lcf_AuthorizationURL = acf_AuthorizationURL v, lcf_RefreshURL = acf_RefreshURL v, lcf_Scopes = acf_Scopes v,
           lcf_TokenURL = acf_TokenURL v\<rparr>\<rparr>
      | FlowValue (ClientCredentials v) \<Rightarrow> no_legacy_flows\<lparr>lof_ClientCredentials := Some v\<rparr>
      | FlowValue (Implicit v) \<Rightarrow> no_legacy_flows\<lparr>lof_Implicit := Some v\<rparr>
      | FlowValue (Password v) \<Rightarrow> no_legacy_flows\<lparr>lof_Password := Some v\<rparr>
      | _ \<Rightarrow> no_legacy_flows)"

definition toV1OAuthFlows :: "legacy_flows \<Rightarrow> oauth_flows" where
  "toV1OAuthFlows flows =
     (case (lof_AuthorizationCode flows, lof_ClientCredentials flows, lof_Implicit flows, lof_Password flows) of
        (Some f, _) \<Rightarrow> FlowValue (AuthorizationCode \<lparr>acf_AuthorizationURL = lcf_AuthorizationURL f,
          acf_RefreshURL = lcf_RefreshURL f, acf_Scopes = lcf_Scopes f, acf_TokenURL = lcf_TokenURL f, acf_PKCERequired = False\<rparr>)
      | (None, Some f, _) \<Rightarrow> FlowValue (ClientCredentials f)
      | (None, None, Some f, _) \<Rightarrow> FlowValue (Implicit f)
      | (None, None, None, Some f) \<Rightarrow> FlowValue (Password f)
      | (None, None, None, None) \<Rightarrow> NilFlow)"

definition fromV1SecurityScheme :: "security_scheme \<Rightarrow> legacy_scheme option" where
  "fromV1SecurityScheme scheme =
     (case scheme of
        APIKey v \<Rightarrow> Some (LegacyAPIKey \<lparr>lak_Description = aks_Description v, lak_In = aks_Location v, lak_Name = aks_Name v\<rparr>)
      | HTTPAuth v \<Rightarrow> Some (LegacyHTTPAuth v)
      | OpenIDConnect v \<Rightarrow> Some (LegacyOpenID v)
      | MutualTLS v \<Rightarrow> Some (LegacyMutualTLS v)
      | OAuth2 v \<Rightarrow> Some (LegacyOAuth2 \<lparr>loa_Description = oas_Description v, loa_Flows = fromV1OAuthFlows (oas_Flows v),
          loa_Oauth2MetadataURL = oas_Oauth2MetadataURL v\<rparr>)
      | OtherScheme \<Rightarrow> None)"

definition toV1SecurityScheme :: "legacy_scheme \<Rightarrow> security_scheme option" where
  "toV1SecurityScheme scheme =
     (case scheme of
        LegacyAPIKey v \<Rightarrow> Some (APIKey \<lparr>aks_Description = lak_Description v, aks_Location = lak_In v, aks_Name = lak_Name v\<rparr>)
      | LegacyHTTPAuth v \<Rightarrow> Some (HTTPAuth v)
      | LegacyOpenID v \<Rightarrow> Some (OpenIDConnect v)
      | LegacyMutualTLS v \<Rightarrow> Some (MutualTLS v)
      | LegacyOAuth2 v \<Rightarrow> Some (OAuth2 \<lparr>oas_Description = loa_Description v, oas_Flows = toV1OAuthFlows (loa_Flows v),
          oas_Oauth2MetadataURL = loa_Oauth2MetadataURL v\<rparr>)
      | LegacyOtherScheme \<Rightarrow> None)"

text \<open>The loop over a map of schemes: an entry for each scheme that the type switch knows.\<close>

definition convert_schemes :: "('a \<Rightarrow> 'b option) \<Rightarrow> 'a gomap \<Rightarrow> 'b gomap" where
  "convert_schemes conv schemes =
     (case schemes of
        None \<Rightarrow> None
      | Some m \<Rightarrow> if m = fmempty then None
          else Some (fmmap (\<lambda>x. the (conv x)) (fmfilter (\<lambda>k. Option.bind (fmlookup m k) conv \<noteq> None) m)))"

definition fromV1SecuritySchemes :: "named_schemes \<Rightarrow> legacy_scheme gomap" where
  "fromV1SecuritySchemes schemes = convert_schemes fromV1SecurityScheme schemes"

definition toV1SecuritySchemes :: "legacy_scheme gomap \<Rightarrow> named_schemes" where
  "toV1SecuritySchemes schemes = convert_schemes toV1SecurityScheme schemes"

definition from_v1_skill :: "agent_skill \<Rightarrow> legacy_skill" where
  "from_v1_skill s =
     \<lparr>lsk_Description = skill_Description s, lsk_Examples = skill_Examples s, lsk_ID = skill_ID s, lsk_InputModes = skill_InputModes s,
      lsk_Name = skill_Name s, lsk_OutputModes = skill_OutputModes s, lsk_Security = skill_SecurityRequirements s, lsk_Tags = skill_Tags s\<rparr>"

definition to_v1_skill :: "legacy_skill \<Rightarrow> agent_skill" where
  "to_v1_skill s =
     \<lparr>skill_Description = lsk_Description s, skill_Examples = lsk_Examples s, skill_ID = lsk_ID s, skill_InputModes = lsk_InputModes s,
      skill_Name = lsk_Name s, skill_OutputModes = lsk_OutputModes s, skill_SecurityRequirements = lsk_Security s, skill_Tags = lsk_Tags s\<rparr>"

text \<open>The first interface of version 0.3, or the first one, is the preferred one of the older card.\<close>

definition preferred_interface :: "agent_interface list \<Rightarrow> nat" where
  "preferred_interface is = (case index_func (\<lambda>i. if_ProtocolVersion i = v0_Version) is of Some n \<Rightarrow> n | None \<Rightarrow> 0)"

definition FromV1AgentCard :: "agent_card \<Rightarrow> legacy_card" where
  "FromV1AgentCard c =
     (let is = AgentCards.slice (card_SupportedInterfaces c);
          res = \<lparr>lc_DefaultInputModes = card_DefaultInputModes c, lc_DefaultOutputModes = card_DefaultOutputModes c,
            lc_Description = card_Description c, lc_DocumentationURL = card_DocumentationURL c, lc_IconURL = card_IconURL c,
            lc_Name = card_Name c, lc_Provider = card_Provider c, lc_Signatures = AgentCards.slice (card_Signatures c),
            lc_Version = card_Version c, lc_ExtendedCard = cap_ExtendedAgentCard (card_Capabilities c),
            lc_Extensions = cap_Extensions (card_Capabilities c), lc_PushNotifications = cap_PushNotifications (card_Capabilities c),
            lc_Streaming = cap_Streaming (card_Capabilities c), lc_Security = card_SecurityRequirements c,
            lc_SecuritySchemes = fromV1SecuritySchemes (card_SecuritySchemes c), lc_Skills = map from_v1_skill (AgentCards.slice (card_Skills c)),
            lc_URL = '''', lc_PreferredTransport = '''', lc_ProtocolVersion = '''', lc_AdditionalInterfaces = []\<rparr>
      in if is = [] then res
         else
          (let n = preferred_interface is; preferred = is ! n
           in res\<lparr>lc_URL := if_URL preferred, lc_PreferredTransport := if_ProtocolBinding preferred,
                lc_ProtocolVersion := if_ProtocolVersion preferred,
                lc_AdditionalInterfaces := map (\<lambda>(i, iface). \<lparr>lif_URL = if_URL iface, lif_Transport = if_ProtocolBinding iface\<rparr>)
                  (filter (\<lambda>(i, iface). i \<noteq> n \<and> if_ProtocolVersion iface = if_ProtocolVersion preferred) (enumerate 0 is))\<rparr>))"

text \<open>The interfaces of a card: the preferred one, then the additional ones that are new.\<close>

definition legacy_interfaces :: "legacy_card \<Rightarrow> agent_interface list" where
  "legacy_interfaces c =
     (let version = (if lc_ProtocolVersion c = '''' then v0_Version else lc_ProtocolVersion c);
          iface = (\<lambda>url binding. \<lparr>if_URL = url, if_ProtocolBinding = binding, if_Tenant = '''', if_ProtocolVersion = version\<rparr>);
          first = (if lc_URL c \<noteq> '''' \<or> lc_PreferredTransport c \<noteq> '''' then [iface (lc_URL c) (lc_PreferredTransport c)] else [])
      in foldl (\<lambda>ifaces ai.
           if list_ex (\<lambda>existing. if_URL existing = lif_URL ai \<and> if_ProtocolBinding existing = lif_Transport ai) ifaces then ifaces
           else ifaces @ [iface (lif_URL ai) (lif_Transport ai)]) first (lc_AdditionalInterfaces c))"

definition ToV1AgentCard :: "legacy_card \<Rightarrow> agent_card" where
  "ToV1AgentCard c =
     \<lparr>card_SupportedInterfaces = (if legacy_interfaces c = [] then None else Some (legacy_interfaces c)),
      card_Capabilities = \<lparr>cap_Extensions = lc_Extensions c, cap_PushNotifications = lc_PushNotifications c,
        cap_Streaming = lc_Streaming c, cap_ExtendedAgentCard = lc_ExtendedCard c\<rparr>,
      card_DefaultInputModes = lc_DefaultInputModes c, card_DefaultOutputModes = lc_DefaultOutputModes c,
      card_Description = lc_Description c, card_DocumentationURL = lc_DocumentationURL c, card_IconURL = lc_IconURL c,
      card_Name = lc_Name c, card_Provider = lc_Provider c, card_SecurityRequirements = lc_Security c,
      card_SecuritySchemes = toV1SecuritySchemes (lc_SecuritySchemes c), card_Signatures = Some (lc_Signatures c),
      card_Skills = (if lc_Skills c = [] then None else Some (map to_v1_skill (lc_Skills c))), card_Version = lc_Version c\<rparr>"

section \<open>What survives version 0.3\<close>

text \<open>The constants of the older module differ from each other.\<close>

definition legacy_states :: "legacy_consts \<Rightarrow> string list" where
  "legacy_states L = map snd (v1ToLegacyTaskState L)"

definition legacy_ok :: "legacy_consts \<Rightarrow> bool" where
  "legacy_ok L \<longleftrightarrow> distinct (ls_Unspecified L # legacy_states L) \<and> distinct [lr_Agent L, lr_User L, lr_Unspecified L]"

lemma table_back:
  assumes "distinct (map fst t)" "distinct (map snd t)" "k \<in> fst ` set t"
  shows "table_lookup (inverse_table t) d' (table_lookup t d k) = k"
proof -
  obtain v where v: "(k, v) \<in> set t" using assms(3) by auto
  then have "map_of t k = Some v" using assms(1) by simp
  moreover have "map_of (inverse_table t) v = Some k"
  proof (rule map_of_is_SomeI)
    show "distinct (map fst (inverse_table t))" using assms(2) by (simp add: inverse_table_def case_prod_unfold o_def)
    show "(v, k) \<in> set (inverse_table t)" using v by (force simp: inverse_table_def)
  qed
  ultimately show ?thesis by (simp add: table_lookup_def)
qed

definition known_states :: "task_state list" where
  "known_states = [TaskStateAuthRequired, TaskStateCanceled, TaskStateCompleted, TaskStateFailed, TaskStateInputRequired,
     TaskStateRejected, TaskStateSubmitted, TaskStateWorking, TaskStateUnspecified]"

lemma state_keys: "map fst (v1ToLegacyTaskState L) = butlast known_states" "distinct known_states"
  by (simp_all add: v1ToLegacyTaskState_def known_states_def go_consts)

lemma state_back:
  assumes "legacy_ok L"
  shows "ToV1TaskState L (FromV1TaskState L s) = (if s \<in> set known_states then s else TaskStateUnspecified)"
proof (cases "s \<in> set (map fst (v1ToLegacyTaskState L))")
  case True
  moreover have "distinct (map fst (v1ToLegacyTaskState L))" unfolding state_keys(1) by (intro distinct_butlast state_keys(2))
  moreover have "distinct (map snd (v1ToLegacyTaskState L))" using assms by (simp add: legacy_ok_def legacy_states_def)
  ultimately have "ToV1TaskState L (FromV1TaskState L s) = s"
    unfolding ToV1TaskState_def FromV1TaskState_def by (intro table_back) simp_all
  moreover have "s \<in> set known_states" using True unfolding state_keys(1) by (rule in_set_butlastD)
  ultimately show ?thesis by simp
next
  case False
  then have "map_of (v1ToLegacyTaskState L) s = None" by (simp add: map_of_eq_None_iff)
  then have from_s: "FromV1TaskState L s = ls_Unspecified L" by (simp add: FromV1TaskState_def table_lookup_def)
  have "map_of (inverse_table (v1ToLegacyTaskState L)) (ls_Unspecified L) = None"
    using assms by (simp add: map_of_eq_None_iff inverse_table_def image_image case_prod_unfold legacy_ok_def legacy_states_def)
  then have "ToV1TaskState L (FromV1TaskState L s) = TaskStateUnspecified"
    by (simp add: from_s ToV1TaskState_def table_lookup_def)
  moreover have "s \<in> set known_states \<Longrightarrow> s = TaskStateUnspecified"
    using False by (auto simp: v1ToLegacyTaskState_def known_states_def)
  ultimately show ?thesis by auto
qed

lemma role_back:
  assumes "legacy_ok L"
  shows "fromCompatRole L (toCompatRole L r) =
    (if r \<in> {MessageRoleAgent, MessageRoleUser, MessageRoleUnspecified} then r else MessageRoleUnspecified)"
proof -
  have L: "lr_Agent L \<noteq> lr_User L" "lr_Agent L \<noteq> lr_Unspecified L" "lr_User L \<noteq> lr_Unspecified L"
    "lr_User L \<noteq> lr_Agent L" "lr_Unspecified L \<noteq> lr_Agent L" "lr_Unspecified L \<noteq> lr_User L"
    using assms by (auto simp: legacy_ok_def)
  show ?thesis
    by (simp add: L fromCompatRole_def toCompatRole_def table_lookup_def inverse_table_def coreToCompatRole_def)
qed

definition unnamed :: "part \<Rightarrow> bool" where
  "unnamed p \<longleftrightarrow> part_Filename p = '''' \<and> part_MediaType p = ''''"

text \<open>The parts that version 0.3 can carry.\<close>

definition kept_part :: "part \<Rightarrow> bool" where
  "kept_part p \<longleftrightarrow>
     (case part_Content p of
        Some (Text s) \<Rightarrow> unnamed p
      | Some (Data (AMap m)) \<Rightarrow> unnamed p \<and> gm_lookup (part_Metadata p) compat_key \<noteq> Some (ABool True)
      | Some (Data v) \<Rightarrow> unnamed p \<and> part_Metadata p \<noteq> None \<and> gm_lookup (part_Metadata p) compat_key = None
      | Some (Raw c) \<Rightarrow> True
      | Some (URL u) \<Rightarrow> True
      | None \<Rightarrow> False)"

lemma wrapped_metadata:
  "map_option (fmdrop k) (setMeta md k v) = md \<longleftrightarrow> md \<noteq> None \<and> gm_lookup md k = None"
proof (cases md)
  case (Some m)
  have "fmdrop k (fmupd k v m) = m \<longleftrightarrow> fmlookup m k = None"
  proof
    assume "fmdrop k (fmupd k v m) = m"
    then show "fmlookup m k = None" by (metis fmlookup_drop)
  next
    assume "fmlookup m k = None"
    then show "fmdrop k (fmupd k v m) = m" by (intro fmap_ext) simp
  qed
  then show ?thesis by (simp add: Some setMeta_def)
qed (simp add: setMeta_def)

lemma legacy_part_back: "ToV1Part (FromV1Part p) = p \<longleftrightarrow> kept_part p"
proof (cases "part_Content p")
  case None
  then show ?thesis by (cases p) (auto simp: FromV1Part_def kept_part_def plain_part_def Let_def)
next
  case (Some c)
  show ?thesis
  proof (cases c)
    case (Data v)
    show ?thesis
    proof (cases "\<exists>m. v = AMap m")
      case True
      then obtain m where v: "v = AMap m" ..
      have "map_option (fmdrop compat_key) (part_Metadata p) \<noteq> part_Metadata p"
        if "gm_lookup (part_Metadata p) compat_key = Some (ABool True)"
        using that by (cases "part_Metadata p") (auto dest!: arg_cong[of _ _ "\<lambda>f. fmlookup f compat_key"])
      then show ?thesis using Some Data v
        by (cases p) (auto simp: FromV1Part_def kept_part_def plain_part_def unnamed_def Let_def split: if_splits)
    next
      case False
      then have from_p: "FromV1Part p = DataPart (Some (fmupd ''value'' v fmempty)) (setMeta (part_Metadata p) compat_key (ABool True))"
        using Some Data by (cases v) (simp_all add: FromV1Part_def Let_def)
      have "ToV1Part (FromV1Part p) = plain_part (Data v) (map_option (fmdrop compat_key) (setMeta (part_Metadata p) compat_key (ABool True)))"
        by (simp add: from_p)
      moreover have "kept_part p \<longleftrightarrow> unnamed p \<and> part_Metadata p \<noteq> None \<and> gm_lookup (part_Metadata p) compat_key = None"
        using Some Data False by (cases v) (simp_all add: kept_part_def)
      ultimately show ?thesis using Some Data wrapped_metadata[of compat_key "part_Metadata p" "ABool True"]
        by (cases p) (auto simp: plain_part_def unnamed_def)
    qed
  next
    case (Text s)
    then show ?thesis using Some by (cases p) (auto simp: FromV1Part_def kept_part_def plain_part_def unnamed_def Let_def)
  next
    case (Raw raw)
    have "jbytes (AString (bytes_text raw)) = Some (False, raw)" using jbytes_back[of raw] unfolding jret_def .
    then show ?thesis using Some Raw by (cases p) (simp add: FromV1Part_def kept_part_def Let_def del: jbytes.simps)
  next
    case (URL u)
    then show ?thesis using Some by (cases p) (simp add: FromV1Part_def kept_part_def Let_def)
  qed
qed

lemma map_same_iff: "map f xs = xs \<longleftrightarrow> list_all (\<lambda>x. f x = x) xs"
  by (induction xs) auto

lemma legacy_parts_back: "ToV1Parts (FromV1Parts ps) = ps \<longleftrightarrow> list_all kept_part ps"
  by (simp add: ToV1Parts_def FromV1Parts_def map_same_iff legacy_part_back)

definition kept_message :: "message \<Rightarrow> bool" where
  "kept_message m \<longleftrightarrow> list_all kept_part (msg_Parts m) \<and> msg_Role m \<in> {MessageRoleAgent, MessageRoleUser, MessageRoleUnspecified}"

lemma message_back_v0: "legacy_ok L \<Longrightarrow> ToV1Message L (FromV1Message L m) = m \<longleftrightarrow> kept_message m"
  by (cases m) (auto simp: ToV1Message_def FromV1Message_def kept_message_def legacy_parts_back role_back)

definition kept_status :: "task_status \<Rightarrow> bool" where
  "kept_status s \<longleftrightarrow> pred_option kept_message (ts_Message s) \<and> ts_State s \<in> set known_states"

lemma status_back_v0: "legacy_ok L \<Longrightarrow> to_v1_status L (from_v1_status L s) = s \<longleftrightarrow> kept_status s"
  by (cases s; cases "ts_Message s")
    (auto simp: to_v1_status_def from_v1_status_def kept_status_def state_back message_back_v0 known_states_def)

lemma artifact_back_v0: "ToV1Artifact (FromV1Artifact a) = a \<longleftrightarrow> list_all kept_part (art_Parts a)"
  by (cases a) (simp add: ToV1Artifact_def FromV1Artifact_def legacy_parts_back)

definition kept_task :: "task \<Rightarrow> bool" where
  "kept_task t \<longleftrightarrow> list_all (\<lambda>a. list_all kept_part (art_Parts a)) (task_Artifacts t) \<and> list_all kept_message (task_History t) \<and>
     kept_status (task_Status t)"

lemma task_back_v0: "legacy_ok L \<Longrightarrow> ToV1Task L (FromV1Task L t) = t \<longleftrightarrow> kept_task t"
  by (cases t) (simp add: ToV1Task_def FromV1Task_def kept_task_def map_same_iff artifact_back_v0 message_back_v0 status_back_v0)

fun kept_event :: "event \<Rightarrow> bool" where
  "kept_event (EMessage m) = kept_message m"
| "kept_event (ETask a t) = kept_task t"
| "kept_event (EStatus u) = kept_status (se_Status u)"
| "kept_event (EArtifact u) = list_all kept_part (art_Parts (ae_Artifact u))"

lemma event_back_v0:
  assumes "legacy_ok L"
  shows "ToV1Event L a (FromV1Event L (Some e)) = Inr (Some (Whole (same_address a e))) \<longleftrightarrow> kept_event e"
proof (cases e)
  case (EStatus u)
  then show ?thesis
    by (cases u) (simp add: ToV1Event_def FromV1Event_def ToV1TaskStatusUpdateEvent_def FromV1TaskStatusUpdateEvent_def Let_def
        status_back_v0[OF assms])
next
  case (EArtifact u)
  then show ?thesis
    by (cases u) (simp add: ToV1Event_def FromV1Event_def ToV1TaskArtifactUpdateEvent_def FromV1TaskArtifactUpdateEvent_def
        artifact_back_v0)
qed (simp_all add: ToV1Event_def FromV1Event_def message_back_v0[OF assms] task_back_v0[OF assms])


section \<open>Requests of version 0.3\<close>

text \<open>What a request is after a call through version 0.3: there is no tenant, and a push configuration is one of the message's task.\<close>

definition v03_push :: "string \<Rightarrow> push_config \<Rightarrow> push_config" where
  "v03_push taskID c = c\<lparr>pc_Tenant := '''', pc_TaskID := taskID\<rparr>"

definition v03_config :: "message \<Rightarrow> send_config \<Rightarrow> send_config" where
  "v03_config m c = c\<lparr>cfg_PushConfig := map_option (v03_push (msg_TaskID m)) (cfg_PushConfig c)\<rparr>"

lemma push_back_v0: "ToV1PushConfig (FromV1PushConfig c) = v03_push (pc_TaskID c) c"
  by (cases c; cases "pc_Auth c") (auto simp: ToV1PushConfig_def FromV1PushConfig_def v03_push_def Let_def)

lemma push_of_task: "ToV1PushConfig \<lparr>ltp_Config = ltp_Config (FromV1PushConfig c), ltp_TaskID = t\<rparr> = v03_push t c"
  by (cases c; cases "pc_Auth c") (auto simp: ToV1PushConfig_def FromV1PushConfig_def v03_push_def Let_def)

text \<open>The conversion panics exactly for a push configuration beside a message that is missing.\<close>

lemma send_request_panics:
  "ToV1SendMessageRequest L p = None \<longleftrightarrow>
    lsp_Message p = None \<and> (\<exists>c. lsp_Config p = Some c \<and> lsc_PushConfig c \<noteq> None)"
  by (auto simp: ToV1SendMessageRequest_def Let_def split: option.splits)

lemma send_back_v0:
  assumes L: "legacy_ok L" and m: "req_Message req = Some m" "kept_message m"
  shows "ToV1SendMessageRequest L (FromV1SendMessageRequest L req) =
    Some (req\<lparr>req_Tenant := '''', req_Config := map_option (v03_config m) (req_Config req)\<rparr>)"
proof (cases "req_Config req")
  case None
  then show ?thesis using message_back_v0[OF L, of m] m
    by (cases req) (simp add: ToV1SendMessageRequest_def FromV1SendMessageRequest_def Let_def)
next
  case (Some c)
  have push: "ToV1PushConfig \<lparr>ltp_Config = ltp_Config (FromV1PushConfig pc), ltp_TaskID = msg_TaskID m\<rparr> = v03_push (msg_TaskID m) pc"
    for pc by (rule push_of_task)
  show ?thesis using Some message_back_v0[OF L, of m] m push
    by (cases req; cases c; cases "cfg_PushConfig c")
      (auto simp: ToV1SendMessageRequest_def FromV1SendMessageRequest_def Let_def v03_config_def)
qed

text \<open>
  C29: Converting a request of version 0.3 fails exactly, with a nil dereference, for a push
  configuration beside a missing message. A request with a message that version 0.3 can carry comes back
  without its tenant and with its push configuration, if any, moved to the task of the message.
\<close>

theorem legacy_send_survives:
  "(ToV1SendMessageRequest L p = None \<longleftrightarrow>
      lsp_Message p = None \<and> (\<exists>c. lsp_Config p = Some c \<and> lsc_PushConfig c \<noteq> None)) \<and>
   (legacy_ok L \<and> req_Message req = Some m \<and> kept_message m \<longrightarrow>
      ToV1SendMessageRequest L (FromV1SendMessageRequest L req) =
        Some (req\<lparr>req_Tenant := '''', req_Config := map_option (v03_config m) (req_Config req)\<rparr>))"
  using send_request_panics send_back_v0 by blast

section \<open>Concrete conversions\<close>

text \<open>The constants of version 0.3.\<close>

definition v03_consts :: legacy_consts where
  "v03_consts = \<lparr>ls_AuthRequired = ''auth-required'', ls_Canceled = ''canceled'', ls_Completed = ''completed'',
     ls_Failed = ''failed'', ls_InputRequired = ''input-required'', ls_Rejected = ''rejected'', ls_Submitted = ''submitted'',
     ls_Working = ''working'', ls_Unspecified = '''', lr_Agent = ''agent'', lr_User = ''user'', lr_Unspecified = ''''\<rparr>"

lemma v03_consts_ok: "legacy_ok v03_consts"
  by (simp add: legacy_ok_def legacy_states_def v1ToLegacyTaskState_def v03_consts_def)

definition greeting :: message where
  "greeting = (NewMessage ''m'' MessageRoleUser [NewTextPart ''hi''])\<lparr>msg_TaskID := ''t''\<rparr>"

lemma greeting_kept: "kept_message greeting" "msg_TaskID greeting = ''t''"
  by (simp_all add: greeting_def NewMessage_def NewTextPart_def kept_message_def kept_part_def unnamed_def)


definition pushed_greeting :: send_request where
  "pushed_greeting = \<lparr>req_Tenant = ''acme'', req_Config = Some \<lparr>cfg_AcceptedOutputModes = [], cfg_ReturnImmediately = True,
     cfg_HistoryLength = None, cfg_PushConfig = Some (zero_push_config\<lparr>pc_URL := ''https://x''\<rparr>)\<rparr>,
     req_Message = Some greeting, req_Metadata = None\<rparr>"

lemma legacy_send_survives_witness:
  "(\<exists>c. ToV1SendMessageRequest v03_consts (FromV1SendMessageRequest v03_consts pushed_greeting) =
      Some (pushed_greeting\<lparr>req_Tenant := '''', req_Config := Some c\<rparr>) \<and>
    cfg_PushConfig c = Some (zero_push_config\<lparr>pc_URL := ''https://x'', pc_TaskID := ''t''\<rparr>)) \<and>
   ToV1SendMessageRequest v03_consts ((FromV1SendMessageRequest v03_consts pushed_greeting)\<lparr>lsp_Message := None\<rparr>) = None"
proof -
  have m: "req_Message pushed_greeting = Some greeting" by (simp add: pushed_greeting_def)
  have "ToV1SendMessageRequest v03_consts (FromV1SendMessageRequest v03_consts pushed_greeting) =
      Some (pushed_greeting\<lparr>req_Tenant := '''', req_Config := map_option (v03_config greeting) (req_Config pushed_greeting)\<rparr>)"
    using legacy_send_survives[of v03_consts _ pushed_greeting greeting] v03_consts_ok m greeting_kept(1) by blast
  moreover have "ToV1SendMessageRequest v03_consts ((FromV1SendMessageRequest v03_consts pushed_greeting)\<lparr>lsp_Message := None\<rparr>) = None"
    using legacy_send_survives[of v03_consts "(FromV1SendMessageRequest v03_consts pushed_greeting)\<lparr>lsp_Message := None\<rparr>"]
    by (simp add: FromV1SendMessageRequest_def pushed_greeting_def)
  ultimately show ?thesis
    by (simp add: pushed_greeting_def v03_config_def v03_push_def greeting_kept(2) zero_push_config_def)
qed

end
