(* ===== verification/LegacyCards.thy ===== *)
theory LegacyCards
  imports CardJson LegacyConversions
begin

text \<open>
  Cards for clients and agents of version 0.3 (\<open>a2acompat/a2av0/agentcard.go\<close>): the card that has the
  fields of both versions, its JSON form, and what clients of this version read from it.
\<close>

section \<open>The card of both versions\<close>

record compat_api_key =
  cak_Type :: string
  cak_Description :: string
  cak_In :: string
  cak_Name :: string
  cak_ApiKey :: "api_key_scheme option"

record compat_http_auth =
  cha_Type :: string
  cha_BearerFormat :: string
  cha_Description :: string
  cha_Scheme :: string
  cha_HTTPAuth :: "http_auth_scheme option"

record compat_mutual_tls =
  cmt_Type :: string
  cmt_Description :: string
  cmt_MutualTLS :: "mutual_tls_scheme option"

record compat_openid =
  coi_Type :: string
  coi_Description :: string
  coi_OpenIDConnectURL :: string
  coi_OpenID :: "openid_scheme option"

record compat_oauth2 =
  coa_Type :: string
  coa_Description :: string
  coa_Flows :: oauth_flows
  coa_Oauth2MetadataURL :: string
  coa_OAuth2 :: "oauth2_scheme option"

text \<open>The values of the map \<open>namedSecuritySchemes\<close>; its type allows more, which nothing puts into it.\<close>

datatype compat_scheme =
    V1Scheme security_scheme
  | CompatAPIKey compat_api_key
  | CompatHTTPAuth compat_http_auth
  | CompatMutualTLS compat_mutual_tls
  | CompatOpenID compat_openid
  | CompatOAuth2 compat_oauth2

record compat_interface =
  cif_Transport :: string
  cif_URL :: string

record compat_skill =
  csk_AgentSkill :: agent_skill
  csk_Security :: "security_requirements list"

record agent_card_compat =
  cc_DefaultInputModes :: "string list option"
  cc_DefaultOutputModes :: "string list option"
  cc_Description :: string
  cc_DocumentationURL :: string
  cc_IconURL :: string
  cc_Name :: string
  cc_Provider :: "agent_provider option"
  cc_Signatures :: "card_signature list option"
  cc_Version :: string
  cc_Skills :: "compat_skill list option"
  cc_SecuritySchemes :: "compat_scheme gomap"
  cc_Capabilities :: agent_capabilities
  cc_SupportsExtendedCard :: bool
  cc_SupportedInterfaces :: "agent_interface list option"
  cc_SecurityRequirements :: "security_requirements list"
  cc_AdditionalInterfaces :: "compat_interface list"
  cc_URL :: string
  cc_CardProtocolVersion :: string
  cc_PreferredTransport :: string
  cc_Security :: "security_requirements list"

section \<open>To the card of both versions\<close>

definition to_compat_scheme :: "security_scheme \<Rightarrow> compat_scheme option" where
  "to_compat_scheme s =
     (case s of
        APIKey v \<Rightarrow> Some (CompatAPIKey \<lparr>cak_Type = ''apiKey'', cak_Description = aks_Description v, cak_In = aks_Location v,
          cak_Name = aks_Name v, cak_ApiKey = Some v\<rparr>)
      | HTTPAuth v \<Rightarrow> Some (CompatHTTPAuth \<lparr>cha_Type = ''http'', cha_BearerFormat = has_BearerFormat v,
          cha_Description = has_Description v, cha_Scheme = has_Scheme v, cha_HTTPAuth = Some v\<rparr>)
      | OpenIDConnect v \<Rightarrow> Some (CompatOpenID \<lparr>coi_Type = ''openIdConnect'', coi_Description = ois_Description v,
          coi_OpenIDConnectURL = ois_OpenIDConnectURL v, coi_OpenID = Some v\<rparr>)
      | MutualTLS v \<Rightarrow> Some (CompatMutualTLS \<lparr>cmt_Type = ''mutualTLS'', cmt_Description = mts_Description v, cmt_MutualTLS = Some v\<rparr>)
      | OAuth2 v \<Rightarrow> Some (CompatOAuth2 \<lparr>coa_Type = ''oauth2'', coa_Description = oas_Description v, coa_Flows = oas_Flows v,
          coa_Oauth2MetadataURL = oas_Oauth2MetadataURL v, coa_OAuth2 = Some v\<rparr>)
      | OtherScheme \<Rightarrow> None)"

text \<open>The loop over a map: an entry for each value that the type switch knows, in a map that is never nil.\<close>

definition filter_entries :: "('a \<Rightarrow> 'b option) \<Rightarrow> 'a gomap \<Rightarrow> 'b gomap" where
  "filter_entries conv schemes =
     (let m = gm_fmap schemes
      in Some (fmmap (\<lambda>x. the (conv x)) (fmfilter (\<lambda>k. Option.bind (fmlookup m k) conv \<noteq> None) m)))"

definition mapToCompatSecuritySchemes :: "named_schemes \<Rightarrow> compat_scheme gomap" where
  "mapToCompatSecuritySchemes schemes = filter_entries to_compat_scheme schemes"

definition mapToCompatSecurity :: "security_requirements list \<Rightarrow> security_requirements list" where
  "mapToCompatSecurity req = map (\<lambda>r. r) req"

definition mapToCompatSkills :: "agent_skill list \<Rightarrow> compat_skill list" where
  "mapToCompatSkills skills =
     map (\<lambda>s. \<lparr>csk_AgentSkill = s, csk_Security = mapToCompatSecurity (skill_SecurityRequirements s)\<rparr>) skills"

text \<open>The first interface of version 0.3, and the others of that version.\<close>

definition mapToCompatInterfaces :: "agent_card \<Rightarrow> (agent_interface \<times> compat_interface list) option" where
  "mapToCompatInterfaces c =
     (let is = slice (card_SupportedInterfaces c)
      in case index_func (\<lambda>i. if_ProtocolVersion i = v0_Version) is of
           None \<Rightarrow> None
         | Some n \<Rightarrow> Some (is ! n, map (\<lambda>(i, iface). \<lparr>cif_Transport = if_ProtocolBinding iface, cif_URL = if_URL iface\<rparr>)
             (filter (\<lambda>(i, iface). i \<noteq> n \<and> if_ProtocolVersion iface = v0_Version) (enumerate 0 is))))"

definition toCompatCard :: "agent_card \<Rightarrow> agent_card_compat" where
  "toCompatCard c =
     (let res = \<lparr>cc_DefaultInputModes = card_DefaultInputModes c, cc_DefaultOutputModes = card_DefaultOutputModes c,
            cc_Description = card_Description c, cc_DocumentationURL = card_DocumentationURL c, cc_IconURL = card_IconURL c,
            cc_Name = card_Name c, cc_Provider = card_Provider c, cc_Signatures = card_Signatures c, cc_Version = card_Version c,
            cc_Skills = Some (mapToCompatSkills (slice (card_Skills c))),
            cc_SecuritySchemes = mapToCompatSecuritySchemes (card_SecuritySchemes c), cc_Capabilities = card_Capabilities c,
            cc_SupportsExtendedCard = cap_ExtendedAgentCard (card_Capabilities c),
            cc_SupportedInterfaces = card_SupportedInterfaces c, cc_SecurityRequirements = card_SecurityRequirements c,
            cc_AdditionalInterfaces = [], cc_URL = '''', cc_CardProtocolVersion = v0_Version, cc_PreferredTransport = '''',
            cc_Security = mapToCompatSecurity (card_SecurityRequirements c)\<rparr>
      in case mapToCompatInterfaces c of
           None \<Rightarrow> res
         | Some (preferred, additional) \<Rightarrow> res\<lparr>cc_URL := if_URL preferred, cc_PreferredTransport := if_ProtocolBinding preferred,
             cc_AdditionalInterfaces := additional\<rparr>)"

section \<open>From the card of both versions\<close>

definition from_compat_scheme :: "compat_scheme \<Rightarrow> security_scheme option" where
  "from_compat_scheme s =
     (case s of
        V1Scheme OtherScheme \<Rightarrow> None
      | V1Scheme v \<Rightarrow> Some v
      | CompatAPIKey v \<Rightarrow> Some (APIKey (case cak_ApiKey v of Some k \<Rightarrow> k
          | None \<Rightarrow> \<lparr>aks_Description = cak_Description v, aks_Location = cak_In v, aks_Name = cak_Name v\<rparr>))
      | CompatHTTPAuth v \<Rightarrow> Some (HTTPAuth (case cha_HTTPAuth v of Some h \<Rightarrow> h
          | None \<Rightarrow> \<lparr>has_BearerFormat = cha_BearerFormat v, has_Description = cha_Description v, has_Scheme = cha_Scheme v\<rparr>))
      | CompatOpenID v \<Rightarrow> Some (OpenIDConnect (case coi_OpenID v of Some oi \<Rightarrow> oi
          | None \<Rightarrow> \<lparr>ois_Description = coi_Description v, ois_OpenIDConnectURL = coi_OpenIDConnectURL v\<rparr>))
      | CompatMutualTLS v \<Rightarrow> Some (MutualTLS (case cmt_MutualTLS v of Some m \<Rightarrow> m
          | None \<Rightarrow> \<lparr>mts_Description = cmt_Description v\<rparr>))
      | CompatOAuth2 v \<Rightarrow> Some (OAuth2 (case coa_OAuth2 v of Some oa \<Rightarrow> oa
          | None \<Rightarrow> \<lparr>oas_Description = coa_Description v, oas_Flows = coa_Flows v,
              oas_Oauth2MetadataURL = coa_Oauth2MetadataURL v\<rparr>)))"

definition mapFromCompatSecuritySchemes :: "compat_scheme gomap \<Rightarrow> named_schemes" where
  "mapFromCompatSecuritySchemes schemes = filter_entries from_compat_scheme schemes"

definition mapFromCompatSecurity :: "agent_card_compat \<Rightarrow> security_requirements list" where
  "mapFromCompatSecurity c =
     (if length (cc_SecurityRequirements c) > 0 then cc_SecurityRequirements c else map (\<lambda>r. r) (cc_Security c))"

definition mapFromCompatInterfaces :: "agent_card_compat \<Rightarrow> agent_interface list" where
  "mapFromCompatInterfaces c =
     (let version = (if length (cc_CardProtocolVersion c) > 0 then cc_CardProtocolVersion c else v0_Version);
          iface = (\<lambda>url binding. \<lparr>if_URL = url, if_ProtocolBinding = binding, if_Tenant = '''', if_ProtocolVersion = version\<rparr>)
      in if length (slice (cc_SupportedInterfaces c)) > 0 then slice (cc_SupportedInterfaces c)
         else (if length (cc_URL c) > 0 \<and> cc_PreferredTransport c \<noteq> '''' then [iface (cc_URL c) (cc_PreferredTransport c)] else []) @
           map (\<lambda>r. iface (cif_URL r) (cif_Transport r)) (filter (\<lambda>r. cif_URL r \<noteq> cc_URL c) (cc_AdditionalInterfaces c)))"

definition mapFromCompatSkills :: "compat_skill list \<Rightarrow> agent_skill list" where
  "mapFromCompatSkills skills =
     map (\<lambda>s. let skill = csk_AgentSkill s
       in if length (skill_SecurityRequirements skill) = 0 then skill\<lparr>skill_SecurityRequirements := csk_Security s\<rparr> else skill) skills"

text \<open>What \<open>NewAgentCardParser\<close> makes of the decoded card.\<close>

definition from_compat_card :: "agent_card_compat \<Rightarrow> agent_card" where
  "from_compat_card c =
     \<lparr>card_SupportedInterfaces = Some (mapFromCompatInterfaces c),
      card_Capabilities = (if cc_SupportsExtendedCard c then (cc_Capabilities c)\<lparr>cap_ExtendedAgentCard := True\<rparr> else cc_Capabilities c),
      card_DefaultInputModes = cc_DefaultInputModes c, card_DefaultOutputModes = cc_DefaultOutputModes c,
      card_Description = cc_Description c, card_DocumentationURL = cc_DocumentationURL c, card_IconURL = cc_IconURL c,
      card_Name = cc_Name c, card_Provider = cc_Provider c, card_SecurityRequirements = mapFromCompatSecurity c,
      card_SecuritySchemes = mapFromCompatSecuritySchemes (cc_SecuritySchemes c), card_Signatures = cc_Signatures c,
      card_Skills = Some (mapFromCompatSkills (slice (cc_Skills c))), card_Version = cc_Version c\<rparr>"

section \<open>Its JSON form\<close>

definition opt_json :: "('a \<Rightarrow> any) \<Rightarrow> 'a option \<Rightarrow> any" where
  "opt_json enc v = (case v of None \<Rightarrow> ANil | Some x \<Rightarrow> enc x)"

definition compat_api_key_json :: "compat_api_key \<Rightarrow> any" where
  "compat_api_key_json s = obj
     [(''type'', Some (AString (cak_Type s))), (''description'', str_omit (cak_Description s)),
      (''in'', Some (AString (cak_In s))), (''name'', Some (AString (cak_Name s))),
      (''apiKey'', Some (opt_json api_key_json (cak_ApiKey s)))]"

definition compat_api_key_of_json :: "any \<Rightarrow> compat_api_key jdec" where
  "compat_api_key_of_json = jstruct (\<lambda>m.
     jbind (jfield m ''type'' '''' jstring) (\<lambda>t.
     jbind (jfield m ''description'' '''' jstring) (\<lambda>d.
     jbind (jfield m ''in'' '''' jstring) (\<lambda>i.
     jbind (jfield m ''name'' '''' jstring) (\<lambda>name.
     jbind (jfield m ''apiKey'' None (jsome api_key_of_json)) (\<lambda>k.
       jret \<lparr>cak_Type = t, cak_Description = d, cak_In = i, cak_Name = name, cak_ApiKey = k\<rparr>))))))"

definition compat_http_auth_json :: "compat_http_auth \<Rightarrow> any" where
  "compat_http_auth_json s = obj
     [(''type'', Some (AString (cha_Type s))), (''bearerFormat'', str_omit (cha_BearerFormat s)),
      (''description'', str_omit (cha_Description s)), (''scheme'', Some (AString (cha_Scheme s))),
      (''http'', Some (opt_json http_auth_json (cha_HTTPAuth s)))]"

definition compat_http_auth_of_json :: "any \<Rightarrow> compat_http_auth jdec" where
  "compat_http_auth_of_json = jstruct (\<lambda>m.
     jbind (jfield m ''type'' '''' jstring) (\<lambda>t.
     jbind (jfield m ''bearerFormat'' '''' jstring) (\<lambda>b.
     jbind (jfield m ''description'' '''' jstring) (\<lambda>d.
     jbind (jfield m ''scheme'' '''' jstring) (\<lambda>s.
     jbind (jfield m ''http'' None (jsome http_auth_of_json)) (\<lambda>h.
       jret \<lparr>cha_Type = t, cha_BearerFormat = b, cha_Description = d, cha_Scheme = s, cha_HTTPAuth = h\<rparr>))))))"

definition compat_mutual_tls_json :: "compat_mutual_tls \<Rightarrow> any" where
  "compat_mutual_tls_json s = obj
     [(''type'', Some (AString (cmt_Type s))), (''description'', str_omit (cmt_Description s)),
      (''mutualTLS'', Some (opt_json mutual_tls_json (cmt_MutualTLS s)))]"

definition compat_mutual_tls_of_json :: "any \<Rightarrow> compat_mutual_tls jdec" where
  "compat_mutual_tls_of_json = jstruct (\<lambda>m.
     jbind (jfield m ''type'' '''' jstring) (\<lambda>t.
     jbind (jfield m ''description'' '''' jstring) (\<lambda>d.
     jbind (jfield m ''mutualTLS'' None (jsome mutual_tls_of_json)) (\<lambda>x.
       jret \<lparr>cmt_Type = t, cmt_Description = d, cmt_MutualTLS = x\<rparr>))))"

definition compat_openid_json :: "compat_openid \<Rightarrow> any" where
  "compat_openid_json s = obj
     [(''type'', Some (AString (coi_Type s))), (''description'', str_omit (coi_Description s)),
      (''openIdConnectUrl'', Some (AString (coi_OpenIDConnectURL s))),
      (''openIdConnect'', Some (opt_json openid_json (coi_OpenID s)))]"

definition compat_openid_of_json :: "any \<Rightarrow> compat_openid jdec" where
  "compat_openid_of_json = jstruct (\<lambda>m.
     jbind (jfield m ''type'' '''' jstring) (\<lambda>t.
     jbind (jfield m ''description'' '''' jstring) (\<lambda>d.
     jbind (jfield m ''openIdConnectUrl'' '''' jstring) (\<lambda>u.
     jbind (jfield m ''openIdConnect'' None (jsome openid_of_json)) (\<lambda>x.
       jret \<lparr>coi_Type = t, coi_Description = d, coi_OpenIDConnectURL = u, coi_OpenID = x\<rparr>)))))"

text \<open>
  The marshaler of OAuth2 writes the flow under its name and leaves the scheme of this version out. The
  unmarshaler wants exactly one flow; a null one is the zero flow.
\<close>

fun flow_entry :: "oauth_flow \<Rightarrow> string \<times> any option" where
  "flow_entry (AuthorizationCode v) = (''authorizationCode'', Some (auth_code_json v))"
| "flow_entry (ClientCredentials v) = (''clientCredentials'', Some (client_credentials_json v))"
| "flow_entry (Implicit v) = (''implicit'', Some (implicit_json v))"
| "flow_entry (Password v) = (''password'', Some (password_json v))"
| "flow_entry (DeviceCode v) = (''deviceCode'', Some (device_code_json v))"

definition compat_oauth2_MarshalJSON :: "compat_oauth2 \<Rightarrow> any" where
  "compat_oauth2_MarshalJSON s =
     (case coa_Flows s of
        FlowValue v \<Rightarrow> obj
          [(''type'', Some (AString ''oauth2'')), (''description'', str_omit (coa_Description s)),
           (''oauth2MetadataUrl'', str_omit (coa_Oauth2MetadataURL s)), (''flows'', Some (obj [flow_entry v]))]
      | _ \<Rightarrow> AOther ''OAuth flow'')"

definition zero_flow :: "string \<Rightarrow> oauth_flow option" where
  "zero_flow name = map_of
     [(''authorizationCode'', AuthorizationCode \<lparr>acf_AuthorizationURL = '''', acf_RefreshURL = '''', acf_Scopes = None,
         acf_TokenURL = '''', acf_PKCERequired = False\<rparr>),
      (''clientCredentials'', ClientCredentials \<lparr>ccf_RefreshURL = '''', ccf_Scopes = None, ccf_TokenURL = ''''\<rparr>),
      (''implicit'', Implicit \<lparr>imf_AuthorizationURL = '''', imf_RefreshURL = '''', imf_Scopes = None\<rparr>),
      (''password'', Password \<lparr>pwf_RefreshURL = '''', pwf_Scopes = None, pwf_TokenURL = ''''\<rparr>),
      (''deviceCode'', DeviceCode \<lparr>dcf_DeviceAuthorizationURL = '''', dcf_RefreshURL = '''', dcf_Scopes = None,
         dcf_TokenURL = ''''\<rparr>)] name"

definition flow_of_entry :: "string \<Rightarrow> any \<Rightarrow> oauth_flow jdec" where
  "flow_of_entry name v =
     (case zero_flow name of
        None \<Rightarrow> None
      | Some zero \<Rightarrow> jelement zero (\<lambda>v. case zero of
            AuthorizationCode x \<Rightarrow> jbind (auth_code_of_json v) (\<lambda>f. jret (AuthorizationCode f))
          | ClientCredentials x \<Rightarrow> jbind (client_credentials_of_json v) (\<lambda>f. jret (ClientCredentials f))
          | Implicit x \<Rightarrow> jbind (implicit_of_json v) (\<lambda>f. jret (Implicit f))
          | Password x \<Rightarrow> jbind (password_of_json v) (\<lambda>f. jret (Password f))
          | DeviceCode x \<Rightarrow> jbind (device_code_of_json v) (\<lambda>f. jret (DeviceCode f))) v)"

definition only_flow :: "(string, any) fmap \<Rightarrow> oauth_flow jdec" where
  "only_flow m =
     (if fcard (fmdom m) \<noteq> 1 then None
      else (let name = hd (sorted_list_of_fset (fmdom m)) in flow_of_entry name (the (fmlookup m name))))"

definition compat_oauth2_UnmarshalJSON :: "any \<Rightarrow> compat_oauth2 jdec" where
  "compat_oauth2_UnmarshalJSON = jstruct (\<lambda>m.
     jbind (jfield m ''description'' '''' jstring) (\<lambda>d.
     jbind (jfield m ''oauth2MetadataUrl'' '''' jstring) (\<lambda>u.
     jbind (jfield m ''flows'' fmempty (\<lambda>v. case v of AMap fs \<Rightarrow> jret fs | _ \<Rightarrow> None)) (\<lambda>fs.
     jbind (only_flow fs) (\<lambda>f.
       jret \<lparr>coa_Type = '''', coa_Description = d, coa_Flows = FlowValue f, coa_Oauth2MetadataURL = u, coa_OAuth2 = None\<rparr>)))))"

text \<open>A struct of this version in the map is written as it is.\<close>

definition compat_scheme_json :: "compat_scheme \<Rightarrow> any" where
  "compat_scheme_json s =
     (case s of
        CompatAPIKey v \<Rightarrow> compat_api_key_json v
      | CompatHTTPAuth v \<Rightarrow> compat_http_auth_json v
      | CompatMutualTLS v \<Rightarrow> compat_mutual_tls_json v
      | CompatOpenID v \<Rightarrow> compat_openid_json v
      | CompatOAuth2 v \<Rightarrow> compat_oauth2_MarshalJSON v
      | V1Scheme (APIKey v) \<Rightarrow> api_key_json v
      | V1Scheme (HTTPAuth v) \<Rightarrow> http_auth_json v
      | V1Scheme (OpenIDConnect v) \<Rightarrow> openid_json v
      | V1Scheme (MutualTLS v) \<Rightarrow> mutual_tls_json v
      | V1Scheme (OAuth2 v) \<Rightarrow>
          (case OAuth2_MarshalJSON v of Inl err \<Rightarrow> AOther ''OAuth flow'' | Inr w \<Rightarrow> oauth2_wrapper_json w)
      | V1Scheme OtherScheme \<Rightarrow> ANil)"

text \<open>
  The entry of one name: the type says what the other fields are; without it there is one of the schemes
  of this version, the first of several.
\<close>

definition typed_scheme :: "string \<Rightarrow> any \<Rightarrow> compat_scheme jdec" where
  "typed_scheme ty v =
     (if ty = ''apiKey'' then jbind (compat_api_key_of_json v) (\<lambda>s. jret (CompatAPIKey s))
      else if ty = ''http'' then jbind (compat_http_auth_of_json v) (\<lambda>s. jret (CompatHTTPAuth s))
      else if ty = ''mutualTLS'' then jbind (compat_mutual_tls_of_json v) (\<lambda>s. jret (CompatMutualTLS s))
      else if ty = ''oauth2'' then jbind (compat_oauth2_UnmarshalJSON v) (\<lambda>s. jret (CompatOAuth2 s))
      else if ty = ''openIdConnect'' then jbind (compat_openid_of_json v) (\<lambda>s. jret (CompatOpenID s))
      else None)"

definition oauth2_of_json :: "any \<Rightarrow> oauth2_scheme jdec" where
  "oauth2_of_json v = jbind (oauth2_wrapper_of_json v) (\<lambda>w. case OAuth2_UnmarshalJSON w of Inl err \<Rightarrow> None | Inr s \<Rightarrow> jret s)"

definition compat_scheme_of_json :: "any \<Rightarrow> compat_scheme jdec" where
  "compat_scheme_of_json v =
     (if v = ANil then None
      else jstruct (\<lambda>m.
        jbind (jfield m ''type'' '''' jstring) (\<lambda>ty.
        jbind (jfield m ''apiKeySecurityScheme'' None (jsome api_key_of_json)) (\<lambda>a.
        jbind (jfield m ''httpAuthSecurityScheme'' None (jsome http_auth_of_json)) (\<lambda>h.
        jbind (jfield m ''mtlsSecurityScheme'' None (jsome mutual_tls_of_json)) (\<lambda>t.
        jbind (jfield m ''oauth2SecurityScheme'' None (jsome oauth2_of_json)) (\<lambda>oa.
        jbind (jfield m ''openIdConnectSecurityScheme'' None (jsome openid_of_json)) (\<lambda>oi.
          if ty \<noteq> '''' then typed_scheme ty v
          else (case (a, h, t, oa, oi) of
              (Some s, _) \<Rightarrow> jret (V1Scheme (APIKey s))
            | (None, Some s, _) \<Rightarrow> jret (V1Scheme (HTTPAuth s))
            | (None, None, Some s, _) \<Rightarrow> jret (V1Scheme (MutualTLS s))
            | (None, None, None, Some s, _) \<Rightarrow> jret (V1Scheme (OAuth2 s))
            | (None, None, None, None, Some s) \<Rightarrow> jret (V1Scheme (OpenIDConnect s))
            | (None, None, None, None, None) \<Rightarrow> None)))))))) v)"

definition compat_schemes_of_json :: "any \<Rightarrow> compat_scheme gomap jdec" where
  "compat_schemes_of_json v = jbind (if v = ANil then jret fmempty else jentries compat_scheme_of_json v) (\<lambda>m. jret (Some m))"

definition compat_schemes_omit :: "compat_scheme gomap \<Rightarrow> any option" where
  "compat_schemes_omit s = (if gm_len s = 0 then None else Some (AMap (fmmap compat_scheme_json (gm_fmap s))))"

definition plain_requirement_json :: "security_requirements \<Rightarrow> any" where
  "plain_requirement_json r = AMap (fmmap (\<lambda>ss. AArr (map AString ss)) r)"

definition plain_requirement_of_json :: "any \<Rightarrow> security_requirements jdec" where
  "plain_requirement_of_json = jentries (jelement [] jstrings)"

definition compat_interface_json :: "compat_interface \<Rightarrow> any" where
  "compat_interface_json i = obj [(''transport'', Some (AString (cif_Transport i))), (''url'', Some (AString (cif_URL i)))]"

definition compat_interface_of_json :: "any \<Rightarrow> compat_interface jdec" where
  "compat_interface_of_json = jstruct (\<lambda>m.
     jbind (jfield m ''transport'' '''' jstring) (\<lambda>t.
     jbind (jfield m ''url'' '''' jstring) (\<lambda>u. jret \<lparr>cif_Transport = t, cif_URL = u\<rparr>)))"

definition compat_skill_json :: "compat_skill \<Rightarrow> any" where
  "compat_skill_json s =
     obj (skill_fields (csk_AgentSkill s) @ [(''security'', list_omit (map plain_requirement_json (csk_Security s)))])"

definition compat_skill_of_json :: "any \<Rightarrow> compat_skill jdec" where
  "compat_skill_of_json = jstruct (\<lambda>m.
     jbind (read_skill m) (\<lambda>s.
     jbind (jfield m ''security'' [] (jvalues fmempty plain_requirement_of_json)) (\<lambda>sec.
       jret \<lparr>csk_AgentSkill = s, csk_Security = sec\<rparr>)))"

definition zero_compat_skill :: compat_skill where
  "zero_compat_skill = \<lparr>csk_AgentSkill = zero_skill, csk_Security = []\<rparr>"

definition compat_card_json :: "agent_card_compat \<Rightarrow> any" where
  "compat_card_json c = obj
     [(''defaultInputModes'', Some (list_or_null (map_option (map AString) (cc_DefaultInputModes c)))),
      (''defaultOutputModes'', Some (list_or_null (map_option (map AString) (cc_DefaultOutputModes c)))),
      (''description'', Some (AString (cc_Description c))), (''documentationUrl'', str_omit (cc_DocumentationURL c)),
      (''iconUrl'', str_omit (cc_IconURL c)), (''name'', Some (AString (cc_Name c))),
      (''provider'', map_option provider_json (cc_Provider c)),
      (''signatures'', list_omit (map signature_json (slice (cc_Signatures c)))), (''version'', Some (AString (cc_Version c))),
      (''skills'', Some (list_or_null (map_option (map compat_skill_json) (cc_Skills c)))),
      (''securitySchemes'', compat_schemes_omit (cc_SecuritySchemes c)),
      (''capabilities'', Some (capabilities_json (cc_Capabilities c))),
      (''supportsAuthenticatedExtendedCard'', bool_omit (cc_SupportsExtendedCard c)),
      (''supportedInterfaces'', Some (list_or_null (map_option (map interface_json) (cc_SupportedInterfaces c)))),
      (''securityRequirements'', requirements_omit (cc_SecurityRequirements c)),
      (''additionalInterfaces'', list_omit (map compat_interface_json (cc_AdditionalInterfaces c))),
      (''url'', Some (AString (cc_URL c))), (''protocolVersion'', Some (AString (cc_CardProtocolVersion c))),
      (''preferredTransport'', str_omit (cc_PreferredTransport c)),
      (''security'', list_omit (map plain_requirement_json (cc_Security c)))]"

definition compat_card_of_json :: "json_lib \<Rightarrow> any \<Rightarrow> agent_card_compat jdec" where
  "compat_card_of_json J = jstruct (\<lambda>m.
     jbind (jfield m ''defaultInputModes'' None (jsome jstrings)) (\<lambda>im.
     jbind (jfield m ''defaultOutputModes'' None (jsome jstrings)) (\<lambda>om.
     jbind (jfield m ''description'' '''' jstring) (\<lambda>d.
     jbind (jfield m ''documentationUrl'' '''' jstring) (\<lambda>doc.
     jbind (jfield m ''iconUrl'' '''' jstring) (\<lambda>icon.
     jbind (jfield m ''name'' '''' jstring) (\<lambda>name.
     jbind (jfield m ''provider'' None (jsome provider_of_json)) (\<lambda>prov.
     jbind (jfield m ''signatures'' None (jsome (jvalues zero_signature (signature_of_json J)))) (\<lambda>sigs.
     jbind (jfield m ''version'' '''' jstring) (\<lambda>v.
     jbind (jfield m ''skills'' None (jsome (jvalues zero_compat_skill compat_skill_of_json))) (\<lambda>skills.
     jbind (jcustom m ''securitySchemes'' None compat_schemes_of_json) (\<lambda>schemes.
     jbind (jfield m ''capabilities'' zero_capabilities (capabilities_of_json J)) (\<lambda>caps.
     jbind (jfield m ''supportsAuthenticatedExtendedCard'' False jbool) (\<lambda>extended.
     jbind (jfield m ''supportedInterfaces'' None (jsome (jpointers interface_of_json))) (\<lambda>ifaces.
     jbind (jcustom m ''securityRequirements'' [] requirements_of_json) (\<lambda>req.
     jbind (jfield m ''additionalInterfaces'' [] (jvalues \<lparr>cif_Transport = '''', cif_URL = ''''\<rparr> compat_interface_of_json)) (\<lambda>more.
     jbind (jfield m ''url'' '''' jstring) (\<lambda>u.
     jbind (jfield m ''protocolVersion'' '''' jstring) (\<lambda>pv.
     jbind (jfield m ''preferredTransport'' '''' jstring) (\<lambda>pt.
     jbind (jfield m ''security'' [] (jvalues fmempty plain_requirement_of_json)) (\<lambda>sec.
       jret \<lparr>cc_DefaultInputModes = im, cc_DefaultOutputModes = om, cc_Description = d, cc_DocumentationURL = doc,
         cc_IconURL = icon, cc_Name = name, cc_Provider = prov, cc_Signatures = sigs, cc_Version = v, cc_Skills = skills,
         cc_SecuritySchemes = schemes, cc_Capabilities = caps, cc_SupportsExtendedCard = extended,
         cc_SupportedInterfaces = ifaces, cc_SecurityRequirements = req, cc_AdditionalInterfaces = more, cc_URL = u,
         cc_CardProtocolVersion = pv, cc_PreferredTransport = pt, cc_Security = sec\<rparr>)))))))))))))))))))))"

definition zero_compat_card :: agent_card_compat where
  "zero_compat_card = \<lparr>cc_DefaultInputModes = None, cc_DefaultOutputModes = None, cc_Description = '''', cc_DocumentationURL = '''',
     cc_IconURL = '''', cc_Name = '''', cc_Provider = None, cc_Signatures = None, cc_Version = '''', cc_Skills = None,
     cc_SecuritySchemes = None, cc_Capabilities = zero_capabilities, cc_SupportsExtendedCard = False,
     cc_SupportedInterfaces = None, cc_SecurityRequirements = [], cc_AdditionalInterfaces = [], cc_URL = '''',
     cc_CardProtocolVersion = '''', cc_PreferredTransport = '''', cc_Security = []\<rparr>"

definition NewAgentCardParser :: "json_lib \<Rightarrow> any \<Rightarrow> agent_card jdec" where
  "NewAgentCardParser J doc =
     jbind (jelement zero_compat_card (compat_card_of_json J) doc) (\<lambda>c. jret (from_compat_card c))"

text \<open>The producer of the document, over the card that another producer gives.\<close>

definition CardJSON :: "go_error + agent_card \<Rightarrow> go_error + any" where
  "CardJSON produced = (case produced of Inl err \<Rightarrow> Inl err | Inr c \<Rightarrow> json_marshal (compat_card_json (toCompatCard c)))"

section \<open>Reading what was written\<close>

lemma jvalue_opt_json:
  assumes "\<And>x. enc x \<noteq> ANil" "\<And>x. dec (enc x) = jret x"
  shows "jvalue (Some (opt_json enc v)) None (jsome dec) = jret v"
  using assms by (cases v) (simp_all add: jvalue_def opt_json_def jsome_def)

lemma compat_scheme_backs:
  "compat_api_key_of_json (compat_api_key_json a) = jret a"
  "compat_http_auth_of_json (compat_http_auth_json h) = jret h"
  "compat_mutual_tls_of_json (compat_mutual_tls_json t) = jret t"
  "compat_openid_of_json (compat_openid_json oi) = jret oi"
proof -
  show "compat_api_key_of_json (compat_api_key_json a) = jret a"
    by (cases a) (simp add: compat_api_key_of_json_def compat_api_key_json_def card_eqs jvalue_opt_json scheme_backs)
  show "compat_http_auth_of_json (compat_http_auth_json h) = jret h"
    by (cases h) (simp add: compat_http_auth_of_json_def compat_http_auth_json_def card_eqs jvalue_opt_json scheme_backs)
  show "compat_mutual_tls_of_json (compat_mutual_tls_json t) = jret t"
    by (cases t) (simp add: compat_mutual_tls_of_json_def compat_mutual_tls_json_def card_eqs jvalue_opt_json scheme_backs)
  show "compat_openid_of_json (compat_openid_json oi) = jret oi"
    by (cases oi) (simp add: compat_openid_of_json_def compat_openid_json_def card_eqs jvalue_opt_json scheme_backs)
qed

lemma fcard_one: "fcard {|x|} = 1"
  by (simp add: fcard.rep_eq)

lemma only_flow_back: "only_flow (put_fields [flow_entry f]) = jret f"
  by (cases f) (simp_all add: only_flow_def put_fields.simps sorted_list_of_fset.rep_eq flow_of_entry_def zero_flow_def
      jelement_def flow_backs fcard_one)

lemma compat_oauth2_back:
  "compat_oauth2_UnmarshalJSON (compat_oauth2_MarshalJSON s) =
    (case coa_Flows s of FlowValue f \<Rightarrow> jret (s\<lparr>coa_Type := '''', coa_OAuth2 := None\<rparr>) | _ \<Rightarrow> None)"
proof (cases "coa_Flows s")
  case (FlowValue f)
  have "jvalue (Some (obj kvs)) fmempty (\<lambda>v. case v of AMap fs \<Rightarrow> jret fs | _ \<Rightarrow> None) = jret (put_fields kvs)" for kvs
    by (simp add: jvalue_def obj_def)
  then show ?thesis using FlowValue
    by (cases s) (simp add: compat_oauth2_UnmarshalJSON_def compat_oauth2_MarshalJSON_def card_eqs only_flow_back)
qed (simp_all add: compat_oauth2_UnmarshalJSON_def compat_oauth2_MarshalJSON_def)

lemma compat_kinds:
  "cak_Type a = ''apiKey'' \<Longrightarrow> compat_scheme_of_json (compat_api_key_json a) = jret (CompatAPIKey a)"
  "cha_Type h = ''http'' \<Longrightarrow> compat_scheme_of_json (compat_http_auth_json h) = jret (CompatHTTPAuth h)"
  "cmt_Type t = ''mutualTLS'' \<Longrightarrow> compat_scheme_of_json (compat_mutual_tls_json t) = jret (CompatMutualTLS t)"
  "coi_Type oi = ''openIdConnect'' \<Longrightarrow> compat_scheme_of_json (compat_openid_json oi) = jret (CompatOpenID oi)"
  "coa_Flows oa = FlowValue f \<Longrightarrow> compat_scheme_of_json (compat_oauth2_MarshalJSON oa) =
     jret (CompatOAuth2 (oa\<lparr>coa_Type := '''', coa_OAuth2 := None\<rparr>))"
proof -
  have "cak_Type a = ''apiKey'' \<Longrightarrow> compat_scheme_of_json (compat_api_key_json a) = typed_scheme ''apiKey'' (compat_api_key_json a)"
    by (simp add: compat_scheme_of_json_def compat_api_key_json_def card_eqs)
  then show "cak_Type a = ''apiKey'' \<Longrightarrow> compat_scheme_of_json (compat_api_key_json a) = jret (CompatAPIKey a)"
    by (simp add: typed_scheme_def compat_scheme_backs)
  have "cha_Type h = ''http'' \<Longrightarrow> compat_scheme_of_json (compat_http_auth_json h) = typed_scheme ''http'' (compat_http_auth_json h)"
    by (simp add: compat_scheme_of_json_def compat_http_auth_json_def card_eqs)
  then show "cha_Type h = ''http'' \<Longrightarrow> compat_scheme_of_json (compat_http_auth_json h) = jret (CompatHTTPAuth h)"
    by (simp add: typed_scheme_def compat_scheme_backs)
  have "cmt_Type t = ''mutualTLS'' \<Longrightarrow>
      compat_scheme_of_json (compat_mutual_tls_json t) = typed_scheme ''mutualTLS'' (compat_mutual_tls_json t)"
    by (simp add: compat_scheme_of_json_def compat_mutual_tls_json_def card_eqs)
  then show "cmt_Type t = ''mutualTLS'' \<Longrightarrow> compat_scheme_of_json (compat_mutual_tls_json t) = jret (CompatMutualTLS t)"
    by (simp add: typed_scheme_def compat_scheme_backs)
  have "coi_Type oi = ''openIdConnect'' \<Longrightarrow>
      compat_scheme_of_json (compat_openid_json oi) = typed_scheme ''openIdConnect'' (compat_openid_json oi)"
    by (simp add: compat_scheme_of_json_def compat_openid_json_def card_eqs)
  then show "coi_Type oi = ''openIdConnect'' \<Longrightarrow> compat_scheme_of_json (compat_openid_json oi) = jret (CompatOpenID oi)"
    by (simp add: typed_scheme_def compat_scheme_backs)
  have "coa_Flows oa = FlowValue f \<Longrightarrow>
      compat_scheme_of_json (compat_oauth2_MarshalJSON oa) = typed_scheme ''oauth2'' (compat_oauth2_MarshalJSON oa)"
    by (simp add: compat_scheme_of_json_def compat_oauth2_MarshalJSON_def card_eqs)
  then show "coa_Flows oa = FlowValue f \<Longrightarrow> compat_scheme_of_json (compat_oauth2_MarshalJSON oa) =
      jret (CompatOAuth2 (oa\<lparr>coa_Type := '''', coa_OAuth2 := None\<rparr>))"
    by (simp add: typed_scheme_def compat_oauth2_back)
qed

text \<open>A scheme of this version in the older form, and what is read of it.\<close>

lemma compat_entry_back:
  assumes "to_compat_scheme s = Some c" "json_encodable (compat_scheme_json c)"
  shows "\<exists>c'. compat_scheme_of_json (compat_scheme_json c) = jret c' \<and> from_compat_scheme c' = Some s"
proof (cases s)
  case (OAuth2 v)
  have "\<exists>f. coa_Flows x = FlowValue f" if "json_encodable (compat_oauth2_MarshalJSON x)" for x
    using that by (cases "coa_Flows x") (simp_all add: compat_oauth2_MarshalJSON_def)
  then obtain f where "oas_Flows v = FlowValue f"
    using assms OAuth2 by (fastforce simp: to_compat_scheme_def compat_scheme_json_def)
  then show ?thesis using assms OAuth2
    by (auto simp: to_compat_scheme_def compat_scheme_json_def compat_kinds(5) from_compat_scheme_def)
qed (use assms in \<open>auto simp: to_compat_scheme_def compat_scheme_json_def compat_kinds(1-4) from_compat_scheme_def\<close>)

lemma filter_lookup: "gm_lookup (filter_entries conv s) k = Option.bind (gm_lookup s k) conv"
  by (cases "gm_lookup s k") (auto simp: filter_entries_def Let_def gm_lookup_def split: option.splits)

text \<open>The schemes that the conversions know.\<close>

definition known_schemes :: "named_schemes \<Rightarrow> (string, security_scheme) fmap" where
  "known_schemes s = fmfilter (\<lambda>k. gm_lookup s k \<noteq> Some OtherScheme) (gm_fmap s)"

lemma to_compat_known: "to_compat_scheme s = None \<longleftrightarrow> s = OtherScheme"
  by (cases s) (simp_all add: to_compat_scheme_def)

lemma compat_schemes_back:
  assumes "encodable_map (fmmap compat_scheme_json (gm_fmap (mapToCompatSecuritySchemes s)))"
  shows "\<exists>s'. jentries compat_scheme_of_json (AMap (fmmap compat_scheme_json (gm_fmap (mapToCompatSecuritySchemes s)))) = jret s' \<and>
    mapFromCompatSecuritySchemes (Some s') = Some (known_schemes s)"
proof -
  let ?C = "gm_fmap (mapToCompatSecuritySchemes s)" and ?h = "\<lambda>c. snd (the (compat_scheme_of_json (compat_scheme_json c)))"
  have entry: "compat_scheme_of_json (compat_scheme_json c) = jret (?h c) \<and>
      (\<exists>x. gm_lookup s k = Some x \<and> x \<noteq> OtherScheme \<and> from_compat_scheme (?h c) = Some x)"
    if "fmlookup ?C k = Some c" for k c
  proof -
    have "gm_lookup (mapToCompatSecuritySchemes s) k = Some c" using that by simp
    then obtain x where x: "gm_lookup s k = Some x" "to_compat_scheme x = Some c"
      by (auto simp: mapToCompatSecuritySchemes_def filter_lookup bind_eq_Some_conv)
    moreover have "json_encodable (compat_scheme_json c)"
      using assms that by (auto simp: encodable_map_def fmpred_iff)
    ultimately show ?thesis using compat_entry_back[of x c] to_compat_known[of x] by (auto simp: jret_def)
  qed
  have "jentries compat_scheme_of_json (AMap (fmmap compat_scheme_json ?C)) = jret (fmmap ?h ?C)"
    by (rule jentries_back) (use entry in \<open>auto simp: fmran'_alt_def[symmetric] elim!: fmranE\<close>)
  moreover have "fmlookup (gm_fmap (mapFromCompatSecuritySchemes (Some (fmmap ?h ?C)))) k = fmlookup (known_schemes s) k" for k
  proof -
    have "gm_lookup (mapFromCompatSecuritySchemes (Some (fmmap ?h ?C))) k = Option.bind (map_option ?h (fmlookup ?C k)) from_compat_scheme"
      by (simp add: mapFromCompatSecuritySchemes_def filter_lookup)
    moreover have "fmlookup (known_schemes s) k = (if gm_lookup s k = Some OtherScheme then None else gm_lookup s k)"
      by (simp add: known_schemes_def)
    moreover have "fmlookup ?C k = Option.bind (gm_lookup s k) to_compat_scheme"
      using filter_lookup[of to_compat_scheme s k] by (simp add: mapToCompatSecuritySchemes_def)
    ultimately show ?thesis
      using entry[of k] to_compat_known by (cases "fmlookup ?C k"; cases "gm_lookup s k") (auto simp: to_compat_scheme_def)
  qed
  then have "gm_fmap (mapFromCompatSecuritySchemes (Some (fmmap ?h ?C))) = known_schemes s" by (rule fmap_ext)
  then have "mapFromCompatSecuritySchemes (Some (fmmap ?h ?C)) = Some (known_schemes s)"
    by (auto simp: mapFromCompatSecuritySchemes_def filter_entries_def Let_def)
  ultimately show ?thesis by blast
qed

lemma plain_requirement_back: "plain_requirement_of_json (plain_requirement_json r) = jret r"
  using jentries_back[of r "jelement [] jstrings" "\<lambda>ss. AArr (map AString ss)" "\<lambda>x. x"]
  by (simp add: plain_requirement_of_json_def plain_requirement_json_def jelement_def fmap.map_ident del: jstrings.simps)

lemma plain_requirements_back [simp]:
  "jvalue (list_omit (map plain_requirement_json rs)) [] (jvalues fmempty plain_requirement_of_json) = jret rs"
  using values_omit[of plain_requirement_json plain_requirement_of_json "\<lambda>x. x" rs fmempty] plain_requirement_back
  by (simp add: plain_requirement_json_def)

lemma compat_interfaces_back [simp]:
  "jvalue (list_omit (map compat_interface_json is)) [] (jvalues z compat_interface_of_json) = jret is"
proof -
  have "compat_interface_json i \<noteq> ANil \<and> compat_interface_of_json (compat_interface_json i) = jret i" for i
    by (cases i) (simp add: compat_interface_json_def compat_interface_of_json_def card_eqs)
  then show ?thesis using values_omit[of compat_interface_json compat_interface_of_json "\<lambda>x. x" "is" z] by simp
qed

lemma compat_skill_back: "compat_skill_json s \<noteq> ANil \<and> compat_skill_of_json (compat_skill_json s) = jret s"
  by (cases s; cases "csk_AgentSkill s")
    (simp add: compat_skill_of_json_def compat_skill_json_def read_skill_def skill_fields_def card_eqs)

text \<open>The card of both versions as it is read back, with schemes that were read on their own.\<close>

definition wire_compat :: "json_lib \<Rightarrow> compat_scheme gomap \<Rightarrow> agent_card_compat \<Rightarrow> agent_card_compat" where
  "wire_compat J schemes c = c\<lparr>cc_SecuritySchemes := schemes, cc_Capabilities := wire_capabilities J (cc_Capabilities c),
     cc_Signatures := (if slice (cc_Signatures c) = [] then None else Some (map (wire_signature J) (slice (cc_Signatures c))))\<rparr>"

lemma compat_card_read:
  assumes "(case compat_schemes_omit (cc_SecuritySchemes c) of None \<Rightarrow> jret None | Some v \<Rightarrow> compat_schemes_of_json v) = jret schemes"
  shows "compat_card_of_json J (compat_card_json c) = jret (wire_compat J schemes c)"
  using assms pointers_or_null[of interface_json interface_of_json "\<lambda>x. x"] jvalue_optional[of provider_json provider_of_json "\<lambda>x. x", OF card_part_not_nil(4) provider_json_back]
    values_omit_some[of signature_json "signature_of_json J" "wire_signature J" _ zero_signature]
    values_or_null[of compat_skill_json compat_skill_of_json "\<lambda>x. x" _ zero_compat_skill]
  by (cases c) (simp add: compat_card_of_json_def compat_card_json_def card_eqs interface_back provider_json_back signature_back
      compat_skill_back jvalue_capabilities wire_compat_def option.map_ident)

lemma compat_schemes_read:
  assumes "pred_option json_encodable (compat_schemes_omit (mapToCompatSecuritySchemes s))"
  shows "\<exists>schemes. (case compat_schemes_omit (mapToCompatSecuritySchemes s) of None \<Rightarrow> jret None | Some v \<Rightarrow> compat_schemes_of_json v) = jret schemes \<and>
    mapFromCompatSecuritySchemes schemes = Some (known_schemes s)"
proof (cases "gm_len (mapToCompatSecuritySchemes s) = 0")
  case True
  then have none: "gm_lookup (mapToCompatSecuritySchemes s) k = None" for k
    using gm_len_keys[of "mapToCompatSecuritySchemes s"] by (cases "mapToCompatSecuritySchemes s") (auto simp: gm_keys_def)
  have "fmlookup (known_schemes s) k = None" for k
    using none[of k] to_compat_known by (cases "gm_lookup s k") (auto simp: mapToCompatSecuritySchemes_def filter_lookup known_schemes_def)
  then have "known_schemes s = fmempty" by (intro fmap_ext) simp
  moreover have "mapFromCompatSecuritySchemes None = Some fmempty"
    by (simp add: mapFromCompatSecuritySchemes_def filter_entries_def Let_def)
  ultimately show ?thesis using True by (simp add: compat_schemes_omit_def)
next
  case False
  then have "encodable_map (fmmap compat_scheme_json (gm_fmap (mapToCompatSecuritySchemes s)))"
    using assms by (simp add: compat_schemes_omit_def)
  from compat_schemes_back[OF this] show ?thesis
    using False by (auto simp: compat_schemes_omit_def compat_schemes_of_json_def simp del: jentries.simps)
qed

text \<open>What a client of this version reads: the card, without values that are no scheme, and nothing nil.\<close>

definition parsed_card :: "json_lib \<Rightarrow> agent_card \<Rightarrow> agent_card" where
  "parsed_card J c = (wire_card J c)\<lparr>card_SupportedInterfaces := Some (slice (card_SupportedInterfaces c)),
     card_SecuritySchemes := Some (known_schemes (card_SecuritySchemes c)), card_Skills := Some (slice (card_Skills c))\<rparr>"

lemma compat_fields: "cc_SecuritySchemes (toCompatCard c) = mapToCompatSecuritySchemes (card_SecuritySchemes c)"
  by (simp add: toCompatCard_def Let_def split: option.splits)

lemma compat_skills_back: "mapFromCompatSkills (mapToCompatSkills ss) = ss"
  by (simp add: mapFromCompatSkills_def mapToCompatSkills_def mapToCompatSecurity_def Let_def comp_def) (rule map_idI, simp)

lemma no_interfaces:
  assumes "slice (card_SupportedInterfaces c) = []"
  shows "mapToCompatInterfaces c = None"
  using assms by (simp add: mapToCompatInterfaces_def)

lemma interfaces_of_both:
  "mapFromCompatInterfaces (wire_compat J schemes (toCompatCard c)) = slice (card_SupportedInterfaces c)"
proof (cases "slice (card_SupportedInterfaces c) = []")
  case True
  then show ?thesis
    by (simp add: toCompatCard_def no_interfaces wire_compat_def mapFromCompatInterfaces_def Let_def)
next
  case False
  then show ?thesis
    by (simp add: toCompatCard_def wire_compat_def mapFromCompatInterfaces_def Let_def split: option.splits)
qed

lemma from_to_compat:
  assumes "mapFromCompatSecuritySchemes schemes = Some (known_schemes (card_SecuritySchemes c))"
  shows "from_compat_card (wire_compat J schemes (toCompatCard c)) = parsed_card J c"
  unfolding from_compat_card_def interfaces_of_both
  using assms by (cases c) (simp add: toCompatCard_def parsed_card_def wire_card_def wire_compat_def wire_capabilities_def
      mapFromCompatSecurity_def mapToCompatSecurity_def compat_skills_back Let_def split: option.splits)

lemma compat_card_back:
  assumes "json_encodable (compat_card_json (toCompatCard c))"
  shows "NewAgentCardParser J (compat_card_json (toCompatCard c)) = jret (parsed_card J c)"
proof -
  have "pred_option json_encodable (compat_schemes_omit (mapToCompatSecuritySchemes (card_SecuritySchemes c)))"
    using assms unfolding compat_card_json_def by (simp add: compat_fields)
  from compat_schemes_read[OF this] obtain schemes where schemes:
    "(case compat_schemes_omit (cc_SecuritySchemes (toCompatCard c)) of None \<Rightarrow> jret None | Some v \<Rightarrow> compat_schemes_of_json v) = jret schemes"
    "mapFromCompatSecuritySchemes schemes = Some (known_schemes (card_SecuritySchemes c))"
    unfolding compat_fields by blast
  have "compat_card_json (toCompatCard c) \<noteq> ANil" by (simp add: compat_card_json_def)
  then show ?thesis
    by (simp add: NewAgentCardParser_def jelement_def compat_card_read[OF schemes(1)] from_to_compat[OF schemes(2)])
qed

section \<open>The card of both versions and clients of this version\<close>

text \<open>The default parser finds none of the members it looks for in a scheme of the older form.\<close>

lemma compat_entry_new:
  assumes "to_compat_scheme s = Some c" "json_encodable (compat_scheme_json c)"
  shows "jelement empty_scheme scheme_wrapper_of_json (compat_scheme_json c) = jret empty_scheme"
proof (cases s)
  case (OAuth2 v)
  then show ?thesis using assms
    by (cases "oas_Flows v") (auto simp: to_compat_scheme_def compat_scheme_json_def compat_oauth2_MarshalJSON_def jelement_def
        scheme_wrapper_of_json_def card_eqs empty_scheme_def)
qed (use assms in \<open>auto simp: to_compat_scheme_def compat_scheme_json_def compat_api_key_json_def compat_http_auth_json_def
    compat_mutual_tls_json_def compat_openid_json_def jelement_def scheme_wrapper_of_json_def card_eqs empty_scheme_def\<close>)

lemma compat_schemes_new:
  assumes "pred_option json_encodable (compat_schemes_omit (mapToCompatSecuritySchemes s))"
  shows "(case compat_schemes_omit (mapToCompatSecuritySchemes s) of None \<Rightarrow> jret None | Some v \<Rightarrow> named_schemes_of_json v) =
    (if known_schemes s = fmempty then jret None else None)"
proof -
  let ?C = "gm_fmap (mapToCompatSecuritySchemes s)"
  have dom: "fmlookup (known_schemes s) k = None \<longleftrightarrow> fmlookup ?C k = None" for k
    using to_compat_known by (cases "gm_lookup s k") (auto simp: mapToCompatSecuritySchemes_def filter_lookup known_schemes_def)
  have empty: "known_schemes s = fmempty \<longleftrightarrow> ?C = fmempty"
  proof
    assume "known_schemes s = fmempty"
    then show "?C = fmempty" using dom by (intro fmap_ext) simp
  next
    assume "?C = fmempty"
    then show "known_schemes s = fmempty" using dom by (intro fmap_ext) simp
  qed
  show ?thesis
  proof (cases "?C = fmempty")
    case True
    then show ?thesis using empty by (simp add: compat_schemes_omit_def gm_len_def gm_keys_def)
  next
    case False
    then have len: "gm_len (mapToCompatSecuritySchemes s) \<noteq> 0"
      using gm_len_keys[of "mapToCompatSecuritySchemes s"] by (simp add: gm_keys_def)
    have enc: "json_encodable (compat_scheme_json c) \<and> (\<exists>x. to_compat_scheme x = Some c)" if "fmlookup ?C k = Some c" for k c
      using that assms len by (auto simp: compat_schemes_omit_def encodable_map_def fmpred_iff mapToCompatSecuritySchemes_def
          filter_lookup bind_eq_Some_conv)
    have "jentries (jelement empty_scheme scheme_wrapper_of_json) (AMap (fmmap compat_scheme_json ?C)) =
        jret (fmmap (\<lambda>c. empty_scheme) ?C)"
    proof (rule jentries_back)
      fix c assume "c |\<in>| fmran ?C"
      then obtain k where "fmlookup ?C k = Some c" by (rule fmranE)
      then show "jelement empty_scheme scheme_wrapper_of_json (compat_scheme_json c) = jret empty_scheme"
        using enc compat_entry_new by blast
    qed
    moreover have "isl (unwrap_scheme empty_scheme)" by (simp add: unwrap_scheme_def empty_scheme_def)
    then have "NamedSecuritySchemes_UnmarshalJSON (fmmap (\<lambda>c. empty_scheme) ?C) = Inl (Errorf ''an entry cannot be converted'' [])"
      using False fmdom_empty_iff[of ?C] by (auto simp: NamedSecuritySchemes_UnmarshalJSON_def fmap_all_def fmpred_iff
          simp del: fmdom_empty_iff fmlookup_gm_fmap intro!: fmap_ext)
    ultimately show ?thesis
      using len False empty by (simp add: compat_schemes_omit_def named_schemes_of_json_def del: jentries.simps)
  qed
qed

lemma compat_skill_new: "compat_skill_json s \<noteq> ANil \<and> skill_of_json (compat_skill_json s) = jret (csk_AgentSkill s)"
  by (cases s; cases "csk_AgentSkill s")
    (simp add: skill_of_json_def compat_skill_json_def read_skill_def skill_fields_def card_eqs)

definition simple_card :: "json_lib \<Rightarrow> agent_card \<Rightarrow> agent_card" where
  "simple_card J c = (wire_card J c)\<lparr>card_SecuritySchemes := None, card_Skills := Some (slice (card_Skills c))\<rparr>"

lemma compat_card_fields:
  "cc_DefaultInputModes (toCompatCard c) = card_DefaultInputModes c"
  "cc_DefaultOutputModes (toCompatCard c) = card_DefaultOutputModes c"
  "cc_Description (toCompatCard c) = card_Description c"
  "cc_DocumentationURL (toCompatCard c) = card_DocumentationURL c"
  "cc_IconURL (toCompatCard c) = card_IconURL c"
  "cc_Name (toCompatCard c) = card_Name c"
  "cc_Provider (toCompatCard c) = card_Provider c"
  "cc_Signatures (toCompatCard c) = card_Signatures c"
  "cc_Version (toCompatCard c) = card_Version c"
  "cc_Skills (toCompatCard c) = Some (mapToCompatSkills (slice (card_Skills c)))"
  "cc_Capabilities (toCompatCard c) = card_Capabilities c"
  "cc_SupportedInterfaces (toCompatCard c) = card_SupportedInterfaces c"
  "cc_SecurityRequirements (toCompatCard c) = card_SecurityRequirements c"
  by (simp_all add: toCompatCard_def Let_def split: option.splits)

lemma union_card_read:
  assumes "json_encodable (compat_card_json (toCompatCard c))"
  shows "DefaultCardParser J (compat_card_json (toCompatCard c)) =
    (if known_schemes (card_SecuritySchemes c) = fmempty then jret (simple_card J c) else None)"
proof -
  have schemes: "pred_option json_encodable (compat_schemes_omit (mapToCompatSecuritySchemes (card_SecuritySchemes c)))"
    using assms unfolding compat_card_json_def by (simp add: compat_fields)
  have skills: "jvalue (Some (list_or_null (Some (map compat_skill_json (mapToCompatSkills ss))))) None (jsome (jvalues zero_skill skill_of_json)) =
      jret (Some ss)" for ss
    using values_or_null[of compat_skill_json skill_of_json csk_AgentSkill "Some (mapToCompatSkills ss)" zero_skill] compat_skill_new
    by (simp add: mapToCompatSkills_def comp_def)
  have "compat_card_json (toCompatCard c) \<noteq> ANil" by (simp add: compat_card_json_def)
  moreover have "agent_card_of_json J (compat_card_json (toCompatCard c)) =
      (if known_schemes (card_SecuritySchemes c) = fmempty then jret (simple_card J c) else None)"
    using pointers_or_null[of interface_json interface_of_json "\<lambda>x. x"]
      jvalue_optional[of provider_json provider_of_json "\<lambda>x. x", OF card_part_not_nil(4) provider_json_back]
      values_omit_some[of signature_json "signature_of_json J" "wire_signature J" _ zero_signature]
    by (simp add: agent_card_of_json_def compat_card_json_def card_eqs compat_card_fields compat_fields interface_back
        signature_back skills jvalue_capabilities compat_schemes_new[OF schemes] option.map_ident)
      (cases c, simp add: simple_card_def wire_card_def)
  ultimately show ?thesis by (simp add: DefaultCardParser_def jelement_def)
qed

text \<open>
  C30: The document served for clients of both versions. The parser of the compatibility package reads
  the card from it, less values that are no security scheme. The default parser of this version reads
  it only if it has no security scheme: any scheme makes it fail, as the older form has none of the
  members it looks for.
\<close>

theorem card_for_both_versions:
  assumes "CardJSON (Inr c) = Inr doc"
  shows "NewAgentCardParser J doc = jret (parsed_card J c) \<and>
    DefaultCardParser J doc = (if known_schemes (card_SecuritySchemes c) = fmempty then jret (simple_card J c) else None)"
proof -
  have "json_encodable (compat_card_json (toCompatCard c))" "doc = compat_card_json (toCompatCard c)"
    using assms by (auto simp: CardJSON_def json_marshal_def split: if_splits)
  then show ?thesis using compat_card_back union_card_read by simp
qed

section \<open>A concrete card\<close>

definition keyed_compat :: compat_scheme where
  "keyed_compat = CompatAPIKey \<lparr>cak_Type = ''apiKey'', cak_Description = '''', cak_In = ''header'', cak_Name = ''k'',
     cak_ApiKey = Some \<lparr>aks_Description = '''', aks_Location = ''header'', aks_Name = ''k''\<rparr>\<rparr>"

lemma keyed_schemes: "mapToCompatSecuritySchemes (card_SecuritySchemes keyed_card) = Some (fmupd ''key'' keyed_compat fmempty)"
  by (auto simp: mapToCompatSecuritySchemes_def filter_entries_def Let_def keyed_card_def to_compat_scheme_def keyed_compat_def
      intro!: fmap_ext)

lemma keyed_known: "known_schemes (card_SecuritySchemes keyed_card) = gm_fmap (card_SecuritySchemes keyed_card)"
  by (rule fmap_ext) (simp add: known_schemes_def keyed_card_def)

lemma card_for_both_versions_witness:
  "\<exists>doc. CardJSON (Inr keyed_card) = Inr doc \<and> DefaultCardParser unary_ms doc = None \<and>
    NewAgentCardParser unary_ms doc = jret (keyed_card\<lparr>card_Signatures := None, card_Skills := Some []\<rparr>)"
proof -
  let ?doc = "compat_card_json (toCompatCard keyed_card)"
  have "json_encodable (compat_scheme_json keyed_compat)"
    by (simp add: keyed_compat_def compat_scheme_json_def compat_api_key_json_def opt_json_def api_key_json_def str_omit_def)
  then have "pred_option json_encodable (compat_schemes_omit (mapToCompatSecuritySchemes (card_SecuritySchemes keyed_card)))"
    by (auto simp: keyed_schemes compat_schemes_omit_def encodable_map_def fmpred_iff split: if_splits)
  moreover have "json_encodable (plain_requirement_json (fmupd ''key'' [] fmempty))"
    by (auto simp: plain_requirement_json_def encodable_map_def fmpred_iff split: if_splits)
  ultimately have "json_encodable ?doc"
    by (simp add: compat_card_json_def toCompatCard_def compat_fields[unfolded toCompatCard_def] mapToCompatInterfaces_def
        v0_Version_def keyed_card_def zero_card_def zero_capabilities_def list_or_null_def interface_json_def str_omit_def
        capabilities_json_def list_omit_def bool_omit_def NewAgentInterface_def mapToCompatSkills_def mapToCompatSecurity_def
        go_consts Let_def)
  then have served: "CardJSON (Inr keyed_card) = Inr ?doc" by (simp add: CardJSON_def json_marshal_def)
  have "gm_fmap (card_SecuritySchemes keyed_card) \<noteq> fmempty" by (simp add: keyed_card_def)
  moreover have "parsed_card unary_ms keyed_card = keyed_card\<lparr>card_Signatures := None, card_Skills := Some []\<rparr>"
    unfolding parsed_card_def keyed_wire keyed_known by (simp add: keyed_card_def zero_card_def)
  ultimately show ?thesis
    using card_for_both_versions[OF served, of unary_ms] served unfolding keyed_known by auto
qed

end
