(* ===== verification/Spec2Isabelle.thy ===== *)
theory Spec2Isabelle
  imports Prelude GoErrors Core GoJson ErrorCodecs AgentCards Interceptors DeepCopies TaskEvents TaskDiff
    TaskStoreApi MetaValidator PageToken InMemoryStore UpdateManager Limiter LocalManager EventPipe
    EventQueue Execution PushStore PushSender AgentExec WorkQueue Distributed Handler ProtoTasks
    ProtoRequests ProtoCards GrpcTransport PathTemplate Sse CoreJson RequestJson RestRoutes RestTransport
    JsonRpcTransport ClientCalls ClientAuth ClientFactory ClientServer ClientExtensions CardJson
    LegacyConversions LegacyCards
begin

text \<open>
  A verification library for \<open>a2a-go\<close>, the Go implementation of the agent-to-agent protocol. The
  paths below are relative to the repository.

  \<^bold>\<open>The program.\<close> A server receives requests over one of three transports, authenticates them and
  hands them to the request handler (\<open>a2asrv/handler.go\<close>). Sending a message starts an execution
  of an agent: the agent writes events into a pipe, a processing loop reads them, the update
  manager integrates each event into the stored task, and the processed events, with the version of
  the task they led to, go through an event queue to the subscribers of the task. In a single
  process this is organised by the local execution manager; in a cluster the front end puts work on
  a queue, a back end runs it, and events come back over a shared event queue. Push notifications
  are sent for the processed events. The same events can be recomputed from two snapshots of a task
  where a subscriber has only those.

  \<^bold>\<open>Theories and sources.\<close>
  \<^item> \<open>Prelude\<close>: lists, maps and nil-able maps, \<open>slices\<close> and \<open>maps\<close> helpers of Go, and the
    rewrite collections.
  \<^item> \<open>GoErrors\<close>: dynamic values, errors with \<open>errors.Is\<close> (\<open>a2a/errors.go\<close>,
    \<open>errordetails\<close>), contexts (\<open>a2asrv/middleware.go\<close>, \<open>auth.go\<close>, \<open>limiter\<close>).
  \<^item> \<open>Core\<close>: the data model (\<open>a2a/core.go\<close>, \<open>a2a/push.go\<close>). \<open>DeepCopies\<close>:
    \<open>utils.DeepCopy\<close>.
  \<^item> \<open>TaskEvents\<close>: \<open>a2aevent/event.go\<close>, applying an event to a task. \<open>TaskDiff\<close>:
    \<open>a2aevent/diff.go\<close>, the events between two tasks.
  \<^item> \<open>TaskStoreApi\<close>: the interface of the task store with its contract, the locale
    \<open>task_store\<close>, and the materializers. \<open>MetaValidator\<close>, \<open>PageToken\<close>,
    \<open>InMemoryStore\<close>: \<open>a2asrv/taskstore\<close>. The in-memory store is the interpretation of the
    contract.
  \<^item> \<open>UpdateManager\<close>: \<open>internal/taskupdate/manager.go\<close>, with other writers of the store acting
    between any two of its calls.
  \<^item> \<open>Limiter\<close>, \<open>LocalManager\<close>: \<open>internal/taskexec/limiter.go\<close>, \<open>local_manager.go\<close>,
    \<open>promise.go\<close>; the goroutines are a step relation.
  \<^item> \<open>EventPipe\<close>, \<open>EventQueue\<close>: \<open>internal/eventpipe\<close>, \<open>a2asrv/eventqueue\<close>; the channels
    and the broker's goroutine are step relations.
  \<^item> \<open>Execution\<close>: \<open>internal/taskexec/execution_handler.go\<close>, \<open>subscription.go\<close>.
    \<open>AgentExec\<close>: \<open>a2asrv/agentexec.go\<close>, \<open>exectx.go\<close>.
  \<^item> \<open>PushStore\<close>, \<open>PushSender\<close>: \<open>a2asrv/push\<close>; the locale \<open>push_store\<close> is the contract of
    the store.
  \<^item> \<open>WorkQueue\<close>: \<open>a2asrv/workqueue\<close>, with the locale \<open>lease_manager\<close>. \<open>Distributed\<close>:
    \<open>internal/taskexec/distributed_manager.go\<close>, \<open>work_queue_handler.go\<close>, with the locale
    \<open>queue_manager_ops\<close>.
  \<^item> \<open>Handler\<close>: \<open>a2asrv/handler.go\<close>. \<open>Interceptors\<close>: what is put around it
    (\<open>intercepted_handler.go\<close>, \<open>svcparams.go\<close>, \<open>extensions.go\<close>, \<open>ctxcodec.go\<close>,
    \<open>agentcard_enforcer.go\<close>). \<open>AgentCards\<close>: \<open>a2a/agent.go\<close>, \<open>a2a/auth.go\<close>.
  \<^item> \<open>GoJson\<close>: JSON values and their normal form. \<open>ErrorCodecs\<close>: errors in each of the three
    transports (\<open>internal/jsonrpc\<close>, \<open>internal/rest\<close>, \<open>internal/grpcutil\<close>).
  \<^item> \<open>ProtoTasks\<close>, \<open>ProtoRequests\<close>, \<open>ProtoCards\<close>: \<open>a2apb/v1/pbconv\<close>, both directions, with
    the generated structs as records. \<open>GrpcTransport\<close>: \<open>a2agrpc/v1\<close>, server and client.
  \<^item> \<open>CoreJson\<close>, \<open>RequestJson\<close>: the JSON form of \<open>a2a/core.go\<close> and \<open>a2a/push.go\<close> as
    syntax trees. \<open>Sse\<close>: \<open>internal/sse\<close>. \<open>PathTemplate\<close>: \<open>internal/pathtemplate\<close>.
  \<^item> \<open>RestRoutes\<close>, \<open>RestTransport\<close>: \<open>a2asrv/rest.go\<close>, \<open>internal/rest\<close>,
    \<open>a2aclient/rest.go\<close>; the server is a function from requests to replies, the client is run
    against it. \<open>JsonRpcTransport\<close>: \<open>a2asrv/jsonrpc.go\<close>, \<open>internal/jsonrpc\<close>,
    \<open>a2aclient/jsonrpc.go\<close>, in the same way.
  \<^item> \<open>ClientCalls\<close>: the methods of a client with the interceptors around them
    (\<open>a2aclient/client.go\<close>, \<open>middleware.go\<close>, \<open>queryparams.go\<close>). \<open>ClientAuth\<close>:
    \<open>a2aclient/auth.go\<close>. \<open>ClientFactory\<close>: \<open>a2aclient/factory.go\<close>, \<open>transport.go\<close>, and the
    two transports above as transports of a client. \<open>ClientServer\<close>: a client against a server.
    \<open>ClientExtensions\<close>: \<open>a2aext\<close>.
  \<^item> \<open>CardJson\<close>: the JSON form of the card, over the marshalers in \<open>AgentCards\<close>.
    \<open>LegacyConversions\<close>: \<open>a2acompat/a2av0/conversions.go\<close>, to and from version 0.3 of the
    protocol. \<open>LegacyCards\<close>: \<open>a2acompat/a2av0/agentcard.go\<close>, the card for clients of both
    versions.

  \<^bold>\<open>Correspondence.\<close> A definition has the name of the Go function or type it models (with the
  receiver or a prefix in front where names clash); record fields have the names of the struct's
  fields behind a short prefix. A pointer that the code tests for nil is an option, a pair of a
  result and an error is a sum, and a map from strings is a finite map. Errors keep what
  \<open>errors.Is\<close> sees: their chain, not their texts' arguments. A mutex makes the code it guards one
  step. Where goroutines interleave, each step of an inductive relation is one critical section or
  one channel operation, and properties are invariants of the reachable states. Slices of pointers
  have no nil elements, except where a definition says so.

  \<^bold>\<open>What the lemmas show.\<close> The stores: no update is lost, listings are exact and pages complete,
  other users' tasks are invisible. The update manager: its view stays in step with the store, a
  terminal task stays as it is, a cancelation wins against concurrent writers. The managers: one
  execution per task, none while it is being canceled, quotas exact, everything released at the
  end. Events: every subscriber sees each event once and in order, after the snapshot it got.
  Diffs: applying the recovered events gives the second task. Cluster mode: one lease holder per
  task, payload and admission checks agree with the local mode. The handler: what each method
  answers, and to whom. The transports: what the handler sees when a client calls it over gRPC,
  REST or JSON-RPC, and what the client gets of its answer, streams and errors included; for the values the
  encodings change, exactly how they change them, and for those they lose, which they are. The client: which endpoint
  a client is made for, that the credential of a session, the protocol version and the tenant of a
  call reach the server, and which extensions are passed on from one agent to the next. Version 0.3:
  which events come back from it unchanged, what becomes of a request, and which clients can read the
  card made for both versions.

  \<^bold>\<open>Bounds.\<close> The only bounded loops are the code's own: ten attempts of a cancelation
  (\<open>maxCancelationAttempts\<close>), ten redirects (\<open>maxPushRedirects\<close>), fifty push
  configurations per task (\<open>maxPushConfigsPerTask\<close>); no fuel is used. Versions are int64 with their wrap-around
  (\<open>int64_succ\<close>), integers of protobuf messages int32. Durations of the polling backoff are
  exact below \<open>2^53\<close> nanoseconds. A line of an event stream is shorter than \<open>MaxSSETokenSize\<close>.

  \<^bold>\<open>Parameters.\<close> Random identifiers, the clock, the text form of times, URL parsing, the agent, and
  sending over HTTP are arguments of the definitions that use them. So are the packages of protobuf
  (\<open>structpb\<close>, \<open>timestamppb\<close>: the record \<open>pb_lib\<close>), the status package of gRPC, what
  \<open>encoding/json\<close> does with numbers, times and unknown values (\<open>json_lib\<close>), and what the REST
  transport takes from \<open>mime\<close> and from rendering JSON (\<open>rest_env\<close>), for JSON-RPC also the order in
  which a map of error codes is visited and which kind of error a decoder reports (\<open>jsonrpc_env\<close>),
  the comparison of semantic versions (\<open>semver_lib\<close>), and the texts of the constants of the older
  module (\<open>legacy_consts\<close>). The order of a range loop over a map is an
  argument where it can matter. Their hypotheses are the predicates named \<open>pb_ok\<close>, \<open>json_lib_ok\<close>,
  \<open>rest_env_ok\<close>, \<open>rpc_env_ok\<close>, \<open>semver_ok\<close>, \<open>legacy_ok\<close> and \<open>lists_map\<close>; each holds for an instance given
  with the witnesses.

  \<^bold>\<open>Not modelled.\<close> Logging; the texts of errors; the
  transports and the protobuf conversions of version 0.3, whose own JSON is in a module outside the
  repository; card signatures (cryptography) and the serving of cards; the command-line tools, examples and
  tests; timers (the inactivity tracker and heartbeats appear only as the errors they cause).
\<close>

end
